(* ===== verification/Prelude.thy ===== *)
theory Prelude
  imports Main "HOL-Library.Char_ord" "HOL-Library.List_Lexorder"
begin

text \<open>
  Shared vocabulary of the development.

  \<^item> Errors as values: an operation that may raise returns \<open>'e + 'a\<close>, with \<open>Inl\<close> for the
    exception; \<open>ebind\<close> sequences two such operations and \<open>emapM\<close> is a loop that stops at the
    first exception.
  \<^item> Python's \<open>str\<close> is a \<open>string\<close> whose characters are the code points 0 to 255 (Latin-1), so
    \<open>length\<close> counts code points as Python does. On this range Unicode NFC normalisation is the
    identity, \<open>\d\<close> matches the ASCII digits only, and \<open>str.strip\<close> removes the ten code points
    of \<open>py_space\<close>.
  \<^item> Python's \<open>re.match(r"^X$", s)\<close> accepts a string of X or one followed by a single line
    feed, because \<open>$\<close> also matches before a final line feed: \<open>re_dollar\<close>.
\<close>

named_theorems result_simps "inversion of computations that may raise"
named_theorems str_simps "executable string predicates"

section \<open>Computations that may raise\<close>

definition ebind :: "'e + 'a \<Rightarrow> ('a \<Rightarrow> 'e + 'b) \<Rightarrow> 'e + 'b" where
  "ebind m f = (case m of Inl e \<Rightarrow> Inl e | Inr a \<Rightarrow> f a)"

lemma ebind_simps [simp]:
  "ebind (Inl e) f = Inl e"
  "ebind (Inr a) f = f a"
  by (simp_all add: ebind_def)

lemma ebind_eq_Inr [result_simps]:
  "ebind m f = Inr b \<longleftrightarrow> (\<exists>a. m = Inr a \<and> f a = Inr b)"
  by (simp add: ebind_def split: sum.splits)

lemma ebind_eq_Inl [result_simps]:
  "ebind m f = Inl e \<longleftrightarrow> m = Inl e \<or> (\<exists>a. m = Inr a \<and> f a = Inl e)"
  by (auto simp: ebind_def split: sum.splits)

lemma if_Inl_eq_Inr [result_simps]:
  "(if c then Inl e else m) = Inr b \<longleftrightarrow> \<not> c \<and> m = Inr b"
  by simp

lemma ebind_cong [fundef_cong]:
  "m = m' \<Longrightarrow> (\<And>a. m' = Inr a \<Longrightarrow> f a = g a) \<Longrightarrow> ebind m f = ebind m' g"
  by (simp add: ebind_def split: sum.splits)

fun emapM :: "('a \<Rightarrow> 'e + 'b) \<Rightarrow> 'a list \<Rightarrow> 'e + 'b list" where
  "emapM f [] = Inr []"
| "emapM f (x # xs) = ebind (f x) (\<lambda>y. ebind (emapM f xs) (\<lambda>ys. Inr (y # ys)))"

lemma emapM_Inr_iff: "emapM f xs = Inr ys \<longleftrightarrow> list_all2 (\<lambda>x y. f x = Inr y) xs ys"
  by (induction xs arbitrary: ys) (auto simp: result_simps list_all2_Cons1)

definition is_ok :: "'e + 'a \<Rightarrow> bool" where
  "is_ok r = (case r of Inl _ \<Rightarrow> False | Inr _ \<Rightarrow> True)"

lemma is_ok_iff: "is_ok r \<longleftrightarrow> (\<exists>a. r = Inr a)"
  by (simp add: is_ok_def split: sum.splits)

section \<open>Characters and strings\<close>

abbreviation nl :: char where "nl \<equiv> CHR 0x0A"
abbreviation bslash :: char where "bslash \<equiv> CHR 0x5C"
abbreviation dquote :: char where "dquote \<equiv> CHR 0x22"
abbreviation squote :: char where "squote \<equiv> CHR 0x27"

text \<open>\<open>ord\<close> of a character.\<close>
definition ord :: "char \<Rightarrow> nat" where
  "ord c = of_char c"

definition between :: "char \<Rightarrow> char \<Rightarrow> char \<Rightarrow> bool" where
  "between lo hi c = (ord lo \<le> ord c \<and> ord c \<le> ord hi)"

definition is_digit :: "char \<Rightarrow> bool" where
  "is_digit c = between CHR ''0'' CHR ''9'' c"

definition is_lower_hex :: "char \<Rightarrow> bool" where
  "is_lower_hex c = (is_digit c \<or> between CHR ''a'' CHR ''f'' c)"

definition is_ascii_letter :: "char \<Rightarrow> bool" where
  "is_ascii_letter c = (between CHR ''A'' CHR ''Z'' c \<or> between CHR ''a'' CHR ''z'' c)"

text \<open>\<open>str.isspace\<close> and the set that \<open>str.strip\<close> removes, on the code points 0 to 255.\<close>
definition py_space :: "char \<Rightarrow> bool" where
  "py_space c = (let n = ord c in 9 \<le> n \<and> n \<le> 13 \<or> 28 \<le> n \<and> n \<le> 32 \<or> n = 133 \<or> n = 160)"

text \<open>\<open>str.isalpha\<close> of a one-character string, on the code points 0 to 255.\<close>
definition py_isalpha :: "char \<Rightarrow> bool" where
  "py_isalpha c = (let n = ord c in is_ascii_letter c \<or> n = 170 \<or> n = 181 \<or> n = 186
     \<or> 192 \<le> n \<and> n \<le> 214 \<or> 216 \<le> n \<and> n \<le> 246 \<or> 248 \<le> n)"

text \<open>The class \<open>[\x00-\x1f\x7f]\<close>.\<close>
definition is_control :: "char \<Rightarrow> bool" where
  "is_control c = (ord c < 32 \<or> ord c = 127)"

definition lstrip :: "string \<Rightarrow> string" where
  "lstrip s = dropWhile py_space s"

definition rstrip :: "string \<Rightarrow> string" where
  "rstrip s = rev (dropWhile py_space (rev s))"

definition strip :: "string \<Rightarrow> string" where
  "strip s = rstrip (lstrip s)"

definition startswith :: "string \<Rightarrow> string \<Rightarrow> bool" where
  "startswith s p = (take (length p) s = p)"

definition endswith :: "string \<Rightarrow> string \<Rightarrow> bool" where
  "endswith s p = (length p \<le> length s \<and> drop (length s - length p) s = p)"

definition removeprefix :: "string \<Rightarrow> string \<Rightarrow> string" where
  "removeprefix s p = (if startswith s p then drop (length p) s else s)"

text \<open>\<open>re.compile(r"^X$").match(s)\<close> for a class X of whole strings without a line feed.\<close>
definition re_dollar :: "(string \<Rightarrow> bool) \<Rightarrow> string \<Rightarrow> bool" where
  "re_dollar P s = (P s \<or> (s \<noteq> [] \<and> last s = nl \<and> P (butlast s)))"

lemma re_dollar_iff: "re_dollar P s \<longleftrightarrow> P s \<or> (\<exists>t. s = t @ [nl] \<and> P t)"
  unfolding re_dollar_def by (metis append_butlast_last_id butlast_snoc last_snoc snoc_eq_iff_butlast)

lemma startswith_iff: "startswith s p \<longleftrightarrow> (\<exists>r. s = p @ r)"
  unfolding startswith_def by (metis append_eq_conv_conj append_take_drop_id)

lemma startswith_simps [simp]:
  "startswith s []"
  "startswith [] (d # p) = False"
  "startswith (c # s) (d # p) = (c = d \<and> startswith s p)"
  by (auto simp: startswith_def)

lemma endswith_iff: "endswith s p \<longleftrightarrow> (\<exists>r. s = r @ p)"
  unfolding endswith_def
  by (metis append_eq_append_conv append_take_drop_id diff_diff_cancel length_append length_drop
      le_add2)

lemma lstrip_Nil [simp]: "lstrip [] = []"
  by (simp add: lstrip_def)

lemma rstrip_Nil [simp]: "rstrip [] = []"
  by (simp add: rstrip_def)

lemma strip_Nil [simp]: "strip [] = []"
  by (simp add: strip_def)

lemma rstrip_id: "s = [] \<or> \<not> py_space (last s) \<Longrightarrow> rstrip s = s"
  by (cases s rule: rev_cases) (simp_all add: rstrip_def)

lemma lstrip_id: "s = [] \<or> \<not> py_space (hd s) \<Longrightarrow> lstrip s = s"
  by (cases s) (simp_all add: lstrip_def)

lemma strip_id: "s = [] \<or> \<not> py_space (hd s) \<and> \<not> py_space (last s) \<Longrightarrow> strip s = s"
  by (auto simp: strip_def lstrip_id rstrip_id)

lemma hd_lstrip: "lstrip s \<noteq> [] \<Longrightarrow> \<not> py_space (hd (lstrip s))"
  unfolding lstrip_def by (rule hd_dropWhile)

lemma last_rstrip: "rstrip s \<noteq> [] \<Longrightarrow> \<not> py_space (last (rstrip s))"
  unfolding rstrip_def by (metis hd_dropWhile last_rev rev_is_Nil_conv)

lemma rstrip_snoc_space: "py_space c \<Longrightarrow> rstrip (s @ [c]) = rstrip s"
  by (simp add: rstrip_def)

lemma hd_rstrip: "rstrip s \<noteq> [] \<Longrightarrow> hd (rstrip s) = hd s"
proof (induction s rule: rev_induct)
  case (snoc c s)
  then show ?case
    by (cases "py_space c"; cases s) (auto simp: rstrip_snoc_space rstrip_id rstrip_snoc_space [of c "[]", simplified]
        rstrip_snoc_space [of c "a # l" for a l, simplified])
qed simp

lemma strip_ends:
  assumes "strip s \<noteq> []"
  shows "\<not> py_space (hd (strip s))" and "\<not> py_space (last (strip s))"
proof -
  have "lstrip s \<noteq> []"
    using assms by (auto simp: strip_def)
  then show "\<not> py_space (hd (strip s))" "\<not> py_space (last (strip s))"
    using assms hd_rstrip [of "lstrip s"] hd_lstrip [of s] last_rstrip [of "lstrip s"]
    by (auto simp: strip_def)
qed

lemma strip_eq_Nil_iff: "strip s = [] \<longleftrightarrow> list_all py_space s"
proof
  assume "strip s = []"
  then have "list_all py_space (lstrip s)"
    by (simp add: strip_def rstrip_def dropWhile_eq_Nil_conv list_all_iff)
  then have "lstrip s = []"
    using hd_lstrip [of s] by (cases "lstrip s") auto
  then show "list_all py_space s"
    by (simp add: lstrip_def dropWhile_eq_Nil_conv list_all_iff)
next
  assume "list_all py_space s"
  then have "lstrip s = []"
    by (simp add: lstrip_def dropWhile_eq_Nil_conv list_all_iff)
  then show "strip s = []"
    by (simp add: strip_def)
qed

lemma strip_strip [simp]: "strip (strip s) = strip s"
  by (metis strip_ends strip_id)

lemma strip_eq_self_iff: "strip s = s \<longleftrightarrow> s = [] \<or> \<not> py_space (hd s) \<and> \<not> py_space (last s)"
  by (metis strip_ends strip_id)

subsection \<open>str.split on a separator and str.join\<close>

fun split_on :: "char \<Rightarrow> string \<Rightarrow> string list" where
  "split_on c [] = [[]]"
| "split_on c (x # xs) =
     (if x = c then [] # split_on c xs
      else (case split_on c xs of [] \<Rightarrow> [[x]] | w # ws \<Rightarrow> (x # w) # ws))"

fun join_with :: "string \<Rightarrow> string list \<Rightarrow> string" where
  "join_with sep [] = []"
| "join_with sep [w] = w"
| "join_with sep (w # v # ws) = w @ sep @ join_with sep (v # ws)"

lemma split_on_not_Nil [simp]: "split_on c s \<noteq> []"
  by (induction s) (auto split: list.splits)

lemma join_split_on: "join_with [c] (split_on c s) = s"
proof (induction s)
  case (Cons x xs)
  obtain w ws where w: "split_on c xs = w # ws"
    by (cases "split_on c xs") auto
  with Cons show ?case
    by (cases ws) auto
qed simp

lemma split_on_no_sep: "w \<in> set (split_on c s) \<Longrightarrow> c \<notin> set w"
  by (induction s arbitrary: w) (auto split: if_splits list.splits)

lemma split_on_single: "c \<notin> set w \<Longrightarrow> split_on c w = [w]"
  by (induction w) auto

lemma split_on_append_sep: "c \<notin> set w \<Longrightarrow> split_on c (w @ c # s) = w # split_on c s"
  by (induction w) auto

lemma split_on_join:
  "ws \<noteq> [] \<Longrightarrow> (\<And>w. w \<in> set ws \<Longrightarrow> c \<notin> set w) \<Longrightarrow> split_on c (join_with [c] ws) = ws"
proof (induction ws)
  case (Cons w ws)
  then show ?case
    by (cases ws) (auto simp: split_on_single split_on_append_sep)
qed simp

lemma set_join_with: "set (join_with sep ws) \<subseteq> \<Union> (set ` set ws) \<union> set sep"
  by (induction sep ws rule: join_with.induct) auto

subsection \<open>Decimal numerals\<close>

function show_nat :: "nat \<Rightarrow> string" where
  "show_nat n =
     (if n < 10 then [char_of (48 + n)] else show_nat (n div 10) @ [char_of (48 + n mod 10)])"
  by pat_completeness auto
termination
  by (relation "measure id") auto

declare show_nat.simps [simp del]

definition show_int :: "int \<Rightarrow> string" where
  "show_int i = (if i < 0 then CHR ''-'' # show_nat (nat (- i)) else show_nat (nat i))"

definition read_nat :: "string \<Rightarrow> nat" where
  "read_nat s = foldl (\<lambda>n c. 10 * n + (ord c - 48)) 0 s"

lemma ord_char_of [simp]: "n < 256 \<Longrightarrow> ord (char_of n) = n"
  by (simp add: ord_def)

lemma read_nat_snoc: "read_nat (s @ [c]) = 10 * read_nat s + (ord c - 48)"
  by (simp add: read_nat_def)

lemma read_show_nat [simp]: "read_nat (show_nat n) = n"
proof (induction n rule: show_nat.induct)
  case (1 n)
  then show ?case
    by (subst show_nat.simps) (auto simp: read_nat_snoc, simp add: read_nat_def)
qed

lemma show_nat_digits: "c \<in> set (show_nat n) \<Longrightarrow> is_digit c"
proof (induction n rule: show_nat.induct)
  case (1 n)
  have d: "is_digit (char_of (48 + k))" if "k < (10::nat)" for k
    using that by (simp add: is_digit_def between_def ord_def)
  show ?case
    using 1 by (subst (asm) (2) show_nat.simps) (auto simp: d split: if_splits)
qed

lemma show_nat_not_Nil [simp]: "show_nat n \<noteq> []"
  by (subst show_nat.simps) simp

lemma show_nat_inj [simp]: "show_nat m = show_nat n \<longleftrightarrow> m = n"
  by (metis read_show_nat)

section \<open>Dictionaries in insertion order\<close>

text \<open>\<open>d[k] = v\<close> keeps the place of an existing key.\<close>
fun alist_set :: "('k \<times> 'v) list \<Rightarrow> 'k \<Rightarrow> 'v \<Rightarrow> ('k \<times> 'v) list" where
  "alist_set [] k v = [(k, v)]"
| "alist_set ((k', v') # d) k v = (if k' = k then (k, v) # d else (k', v') # alist_set d k v)"

definition alist_update :: "('k \<times> 'v) list \<Rightarrow> ('k \<times> 'v) list \<Rightarrow> ('k \<times> 'v) list" where
  "alist_update d e = foldl (\<lambda>d (k, v). alist_set d k v) d e"

lemma map_of_alist_set [simp]: "map_of (alist_set d k v) = (map_of d)(k \<mapsto> v)"
  by (induction d k v rule: alist_set.induct) auto

lemma alist_set_keys: "fst ` set (alist_set d k v) = insert k (fst ` set d)"
  by (induction d k v rule: alist_set.induct) auto

lemma alist_update_distinct:
  "distinct (map fst (d @ e)) \<Longrightarrow> alist_update d e = d @ e"
proof (induction e arbitrary: d)
  case (Cons kv e)
  obtain k v where kv: "kv = (k, v)" by (cases kv)
  have "alist_set d k v = d @ [(k, v)]" if "k \<notin> fst ` set d" for d :: "('a \<times> 'b) list"
    using that by (induction d k v rule: alist_set.induct) auto
  moreover have "k \<notin> fst ` set d"
    using Cons.prems by (auto simp: kv)
  ultimately show ?case
    using Cons.IH [of "d @ [(k, v)]"] Cons.prems by (simp add: kv alist_update_def)
qed (simp add: alist_update_def)

section \<open>Loops that carry a state\<close>

text \<open>A loop that stops at the first exception and otherwise threads its state.\<close>
fun efoldM :: "('s \<Rightarrow> 'a \<Rightarrow> 'e + 's) \<Rightarrow> 's \<Rightarrow> 'a list \<Rightarrow> 'e + 's" where
  "efoldM f s [] = Inr s"
| "efoldM f s (x # xs) = ebind (f s x) (\<lambda>s'. efoldM f s' xs)"

lemma efoldM_append: "efoldM f s (xs @ ys) = ebind (efoldM f s xs) (\<lambda>s'. efoldM f s' ys)"
proof (induction xs arbitrary: s)
  case (Cons x xs)
  then show ?case by (cases "f s x") simp_all
qed simp

lemma efoldM_invariant:
  assumes "efoldM f s xs = Inr s'" "P s" "\<And>s x s'. x \<in> set xs \<Longrightarrow> P s \<Longrightarrow> f s x = Inr s' \<Longrightarrow> P s'"
  shows "P s'"
  using assms
proof (induction xs arbitrary: s)
  case (Cons x xs)
  then obtain t where "f s x = Inr t" "efoldM f t xs = Inr s'"
    by (auto simp: ebind_eq_Inr)
  with Cons show ?case by (metis list.set_intros(1,2))
qed simp

end
