(* ===== verification/Json.thy ===== *)
theory Json
  imports Prelude
begin

text \<open>
  JSON values as Python's \<open>json\<close> module hands them out, dictionary access, and the canonical
  text that the digests of \<open>multinexus/agentd\<close> and \<open>multinexus/executor_capacity_authority.py\<close>
  are computed over: \<open>json.dumps(v, ensure_ascii=False, sort_keys=True, separators=(",", ":"))\<close>.
  A dictionary is an association list in insertion order with distinct keys; a float is the
  literal \<open>json.dumps\<close> writes for it. The main result is that the canonical text determines the
  value up to the order of the keys (\<open>canonical_json_inj\<close>).
\<close>

datatype json =
    JNull
  | JBool bool
  | JInt int
  | JFloat string
  | JStr string
  | JList "json list"
  | JObj "(string \<times> json) list"

type_synonym dict = "(string \<times> json) list"

section \<open>Dictionary access\<close>

definition keys :: "dict \<Rightarrow> string list" where
  "keys d = map fst d"

text \<open>\<open>d.get(k)\<close>: \<open>None\<close> and a missing key are the same value.\<close>
definition dget :: "dict \<Rightarrow> string \<Rightarrow> json" where
  "dget d k = (case map_of d k of None \<Rightarrow> JNull | Some v \<Rightarrow> v)"

text \<open>\<open>k in d\<close>\<close>
definition has_key :: "dict \<Rightarrow> string \<Rightarrow> bool" where
  "has_key d k = (map_of d k \<noteq> None)"

text \<open>\<open>set(d.keys()) == ks\<close>\<close>
definition keys_are :: "dict \<Rightarrow> string list \<Rightarrow> bool" where
  "keys_are d ks = (list_all (\<lambda>k. k \<in> set ks) (keys d) \<and> list_all (\<lambda>k. k \<in> set (keys d)) ks)"

lemma keys_are_iff: "keys_are d ks \<longleftrightarrow> fst ` set d = set ks"
  by (auto simp: keys_are_def keys_def list_all_iff)

lemma dget_Cons: "dget ((k, v) # d) k' = (if k' = k then v else dget d k')"
  by (simp add: dget_def)

lemma dget_Nil [simp]: "dget [] k = JNull"
  by (simp add: dget_def)

lemma dget_in_set: "distinct (keys d) \<Longrightarrow> (k, v) \<in> set d \<Longrightarrow> dget d k = v"
  by (simp add: dget_def keys_def)

lemma has_key_iff: "has_key d k \<longleftrightarrow> k \<in> fst ` set d"
  by (auto simp: has_key_def weak_map_of_SomeI map_of_eq_None_iff domIff)

lemma dget_mem: "k \<in> fst ` set d \<Longrightarrow> (k, dget d k) \<in> set d"
  by (auto simp: dget_def dest: map_of_SomeD weak_map_of_SomeI split: option.splits)

text \<open>A dictionary with distinct keys is determined, as a set, by its keys and their values.\<close>
lemma dict_set_eq:
  assumes "distinct (keys d)" "distinct (keys e)" "fst ` set d = fst ` set e"
    and "\<And>k. k \<in> fst ` set d \<Longrightarrow> dget d k = dget e k"
  shows "set d = set e"
proof -
  have "set d \<subseteq> set e"
    if "distinct (keys d)" "fst ` set d = fst ` set e"
      "\<And>k. k \<in> fst ` set d \<Longrightarrow> dget d k = dget e k" for d e
  proof
    fix p assume p: "p \<in> set d"
    then have "dget d (fst p) = snd p"
      using that(1) dget_in_set [of d "fst p" "snd p"] by simp
    then show "p \<in> set e"
      using p that(2,3) dget_mem [of "fst p" e] by (metis image_eqI prod.collapse)
  qed
  from this [of d e] this [of e d] show ?thesis
    using assms by (simp add: subset_antisym)
qed

text \<open>\<open>bool(v)\<close> of a decoded value.\<close>
fun truthy :: "json \<Rightarrow> bool" where
  "truthy JNull = False"
| "truthy (JBool b) = b"
| "truthy (JInt i) = (i \<noteq> 0)"
| "truthy (JFloat s) = (s \<noteq> ''0.0'' \<and> s \<noteq> ''-0.0'')"
| "truthy (JStr s) = (s \<noteq> [])"
| "truthy (JList xs) = (xs \<noteq> [])"
| "truthy (JObj d) = (d \<noteq> [])"

text \<open>
  \<open>v == 1\<close>: besides the integer, \<open>True\<close> and the float \<open>1.0\<close> compare equal in Python.
\<close>
fun equals_one :: "json \<Rightarrow> bool" where
  "equals_one (JInt i) = (i = 1)"
| "equals_one (JBool b) = b"
| "equals_one (JFloat s) = (s = ''1.0'')"
| "equals_one _ = False"

text \<open>\<open>isinstance(v, int)\<close>, with the integer's value: a bool is an int.\<close>
fun as_int :: "json \<Rightarrow> int option" where
  "as_int (JInt i) = Some i"
| "as_int (JBool b) = Some (if b then 1 else 0)"
| "as_int _ = None"

definition opt_str :: "string option \<Rightarrow> json" where
  "opt_str s = (case s of None \<Rightarrow> JNull | Some t \<Rightarrow> JStr t)"

lemma opt_str_inj [simp]: "opt_str a = opt_str b \<longleftrightarrow> a = b"
  by (auto simp: opt_str_def split: option.splits)

section \<open>json.dumps\<close>

definition hex_digit :: "nat \<Rightarrow> char" where
  "hex_digit n = (if n < 10 then char_of (48 + n) else char_of (87 + n))"

text \<open>The escapes of \<open>json.encoder\<close> with \<open>ensure_ascii=False\<close>.\<close>
definition esc_char :: "char \<Rightarrow> string" where
  "esc_char c =
     (if c = dquote then [bslash, dquote]
      else if c = bslash then [bslash, bslash]
      else if c = nl then [bslash, CHR ''n'']
      else if c = CHR 0x0D then [bslash, CHR ''r'']
      else if c = CHR 0x09 then [bslash, CHR ''t'']
      else if c = CHR 0x0C then [bslash, CHR ''f'']
      else if c = CHR 0x08 then [bslash, CHR ''b'']
      else if ord c < 32 then
        [bslash, CHR ''u'', CHR ''0'', CHR ''0'', hex_digit (ord c div 16), hex_digit (ord c mod 16)]
      else [c])"

definition escape :: "string \<Rightarrow> string" where
  "escape s = concat (map esc_char s)"

definition quote :: "string \<Rightarrow> string" where
  "quote s = dquote # escape s @ [dquote]"

fun render :: "string \<Rightarrow> string \<Rightarrow> json \<Rightarrow> string" where
  "render isep ksep JNull = ''null''"
| "render isep ksep (JBool b) = (if b then ''true'' else ''false'')"
| "render isep ksep (JInt i) = show_int i"
| "render isep ksep (JFloat s) = s"
| "render isep ksep (JStr s) = quote s"
| "render isep ksep (JList xs) = ''['' @ join_with isep (map (render isep ksep) xs) @ '']''"
| "render isep ksep (JObj d) =
     ''{'' @ join_with isep (map (\<lambda>(k, v). quote k @ ksep @ render isep ksep v) d) @ ''}''"

text \<open>\<open>sort_keys=True\<close>: at every level, by code points.\<close>
fun sort_keys :: "json \<Rightarrow> json" where
  "sort_keys (JList xs) = JList (map sort_keys xs)"
| "sort_keys (JObj d) = JObj (sort_key fst (map (\<lambda>(k, v). (k, sort_keys v)) d))"
| "sort_keys j = j"

definition dumps :: "json \<Rightarrow> string" where
  "dumps j = render '', '' '': '' j"

definition canonical_json :: "json \<Rightarrow> string" where
  "canonical_json j = render '','' '':'' (sort_keys j)"

text \<open>\<open>str.encode("utf-8")\<close>, a byte as the character with its value.\<close>
definition utf8_char :: "char \<Rightarrow> string" where
  "utf8_char c = (if ord c < 128 then [c]
     else [char_of (192 + ord c div 64), char_of (128 + ord c mod 64)])"

definition utf8 :: "string \<Rightarrow> string" where
  "utf8 s = concat (map utf8_char s)"

section \<open>The canonical text determines the value\<close>

fun float_free :: "json \<Rightarrow> bool" where
  "float_free (JFloat s) = False"
| "float_free (JList xs) = list_all float_free xs"
| "float_free (JObj d) = list_all (\<lambda>(k, v). float_free v) d"
| "float_free _ = True"

subsection \<open>Strings\<close>

lemma ord_hex_digit: "n < 16 \<Longrightarrow> ord (hex_digit n) = (if n < 10 then 48 + n else 87 + n)"
  by (simp add: hex_digit_def)

lemma hex_digit_inj:
  assumes "m < 16" "n < 16" "hex_digit m = hex_digit n"
  shows "m = n"
proof -
  have "ord (hex_digit m) = ord (hex_digit n)"
    using assms(3) by simp
  then show ?thesis
    using assms(1,2) by (auto simp: ord_hex_digit split: if_splits)
qed

lemma ord_inj: "ord c = ord d \<Longrightarrow> c = d"
  by (simp add: ord_def)

lemma esc_char_prefix_free:
  assumes "esc_char c @ r = esc_char d @ s"
  shows "c = d \<and> r = s"
proof -
  have "ord c = ord d" if "ord c < 32" "ord d < 32"
    "hex_digit (ord c div 16) = hex_digit (ord d div 16)"
    "hex_digit (ord c mod 16) = hex_digit (ord d mod 16)"
  proof -
    have "ord c div 16 = ord d div 16" "ord c mod 16 = ord d mod 16"
      using that by (auto intro!: hex_digit_inj)
    then show ?thesis
      by (metis div_mult_mod_eq)
  qed
  then show ?thesis
    using assms by (auto simp: esc_char_def ord_inj split: if_splits)
qed

lemma escape_Cons: "escape (c # s) = esc_char c @ escape s"
  by (simp add: escape_def)

lemma esc_char_hd: "\<exists>x xs. esc_char c = x # xs \<and> x \<noteq> dquote"
  by (simp add: esc_char_def)

lemma escape_prefix_free:
  "escape s @ dquote # r = escape t @ dquote # u \<Longrightarrow> s = t \<and> r = u"
proof (induction s arbitrary: t)
  case Nil
  then show ?case
    using esc_char_hd by (cases t) (auto simp: escape_def, metis append_Cons list.inject)
next
  case (Cons c s)
  show ?case
  proof (cases t)
    case Nil
    with Cons.prems show ?thesis
      using esc_char_hd [of c] by (auto simp: escape_def)
  next
    case (Cons d t')
    with Cons.prems have "esc_char c @ (escape s @ dquote # r) = esc_char d @ (escape t' @ dquote # u)"
      by (simp add: escape_Cons)
    then show ?thesis
      using Cons.IH [of t'] Cons by (auto dest!: esc_char_prefix_free)
  qed
qed

lemma quote_prefix_free: "quote s @ r = quote t @ u \<Longrightarrow> s = t \<and> r = u"
  by (auto simp: quote_def dest: escape_prefix_free)

subsection \<open>Numbers, lists and objects\<close>

text \<open>What can follow a value inside a list or an object, or at the end of the text or of a line.\<close>
definition delimited :: "string \<Rightarrow> bool" where
  "delimited r = (r = [] \<or> hd r \<in> {CHR '','', CHR '']'', CHR ''}'', nl})"

lemma delimited_simps [simp]:
  "delimited []" "delimited (CHR '','' # r)" "delimited (CHR '']'' # r)" "delimited (CHR ''}'' # r)" "delimited (nl # r)"
  by (simp_all add: delimited_def)

definition num_char :: "char \<Rightarrow> bool" where
  "num_char c = (is_digit c \<or> c = CHR ''-'')"

lemma num_char_delimited: "delimited r \<Longrightarrow> takeWhile num_char r = []"
  by (cases r) (auto simp: delimited_def num_char_def is_digit_def between_def ord_def)

lemma num_char_show_int: "c \<in> set (show_int i) \<Longrightarrow> num_char c"
  by (auto simp: show_int_def num_char_def dest: show_nat_digits split: if_splits)

lemma show_int_inj: "show_int i = show_int j \<Longrightarrow> i = j"
proof -
  have dash: "show_nat n \<noteq> CHR ''-'' # s" for n s
    using show_nat_digits [of "CHR ''-''" n] by (auto simp: is_digit_def between_def ord_def)
  assume "show_int i = show_int j"
  then show ?thesis
    using dash dash [symmetric] by (auto simp: show_int_def split: if_splits)
qed

lemma show_int_prefix_free:
  assumes "show_int i @ r = show_int j @ s" "delimited r" "delimited s"
  shows "i = j \<and> r = s"
proof -
  have "takeWhile num_char (show_int i @ r) = show_int i" if "delimited r" for i r
    using that by (simp add: takeWhile_append2 num_char_show_int num_char_delimited)
  then have "show_int i = show_int j"
    using assms by metis
  with assms(1) show ?thesis
    by (auto dest: show_int_inj)
qed

text \<open>\<open>f\<close> writes elements of \<open>A\<close> so that a delimiter shows where the text of one ends.\<close>
definition decodable :: "('a \<Rightarrow> string) \<Rightarrow> 'a \<Rightarrow> 'a set \<Rightarrow> bool" where
  "decodable f x A \<longleftrightarrow> (\<forall>y r s. y \<in> A \<longrightarrow> delimited r \<longrightarrow> delimited s \<longrightarrow> f x @ r = f y @ s \<longrightarrow> x = y \<and> r = s)"

lemma decodableD:
  "decodable f x A \<Longrightarrow> y \<in> A \<Longrightarrow> delimited r \<Longrightarrow> delimited s \<Longrightarrow> f x @ r = f y @ s \<Longrightarrow> x = y \<and> r = s"
  by (simp add: decodable_def)

definition starts_ok :: "string \<Rightarrow> bool" where
  "starts_ok t = (t \<noteq> [] \<and> hd t \<notin> {CHR '','', CHR '']'', CHR ''}''})"

lemma join_hd: "ws \<noteq> [] \<Longrightarrow> starts_ok (hd ws) \<Longrightarrow> starts_ok (join_with '','' ws @ r)"
  by (cases ws; cases "tl ws") (auto simp: starts_ok_def)

lemma join_decodable:
  assumes "\<And>x. x \<in> set xs \<Longrightarrow> decodable f x A" "set ys \<subseteq> A"
    and "\<And>x. x \<in> set xs \<union> set ys \<Longrightarrow> starts_ok (f x)" "c \<in> {CHR '']'', CHR ''}''}"
    and "join_with '','' (map f xs) @ c # r = join_with '','' (map f ys) @ c # s"
  shows "xs = ys \<and> r = s"
  using assms
proof (induction xs arbitrary: ys)
  case Nil
  have "\<not> starts_ok (c # r)"
    using Nil.prems(4) by (auto simp: starts_ok_def)
  then show ?case
    using Nil.prems join_hd [of "map f ys" "c # s"] by (cases ys) auto
next
  case (Cons x xs)
  have not_ok: "\<not> starts_ok (c # s)"
    using Cons.prems(4) by (auto simp: starts_ok_def)
  obtain y ys' where ys: "ys = y # ys'"
    using Cons.prems join_hd [of "map f (x # xs)" "c # r"] not_ok by (cases ys) auto
  define tail where "tail zs t = (if zs = [] then c # t else CHR '','' # join_with '','' (map f zs) @ c # t)"
    for zs :: "'a list" and t
  have split: "join_with '','' (map f (z # zs)) @ c # t = f z @ tail zs t" for z zs t
    by (cases zs) (simp_all add: tail_def)
  have delim: "delimited (tail zs t)" for zs t
    using Cons.prems(4) by (auto simp: tail_def)
  have "x = y \<and> tail xs r = tail ys' s"
    using Cons.prems(5) unfolding ys split
    by (intro decodableD [of f x A y] Cons.prems(1)) (use Cons.prems(2) delim in \<open>auto simp: ys\<close>)
  moreover have "xs = ys' \<and> r = s"
  proof (cases "xs = []")
    case True
    with calculation Cons.prems(4) show ?thesis
      by (auto simp: tail_def split: if_splits)
  next
    case False
    with calculation Cons.prems(4) have "join_with '','' (map f xs) @ c # r = join_with '','' (map f ys') @ c # s"
      by (auto simp: tail_def split: if_splits)
    then show ?thesis
      using Cons.prems by (intro Cons.IH) (auto simp: ys)
  qed
  ultimately show ?case
    by (simp add: ys)
qed

abbreviation compact :: "json \<Rightarrow> string" where
  "compact \<equiv> render '','' '':''"

abbreviation pair_text :: "string \<times> json \<Rightarrow> string" where
  "pair_text \<equiv> \<lambda>(k, v). quote k @ '':'' @ compact v"

text \<open>The kind of a value shows in its first character.\<close>
definition char_kind :: "char \<Rightarrow> nat" where
  "char_kind c =
     (if num_char c then 3 else if c = CHR ''n'' then 0 else if c = CHR ''t'' then 1
      else if c = CHR ''f'' then 2 else if c = dquote then 4 else if c = CHR ''['' then 5
      else if c = CHR ''{'' then 6 else 7)"

fun kind :: "json \<Rightarrow> nat" where
  "kind JNull = 0"
| "kind (JBool b) = (if b then 1 else 2)"
| "kind (JInt i) = 3"
| "kind (JFloat s) = 8"
| "kind (JStr s) = 4"
| "kind (JList xs) = 5"
| "kind (JObj d) = 6"

lemma char_kind_literals [simp]:
  "char_kind CHR ''n'' = 0" "char_kind CHR ''t'' = 1" "char_kind CHR ''f'' = 2"
  "char_kind dquote = 4" "char_kind CHR ''['' = 5" "char_kind CHR ''{'' = 6"
  "char_kind CHR '','' = 7" "char_kind CHR '']'' = 7" "char_kind CHR ''}'' = 7"
  by code_simp+

lemma show_int_hd: obtains c s where "show_int i = c # s" "char_kind c = 3"
proof (cases "show_int i")
  case Nil
  then show ?thesis
    by (auto simp: show_int_def split: if_splits)
next
  case (Cons c s)
  then have "num_char c"
    using num_char_show_int [of c i] by simp
  then show ?thesis
    using Cons by (intro that [of c s]) (simp_all add: char_kind_def)
qed

lemma first_char:
  assumes "float_free j"
  obtains c t where "compact j = c # t" "char_kind c = kind j"
proof (cases j)
  case (JInt i)
  then show ?thesis
    using show_int_hd [of i] that by auto
next
  case (JBool b)
  then show ?thesis
    using that by (cases b) auto
qed (use assms that in \<open>auto simp: quote_def split: if_splits\<close>)

lemma kind_eqI:
  assumes "float_free j" "float_free y" "compact j @ r = compact y @ s"
  shows "kind j = kind y"
proof -
  obtain c t where "compact j = c # t" "char_kind c = kind j"
    using assms(1) by (rule first_char)
  moreover obtain d u where "compact y = d # u" "char_kind d = kind y"
    using assms(2) by (rule first_char)
  ultimately show ?thesis
    using assms(3) by simp
qed

lemma kind_inversion:
  "float_free y \<Longrightarrow> kind y = 0 \<Longrightarrow> y = JNull"
  "float_free y \<Longrightarrow> kind y = (if b then 1 else 2) \<Longrightarrow> y = JBool b"
  "float_free y \<Longrightarrow> kind y = 3 \<Longrightarrow> \<exists>i. y = JInt i"
  "float_free y \<Longrightarrow> kind y = 4 \<Longrightarrow> \<exists>t. y = JStr t"
  "float_free y \<Longrightarrow> kind y = 5 \<Longrightarrow> \<exists>xs. y = JList xs"
  "float_free y \<Longrightarrow> kind y = 6 \<Longrightarrow> \<exists>d. y = JObj d"
  by (cases y; simp split: if_splits)+

lemma starts_ok_compact:
  assumes "float_free j"
  shows "starts_ok (compact j)"
proof -
  obtain c t where c: "compact j = c # t" "char_kind c = kind j"
    using assms by (rule first_char)
  moreover have "kind j < 7"
    using assms by (cases j) auto
  ultimately show ?thesis
    by (auto simp: starts_ok_def)
qed

lemma starts_ok_pair: "starts_ok (pair_text p)"
  by (cases p) (simp add: starts_ok_def quote_def)

lemma pair_decodable:
  assumes "decodable compact v {j. float_free j}"
  shows "decodable pair_text (k, v) {p. float_free (snd p)}"
  unfolding decodable_def
proof (intro allI impI)
  fix q r s
  assume q: "q \<in> {p. float_free (snd p)}" and d: "delimited r" "delimited s"
    and eq: "pair_text (k, v) @ r = pair_text q @ s"
  obtain k' v' where [simp]: "q = (k', v')"
    by (cases q)
  have "k = k' \<and> '':'' @ compact v @ r = '':'' @ compact v' @ s"
    using eq by (intro quote_prefix_free) simp
  moreover from this have "v = v' \<and> r = s"
    using q d by (intro decodableD [OF assms]) auto
  ultimately show "(k, v) = q \<and> r = s"
    by simp
qed

lemma compact_decodable: "float_free j \<Longrightarrow> decodable compact j {j. float_free j}"
proof (induction j)
  case (JList xs)
  have "JList xs = y \<and> r = s" if y: "float_free y" and eq: "compact (JList xs) @ r = compact y @ s" for y r s
  proof -
    obtain ys where ys: "y = JList ys"
      using kind_eqI [OF JList.prems y eq] kind_inversion(5) [OF y] by auto
    have "xs = ys \<and> r = s"
      using JList y eq starts_ok_compact
      by (intro join_decodable [where f = compact and A = "{j. float_free j}" and c = "CHR '']''"])
        (auto simp: ys list_all_iff)
    then show ?thesis
      by (simp add: ys)
  qed
  then show ?case
    unfolding decodable_def by blast
next
  case (JObj d)
  have IH: "decodable pair_text p {p. float_free (snd p)}" if "p \<in> set d" for p
  proof (cases p)
    case (Pair k v)
    have "decodable compact v {j. float_free j}"
      using JObj.IH [of p v] JObj.prems that Pair by (auto simp: list_all_iff)
    then show ?thesis
      unfolding Pair by (rule pair_decodable)
  qed
  have "JObj d = y \<and> r = s" if y: "float_free y" and eq: "compact (JObj d) @ r = compact y @ s" for y r s
  proof -
    obtain e where e: "y = JObj e"
      using kind_eqI [OF JObj.prems y eq] kind_inversion(6) [OF y] by auto
    have "d = e \<and> r = s"
      using IH y eq starts_ok_pair
      by (intro join_decodable [where f = pair_text and A = "{p. float_free (snd p)}" and c = "CHR ''}''"])
        (auto simp: e list_all_iff split_beta)
    then show ?thesis
      by (simp add: e)
  qed
  then show ?case
    unfolding decodable_def by blast
next
  case (JInt i)
  have "JInt i = y \<and> r = s"
    if y: "float_free y" and d: "delimited r" "delimited s" and eq: "compact (JInt i) @ r = compact y @ s" for y r s
  proof -
    obtain k where "y = JInt k"
      using kind_eqI [OF JInt.prems y eq] kind_inversion(3) [OF y] by auto
    then show ?thesis
      using show_int_prefix_free [of i r k s] d eq by simp
  qed
  then show ?case
    unfolding decodable_def by blast
next
  case (JStr t)
  have "JStr t = y \<and> r = s" if y: "float_free y" and eq: "compact (JStr t) @ r = compact y @ s" for y r s
  proof -
    obtain u where "y = JStr u"
      using kind_eqI [OF JStr.prems y eq] kind_inversion(4) [OF y] by auto
    then show ?thesis
      using quote_prefix_free [of t r u s] eq by simp
  qed
  then show ?case
    unfolding decodable_def by blast
next
  case JNull
  have "JNull = y \<and> r = s" if y: "float_free y" and eq: "compact JNull @ r = compact y @ s" for y r s
    using kind_eqI [OF JNull.prems y eq] kind_inversion(1) [OF y] eq by auto
  then show ?case
    unfolding decodable_def by blast
next
  case (JBool b)
  have "JBool b = y \<and> r = s" if y: "float_free y" and eq: "compact (JBool b) @ r = compact y @ s" for y r s
  proof -
    have "kind y = (if b then 1 else 2)"
      using kind_eqI [OF JBool.prems y eq] by (simp only: kind.simps)
    then have "y = JBool b"
      by (rule kind_inversion(2) [OF y])
    then show ?thesis
      using eq by (simp only: append_same_eq same_append_eq simp_thms)
  qed
  then show ?case
    unfolding decodable_def by blast
qed simp

lemma float_free_sort_keys: "float_free j \<Longrightarrow> float_free (sort_keys j)"
proof (induction j)
  case (JObj d)
  then show ?case
    by (fastforce simp: list_all_iff)
qed (auto simp: list_all_iff)

theorem canonical_json_inj:
  assumes "float_free j" "float_free j'" "canonical_json j = canonical_json j'"
  shows "sort_keys j = sort_keys j'"
  using assms compact_decodable [of "sort_keys j"] decodableD [of compact "sort_keys j" _ "sort_keys j'" "[]" "[]"]
  by (simp add: canonical_json_def float_free_sort_keys)

lemma ord_less_256: "ord c < 256"
  unfolding ord_def by (metis of_char_of nat_of_char_less_256)

lemma utf8_char_prefix_free: "utf8_char c @ r = utf8_char d @ s \<Longrightarrow> c = d \<and> r = s"
proof -
  have o: "ord (char_of (192 + ord c div 64)) = 192 + ord c div 64"
    "ord (char_of (128 + ord c mod 64)) = 128 + ord c mod 64" for c
  proof -
    have "ord c div 64 < 4"
      using ord_less_256 [of c] by (simp add: less_mult_imp_div_less)
    then show "ord (char_of (192 + ord c div 64)) = 192 + ord c div 64"
      by (intro ord_char_of) simp
    have "ord c mod 64 < 64"
      by simp
    then show "ord (char_of (128 + ord c mod 64)) = 128 + ord c mod 64"
      by (intro ord_char_of) linarith
  qed
  have neq: "char_of (192 + ord c div 64) \<noteq> d" if "ord d < 128" for c d
    using o(1) [of c] that by auto
  assume eq: "utf8_char c @ r = utf8_char d @ s"
  show ?thesis
  proof (cases "ord c < 128 \<or> ord d < 128")
    case True
    with eq neq neq [symmetric] show ?thesis
      by (auto simp: utf8_char_def split: if_splits)
  next
    case False
    with eq have "char_of (192 + ord c div 64) = (char_of (192 + ord d div 64) :: char)"
      "char_of (128 + ord c mod 64) = (char_of (128 + ord d mod 64) :: char)" "r = s"
      by (auto simp: utf8_char_def)
    then have "ord c div 64 = ord d div 64" "ord c mod 64 = ord d mod 64"
      by (metis o add_left_cancel)+
    then have "ord c = ord d"
      by (metis div_mult_mod_eq)
    with \<open>r = s\<close> show ?thesis
      by (simp add: ord_inj)
  qed
qed

lemma utf8_inj: "utf8 s = utf8 t \<Longrightarrow> s = t"
proof (induction s arbitrary: t)
  case Nil
  then show ?case
    by (cases t) (auto simp: utf8_def utf8_char_def split: if_splits)
next
  case (Cons c s)
  then obtain d t' where t: "t = d # t'"
    by (cases t) (auto simp: utf8_def utf8_char_def split: if_splits)
  with Cons.prems have "utf8_char c @ utf8 s = utf8_char d @ utf8 t'"
    by (simp add: utf8_def)
  then show ?case
    using Cons.IH [of t'] t by (auto dest: utf8_char_prefix_free)
qed

text \<open>Objects that agree up to the order of keys agree on every lookup.\<close>
lemma sort_keys_obj_eq:
  assumes eq: "sort_keys (JObj d) = sort_keys (JObj e)" and dist: "distinct (keys d)" "distinct (keys e)"
  shows "fst ` set d = fst ` set e" and "sort_keys (dget d k) = sort_keys (dget e k)"
proof -
  define srt :: "string \<times> json \<Rightarrow> string \<times> json" where "srt = (\<lambda>(k, v). (k, sort_keys v))"
  have "sort_key fst (map srt d) = sort_key fst (map srt e)"
    using eq by (simp add: srt_def)
  then have im: "srt ` set d = srt ` set e"
    by (metis set_map set_sort)
  have "fst ` srt ` A = fst ` A" for A :: "(string \<times> json) set"
    by (force simp: srt_def image_image)
  then show fst_eq: "fst ` set d = fst ` set e"
    using im by metis
  show "sort_keys (dget d k) = sort_keys (dget e k)"
  proof (cases "k \<in> fst ` set d")
    case True
    then have "srt (k, dget d k) \<in> srt ` set e"
      using im dget_mem by blast
    then obtain v where "(k, v) \<in> set e" "sort_keys v = sort_keys (dget d k)"
      by (auto simp: srt_def)
    then show ?thesis
      using dget_in_set [OF dist(2), of k v] by simp
  next
    case False
    then have "k \<notin> fst ` set e"
      using fst_eq by simp
    with False have "map_of d k = None" "map_of e k = None"
      by (simp_all add: map_of_eq_None_iff)
    then show ?thesis
      by (simp add: dget_def)
  qed
qed

end
