(* ===== verification/WorktreePath.thy ===== *)
theory WorktreePath
  imports Json
begin

text \<open>
  The lexical identity of a worktree path and of a host,
  \<open>multinexus/agentd/execution_lease.py\<close>: \<open>_is_windows_drive\<close>, \<open>_is_windows_unc\<close>,
  \<open>normalize_worktree_path\<close>, \<open>_validate_host_id\<close>, and the standard library routines they use
  (\<open>posixpath.normpath\<close>, \<open>ntpath.splitroot\<close> and \<open>ntpath.normpath\<close> as in CPython 3.12, the
  version \<open>scripts/production-mutation-lock.py\<close> names as the production interpreter). NFC is the
  identity on the code points modelled here; \<open>str.casefold\<close> is exact but for the micro sign
  (U+00B5), whose case folding is no Latin-1 character and which the model keeps.

  A POSIX path that is accepted comes out absolute with no empty, dot or dot-dot segment
  (\<open>normalize_posix_clean\<close>), and normalising again changes nothing unless the result ends in
  white space (\<open>normalize_posix_idempotent\<close>, \<open>normalize_not_idempotent\<close>).
\<close>

datatype lease_exc = ExecutionLeaseError string | ResourceIdentityError string

definition MAX_PATH_LEN :: nat where "MAX_PATH_LEN = 4096"
definition MAX_HOST_ID_LEN :: nat where "MAX_HOST_ID_LEN = 64"

section \<open>Standard library: posixpath and ntpath\<close>

fun posix_collapse :: "bool \<Rightarrow> string list \<Rightarrow> string list \<Rightarrow> string list" where
  "posix_collapse rooted acc [] = acc"
| "posix_collapse rooted acc (c # cs) =
     (if c = [] \<or> c = ''.'' then posix_collapse rooted acc cs
      else if c \<noteq> ''..'' \<or> (\<not> rooted \<and> acc = []) \<or> (acc \<noteq> [] \<and> last acc = ''..'')
        then posix_collapse rooted (acc @ [c]) cs
      else if acc \<noteq> [] then posix_collapse rooted (butlast acc) cs
      else posix_collapse rooted acc cs)"

definition posix_normpath :: "string \<Rightarrow> string" where
  "posix_normpath p =
     (if p = [] then ''.''
      else
        let slashes = (if startswith p ''/'' then
                         (if startswith p ''//'' \<and> \<not> startswith p ''///'' then ''//'' else ''/'')
                       else []);
            body = join_with ''/'' (posix_collapse (slashes \<noteq> []) [] (split_on CHR ''/'' p));
            r = slashes @ body
        in if r = [] then ''.'' else r)"

definition replace_char :: "char \<Rightarrow> char \<Rightarrow> string \<Rightarrow> string" where
  "replace_char a b s = map (\<lambda>c. if c = a then b else c) s"

definition ascii_upper :: "char \<Rightarrow> char" where
  "ascii_upper c = (if between CHR ''a'' CHR ''z'' c then char_of (ord c - 32) else c)"

text \<open>\<open>str.find(c, start)\<close>\<close>
definition find_char :: "char \<Rightarrow> string \<Rightarrow> nat \<Rightarrow> nat option" where
  "find_char c s start =
     (let pre = takeWhile (\<lambda>x. x \<noteq> c) (drop start s)
      in if start + length pre < length s then Some (start + length pre) else None)"

definition nt_splitroot :: "string \<Rightarrow> string \<times> string \<times> string" where
  "nt_splitroot p =
     (if take 1 p = [bslash] then
        (if take 1 (drop 1 p) = [bslash] then
           (let start = (if map ascii_upper (take 8 p) = [bslash, bslash, CHR ''?'', bslash] @ ''UNC'' @ [bslash]
                         then 8 else 2)
            in case find_char bslash p start of
                 None \<Rightarrow> (p, [], [])
               | Some i \<Rightarrow>
                   (case find_char bslash p (i + 1) of
                      None \<Rightarrow> (p, [], [])
                    | Some j \<Rightarrow> (take j p, take 1 (drop j p), drop (j + 1) p)))
         else ([], take 1 p, drop 1 p))
      else if take 1 (drop 1 p) = '':'' then
        (if take 1 (drop 2 p) = [bslash] then (take 2 p, take 1 (drop 2 p), drop 3 p)
         else (take 2 p, [], drop 2 p))
      else ([], [], p))"

text \<open>The loop over \<open>comps\<close>: \<open>done\<close> is \<open>comps[:i]\<close>, the other list \<open>comps[i:]\<close>.\<close>
fun nt_collapse :: "bool \<Rightarrow> string list \<Rightarrow> string list \<Rightarrow> string list" where
  "nt_collapse rooted acc [] = acc"
| "nt_collapse rooted acc (c # cs) =
     (if c = [] \<or> c = ''.'' then nt_collapse rooted acc cs
      else if c = ''..'' then
        (if acc \<noteq> [] \<and> last acc \<noteq> ''..'' then nt_collapse rooted (butlast acc) cs
         else if acc = [] \<and> rooted then nt_collapse rooted acc cs
         else nt_collapse rooted (acc @ [c]) cs)
      else nt_collapse rooted (acc @ [c]) cs)"

definition nt_normpath :: "string \<Rightarrow> string" where
  "nt_normpath path =
     (let p = replace_char CHR ''/'' bslash path;
          (drive, root, rest) = nt_splitroot p;
          prefix = drive @ root;
          comps = nt_collapse (root \<noteq> []) [] (split_on bslash rest);
          comps' = (if prefix = [] \<and> comps = [] then [''.''] else comps)
      in prefix @ join_with [bslash] comps')"

definition py_lower :: "char \<Rightarrow> char" where
  "py_lower c = (if between CHR ''A'' CHR ''Z'' c \<or> (192 \<le> ord c \<and> ord c \<le> 222 \<and> ord c \<noteq> 215)
     then char_of (ord c + 32) else c)"

definition casefold :: "string \<Rightarrow> string" where
  "casefold s = concat (map (\<lambda>c. if ord c = 223 then ''ss'' else [py_lower c]) s)"

section \<open>Path and host identity\<close>

definition is_windows_drive :: "string \<Rightarrow> bool" where
  "is_windows_drive path =
     (if length path < 2 then False else py_isalpha (path ! 0) \<and> path ! 1 = CHR '':'')"

definition is_windows_unc :: "string \<Rightarrow> bool" where
  "is_windows_unc path = (2 \<le> length path \<and> (take 2 path = [bslash, bslash] \<or> take 2 path = ''//''))"

definition normalize_worktree_path :: "json \<Rightarrow> lease_exc + string" where
  "normalize_worktree_path value =
     (case value of
        JStr raw \<Rightarrow>
          (let path = strip raw in
           if path = [] then Inl (ResourceIdentityError ''path is required'')
           else if length path > MAX_PATH_LEN then Inl (ResourceIdentityError ''path exceeds 4096 characters'')
           else if list_ex is_control path
             then Inl (ResourceIdentityError ''path contains control characters'')
           else if is_windows_unc path then
             (let normalized = nt_normpath path in
              if normalized = ''.'' \<or> normalized = []
                then Inl (ResourceIdentityError ''UNC path collapsed to relative'')
              else Inr (casefold (replace_char CHR ''/'' bslash normalized)))
           else if is_windows_drive path then
             (if length path = 2 \<or> (length path > 2 \<and> path ! 2 \<noteq> bslash \<and> path ! 2 \<noteq> CHR ''/'')
                then Inl (ResourceIdentityError ''Windows drive path must be absolute'')
              else
                (let normalized = nt_normpath path in
                 if normalized = ''.'' \<or> normalized = []
                   then Inl (ResourceIdentityError ''drive path collapsed to relative'')
                 else
                   (let slashed = replace_char CHR ''/'' bslash normalized;
                        drive = py_lower (slashed ! 0);
                        rest = drop 2 slashed
                    in Inr (casefold (drive # '':'' @ rest)))))
           else if \<not> startswith path ''/'' then Inl (ResourceIdentityError ''POSIX path must be absolute'')
           else
             (let normalized = posix_normpath path in
              if normalized = ''.'' then Inl (ResourceIdentityError ''path collapsed to relative'')
              else Inr (if normalized = [] then ''/'' else normalized)))
      | _ \<Rightarrow> Inl (ResourceIdentityError ''path must be a string''))"

definition validate_host_id :: "json \<Rightarrow> lease_exc + string" where
  "validate_host_id value =
     (case value of
        JStr host_id \<Rightarrow>
          if host_id = [] then Inl (ResourceIdentityError ''host_id is required'')
          else if host_id \<noteq> strip host_id
            then Inl (ResourceIdentityError ''host_id must not have surrounding whitespace'')
          else if length host_id > MAX_HOST_ID_LEN
            then Inl (ResourceIdentityError ''host_id exceeds 64 characters'')
          else if list_ex is_control host_id
            then Inl (ResourceIdentityError ''host_id contains control characters'')
          else Inr host_id
      | _ \<Rightarrow> Inl (ResourceIdentityError ''host_id must be a string''))"

lemma validate_host_id_Inr:
  "validate_host_id v = Inr h \<longleftrightarrow>
     v = JStr h \<and> h \<noteq> [] \<and> strip h = h \<and> length h \<le> MAX_HOST_ID_LEN \<and> \<not> list_ex is_control h"
  by (auto simp: validate_host_id_def split: json.splits if_splits)

section \<open>POSIX paths\<close>

text \<open>The segments of a clean absolute path.\<close>
definition clean_segment :: "string \<Rightarrow> bool" where
  "clean_segment c = (c \<noteq> [] \<and> c \<noteq> ''.'' \<and> c \<noteq> ''..'' \<and> CHR ''/'' \<notin> set c)"

definition posix_path :: "string list \<Rightarrow> string" where
  "posix_path cs = CHR ''/'' # join_with ''/'' cs"

lemma posix_collapse_clean:
  assumes "list_all clean_segment acc" "\<And>c. c \<in> set cs \<Longrightarrow> CHR ''/'' \<notin> set c"
  shows "list_all clean_segment (posix_collapse True acc cs)"
  using assms
proof (induction cs arbitrary: acc)
  case (Cons c cs)
  have *: "\<not> (acc \<noteq> [] \<and> last acc = ''..'')"
    using Cons.prems(1) by (cases acc rule: rev_cases) (auto simp: clean_segment_def)
  have "list_all clean_segment (butlast acc)"
    using Cons.prems(1) by (auto simp: list_all_iff dest: in_set_butlastD)
  moreover have "clean_segment c" if "c \<noteq> []" "c \<noteq> ''.''" "c \<noteq> ''..''"
    using that Cons.prems by (simp add: clean_segment_def)
  ultimately show ?case
    using * Cons.IH Cons.prems by auto
qed simp

lemma posix_collapse_id:
  "list_all clean_segment cs \<Longrightarrow> posix_collapse True acc cs = acc @ cs"
  by (induction cs arbitrary: acc) (auto simp: clean_segment_def)

lemma posix_collapse_subset: "set (posix_collapse rooted acc cs) \<subseteq> set acc \<union> set cs"
proof (induction cs arbitrary: acc)
  case (Cons c cs)
  have "set (butlast acc) \<subseteq> set acc"
    by (auto dest: in_set_butlastD)
  then show ?case
    using Cons.IH [of acc] Cons.IH [of "acc @ [c]"] Cons.IH [of "butlast acc"] by auto
qed simp

definition weight :: "string list \<Rightarrow> nat" where
  "weight ws = sum_list (map (\<lambda>w. Suc (length w)) ws)"

lemma weight_simps [simp]:
  "weight [] = 0" "weight (w # ws) = Suc (length w) + weight ws" "weight (ws @ vs) = weight ws + weight vs"
  by (simp_all add: weight_def)

lemma weight_butlast: "weight (butlast ws) \<le> weight ws"
  by (cases ws rule: rev_cases) simp_all

lemma posix_collapse_weight: "weight (posix_collapse rooted acc cs) \<le> weight acc + weight cs"
proof (induction cs arbitrary: acc)
  case (Cons c cs)
  show ?case
    using Cons.IH [of acc] Cons.IH [of "acc @ [c]"] Cons.IH [of "butlast acc"] weight_butlast [of acc]
    by auto
qed simp

lemma length_join: "ws \<noteq> [] \<Longrightarrow> Suc (length (join_with [c] ws)) = weight ws"
  by (induction "[c]" ws rule: join_with.induct) auto

lemma weight_split_on: "weight (split_on c s) = Suc (length s)"
  using length_join [of "split_on c s" c] by (simp add: join_split_on)

lemma length_join_le: "length (join_with [c] ws) \<le> weight ws - 1"
  by (cases "ws = []") (simp_all flip: length_join [of ws c])

text \<open>The POSIX branch, on a path that starts with exactly one slash.\<close>
definition posix_absolute :: "string \<Rightarrow> bool" where
  "posix_absolute p = (startswith p ''/'' \<and> \<not> startswith p ''//'')"

lemma posix_absoluteE:
  assumes "posix_absolute p"
  obtains r where "p = CHR ''/'' # r" "\<not> startswith r ''/''"
  using assms by (cases p) (auto simp: posix_absolute_def)

lemma posix_absolute_not_windows:
  "posix_absolute p \<Longrightarrow> \<not> is_windows_unc p \<and> \<not> is_windows_drive p"
proof (erule posix_absoluteE)
  fix r assume r: "p = CHR ''/'' # r" "\<not> startswith r ''/''"
  then show ?thesis
    by (cases r) (auto simp: is_windows_unc_def is_windows_drive_def py_isalpha_def is_ascii_letter_def
      between_def ord_def)
qed

lemma posix_normpath_absolute:
  assumes "posix_absolute p"
  shows "posix_normpath p = posix_path (posix_collapse True [] (split_on CHR ''/'' p))"
  using assms by (elim posix_absoluteE) (simp add: posix_normpath_def posix_path_def Let_def)

lemma normalize_posix:
  assumes "posix_absolute (strip p)"
  shows "normalize_worktree_path (JStr p) =
    (if length (strip p) > MAX_PATH_LEN then Inl (ResourceIdentityError ''path exceeds 4096 characters'')
     else if list_ex is_control (strip p)
       then Inl (ResourceIdentityError ''path contains control characters'')
     else Inr (posix_path (posix_collapse True [] (split_on CHR ''/'' (strip p)))))"
proof -
  obtain r where "strip p = CHR ''/'' # r"
    using assms by (auto elim: posix_absoluteE)
  then show ?thesis
    using posix_absolute_not_windows [OF assms] posix_normpath_absolute [OF assms]
    by (simp add: normalize_worktree_path_def Let_def posix_path_def)
qed

lemma posix_path_absolute:
  assumes "list_all clean_segment cs"
  shows "posix_absolute (posix_path cs)"
proof -
  have "\<not> (\<exists>r. join_with ''/'' cs = CHR ''/'' # r)"
    using assms by (cases cs; cases "tl cs"; cases "hd cs") (auto simp: clean_segment_def)
  then show ?thesis
    by (auto simp: posix_absolute_def posix_path_def startswith_iff)
qed

lemma posix_path_segments:
  assumes "list_all clean_segment cs"
  shows "posix_collapse True [] (split_on CHR ''/'' (posix_path cs)) = cs"
proof (cases "cs = []")
  case True
  then show ?thesis
    by (simp add: posix_path_def)
next
  case False
  then have "split_on CHR ''/'' (posix_path cs) = [] # cs"
    using assms by (auto simp: posix_path_def split_on_join list_all_iff clean_segment_def)
  then show ?thesis
    using assms by (simp add: posix_collapse_id)
qed

lemma posix_collapse_split_clean:
  "list_all clean_segment (posix_collapse True [] (split_on CHR ''/'' p))"
  by (intro posix_collapse_clean) (auto dest: split_on_no_sep)

lemma posix_path_length:
  assumes "posix_absolute p"
  shows "length (posix_path (posix_collapse True [] (split_on CHR ''/'' p))) \<le> length p"
proof -
  obtain r where r: "p = CHR ''/'' # r"
    using assms by (auto elim: posix_absoluteE)
  have "weight (posix_collapse True [] (split_on CHR ''/'' p)) \<le> Suc (length r)"
    using posix_collapse_weight [of True "[]" "split_on CHR ''/'' r"] by (simp add: r weight_split_on)
  then show ?thesis
    using length_join_le [of "CHR ''/''" "posix_collapse True [] (split_on CHR ''/'' p)"]
    by (simp add: posix_path_def r)
qed

lemma set_split_on: "w \<in> set (split_on c s) \<Longrightarrow> set w \<subseteq> set s"
  by (induction s arbitrary: w) (fastforce split: if_splits list.splits)+

lemma posix_path_chars:
  "set (posix_path (posix_collapse True [] (split_on CHR ''/'' p))) \<subseteq> insert (CHR ''/'') (set p)"
  using posix_collapse_subset [of True "[]" "split_on CHR ''/'' p"]
    set_join_with [of "''/''" "posix_collapse True [] (split_on CHR ''/'' p)"]
  by (fastforce simp: posix_path_def dest: set_split_on)

lemma normalize_posix_clean_aux:
  assumes "posix_absolute (strip p)" "normalize_worktree_path (JStr p) = Inr q"
  shows "q = posix_path (posix_collapse True [] (split_on CHR ''/'' (strip p)))"
    and "length (strip p) \<le> MAX_PATH_LEN" and "\<not> list_ex is_control (strip p)"
  using assms by (auto simp: normalize_posix split: if_splits)

lemma is_control_slash: "\<not> is_control CHR ''/''"
  by (simp add: is_control_def ord_def)

text \<open>
  A POSIX worktree path that is accepted is normalised to an absolute path whose segments are
  all proper: none is empty, ".", or "..", and none holds a slash, so no ".." can climb out of the
  root whatever the input.
\<close>
theorem normalize_posix_clean:
  assumes "posix_absolute (strip p)" "normalize_worktree_path (JStr p) = Inr q"
  shows "\<exists>cs. q = posix_path cs \<and> list_all clean_segment cs \<and> length q \<le> MAX_PATH_LEN"
  using normalize_posix_clean_aux [OF assms] posix_path_length [OF assms(1)] posix_collapse_split_clean
  by fastforce

theorem normalize_posix_clean_witness:
  "\<exists>cs. ''/srv/b'' = posix_path cs \<and> list_all clean_segment cs \<and> length ''/srv/b'' \<le> MAX_PATH_LEN"
proof (rule normalize_posix_clean)
  show "posix_absolute (strip '' /srv/./a/../../srv//b/'')"
    by code_simp
  show "normalize_worktree_path (JStr '' /srv/./a/../../srv//b/'') = Inr ''/srv/b''"
    by code_simp
qed

lemma posix_path_renormalize:
  assumes "list_all clean_segment cs" "\<not> py_space (last (posix_path cs))"
    and "length (posix_path cs) \<le> MAX_PATH_LEN" "\<not> list_ex is_control (posix_path cs)"
  shows "normalize_worktree_path (JStr (posix_path cs)) = Inr (posix_path cs)"
proof -
  have "hd (posix_path cs) = CHR ''/''"
    by (simp add: posix_path_def)
  then have "strip (posix_path cs) = posix_path cs"
    using assms(2) by (intro strip_id) (simp add: py_space_def ord_def)
  then show ?thesis
    using assms posix_path_absolute [OF assms(1)]
    by (subst normalize_posix) (simp_all add: posix_path_segments)
qed

text \<open>
  Normalising is idempotent on POSIX paths: when the result does not end in white space, it
  is its own normal form. (This is what \<open>validate_execution_lease\<close> tests a stored path with.)
\<close>
theorem normalize_posix_idempotent:
  assumes "posix_absolute (strip p)" "normalize_worktree_path (JStr p) = Inr q" "\<not> py_space (last q)"
  shows "normalize_worktree_path (JStr q) = Inr q"
proof -
  note q = normalize_posix_clean_aux [OF assms(1,2)]
  have "set q \<subseteq> insert (CHR ''/'') (set (strip p))"
    unfolding q(1) by (rule posix_path_chars)
  then have "\<not> list_ex is_control q"
    using q(3) is_control_slash by (fastforce simp: list_ex_iff)
  then show ?thesis
    using q posix_path_length [OF assms(1)] posix_collapse_split_clean assms(3)
    by (metis order_trans posix_path_renormalize)
qed

theorem normalize_posix_idempotent_witness:
  "normalize_worktree_path (JStr ''/srv/b'') = Inr ''/srv/b''"
proof (rule normalize_posix_idempotent)
  show "posix_absolute (strip ''/srv/a/../b'')"
    by code_simp
  show "normalize_worktree_path (JStr ''/srv/a/../b'') = Inr ''/srv/b''"
    by code_simp
  show "\<not> py_space (last ''/srv/b'')"
    by code_simp
qed

text \<open>
  Without that proviso it is not idempotent: stripping happens before the dot segments are
  collapsed, so a path may normalise to one that ends in a blank, which is then rejected as not
  canonical although \<open>build_worktree_resource\<close> issued it.
\<close>
theorem normalize_not_idempotent:
  "normalize_worktree_path (JStr ''/srv/x /.'') = Inr ''/srv/x ''
   \<and> normalize_worktree_path (JStr ''/srv/x '') = Inr ''/srv/x''"
  by code_simp

end
