(* ===== verification/Timestamp.thy ===== *)
theory Timestamp
  imports Prelude
begin

text \<open>
  \<open>datetime.strptime(s, "%Y-%m-%dT%H:%M:%SZ")\<close> of the standard library, as a time in seconds
  (\<open>None\<close> where it raises \<open>ValueError\<close>), and the calendar arithmetic of \<open>datetime\<close>. The
  directives accept what \<open>_strptime\<close>'s patterns accept: one or two digits for month, day, hour,
  minute and second, a blank before a one-digit day, either case for the literal letters, and
  the seconds 60 and 61, which the \<open>datetime\<close> constructor then refuses.
\<close>

definition is_leap :: "int \<Rightarrow> bool" where
  "is_leap y = (y mod 4 = 0 \<and> (y mod 100 \<noteq> 0 \<or> y mod 400 = 0))"

definition days_in_month :: "int \<Rightarrow> int \<Rightarrow> int" where
  "days_in_month y m = (if m = 2 then (if is_leap y then 29 else 28)
     else if m = 4 \<or> m = 6 \<or> m = 9 \<or> m = 11 then 30 else 31)"

definition days_before_year :: "int \<Rightarrow> int" where
  "days_before_year y = (y - 1) * 365 + (y - 1) div 4 - (y - 1) div 100 + (y - 1) div 400"

definition days_before_month :: "int \<Rightarrow> int \<Rightarrow> int" where
  "days_before_month y m = sum_list (map (days_in_month y) [1..m - 1])"

text \<open>Seconds since the start of year 1.\<close>
definition to_seconds :: "int \<Rightarrow> int \<Rightarrow> int \<Rightarrow> int \<Rightarrow> int \<Rightarrow> int \<Rightarrow> int" where
  "to_seconds y m d hh mm ss =
     (((days_before_year y + days_before_month y m + d) * 24 + hh) * 60 + mm) * 60 + ss"

definition read_int :: "string \<Rightarrow> int" where
  "read_int s = foldl (\<lambda>n c. 10 * n + (int (ord c) - 48)) 0 s"

text \<open>One or two digits whose value lies in the range.\<close>
definition short_field :: "int \<Rightarrow> int \<Rightarrow> string \<Rightarrow> bool" where
  "short_field lo hi s =
     ((length s = 1 \<or> length s = 2) \<and> list_all is_digit s \<and> lo \<le> read_int s \<and> read_int s \<le> hi)"

definition day_field :: "string \<Rightarrow> bool" where
  "day_field s = (short_field 1 31 s
     \<or> (length s = 2 \<and> hd s = CHR '' '' \<and> short_field 1 9 (tl s)))"

definition read_day :: "string \<Rightarrow> int" where
  "read_day s = (if take 1 s = '' '' then read_int (tl s) else read_int s)"

text \<open>The text up to the first separator, and the text after it.\<close>
definition cut :: "(char \<Rightarrow> bool) \<Rightarrow> string \<Rightarrow> string \<times> string" where
  "cut p s = (takeWhile (\<lambda>c. \<not> p c) s, drop 1 (dropWhile (\<lambda>c. \<not> p c) s))"

definition strptime_utc :: "string \<Rightarrow> int option" where
  "strptime_utc s =
     (let year = take 4 s;
          (month, s1) = cut (\<lambda>c. c = CHR ''-'') (drop 5 s);
          (day, s2) = cut (\<lambda>c. c = CHR ''T'' \<or> c = CHR ''t'') s1;
          (hour, s3) = cut (\<lambda>c. c = CHR '':'') s2;
          (minute, s4) = cut (\<lambda>c. c = CHR '':'') s3;
          second = butlast s4;
          y = read_int year; m = read_int month; d = read_day day
      in if length year = 4 \<and> list_all is_digit year \<and> take 1 (drop 4 s) = ''-''
            \<and> short_field 1 12 month \<and> day_field day \<and> short_field 0 23 hour
            \<and> short_field 0 59 minute \<and> short_field 0 61 second
            \<and> (take 1 (rev s4) = ''Z'' \<or> take 1 (rev s4) = ''z'')
            \<and> 1 \<le> y \<and> d \<le> days_in_month y m \<and> read_int second \<le> 59
         then Some (to_seconds y m d (read_int hour) (read_int minute) (read_int second))
         else None)"

text \<open>The shape \<open>^\d{4}-\d{2}-\d{2}T\d{2}:\d{2}:\d{2}Z$\<close>, without a final line feed.\<close>
definition ts_shape :: "string \<Rightarrow> bool" where
  "ts_shape s = (length s = 20
     \<and> list_all is_digit (map (nth s) [0, 1, 2, 3, 5, 6, 8, 9, 11, 12, 14, 15, 17, 18])
     \<and> s ! 4 = CHR ''-'' \<and> s ! 7 = CHR ''-'' \<and> s ! 10 = CHR ''T''
     \<and> s ! 13 = CHR '':'' \<and> s ! 16 = CHR '':'' \<and> s ! 19 = CHR ''Z'')"

lemma strptime_utc_example:
  "strptime_utc ''2024-02-29T23:59:59Z'' = Some (to_seconds 2024 2 29 23 59 59)"
  "strptime_utc ''2023-02-29T23:59:59Z'' = None"
  "strptime_utc ''2024-2-29t3:59:60Z'' = None"
  "strptime_utc (''2024-02-29T23:59:59Z'' @ [nl]) = None"
  by code_simp+

lemma strptime_utc_ends:
  assumes "strptime_utc s = Some t"
  shows "s \<noteq> [] \<and> (last s = CHR ''Z'' \<or> last s = CHR ''z'')"
proof -
  define s4 where "s4 = snd (cut (\<lambda>c. c = CHR '':'') (snd (cut (\<lambda>c. c = CHR '':'')
    (snd (cut (\<lambda>c. c = CHR ''T'' \<or> c = CHR ''t'') (snd (cut (\<lambda>c. c = CHR ''-'') (drop 5 s))))))))"
  have suffix: "\<exists>r. s = r @ snd (cut p u)" if "\<exists>r. s = r @ u" for p u
  proof -
    obtain r where "s = r @ u"
      using \<open>\<exists>r. s = r @ u\<close> by blast
    moreover have "u = (takeWhile (\<lambda>c. \<not> p c) u @ take 1 (dropWhile (\<lambda>c. \<not> p c) u)) @ snd (cut p u)"
      by (simp add: cut_def)
    ultimately show ?thesis by (metis append.assoc)
  qed
  have "\<exists>r. s = r @ drop 5 s"
    by (metis append_take_drop_id)
  then have "\<exists>r. s = r @ s4"
    unfolding s4_def by (intro suffix)
  moreover have "take 1 (rev s4) = ''Z'' \<or> take 1 (rev s4) = ''z''"
    using assms unfolding s4_def
    by (auto simp: strptime_utc_def Let_def split_beta split: if_splits)
  ultimately show ?thesis
    by (cases s4 rule: rev_cases) auto
qed

lemma strptime_utc_no_newline: "strptime_utc (s @ [nl]) = None"
  using strptime_utc_ends [of "s @ [nl]"] by (cases "strptime_utc (s @ [nl])") auto

end
