(* ===== verification/ExecutionLease.thy ===== *)
theory ExecutionLease
  imports WorktreePath Timestamp
begin

text \<open>
  \<open>multinexus/agentd/execution_lease.py\<close>: the strict parser of Coordinate's v1 lease envelope, the
  digest that names a worktree resource, and the cross-checks of a lease against the execution
  context and the executor binding. The digest function (\<open>hashlib.sha256(...).hexdigest()\<close>) is the
  parameter \<open>sha\<close>: every theorem holds of any digest; \<open>Sha256\<close> defines the real one. An exception
  carries its message without the offending value's \<open>repr\<close>.

  \<^item> \<open>parse_execution_lease_iff\<close> characterises acceptance; \<open>lease_parse_sound\<close> and
    \<open>lease_roundtrip\<close> give the invariant \<open>lease_wf\<close> and the round trip with \<open>lease_to_dict\<close>.
  \<^item> \<open>validate_execution_lease_sound\<close>: what an accepted lease guarantees about identity.
  \<^item> \<open>resource_key_binds\<close>: equal resource keys mean equal host and path, or a digest collision.
\<close>

section \<open>Constants and records\<close>

definition LEASE_CONTRACT_VERSION :: int where "LEASE_CONTRACT_VERSION = 1"
definition MIN_TTL_SECONDS :: int where "MIN_TTL_SECONDS = 30"
definition MAX_TTL_SECONDS :: int where "MAX_TTL_SECONDS = 600"
definition MAX_CONCURRENT_JOBS :: int where "MAX_CONCURRENT_JOBS = 32"
definition MAX_LABEL_LEN :: nat where "MAX_LABEL_LEN = 256"

definition V1_ENVELOPE_KEYS :: "string list" where
  "V1_ENVELOPE_KEYS =
     [''contract_version'', ''lease_id'', ''job_id'', ''attempt_token'', ''agent_id'',
      ''runner_profile_id'', ''host_id'', ''resource_kind'', ''resource_key'', ''normalized_path'',
      ''capacity_policy_id'', ''max_concurrent_jobs'', ''acquired_at'', ''expires_at'', ''server_now'',
      ''ttl_seconds'', ''renew_interval_seconds'']"

record worktree_resource =
  wr_host_id :: string
  wr_normalized_path :: string

record execution_lease =
  el_contract_version :: int
  el_lease_id :: string
  el_job_id :: string
  el_attempt_token :: int
  el_agent_id :: string
  el_runner_profile_id :: string
  el_host_id :: string
  el_resource_kind :: string
  el_resource_key :: string
  el_normalized_path :: string
  el_capacity_policy_id :: string
  el_max_concurrent_jobs :: int
  el_acquired_at :: string
  el_expires_at :: string
  el_server_now :: string
  el_ttl_seconds :: int
  el_renew_interval_seconds :: int

section \<open>Resource identity\<close>

definition canonical_dict :: "worktree_resource \<Rightarrow> dict" where
  "canonical_dict r =
     [(''contract_version'', JInt LEASE_CONTRACT_VERSION), (''resource_kind'', JStr ''worktree''),
      (''host_id'', JStr (wr_host_id r)), (''normalized_path'', JStr (wr_normalized_path r))]"

definition build_worktree_resource :: "json \<Rightarrow> json \<Rightarrow> lease_exc + worktree_resource" where
  "build_worktree_resource host_id worktree_path =
     ebind (validate_host_id host_id) (\<lambda>h.
     ebind (normalize_worktree_path worktree_path) (\<lambda>p.
     Inr \<lparr>wr_host_id = h, wr_normalized_path = p\<rparr>))"

definition compute_resource_key :: "(string \<Rightarrow> string) \<Rightarrow> worktree_resource \<Rightarrow> string" where
  "compute_resource_key sha r = ''sha256:'' @ sha (utf8 (canonical_json (JObj (canonical_dict r))))"

text \<open>\<open>^sha256:[0-9a-f]{64}$\<close> up to a final line feed.\<close>
definition digest_shape :: "string \<Rightarrow> bool" where
  "digest_shape s = (startswith s ''sha256:'' \<and> length s = 71 \<and> list_all is_lower_hex (drop 7 s))"

definition resource_key_canonical_dict :: "json \<Rightarrow> lease_exc + dict" where
  "resource_key_canonical_dict resource =
     (case resource of
        JObj d \<Rightarrow>
          if \<not> keys_are d [''contract_version'', ''resource_kind'', ''host_id'', ''normalized_path'']
            then Inl (ResourceIdentityError ''resource object has incorrect fields'')
          else if \<not> equals_one (dget d ''contract_version'')
            then Inl (ResourceIdentityError ''resource contract_version must be 1'')
          else if dget d ''resource_kind'' \<noteq> JStr ''worktree''
            then Inl (ResourceIdentityError (''resource_kind must be '' @ [squote] @ ''worktree'' @ [squote]))
          else Inr (map (\<lambda>k. (k, dget d k))
                 [''contract_version'', ''host_id'', ''normalized_path'', ''resource_kind''])
      | _ \<Rightarrow> Inl (ResourceIdentityError ''resource object has incorrect fields''))"

definition validate_resource_key_matches :: "(string \<Rightarrow> string) \<Rightarrow> json \<Rightarrow> json \<Rightarrow> lease_exc + dict" where
  "validate_resource_key_matches sha resource resource_key =
     (case resource_key of
        JStr key \<Rightarrow>
          if \<not> re_dollar digest_shape key
            then Inl (ResourceIdentityError ''resource_key must be sha256:<64 lowercase hex>'')
          else
            ebind (resource_key_canonical_dict resource) (\<lambda>cd.
            ebind (validate_host_id (dget cd ''host_id'')) (\<lambda>_.
            ebind (normalize_worktree_path (dget cd ''normalized_path'')) (\<lambda>normalized.
            if JStr normalized \<noteq> dget cd ''normalized_path''
              then Inl (ResourceIdentityError ''normalized_path is not canonical'')
            else if key \<noteq> ''sha256:'' @ sha (utf8 (canonical_json (JObj cd)))
              then Inl (ResourceIdentityError ''resource digest mismatch'')
            else Inr cd)))
      | _ \<Rightarrow> Inl (ResourceIdentityError ''resource_key must be a string''))"

section \<open>Envelope field validation\<close>

definition lease_required_string :: "json \<Rightarrow> string \<Rightarrow> lease_exc + string" where
  "lease_required_string value label =
     (case value of
        JStr s \<Rightarrow>
          if s = [] then Inl (ExecutionLeaseError (label @ '' is required''))
          else if strip s = [] then Inl (ExecutionLeaseError (label @ '' must be a non-empty string''))
          else Inr s
      | _ \<Rightarrow> Inl (ExecutionLeaseError (label @ '' is required'')))"

definition safe_label_char :: "char \<Rightarrow> bool" where
  "safe_label_char c = (is_ascii_letter c \<or> is_digit c \<or> c \<in> {CHR ''_'', CHR ''.'', CHR ''-''})"

text \<open>\<open>^[A-Za-z0-9_.\-]+$\<close> up to a final line feed.\<close>
definition safe_label_shape :: "string \<Rightarrow> bool" where
  "safe_label_shape s = (s \<noteq> [] \<and> list_all safe_label_char s)"

definition lease_bounded_label :: "json \<Rightarrow> string \<Rightarrow> lease_exc + string" where
  "lease_bounded_label value label =
     ebind (lease_required_string value label) (\<lambda>s.
     if length s > MAX_LABEL_LEN then Inl (ExecutionLeaseError (label @ '' exceeds 256 characters''))
     else if \<not> re_dollar safe_label_shape s
       then Inl (ExecutionLeaseError (label @ '' contains unsafe characters''))
     else Inr s)"

text \<open>\<open>^[0-9a-f]{8}-[0-9a-f]{4}-[0-9a-f]{4}-[0-9a-f]{4}-[0-9a-f]{12}$\<close> up to a final line feed.\<close>
definition uuid_shape :: "string \<Rightarrow> bool" where
  "uuid_shape s =
     (map length (split_on CHR ''-'' s) = [8, 4, 4, 4, 12]
      \<and> list_all (list_all is_lower_hex) (split_on CHR ''-'' s))"

definition lease_validate_lease_id :: "json \<Rightarrow> lease_exc + string" where
  "lease_validate_lease_id value =
     ebind (lease_required_string value ''lease_id'') (\<lambda>s.
     if \<not> re_dollar uuid_shape s then Inl (ExecutionLeaseError ''lease_id must be a lowercase UUID'')
     else Inr s)"

definition lease_validate_digest :: "json \<Rightarrow> string \<Rightarrow> lease_exc + string" where
  "lease_validate_digest value label =
     ebind (lease_required_string value label) (\<lambda>s.
     if \<not> re_dollar digest_shape s
       then Inl (ExecutionLeaseError (label @ '' must be sha256:<64-hex>''))
     else Inr s)"

definition lease_validate_timestamp :: "json \<Rightarrow> string \<Rightarrow> lease_exc + string" where
  "lease_validate_timestamp value label =
     ebind (lease_required_string value label) (\<lambda>s.
     if \<not> re_dollar ts_shape s
       then Inl (ExecutionLeaseError (label @ '' must be ISO-UTC timestamp ending in Z''))
     else if strptime_utc s = None
       then Inl (ExecutionLeaseError (label @ '' is not a valid timestamp''))
     else Inr s)"

definition is_absolute_worktree_path :: "string \<Rightarrow> bool" where
  "is_absolute_worktree_path path =
     (if is_windows_unc path then True
      else if is_windows_drive path
        then length path > 2 \<and> (path ! 2 = bslash \<or> path ! 2 = CHR ''/'')
      else startswith path ''/'')"

definition lease_validate_path :: "json \<Rightarrow> string \<Rightarrow> lease_exc + string" where
  "lease_validate_path value label =
     ebind (lease_required_string value label) (\<lambda>s.
     if length s > MAX_PATH_LEN then Inl (ExecutionLeaseError (label @ '' exceeds 4096 characters''))
     else if list_ex is_control s
       then Inl (ExecutionLeaseError (label @ '' contains control characters''))
     else if \<not> is_absolute_worktree_path s
       then Inl (ExecutionLeaseError (label @ '' must be an absolute path''))
     else Inr s)"

definition lease_positive_int :: "json \<Rightarrow> string \<Rightarrow> lease_exc + int" where
  "lease_positive_int value label =
     (case value of
        JInt n \<Rightarrow> if n \<le> 0 then Inl (ExecutionLeaseError (label @ '' must be positive'')) else Inr n
      | _ \<Rightarrow> Inl (ExecutionLeaseError (label @ '' must be an integer'')))"

definition lease_validate_ttl :: "json \<Rightarrow> lease_exc + int" where
  "lease_validate_ttl value =
     ebind (lease_positive_int value ''ttl_seconds'') (\<lambda>ttl.
     if ttl < MIN_TTL_SECONDS \<or> ttl > MAX_TTL_SECONDS
       then Inl (ExecutionLeaseError ''ttl_seconds must be between 30 and 600'')
     else Inr ttl)"

definition lease_validate_max_concurrent_jobs :: "json \<Rightarrow> lease_exc + int" where
  "lease_validate_max_concurrent_jobs value =
     ebind (lease_positive_int value ''max_concurrent_jobs'') (\<lambda>n.
     if n > MAX_CONCURRENT_JOBS
       then Inl (ExecutionLeaseError ''max_concurrent_jobs must be <= 32'')
     else Inr n)"

definition lease_contract_version :: "json \<Rightarrow> lease_exc + int" where
  "lease_contract_version value =
     (case value of
        JInt v \<Rightarrow>
          if v \<noteq> LEASE_CONTRACT_VERSION
            then Inl (ExecutionLeaseError ''execution_lease contract_version is not supported'')
          else Inr v
      | _ \<Rightarrow> Inl (ExecutionLeaseError ''contract_version must be an integer''))"

definition lease_resource_kind :: "json \<Rightarrow> lease_exc + string" where
  "lease_resource_kind value =
     ebind (lease_bounded_label value ''resource_kind'') (\<lambda>k.
     if k \<noteq> ''worktree'' then Inl (ExecutionLeaseError (''resource_kind must be '' @ [squote] @ ''worktree'' @ [squote]))
     else Inr k)"

text \<open>\<open>_parse_iso\<close>, on a string that has passed \<open>_validate_timestamp\<close>.\<close>
definition parse_iso :: "string \<Rightarrow> int" where
  "parse_iso ts = (case strptime_utc ts of Some t \<Rightarrow> t | None \<Rightarrow> 0)"

definition parse_execution_lease :: "json \<Rightarrow> lease_exc + execution_lease" where
  "parse_execution_lease data =
    (case data of
      JObj d \<Rightarrow>
      if \<not> keys_are d V1_ENVELOPE_KEYS
        then Inl (ExecutionLeaseError ''execution_lease has incorrect keys'')
      else
      ebind (lease_contract_version (dget d ''contract_version'')) (\<lambda>_.
      ebind (lease_validate_lease_id (dget d ''lease_id'')) (\<lambda>lease_id.
      ebind (lease_required_string (dget d ''job_id'') ''job_id'') (\<lambda>job_id.
      ebind (lease_positive_int (dget d ''attempt_token'') ''attempt_token'') (\<lambda>attempt_token.
      ebind (lease_bounded_label (dget d ''agent_id'') ''agent_id'') (\<lambda>agent_id.
      ebind (lease_bounded_label (dget d ''runner_profile_id'') ''runner_profile_id'') (\<lambda>runner_profile_id.
      ebind (lease_bounded_label (dget d ''host_id'') ''host_id'') (\<lambda>host_id.
      ebind (lease_resource_kind (dget d ''resource_kind'')) (\<lambda>resource_kind.
      ebind (lease_validate_digest (dget d ''resource_key'') ''resource_key'') (\<lambda>resource_key.
      ebind (lease_validate_path (dget d ''normalized_path'') ''normalized_path'') (\<lambda>normalized_path.
      ebind (lease_validate_digest (dget d ''capacity_policy_id'') ''capacity_policy_id'') (\<lambda>capacity_policy_id.
      ebind (lease_validate_max_concurrent_jobs (dget d ''max_concurrent_jobs'')) (\<lambda>max_concurrent_jobs.
      ebind (lease_validate_timestamp (dget d ''acquired_at'') ''acquired_at'') (\<lambda>acquired_at.
      ebind (lease_validate_timestamp (dget d ''expires_at'') ''expires_at'') (\<lambda>expires_at.
      ebind (lease_validate_timestamp (dget d ''server_now'') ''server_now'') (\<lambda>server_now.
      ebind (lease_validate_ttl (dget d ''ttl_seconds'')) (\<lambda>ttl_seconds.
      ebind (lease_positive_int (dget d ''renew_interval_seconds'') ''renew_interval_seconds'') (\<lambda>renew_interval_seconds.
      if renew_interval_seconds \<ge> ttl_seconds
        then Inl (ExecutionLeaseError ''renew_interval_seconds must be < ttl_seconds'')
      else if \<not> (parse_iso acquired_at \<le> parse_iso server_now \<and> parse_iso server_now < parse_iso expires_at)
        then Inl (ExecutionLeaseError ''server_now must satisfy acquired_at <= server_now < expires_at'')
      else if parse_iso expires_at - parse_iso acquired_at \<noteq> ttl_seconds
        then Inl (ExecutionLeaseError ''ttl_seconds does not match acquired_at/expires_at interval'')
      else Inr
        \<lparr>el_contract_version = LEASE_CONTRACT_VERSION, el_lease_id = lease_id, el_job_id = job_id,
         el_attempt_token = attempt_token, el_agent_id = agent_id,
         el_runner_profile_id = runner_profile_id, el_host_id = host_id,
         el_resource_kind = resource_kind, el_resource_key = resource_key,
         el_normalized_path = normalized_path, el_capacity_policy_id = capacity_policy_id,
         el_max_concurrent_jobs = max_concurrent_jobs, el_acquired_at = acquired_at,
         el_expires_at = expires_at, el_server_now = server_now, el_ttl_seconds = ttl_seconds,
         el_renew_interval_seconds = renew_interval_seconds\<rparr>)))))))))))))))))
    | _ \<Rightarrow> Inl (ExecutionLeaseError ''execution_lease must be an object''))"

definition lease_to_dict :: "execution_lease \<Rightarrow> dict" where
  "lease_to_dict l =
     [(''contract_version'', JInt (el_contract_version l)),
      (''lease_id'', JStr (el_lease_id l)),
      (''job_id'', JStr (el_job_id l)),
      (''attempt_token'', JInt (el_attempt_token l)),
      (''agent_id'', JStr (el_agent_id l)),
      (''runner_profile_id'', JStr (el_runner_profile_id l)),
      (''host_id'', JStr (el_host_id l)),
      (''resource_kind'', JStr (el_resource_kind l)),
      (''resource_key'', JStr (el_resource_key l)),
      (''normalized_path'', JStr (el_normalized_path l)),
      (''capacity_policy_id'', JStr (el_capacity_policy_id l)),
      (''max_concurrent_jobs'', JInt (el_max_concurrent_jobs l)),
      (''acquired_at'', JStr (el_acquired_at l)),
      (''expires_at'', JStr (el_expires_at l)),
      (''server_now'', JStr (el_server_now l)),
      (''ttl_seconds'', JInt (el_ttl_seconds l)),
      (''renew_interval_seconds'', JInt (el_renew_interval_seconds l))]"

section \<open>Cross-checks\<close>

text \<open>The \<open>execution_context\<close> argument: \<open>None\<close> (no check) or an object.\<close>
definition lease_check_context :: "execution_lease \<Rightarrow> json \<Rightarrow> lease_exc + unit" where
  "lease_check_context lease ctx =
     (case ctx of
        JNull \<Rightarrow> Inr ()
      | JObj c \<Rightarrow>
          if dget c ''job_id'' \<noteq> JStr (el_job_id lease)
            then Inl (ExecutionLeaseError ''lease job_id does not match execution_context.job_id'')
          else if dget c ''assigned_agent'' \<noteq> JStr (el_agent_id lease)
            then Inl (ExecutionLeaseError ''lease agent_id does not match execution_context.assigned_agent'')
          else if dget c ''host_id'' \<noteq> JStr (el_host_id lease)
            then Inl (ExecutionLeaseError ''lease host_id does not match execution_context.host_id'')
          else if dget c ''worktree_path'' \<noteq> JStr (el_normalized_path lease)
            then Inl (ExecutionLeaseError ''lease normalized_path does not match execution_context.worktree_path'')
          else Inr ()
      | _ \<Rightarrow> Inl (ExecutionLeaseError ''execution_context must be a dict for lease cross-check''))"

definition lease_check_binding :: "execution_lease \<Rightarrow> json \<Rightarrow> lease_exc + unit" where
  "lease_check_binding lease binding =
     (case binding of
        JNull \<Rightarrow> Inr ()
      | JObj b \<Rightarrow>
          if dget b ''executor_instance_id'' \<noteq> JStr (el_agent_id lease)
            then Inl (ExecutionLeaseError ''lease agent_id does not match executor_binding.executor_instance_id'')
          else if dget b ''runner_profile_id'' \<noteq> JStr (el_runner_profile_id lease)
            then Inl (ExecutionLeaseError ''lease runner_profile_id does not match executor_binding.runner_profile_id'')
          else Inr ()
      | _ \<Rightarrow> Inl (ExecutionLeaseError ''executor_binding must be a dict for lease cross-check''))"

definition validate_execution_lease ::
  "(string \<Rightarrow> string) \<Rightarrow> json \<Rightarrow> string \<Rightarrow> string option \<Rightarrow> int option \<Rightarrow> json \<Rightarrow> json
   \<Rightarrow> lease_exc + execution_lease" where
  "validate_execution_lease sha data expected_agent_id expected_job_id expected_attempt_token
     execution_context executor_binding =
     ebind (parse_execution_lease data) (\<lambda>lease.
     if el_agent_id lease \<noteq> expected_agent_id
       then Inl (ExecutionLeaseError ''lease agent_id mismatch'')
     else if expected_job_id \<noteq> None \<and> expected_job_id \<noteq> Some (el_job_id lease)
       then Inl (ExecutionLeaseError ''lease job_id mismatch'')
     else if expected_attempt_token \<noteq> None \<and> expected_attempt_token \<noteq> Some (el_attempt_token lease)
       then Inl (ExecutionLeaseError ''lease attempt_token mismatch'')
     else
     ebind (normalize_worktree_path (JStr (el_normalized_path lease))) (\<lambda>canonical_path.
     if canonical_path \<noteq> el_normalized_path lease
       then Inl (ExecutionLeaseError ''normalized_path is not canonical'')
     else
     ebind (build_worktree_resource (JStr (el_host_id lease)) (JStr (el_normalized_path lease))) (\<lambda>resource.
     if compute_resource_key sha resource \<noteq> el_resource_key lease
       then Inl (ExecutionLeaseError ''resource_key mismatch'')
     else
     ebind (lease_check_context lease execution_context) (\<lambda>_.
     ebind (lease_check_binding lease executor_binding) (\<lambda>_.
     Inr lease)))))"

section \<open>What the parser accepts\<close>

named_theorems lease_accepts "when a field validator returns"

lemma lease_required_string_Inr [lease_accepts]:
  "lease_required_string v label = Inr s \<longleftrightarrow> v = JStr s \<and> strip s \<noteq> []"
  by (auto simp: lease_required_string_def split: json.splits if_splits)

lemma lease_positive_int_Inr [lease_accepts]: "lease_positive_int v label = Inr n \<longleftrightarrow> v = JInt n \<and> 0 < n"
  by (auto simp: lease_positive_int_def split: json.splits)

lemma lease_contract_version_Inr [lease_accepts]:
  "lease_contract_version v = Inr n \<longleftrightarrow> v = JInt LEASE_CONTRACT_VERSION \<and> n = LEASE_CONTRACT_VERSION"
  by (auto simp: lease_contract_version_def split: json.splits)

definition label_ok :: "string \<Rightarrow> bool" where
  "label_ok s = (strip s \<noteq> [] \<and> length s \<le> MAX_LABEL_LEN \<and> re_dollar safe_label_shape s)"

definition path_ok :: "string \<Rightarrow> bool" where
  "path_ok s = (strip s \<noteq> [] \<and> length s \<le> MAX_PATH_LEN \<and> \<not> list_ex is_control s \<and> is_absolute_worktree_path s)"

definition timestamp_ok :: "string \<Rightarrow> bool" where
  "timestamp_ok s = (ts_shape s \<and> strptime_utc s \<noteq> None)"

lemma lease_bounded_label_Inr [lease_accepts]: "lease_bounded_label v label = Inr s \<longleftrightarrow> v = JStr s \<and> label_ok s"
  by (auto simp: lease_bounded_label_def label_ok_def result_simps lease_accepts)

lemma lease_validate_lease_id_Inr [lease_accepts]:
  "lease_validate_lease_id v = Inr s \<longleftrightarrow> v = JStr s \<and> strip s \<noteq> [] \<and> re_dollar uuid_shape s"
  by (auto simp: lease_validate_lease_id_def result_simps lease_accepts)

lemma lease_validate_digest_Inr [lease_accepts]:
  "lease_validate_digest v label = Inr s \<longleftrightarrow> v = JStr s \<and> strip s \<noteq> [] \<and> re_dollar digest_shape s"
  by (auto simp: lease_validate_digest_def result_simps lease_accepts)

text \<open>A time stamp that matches with a final line feed is refused by \<open>strptime\<close>.\<close>
lemma lease_validate_timestamp_Inr [lease_accepts]:
  "lease_validate_timestamp v label = Inr s \<longleftrightarrow> v = JStr s \<and> timestamp_ok s"
proof -
  have "strip s \<noteq> []" if "strptime_utc s \<noteq> None" for s
  proof -
    have "\<not> py_space CHR ''Z''" "\<not> py_space CHR ''z''"
      by code_simp+
    then have "last s \<in> set s" "\<not> py_space (last s)"
      using that strptime_utc_ends [of s] by auto
    then show ?thesis
      by (auto simp: strip_eq_Nil_iff list_all_iff)
  qed
  moreover have "re_dollar ts_shape s \<and> strptime_utc s \<noteq> None \<longleftrightarrow> timestamp_ok s" for s
    using strptime_utc_no_newline by (auto simp: re_dollar_iff timestamp_ok_def)
  ultimately show ?thesis
    unfolding lease_validate_timestamp_def by (simp add: result_simps lease_accepts) blast
qed

lemma lease_validate_path_Inr [lease_accepts]: "lease_validate_path v label = Inr s \<longleftrightarrow> v = JStr s \<and> path_ok s"
  by (auto simp: lease_validate_path_def path_ok_def result_simps lease_accepts)

lemma lease_validate_ttl_Inr [lease_accepts]:
  "lease_validate_ttl v = Inr n \<longleftrightarrow> v = JInt n \<and> MIN_TTL_SECONDS \<le> n \<and> n \<le> MAX_TTL_SECONDS"
  by (auto simp: lease_validate_ttl_def result_simps lease_accepts MIN_TTL_SECONDS_def)

lemma lease_validate_max_concurrent_jobs_Inr [lease_accepts]:
  "lease_validate_max_concurrent_jobs v = Inr n \<longleftrightarrow> v = JInt n \<and> 0 < n \<and> n \<le> MAX_CONCURRENT_JOBS"
  by (auto simp: lease_validate_max_concurrent_jobs_def result_simps lease_accepts)

lemma label_ok_worktree: "label_ok ''worktree''"
  by code_simp

lemma lease_resource_kind_Inr [lease_accepts]:
  "lease_resource_kind v = Inr k \<longleftrightarrow> v = JStr ''worktree'' \<and> k = ''worktree''"
  by (auto simp: lease_resource_kind_def result_simps lease_accepts label_ok_worktree)

text \<open>The invariant of a parsed lease.\<close>
definition lease_wf :: "execution_lease \<Rightarrow> bool" where
  "lease_wf l =
     (el_contract_version l = LEASE_CONTRACT_VERSION
      \<and> strip (el_lease_id l) \<noteq> [] \<and> re_dollar uuid_shape (el_lease_id l)
      \<and> strip (el_job_id l) \<noteq> []
      \<and> 0 < el_attempt_token l
      \<and> label_ok (el_agent_id l) \<and> label_ok (el_runner_profile_id l) \<and> label_ok (el_host_id l)
      \<and> el_resource_kind l = ''worktree''
      \<and> strip (el_resource_key l) \<noteq> [] \<and> re_dollar digest_shape (el_resource_key l)
      \<and> path_ok (el_normalized_path l)
      \<and> strip (el_capacity_policy_id l) \<noteq> [] \<and> re_dollar digest_shape (el_capacity_policy_id l)
      \<and> 0 < el_max_concurrent_jobs l \<and> el_max_concurrent_jobs l \<le> MAX_CONCURRENT_JOBS
      \<and> timestamp_ok (el_acquired_at l) \<and> timestamp_ok (el_expires_at l) \<and> timestamp_ok (el_server_now l)
      \<and> MIN_TTL_SECONDS \<le> el_ttl_seconds l \<and> el_ttl_seconds l \<le> MAX_TTL_SECONDS
      \<and> 0 < el_renew_interval_seconds l \<and> el_renew_interval_seconds l < el_ttl_seconds l
      \<and> parse_iso (el_acquired_at l) \<le> parse_iso (el_server_now l)
      \<and> parse_iso (el_server_now l) < parse_iso (el_expires_at l)
      \<and> parse_iso (el_expires_at l) - parse_iso (el_acquired_at l) = el_ttl_seconds l)"

text \<open>The dictionary holds the record's fields.\<close>
definition holds_fields :: "dict \<Rightarrow> dict \<Rightarrow> bool" where
  "holds_fields d kvs = list_all (\<lambda>(k, v). dget d k = v) kvs"

lemma parse_execution_lease_iff:
  "parse_execution_lease (JObj d) = Inr l \<longleftrightarrow>
     keys_are d V1_ENVELOPE_KEYS \<and> holds_fields d (lease_to_dict l) \<and> lease_wf l"
  (is "?lhs \<longleftrightarrow> ?rhs")
proof
  assume ?lhs
  then show ?rhs
    by (clarsimp simp: parse_execution_lease_def result_simps lease_accepts holds_fields_def
        lease_to_dict_def lease_wf_def)
next
  assume ?rhs
  then show ?lhs
    by (cases l) (simp add: parse_execution_lease_def result_simps lease_accepts holds_fields_def
        lease_to_dict_def lease_wf_def)
qed

lemma parse_execution_lease_obj: "parse_execution_lease data = Inr l \<Longrightarrow> \<exists>d. data = JObj d"
  by (auto simp: parse_execution_lease_def split: json.splits)

section \<open>Properties of the parser\<close>

text \<open>
  A lease that the parser returns satisfies the whole invariant: a bounded time to live that
  equals the interval from acquisition to expiry, a renewal interval inside it, a server clock
  inside the validity window, and at most 32 concurrent jobs.
\<close>
theorem lease_parse_sound:
  assumes "parse_execution_lease data = Inr l"
  shows "lease_wf l
    \<and> 30 \<le> el_ttl_seconds l \<and> el_ttl_seconds l \<le> 600
    \<and> 0 < el_renew_interval_seconds l \<and> el_renew_interval_seconds l < el_ttl_seconds l
    \<and> parse_iso (el_server_now l) < parse_iso (el_acquired_at l) + el_ttl_seconds l
    \<and> 1 \<le> el_max_concurrent_jobs l \<and> el_max_concurrent_jobs l \<le> 32
    \<and> 1 \<le> el_attempt_token l"
proof -
  obtain d where "data = JObj d"
    using parse_execution_lease_obj [OF assms] by blast
  then have "lease_wf l"
    using assms by (simp add: parse_execution_lease_iff)
  then show ?thesis
    by (auto simp: lease_wf_def MIN_TTL_SECONDS_def MAX_TTL_SECONDS_def MAX_CONCURRENT_JOBS_def)
qed

lemma keys_lease_to_dict: "keys (lease_to_dict l) = V1_ENVELOPE_KEYS"
  by (simp add: keys_def lease_to_dict_def V1_ENVELOPE_KEYS_def)

lemma keys_are_refl: "keys_are d (keys d)"
  by (simp add: keys_are_iff keys_def)

lemma distinct_V1_ENVELOPE_KEYS: "distinct V1_ENVELOPE_KEYS"
  by code_simp

lemma holds_fields_self: "distinct (keys d) \<Longrightarrow> holds_fields d d"
  by (auto simp: holds_fields_def list_all_iff dget_in_set)

lemma holds_fields_set_eq:
  assumes "distinct (keys d)" "distinct (keys e)" "keys_are d (keys e)" "holds_fields d e"
  shows "set d = set e"
proof (rule dict_set_eq)
  show "fst ` set d = fst ` set e"
    using assms(3) by (simp add: keys_are_iff keys_def)
  then show "dget d k = dget e k" if "k \<in> fst ` set d" for k
    using assms(4) dget_mem [of k e] that by (auto simp: holds_fields_def list_all_iff)
qed (use assms in auto)

text \<open>
  Parsing and \<open>lease_to_dict\<close> are inverse: the dictionary written for a parsed lease has the
  entries of the dictionary it was read from, and parses to the same lease.
\<close>
theorem lease_roundtrip:
  assumes "distinct (keys d)" "parse_execution_lease (JObj d) = Inr l"
  shows "set (lease_to_dict l) = set d \<and> parse_execution_lease (JObj (lease_to_dict l)) = Inr l"
proof -
  have d: "distinct (keys (lease_to_dict l))"
    by (simp add: keys_lease_to_dict distinct_V1_ENVELOPE_KEYS)
  have *: "keys_are d (keys (lease_to_dict l))" "holds_fields d (lease_to_dict l)" "lease_wf l"
    using assms(2) by (simp_all add: parse_execution_lease_iff keys_lease_to_dict)
  have "parse_execution_lease (JObj (lease_to_dict l)) = Inr l"
    using *(3) keys_are_refl [of "lease_to_dict l"] holds_fields_self [OF d]
    by (simp add: parse_execution_lease_iff keys_lease_to_dict)
  then show ?thesis
    using holds_fields_set_eq [OF assms(1) d *(1,2)] by simp
qed

section \<open>A concrete lease\<close>

text \<open>A digest function for examples; the theorems hold of every one.\<close>
definition zero_sha :: "string \<Rightarrow> string" where
  "zero_sha s = replicate 64 CHR ''0''"

definition example_lease :: execution_lease where
  "example_lease =
     \<lparr>el_contract_version = 1, el_lease_id = ''01234567-89ab-cdef-0123-456789abcdef'',
      el_job_id = ''job-1'', el_attempt_token = 2, el_agent_id = ''claude'',
      el_runner_profile_id = ''claude'', el_host_id = ''mac-1'', el_resource_kind = ''worktree'',
      el_resource_key = ''sha256:'' @ zero_sha [], el_normalized_path = ''/srv/w'',
      el_capacity_policy_id = ''sha256:'' @ zero_sha [], el_max_concurrent_jobs = 4,
      el_acquired_at = ''2026-01-02T03:04:05Z'', el_expires_at = ''2026-01-02T03:06:05Z'',
      el_server_now = ''2026-01-02T03:05:00Z'', el_ttl_seconds = 120, el_renew_interval_seconds = 40\<rparr>"

lemma example_lease_parses: "parse_execution_lease (JObj (lease_to_dict example_lease)) = Inr example_lease"
  by code_simp

theorem lease_parse_sound_witness: "30 \<le> el_ttl_seconds example_lease"
  using lease_parse_sound [OF example_lease_parses] by blast

theorem lease_roundtrip_witness:
  "set (lease_to_dict example_lease) = set (rev (lease_to_dict example_lease))"
proof -
  have "distinct (keys (rev (lease_to_dict example_lease)))"
    by code_simp
  moreover have "parse_execution_lease (JObj (rev (lease_to_dict example_lease))) = Inr example_lease"
    by code_simp
  ultimately show ?thesis
    using lease_roundtrip by blast
qed

section \<open>Identity\<close>

lemma build_worktree_resource_Inr:
  "build_worktree_resource h p = Inr r \<longleftrightarrow>
     validate_host_id h = Inr (wr_host_id r) \<and> normalize_worktree_path p = Inr (wr_normalized_path r)"
  by (cases r) (auto simp: build_worktree_resource_def result_simps)

lemma resource_text_inj:
  assumes "canonical_json (JObj (canonical_dict r)) = canonical_json (JObj (canonical_dict r'))"
  shows "r = r'"
proof -
  have "sort_keys (JObj (canonical_dict r)) = sort_keys (JObj (canonical_dict r'))"
    using assms by (intro canonical_json_inj) (simp_all add: canonical_dict_def)
  then have "sort_keys (dget (canonical_dict r) k) = sort_keys (dget (canonical_dict r') k)" for k
    by (rule sort_keys_obj_eq) (simp_all add: canonical_dict_def keys_def)
  from this [of "''host_id''"] this [of "''normalized_path''"] show ?thesis
    by (cases r; cases r') (simp add: canonical_dict_def dget_Cons)
qed

text \<open>The bytes whose digest is the resource key.\<close>
definition resource_text :: "worktree_resource \<Rightarrow> string" where
  "resource_text r = utf8 (canonical_json (JObj (canonical_dict r)))"

text \<open>
  The resource key identifies the worktree: two resources with the same key have the same host
  and the same normalised path, or their own canonical texts differ and are a collision of the
  digest.
\<close>
theorem resource_key_binds:
  assumes "compute_resource_key sha r = compute_resource_key sha r'"
  shows "r = r' \<or> resource_text r \<noteq> resource_text r' \<and> sha (resource_text r) = sha (resource_text r')"
  using assms resource_text_inj [of r r'] utf8_inj by (auto simp: compute_resource_key_def resource_text_def)

theorem resource_key_binds_witness:
  "(let r = \<lparr>wr_host_id = ''h'', wr_normalized_path = ''/a''\<rparr>;
        r' = \<lparr>wr_host_id = ''h'', wr_normalized_path = ''/b''\<rparr>
    in r = r' \<or> resource_text r \<noteq> resource_text r'
       \<and> zero_sha (resource_text r) = zero_sha (resource_text r'))"
  unfolding Let_def by (rule resource_key_binds) (simp add: compute_resource_key_def zero_sha_def)

lemma lease_check_context_Inr:
  "lease_check_context l (JObj c) = Inr u \<longleftrightarrow>
     dget c ''job_id'' = JStr (el_job_id l) \<and> dget c ''assigned_agent'' = JStr (el_agent_id l)
     \<and> dget c ''host_id'' = JStr (el_host_id l) \<and> dget c ''worktree_path'' = JStr (el_normalized_path l)"
  by (simp add: lease_check_context_def)

lemma lease_check_binding_Inr:
  "lease_check_binding l (JObj b) = Inr u \<longleftrightarrow>
     dget b ''executor_instance_id'' = JStr (el_agent_id l)
     \<and> dget b ''runner_profile_id'' = JStr (el_runner_profile_id l)"
  by (simp add: lease_check_binding_def)

lemma validate_execution_lease_iff:
  "validate_execution_lease sha data agent job token ctx binding = Inr l \<longleftrightarrow>
     parse_execution_lease data = Inr l \<and> el_agent_id l = agent
     \<and> (job = None \<or> job = Some (el_job_id l)) \<and> (token = None \<or> token = Some (el_attempt_token l))
     \<and> normalize_worktree_path (JStr (el_normalized_path l)) = Inr (el_normalized_path l)
     \<and> validate_host_id (JStr (el_host_id l)) = Inr (el_host_id l)
     \<and> el_resource_key l = compute_resource_key sha
         \<lparr>wr_host_id = el_host_id l, wr_normalized_path = el_normalized_path l\<rparr>
     \<and> lease_check_context l ctx = Inr () \<and> lease_check_binding l binding = Inr ()"
  by (auto simp: validate_execution_lease_def build_worktree_resource_def result_simps validate_host_id_Inr)

text \<open>
  C2: An accepted lease binds all it is cross-checked with: the lease names the expected agent, job
  and attempt, its path is the canonical path whose key (with the host) it carries, and the
  execution context and executor binding supplied name the same job, agent, host, worktree and
  runner profile.
\<close>
theorem validate_execution_lease_sound:
  assumes "validate_execution_lease sha data agent (Some job) (Some token) (JObj c) (JObj b) = Inr l"
  shows "lease_wf l \<and> el_agent_id l = agent \<and> el_job_id l = job \<and> el_attempt_token l = token
    \<and> normalize_worktree_path (JStr (el_normalized_path l)) = Inr (el_normalized_path l)
    \<and> el_resource_key l = compute_resource_key sha
        \<lparr>wr_host_id = el_host_id l, wr_normalized_path = el_normalized_path l\<rparr>
    \<and> dget c ''job_id'' = JStr job \<and> dget c ''assigned_agent'' = JStr agent
    \<and> dget c ''host_id'' = JStr (el_host_id l) \<and> dget c ''worktree_path'' = JStr (el_normalized_path l)
    \<and> dget b ''executor_instance_id'' = JStr agent
    \<and> dget b ''runner_profile_id'' = JStr (el_runner_profile_id l)"
proof -
  obtain d where "data = JObj d"
    using assms parse_execution_lease_obj by (auto simp: validate_execution_lease_iff)
  then show ?thesis
    using assms
    by (auto simp: validate_execution_lease_iff parse_execution_lease_iff lease_check_context_Inr
        lease_check_binding_Inr)
qed

definition example_context_fields :: dict where
  "example_context_fields =
     [(''job_id'', JStr ''job-1''), (''assigned_agent'', JStr ''claude''), (''host_id'', JStr ''mac-1''),
      (''worktree_path'', JStr ''/srv/w'')]"

definition example_binding_fields :: dict where
  "example_binding_fields =
     [(''executor_instance_id'', JStr ''claude''), (''runner_profile_id'', JStr ''claude'')]"

theorem validate_execution_lease_sound_witness: "el_job_id example_lease = ''job-1''"
proof -
  have "validate_execution_lease zero_sha (JObj (lease_to_dict example_lease)) ''claude'' (Some ''job-1'')
      (Some 2) (JObj example_context_fields) (JObj example_binding_fields) = Inr example_lease"
    by code_simp
  then show ?thesis
    using validate_execution_lease_sound by blast
qed

text \<open>
  Contrary to the documented contract, a rejected lease does not always raise
  \<open>ExecutionLeaseError\<close>: the parser allows host names of up to 256 characters while the resource
  identity allows 64, so a longer host name, with everything else in order, raises
  \<open>ResourceIdentityError\<close>.
\<close>
theorem long_host_id_escapes:
  assumes "parse_execution_lease data = Inr l" "64 < length (el_host_id l)"
    and "\<not> py_space (last (el_host_id l))"
    and "normalize_worktree_path (JStr (el_normalized_path l)) = Inr (el_normalized_path l)"
  shows "validate_execution_lease sha data (el_agent_id l) None None JNull JNull
    = Inl (ResourceIdentityError ''host_id exceeds 64 characters'')"
proof -
  obtain d where "data = JObj d"
    using assms(1) parse_execution_lease_obj by blast
  then have ok: "label_ok (el_host_id l)"
    using assms(1) by (simp add: parse_execution_lease_iff lease_wf_def)
  have "safe_label_char (hd (el_host_id l))"
    using ok assms(2) by (cases "el_host_id l"; cases "butlast (el_host_id l)")
      (auto simp: label_ok_def re_dollar_def safe_label_shape_def split: if_splits)
  then have "\<not> py_space (hd (el_host_id l))"
    by (auto simp: safe_label_char_def is_ascii_letter_def is_digit_def between_def py_space_def ord_def)
  then have "strip (el_host_id l) = el_host_id l" "el_host_id l \<noteq> []"
    using assms(2,3) by (auto intro: strip_id)
  then show ?thesis
    using assms by (simp add: validate_execution_lease_def build_worktree_resource_def validate_host_id_def
        MAX_HOST_ID_LEN_def)
qed

definition long_host_lease :: execution_lease where
  "long_host_lease = example_lease\<lparr>el_host_id := replicate 65 CHR ''h''\<rparr>"

theorem long_host_id_escapes_witness:
  "validate_execution_lease zero_sha (JObj (lease_to_dict long_host_lease)) ''claude'' None None JNull JNull
     = Inl (ResourceIdentityError ''host_id exceeds 64 characters'')"
proof -
  have "parse_execution_lease (JObj (lease_to_dict long_host_lease)) = Inr long_host_lease"
    by code_simp
  moreover have "64 < length (el_host_id long_host_lease)"
    by code_simp
  moreover have "\<not> py_space (last (el_host_id long_host_lease))"
    by code_simp
  moreover have "normalize_worktree_path (JStr (el_normalized_path long_host_lease))
      = Inr (el_normalized_path long_host_lease)"
    by code_simp
  moreover have "el_agent_id long_host_lease = ''claude''"
    by code_simp
  ultimately show ?thesis
    using long_host_id_escapes [of "JObj (lease_to_dict long_host_lease)" long_host_lease zero_sha] by simp
qed

end
