(* ===== verification/ExecutionContext.thy ===== *)
theory ExecutionContext
  imports ExecutionLease
begin

text \<open>
  \<open>multinexus/agentd/execution_context.py\<close>: the strict parser of Coordinate's v1 execution context
  and the validation of a \<open>runtime job claim\<close> response. As in \<open>ExecutionLease\<close>, the digest
  function is a parameter and an exception carries its message without the offending value.

  \<^item> \<open>parse_execution_context_iff\<close> characterises acceptance, \<open>context_wf\<close> is the invariant, and
    \<open>context_roundtrip\<close> the round trip with \<open>to_dict\<close>.
  \<^item> \<open>context_id_binds\<close>: one context id, one context, up to a digest collision.
  \<^item> \<open>validate_claim_response_sound\<close>: what a validated claim guarantees.
\<close>

datatype context_exc = ExecutionContextError string

definition CONTRACT_VERSION :: int where "CONTRACT_VERSION = 1"
definition MAX_SCOPE_LEN :: nat where "MAX_SCOPE_LEN = 256"
definition MAX_LEGACY_SCOPES :: nat where "MAX_LEGACY_SCOPES = 10"

definition V1_SNAPSHOT_KEYS :: "string list" where
  "V1_SNAPSHOT_KEYS =
     [''assigned_agent'', ''branch'', ''contract_version'', ''context_id'', ''harness_root'', ''host_id'',
      ''job_id'', ''legacy_scope_ids'', ''log_handle'', ''session_scope_id'', ''task_id'',
      ''worktree_path'', ''workspace_id'', ''workspace_path'']"

definition LOG_HANDLE_KEYS :: "string list" where
  "LOG_HANDLE_KEYS = [''kind'', ''job_id'', ''logs_path'']"

record execution_context =
  ec_context_id :: string
  ec_job_id :: string
  ec_workspace_id :: string
  ec_task_id :: "string option"
  ec_assigned_agent :: string
  ec_host_id :: string
  ec_workspace_path :: string
  ec_worktree_path :: string
  ec_harness_root :: string
  ec_branch :: "string option"
  ec_session_scope_id :: string
  ec_legacy_scope_ids :: "string list"
  ec_log_handle :: dict

definition context_to_dict :: "execution_context \<Rightarrow> dict" where
  "context_to_dict c =
     [(''contract_version'', JInt CONTRACT_VERSION),
      (''context_id'', JStr (ec_context_id c)),
      (''job_id'', JStr (ec_job_id c)),
      (''workspace_id'', JStr (ec_workspace_id c)),
      (''task_id'', opt_str (ec_task_id c)),
      (''assigned_agent'', JStr (ec_assigned_agent c)),
      (''host_id'', JStr (ec_host_id c)),
      (''workspace_path'', JStr (ec_workspace_path c)),
      (''worktree_path'', JStr (ec_worktree_path c)),
      (''harness_root'', JStr (ec_harness_root c)),
      (''branch'', opt_str (ec_branch c)),
      (''session_scope_id'', JStr (ec_session_scope_id c)),
      (''legacy_scope_ids'', JList (map JStr (ec_legacy_scope_ids c))),
      (''log_handle'', JObj (ec_log_handle c))]"

text \<open>Property \<open>cwd\<close>.\<close>
definition context_cwd :: "execution_context \<Rightarrow> string" where
  "context_cwd c = ec_worktree_path c"

definition compute_context_id :: "(string \<Rightarrow> string) \<Rightarrow> dict \<Rightarrow> string" where
  "compute_context_id sha canonical = ''sha256:'' @ sha (utf8 (canonical_json (JObj canonical)))"

section \<open>Field validation\<close>

text \<open>\<open>path.startswith("/")\<close> or a match of \<open>^([A-Za-z]:[\\/]|\\{2})\<close>.\<close>
definition isabs :: "string \<Rightarrow> bool" where
  "isabs path =
     (startswith path ''/''
      \<or> (3 \<le> length path \<and> is_ascii_letter (path ! 0) \<and> path ! 1 = CHR '':''
          \<and> (path ! 2 = bslash \<or> path ! 2 = CHR ''/''))
      \<or> startswith path [bslash, bslash])"

definition has_traversal :: "string list \<Rightarrow> bool" where
  "has_traversal segments = list_ex (\<lambda>seg. seg = ''..'' \<or> seg = ''.'') segments"

definition context_path :: "json \<Rightarrow> string \<Rightarrow> context_exc + string" where
  "context_path value label =
     (case value of
        JStr s \<Rightarrow>
          if s = [] then Inl (ExecutionContextError (label @ '' is required''))
          else if CHR 0x00 \<in> set s \<or> nl \<in> set s \<or> CHR 0x0D \<in> set s
            then Inl (ExecutionContextError (label @ '' contains NUL or newline''))
          else if \<not> isabs s then Inl (ExecutionContextError (label @ '' must be absolute''))
          else if has_traversal (split_on CHR ''/'' (replace_char bslash CHR ''/'' s))
            then Inl (ExecutionContextError (label @ '' contains traversal''))
          else Inr s
      | _ \<Rightarrow> Inl (ExecutionContextError (label @ '' is required'')))"

text \<open>\<open>_is_nonempty_string(value, nullable=True)\<close>\<close>
definition nullable_string :: "json \<Rightarrow> context_exc + string option" where
  "nullable_string value =
     (case value of
        JNull \<Rightarrow> Inr None
      | JStr s \<Rightarrow>
          if strip s = [] then Inl (ExecutionContextError ''required string field is empty or not a string'')
          else Inr (Some s)
      | _ \<Rightarrow> Inl (ExecutionContextError ''required string field is empty or not a string''))"

definition context_required_string :: "json \<Rightarrow> string \<Rightarrow> context_exc + string" where
  "context_required_string value label =
     (case value of
        JStr s \<Rightarrow>
          if s = [] then Inl (ExecutionContextError (label @ '' is required''))
          else if strip s = []
            then Inl (ExecutionContextError (label @ '' must be a non-empty string''))
          else Inr s
      | _ \<Rightarrow> Inl (ExecutionContextError (label @ '' is required'')))"

definition scope_char :: "char \<Rightarrow> bool" where
  "scope_char c = (is_ascii_letter c \<or> is_digit c \<or> c \<in> {CHR ''_'', CHR ''.'', CHR '':'', CHR ''/'', CHR ''-''})"

text \<open>\<open>^[A-Za-z0-9_.:/-]+$\<close> up to a final line feed.\<close>
definition scope_shape :: "string \<Rightarrow> bool" where
  "scope_shape s = (s \<noteq> [] \<and> list_all scope_char s)"

definition context_scope :: "json \<Rightarrow> string \<Rightarrow> context_exc + string" where
  "context_scope value label =
     (case value of
        JStr s \<Rightarrow>
          if s = [] then Inl (ExecutionContextError (label @ '' is required''))
          else if length s > MAX_SCOPE_LEN \<or> \<not> re_dollar scope_shape s
            then Inl (ExecutionContextError (label @ '' contains unsafe characters''))
          else Inr s
      | _ \<Rightarrow> Inl (ExecutionContextError (label @ '' is required'')))"

definition canonical_snapshot_dict :: "execution_context \<Rightarrow> dict" where
  "canonical_snapshot_dict c =
     [(''assigned_agent'', JStr (ec_assigned_agent c)),
      (''branch'', opt_str (ec_branch c)),
      (''contract_version'', JInt CONTRACT_VERSION),
      (''harness_root'', JStr (ec_harness_root c)),
      (''host_id'', JStr (ec_host_id c)),
      (''job_id'', JStr (ec_job_id c)),
      (''legacy_scope_ids'', JList (map JStr (ec_legacy_scope_ids c))),
      (''log_handle'', JObj (ec_log_handle c)),
      (''session_scope_id'', JStr (ec_session_scope_id c)),
      (''task_id'', opt_str (ec_task_id c)),
      (''worktree_path'', JStr (ec_worktree_path c)),
      (''workspace_id'', JStr (ec_workspace_id c)),
      (''workspace_path'', JStr (ec_workspace_path c))]"

definition log_handle_dict :: "string \<Rightarrow> string option \<Rightarrow> dict" where
  "log_handle_dict job_id logs_path =
     [(''kind'', JStr ''coordinate_job''), (''job_id'', JStr job_id), (''logs_path'', opt_str logs_path)]"

definition validate_log_handle :: "json \<Rightarrow> string \<Rightarrow> context_exc + dict" where
  "validate_log_handle value expected_job_id =
     (case value of
        JObj h \<Rightarrow>
          if \<not> keys_are h LOG_HANDLE_KEYS
            then Inl (ExecutionContextError ''log_handle has incorrect keys'')
          else if dget h ''kind'' \<noteq> JStr ''coordinate_job''
            then Inl (ExecutionContextError ''log_handle.kind must be coordinate_job'')
          else
            (case dget h ''job_id'' of
               JStr job_id \<Rightarrow>
                 if job_id = [] then Inl (ExecutionContextError ''log_handle.job_id is required'')
                 else if job_id \<noteq> expected_job_id
                   then Inl (ExecutionContextError ''log_handle.job_id mismatch'')
                 else
                   (case dget h ''logs_path'' of
                      JNull \<Rightarrow> Inr (log_handle_dict job_id None)
                    | JStr p \<Rightarrow>
                        if p = [] then Inl (ExecutionContextError ''log_handle.logs_path must be a non-empty string or null'')
                        else ebind (context_path (JStr p) ''log_handle.logs_path'') (\<lambda>_.
                             Inr (log_handle_dict job_id (Some p)))
                    | _ \<Rightarrow> Inl (ExecutionContextError ''log_handle.logs_path must be a non-empty string or null''))
             | _ \<Rightarrow> Inl (ExecutionContextError ''log_handle.job_id is required''))
      | _ \<Rightarrow> Inl (ExecutionContextError ''log_handle must be an object''))"

text \<open>The loop over \<open>raw_legacy\<close>; \<open>acc\<close> is both \<open>legacy_scope_ids\<close> and \<open>seen\<close>.\<close>
fun legacy_loop :: "string \<Rightarrow> string list \<Rightarrow> json list \<Rightarrow> context_exc + string list" where
  "legacy_loop session_scope_id acc [] = Inr acc"
| "legacy_loop session_scope_id acc (item # items) =
     ebind (context_scope item ''legacy_scope_ids item'') (\<lambda>scoped.
     if scoped \<in> set acc \<or> scoped = session_scope_id
       then Inl (ExecutionContextError ''legacy_scope_ids contains duplicate'')
     else legacy_loop session_scope_id (acc @ [scoped]) items)"

definition context_legacy :: "json \<Rightarrow> string \<Rightarrow> context_exc + string list" where
  "context_legacy raw_legacy session_scope_id =
     (case raw_legacy of
        JList items \<Rightarrow>
          if length items > MAX_LEGACY_SCOPES
            then Inl (ExecutionContextError ''legacy_scope_ids exceeds 10'')
          else legacy_loop session_scope_id [] items
      | _ \<Rightarrow> Inl (ExecutionContextError ''legacy_scope_ids must be a list''))"

definition validate_context_id :: "json \<Rightarrow> context_exc + string" where
  "validate_context_id value =
     (case value of
        JStr s \<Rightarrow>
          if re_dollar digest_shape s then Inr s
          else Inl (ExecutionContextError ''execution_context.context_id must be sha256:<64-hex>'')
      | _ \<Rightarrow> Inl (ExecutionContextError ''execution_context.context_id must be sha256:<64-hex>''))"

section \<open>parse_execution_context\<close>

text \<open>The expected identities are \<open>None\<close> (\<open>JNull\<close>: not checked) or a value to be equal to.\<close>
definition parse_execution_context ::
  "(string \<Rightarrow> string) \<Rightarrow> json \<Rightarrow> json \<Rightarrow> json \<Rightarrow> json \<Rightarrow> context_exc + execution_context" where
  "parse_execution_context sha data expected_job_id expected_workspace_id expected_assigned_agent =
    (case data of
      JObj d \<Rightarrow>
      if \<not> keys_are d V1_SNAPSHOT_KEYS
        then Inl (ExecutionContextError ''execution_context has incorrect keys'')
      else if \<not> equals_one (dget d ''contract_version'')
        then Inl (ExecutionContextError ''execution_context contract_version must be 1'')
      else
      ebind (validate_context_id (dget d ''context_id'')) (\<lambda>supplied_id.
      ebind (context_required_string (dget d ''job_id'') ''execution_context.job_id'') (\<lambda>job_id.
      ebind (context_required_string (dget d ''workspace_id'') ''execution_context.workspace_id'') (\<lambda>workspace_id.
      ebind (context_required_string (dget d ''assigned_agent'') ''execution_context.assigned_agent'') (\<lambda>assigned_agent.
      ebind (context_required_string (dget d ''host_id'') ''execution_context.host_id'') (\<lambda>host_id.
      ebind (context_path (dget d ''workspace_path'') ''execution_context.workspace_path'') (\<lambda>workspace_path.
      ebind (context_path (dget d ''worktree_path'') ''execution_context.worktree_path'') (\<lambda>worktree_path.
      ebind (context_path (dget d ''harness_root'') ''execution_context.harness_root'') (\<lambda>harness_root.
      ebind (context_scope (dget d ''session_scope_id'') ''execution_context.session_scope_id'') (\<lambda>session_scope_id.
      ebind (nullable_string (dget d ''branch'')) (\<lambda>branch.
      ebind (nullable_string (dget d ''task_id'')) (\<lambda>task_id.
      ebind (context_legacy (dget d ''legacy_scope_ids'') session_scope_id) (\<lambda>legacy_scope_ids.
      ebind (validate_log_handle (dget d ''log_handle'') job_id) (\<lambda>log_handle.
      let ctx = \<lparr>ec_context_id = supplied_id, ec_job_id = job_id, ec_workspace_id = workspace_id,
                 ec_task_id = task_id, ec_assigned_agent = assigned_agent, ec_host_id = host_id,
                 ec_workspace_path = workspace_path, ec_worktree_path = worktree_path,
                 ec_harness_root = harness_root, ec_branch = branch,
                 ec_session_scope_id = session_scope_id, ec_legacy_scope_ids = legacy_scope_ids,
                 ec_log_handle = log_handle\<rparr>
      in
      if compute_context_id sha (canonical_snapshot_dict ctx) \<noteq> supplied_id
        then Inl (ExecutionContextError ''execution_context digest mismatch'')
      else if expected_job_id \<noteq> JNull \<and> JStr (ec_job_id ctx) \<noteq> expected_job_id
        then Inl (ExecutionContextError ''execution_context job_id mismatch'')
      else if expected_workspace_id \<noteq> JNull \<and> JStr (ec_workspace_id ctx) \<noteq> expected_workspace_id
        then Inl (ExecutionContextError ''execution_context workspace_id mismatch'')
      else if expected_assigned_agent \<noteq> JNull \<and> JStr (ec_assigned_agent ctx) \<noteq> expected_assigned_agent
        then Inl (ExecutionContextError ''execution_context assigned_agent mismatch'')
      else Inr ctx)))))))))))))
    | _ \<Rightarrow> Inl (ExecutionContextError ''execution_context must be an object''))"

section \<open>validate_claim_response\<close>

text \<open>\<open>None\<close> for no response; a bool counts as an int, as \<open>isinstance(v, int)\<close> has it.\<close>
definition validate_claim_response ::
  "(string \<Rightarrow> string) \<Rightarrow> dict option \<Rightarrow> string \<Rightarrow> string option
   \<Rightarrow> context_exc + dict \<times> execution_context \<times> int" where
  "validate_claim_response sha response agent_id workspace_id =
    (case response of
      None \<Rightarrow> Inl (ExecutionContextError ''coordinate claim returned no response'')
    | Some resp \<Rightarrow>
    (case dget resp ''result'' of
      JObj res \<Rightarrow>
      if \<not> truthy (dget res ''claimed'')
        then Inl (ExecutionContextError ''coordinate claim did not return a claimed job'')
      else
      (case dget res ''job'' of
        JObj job \<Rightarrow>
        (case as_int (dget res ''attempt_token'') of
          None \<Rightarrow> Inl (ExecutionContextError ''coordinate claim missing attempt_token'')
        | Some attempt_token \<Rightarrow>
        (case dget res ''execution_context'' of
          JObj raw \<Rightarrow>
          ebind (parse_execution_context sha (JObj raw) (dget job ''id'') (opt_str workspace_id) (JStr agent_id)) (\<lambda>ctx.
          if opt_str (ec_task_id ctx) \<noteq> dget job ''task_id''
            then Inl (ExecutionContextError ''execution_context task_id mismatch'')
          else if dget job ''workspace_id'' \<noteq> JNull \<and> JStr (ec_workspace_id ctx) \<noteq> dget job ''workspace_id''
            then Inl (ExecutionContextError ''execution_context workspace_id mismatch'')
          else if dget job ''assigned_agent'' \<noteq> JNull \<and> JStr (ec_assigned_agent ctx) \<noteq> dget job ''assigned_agent''
            then Inl (ExecutionContextError ''execution_context assigned_agent mismatch'')
          else
          (case as_int (dget job ''attempt_count'') of
            None \<Rightarrow> Inl (ExecutionContextError ''job attempt_count must be an integer'')
          | Some job_attempt_count \<Rightarrow>
              if attempt_token \<noteq> job_attempt_count
                then Inl (ExecutionContextError ''attempt_token mismatch'')
              else if attempt_token < 1
                then Inl (ExecutionContextError ''attempt_token must be positive'')
              else Inr (job, ctx, attempt_token)))
        | _ \<Rightarrow> Inl (ExecutionContextError ''coordinate claim missing execution_context'')))
      | _ \<Rightarrow> Inl (ExecutionContextError ''coordinate claim missing job''))
    | _ \<Rightarrow> Inl (ExecutionContextError ''coordinate claim response missing result'')))"

section \<open>What the parser accepts\<close>

named_theorems context_accepts "when a field validator returns"

definition authority_path_ok :: "string \<Rightarrow> bool" where
  "authority_path_ok s =
     (isabs s \<and> CHR 0x00 \<notin> set s \<and> nl \<notin> set s \<and> CHR 0x0D \<notin> set s
      \<and> \<not> has_traversal (split_on CHR ''/'' (replace_char bslash CHR ''/'' s)))"

definition scope_ok :: "string \<Rightarrow> bool" where
  "scope_ok s = (length s \<le> MAX_SCOPE_LEN \<and> re_dollar scope_shape s)"

lemma isabs_not_Nil: "isabs s \<Longrightarrow> s \<noteq> []"
  by (auto simp: isabs_def)

lemma not_isabs_Nil [simp]: "\<not> isabs []"
  by (simp add: isabs_def)

lemma scope_ok_not_Nil: "scope_ok s \<Longrightarrow> s \<noteq> []"
  by (auto simp: scope_ok_def re_dollar_def scope_shape_def)

lemma context_path_Inr [context_accepts]: "context_path v label = Inr s \<longleftrightarrow> v = JStr s \<and> authority_path_ok s"
  using isabs_not_Nil by (auto simp: context_path_def authority_path_ok_def split: json.splits if_splits)

lemma context_required_string_Inr [context_accepts]:
  "context_required_string v label = Inr s \<longleftrightarrow> v = JStr s \<and> strip s \<noteq> []"
  by (auto simp: context_required_string_def split: json.splits if_splits)

lemma nullable_string_Inr [context_accepts]:
  "nullable_string v = Inr r \<longleftrightarrow> v = opt_str r \<and> (\<forall>s. r = Some s \<longrightarrow> strip s \<noteq> [])"
  by (cases r) (auto simp: nullable_string_def opt_str_def split: json.splits if_splits)

lemma context_scope_Inr [context_accepts]: "context_scope v label = Inr s \<longleftrightarrow> v = JStr s \<and> scope_ok s"
  using scope_ok_not_Nil by (auto simp: context_scope_def scope_ok_def split: json.splits if_splits)

lemma legacy_loop_Inr:
  "legacy_loop sess acc items = Inr ys \<longleftrightarrow>
     (\<exists>zs. ys = acc @ zs \<and> items = map JStr zs \<and> list_all scope_ok zs \<and> sess \<notin> set zs
        \<and> distinct zs \<and> set acc \<inter> set zs = {})"
proof (induction items arbitrary: acc)
  case (Cons item items)
  show ?case
    by (simp add: result_simps context_accepts Cons.IH, rule iffI; clarsimp)
qed auto

definition legacy_ok :: "string \<Rightarrow> string list \<Rightarrow> bool" where
  "legacy_ok sess zs =
     (list_all scope_ok zs \<and> sess \<notin> set zs \<and> distinct zs \<and> length zs \<le> MAX_LEGACY_SCOPES)"

lemma context_legacy_Inr [context_accepts]:
  "context_legacy v sess = Inr zs \<longleftrightarrow> v = JList (map JStr zs) \<and> legacy_ok sess zs"
  by (auto simp: context_legacy_def legacy_loop_Inr legacy_ok_def split: json.splits)

lemma validate_context_id_Inr [context_accepts]:
  "validate_context_id v = Inr s \<longleftrightarrow> v = JStr s \<and> re_dollar digest_shape s"
  by (auto simp: validate_context_id_def split: json.splits)

text \<open>The log handles that the parser builds.\<close>
definition log_handle_ok :: "string \<Rightarrow> dict \<Rightarrow> bool" where
  "log_handle_ok job_id h =
     (job_id \<noteq> [] \<and> (case map_of h ''logs_path'' of
        Some JNull \<Rightarrow> h = log_handle_dict job_id None
      | Some (JStr p) \<Rightarrow> h = log_handle_dict job_id (Some p) \<and> authority_path_ok p
      | _ \<Rightarrow> False))"

lemma log_handle_ok_iff:
  "log_handle_ok job_id h \<longleftrightarrow>
     job_id \<noteq> [] \<and> (\<exists>lp. h = log_handle_dict job_id lp \<and> (\<forall>p. lp = Some p \<longrightarrow> authority_path_ok p))"
proof (cases "map_of h ''logs_path''")
  case None
  then show ?thesis
    by (auto simp: log_handle_ok_def log_handle_dict_def)
next
  case (Some v)
  have "map_of (log_handle_dict job_id lp) ''logs_path'' = Some (opt_str lp)" for lp
    by (simp add: log_handle_dict_def)
  with Some show ?thesis
    by (cases v) (auto simp: log_handle_ok_def opt_str_def split: option.splits)
qed

lemma log_handle_dict_inj [simp]:
  "log_handle_dict j lp = log_handle_dict j' lp' \<longleftrightarrow> j = j' \<and> lp = lp'"
  by (simp add: log_handle_dict_def)

lemma holds_log_handle:
  "holds_fields h (log_handle_dict j lp) \<longleftrightarrow>
     dget h ''kind'' = JStr ''coordinate_job'' \<and> dget h ''job_id'' = JStr j \<and> dget h ''logs_path'' = opt_str lp"
  by (simp add: holds_fields_def log_handle_dict_def)

lemma opt_str_eq [simp]:
  "opt_str lp = JNull \<longleftrightarrow> lp = None" "opt_str lp = JStr s \<longleftrightarrow> lp = Some s"
  "JNull = opt_str lp \<longleftrightarrow> lp = None" "JStr s = opt_str lp \<longleftrightarrow> lp = Some s"
  "opt_str lp \<noteq> JBool b" "opt_str lp \<noteq> JInt i" "opt_str lp \<noteq> JFloat f"
  "opt_str lp \<noteq> JList xs" "opt_str lp \<noteq> JObj d"
  "JBool b \<noteq> opt_str lp" "JInt i \<noteq> opt_str lp" "JFloat f \<noteq> opt_str lp"
  "JList xs \<noteq> opt_str lp" "JObj d \<noteq> opt_str lp"
  by (auto simp: opt_str_def split: option.splits)

lemma validate_log_handle_obj:
  "validate_log_handle (JObj h) job_id = Inr lh \<longleftrightarrow>
     keys_are h LOG_HANDLE_KEYS \<and> holds_fields h lh \<and> log_handle_ok job_id lh"
proof (cases "dget h ''logs_path''")
  case JNull
  then show ?thesis
    unfolding log_handle_ok_iff validate_log_handle_def
    by (auto simp: holds_log_handle split: json.splits)
next
  case (JStr p)
  show ?thesis
    unfolding log_handle_ok_iff validate_log_handle_def
    by (auto simp: JStr holds_log_handle result_simps context_accepts authority_path_ok_def isabs_not_Nil
        split: json.splits)
qed (unfold log_handle_ok_iff validate_log_handle_def, auto simp: holds_log_handle split: json.splits)

lemma validate_log_handle_Inr:
  "validate_log_handle v job_id = Inr lh \<longleftrightarrow>
     (\<exists>h. v = JObj h \<and> keys_are h LOG_HANDLE_KEYS \<and> holds_fields h lh \<and> log_handle_ok job_id lh)"
proof (cases v)
  case (JObj h)
  then show ?thesis
    by (simp add: validate_log_handle_obj)
qed (simp_all add: validate_log_handle_def)

text \<open>The invariant of a parsed context.\<close>
definition context_wf :: "execution_context \<Rightarrow> bool" where
  "context_wf c =
     (re_dollar digest_shape (ec_context_id c)
      \<and> strip (ec_job_id c) \<noteq> [] \<and> strip (ec_workspace_id c) \<noteq> []
      \<and> strip (ec_assigned_agent c) \<noteq> [] \<and> strip (ec_host_id c) \<noteq> []
      \<and> authority_path_ok (ec_workspace_path c) \<and> authority_path_ok (ec_worktree_path c)
      \<and> authority_path_ok (ec_harness_root c) \<and> scope_ok (ec_session_scope_id c)
      \<and> (\<forall>s. ec_branch c = Some s \<longrightarrow> strip s \<noteq> []) \<and> (\<forall>s. ec_task_id c = Some s \<longrightarrow> strip s \<noteq> [])
      \<and> legacy_ok (ec_session_scope_id c) (ec_legacy_scope_ids c)
      \<and> log_handle_ok (ec_job_id c) (ec_log_handle c))"

text \<open>The object carries the context's fields, its log handle up to the order of its keys.\<close>
definition holds_context :: "dict \<Rightarrow> execution_context \<Rightarrow> bool" where
  "holds_context d c \<longleftrightarrow>
     (\<exists>h. dget d ''log_handle'' = JObj h \<and> keys_are h LOG_HANDLE_KEYS \<and> holds_fields h (ec_log_handle c))
     \<and> equals_one (dget d ''contract_version'')
     \<and> holds_fields d (filter (\<lambda>(k, v). k \<noteq> ''contract_version'' \<and> k \<noteq> ''log_handle'') (context_to_dict c))"

definition expected_ok :: "json \<Rightarrow> string \<Rightarrow> bool" where
  "expected_ok e s = (e = JNull \<or> e = JStr s)"

lemma parse_execution_context_iff:
  "parse_execution_context sha (JObj d) job ws agent = Inr c \<longleftrightarrow>
     keys_are d V1_SNAPSHOT_KEYS \<and> holds_context d c \<and> context_wf c
     \<and> ec_context_id c = compute_context_id sha (canonical_snapshot_dict c)
     \<and> expected_ok job (ec_job_id c) \<and> expected_ok ws (ec_workspace_id c)
     \<and> expected_ok agent (ec_assigned_agent c)"
  (is "?lhs \<longleftrightarrow> ?rhs")
proof
  assume ?lhs
  then show ?rhs
    by (clarsimp simp: parse_execution_context_def result_simps context_accepts validate_log_handle_Inr
        Let_def holds_context_def holds_fields_def context_to_dict_def context_wf_def expected_ok_def) blast
next
  assume ?rhs
  then show ?lhs
    by (cases c) (auto simp: parse_execution_context_def result_simps context_accepts validate_log_handle_Inr
        Let_def holds_context_def holds_fields_def context_to_dict_def context_wf_def expected_ok_def)
qed

lemma parse_execution_context_obj:
  "parse_execution_context sha data job ws agent = Inr c \<Longrightarrow> \<exists>d. data = JObj d"
  by (auto simp: parse_execution_context_def split: json.splits)

section \<open>Properties of the parser\<close>

lemma context_parse_facts:
  assumes "parse_execution_context sha data job ws agent = Inr c"
  shows "context_wf c" and "ec_context_id c = compute_context_id sha (canonical_snapshot_dict c)"
proof -
  obtain d where "data = JObj d"
    using assms parse_execution_context_obj by blast
  then show "context_wf c" "ec_context_id c = compute_context_id sha (canonical_snapshot_dict c)"
    using assms by (simp_all add: parse_execution_context_iff)
qed

text \<open>
  A context that the parser returns satisfies the whole invariant: its authority paths are
  absolute and free of "." and ".." segments, its scopes are bounded and at most ten legacy scopes
  are distinct and differ from the session scope, and its id is the digest of its own canonical text.
\<close>
theorem context_parse_sound:
  assumes "parse_execution_context sha data job ws agent = Inr c"
  shows "context_wf c \<and> ec_context_id c = compute_context_id sha (canonical_snapshot_dict c)
    \<and> isabs (context_cwd c)
    \<and> ''..'' \<notin> set (split_on CHR ''/'' (replace_char bslash CHR ''/'' (context_cwd c)))
    \<and> distinct (ec_session_scope_id c # ec_legacy_scope_ids c) \<and> length (ec_legacy_scope_ids c) \<le> 10"
  using context_parse_facts [OF assms]
  by (auto simp: context_wf_def context_cwd_def authority_path_ok_def legacy_ok_def MAX_LEGACY_SCOPES_def
      has_traversal_def list_ex_iff)

lemma distinct_context_keys: "distinct (keys (context_to_dict c))"
  unfolding keys_def context_to_dict_def by simp

lemma keys_are_context: "keys_are (context_to_dict c) V1_SNAPSHOT_KEYS"
  by (simp add: keys_are_def keys_def context_to_dict_def V1_SNAPSHOT_KEYS_def)

lemma holds_context_self:
  assumes "log_handle_ok (ec_job_id c) (ec_log_handle c)"
  shows "holds_context (context_to_dict c) c"
proof -
  have "holds_fields (context_to_dict c) (filter P (context_to_dict c))" for P
    using holds_fields_self [OF distinct_context_keys] by (auto simp: holds_fields_def list_all_iff)
  moreover have "dget (context_to_dict c) ''log_handle'' = JObj (ec_log_handle c)"
    "dget (context_to_dict c) ''contract_version'' = JInt 1"
    by (simp_all add: context_to_dict_def dget_Cons CONTRACT_VERSION_def)
  moreover obtain lp where "ec_log_handle c = log_handle_dict (ec_job_id c) lp"
    using assms by (auto simp: log_handle_ok_iff)
  then have "holds_fields (ec_log_handle c) (ec_log_handle c)" "keys_are (ec_log_handle c) LOG_HANDLE_KEYS"
    by (simp_all add: holds_fields_self keys_are_def keys_def log_handle_dict_def LOG_HANDLE_KEYS_def)
  ultimately show ?thesis
    by (simp add: holds_context_def)
qed

text \<open>
  Parsing and \<open>to_dict\<close> are inverse: the dictionary written for a parsed context parses, under
  any expectation the context meets, to the same context.
\<close>
theorem context_roundtrip:
  assumes "parse_execution_context sha data job ws agent = Inr c"
  shows "parse_execution_context sha (JObj (context_to_dict c)) job ws agent = Inr c"
proof -
  obtain d where "data = JObj d"
    using assms parse_execution_context_obj by blast
  moreover from this have "log_handle_ok (ec_job_id c) (ec_log_handle c)"
    using assms by (simp add: parse_execution_context_iff context_wf_def)
  ultimately show ?thesis
    using assms holds_context_self [of c] keys_are_context [of c]
    by (simp add: parse_execution_context_iff)
qed

definition example_context :: execution_context where
  "example_context =
     \<lparr>ec_context_id = ''sha256:'' @ zero_sha [], ec_job_id = ''job-1'', ec_workspace_id = ''ws'',
      ec_task_id = Some ''t-1'', ec_assigned_agent = ''claude'', ec_host_id = ''mac-1'',
      ec_workspace_path = ''/srv'', ec_worktree_path = ''/srv/w'', ec_harness_root = ''/srv/h'',
      ec_branch = None, ec_session_scope_id = ''task:ws:t-1'', ec_legacy_scope_ids = [''42''],
      ec_log_handle = log_handle_dict ''job-1'' None\<rparr>"

lemma example_context_parses:
  "parse_execution_context zero_sha (JObj (context_to_dict example_context)) JNull JNull JNull = Inr example_context"
  by code_simp

theorem context_parse_sound_witness: "isabs (context_cwd example_context)"
  using context_parse_sound [OF example_context_parses] by blast

theorem context_roundtrip_witness:
  "parse_execution_context zero_sha (JObj (context_to_dict example_context)) (JStr ''job-1'') JNull (JStr ''claude'')
     = Inr example_context"
proof (rule context_roundtrip)
  show "parse_execution_context zero_sha (JObj (rev (context_to_dict example_context))) (JStr ''job-1'') JNull (JStr ''claude'')
     = Inr example_context"
    by code_simp
qed

lemma sort_keys_opt_str [simp]: "sort_keys (opt_str s) = opt_str s"
  by (simp add: opt_str_def split: option.splits)

lemma float_free_opt_str [simp]: "float_free (opt_str s)"
  by (simp add: opt_str_def split: option.splits)

lemma map_sort_keys_JStr [simp]: "map (sort_keys \<circ> JStr) zs = map JStr zs"
  by simp

lemma log_handle_texts:
  assumes "log_handle_ok j lh" "log_handle_ok j lh'" "sort_keys (JObj lh) = sort_keys (JObj lh')"
  shows "lh = lh'"
proof -
  obtain lp lp' where lp: "lh = log_handle_dict j lp" "lh' = log_handle_dict j lp'"
    using assms(1,2) by (auto simp: log_handle_ok_iff)
  have "sort_keys (dget lh ''logs_path'') = sort_keys (dget lh' ''logs_path'')"
    using assms(3) by (rule sort_keys_obj_eq) (simp_all add: lp log_handle_dict_def keys_def)
  then show ?thesis
    by (simp add: lp log_handle_dict_def dget_Cons)
qed

lemma float_free_log_handle: "log_handle_ok j lh \<Longrightarrow> float_free (JObj lh)"
  by (auto simp: log_handle_ok_iff log_handle_dict_def)

lemma snapshot_text_inj:
  assumes "canonical_json (JObj (canonical_snapshot_dict c)) = canonical_json (JObj (canonical_snapshot_dict c'))"
    and "context_wf c" "context_wf c'" "ec_context_id c = ec_context_id c'"
  shows "c = c'"
proof -
  have lh: "log_handle_ok (ec_job_id c) (ec_log_handle c)" "log_handle_ok (ec_job_id c') (ec_log_handle c')"
    using assms(2,3) by (simp_all add: context_wf_def)
  have "float_free (JObj (canonical_snapshot_dict x))" if "log_handle_ok (ec_job_id x) (ec_log_handle x)" for x
    using float_free_log_handle [OF that] by (simp add: canonical_snapshot_dict_def list_all_iff)
  then have "sort_keys (JObj (canonical_snapshot_dict c)) = sort_keys (JObj (canonical_snapshot_dict c'))"
    using assms(1) lh by (intro canonical_json_inj) blast+
  then have get: "sort_keys (dget (canonical_snapshot_dict c) k) = sort_keys (dget (canonical_snapshot_dict c') k)" for k
    by (rule sort_keys_obj_eq) (simp_all add: canonical_snapshot_dict_def keys_def)
  note eqs = get [of "''assigned_agent''"] get [of "''branch''"] get [of "''harness_root''"] get [of "''host_id''"]
    get [of "''job_id''"] get [of "''legacy_scope_ids''"] get [of "''session_scope_id''"] get [of "''task_id''"]
    get [of "''worktree_path''"] get [of "''workspace_id''"] get [of "''workspace_path''"]
  have "ec_log_handle c = ec_log_handle c'"
    using get [of "''log_handle''"] lh eqs(5)
    by (intro log_handle_texts [of "ec_job_id c"]) (simp_all add: canonical_snapshot_dict_def dget_Cons)
  then show ?thesis
    using eqs assms(4)
    by (simp add: canonical_snapshot_dict_def dget_Cons inj_map_eq_map inj_def)
qed

text \<open>The bytes whose digest is the context id.\<close>
definition context_text :: "execution_context \<Rightarrow> string" where
  "context_text c = utf8 (canonical_json (JObj (canonical_snapshot_dict c)))"

text \<open>
  The context id identifies the context: two accepted contexts with the same id are the same
  context, or their own canonical texts differ and are a collision of the digest.
\<close>
theorem context_id_binds:
  assumes "parse_execution_context sha data job ws agent = Inr c"
    and "parse_execution_context sha data' job' ws' agent' = Inr c'"
    and "ec_context_id c = ec_context_id c'"
  shows "c = c' \<or> context_text c \<noteq> context_text c' \<and> sha (context_text c) = sha (context_text c')"
proof -
  have wf: "context_wf c" "context_wf c'"
    and ids: "ec_context_id c = ''sha256:'' @ sha (context_text c)"
      "ec_context_id c' = ''sha256:'' @ sha (context_text c')"
    using context_parse_facts [OF assms(1)] context_parse_facts [OF assms(2)]
    by (simp_all add: compute_context_id_def context_text_def)
  have "sha (context_text c) = sha (context_text c')"
    using ids assms(3) by simp
  moreover have "c = c'" if "context_text c = context_text c'"
    using that snapshot_text_inj [OF _ wf assms(3)] by (auto simp: context_text_def dest: utf8_inj)
  ultimately show ?thesis
    by blast
qed

theorem context_id_binds_witness:
  "example_context = example_context
   \<or> context_text example_context \<noteq> context_text example_context
     \<and> zero_sha (context_text example_context) = zero_sha (context_text example_context)"
  by (rule context_id_binds [OF example_context_parses example_context_parses]) simp

section \<open>Claims\<close>

lemma validate_claim_response_iff:
  "validate_claim_response sha (Some resp) agent ws = Inr (job, c, token) \<longleftrightarrow>
     (\<exists>res raw. dget resp ''result'' = JObj res \<and> truthy (dget res ''claimed'')
        \<and> dget res ''job'' = JObj job \<and> as_int (dget res ''attempt_token'') = Some token
        \<and> dget res ''execution_context'' = JObj raw
        \<and> parse_execution_context sha (JObj raw) (dget job ''id'') (opt_str ws) (JStr agent) = Inr c
        \<and> dget job ''task_id'' = opt_str (ec_task_id c)
        \<and> expected_ok (dget job ''workspace_id'') (ec_workspace_id c)
        \<and> expected_ok (dget job ''assigned_agent'') (ec_assigned_agent c)
        \<and> as_int (dget job ''attempt_count'') = Some token \<and> 1 \<le> token)"
  by (simp add: validate_claim_response_def expected_ok_def split: json.splits option.splits)
    (auto simp: result_simps split: if_splits option.splits)

text \<open>
  A validated claim is bound to the claiming agent and to the claimed job: the context is
  assigned to this agent, agrees with every identity the job carries, has the job's task, and the
  attempt token is positive and equals the job's attempt count.
\<close>
theorem validate_claim_response_sound:
  assumes "validate_claim_response sha (Some resp) agent ws = Inr (job, c, token)"
  shows "context_wf c \<and> ec_assigned_agent c = agent \<and> 1 \<le> token
    \<and> as_int (dget job ''attempt_count'') = Some token \<and> dget job ''task_id'' = opt_str (ec_task_id c)
    \<and> (dget job ''id'' \<noteq> JNull \<longrightarrow> dget job ''id'' = JStr (ec_job_id c))
    \<and> (dget job ''workspace_id'' \<noteq> JNull \<longrightarrow> dget job ''workspace_id'' = JStr (ec_workspace_id c))
    \<and> (\<forall>w. ws = Some w \<longrightarrow> ec_workspace_id c = w)"
  using assms
  by (auto simp: validate_claim_response_iff parse_execution_context_iff expected_ok_def)

definition example_job :: dict where
  "example_job =
     [(''id'', JStr ''job-1''), (''task_id'', JStr ''t-1''), (''workspace_id'', JStr ''ws''),
      (''assigned_agent'', JStr ''claude''), (''attempt_count'', JInt 2)]"

definition example_claim :: "dict \<Rightarrow> json \<Rightarrow> dict" where
  "example_claim job token =
     [(''claimed'', JBool True), (''job'', JObj job), (''attempt_token'', token),
      (''execution_context'', JObj (context_to_dict example_context))]"

theorem validate_claim_response_sound_witness: "ec_assigned_agent example_context = ''claude''"
proof -
  have "validate_claim_response zero_sha (Some [(''result'', JObj (example_claim example_job (JInt 2)))])
      ''claude'' None = Inr (example_job, example_context, 2)"
    by code_simp
  then show ?thesis
    using validate_claim_response_sound by blast
qed

text \<open>
  The binding of the job envelope has gaps: a job that carries no id and no workspace is
  accepted with a context for any job, and a boolean attempt token is accepted as the attempt 1.
\<close>
theorem claim_binding_gaps:
  "validate_claim_response zero_sha
     (Some [(''result'', JObj (example_claim [(''task_id'', JStr ''t-1''), (''attempt_count'', JBool True)] (JBool True)))])
     ''claude'' None
   = Inr ([(''task_id'', JStr ''t-1''), (''attempt_count'', JBool True)], example_context, 1)"
  by code_simp

end
