(* ===== verification/ExecutorBinding.thy ===== *)
theory ExecutorBinding
  imports ExecutionLease
begin

text \<open>
  \<open>multinexus/agentd/executor_binding.py\<close>: the strict parser of Coordinate's v1 executor binding
  and its check against this agent's identity. The digest function is a parameter and an exception
  carries its message without the offending value.

  \<^item> \<open>parse_executor_binding_iff\<close> characterises acceptance and \<open>binding_wf\<close> is the invariant.
  \<^item> \<open>binding_id_binds\<close>: one binding id, one binding, up to a digest collision.
  \<^item> \<open>validate_executor_binding_sound\<close>: what an accepted binding says of the local agent.
\<close>

datatype binding_exc = ExecutorBindingError string

definition EXECUTOR_CONTRACT_VERSION :: int where "EXECUTOR_CONTRACT_VERSION = 1"
definition BINDING_MAX_LABEL_LEN :: nat where "BINDING_MAX_LABEL_LEN = 64"
definition MAX_CAPABILITY_LEN :: nat where "MAX_CAPABILITY_LEN = 64"
definition MAX_CAPABILITIES :: nat where "MAX_CAPABILITIES = 32"

record executor_binding =
  eb_binding_id :: string
  eb_source_id :: string
  eb_source_version :: int
  eb_catalog_hash :: string
  eb_executor_definition_id :: string
  eb_executor_instance_id :: string
  eb_runner_profile_id :: string
  eb_provider :: string
  eb_adapter :: string
  eb_capabilities :: "string list"

definition result_evidence :: "executor_binding \<Rightarrow> dict" where
  "result_evidence b =
     [(''executor_binding_id'', JStr (eb_binding_id b)),
      (''executor_definition_id'', JStr (eb_executor_definition_id b)),
      (''runner_profile_id'', JStr (eb_runner_profile_id b))]"

section \<open>Field validation\<close>

definition binding_bounded_label :: "json \<Rightarrow> string \<Rightarrow> binding_exc + string" where
  "binding_bounded_label value label =
     (case value of
        JStr s \<Rightarrow>
          if s \<noteq> strip s
            then Inl (ExecutorBindingError (label @ '' must not have surrounding whitespace''))
          else if s = [] then Inl (ExecutorBindingError (label @ '' is required''))
          else if length s > BINDING_MAX_LABEL_LEN
            then Inl (ExecutorBindingError (label @ '' exceeds 64 characters''))
          else if \<not> re_dollar safe_label_shape s
            then Inl (ExecutorBindingError (label @ '' contains unsafe characters''))
          else Inr s
      | _ \<Rightarrow> Inl (ExecutorBindingError (label @ '' must be a string'')))"

text \<open>The loop over the capabilities; \<open>acc\<close> is both \<open>normalized\<close> and \<open>seen\<close>.\<close>
fun capability_loop :: "string \<Rightarrow> string list \<Rightarrow> json list \<Rightarrow> binding_exc + string list" where
  "capability_loop label acc [] = Inr acc"
| "capability_loop label acc (item # items) =
     ebind (binding_bounded_label item (label @ '' item'')) (\<lambda>cap.
     if length cap > MAX_CAPABILITY_LEN
       then Inl (ExecutorBindingError (label @ '' item exceeds 64 characters''))
     else if cap \<in> set acc
       then Inl (ExecutorBindingError (label @ '' contains duplicate capability''))
     else capability_loop label (acc @ [cap]) items)"

definition validate_capabilities :: "json \<Rightarrow> string \<Rightarrow> binding_exc + string list" where
  "validate_capabilities value label =
     (case value of
        JList items \<Rightarrow>
          if length items > MAX_CAPABILITIES
            then Inl (ExecutorBindingError (label @ '' exceeds 32 items''))
          else
            ebind (capability_loop label [] items) (\<lambda>normalized.
            if normalized \<noteq> sort normalized
              then Inl (ExecutorBindingError (label @ '' must be sorted''))
            else Inr normalized)
      | _ \<Rightarrow> Inl (ExecutorBindingError (label @ '' must be a list'')))"

definition validate_binding_id :: "json \<Rightarrow> binding_exc + string" where
  "validate_binding_id value =
     (case value of
        JStr s \<Rightarrow> if re_dollar digest_shape s then Inr s
                  else Inl (ExecutorBindingError ''binding_id must be sha256:<64-hex>'')
      | _ \<Rightarrow> Inl (ExecutorBindingError ''binding_id must be sha256:<64-hex>''))"

text \<open>\<open>^[0-9a-f]{64}$\<close> up to a final line feed.\<close>
definition hex64_shape :: "string \<Rightarrow> bool" where
  "hex64_shape s = (length s = 64 \<and> list_all is_lower_hex s)"

definition validate_catalog_hash :: "json \<Rightarrow> binding_exc + string" where
  "validate_catalog_hash value =
     (case value of
        JStr s \<Rightarrow> if re_dollar hex64_shape s then Inr s
                  else Inl (ExecutorBindingError ''catalog_hash must be 64 lowercase hex characters'')
      | _ \<Rightarrow> Inl (ExecutorBindingError ''catalog_hash must be 64 lowercase hex characters''))"

text \<open>\<open>_validate_positive_int\<close>, which in this module admits zero.\<close>
definition binding_nonneg_int :: "json \<Rightarrow> string \<Rightarrow> binding_exc + int" where
  "binding_nonneg_int value label =
     (case value of
        JInt n \<Rightarrow> if n < 0 then Inl (ExecutorBindingError (label @ '' must be non-negative'')) else Inr n
      | _ \<Rightarrow> Inl (ExecutorBindingError (label @ '' must be an integer'')))"

definition SNAPSHOT_KEYS :: "string list" where
  "SNAPSHOT_KEYS =
     [''contract_version'', ''source_id'', ''source_version'', ''catalog_hash'', ''executor_definition_id'',
      ''executor_instance_id'', ''runner_profile_id'', ''provider'', ''adapter'', ''capabilities'']"

definition BINDING_KEYS :: "string list" where
  "BINDING_KEYS =
     [''contract_version'', ''binding_id'', ''source_id'', ''source_version'', ''catalog_hash'',
      ''executor_definition_id'', ''executor_instance_id'', ''runner_profile_id'', ''provider'',
      ''adapter'', ''capabilities'']"

definition snapshot_canonical_dict :: "dict \<Rightarrow> binding_exc + dict" where
  "snapshot_canonical_dict snapshot =
     (if \<not> keys_are (filter (\<lambda>(k, v). k \<noteq> ''binding_id'') snapshot) SNAPSHOT_KEYS
        then Inl (ExecutorBindingError ''binding snapshot has incorrect fields'')
      else Inr (map (\<lambda>k. (k, dget snapshot k)) (sort SNAPSHOT_KEYS)))"

section \<open>parse_executor_binding and validate_executor_binding\<close>

definition parse_executor_binding :: "(string \<Rightarrow> string) \<Rightarrow> json \<Rightarrow> binding_exc + executor_binding" where
  "parse_executor_binding sha data =
    (case data of
      JObj d \<Rightarrow>
      if \<not> keys_are d BINDING_KEYS
        then Inl (ExecutorBindingError ''executor_binding has incorrect fields'')
      else
      ebind (binding_nonneg_int (dget d ''contract_version'') ''contract_version'') (\<lambda>contract_version.
      if contract_version \<noteq> EXECUTOR_CONTRACT_VERSION
        then Inl (ExecutorBindingError ''executor_binding contract_version must be 1'')
      else
      ebind (validate_binding_id (dget d ''binding_id'')) (\<lambda>binding_id.
      ebind (binding_bounded_label (dget d ''source_id'') ''source_id'') (\<lambda>source_id.
      ebind (binding_nonneg_int (dget d ''source_version'') ''source_version'') (\<lambda>source_version.
      ebind (validate_catalog_hash (dget d ''catalog_hash'')) (\<lambda>catalog_hash.
      ebind (binding_bounded_label (dget d ''executor_definition_id'') ''executor_definition_id'') (\<lambda>executor_definition_id.
      ebind (binding_bounded_label (dget d ''executor_instance_id'') ''executor_instance_id'') (\<lambda>executor_instance_id.
      ebind (binding_bounded_label (dget d ''runner_profile_id'') ''runner_profile_id'') (\<lambda>runner_profile_id.
      ebind (binding_bounded_label (dget d ''provider'') ''provider'') (\<lambda>provider.
      ebind (binding_bounded_label (dget d ''adapter'') ''adapter'') (\<lambda>adapter.
      ebind (validate_capabilities (dget d ''capabilities'') ''capabilities'') (\<lambda>capabilities.
      ebind (snapshot_canonical_dict d) (\<lambda>snapshot.
      if binding_id \<noteq> ''sha256:'' @ sha (utf8 (canonical_json (JObj snapshot)))
        then Inl (ExecutorBindingError ''executor_binding digest mismatch'')
      else Inr
        \<lparr>eb_binding_id = binding_id, eb_source_id = source_id, eb_source_version = source_version,
         eb_catalog_hash = catalog_hash, eb_executor_definition_id = executor_definition_id,
         eb_executor_instance_id = executor_instance_id, eb_runner_profile_id = runner_profile_id,
         eb_provider = provider, eb_adapter = adapter, eb_capabilities = capabilities\<rparr>))))))))))))
    | _ \<Rightarrow> Inl (ExecutorBindingError ''executor_binding must be an object''))"

text \<open>\<open>None\<close> (\<open>JNull\<close>) is a legacy untyped job.\<close>
definition validate_executor_binding ::
  "(string \<Rightarrow> string) \<Rightarrow> json \<Rightarrow> string \<Rightarrow> string \<Rightarrow> binding_exc + executor_binding option" where
  "validate_executor_binding sha data agent_id adapter =
     (if data = JNull then Inr None
      else
      (case parse_executor_binding sha data of
         Inl (ExecutorBindingError msg) \<Rightarrow> Inl (ExecutorBindingError (''executor_binding_mismatch: '' @ msg))
       | Inr binding \<Rightarrow>
           if eb_executor_instance_id binding \<noteq> agent_id
             then Inl (ExecutorBindingError ''executor_binding_mismatch: instance_id'')
           else if eb_runner_profile_id binding \<noteq> agent_id
             then Inl (ExecutorBindingError ''executor_binding_mismatch: runner_profile_id'')
           else if eb_adapter binding \<noteq> adapter
             then Inl (ExecutorBindingError ''executor_binding_mismatch: adapter'')
           else Inr (Some binding)))"

section \<open>What the parser accepts\<close>

named_theorems binding_accepts "when a field validator returns"

definition binding_label_ok :: "string \<Rightarrow> bool" where
  "binding_label_ok s = (s = strip s \<and> length s \<le> BINDING_MAX_LABEL_LEN \<and> safe_label_shape s)"

lemma safe_label_not_nl: "safe_label_shape (s @ [nl]) = False"
  by (simp add: safe_label_shape_def safe_label_char_def is_ascii_letter_def is_digit_def between_def ord_def)

lemma strip_no_final_newline: "strip (t @ [nl]) \<noteq> t @ [nl]"
  by (simp add: strip_eq_self_iff py_space_def ord_def)

text \<open>The check for surrounding white space also excludes the final line feed that \<open>$\<close> admits.\<close>
lemma binding_bounded_label_Inr [binding_accepts]:
  "binding_bounded_label v label = Inr s \<longleftrightarrow> v = JStr s \<and> binding_label_ok s"
  using strip_no_final_newline
  by (auto simp: binding_bounded_label_def binding_label_ok_def re_dollar_iff safe_label_shape_def
      split: json.splits if_splits) (metis strip_no_final_newline)+

lemma binding_nonneg_int_Inr [binding_accepts]: "binding_nonneg_int v label = Inr n \<longleftrightarrow> v = JInt n \<and> 0 \<le> n"
  by (auto simp: binding_nonneg_int_def split: json.splits)

lemma validate_binding_id_Inr [binding_accepts]:
  "validate_binding_id v = Inr s \<longleftrightarrow> v = JStr s \<and> re_dollar digest_shape s"
  by (auto simp: validate_binding_id_def split: json.splits)

lemma validate_catalog_hash_Inr [binding_accepts]:
  "validate_catalog_hash v = Inr s \<longleftrightarrow> v = JStr s \<and> re_dollar hex64_shape s"
  by (auto simp: validate_catalog_hash_def split: json.splits)

lemma binding_label_length: "binding_label_ok s \<Longrightarrow> \<not> MAX_CAPABILITY_LEN < length s"
  by (simp add: binding_label_ok_def BINDING_MAX_LABEL_LEN_def MAX_CAPABILITY_LEN_def)

lemma capability_loop_Inr:
  "capability_loop label acc items = Inr ys \<longleftrightarrow>
     (\<exists>zs. ys = acc @ zs \<and> items = map JStr zs \<and> list_all binding_label_ok zs
        \<and> distinct zs \<and> set acc \<inter> set zs = {})"
proof (induction items arbitrary: acc)
  case (Cons item items)
  show ?case
    by (simp add: result_simps binding_accepts Cons.IH, rule iffI; clarsimp simp: binding_label_length)
qed auto

definition capabilities_ok :: "string list \<Rightarrow> bool" where
  "capabilities_ok cs =
     (list_all binding_label_ok cs \<and> distinct cs \<and> sorted cs \<and> length cs \<le> MAX_CAPABILITIES)"

lemma validate_capabilities_Inr [binding_accepts]:
  "validate_capabilities v label = Inr cs \<longleftrightarrow> v = JList (map JStr cs) \<and> capabilities_ok cs"
  by (auto simp: validate_capabilities_def capability_loop_Inr capabilities_ok_def result_simps sorted_sort_id
      split: json.splits) (metis sorted_sort)+

text \<open>The invariant of a parsed binding, and the object it is read from.\<close>
definition binding_wf :: "executor_binding \<Rightarrow> bool" where
  "binding_wf b =
     (re_dollar digest_shape (eb_binding_id b) \<and> binding_label_ok (eb_source_id b)
      \<and> 0 \<le> eb_source_version b \<and> re_dollar hex64_shape (eb_catalog_hash b)
      \<and> binding_label_ok (eb_executor_definition_id b) \<and> binding_label_ok (eb_executor_instance_id b)
      \<and> binding_label_ok (eb_runner_profile_id b) \<and> binding_label_ok (eb_provider b)
      \<and> binding_label_ok (eb_adapter b) \<and> capabilities_ok (eb_capabilities b))"

definition binding_snapshot :: "executor_binding \<Rightarrow> dict" where
  "binding_snapshot b =
     [(''contract_version'', JInt EXECUTOR_CONTRACT_VERSION),
      (''source_id'', JStr (eb_source_id b)),
      (''source_version'', JInt (eb_source_version b)),
      (''catalog_hash'', JStr (eb_catalog_hash b)),
      (''executor_definition_id'', JStr (eb_executor_definition_id b)),
      (''executor_instance_id'', JStr (eb_executor_instance_id b)),
      (''runner_profile_id'', JStr (eb_runner_profile_id b)),
      (''provider'', JStr (eb_provider b)),
      (''adapter'', JStr (eb_adapter b)),
      (''capabilities'', JList (map JStr (eb_capabilities b)))]"

definition binding_dict :: "executor_binding \<Rightarrow> dict" where
  "binding_dict b = (''binding_id'', JStr (eb_binding_id b)) # binding_snapshot b"

definition compute_binding_id :: "(string \<Rightarrow> string) \<Rightarrow> dict \<Rightarrow> string" where
  "compute_binding_id sha snapshot = ''sha256:'' @ sha (utf8 (canonical_json (JObj snapshot)))"

lemma sorted_snapshot_keys:
  "sort SNAPSHOT_KEYS =
     [''adapter'', ''capabilities'', ''catalog_hash'', ''contract_version'', ''executor_definition_id'',
      ''executor_instance_id'', ''provider'', ''runner_profile_id'', ''source_id'', ''source_version'']"
  by code_simp

lemma snapshot_keys_of_binding:
  assumes "keys_are d BINDING_KEYS"
  shows "keys_are (filter (\<lambda>(k, v). k \<noteq> ''binding_id'') d) SNAPSHOT_KEYS"
proof -
  have "fst ` set (filter (\<lambda>(k, v). k \<noteq> ''binding_id'') d) = fst ` set d - {''binding_id''}"
    by force
  moreover have "set SNAPSHOT_KEYS = set BINDING_KEYS - {''binding_id''}"
    by code_simp
  ultimately show ?thesis
    using assms by (simp only: keys_are_iff)
qed

text \<open>Sorting the snapshot by key before printing it has no effect on the canonical text.\<close>
lemma canonical_of_snapshot:
  assumes "holds_fields d (binding_snapshot b)"
  shows "canonical_json (JObj (map (\<lambda>k. (k, dget d k)) (sort SNAPSHOT_KEYS)))
    = canonical_json (JObj (map (\<lambda>k. (k, dget (binding_snapshot b) k)) (sort SNAPSHOT_KEYS)))"
proof -
  have "map (\<lambda>k. (k, dget d k)) (sort SNAPSHOT_KEYS)
      = map (\<lambda>k. (k, dget (binding_snapshot b) k)) (sort SNAPSHOT_KEYS)"
    using assms unfolding sorted_snapshot_keys
    by (simp add: holds_fields_def binding_snapshot_def dget_Cons)
  then show ?thesis
    by (simp only:)
qed

definition sorted_snapshot :: "executor_binding \<Rightarrow> dict" where
  "sorted_snapshot b = map (\<lambda>k. (k, dget (binding_snapshot b) k)) (sort SNAPSHOT_KEYS)"

lemma parse_executor_binding_iff:
  "parse_executor_binding sha (JObj d) = Inr b \<longleftrightarrow>
     keys_are d BINDING_KEYS \<and> holds_fields d (binding_dict b) \<and> binding_wf b
     \<and> eb_binding_id b = compute_binding_id sha (sorted_snapshot b)"
  (is "?lhs \<longleftrightarrow> ?rhs")
proof
  assume l: ?lhs
  then have keys: "keys_are d BINDING_KEYS"
    by (auto simp: parse_executor_binding_def split: if_splits)
  have fields: "holds_fields d (binding_dict b) \<and> binding_wf b
      \<and> eb_binding_id b = ''sha256:'' @ sha (utf8 (canonical_json (JObj (map (\<lambda>k. (k, dget d k)) (sort SNAPSHOT_KEYS)))))"
    using l snapshot_keys_of_binding [OF keys]
    by (clarsimp simp: parse_executor_binding_def result_simps binding_accepts snapshot_canonical_dict_def
        holds_fields_def binding_dict_def binding_snapshot_def binding_wf_def)
  then have "holds_fields d (binding_snapshot b)"
    by (simp add: holds_fields_def binding_dict_def)
  with fields keys show ?rhs
    by (simp add: canonical_of_snapshot compute_binding_id_def sorted_snapshot_def)
next
  assume r: ?rhs
  then have "holds_fields d (binding_snapshot b)"
    by (simp add: holds_fields_def binding_dict_def)
  then have "eb_binding_id b = ''sha256:'' @ sha (utf8 (canonical_json (JObj (map (\<lambda>k. (k, dget d k)) (sort SNAPSHOT_KEYS)))))"
    using r by (simp add: canonical_of_snapshot compute_binding_id_def sorted_snapshot_def)
  then show ?lhs
    using r snapshot_keys_of_binding [of d]
    by (cases b) (simp add: parse_executor_binding_def result_simps binding_accepts snapshot_canonical_dict_def
        holds_fields_def binding_dict_def binding_snapshot_def binding_wf_def EXECUTOR_CONTRACT_VERSION_def)
qed

lemma parse_executor_binding_obj: "parse_executor_binding sha data = Inr b \<Longrightarrow> \<exists>d. data = JObj d"
  by (auto simp: parse_executor_binding_def split: json.splits)

section \<open>Properties\<close>

text \<open>
  A binding accepted for an agent is well formed, names the agent as instance and as runner
  profile, names the local adapter, has at most 32 sorted, distinct capabilities, and carries the
  digest of its own snapshot as its id; its result evidence repeats that id and profile.
\<close>
theorem validate_executor_binding_sound:
  assumes "validate_executor_binding sha data agent adapter = Inr (Some b)"
  shows "binding_wf b \<and> eb_executor_instance_id b = agent \<and> eb_runner_profile_id b = agent
    \<and> eb_adapter b = adapter \<and> sorted (eb_capabilities b) \<and> distinct (eb_capabilities b)
    \<and> length (eb_capabilities b) \<le> 32
    \<and> eb_binding_id b = compute_binding_id sha (sorted_snapshot b)
    \<and> dget (result_evidence b) ''runner_profile_id'' = JStr agent"
proof -
  have p: "parse_executor_binding sha data = Inr b"
    and l: "eb_executor_instance_id b = agent" "eb_runner_profile_id b = agent" "eb_adapter b = adapter"
    using assms by (auto simp: validate_executor_binding_def split: if_splits sum.splits binding_exc.splits)
  obtain d where "data = JObj d"
    using p parse_executor_binding_obj by blast
  then show ?thesis
    using p l by (auto simp: parse_executor_binding_iff binding_wf_def capabilities_ok_def MAX_CAPABILITIES_def
        result_evidence_def dget_Cons)
qed

text \<open>A binding for examples, with the id its snapshot has under \<open>zero_sha\<close>.\<close>
definition example_binding :: executor_binding where
  "example_binding =
     \<lparr>eb_binding_id = ''sha256:'' @ zero_sha [], eb_source_id = ''reg'', eb_source_version = 3,
      eb_catalog_hash = zero_sha [], eb_executor_definition_id = ''claude-def'',
      eb_executor_instance_id = ''claude'', eb_runner_profile_id = ''claude'', eb_provider = ''anthropic'',
      eb_adapter = ''claude'', eb_capabilities = [''code'', ''review'']\<rparr>"

lemma example_binding_parses: "parse_executor_binding zero_sha (JObj (binding_dict example_binding)) = Inr example_binding"
  by code_simp

theorem validate_executor_binding_sound_witness: "eb_adapter example_binding = ''claude''"
proof -
  have "validate_executor_binding zero_sha (JObj (binding_dict example_binding)) ''claude'' ''claude''
      = Inr (Some example_binding)"
    by code_simp
  then show ?thesis
    using validate_executor_binding_sound by blast
qed

lemma sorted_snapshot_eq:
  "sorted_snapshot b =
     [(''adapter'', JStr (eb_adapter b)), (''capabilities'', JList (map JStr (eb_capabilities b))),
      (''catalog_hash'', JStr (eb_catalog_hash b)), (''contract_version'', JInt EXECUTOR_CONTRACT_VERSION),
      (''executor_definition_id'', JStr (eb_executor_definition_id b)),
      (''executor_instance_id'', JStr (eb_executor_instance_id b)), (''provider'', JStr (eb_provider b)),
      (''runner_profile_id'', JStr (eb_runner_profile_id b)), (''source_id'', JStr (eb_source_id b)),
      (''source_version'', JInt (eb_source_version b))]"
  by (simp add: sorted_snapshot_def sorted_snapshot_keys binding_snapshot_def dget_Cons)

lemma binding_text_inj:
  assumes "canonical_json (JObj (sorted_snapshot b)) = canonical_json (JObj (sorted_snapshot b'))"
    and "eb_binding_id b = eb_binding_id b'"
  shows "b = b'"
proof -
  have "float_free (JObj (sorted_snapshot x))" for x
    by (simp add: sorted_snapshot_eq list_all_iff)
  then have "sort_keys (JObj (sorted_snapshot b)) = sort_keys (JObj (sorted_snapshot b'))"
    using assms(1) by (intro canonical_json_inj)
  then have get: "sort_keys (dget (sorted_snapshot b) k) = sort_keys (dget (sorted_snapshot b') k)" for k
    by (rule sort_keys_obj_eq) (simp_all add: sorted_snapshot_eq keys_def)
  show ?thesis
    using get [of "''adapter''"] get [of "''capabilities''"] get [of "''catalog_hash''"]
      get [of "''executor_definition_id''"] get [of "''executor_instance_id''"] get [of "''provider''"]
      get [of "''runner_profile_id''"] get [of "''source_id''"] get [of "''source_version''"] assms(2)
    by (simp add: sorted_snapshot_eq dget_Cons inj_map_eq_map inj_def)
qed

text \<open>The bytes whose digest is the binding id.\<close>
definition binding_text :: "executor_binding \<Rightarrow> string" where
  "binding_text b = utf8 (canonical_json (JObj (sorted_snapshot b)))"

text \<open>
  The binding id identifies the binding: two accepted bindings with the same id are the same
  binding, or their own canonical texts differ and are a collision of the digest.
\<close>
theorem binding_id_binds:
  assumes "parse_executor_binding sha data = Inr b" "parse_executor_binding sha data' = Inr b'"
    and "eb_binding_id b = eb_binding_id b'"
  shows "b = b' \<or> binding_text b \<noteq> binding_text b' \<and> sha (binding_text b) = sha (binding_text b')"
proof -
  have "eb_binding_id b = ''sha256:'' @ sha (binding_text b)"
    "eb_binding_id b' = ''sha256:'' @ sha (binding_text b')"
    using assms(1,2) parse_executor_binding_obj
    by (force simp: parse_executor_binding_iff compute_binding_id_def binding_text_def)+
  then have "sha (binding_text b) = sha (binding_text b')"
    using assms(3) by simp
  moreover have "b = b'" if "binding_text b = binding_text b'"
    using that binding_text_inj [OF _ assms(3)] by (auto simp: binding_text_def dest: utf8_inj)
  ultimately show ?thesis
    by blast
qed

theorem binding_id_binds_witness:
  "example_binding = example_binding
   \<or> binding_text example_binding \<noteq> binding_text example_binding
     \<and> zero_sha (binding_text example_binding) = zero_sha (binding_text example_binding)"
  by (rule binding_id_binds [OF example_binding_parses example_binding_parses]) simp

end
