(* ===== verification/Sha256.thy ===== *)
theory Sha256
  imports Prelude "HOL-Library.Word"
begin

text \<open>
  \<open>hashlib.sha256(b).hexdigest()\<close> (FIPS 180-4), over 32-bit words whose addition wraps. The
  digests of the coordinator protocol (\<open>context_id\<close>, \<open>binding_id\<close>, \<open>policy_id\<close>) are computed
  with it. The models of those protocols take the digest function as an argument; what they rely
  on is the locale \<open>hex_digest\<close>, and \<open>sha256_hex\<close> is its interpretation.
\<close>

unbundle bit_operations_syntax

section \<open>The compression function\<close>

definition rotr :: "nat \<Rightarrow> 32 word \<Rightarrow> 32 word" where
  "rotr n x = drop_bit n x OR push_bit (32 - n) x"

definition sha_ch :: "32 word \<Rightarrow> 32 word \<Rightarrow> 32 word \<Rightarrow> 32 word" where
  "sha_ch x y z = (x AND y) XOR (NOT x AND z)"

definition sha_maj :: "32 word \<Rightarrow> 32 word \<Rightarrow> 32 word \<Rightarrow> 32 word" where
  "sha_maj x y z = (x AND y) XOR (x AND z) XOR (y AND z)"

definition big_sigma0 :: "32 word \<Rightarrow> 32 word" where
  "big_sigma0 x = rotr 2 x XOR rotr 13 x XOR rotr 22 x"

definition big_sigma1 :: "32 word \<Rightarrow> 32 word" where
  "big_sigma1 x = rotr 6 x XOR rotr 11 x XOR rotr 25 x"

definition small_sigma0 :: "32 word \<Rightarrow> 32 word" where
  "small_sigma0 x = rotr 7 x XOR rotr 18 x XOR drop_bit 3 x"

definition small_sigma1 :: "32 word \<Rightarrow> 32 word" where
  "small_sigma1 x = rotr 17 x XOR rotr 19 x XOR drop_bit 10 x"

text \<open>The constants of the standard (4.2.2 and 5.3.3), in decimal.\<close>
definition sha_k :: "32 word list" where
  "sha_k = [1116352408, 1899447441, 3049323471, 3921009573, 961987163, 1508970993, 2453635748, 2870763221,
   3624381080, 310598401, 607225278, 1426881987, 1925078388, 2162078206, 2614888103, 3248222580,
   3835390401, 4022224774, 264347078, 604807628, 770255983, 1249150122, 1555081692, 1996064986,
   2554220882, 2821834349, 2952996808, 3210313671, 3336571891, 3584528711, 113926993, 338241895,
   666307205, 773529912, 1294757372, 1396182291, 1695183700, 1986661051, 2177026350, 2456956037,
   2730485921, 2820302411, 3259730800, 3345764771, 3516065817, 3600352804, 4094571909, 275423344,
   430227734, 506948616, 659060556, 883997877, 958139571, 1322822218, 1537002063, 1747873779,
   1955562222, 2024104815, 2227730452, 2361852424, 2428436474, 2756734187, 3204031479, 3329325298]"

definition sha_h0 :: "32 word list" where
  "sha_h0 = [1779033703, 3144134277, 1013904242, 2773480762, 1359893119, 2600822924, 528734635, 1541459225]"

text \<open>The message schedule: the last sixteen words decide the next one.\<close>
fun sha_schedule :: "nat \<Rightarrow> 32 word list \<Rightarrow> 32 word list" where
  "sha_schedule 0 ws = []"
| "sha_schedule (Suc n) ws =
     hd ws # sha_schedule n
       (tl ws @ [small_sigma1 (ws ! 14) + ws ! 9 + small_sigma0 (ws ! 1) + ws ! 0])"

fun sha_round :: "32 word list \<Rightarrow> 32 word \<times> 32 word \<Rightarrow> 32 word list" where
  "sha_round [a, b, c, d, e, f, g, h] (k, w) =
     (let t1 = h + big_sigma1 e + sha_ch e f g + k + w;
          t2 = big_sigma0 a + sha_maj a b c
      in [t1 + t2, a, b, c, d + t1, e, f, g])"
| "sha_round st kw = st"

definition sha_block :: "32 word list \<Rightarrow> 32 word list \<Rightarrow> 32 word list" where
  "sha_block st ws = map2 (+) st (foldl sha_round st (zip sha_k (sha_schedule 64 ws)))"

section \<open>Padding and output\<close>

definition be_word :: "int list \<Rightarrow> 32 word" where
  "be_word bs = foldl (\<lambda>acc b. push_bit 8 acc OR word_of_int b) 0 bs"

definition be_bytes :: "nat \<Rightarrow> int \<Rightarrow> int list" where
  "be_bytes k n = rev (map (\<lambda>i. (n div 256 ^ i) mod 256) [0..<k])"

definition sha_pad :: "int list \<Rightarrow> int list" where
  "sha_pad bs =
     bs @ 128 # replicate ((119 - length bs mod 64) mod 64) 0 @ be_bytes 8 (8 * int (length bs))"

fun chunks :: "nat \<Rightarrow> 'a list \<Rightarrow> 'a list list" where
  "chunks 0 xs = []"
| "chunks (Suc n) xs = (let k = length xs div Suc n in take k xs # chunks n (drop k xs))"

definition chunks_of :: "nat \<Rightarrow> 'a list \<Rightarrow> 'a list list" where
  "chunks_of k xs = chunks (length xs div k) xs"

definition sha256_words :: "string \<Rightarrow> 32 word list" where
  "sha256_words s =
     foldl sha_block sha_h0 (map (\<lambda>b. map be_word (chunks_of 4 b)) (chunks_of 64 (sha_pad (map of_char s))))"

definition hex_char :: "nat \<Rightarrow> char" where
  "hex_char n = (if n < 10 then char_of (48 + n) else char_of (87 + n))"

definition hex_word :: "32 word \<Rightarrow> string" where
  "hex_word w = map (\<lambda>i. hex_char (unat (drop_bit (4 * i) w AND 15))) (rev [0..<8])"

text \<open>\<open>hashlib.sha256(s).hexdigest()\<close>, the argument a string of bytes.\<close>
definition sha256_hex :: "string \<Rightarrow> string" where
  "sha256_hex s = concat (map hex_word (sha256_words s))"

section \<open>What the protocols rely on\<close>

text \<open>A digest is 64 lowercase hexadecimal digits: \<open>^[0-9a-f]{64}$\<close>.\<close>
definition is_hex64 :: "string \<Rightarrow> bool" where
  "is_hex64 s = (length s = 64 \<and> list_all is_lower_hex s)"

locale hex_digest =
  fixes sha :: "string \<Rightarrow> string"
  assumes digest_shape: "is_hex64 (sha s)"
begin

lemma digest_length [simp]: "length (sha s) = 64"
  using digest_shape [of s] by (simp add: is_hex64_def)

lemma digest_hex: "list_all is_lower_hex (sha s)"
  using digest_shape [of s] by (simp add: is_hex64_def)

lemma digest_not_Nil [simp]: "sha s \<noteq> []"
  using digest_length [of s] by (metis list.size(3) zero_neq_numeral)

end

lemma length_sha_round: "length (sha_round st kw) = length st"
  by (induction st kw rule: sha_round.induct) (simp_all add: Let_def)

lemma length_foldl_sha_round: "length (foldl sha_round st kws) = length st"
  by (induction kws arbitrary: st) (simp_all add: length_sha_round)

lemma length_sha_block: "length (sha_block st ws) = length st"
  by (simp add: sha_block_def length_foldl_sha_round)

lemma length_sha256_words: "length (sha256_words s) = 8"
proof -
  have "length (foldl sha_block st bs) = length st" for st bs
    by (induction bs arbitrary: st) (simp_all add: length_sha_block)
  then show ?thesis
    by (simp add: sha256_words_def sha_h0_def)
qed

lemma hex_char_lower_hex: "n < 16 \<Longrightarrow> is_lower_hex (hex_char n)"
  by (auto simp: hex_char_def is_lower_hex_def is_digit_def between_def ord_def)

lemma nibble_bound: "unat (w AND 15 :: 32 word) < 16"
proof -
  have "w AND 15 = w mod 16"
    using take_bit_eq_mask [of 4 w] by (simp add: mask_eq_exp_minus_1 take_bit_eq_mod)
  moreover have "w mod 16 < 16"
    by (rule word_mod_less_divisor) simp
  ultimately show ?thesis
    by (simp add: word_less_nat_alt)
qed

lemma hex_word_shape: "length (hex_word w) = 8 \<and> list_all is_lower_hex (hex_word w)"
  by (simp add: hex_word_def list_all_iff hex_char_lower_hex nibble_bound)

lemma sha256_hex_shape: "is_hex64 (sha256_hex s)"
proof -
  have "length (concat (map hex_word ws)) = 8 * length ws" for ws
    by (induction ws) (simp_all add: hex_word_shape)
  moreover have "list_all is_lower_hex (concat (map hex_word ws))" for ws
    by (induction ws) (simp_all add: hex_word_shape)
  ultimately show ?thesis
    by (simp add: is_hex64_def sha256_hex_def length_sha256_words)
qed

interpretation sha256: hex_digest sha256_hex
  by unfold_locales (rule sha256_hex_shape)

end
