(* ===== verification/CapacityAuthority.thy ===== *)
theory CapacityAuthority
  imports ExecutorBinding Sha256 "HOL-Library.Multiset"
begin

text \<open>
  \<open>multinexus/executor_capacity_authority.py\<close>: the projection of \<open>config/agent-registry.toml\<close> to
  a catalog of concurrency limits, and the digests of the catalog and of one policy. The document
  is the dictionary \<open>tomllib.loads\<close> returns, without dates; the digest function is a parameter.

  \<^item> \<open>parse_capacity_catalog_iff\<close> characterises acceptance, \<open>capacity_wf\<close> is the invariant of a
    catalog and \<open>capacity_document\<close> writes one back.
  \<^item> \<open>canonical_capacity_order\<close>: the digest ignores the order of the policies, and
    \<open>capacity_text_inj\<close>: nothing else is lost in the digested text.
\<close>

text \<open>The last two are Python's own \<open>TypeError\<close>, for a value that cannot be iterated.\<close>
datatype capacity_exc = CapacityAuthorityError string | CapacityTypeError

definition CAPACITY_CONTRACT_VERSION :: int where "CAPACITY_CONTRACT_VERSION = 1"
definition CAPACITY_MAX_CONCURRENT_JOBS :: int where "CAPACITY_MAX_CONCURRENT_JOBS = 32"

definition ALLOWED_SHARED_ROOT_KEYS :: "string list" where
  "ALLOWED_SHARED_ROOT_KEYS =
     [''registry'', ''executor_definitions'', ''agents'', ''external_agents'', ''capacity_registry'',
      ''executor_capacities'']"

record capacity_policy =
  cp_agent_id :: string
  cp_max_concurrent_jobs :: int

record capacity_catalog =
  cc_source_id :: string
  cc_source_version :: int
  cc_catalog_hash :: string
  cc_policies :: "capacity_policy list"

definition policy_canonical_dict :: "capacity_policy \<Rightarrow> dict" where
  "policy_canonical_dict p =
     [(''agent_id'', JStr (cp_agent_id p)),
      (''max_concurrent_jobs'', JInt (cp_max_concurrent_jobs p))]"

section \<open>Validation\<close>

definition capacity_bounded_label :: "json \<Rightarrow> string \<Rightarrow> capacity_exc + string" where
  "capacity_bounded_label value label =
     (case value of
        JStr s \<Rightarrow>
          if s \<noteq> strip s
            then Inl (CapacityAuthorityError (label @ '' must not have surrounding whitespace''))
          else if s = [] then Inl (CapacityAuthorityError (label @ '' is required''))
          else if length s > 64
            then Inl (CapacityAuthorityError (label @ '' exceeds 64 characters''))
          else if \<not> re_dollar safe_label_shape s
            then Inl (CapacityAuthorityError (label @ '' contains unsafe characters''))
          else Inr s
      | _ \<Rightarrow> Inl (CapacityAuthorityError (label @ '' must be a string'')))"

text \<open>A bool is rejected although Python counts it among the integers.\<close>
definition validate_max_concurrent_jobs :: "json \<Rightarrow> string \<Rightarrow> capacity_exc + int" where
  "validate_max_concurrent_jobs value label =
     (case value of
        JInt n \<Rightarrow>
          if n < 1 \<or> n > CAPACITY_MAX_CONCURRENT_JOBS
            then Inl (CapacityAuthorityError (label @ '' must be between 1 and 32''))
          else Inr n
      | _ \<Rightarrow> Inl (CapacityAuthorityError (label @ '' must be an integer'')))"

section \<open>Digests\<close>

text \<open>\<open>sorted(..., key=lambda p: p["agent_id"])\<close> is stable, as \<open>sort_key\<close> is.\<close>
definition canonical_capacity_catalog_dict :: "capacity_catalog \<Rightarrow> dict" where
  "canonical_capacity_catalog_dict c =
     [(''contract_version'', JInt CAPACITY_CONTRACT_VERSION),
      (''source_id'', JStr (cc_source_id c)),
      (''source_version'', JInt (cc_source_version c)),
      (''policies'', JList (map (\<lambda>p. JObj (policy_canonical_dict p)) (sort_key cp_agent_id (cc_policies c))))]"

definition capacity_text :: "capacity_catalog \<Rightarrow> string" where
  "capacity_text c = utf8 (canonical_json (JObj (canonical_capacity_catalog_dict c)))"

definition compute_capacity_catalog_hash :: "(string \<Rightarrow> string) \<Rightarrow> capacity_catalog \<Rightarrow> string" where
  "compute_capacity_catalog_hash sha c = sha (capacity_text c)"

definition policy_text :: "string \<Rightarrow> string \<Rightarrow> int \<Rightarrow> string \<Rightarrow> int \<Rightarrow> string" where
  "policy_text agent_id catalog_hash max_jobs source_id source_version =
     utf8 (canonical_json (JObj
       [(''agent_id'', JStr agent_id),
        (''catalog_hash'', JStr catalog_hash),
        (''contract_version'', JInt CAPACITY_CONTRACT_VERSION),
        (''max_concurrent_jobs'', JInt max_jobs),
        (''source_id'', JStr source_id),
        (''source_version'', JInt source_version)]))"

definition compute_capacity_policy_id ::
    "(string \<Rightarrow> string) \<Rightarrow> string \<Rightarrow> string \<Rightarrow> int \<Rightarrow> string \<Rightarrow> int \<Rightarrow> string" where
  "compute_capacity_policy_id sha agent_id catalog_hash max_jobs source_id source_version =
     ''sha256:'' @ sha (policy_text agent_id catalog_hash max_jobs source_id source_version)"

section \<open>Parsing\<close>

text \<open>
  \<open>for raw in data.get("executor_capacities", [])\<close>: a string and a dictionary can be iterated too,
  giving strings, which the body rejects.
\<close>
definition capacity_entries :: "dict \<Rightarrow> capacity_exc + json list" where
  "capacity_entries d =
     (if \<not> has_key d ''executor_capacities'' then Inr []
      else case dget d ''executor_capacities'' of
          JList xs \<Rightarrow> Inr xs
        | JStr s \<Rightarrow> Inr (map (\<lambda>c. JStr [c]) s)
        | JObj e \<Rightarrow> Inr (map JStr (keys e))
        | _ \<Rightarrow> Inl CapacityTypeError)"

fun capacity_loop :: "string list \<Rightarrow> json list \<Rightarrow> capacity_exc + capacity_policy list" where
  "capacity_loop seen [] = Inr []"
| "capacity_loop seen (raw # raws) =
     (case raw of
        JObj e \<Rightarrow>
          if \<not> list_all (\<lambda>k. k \<in> {''agent_id'', ''max_concurrent_jobs''}) (keys e)
            then Inl (CapacityAuthorityError ''unknown keys in executor_capacities entry'')
          else
            ebind (capacity_bounded_label (dget e ''agent_id'') ''executor_capacity.agent_id'') (\<lambda>agent_id.
            if agent_id \<in> set seen
              then Inl (CapacityAuthorityError ''duplicate executor_capacity agent_id'')
            else
              ebind (validate_max_concurrent_jobs (dget e ''max_concurrent_jobs'')
                (''executor_capacity '' @ [squote] @ agent_id @ [squote] @ ''.max_concurrent_jobs'')) (\<lambda>max_jobs.
              ebind (capacity_loop (agent_id # seen) raws) (\<lambda>ps.
              Inr (\<lparr>cp_agent_id = agent_id, cp_max_concurrent_jobs = max_jobs\<rparr> # ps))))
      | _ \<Rightarrow> Inl (CapacityAuthorityError ''executor_capacities entry must be a table''))"

definition parse_capacity_catalog :: "(string \<Rightarrow> string) \<Rightarrow> dict \<Rightarrow> capacity_exc + capacity_catalog" where
  "parse_capacity_catalog sha data =
     (if \<not> list_all (\<lambda>k. k \<in> set ALLOWED_SHARED_ROOT_KEYS) (keys data)
        then Inl (CapacityAuthorityError ''unknown root keys'')
      else case dget data ''capacity_registry'' of
        JObj reg \<Rightarrow>
          if \<not> list_all (\<lambda>k. k \<in> {''id'', ''version''}) (keys reg)
            then Inl (CapacityAuthorityError ''unknown [capacity_registry] keys'')
          else
            ebind (capacity_bounded_label (dget reg ''id'') ''[capacity_registry].id'') (\<lambda>source_id.
            ebind (case dget reg ''version'' of
                JInt v \<Rightarrow> if v < 0 then Inl (CapacityAuthorityError
                    ''[capacity_registry].version must be a non-negative integer'') else Inr v
              | _ \<Rightarrow> Inl (CapacityAuthorityError
                    ''[capacity_registry].version must be a non-negative integer'')) (\<lambda>source_version.
            ebind (capacity_entries data) (\<lambda>raws.
            ebind (capacity_loop [] raws) (\<lambda>policies.
            let catalog = \<lparr>cc_source_id = source_id, cc_source_version = source_version,
                           cc_catalog_hash = [], cc_policies = policies\<rparr>
            in Inr (catalog\<lparr>cc_catalog_hash := compute_capacity_catalog_hash sha catalog\<rparr>)))))
      | _ \<Rightarrow> Inl (CapacityAuthorityError ''missing [capacity_registry] metadata''))"

section \<open>What the parser accepts\<close>

definition policy_wf :: "capacity_policy \<Rightarrow> bool" where
  "policy_wf p =
     (binding_label_ok (cp_agent_id p) \<and> 1 \<le> cp_max_concurrent_jobs p \<and> cp_max_concurrent_jobs p \<le> 32)"

definition capacity_wf :: "capacity_catalog \<Rightarrow> bool" where
  "capacity_wf c =
     (binding_label_ok (cc_source_id c) \<and> 0 \<le> cc_source_version c
      \<and> list_all policy_wf (cc_policies c) \<and> distinct (map cp_agent_id (cc_policies c)))"

lemma capacity_bounded_label_Inr:
  "capacity_bounded_label v label = Inr s \<longleftrightarrow> v = JStr s \<and> binding_label_ok s"
proof -
  have "capacity_bounded_label v label = Inr s \<longleftrightarrow> binding_bounded_label v label = Inr s"
    by (simp add: capacity_bounded_label_def binding_bounded_label_def BINDING_MAX_LABEL_LEN_def
        split: json.splits)
  then show ?thesis
    by (simp only: binding_bounded_label_Inr)
qed

lemma validate_max_concurrent_jobs_Inr:
  "validate_max_concurrent_jobs v label = Inr n \<longleftrightarrow> v = JInt n \<and> 1 \<le> n \<and> n \<le> 32"
  by (auto simp: validate_max_concurrent_jobs_def CAPACITY_MAX_CONCURRENT_JOBS_def split: json.splits)

lemmas capacity_accepts = capacity_bounded_label_Inr validate_max_concurrent_jobs_Inr

text \<open>The entries that one policy is read from.\<close>
definition entry_of :: "json \<Rightarrow> capacity_policy \<Rightarrow> bool" where
  "entry_of raw p =
     (case raw of
        JObj e \<Rightarrow> list_all (\<lambda>k. k \<in> {''agent_id'', ''max_concurrent_jobs''}) (keys e)
          \<and> dget e ''agent_id'' = JStr (cp_agent_id p)
          \<and> dget e ''max_concurrent_jobs'' = JInt (cp_max_concurrent_jobs p)
      | _ \<Rightarrow> False)"

lemma capacity_loop_Inr:
  "capacity_loop seen raws = Inr ps \<longleftrightarrow>
     list_all2 entry_of raws ps \<and> list_all policy_wf ps
     \<and> distinct (map cp_agent_id ps) \<and> set seen \<inter> cp_agent_id ` set ps = {}"
proof (induction raws arbitrary: seen ps)
  case Nil
  then show ?case
    by auto
next
  case (Cons raw raws)
  show ?case
  proof (cases ps)
    case Nil
    then show ?thesis
      by (auto simp: result_simps split: json.splits)
  next
    case (Cons p qs)
    then show ?thesis
      by (cases raw; cases p)
        (auto simp: result_simps capacity_accepts Cons.IH entry_of_def policy_wf_def)
  qed
qed

definition registry_entry_of :: "json \<Rightarrow> capacity_catalog \<Rightarrow> bool" where
  "registry_entry_of raw c =
     (case raw of
        JObj reg \<Rightarrow> list_all (\<lambda>k. k \<in> {''id'', ''version''}) (keys reg)
          \<and> dget reg ''id'' = JStr (cc_source_id c) \<and> dget reg ''version'' = JInt (cc_source_version c)
      | _ \<Rightarrow> False)"

lemma compute_hash_ignores_hash [simp]:
  "compute_capacity_catalog_hash sha (c\<lparr>cc_catalog_hash := h\<rparr>) = compute_capacity_catalog_hash sha c"
  by (simp add: compute_capacity_catalog_hash_def capacity_text_def canonical_capacity_catalog_dict_def)

lemma compute_hash_of_fields:
  "compute_capacity_catalog_hash sha
     \<lparr>cc_source_id = cc_source_id c, cc_source_version = cc_source_version c, cc_catalog_hash = h,
      cc_policies = cc_policies c\<rparr> = compute_capacity_catalog_hash sha (c :: capacity_catalog)"
  using compute_hash_ignores_hash [of sha h c] by (cases c) simp

lemma version_Inr:
  "(case v of JInt n \<Rightarrow> if n < 0 then Inl e else Inr n | _ \<Rightarrow> Inl e) = Inr m \<longleftrightarrow> v = JInt m \<and> 0 \<le> m"
  by (auto split: json.splits)

lemma parse_capacity_catalog_iff:
  "parse_capacity_catalog sha data = Inr c \<longleftrightarrow>
     list_all (\<lambda>k. k \<in> set ALLOWED_SHARED_ROOT_KEYS) (keys data)
     \<and> registry_entry_of (dget data ''capacity_registry'') c
     \<and> (\<exists>raws. capacity_entries data = Inr raws \<and> list_all2 entry_of raws (cc_policies c))
     \<and> capacity_wf c \<and> cc_catalog_hash c = compute_capacity_catalog_hash sha c"
proof (cases "dget data ''capacity_registry''")
  case (JObj reg)
  have eq: "\<lparr>cc_source_id = i, cc_source_version = v, cc_catalog_hash = compute_capacity_catalog_hash sha
            \<lparr>cc_source_id = i, cc_source_version = v, cc_catalog_hash = [], cc_policies = ps\<rparr>, cc_policies = ps\<rparr> = c
      \<longleftrightarrow> i = cc_source_id c \<and> v = cc_source_version c \<and> ps = cc_policies c
      \<and> cc_catalog_hash c = compute_capacity_catalog_hash sha c" for i v ps
    using compute_hash_of_fields [of sha c "[]"] by (cases c) auto
  show ?thesis
    unfolding parse_capacity_catalog_def Let_def
    by (simp add: JObj result_simps version_Inr capacity_accepts capacity_loop_Inr eq registry_entry_of_def
        capacity_wf_def) blast
qed (simp_all add: parse_capacity_catalog_def registry_entry_of_def)

section \<open>The digested text\<close>

lemma policy_dict_inj: "policy_canonical_dict p = policy_canonical_dict q \<longleftrightarrow> p = q"
  by (cases p; cases q) (simp add: policy_canonical_dict_def)

lemma canonical_capacity_order:
  assumes "mset (cc_policies c) = mset (cc_policies c')" and "distinct (map cp_agent_id (cc_policies c))"
  shows "sort_key cp_agent_id (cc_policies c) = sort_key cp_agent_id (cc_policies c')"
  using assms by (intro sort_key_inj_key_eq) (simp_all add: distinct_map)

lemma sort_keys_policy: "sort_keys (JObj (policy_canonical_dict p)) = JObj (policy_canonical_dict p)"
  by (simp add: policy_canonical_dict_def)

lemma capacity_text_inj:
  assumes "capacity_text c = capacity_text c'"
  shows "cc_source_id c = cc_source_id c' \<and> cc_source_version c = cc_source_version c'
    \<and> mset (cc_policies c) = mset (cc_policies c')"
proof -
  let ?d = "canonical_capacity_catalog_dict"
  have "float_free (JObj (?d x))" for x
    by (simp add: canonical_capacity_catalog_dict_def policy_canonical_dict_def list_all_iff)
  moreover have "canonical_json (JObj (?d c)) = canonical_json (JObj (?d c'))"
    using assms by (auto simp: capacity_text_def dest: utf8_inj)
  ultimately have "sort_keys (JObj (?d c)) = sort_keys (JObj (?d c'))"
    by (intro canonical_json_inj)
  then have get: "sort_keys (dget (?d c) k) = sort_keys (dget (?d c') k)" for k
    by (rule sort_keys_obj_eq) (simp_all add: canonical_capacity_catalog_dict_def keys_def)
  have "map (\<lambda>p. JObj (policy_canonical_dict p)) (sort_key cp_agent_id (cc_policies c))
      = map (\<lambda>p. JObj (policy_canonical_dict p)) (sort_key cp_agent_id (cc_policies c'))"
    using get [of "''policies''"]
    by (simp add: canonical_capacity_catalog_dict_def dget_Cons sort_keys_policy comp_def del: sort_keys.simps(2))
  then have "sort_key cp_agent_id (cc_policies c) = sort_key cp_agent_id (cc_policies c')"
    by (simp add: inj_map_eq_map inj_def policy_dict_inj)
  then have "mset (cc_policies c) = mset (cc_policies c')"
    by (metis mset_sort)
  then show ?thesis
    using get [of "''source_id''"] get [of "''source_version''"]
    by (simp add: canonical_capacity_catalog_dict_def dget_Cons)
qed

lemma policy_text_inj:
  assumes "policy_text a h m s v = policy_text a' h' m' s' v'"
  shows "a = a' \<and> h = h' \<and> m = m' \<and> s = s' \<and> v = v'"
  using assms unfolding policy_text_def
  by (auto dest!: utf8_inj canonical_json_inj [rotated 2])

section \<open>A concrete catalog\<close>

text \<open>The document that a catalog is read back from.\<close>
definition capacity_document :: "capacity_catalog \<Rightarrow> dict" where
  "capacity_document c =
     [(''capacity_registry'', JObj [(''id'', JStr (cc_source_id c)), (''version'', JInt (cc_source_version c))]),
      (''executor_capacities'', JList (map (\<lambda>p. JObj (policy_canonical_dict p)) (cc_policies c)))]"

lemma entry_of_policy: "entry_of (JObj (policy_canonical_dict p)) p"
  by (simp add: entry_of_def policy_canonical_dict_def keys_def dget_Cons)

lemma entries_of_policies: "list_all2 entry_of (map (\<lambda>p. JObj (policy_canonical_dict p)) ps) ps"
  by (induction ps) (simp_all add: entry_of_policy)

definition example_catalog :: "(string \<Rightarrow> string) \<Rightarrow> capacity_catalog" where
  "example_catalog sha =
     (let c = \<lparr>cc_source_id = ''registry'', cc_source_version = 2, cc_catalog_hash = [],
               cc_policies = [\<lparr>cp_agent_id = ''pi'', cp_max_concurrent_jobs = 1\<rparr>,
                              \<lparr>cp_agent_id = ''claude'', cp_max_concurrent_jobs = 4\<rparr>]\<rparr>
      in c\<lparr>cc_catalog_hash := compute_capacity_catalog_hash sha c\<rparr>)"

lemma example_catalog_wf: "capacity_wf (example_catalog sha)"
proof -
  have "capacity_wf \<lparr>cc_source_id = ''registry'', cc_source_version = 2, cc_catalog_hash = [],
               cc_policies = [\<lparr>cp_agent_id = ''pi'', cp_max_concurrent_jobs = 1\<rparr>,
                              \<lparr>cp_agent_id = ''claude'', cp_max_concurrent_jobs = 4\<rparr>]\<rparr>"
    by code_simp
  then show ?thesis
    by (simp add: example_catalog_def Let_def capacity_wf_def)
qed

lemma example_catalog_hash:
  "cc_catalog_hash (example_catalog sha) = compute_capacity_catalog_hash sha (example_catalog sha)"
  unfolding example_catalog_def Let_def by (simp only: compute_hash_ignores_hash) simp

lemma capacity_document_parses:
  assumes "capacity_wf c" "cc_catalog_hash c = compute_capacity_catalog_hash sha c"
  shows "parse_capacity_catalog sha (capacity_document c) = Inr c"
  using assms entries_of_policies [of "cc_policies c"]
  by (simp add: parse_capacity_catalog_iff capacity_document_def keys_def dget_Cons registry_entry_of_def
      capacity_entries_def has_key_def ALLOWED_SHARED_ROOT_KEYS_def)

lemma capacity_hash_facts:
  assumes "parse_capacity_catalog sha data = Inr c"
  shows "capacity_wf c" and "cc_catalog_hash c = sha (capacity_text c)"
  using assms by (simp_all add: parse_capacity_catalog_iff compute_capacity_catalog_hash_def)

section \<open>Properties\<close>

text \<open>
  Parsing a catalog inverts writing it: every well-formed catalog whose hash is its own digest
  is read back from its document, and every catalog the parser returns is of that kind.
\<close>
theorem capacity_catalog_roundtrip:
  "parse_capacity_catalog sha (capacity_document c) = Inr c
   \<longleftrightarrow> capacity_wf c \<and> cc_catalog_hash c = compute_capacity_catalog_hash sha c"
  using capacity_document_parses by (auto simp: parse_capacity_catalog_iff)

text \<open>
  The catalog hash does not depend on the order of the policies in the file: two accepted
  documents with the same registry entry whose policies are permutations of each other have the same
  hash.
\<close>
theorem capacity_hash_order_independent:
  assumes "parse_capacity_catalog sha data = Inr c" "parse_capacity_catalog sha data' = Inr c'"
    and "cc_source_id c = cc_source_id c'" "cc_source_version c = cc_source_version c'"
    and "mset (cc_policies c) = mset (cc_policies c')"
  shows "cc_catalog_hash c = cc_catalog_hash c'"
  using capacity_hash_facts [OF assms(1)] capacity_hash_facts [OF assms(2)] assms(3,4)
    canonical_capacity_order [OF assms(5)]
  by (simp add: capacity_text_def canonical_capacity_catalog_dict_def capacity_wf_def)

definition reversed_catalog :: "(string \<Rightarrow> string) \<Rightarrow> capacity_catalog" where
  "reversed_catalog sha =
     (let c = (example_catalog sha)\<lparr>cc_policies := rev (cc_policies (example_catalog sha))\<rparr>
      in c\<lparr>cc_catalog_hash := compute_capacity_catalog_hash sha c\<rparr>)"

lemma reversed_catalog_parses:
  "parse_capacity_catalog sha (capacity_document (reversed_catalog sha)) = Inr (reversed_catalog sha)"
proof (rule capacity_document_parses)
  show "capacity_wf (reversed_catalog sha)"
    using example_catalog_wf [of sha]
    by (simp add: reversed_catalog_def Let_def capacity_wf_def list_all_iff rev_map [symmetric])
  show "cc_catalog_hash (reversed_catalog sha) = compute_capacity_catalog_hash sha (reversed_catalog sha)"
    unfolding reversed_catalog_def Let_def by (simp only: compute_hash_ignores_hash) simp
qed

theorem capacity_hash_order_independent_witness:
  "cc_catalog_hash (example_catalog sha256_hex) = cc_catalog_hash (reversed_catalog sha256_hex)"
  by (rule capacity_hash_order_independent
      [OF capacity_document_parses [OF example_catalog_wf example_catalog_hash] reversed_catalog_parses])
    (simp_all add: reversed_catalog_def Let_def)

text \<open>
  The catalog hash identifies the catalog: two accepted documents with the same hash have the same
  source, the same version and the same policies up to order, or their own canonical texts differ and
  are a collision of the digest.
\<close>
theorem capacity_hash_binds:
  assumes "parse_capacity_catalog sha data = Inr c" "parse_capacity_catalog sha data' = Inr c'"
    and "cc_catalog_hash c = cc_catalog_hash c'"
  shows "cc_source_id c = cc_source_id c' \<and> cc_source_version c = cc_source_version c'
      \<and> mset (cc_policies c) = mset (cc_policies c')
    \<or> capacity_text c \<noteq> capacity_text c' \<and> sha (capacity_text c) = sha (capacity_text c')"
  using capacity_hash_facts(2) [OF assms(1)] capacity_hash_facts(2) [OF assms(2)] assms(3) capacity_text_inj
  by metis

theorem capacity_hash_binds_witness:
  "(let c = example_catalog zero_sha; c' = reversed_catalog zero_sha in
    cc_source_id c = cc_source_id c' \<and> cc_source_version c = cc_source_version c'
      \<and> mset (cc_policies c) = mset (cc_policies c')
    \<or> capacity_text c \<noteq> capacity_text c' \<and> zero_sha (capacity_text c) = zero_sha (capacity_text c'))"
  unfolding Let_def
  by (rule capacity_hash_binds
      [OF capacity_document_parses [OF example_catalog_wf example_catalog_hash] reversed_catalog_parses])
    (simp add: example_catalog_def reversed_catalog_def Let_def compute_capacity_catalog_hash_def zero_sha_def)

text \<open>
  The policy id binds the agent, its limit and the catalog: two policies with the same id agree
  in the agent, the limit, the catalog hash, the source and its version, or their own canonical texts
  differ and are a collision of the digest.
\<close>
theorem capacity_policy_id_binds:
  assumes "compute_capacity_policy_id sha a h m s v = compute_capacity_policy_id sha a' h' m' s' v'"
  shows "a = a' \<and> h = h' \<and> m = m' \<and> s = s' \<and> v = v'
    \<or> policy_text a h m s v \<noteq> policy_text a' h' m' s' v'
      \<and> sha (policy_text a h m s v) = sha (policy_text a' h' m' s' v')"
  using assms policy_text_inj [of a h m s v a' h' m' s' v'] by (auto simp: compute_capacity_policy_id_def)

theorem capacity_policy_id_binds_witness:
  "(let t = policy_text ''pi'' (zero_sha []) 1 ''r'' 0; t' = policy_text ''pi'' (zero_sha []) 2 ''r'' 0 in
    (''pi'' = ''pi'' \<and> zero_sha [] = zero_sha [] \<and> (1::int) = 2 \<and> ''r'' = ''r'' \<and> (0::int) = 0)
    \<or> t \<noteq> t' \<and> zero_sha t = zero_sha t')"
  unfolding Let_def by (rule capacity_policy_id_binds) (simp add: compute_capacity_policy_id_def zero_sha_def)

end
