(* ===== verification/SessionStore.thy ===== *)
theory SessionStore
  imports Prelude "HOL-Library.Multiset"
begin

text \<open>
  \<open>multinexus/sessions\<close>: the scope keys (\<open>scope.py\<close>) and the table of CLI sessions
  (\<open>store.py\<close>). The table is the list of rows in the order of insertion; every SQL statement is
  the function on it that SQLite's documentation gives for the statement, in particular \<open>LIKE\<close>,
  which ignores the case of ASCII letters. A connection error is outside the model, and the clock
  (\<open>time.time()\<close>) is an argument \<open>now\<close>, of which only the order matters.

  \<^item> \<open>store_wf\<close> is the invariant of the table; \<open>get_upsert\<close>, \<open>get_mark_status\<close> and
    \<open>get_mark_scope_status\<close> describe each operation by what a later lookup returns.
  \<^item> the locale \<open>session_table\<close> holds these laws for the worker that recovers sessions.
  \<^item> \<open>like_escaped_prefix\<close> reads the pattern of \<open>list_by_scope_prefix\<close>.
\<close>

section \<open>Scope keys\<close>

record scope_description =
  sd_scope_id :: string
  sd_kind :: string
  sd_label :: string
  sd_detail :: string

definition channel_scope :: "string \<Rightarrow> string" where
  "channel_scope channel_id = ''channel:'' @ channel_id"

definition thread_scope :: "string \<Rightarrow> string" where
  "thread_scope thread_id = ''thread:'' @ thread_id"

definition task_scope :: "string \<Rightarrow> string \<Rightarrow> string" where
  "task_scope workspace_id task_id = ''task:'' @ workspace_id @ '':'' @ task_id"

text \<open>\<open>is_thread_channel\<close> asks the discord package, so its answer is an argument.\<close>
definition scope_for_channel :: "bool \<Rightarrow> string \<Rightarrow> string" where
  "scope_for_channel is_thread channel_id =
     (if is_thread then thread_scope channel_id else channel_scope channel_id)"

definition scope_for_channel_id :: "string \<Rightarrow> bool \<Rightarrow> string" where
  "scope_for_channel_id channel_id is_thread =
     (if is_thread then thread_scope channel_id else channel_scope channel_id)"

definition legacy_scope_for_channel_id :: "string \<Rightarrow> string" where
  "legacy_scope_for_channel_id channel_id = channel_id"

text \<open>\<open>s.split(c, n)\<close>\<close>
fun split_max :: "char \<Rightarrow> nat \<Rightarrow> string \<Rightarrow> string list" where
  "split_max c 0 s = [s]"
| "split_max c (Suc n) s =
     (if c \<in> set s
      then takeWhile (\<lambda>x. x \<noteq> c) s # split_max c n (tl (dropWhile (\<lambda>x. x \<noteq> c) s))
      else [s])"

definition describe_scope :: "string \<Rightarrow> scope_description" where
  "describe_scope scope_id =
     (if startswith scope_id ''channel:'' then
        \<lparr>sd_scope_id = scope_id, sd_kind = ''channel'', sd_label = ''channel scope'',
         sd_detail = removeprefix scope_id ''channel:''\<rparr>
      else if startswith scope_id ''thread:'' then
        \<lparr>sd_scope_id = scope_id, sd_kind = ''thread'', sd_label = ''thread scope'',
         sd_detail = removeprefix scope_id ''thread:''\<rparr>
      else if startswith scope_id ''task:'' then
        (let parts = split_max CHR '':'' 2 scope_id;
             detail = (if length parts = 3 then parts ! 2 else removeprefix scope_id ''task:'')
         in \<lparr>sd_scope_id = scope_id, sd_kind = ''task'', sd_label = ''task scope'', sd_detail = detail\<rparr>)
      else
        \<lparr>sd_scope_id = scope_id, sd_kind = ''legacy'', sd_label = ''legacy channel scope'',
         sd_detail = scope_id\<rparr>)"

section \<open>The table\<close>

record session_row =
  sr_scope_id :: string
  sr_agent_id :: string
  sr_adapter :: string
  sr_session_id :: string
  sr_work_dir :: "string option"
  sr_status :: string
  sr_turn_count :: nat
  sr_created_at :: int
  sr_updated_at :: int

type_synonym session_store = "session_row list"

definition ACTIVE_STATUS :: string where "ACTIVE_STATUS = ''active''"
definition STALE_STATUS :: string where "STALE_STATUS = ''stale''"
definition ARCHIVED_STATUS :: string where "ARCHIVED_STATUS = ''archived''"
definition VALID_STATUSES :: "string list" where
  "VALID_STATUSES = [ACTIVE_STATUS, STALE_STATUS, ARCHIVED_STATUS]"

datatype session_exc = SessionValueError string

definition row_key :: "session_row \<Rightarrow> string \<times> string" where
  "row_key r = (sr_scope_id r, sr_agent_id r)"

definition session_get :: "session_store \<Rightarrow> string \<Rightarrow> string \<Rightarrow> session_row option" where
  "session_get t scope agent =
     find (\<lambda>r. sr_scope_id r = scope \<and> sr_agent_id r = agent \<and> sr_status r = ''active'') t"

fun get_first_active :: "session_store \<Rightarrow> string list \<Rightarrow> string \<Rightarrow> session_row option" where
  "get_first_active t [] agent = None"
| "get_first_active t (scope # scopes) agent =
     (case session_get t scope agent of
        Some r \<Rightarrow> Some r
      | None \<Rightarrow> get_first_active t scopes agent)"

text \<open>\<open>ORDER BY updated_at DESC\<close>; SQLite leaves the order of equal times open.\<close>
definition order_desc :: "session_row list \<Rightarrow> session_row list" where
  "order_desc rows = sort_key (\<lambda>r. - sr_updated_at r) rows"

definition list_by_agent :: "session_store \<Rightarrow> string \<Rightarrow> bool \<Rightarrow> session_row list" where
  "list_by_agent t agent include_stale =
     order_desc (filter (\<lambda>r. sr_agent_id r = agent \<and> (include_stale \<or> sr_status r = ''active'')) t)"

text \<open>\<open>value.replace("\\", "\\\\").replace("%", "\\%").replace("_", "\\_")\<close>\<close>
definition replace1 :: "char \<Rightarrow> string \<Rightarrow> string \<Rightarrow> string" where
  "replace1 c w s = concat (map (\<lambda>x. if x = c then w else [x]) s)"

definition escape_like :: "string \<Rightarrow> string" where
  "escape_like v =
     replace1 CHR ''_'' [bslash, CHR ''_''] (replace1 CHR ''%'' [bslash, CHR ''%'']
       (replace1 bslash [bslash, bslash] v))"

definition ascii_lower :: "char \<Rightarrow> char" where
  "ascii_lower c = (if between CHR ''A'' CHR ''Z'' c then char_of (ord c + 32) else c)"

text \<open>SQLite's \<open>str LIKE pattern ESCAPE '\'\<close>.\<close>
function (sequential) like :: "string \<Rightarrow> string \<Rightarrow> bool" where
  "like [] s = (s = [])"
| "like (p # ps) s =
     (if p = CHR ''%'' then like ps s \<or> (case s of [] \<Rightarrow> False | c # cs \<Rightarrow> like (p # ps) cs)
      else if p = CHR ''_'' then (case s of [] \<Rightarrow> False | c # cs \<Rightarrow> like ps cs)
      else if p = bslash then
        (case ps of
           [] \<Rightarrow> False
         | q # qs \<Rightarrow> (case s of [] \<Rightarrow> False | c # cs \<Rightarrow> ascii_lower q = ascii_lower c \<and> like qs cs))
      else (case s of [] \<Rightarrow> False | c # cs \<Rightarrow> ascii_lower p = ascii_lower c \<and> like ps cs))"
  by pat_completeness auto
termination
  by (relation "measure (\<lambda>(p, s). length p + length s)") auto

definition list_by_scope_prefix ::
    "session_store \<Rightarrow> string \<Rightarrow> string option \<Rightarrow> bool \<Rightarrow> session_row list" where
  "list_by_scope_prefix t prefix agent include_stale =
     order_desc (filter (\<lambda>r. like (escape_like prefix @ ''%'') (sr_scope_id r)
       \<and> (agent = None \<or> agent = Some (sr_agent_id r))
       \<and> (include_stale \<or> sr_status r = ''active'')) t)"

definition list_task_scope ::
    "session_store \<Rightarrow> string \<Rightarrow> string \<Rightarrow> string option \<Rightarrow> bool \<Rightarrow> session_row list" where
  "list_task_scope t workspace_id task_id agent include_stale =
     list_by_scope_prefix t (task_scope workspace_id task_id) agent include_stale"

text \<open>\<open>ON CONFLICT(scope_id, agent_id) DO UPDATE\<close>: the row keeps its place and \<open>created_at\<close>.\<close>
definition conflict_update ::
    "int \<Rightarrow> string \<Rightarrow> string \<Rightarrow> string option \<Rightarrow> session_row \<Rightarrow> session_row" where
  "conflict_update now adapter session_id work_dir r =
     r\<lparr>sr_session_id := session_id, sr_adapter := adapter, sr_work_dir := work_dir,
       sr_turn_count := (if sr_status r = ''active'' \<and> sr_session_id r = session_id
                         then sr_turn_count r + 1 else 1),
       sr_updated_at := now, sr_status := ''active''\<rparr>"

definition session_upsert ::
    "int \<Rightarrow> string \<Rightarrow> string \<Rightarrow> string \<Rightarrow> string \<Rightarrow> string option \<Rightarrow> session_store \<Rightarrow> session_store" where
  "session_upsert now scope agent adapter session_id work_dir t =
     (if (scope, agent) \<in> set (map row_key t)
      then map (\<lambda>r. if row_key r = (scope, agent)
                    then conflict_update now adapter session_id work_dir r else r) t
      else t @ [\<lparr>sr_scope_id = scope, sr_agent_id = agent, sr_adapter = adapter,
                 sr_session_id = session_id, sr_work_dir = work_dir, sr_status = ''active'',
                 sr_turn_count = 1, sr_created_at = now, sr_updated_at = now\<rparr>])"

definition mark_status ::
    "int \<Rightarrow> string \<Rightarrow> string \<Rightarrow> string \<Rightarrow> session_store \<Rightarrow> session_exc + session_store" where
  "mark_status now scope agent status t =
     (if status \<notin> set VALID_STATUSES
        then Inl (SessionValueError (''unsupported session status: '' @ status))
      else Inr (map (\<lambda>r. if sr_scope_id r = scope \<and> sr_agent_id r = agent
                         then r\<lparr>sr_status := status, sr_updated_at := now\<rparr> else r) t))"

definition mark_scope_status ::
    "int \<Rightarrow> string \<Rightarrow> string \<Rightarrow> string option \<Rightarrow> session_store
     \<Rightarrow> session_exc + (session_store \<times> nat)" where
  "mark_scope_status now scope status agent t =
     (if status \<notin> set VALID_STATUSES
        then Inl (SessionValueError (''unsupported session status: '' @ status))
      else
        let hit = (\<lambda>r. sr_scope_id r = scope \<and> (agent = None \<or> agent = Some (sr_agent_id r)))
        in Inr (map (\<lambda>r. if hit r then r\<lparr>sr_status := status, sr_updated_at := now\<rparr> else r) t,
                length (filter hit t)))"

definition mark_stale :: "int \<Rightarrow> string \<Rightarrow> string \<Rightarrow> session_store \<Rightarrow> session_exc + session_store" where
  "mark_stale now scope agent t = mark_status now scope agent STALE_STATUS t"

definition mark_archived :: "int \<Rightarrow> string \<Rightarrow> string \<Rightarrow> session_store \<Rightarrow> session_exc + session_store" where
  "mark_archived now scope agent t = mark_status now scope agent ARCHIVED_STATUS t"

definition mark_task_stale ::
    "int \<Rightarrow> string \<Rightarrow> string \<Rightarrow> string option \<Rightarrow> session_store
     \<Rightarrow> session_exc + (session_store \<times> nat)" where
  "mark_task_stale now workspace_id task_id agent t =
     mark_scope_status now (task_scope workspace_id task_id) STALE_STATUS agent t"

definition mark_task_archived ::
    "int \<Rightarrow> string \<Rightarrow> string \<Rightarrow> string option \<Rightarrow> session_store
     \<Rightarrow> session_exc + (session_store \<times> nat)" where
  "mark_task_archived now workspace_id task_id agent t =
     mark_scope_status now (task_scope workspace_id task_id) ARCHIVED_STATUS agent t"

section \<open>The invariant\<close>

definition row_wf :: "session_row \<Rightarrow> bool" where
  "row_wf r = (sr_status r \<in> set VALID_STATUSES \<and> 1 \<le> sr_turn_count r)"

definition store_wf :: "session_store \<Rightarrow> bool" where
  "store_wf t = (distinct (map row_key t) \<and> list_all row_wf t)"

definition session_lookup :: "session_store \<Rightarrow> string \<times> string \<Rightarrow> session_row option" where
  "session_lookup t k = find (\<lambda>r. row_key r = k) t"

lemma statuses: "ACTIVE_STATUS \<in> set VALID_STATUSES" "STALE_STATUS \<in> set VALID_STATUSES"
    "ARCHIVED_STATUS \<in> set VALID_STATUSES"
  by (simp_all add: VALID_STATUSES_def)

lemma inactive_statuses: "STALE_STATUS \<noteq> ''active''" "ARCHIVED_STATUS \<noteq> ''active''"
  by (simp_all add: STALE_STATUS_def ARCHIVED_STATUS_def)

lemma row_key_update [simp]:
  "row_key (conflict_update now ad sid wd r) = row_key r"
  "row_key (r\<lparr>sr_status := st, sr_updated_at := now\<rparr>) = row_key r"
  by (simp_all add: row_key_def conflict_update_def)

lemma map_row_key_if: "(\<And>r. row_key (f r) = row_key r) \<Longrightarrow> map row_key (map (\<lambda>r. if P r then f r else r) t) = map row_key t"
  by (induction t) auto

text \<open>The key is unique, so a lookup finds the row that carries it.\<close>
lemma session_lookup_iff:
  assumes "store_wf t"
  shows "session_lookup t k = Some r \<longleftrightarrow> r \<in> set t \<and> row_key r = k"
  using assms unfolding store_wf_def session_lookup_def
  by (induction t) auto

lemma session_get_lookup:
  assumes "store_wf t"
  shows "session_get t scope agent =
    (case session_lookup t (scope, agent) of
       Some r \<Rightarrow> if sr_status r = ''active'' then Some r else None
     | None \<Rightarrow> None)"
proof -
  have none: "session_get u scope agent = None" if "(scope, agent) \<notin> set (map row_key u)" for u
    using that by (induction u) (auto simp: session_get_def row_key_def)
  have "distinct (map row_key t)"
    using assms by (simp add: store_wf_def)
  then show ?thesis
  proof (induction t)
    case (Cons r t)
    then show ?case
      using none [of t]
      by (cases "row_key r = (scope, agent)") (auto simp: session_get_def session_lookup_def row_key_def)
  qed (simp add: session_get_def session_lookup_def)
qed

lemma lookup_map_key:
  assumes "\<And>r. row_key (f r) = row_key r"
  shows "session_lookup (map f t) k = map_option f (session_lookup t k)"
  unfolding session_lookup_def by (induction t) (auto simp: assms)

lemma lookup_append:
  "session_lookup (t @ u) k = (case session_lookup t k of Some r \<Rightarrow> Some r | None \<Rightarrow> session_lookup u k)"
  unfolding session_lookup_def by (induction t) auto

lemma lookup_single: "session_lookup [r] k = (if row_key r = k then Some r else None)"
  by (simp add: session_lookup_def)

lemma lookup_None: "session_lookup t k = None \<longleftrightarrow> k \<notin> set (map row_key t)"
  unfolding session_lookup_def by (induction t) auto

section \<open>What each operation does to a lookup\<close>

lemma lookup_upsert:
  "session_lookup (session_upsert now scope agent ad sid wd t) k =
     (if k = (scope, agent)
      then Some (case session_lookup t k of
                   Some r \<Rightarrow> conflict_update now ad sid wd r
                 | None \<Rightarrow> \<lparr>sr_scope_id = scope, sr_agent_id = agent, sr_adapter = ad,
                     sr_session_id = sid, sr_work_dir = wd, sr_status = ''active'',
                     sr_turn_count = 1, sr_created_at = now, sr_updated_at = now\<rparr>)
      else session_lookup t k)"
proof (cases "(scope, agent) \<in> set (map row_key t)")
  case True
  let ?f = "\<lambda>r. if row_key r = (scope, agent) then conflict_update now ad sid wd r else r"
  have "session_lookup (map ?f t) k = map_option ?f (session_lookup t k)"
    by (rule lookup_map_key) simp
  moreover have "row_key r = k" if "session_lookup t k = Some r" for r
    using that unfolding session_lookup_def by (auto simp: find_Some_iff)
  moreover have "session_lookup t (scope, agent) \<noteq> None"
    using True by (simp add: lookup_None)
  ultimately show ?thesis
    using True by (cases "session_lookup t k") (auto simp: session_upsert_def)
next
  case False
  then have "session_lookup t (scope, agent) = None"
    by (simp only: lookup_None not_False_eq_True)
  with False show ?thesis
    by (cases "session_lookup t k") (auto simp: session_upsert_def lookup_append lookup_single row_key_def)
qed

lemma lookup_mark_scope_status:
  assumes "mark_scope_status now scope status agent t = Inr (t', n)"
  shows "session_lookup t' k =
     (if fst k = scope \<and> (agent = None \<or> agent = Some (snd k))
      then map_option (\<lambda>r. r\<lparr>sr_status := status, sr_updated_at := now\<rparr>) (session_lookup t k)
      else session_lookup t k)"
proof -
  let ?f = "\<lambda>r. if sr_scope_id r = scope \<and> (agent = None \<or> agent = Some (sr_agent_id r))
                then r\<lparr>sr_status := status, sr_updated_at := now\<rparr> else r"
  have t': "t' = map ?f t"
    using assms by (auto simp: mark_scope_status_def Let_def split: if_splits)
  have "session_lookup t' k = map_option ?f (session_lookup t k)"
    unfolding t' by (rule lookup_map_key) simp
  moreover have "sr_scope_id r = fst k \<and> sr_agent_id r = snd k" if "session_lookup t k = Some r" for r
    using that unfolding session_lookup_def by (auto simp: find_Some_iff row_key_def)
  ultimately show ?thesis
    by (cases "session_lookup t k") auto
qed

text \<open>\<open>_mark_status\<close> is \<open>_mark_scope_status\<close> for one agent, without the count.\<close>
lemma mark_status_scope:
  "mark_status now scope agent status t =
     (case mark_scope_status now scope status (Some agent) t of Inl e \<Rightarrow> Inl e | Inr (t', n) \<Rightarrow> Inr t')"
  by (auto simp: mark_status_def mark_scope_status_def Let_def)

lemma upsert_wf: "store_wf t \<Longrightarrow> store_wf (session_upsert now scope agent ad sid wd t)"
  unfolding store_wf_def session_upsert_def
  by (auto simp: map_row_key_if list_all_iff row_wf_def conflict_update_def row_key_def VALID_STATUSES_def
      ACTIVE_STATUS_def comp_def simp del: map_map)

lemma mark_scope_status_wf:
  "store_wf t \<Longrightarrow> mark_scope_status now scope status agent t = Inr (t', n) \<Longrightarrow> store_wf t'"
  unfolding store_wf_def mark_scope_status_def Let_def
  by (auto simp: map_row_key_if list_all_iff row_wf_def simp del: map_map split: if_splits)

section \<open>The table as its clients see it\<close>

text \<open>The first key, in order, at which a lookup succeeds.\<close>
fun first_some :: "('k \<Rightarrow> 'r option) \<Rightarrow> 'k list \<Rightarrow> 'r option" where
  "first_some g [] = None"
| "first_some g (k # ks) = (case g k of Some r \<Rightarrow> Some r | None \<Rightarrow> first_some g ks)"

lemma get_first_active_first_some:
  "get_first_active t scopes agent = first_some (\<lambda>scope. session_get t scope agent) scopes"
  by (induction scopes) (auto split: option.splits)

lemma first_some_cong: "(\<And>k. k \<in> set ks \<Longrightarrow> g k = h k) \<Longrightarrow> first_some g ks = first_some h ks"
  by (induction ks) (auto split: option.splits)

text \<open>
  What a client that recovers sessions relies on: \<open>put\<close> stores a session under a key, \<open>retire\<close>
  takes the key out of use, and neither touches another key.
\<close>
locale session_table =
  fixes ok :: "'s \<Rightarrow> bool"
    and get :: "'s \<Rightarrow> 'k \<Rightarrow> 'r option"
    and put :: "'p \<Rightarrow> 'k \<Rightarrow> 's \<Rightarrow> 's"
    and retire :: "'q \<Rightarrow> 'k \<Rightarrow> 's \<Rightarrow> 's"
    and stored :: "'p \<Rightarrow> 'k \<Rightarrow> 'r \<Rightarrow> bool"
  assumes put_ok: "ok s \<Longrightarrow> ok (put p k s)"
    and retire_ok: "ok s \<Longrightarrow> ok (retire q k s)"
    and get_put: "ok s \<Longrightarrow> \<exists>r. get (put p k s) k = Some r \<and> stored p k r"
    and get_put_other: "ok s \<Longrightarrow> k' \<noteq> k \<Longrightarrow> get (put p k s) k' = get s k'"
    and get_retire: "ok s \<Longrightarrow> get (retire q k s) k = None"
    and get_retire_other: "ok s \<Longrightarrow> k' \<noteq> k \<Longrightarrow> get (retire q k s) k' = get s k'"
begin

lemma first_after_put:
  "ok s \<Longrightarrow> \<exists>r. first_some (get (put p k s)) (k # ks) = Some r \<and> stored p k r"
  using get_put [of s p k] by auto

lemma first_after_retire:
  "ok s \<Longrightarrow> first_some (get (retire q k s)) ks = first_some (get s) (filter (\<lambda>k'. k' \<noteq> k) ks)"
  by (induction ks) (auto simp: get_retire get_retire_other split: option.splits)

lemma put_elsewhere: "ok s \<Longrightarrow> k \<notin> set ks \<Longrightarrow> first_some (get (put p k s)) ks = first_some (get s) ks"
  by (rule first_some_cong) (metis get_put_other)

lemma put_after_retire:
  assumes "ok s"
  shows "\<exists>r. first_some (get (put p k (retire q k' s))) (k # ks) = Some r \<and> stored p k r"
  using first_after_put [OF retire_ok [OF assms]] .

end

record session_put =
  sp_now :: int
  sp_adapter :: string
  sp_session_id :: string
  sp_work_dir :: "string option"

definition put_session :: "session_put \<Rightarrow> string \<times> string \<Rightarrow> session_store \<Rightarrow> session_store" where
  "put_session p k t =
     session_upsert (sp_now p) (fst k) (snd k) (sp_adapter p) (sp_session_id p) (sp_work_dir p) t"

text \<open>\<open>mark_stale\<close>, which does not raise (\<open>mark_total\<close>).\<close>
definition retire_session :: "int \<Rightarrow> string \<times> string \<Rightarrow> session_store \<Rightarrow> session_store" where
  "retire_session now k t = (case mark_stale now (fst k) (snd k) t of Inl e \<Rightarrow> t | Inr t' \<Rightarrow> t')"

definition stored_session :: "session_put \<Rightarrow> string \<times> string \<Rightarrow> session_row \<Rightarrow> bool" where
  "stored_session p k r =
     (row_key r = k \<and> sr_session_id r = sp_session_id p \<and> sr_adapter r = sp_adapter p
      \<and> sr_work_dir r = sp_work_dir p \<and> sr_status r = ''active'')"

lemma mark_scope_total:
  "status \<in> set VALID_STATUSES \<Longrightarrow> \<exists>t' n. mark_scope_status now scope status agent t = Inr (t', n)"
  by (simp add: mark_scope_status_def Let_def)

lemma mark_total: "\<exists>t'. mark_stale now scope agent t = Inr t'" "\<exists>t'. mark_archived now scope agent t = Inr t'"
  using statuses by (simp_all add: mark_stale_def mark_archived_def mark_status_def)

lemma retire_session_scope:
  "\<exists>n. mark_scope_status now scope STALE_STATUS (Some agent) t = Inr (retire_session now (scope, agent) t, n)"
  using statuses(2) by (simp add: retire_session_def mark_stale_def mark_status_def mark_scope_status_def Let_def)

lemma get_mark_scope_status:
  assumes "store_wf t" "mark_scope_status now scope status agent t = Inr (t', n)" "status \<noteq> ''active''"
  shows "session_get t' scope' agent' =
    (if scope' = scope \<and> (agent = None \<or> agent = Some agent') then None else session_get t scope' agent')"
  using assms(3) session_get_lookup [OF assms(1)] session_get_lookup [OF mark_scope_status_wf [OF assms(1,2)]]
    lookup_mark_scope_status [OF assms(2)]
  by (auto split: option.splits)

lemma get_upsert:
  assumes "store_wf t"
  shows "session_get (session_upsert now scope agent ad sid wd t) scope' agent' =
    (if (scope', agent') = (scope, agent) then session_lookup (session_upsert now scope agent ad sid wd t) (scope, agent)
     else session_get t scope' agent')"
  using session_get_lookup [OF assms] session_get_lookup [OF upsert_wf [OF assms]]
  by (auto simp: lookup_upsert conflict_update_def split: option.splits)

lemma lookup_key: "session_lookup t k = Some r \<Longrightarrow> row_key r = k"
  unfolding session_lookup_def by (auto simp: find_Some_iff)

interpretation sessions: session_table store_wf "\<lambda>t k. session_get t (fst k) (snd k)"
    put_session retire_session stored_session
proof
  fix t :: session_store and p :: session_put and q :: int and k k' :: "string \<times> string"
  assume wf: "store_wf t"
  show "store_wf (put_session p k t)"
    unfolding put_session_def by (rule upsert_wf [OF wf])
  obtain n where r: "mark_scope_status q (fst k) STALE_STATUS (Some (snd k)) t = Inr (retire_session q k t, n)"
    using retire_session_scope [of q "fst k" "snd k" t] by auto
  then show "store_wf (retire_session q k t)"
    by (rule mark_scope_status_wf [OF wf])
  show "session_get (retire_session q k t) (fst k) (snd k) = None"
    using get_mark_scope_status [OF wf r inactive_statuses(1)] by simp
  show "\<exists>r. session_get (put_session p k t) (fst k) (snd k) = Some r \<and> stored_session p k r"
    unfolding put_session_def
    by (auto simp: get_upsert [OF wf] lookup_upsert stored_session_def conflict_update_def row_key_def
        dest: lookup_key split: option.splits)
  assume "k' \<noteq> k"
  then have "fst k' \<noteq> fst k \<or> snd k' \<noteq> snd k"
    by (auto simp: prod_eq_iff)
  then show "session_get (put_session p k t) (fst k') (snd k') = session_get t (fst k') (snd k')"
    and "session_get (retire_session q k t) (fst k') (snd k') = session_get t (fst k') (snd k')"
    using get_mark_scope_status [OF wf r inactive_statuses(1)] by (auto simp: put_session_def get_upsert [OF wf])
qed

section \<open>The pattern of the prefix search\<close>

definition like_esc :: "char \<Rightarrow> string" where
  "like_esc c = (if c \<in> {bslash, CHR ''%'', CHR ''_''} then [bslash, c] else [c])"

lemma escape_like_esc: "escape_like v = concat (map like_esc v)"
  unfolding escape_like_def replace1_def by (induction v) (auto simp: like_esc_def)

lemma like_esc_Cons:
  "like (like_esc c @ q) s = (case s of [] \<Rightarrow> False | d # ds \<Rightarrow> ascii_lower c = ascii_lower d \<and> like q ds)"
  by (auto simp: like_esc_def)

lemma like_percent: "like ''%'' s"
  by (induction s) simp_all

lemma like_escaped_prefix:
  "like (escape_like v @ ''%'') s \<longleftrightarrow> map ascii_lower (take (length v) s) = map ascii_lower v"
  unfolding escape_like_esc
proof (induction v arbitrary: s)
  case Nil
  then show ?case
    using like_percent by simp
next
  case (Cons c v)
  then show ?case
    by (cases s) (auto simp: like_esc_Cons simp del: like.simps)
qed

section \<open>Histories of the table\<close>

text \<open>One statement that changes the table, at a time not before the last one.\<close>
inductive store_step :: "int \<times> session_store \<Rightarrow> int \<times> session_store \<Rightarrow> bool" where
  step_upsert: "now \<le> now' \<Longrightarrow> store_step (now, t) (now', session_upsert now' scope agent ad sid wd t)"
| step_stale: "now \<le> now' \<Longrightarrow> mark_stale now' scope agent t = Inr t' \<Longrightarrow> store_step (now, t) (now', t')"
| step_archived: "now \<le> now' \<Longrightarrow> mark_archived now' scope agent t = Inr t' \<Longrightarrow> store_step (now, t) (now', t')"
| step_task_stale:
    "now \<le> now' \<Longrightarrow> mark_task_stale now' ws task ag t = Inr (t', n) \<Longrightarrow> store_step (now, t) (now', t')"
| step_task_archived:
    "now \<le> now' \<Longrightarrow> mark_task_archived now' ws task ag t = Inr (t', n) \<Longrightarrow> store_step (now, t) (now', t')"

inductive_cases store_stepE: "store_step (now, t) (now', t')"

definition row_times_ok :: "int \<Rightarrow> session_row \<Rightarrow> bool" where
  "row_times_ok now r = (sr_created_at r \<le> sr_updated_at r \<and> sr_updated_at r \<le> now)"

text \<open>Every statement is an upsert or an update of the status of some scope.\<close>
lemma store_step_cases:
  assumes "store_step (now, t) (now', t')"
  obtains (upsert) scope agent ad sid wd where "now \<le> now'" "t' = session_upsert now' scope agent ad sid wd t"
  | (mark) scope status ag n where "now \<le> now'" "status \<in> {STALE_STATUS, ARCHIVED_STATUS}"
      "mark_scope_status now' scope status ag t = Inr (t', n)"
  using assms
proof (elim store_stepE)
  fix scope agent
  assume "now \<le> now'" "mark_stale now' scope agent t = Inr t'"
  then show thesis
    using mark retire_session_scope [of now' scope agent t] by (auto simp: retire_session_def)
next
  fix scope agent
  assume "now \<le> now'" "mark_archived now' scope agent t = Inr t'"
  then show thesis
    using mark by (auto simp: mark_archived_def mark_status_scope split: sum.splits)
qed (use mark upsert in \<open>auto simp: mark_task_stale_def mark_task_archived_def\<close>)

lemma times_upsert:
  "now \<le> now' \<Longrightarrow> list_all (row_times_ok now) t \<Longrightarrow>
   list_all (row_times_ok now') (session_upsert now' scope agent ad sid wd t)"
  by (fastforce simp: session_upsert_def list_all_iff row_times_ok_def conflict_update_def)

lemma times_mark:
  "now \<le> now' \<Longrightarrow> list_all (row_times_ok now) t \<Longrightarrow>
   mark_scope_status now' scope status ag t = Inr (t', n) \<Longrightarrow> list_all (row_times_ok now') t'"
  by (fastforce simp: mark_scope_status_def Let_def list_all_iff row_times_ok_def split: if_splits)

lemma store_step_inv:
  assumes "store_step (now, t) (now', t')" "store_wf t \<and> list_all (row_times_ok now) t"
  shows "store_wf t' \<and> list_all (row_times_ok now') t'"
  using assms(1)
proof (cases rule: store_step_cases)
  case upsert
  then show ?thesis
    using assms(2) upsert_wf times_upsert by blast
next
  case mark
  then show ?thesis
    using assms(2) mark_scope_status_wf times_mark by blast
qed

section \<open>Properties\<close>

text \<open>
  C10: After any history of upserts and status updates from the empty table, under a clock that does
  not run backwards, each (scope, agent) has at most one row, every status is one of the three valid
  ones, every turn count is positive, and no row was created after its last update or updated in
  the future.
\<close>
theorem session_store_invariant:
  assumes "store_step\<^sup>*\<^sup>* (now0, []) (now, t)"
  shows "distinct (map row_key t) \<and> list_all row_wf t \<and> list_all (row_times_ok now) t"
proof -
  have "store_wf t \<and> list_all (row_times_ok now) t"
    using assms
  proof (induction rule: rtranclp_induct2)
    case refl
    then show ?case
      by (simp add: store_wf_def)
  next
    case (step n u n' u')
    then show ?case
      using store_step_inv by blast
  qed
  then show ?thesis
    by (simp add: store_wf_def)
qed

definition example_store :: session_store where
  "example_store =
     session_upsert 12 ''task:ws:T-10'' ''claude'' ''claude'' ''s-2'' None
       (session_upsert 11 ''task:ws:T-1'' ''claude'' ''claude'' ''s-1'' (Some ''/w'') [])"

lemma example_store_reachable: "store_step\<^sup>*\<^sup>* (10, []) (12, example_store)"
proof -
  have "store_step (10, []) (11, session_upsert 11 ''task:ws:T-1'' ''claude'' ''claude'' ''s-1'' (Some ''/w'') [])"
    by (rule step_upsert) simp
  moreover have "store_step (11, session_upsert 11 ''task:ws:T-1'' ''claude'' ''claude'' ''s-1'' (Some ''/w'') []) (12, example_store)"
    unfolding example_store_def by (rule step_upsert) simp
  ultimately show ?thesis
    by (meson converse_rtranclp_into_rtranclp rtranclp.rtrancl_refl)
qed

theorem session_store_invariant_witness:
  "distinct (map row_key example_store) \<and> list_all row_wf example_store
   \<and> list_all (row_times_ok 12) example_store"
  by (rule session_store_invariant [OF example_store_reachable])

lemma example_store_wf: "store_wf example_store"
  by code_simp

text \<open>
  An upsert makes the given session the active one of its (scope, agent) and changes no other
  session: the turn count goes up by one if that very session was active and restarts at one
  otherwise, the creation time of the row is kept, and every other lookup answers as before.
\<close>
theorem session_upsert_get:
  assumes "store_wf t"
  shows "session_get (session_upsert now scope agent ad sid wd t) scope' agent' =
    (if (scope', agent') = (scope, agent) then
       Some \<lparr>sr_scope_id = scope, sr_agent_id = agent, sr_adapter = ad, sr_session_id = sid,
             sr_work_dir = wd, sr_status = ''active'',
             sr_turn_count = (case session_get t scope agent of
                 Some r \<Rightarrow> if sr_session_id r = sid then sr_turn_count r + 1 else 1
               | None \<Rightarrow> 1),
             sr_created_at = (case session_lookup t (scope, agent) of
                 Some r \<Rightarrow> sr_created_at r | None \<Rightarrow> now),
             sr_updated_at = now\<rparr>
     else session_get t scope' agent')"
  using session_get_lookup [OF assms, of scope agent]
  by (auto simp: get_upsert [OF assms] lookup_upsert conflict_update_def row_key_def dest!: lookup_key
      split: option.splits)

theorem session_upsert_get_witness:
  "map_option sr_turn_count
     (session_get (session_upsert 20 ''task:ws:T-1'' ''claude'' ''claude'' ''s-1'' None example_store)
        ''task:ws:T-1'' ''claude'') = Some 2"
  unfolding session_upsert_get [OF example_store_wf] by code_simp

text \<open>
  The turn count counts turns: n successive upserts of one session, starting from a state in
  which it is not the active one, leave it active with turn count n.
\<close>
theorem turn_count_counts_turns:
  assumes "store_wf t" "\<And>r. session_get t scope agent = Some r \<Longrightarrow> sr_session_id r \<noteq> sid" "stamps \<noteq> []"
  shows "map_option (\<lambda>r. (sr_session_id r, sr_turn_count r, sr_updated_at r))
      (session_get (foldl (\<lambda>t now. session_upsert now scope agent ad sid wd t) t stamps) scope agent)
    = Some (sid, length stamps, last stamps)"
proof -
  let ?u = "foldl (\<lambda>t now. session_upsert now scope agent ad sid wd t) t"
  have wf: "store_wf (?u ts)" for ts
    using assms(1) by (induction ts rule: rev_induct) (simp_all add: upsert_wf)
  show ?thesis
    using assms(3)
  proof (induction stamps rule: rev_nonempty_induct)
    case (single now)
    then show ?case
      using assms(2) session_get_lookup [OF assms(1), of scope agent]
      by (auto simp: get_upsert [OF assms(1)] lookup_upsert conflict_update_def split: option.splits if_splits)
  next
    case (snoc now ts)
    then obtain r where "session_get (?u ts) scope agent = Some r" "sr_session_id r = sid" "sr_turn_count r = length ts"
      by (auto simp: map_option_eq_Some)
    then show ?case
      using session_get_lookup [OF wf [of ts], of scope agent]
      by (auto simp: get_upsert [OF wf [of ts]] lookup_upsert conflict_update_def split: option.splits if_splits)
  qed
qed

theorem turn_count_counts_turns_witness:
  "map_option (\<lambda>r. (sr_session_id r, sr_turn_count r, sr_updated_at r))
     (session_get (foldl (\<lambda>t now. session_upsert now ''task:ws:T-1'' ''claude'' ''claude'' ''s-9'' None t)
        example_store [20, 25, 30]) ''task:ws:T-1'' ''claude'') = Some (''s-9'', 3, 30)"
proof -
  have "\<And>r. session_get example_store ''task:ws:T-1'' ''claude'' = Some r \<Longrightarrow> sr_session_id r \<noteq> ''s-9''"
    by (auto simp: example_store_def session_upsert_def session_get_def row_key_def)
  from turn_count_counts_turns [OF example_store_wf this, where stamps = "[20, 25, 30]" and ad = "''claude''"
      and wd = None]
  show ?thesis
    by (simp add: eval_nat_numeral)
qed

text \<open>
  Archiving a task never raises, reports the number of rows it changed, takes the sessions of
  that task's scope (of the given agent, or of every agent) out of use, and changes no other lookup;
  a later upsert is needed to bring one back.
\<close>
theorem mark_task_archived_retires:
  assumes "store_wf t"
  shows "\<exists>t' n. mark_task_archived now ws task agent t = Inr (t', n)
    \<and> n = length (filter (\<lambda>r. sr_scope_id r = task_scope ws task \<and> agent \<in> {None, Some (sr_agent_id r)}) t)
    \<and> store_wf t' \<and> map row_key t' = map row_key t
    \<and> session_get t' scope' agent' =
        (if scope' = task_scope ws task \<and> agent \<in> {None, Some agent'} then None
         else session_get t scope' agent')"
proof -
  obtain t' n where m: "mark_scope_status now (task_scope ws task) ARCHIVED_STATUS agent t = Inr (t', n)"
    using mark_scope_total [OF statuses(3)] by blast
  have t': "t' = map (\<lambda>r. if sr_scope_id r = task_scope ws task \<and> (agent = None \<or> agent = Some (sr_agent_id r))
      then r\<lparr>sr_status := ARCHIVED_STATUS, sr_updated_at := now\<rparr> else r) t"
    and n: "n = length (filter (\<lambda>r. sr_scope_id r = task_scope ws task
      \<and> (agent = None \<or> agent = Some (sr_agent_id r))) t)"
    using m by (simp_all add: mark_scope_status_def Let_def split: if_splits)
  have "map row_key t' = map row_key t"
    unfolding t' by (rule map_row_key_if) simp
  then show ?thesis
    using m n mark_scope_status_wf [OF assms m] get_mark_scope_status [OF assms m inactive_statuses(2)]
    by (simp add: mark_task_archived_def)
qed

theorem mark_task_archived_retires_witness:
  "\<exists>t' n. mark_task_archived 20 ''ws'' ''T-1'' None example_store = Inr (t', n) \<and> n = 1
    \<and> session_get t' ''task:ws:T-1'' ''claude'' = None"
proof -
  have "length (filter (\<lambda>r. sr_scope_id r = task_scope ''ws'' ''T-1'' \<and> None \<in> {None, Some (sr_agent_id r)}) example_store) = 1"
    by code_simp
  then show ?thesis
    using mark_task_archived_retires [OF example_store_wf, of 20 "''ws''" "''T-1''" None "''task:ws:T-1''" "''claude''"]
    by (simp add: task_scope_def) blast
qed

text \<open>
  The prefix search returns exactly the rows whose scope begins with the given prefix, up to the
  case of ASCII letters, whatever wildcard or backslash the prefix contains, restricted to the agent
  and to active rows as asked, and in descending order of their update.
\<close>
theorem list_by_scope_prefix_exact:
  "mset (list_by_scope_prefix t prefix agent stale) =
     filter_mset (\<lambda>r. map ascii_lower (take (length prefix) (sr_scope_id r)) = map ascii_lower prefix
        \<and> agent \<in> {None, Some (sr_agent_id r)} \<and> (stale \<or> sr_status r = ''active'')) (mset t)
   \<and> sorted_wrt (\<lambda>r r'. sr_updated_at r' \<le> sr_updated_at r) (list_by_scope_prefix t prefix agent stale)"
proof -
  have "sorted (map (\<lambda>r. - sr_updated_at r) (order_desc rows))" for rows
    by (simp add: order_desc_def)
  then have "sorted_wrt (\<lambda>r r'. sr_updated_at r' \<le> sr_updated_at r) (order_desc rows)" for rows
    by (simp add: sorted_wrt_map)
  then show ?thesis
    by (simp add: list_by_scope_prefix_def like_escaped_prefix) (simp add: order_desc_def)
qed

text \<open>
  Listing the sessions of a task also lists those of every task whose id extends its id: an
  active row of task T-10 appears among the sessions of T-1, although marking T-1 stale leaves that
  row active.
\<close>
theorem list_task_scope_overlaps:
  assumes "store_wf t" "r \<in> set t" "sr_scope_id r = task_scope ws (task @ x)" "sr_status r = ''active''"
    and "x \<noteq> []" "mark_task_stale now ws task None t = Inr (t', n)"
  shows "r \<in> set (list_task_scope t ws task None False)
    \<and> session_get t' (sr_scope_id r) (sr_agent_id r) = Some r"
proof -
  have "mset (list_task_scope t ws task None False) =
      filter_mset (\<lambda>r. map ascii_lower (take (length (task_scope ws task)) (sr_scope_id r))
          = map ascii_lower (task_scope ws task) \<and> sr_status r = ''active'') (mset t)"
    by (simp add: list_task_scope_def list_by_scope_prefix_def order_desc_def like_escaped_prefix)
  moreover have "take (length (task_scope ws task)) (sr_scope_id r) = task_scope ws task"
    using assms(3) by (simp add: task_scope_def)
  ultimately have "r \<in># mset (list_task_scope t ws task None False)"
    using assms(2,4) by (simp only: set_mset_filter) simp
  moreover have "session_get t (sr_scope_id r) (sr_agent_id r) = Some r"
    using assms(1,2,4) session_lookup_iff [OF assms(1), of "(sr_scope_id r, sr_agent_id r)" r]
    by (simp add: session_get_lookup row_key_def)
  moreover have "sr_scope_id r \<noteq> task_scope ws task"
    using assms(3,5) by (simp add: task_scope_def)
  ultimately show ?thesis
    using get_mark_scope_status [OF assms(1) assms(6) [unfolded mark_task_stale_def] inactive_statuses(1)] by simp
qed

theorem list_task_scope_overlaps_witness:
  "(let r = example_store ! 1; t' = map (\<lambda>r. if sr_scope_id r = ''task:ws:T-1''
        then r\<lparr>sr_status := ''stale'', sr_updated_at := 20\<rparr> else r) example_store in
    r \<in> set (list_task_scope example_store ''ws'' ''T-1'' None False)
    \<and> session_get t' (sr_scope_id r) (sr_agent_id r) = Some r)"
  unfolding Let_def
proof (rule list_task_scope_overlaps [OF example_store_wf, where x = "''0''" and now = 20 and n = 1])
  show "mark_task_stale 20 ''ws'' ''T-1'' None example_store = Inr (map (\<lambda>r. if sr_scope_id r = ''task:ws:T-1''
        then r\<lparr>sr_status := ''stale'', sr_updated_at := 20\<rparr> else r) example_store, 1)"
    by code_simp
qed (simp_all add: example_store_def session_upsert_def row_key_def task_scope_def)

text \<open>
  When a session is marked stale, recovery goes on to the next scope in the list as if the scope
  were not there, and storing a new session under the first scope makes that one the session that is
  recovered.
\<close>
theorem recovery_after_stale:
  assumes "store_wf t" "mark_stale now scope agent t = Inr t'"
  shows "get_first_active t' scopes agent = get_first_active t (filter (\<lambda>s. s \<noteq> scope) scopes) agent
    \<and> (\<exists>r. get_first_active (session_upsert now' scope agent ad sid wd t') (scope # scopes) agent = Some r
         \<and> sr_session_id r = sid \<and> sr_work_dir r = wd)"
proof -
  have t': "t' = retire_session now (scope, agent) t"
    using assms(2) by (simp add: retire_session_def)
  let ?k = "\<lambda>s. (s, agent)" and ?g = "\<lambda>t k. session_get t (fst k) (snd k)"
  have scopes: "get_first_active u ss agent = first_some (?g u) (map ?k ss)" for u ss
    by (induction ss) (auto split: option.splits)
  have "first_some (?g t') (map ?k scopes) = first_some (?g t) (filter (\<lambda>k. k \<noteq> (scope, agent)) (map ?k scopes))"
    unfolding t' by (rule sessions.first_after_retire [OF assms(1)])
  also have "filter (\<lambda>k. k \<noteq> (scope, agent)) (map ?k scopes) = map ?k (filter (\<lambda>s. s \<noteq> scope) scopes)"
    by (induction scopes) auto
  finally have retired: "get_first_active t' scopes agent = get_first_active t (filter (\<lambda>s. s \<noteq> scope) scopes) agent"
    by (simp only: scopes)
  define p where "p = \<lparr>sp_now = now', sp_adapter = ad, sp_session_id = sid, sp_work_dir = wd\<rparr>"
  obtain r where "first_some (?g (put_session p (scope, agent) t')) (map ?k (scope # scopes)) = Some r"
    "stored_session p (scope, agent) r"
    using sessions.put_after_retire [OF assms(1), of p "(scope, agent)" now "(scope, agent)" "map ?k scopes"]
    by (auto simp: t')
  then show ?thesis
    using retired by (simp add: scopes put_session_def stored_session_def p_def)
qed

theorem recovery_after_stale_witness:
  "\<exists>t' r. mark_stale 20 ''task:ws:T-1'' ''claude'' example_store = Inr t'
    \<and> get_first_active t' [''task:ws:T-1'', ''task:ws:T-10''] ''claude''
      = get_first_active example_store [''task:ws:T-10''] ''claude''
    \<and> get_first_active (session_upsert 21 ''task:ws:T-1'' ''claude'' ''claude'' ''s-7'' None t')
        [''task:ws:T-1'', ''task:ws:T-10''] ''claude'' = Some r \<and> sr_session_id r = ''s-7''"
proof -
  obtain t' where t': "mark_stale 20 ''task:ws:T-1'' ''claude'' example_store = Inr t'"
    using mark_total(1) by blast
  show ?thesis
    using t' recovery_after_stale [OF example_store_wf t', of "[''task:ws:T-1'', ''task:ws:T-10'']" ]
      recovery_after_stale [OF example_store_wf t', of "[''task:ws:T-10'']" 21 "''claude''" "''s-7''" None]
    by auto
qed

text \<open>
  A scope key can be read back: describing the scope of a channel, a thread or a task (whose
  workspace id has no colon) gives its kind and the id it was made from, and two tasks share a scope
  only if they are the same task of the same workspace.
\<close>
theorem describe_scope_roundtrip:
  assumes "CHR '':'' \<notin> set ws"
  shows "sd_kind (describe_scope (task_scope ws task)) = ''task'' \<and> sd_detail (describe_scope (task_scope ws task)) = task
    \<and> sd_kind (describe_scope (channel_scope c)) = ''channel'' \<and> sd_detail (describe_scope (channel_scope c)) = c
    \<and> sd_kind (describe_scope (thread_scope c)) = ''thread'' \<and> sd_detail (describe_scope (thread_scope c)) = c
    \<and> (CHR '':'' \<notin> set ws' \<longrightarrow> task_scope ws task = task_scope ws' task' \<longrightarrow> ws = ws' \<and> task = task')"
proof -
  have split: "split_max CHR '':'' 2 (task_scope w u) = [''task'', w, u]" if "CHR '':'' \<notin> set w" for w u
  proof -
    have "takeWhile (\<lambda>x. x \<noteq> CHR '':'') (w @ CHR '':'' # u) = w" "dropWhile (\<lambda>x. x \<noteq> CHR '':'') (w @ CHR '':'' # u) = CHR '':'' # u"
      using that by (induction w) auto
    then show ?thesis
      by (simp add: task_scope_def numeral_2_eq_2)
  qed
  have "ws = ws' \<and> task = task'" if "CHR '':'' \<notin> set ws'" "task_scope ws task = task_scope ws' task'"
    using split [OF assms, of task] split [OF that(1), of task'] that(2) by (metis list.inject)
  moreover have "startswith (task_scope ws task) ''task:''"
    by (simp add: task_scope_def)
  ultimately show ?thesis
    using split [OF assms, of task]
    by (auto simp: describe_scope_def Let_def removeprefix_def channel_scope_def thread_scope_def) (simp_all add: task_scope_def)
qed

theorem describe_scope_roundtrip_witness:
  "sd_detail (describe_scope (task_scope ''ws'' ''a:b'')) = ''a:b''"
  using describe_scope_roundtrip [of "''ws''" "''a:b''"] by simp

end
