(* ===== verification/CoordinateClient.thy ===== *)
theory CoordinateClient
  imports Json
begin

text \<open>
  \<open>multinexus/agentd/coordinate_client.py\<close>: the client that drives the Coordinate CLI. The
  subprocess is the parameter \<open>exec\<close>: a command line and a world give the outcome and the next
  world; \<open>json.loads\<close> is the parameter \<open>loads\<close>, with \<open>Inl\<close> for a \<open>JSONDecodeError\<close>. A message
  leaves out the \<open>repr\<close> of the offending value.

  \<^item> \<open>reap_policy_ok\<close> and \<open>claim_evidence_ok\<close> say when a claim may start a subprocess at all.
  \<^item> the argument vectors are functions, so that they can be compared and read back.
  \<^item> \<open>wait_loop\<close> is the polling loop with fuel; \<open>wait_loop_terminates\<close> bounds the fuel it needs.
\<close>

datatype coord_exc = CoordinateRuntimeError string | CoordAttributeError

datatype cli_outcome =
    CliTimeout
  | CliOSError string
  | CliOtherError string
  | CliExit int string string  \<comment> \<open>returncode, stdout, stderr\<close>

record coordinate_client =
  cl_base_cmd :: "string list"
  cl_db_path :: string
  cl_workspace_id :: string

section \<open>Policies\<close>

definition normalize_recovery_reason :: "json \<Rightarrow> coord_exc + string" where
  "normalize_recovery_reason value =
     (case value of
        JStr s \<Rightarrow>
          (let reason = strip s in
           if reason = [] then Inl (CoordinateRuntimeError ''recovery_reason must be non-empty after strip'')
           else if list_ex (\<lambda>c. ord c < 32) reason
             then Inl (CoordinateRuntimeError ''recovery_reason must not contain control characters'')
           else if length reason > 512
             then Inl (CoordinateRuntimeError ''recovery_reason must be at most 512 characters'')
           else Inr reason)
      | _ \<Rightarrow> Inl (CoordinateRuntimeError ''recovery_reason must be a string''))"

definition normalize_claim_reap_policy :: "json \<Rightarrow> json \<Rightarrow> coord_exc + string \<times> string option" where
  "normalize_claim_reap_policy reap_mode reap_reason =
     (if reap_mode \<noteq> JStr ''global'' \<and> reap_mode \<noteq> JStr ''none''
        then Inl (CoordinateRuntimeError ''reap_mode must be global or none'')
      else if reap_mode = JStr ''global'' then
        (if reap_reason \<noteq> JNull
           then Inl (CoordinateRuntimeError ''global reap_mode must not carry reap_reason'')
         else Inr (''global'', None))
      else
        (case reap_reason of
           JStr s \<Rightarrow>
             (let reason = strip s in
              if reason = []
                then Inl (CoordinateRuntimeError ''none reap_mode requires a non-blank reap_reason'')
              else if s \<noteq> reason
                then Inl (CoordinateRuntimeError ''reap_reason must be stripped-stable'')
              else if list_ex is_control reason
                then Inl (CoordinateRuntimeError ''reap_reason must not contain C0 or DEL control characters'')
              else if length reason > 512
                then Inl (CoordinateRuntimeError ''reap_reason must be at most 512 code points'')
              else if length (utf8 reason) > 2048
                then Inl (CoordinateRuntimeError ''reap_reason must be at most 2048 UTF-8 bytes'')
              else Inr (''none'', Some reason))
         | _ \<Rightarrow> Inl (CoordinateRuntimeError ''none reap_mode requires a string reap_reason'')))"

text \<open>The evidence an operator must give for a recoverable claim, and must not give otherwise.\<close>
definition claim_evidence :: "bool \<Rightarrow> json \<Rightarrow> json \<Rightarrow> coord_exc + string" where
  "claim_evidence recoverable recovery_reason prior_process_stopped =
     (if recoverable then
        ebind (normalize_recovery_reason recovery_reason) (\<lambda>reason.
        if prior_process_stopped \<noteq> JBool True
          then Inl (CoordinateRuntimeError ''recoverable claim requires prior_process_stopped=True'')
        else Inr reason)
      else if recovery_reason \<noteq> JStr []
        then Inl (CoordinateRuntimeError ''non-recoverable claim must not carry recovery_reason'')
      else if prior_process_stopped \<noteq> JBool False
        then Inl (CoordinateRuntimeError ''non-recoverable claim must not carry prior_process_stopped'')
      else Inr [])"

section \<open>Command lines\<close>

definition client_base_cmd :: "bool \<Rightarrow> string \<Rightarrow> string \<Rightarrow> string list" where
  "client_base_cmd is_win32 executable cli_path =
     (if is_win32 \<and> endswith cli_path ''.py'' then [executable, cli_path] else [cli_path])"

definition client_base_env :: "coordinate_client \<Rightarrow> (string \<rightharpoonup> string) \<Rightarrow> (string \<rightharpoonup> string)" where
  "client_base_env cl env = env(''MAC_DB'' \<mapsto> cl_db_path cl)"

definition opt_flag :: "string \<Rightarrow> string option \<Rightarrow> string list" where
  "opt_flag flag v = (case v of None \<Rightarrow> [] | Some x \<Rightarrow> [flag, x])"

text \<open>\<open>if v: cmd.extend([flag, v])\<close>\<close>
definition str_flag :: "string \<Rightarrow> string \<Rightarrow> string list" where
  "str_flag flag v = (if v = [] then [] else [flag, v])"

definition submit_argv ::
    "coordinate_client \<Rightarrow> string \<Rightarrow> string \<Rightarrow> dict \<Rightarrow> dict \<Rightarrow> string \<Rightarrow> string \<Rightarrow> string \<Rightarrow> string \<Rightarrow> string list" where
  "submit_argv cl target prompt origin reply workspace_id task_id message_id idempotency_key =
     cl_base_cmd cl
     @ [''runtime'', ''request'', ''submit'', if workspace_id = [] then cl_workspace_id cl else workspace_id,
        ''--target-agent'', target, ''--prompt'', prompt,
        ''--origin-json'', dumps (JObj origin), ''--reply-json'', dumps (JObj reply)]
     @ str_flag ''--task-id'' task_id
     @ str_flag ''--idempotency-key'' (if idempotency_key = [] then message_id else idempotency_key)"

definition claim_argv ::
    "coordinate_client \<Rightarrow> string \<Rightarrow> bool \<Rightarrow> string \<Rightarrow> string \<times> string option \<Rightarrow> string list" where
  "claim_argv cl agent recoverable reason policy =
     cl_base_cmd cl
     @ [''runtime'', ''job'', ''claim'', ''--agent-id'', agent]
     @ (if recoverable then [''--recoverable'', ''--recovery-reason'', reason, ''--prior-process-stopped''] else [])
     @ (case policy of
          (mode, Some r) \<Rightarrow> if mode = ''none'' then [''--reap-mode'', ''none'', ''--reap-reason'', r] else []
        | (mode, None) \<Rightarrow> [])"

text \<open>\<open>str(attempt_token)\<close> of a value that is an int for \<open>isinstance\<close>.\<close>
definition show_token :: "json \<Rightarrow> string" where
  "show_token v =
     (case v of
        JBool b \<Rightarrow> if b then ''True'' else ''False''
      | JInt i \<Rightarrow> show_int i
      | _ \<Rightarrow> [])"

definition report_argv ::
    "coordinate_client \<Rightarrow> string \<Rightarrow> string \<Rightarrow> string \<Rightarrow> dict \<Rightarrow> json option \<Rightarrow> string option \<Rightarrow> string list" where
  "report_argv cl job agent status result token lease =
     cl_base_cmd cl
     @ [''runtime'', ''job'', ''report'', job, ''--agent-id'', agent, ''--status'', status,
        ''--result-json'', dumps (JObj result)]
     @ opt_flag ''--attempt-token'' (map_option show_token token) @ opt_flag ''--lease-id'' lease"

definition progress_argv ::
    "coordinate_client \<Rightarrow> string \<Rightarrow> string \<Rightarrow> string \<Rightarrow> string \<Rightarrow> string \<Rightarrow> json option \<Rightarrow> string option \<Rightarrow> string list" where
  "progress_argv cl job agent stage summary session token lease =
     cl_base_cmd cl
     @ [''runtime'', ''job'', ''progress'', job, ''--agent-id'', agent]
     @ str_flag ''--stage'' stage @ str_flag ''--summary'' summary @ str_flag ''--session-id'' session
     @ opt_flag ''--attempt-token'' (map_option show_token token) @ opt_flag ''--lease-id'' lease"

definition renew_argv :: "coordinate_client \<Rightarrow> string \<Rightarrow> string \<Rightarrow> int \<Rightarrow> string \<Rightarrow> string list" where
  "renew_argv cl job agent token lease =
     cl_base_cmd cl
     @ [''runtime'', ''job'', ''lease'', ''renew'', job, ''--agent-id'', agent,
        ''--attempt-token'', show_int token, ''--lease-id'', lease]"

definition reap_argv :: "coordinate_client \<Rightarrow> string \<Rightarrow> int \<Rightarrow> string list" where
  "reap_argv cl actor batch_size =
     cl_base_cmd cl
     @ [''runtime'', ''job'', ''lease'', ''reap'', ''--actor'', actor, ''--batch-size'', show_int batch_size]"

definition list_argv :: "coordinate_client \<Rightarrow> string \<Rightarrow> string list" where
  "list_argv cl workspace_id =
     cl_base_cmd cl
     @ [''job'', ''list'', ''--workspace-id'', if workspace_id = [] then cl_workspace_id cl else workspace_id]"

section \<open>Calls\<close>

text \<open>The outcome of the subprocess, decoded; \<open>json.loads\<close> is the argument \<open>loads\<close>.\<close>
definition decode_cli :: "(string \<Rightarrow> string + json) \<Rightarrow> cli_outcome \<Rightarrow> coord_exc + dict" where
  "decode_cli loads res =
     (case res of
        CliTimeout \<Rightarrow> Inl (CoordinateRuntimeError ''coordinate CLI timed out'')
      | CliOSError m \<Rightarrow> Inl (CoordinateRuntimeError (''coordinate CLI execution failed: '' @ m))
      | CliOtherError m \<Rightarrow> Inl (CoordinateRuntimeError (''coordinate CLI unexpected error: '' @ m))
      | CliExit returncode out err \<Rightarrow>
          if returncode \<noteq> 0
            then Inl (CoordinateRuntimeError
              (''coordinate CLI exit '' @ show_int returncode @ '': '' @ take 300 err))
          else if strip out = [] then Inl (CoordinateRuntimeError ''coordinate CLI returned empty stdout'')
          else
            (case loads (strip out) of
               Inl m \<Rightarrow> Inl (CoordinateRuntimeError (''coordinate CLI non-JSON: '' @ m))
             | Inr (JObj d) \<Rightarrow>
                 if truthy (dget d ''error'') then Inl (CoordinateRuntimeError ''coordinate runtime error'')
                 else Inr d
             | Inr _ \<Rightarrow> Inl (CoordinateRuntimeError ''coordinate CLI returned non-object JSON'')))"

definition run_cli ::
    "(string list \<Rightarrow> 'w \<Rightarrow> cli_outcome \<times> 'w) \<Rightarrow> (string \<Rightarrow> string + json) \<Rightarrow> string list \<Rightarrow> 'w
     \<Rightarrow> (coord_exc + dict) \<times> 'w" where
  "run_cli exec loads cmd w = (case exec cmd w of (res, w') \<Rightarrow> (decode_cli loads res, w'))"

definition claim_job ::
    "(string list \<Rightarrow> 'w \<Rightarrow> cli_outcome \<times> 'w) \<Rightarrow> (string \<Rightarrow> string + json) \<Rightarrow> coordinate_client
     \<Rightarrow> string \<Rightarrow> bool \<Rightarrow> json \<Rightarrow> json \<Rightarrow> json \<Rightarrow> json \<Rightarrow> 'w \<Rightarrow> (coord_exc + dict) \<times> 'w" where
  "claim_job exec loads cl agent recoverable recovery_reason prior_stopped reap_mode reap_reason w =
     (case normalize_claim_reap_policy reap_mode reap_reason of
        Inl e \<Rightarrow> (Inl e, w)
      | Inr policy \<Rightarrow>
          (case claim_evidence recoverable recovery_reason prior_stopped of
             Inl e \<Rightarrow> (Inl e, w)
           | Inr reason \<Rightarrow>
               (case run_cli exec loads (claim_argv cl agent recoverable reason policy) w of
                  (res, w') \<Rightarrow>
                    (ebind res (\<lambda>result.
                       case dget result ''result'' of
                         JObj inner \<Rightarrow> Inr inner
                       | _ \<Rightarrow> Inl (CoordinateRuntimeError
                           ''coordinate claim returned missing/invalid result envelope'')), w'))))"

text \<open>The loop over \<open>jobs\<close>: \<open>job.get\<close> fails on a value that is not a dictionary.\<close>
fun find_job :: "string \<Rightarrow> json list \<Rightarrow> coord_exc + dict option" where
  "find_job job_id [] = Inr None"
| "find_job job_id (job # jobs) =
     (case job of
        JObj d \<Rightarrow> if dget d ''id'' = JStr job_id then Inr (Some d) else find_job job_id jobs
      | _ \<Rightarrow> Inl CoordAttributeError)"

definition jobs_of_list :: "string \<Rightarrow> dict \<Rightarrow> coord_exc + dict option" where
  "jobs_of_list job_id result =
     (if \<not> has_key result ''jobs'' then Inr None
      else case dget result ''jobs'' of
          JList jobs \<Rightarrow> find_job job_id jobs
        | _ \<Rightarrow> Inl (CoordinateRuntimeError ''coordinate job list returned non-list jobs''))"

definition get_job ::
    "(string list \<Rightarrow> 'w \<Rightarrow> cli_outcome \<times> 'w) \<Rightarrow> (string \<Rightarrow> string + json) \<Rightarrow> coordinate_client
     \<Rightarrow> string \<Rightarrow> string \<Rightarrow> 'w \<Rightarrow> (coord_exc + dict option) \<times> 'w" where
  "get_job exec loads cl job_id workspace_id w =
     (case run_cli exec loads (list_argv cl workspace_id) w of
        (res, w') \<Rightarrow> (ebind res (jobs_of_list job_id), w'))"

definition TERMINAL_STATUSES :: "json list" where
  "TERMINAL_STATUSES = [JStr ''done'', JStr ''failed'', JStr ''timed_out'']"

text \<open>
  The polling loop. \<open>clock\<close> is \<open>time.monotonic()\<close> and \<open>sleep\<close> is \<open>asyncio.sleep(poll_interval)\<close>;
  \<open>None\<close> means that the fuel ran out, \<open>Some (Inr None)\<close> is the code's own timeout.
\<close>
fun wait_loop ::
    "nat \<Rightarrow> ('w \<Rightarrow> int) \<Rightarrow> ('w \<Rightarrow> 'w) \<Rightarrow> ('w \<Rightarrow> (coord_exc + dict option) \<times> 'w) \<Rightarrow> int \<Rightarrow> int
     \<Rightarrow> 'w \<Rightarrow> (coord_exc + dict option) option \<times> 'w" where
  "wait_loop 0 clock sleep poll start timeout w = (None, w)"
| "wait_loop (Suc fuel) clock sleep poll start timeout w =
     (if clock w - start < timeout then
        (case poll w of
           (Inl e, w') \<Rightarrow> (Some (Inl e), w')
         | (Inr None, w') \<Rightarrow> wait_loop fuel clock sleep poll start timeout (sleep w')
         | (Inr (Some job), w') \<Rightarrow>
             if dget job ''status'' \<in> set TERMINAL_STATUSES then (Some (Inr (Some job)), w')
             else wait_loop fuel clock sleep poll start timeout (sleep w'))
      else (Some (Inr None), w))"

definition wait_for_job_result ::
    "nat \<Rightarrow> ('w \<Rightarrow> int) \<Rightarrow> ('w \<Rightarrow> 'w) \<Rightarrow> (string list \<Rightarrow> 'w \<Rightarrow> cli_outcome \<times> 'w) \<Rightarrow> (string \<Rightarrow> string + json)
     \<Rightarrow> coordinate_client \<Rightarrow> string \<Rightarrow> string \<Rightarrow> int \<Rightarrow> 'w \<Rightarrow> (coord_exc + dict option) option \<times> 'w" where
  "wait_for_job_result fuel clock sleep exec loads cl job_id workspace_id timeout w =
     wait_loop fuel clock sleep
       (get_job exec loads cl job_id (if workspace_id = [] then cl_workspace_id cl else workspace_id))
       (clock w) timeout w"

section \<open>Which claims start a subprocess\<close>

definition reason_ok :: "string \<Rightarrow> bool" where
  "reason_ok s = (s \<noteq> [] \<and> \<not> list_ex (\<lambda>c. ord c < 32) s \<and> length s \<le> 512)"

definition reap_policy_ok :: "json \<Rightarrow> json \<Rightarrow> bool" where
  "reap_policy_ok mode reason =
     (mode = JStr ''global'' \<and> reason = JNull
      \<or> mode = JStr ''none'' \<and> (case reason of
          JStr s \<Rightarrow> strip s = s \<and> s \<noteq> [] \<and> \<not> list_ex is_control s \<and> length s \<le> 512
        | _ \<Rightarrow> False))"

definition claim_evidence_ok :: "bool \<Rightarrow> json \<Rightarrow> json \<Rightarrow> bool" where
  "claim_evidence_ok recoverable reason prior =
     (if recoverable
      then prior = JBool True \<and> (case reason of JStr s \<Rightarrow> reason_ok (strip s) | _ \<Rightarrow> False)
      else reason = JStr [] \<and> prior = JBool False)"

text \<open>A character takes at most two bytes, so the check on bytes never fires.\<close>
lemma length_utf8: "length (utf8 s) \<le> 2 * length s"
  by (induction s) (simp_all add: utf8_def utf8_char_def)

lemma utf8_short: "length s \<le> 512 \<Longrightarrow> \<not> 2048 < length (utf8 s)"
  using length_utf8 [of s] by linarith

lemma normalize_recovery_reason_Inr:
  "normalize_recovery_reason v = Inr r \<longleftrightarrow> (\<exists>s. v = JStr s \<and> r = strip s \<and> reason_ok r)"
  by (cases v) (auto simp: normalize_recovery_reason_def reason_ok_def Let_def)

lemma normalize_claim_reap_policy_Inr:
  "normalize_claim_reap_policy mode reason = Inr pol \<longleftrightarrow>
     reap_policy_ok mode reason
     \<and> pol = (if mode = JStr ''global'' then (''global'', None)
              else (''none'', case reason of JStr s \<Rightarrow> Some s | _ \<Rightarrow> None))"
  by (auto simp: normalize_claim_reap_policy_def reap_policy_ok_def Let_def utf8_short split: json.splits)

lemma claim_evidence_Inr:
  "claim_evidence rec reason prior = Inr r \<longleftrightarrow>
     claim_evidence_ok rec reason prior
     \<and> r = (if rec then (case reason of JStr s \<Rightarrow> strip s | _ \<Rightarrow> []) else [])"
  by (auto simp: claim_evidence_def claim_evidence_ok_def result_simps normalize_recovery_reason_Inr split: json.splits)

lemma sum_is_Inl: "(\<And>r. m \<noteq> Inr r) \<Longrightarrow> \<exists>e. m = Inl e"
  by (cases m) auto

lemma find_job_Inr: "find_job job_id jobs = Inr (Some d) \<Longrightarrow> dget d ''id'' = JStr job_id \<and> JObj d \<in> set jobs"
  by (induction jobs) (auto split: json.splits if_splits)

lemma jobs_of_list_Inr: "jobs_of_list job_id d = Inr (Some job) \<Longrightarrow> dget job ''id'' = JStr job_id"
  by (auto simp: jobs_of_list_def dest: find_job_Inr split: json.splits if_splits)

lemma get_job_id: "fst (get_job exec loads cl job_id ws w) = Inr (Some d) \<Longrightarrow> dget d ''id'' = JStr job_id"
  by (auto simp: get_job_def result_simps dest: jobs_of_list_Inr split: prod.splits)

lemma json_obj_Inl: "(case v of JObj d \<Rightarrow> Inr d | _ \<Rightarrow> Inl x) = Inl e \<longleftrightarrow> (\<forall>d. v \<noteq> JObj d) \<and> e = x"
  by (cases v) auto

lemma decode_cli_Inl: "decode_cli loads res = Inl e \<Longrightarrow> \<exists>m. e = CoordinateRuntimeError m"
  by (auto simp: decode_cli_def split: cli_outcome.splits sum.splits json.splits if_splits)

lemma normalize_claim_reap_policy_Inl:
  "normalize_claim_reap_policy mode reason = Inl e \<Longrightarrow> \<exists>m. e = CoordinateRuntimeError m"
  by (auto simp: normalize_claim_reap_policy_def Let_def split: json.splits if_splits)

lemma claim_evidence_Inl: "claim_evidence rec reason prior = Inl e \<Longrightarrow> \<exists>m. e = CoordinateRuntimeError m"
  by (auto simp: claim_evidence_def normalize_recovery_reason_def Let_def result_simps split: json.splits if_splits)

lemma decode_cli_Inr:
  "decode_cli loads res = Inr d \<longleftrightarrow>
     (\<exists>out err. res = CliExit 0 out err \<and> strip out \<noteq> [] \<and> loads (strip out) = Inr (JObj d)
        \<and> \<not> truthy (dget d ''error''))"
  by (auto simp: decode_cli_def split: cli_outcome.splits sum.splits json.splits if_splits)

section \<open>The polling loop\<close>

lemma wait_loop_result:
  assumes "wait_loop fuel clock sleep poll start timeout w = (Some r, w')"
  shows "(\<forall>job. r = Inr (Some job) \<longrightarrow> dget job ''status'' \<in> set TERMINAL_STATUSES
            \<and> (\<exists>u. poll u = (Inr (Some job), w')))
    \<and> (r = Inr None \<longrightarrow> timeout \<le> clock w' - start)"
  using assms
  by (induction fuel clock sleep poll start timeout w rule: wait_loop.induct)
    (fastforce split: if_splits prod.splits sum.splits option.splits)+

text \<open>
  Each round sleeps, and the clock advances by at least \<open>p\<close> from one check to the next; so the
  loop checks its condition at most once per \<open>p\<close> before the deadline.
\<close>
lemma wait_loop_terminates:
  assumes "\<And>u. clock u + p \<le> clock (sleep (snd (poll u)))" "0 < p"
    and "timeout - (clock w - start) \<le> int fuel * p"
  shows "fst (wait_loop (Suc fuel) clock sleep poll start timeout w) \<noteq> None"
  using assms(3)
proof (induction fuel arbitrary: w)
  case 0
  then show ?case
    by simp
next
  case (Suc fuel)
  have "timeout - (clock (sleep (snd (poll w))) - start) \<le> int fuel * p"
    using Suc.prems assms(1) [of w] by (simp add: algebra_simps)
  then have "fst (wait_loop (Suc fuel) clock sleep poll start timeout (sleep (snd (poll w)))) \<noteq> None"
    by (rule Suc.IH)
  then show ?case
    by (subst wait_loop.simps(2)) (auto split: prod.splits sum.splits option.splits simp del: wait_loop.simps)
qed

section \<open>Properties\<close>

text \<open>
  A claim starts the CLI only with a complete policy: a malformed reap policy, recovery evidence
  that is missing, or evidence that was not asked for makes the claim fail without any subprocess;
  otherwise exactly one command runs, and its flags carry the stripped recovery reason if and only
  if the claim is recoverable and the reap reason if and only if the reap mode is none.
\<close>
theorem claim_job_fails_closed:
  "(if reap_policy_ok mode why \<and> claim_evidence_ok rec reason prior
    then snd (claim_job exec loads cl agent rec reason prior mode why w)
      = snd (exec (cl_base_cmd cl @ [''runtime'', ''job'', ''claim'', ''--agent-id'', agent]
          @ (if rec then [''--recoverable'', ''--recovery-reason'',
               case reason of JStr s \<Rightarrow> strip s | _ \<Rightarrow> [], ''--prior-process-stopped''] else [])
          @ (if mode = JStr ''none'' then [''--reap-mode'', ''none'', ''--reap-reason'',
               case why of JStr s \<Rightarrow> s | _ \<Rightarrow> []] else [])) w)
    else \<exists>e. claim_job exec loads cl agent rec reason prior mode why w = (Inl e, w))"
proof (cases "reap_policy_ok mode why \<and> claim_evidence_ok rec reason prior")
  case True
  define pol where "pol = (if mode = JStr ''global'' then (''global'', None)
              else (''none'', case why of JStr s \<Rightarrow> Some s | _ \<Rightarrow> None))"
  have "normalize_claim_reap_policy mode why = Inr pol"
    using True by (simp add: normalize_claim_reap_policy_Inr pol_def)
  moreover have "claim_evidence rec reason prior = Inr (if rec then (case reason of JStr s \<Rightarrow> strip s | _ \<Rightarrow> []) else [])"
    using True by (simp add: claim_evidence_Inr)
  ultimately show ?thesis
    using True
    by (auto simp: claim_job_def run_cli_def claim_argv_def pol_def reap_policy_ok_def split: prod.splits json.splits)
next
  case False
  show ?thesis
  proof (cases "reap_policy_ok mode why")
    case True
    then obtain pol where "normalize_claim_reap_policy mode why = Inr pol"
      using normalize_claim_reap_policy_Inr by blast
    moreover obtain e where "claim_evidence rec reason prior = Inl e"
      using sum_is_Inl [of "claim_evidence rec reason prior"] claim_evidence_Inr True False by blast
    ultimately have "\<exists>e. claim_job exec loads cl agent rec reason prior mode why w = (Inl e, w)"
      by (simp add: claim_job_def)
    then show ?thesis
      unfolding if_not_P [OF False] .
  next
    case no: False
    then obtain e where "normalize_claim_reap_policy mode why = Inl e"
      using sum_is_Inl [of "normalize_claim_reap_policy mode why"] normalize_claim_reap_policy_Inr by blast
    then have "\<exists>e. claim_job exec loads cl agent rec reason prior mode why w = (Inl e, w)"
      by (simp add: claim_job_def)
    then show ?thesis
      unfolding if_not_P [OF False] .
  qed
qed

text \<open>
  Every failure of the CLI becomes a \<open>CoordinateRuntimeError\<close>, never another exception: the
  envelope is returned exactly when the process exits with 0 and its output decodes to an object
  without a true \<open>error\<close>; a claim then returns the inner \<open>result\<close> object.
\<close>
theorem claim_job_errors_bounded:
  assumes "claim_job exec loads cl agent rec reason prior mode why w = (r, w')"
  shows "case r of
      Inl e \<Rightarrow> \<exists>m. e = CoordinateRuntimeError m
    | Inr inner \<Rightarrow> \<exists>out err d cmd. exec cmd w = (CliExit 0 out err, w') \<and> loads (strip out) = Inr (JObj d)
        \<and> \<not> truthy (dget d ''error'') \<and> dget d ''result'' = JObj inner"
proof (cases r)
  case (Inl e)
  have "\<exists>m. e = CoordinateRuntimeError m"
    using assms unfolding Inl claim_job_def run_cli_def
    by (auto simp: result_simps json_obj_Inl dest: decode_cli_Inl normalize_claim_reap_policy_Inl
        claim_evidence_Inl split: prod.splits sum.splits)
  then show ?thesis
    using Inl by simp
next
  case (Inr inner)
  then show ?thesis
    using assms
    by (fastforce simp: claim_job_def run_cli_def result_simps decode_cli_Inr split: prod.splits sum.splits json.splits)
qed

definition example_client :: coordinate_client where
  "example_client = \<lparr>cl_base_cmd = [''coordinate''], cl_db_path = ''/db'', cl_workspace_id = ''ws''\<rparr>"

text \<open>A process that records its command lines and answers an empty envelope, and its decoder.\<close>
definition example_exec :: "string list \<Rightarrow> string list list \<Rightarrow> cli_outcome \<times> string list list" where
  "example_exec cmd w = (CliExit 0 ''{}'' [], w @ [cmd])"

definition example_loads :: "string \<Rightarrow> string + json" where
  "example_loads s = (if s = ''{}'' then Inr (JObj [(''result'', JObj [(''claimed'', JBool False)])]) else Inl ''bad'')"

theorem claim_job_errors_bounded_witness:
  "case fst (claim_job example_exec example_loads example_client ''pi'' False (JStr []) (JBool False) (JStr ''global'') JNull []) of
      Inl e \<Rightarrow> \<exists>m. e = CoordinateRuntimeError m
    | Inr inner \<Rightarrow> \<exists>out err d cmd. example_exec cmd [] = (CliExit 0 out err,
          snd (claim_job example_exec example_loads example_client ''pi'' False (JStr []) (JBool False) (JStr ''global'') JNull []))
        \<and> example_loads (strip out) = Inr (JObj d) \<and> \<not> truthy (dget d ''error'') \<and> dget d ''result'' = JObj inner"
  by (rule claim_job_errors_bounded [OF prod.collapse [symmetric]])

text \<open>
  Waiting for a job returns only the job asked for, in a terminal state, or nothing after at
  least the whole timeout has passed.
\<close>
theorem wait_for_job_result_sound:
  assumes "wait_for_job_result fuel clock sleep exec loads cl job_id ws timeout w = (Some r, w')"
  shows "(\<forall>job. r = Inr (Some job) \<longrightarrow>
        dget job ''id'' = JStr job_id \<and> dget job ''status'' \<in> {JStr ''done'', JStr ''failed'', JStr ''timed_out''})
    \<and> (r = Inr None \<longrightarrow> timeout \<le> clock w' - clock w)"
proof -
  note res = wait_loop_result [OF assms [unfolded wait_for_job_result_def]]
  show ?thesis
  proof (intro conjI allI impI)
    fix job assume "r = Inr (Some job)"
    with res obtain u where "get_job exec loads cl job_id (if ws = [] then cl_workspace_id cl else ws) u = (Inr (Some job), w')"
      by blast
    then show "dget job ''id'' = JStr job_id"
      using get_job_id [of exec loads cl job_id _ u job] by (metis fst_conv)
    show "dget job ''status'' \<in> {JStr ''done'', JStr ''failed'', JStr ''timed_out''}"
      using res \<open>r = Inr (Some job)\<close> by (simp add: TERMINAL_STATUSES_def)
  qed (use res in blast)
qed

text \<open>
  A coordinator whose answer changes with time: the world is the clock, and from time 4 on the only
  job is done.
\<close>
definition clock_exec :: "string list \<Rightarrow> int \<Rightarrow> cli_outcome \<times> int" where
  "clock_exec cmd now = (CliExit 0 (if now < 4 then ''early'' else ''late'') [], now)"

definition clock_loads :: "string \<Rightarrow> string + json" where
  "clock_loads s =
     (if s = ''early'' then Inr (JObj [(''jobs'', JList [JObj [(''id'', JStr ''j1''), (''status'', JStr ''running'')]])])
      else Inr (JObj [(''jobs'', JList [JObj [(''id'', JStr ''j1''), (''status'', JStr ''done'')]])]))"

theorem wait_for_job_result_sound_witness:
  "dget [(''id'', JStr ''j1''), (''status'', JStr ''done'')] ''status'' \<in> {JStr ''done'', JStr ''failed'', JStr ''timed_out''}"
proof -
  have "wait_for_job_result 9 id (\<lambda>t. t + 2) clock_exec clock_loads example_client ''j1'' [] 1800 0
      = (Some (Inr (Some [(''id'', JStr ''j1''), (''status'', JStr ''done'')])), 4)"
    by code_simp
  from wait_for_job_result_sound [OF this] show ?thesis
    by blast
qed

text \<open>
  Waiting for a job ends: if the clock advances by at least p > 0 over each poll and sleep, then
  \<open>timeout div p + 2\<close> rounds suffice, whatever the CLI answers.
\<close>
theorem wait_for_job_result_terminates:
  assumes "\<And>cmd u. clock u + p \<le> clock (sleep (snd (exec cmd u)))" "0 < p" "0 \<le> timeout"
  shows "fst (wait_for_job_result (nat (timeout div p) + 2) clock sleep exec loads cl job_id ws timeout w) \<noteq> None"
proof -
  have "snd (get_job exec loads cl job_id ws' u) = snd (exec (list_argv cl ws') u)" for ws' u
    by (simp add: get_job_def run_cli_def split: prod.splits)
  then have step: "clock u + p \<le> clock (sleep (snd (get_job exec loads cl job_id ws' u)))" for ws' u
    using assms(1) by simp
  have "timeout mod p < p"
    using assms(2) by simp
  moreover have "(timeout div p + 1) * p = p * (timeout div p) + p"
    by (simp add: algebra_simps)
  ultimately have "timeout \<le> (timeout div p + 1) * p"
    using mult_div_mod_eq [of p timeout] by linarith
  moreover have "int (Suc (nat (timeout div p))) = timeout div p + 1"
    using assms(2,3) by (simp add: pos_imp_zdiv_nonneg_iff)
  ultimately have "timeout - (clock w - clock w) \<le> int (Suc (nat (timeout div p))) * p"
    by (simp only: diff_self diff_0_right)
  from wait_loop_terminates [OF step assms(2) this] show ?thesis
    by (simp add: wait_for_job_result_def del: wait_loop.simps)
qed

theorem wait_for_job_result_terminates_witness:
  "fst (wait_for_job_result (nat (1800 div 2) + 2) id (\<lambda>t. t + 2) clock_exec clock_loads example_client
      ''j2'' [] 1800 0) \<noteq> None"
  by (rule wait_for_job_result_terminates [where p = 2]) (simp_all add: clock_exec_def)

end
