(* ===== verification/AgentdWorker.thy ===== *)
theory AgentdWorker
  imports ExecutionContext ExecutorBinding CoordinateClient SessionStore
begin

text \<open>
  \<open>multinexus/agentd/worker.py\<close>: the process that claims a job, admits it, runs the provider and
  reports. One claim is processed in two parts. The admission (\<open>admit_job\<close>) is a function from the
  claim to a plan or an early end; the execution (\<open>process_job\<close>) threads the state of the worker
  through the provider, the session table and the Coordinate CLI.

  What the code does not contain is an argument: the digest, \<open>json.loads\<close>, the CLI subprocess, the
  wall clock, and the provider, which for each call emits progress updates and then returns, raises,
  or is cancelled because the lease was lost or the worker stopped.

  The properties are in \<open>WorkerSafety\<close>.
\<close>

section \<open>Claims that are not processed\<close>

definition sanitize_blocked_field :: "string \<Rightarrow> string" where
  "sanitize_blocked_field value = take 64 (map (\<lambda>c. if is_control c then CHR ''?'' else c) value)"

definition BLOCKER_REASONS :: "string list" where
  "BLOCKER_REASONS = [''queue_empty'', ''capacity_exhausted'', ''resource_blocked'', ''scan_limit_reached'']"

datatype log_level = Debug | Warning

text \<open>The line that is logged for a claim without a job, if any.\<close>
definition log_claim_blocker :: "dict \<Rightarrow> (log_level \<times> string) option" where
  "log_claim_blocker claim_result =
     (let reason = (case dget claim_result ''reason'' of JStr s \<Rightarrow> s | _ \<Rightarrow> []) in
      if reason \<notin> set BLOCKER_REASONS then None
      else
        let oldest_job_id = (case dget claim_result ''oldest_blocked_job_id'' of
              JStr s \<Rightarrow> sanitize_blocked_field s | _ \<Rightarrow> []);
            oldest_resource_key = (case dget claim_result ''oldest_blocked_resource_key'' of
              JStr s \<Rightarrow> sanitize_blocked_field s | _ \<Rightarrow> []);
            extras = (if oldest_job_id = [] then [] else [''oldest_job_id='' @ oldest_job_id])
              @ (if oldest_resource_key = [] then [] else [''oldest_resource_key='' @ oldest_resource_key]);
            extra = join_with '' '' extras
        in if reason = ''queue_empty''
           then Some (Debug, ''No job available for agent (queue_empty) '' @ extra)
           else Some (Warning, ''Job claim blocked: reason='' @ reason @ '' '' @ extra))"

section \<open>Results and progress\<close>

record adapter_result =
  ar_text :: string
  ar_session_id :: "string option"
  ar_resumed :: bool
  ar_metadata :: dict

definition ERROR_PREFIXES :: "string list" where
  "ERROR_PREFIXES =
     [''Agent error:'', ''OpenCode CLI failed'', ''OpenCode timed out'', ''OpenCode returned no text'',
      ''Codex CLI failed'', ''Codex timed out'', ''Codex stopped responding'', ''Codex resume failed'',
      ''Hermes CLI failed'', ''Hermes timed out'', ''Claude CLI failed'', ''Claude error:'',
      ''Claude timeout'', ''omp CLI failed'', ''omp timed out'']"

definition is_error :: "string \<Rightarrow> bool" where
  "is_error t = list_ex (\<lambda>p. startswith t p) ERROR_PREFIXES"

definition status_for_result :: "adapter_result \<Rightarrow> string" where
  "status_for_result r =
     (if truthy (dget (ar_metadata r) ''timeout'') then ''timed_out''
      else if startswith (ar_text r) ''Claude timeout:'' then ''timed_out''
      else if \<not> is_error (ar_text r) then ''done'' else ''failed'')"

definition normalize_progress :: "json \<Rightarrow> (string \<times> string) list" where
  "normalize_progress update =
     (case update of
        JObj d \<Rightarrow>
          concat (map (\<lambda>key. case dget d key of
              JStr v \<Rightarrow> if strip v = [] then []
                        else [(key, take (if key = ''session_id'' then 200 else 1000) (strip v))]
            | _ \<Rightarrow> []) [''stage'', ''summary'', ''session_id''])
      | JStr s \<Rightarrow> if strip s = [] then [] else [(''summary'', take 1000 (strip s))]
      | _ \<Rightarrow> [])"

definition progress_field :: "(string \<times> string) list \<Rightarrow> string \<Rightarrow> string" where
  "progress_field p k = (case map_of p k of None \<Rightarrow> [] | Some v \<Rightarrow> v)"

section \<open>Reading a job\<close>

definition obj_or_empty :: "json \<Rightarrow> dict" where
  "obj_or_empty v = (case v of JObj d \<Rightarrow> d | _ \<Rightarrow> [])"

text \<open>The first usable candidate, in the order of the tuple in \<open>_recovery_session_id\<close>.\<close>
definition recovery_candidates :: "dict \<Rightarrow> json list" where
  "recovery_candidates job =
     [dget job ''terminal_session_id'',
      dget (obj_or_empty (dget job ''progress'')) ''session_id'',
      dget (obj_or_empty (dget (obj_or_empty (dget job ''result'')) ''timeout'')) ''session_id'',
      dget (obj_or_empty (dget job ''result'')) ''session_id'']"

fun first_session :: "json list \<Rightarrow> string" where
  "first_session [] = []"
| "first_session (JStr s # cs) = (if strip s \<noteq> [] then strip s else first_session cs)"
| "first_session (c # cs) = first_session cs"

definition recovery_session_id :: "dict \<Rightarrow> string" where
  "recovery_session_id job = first_session (recovery_candidates job)"

text \<open>\<open>_extract_payload\<close>; \<open>Inl\<close> is the message of its \<open>ValueError\<close>.\<close>
definition extract_payload :: "(string \<Rightarrow> string + json) \<Rightarrow> dict \<Rightarrow> string + dict" where
  "extract_payload loads job =
     (case dget job ''payload'' of
        JObj payload \<Rightarrow> Inr payload
      | JNull \<Rightarrow>
          (case dget job ''payload_json'' of
             JNull \<Rightarrow> Inr []
           | JObj d \<Rightarrow> Inr d
           | JStr s \<Rightarrow>
               if s = [] then Inr []
               else (case loads s of
                   Inl e \<Rightarrow> Inl ''invalid payload_json''
                 | Inr (JObj d) \<Rightarrow> Inr d
                 | Inr _ \<Rightarrow> Inl ''payload_json must decode to an object'')
           | _ \<Rightarrow> Inl ''payload_json must be a JSON string'')
      | _ \<Rightarrow> Inl ''payload must be an object'')"

section \<open>Admission of a claim\<close>

record worker_config =
  wc_id :: string
  wc_adapter :: string

text \<open>The Coordinate authority a claim is handled under: taken from the lease, or raw without one.\<close>
record trusted =
  tr_job_id :: json
  tr_attempt_token :: "json option"
  tr_lease_id :: "string option"

text \<open>What is known when the provider is started.\<close>
record run_plan =
  rp_trusted :: trusted
  rp_lease :: "execution_lease option"
  rp_binding :: "executor_binding option"
  rp_context :: execution_context
  rp_prompt :: json
  rp_recovery_session_id :: string

text \<open>
  How a claim ends before the provider: dropped without a report, reported as failed with a message,
  or with an exception that \<open>_process_job\<close> does not catch.
\<close>
datatype early_end =
    Dropped
  | Rejected trusted string
  | Uncaught

text \<open>\<open>claim_result.get("job") or {}\<close>; \<open>None\<close> for a true value without \<open>get\<close>.\<close>
definition raw_job_of :: "dict \<Rightarrow> dict option" where
  "raw_job_of claim =
     (let v = dget claim ''job'' in
      if \<not> truthy v then Some [] else (case v of JObj d \<Rightarrow> Some d | _ \<Rightarrow> None))"

text \<open>
  The lease, when the field is present. A \<open>ResourceIdentityError\<close> is not an
  \<open>ExecutionLeaseError\<close>, so the handler lets it through.
\<close>
definition admit_lease ::
    "(string \<Rightarrow> string) \<Rightarrow> worker_config \<Rightarrow> dict \<Rightarrow> early_end + execution_lease option" where
  "admit_lease sha cfg claim =
     (if \<not> has_key claim ''execution_lease'' then Inr None
      else
        (case dget claim ''execution_lease'' of
           JObj raw_lease \<Rightarrow>
             (case validate_execution_lease sha (JObj raw_lease) (wc_id cfg) None None JNull JNull of
                Inr lease \<Rightarrow> Inr (Some lease)
              | Inl (ExecutionLeaseError m) \<Rightarrow> Inl Dropped
              | Inl (ResourceIdentityError m) \<Rightarrow> Inl Uncaught)
         | _ \<Rightarrow> Inl Dropped))"

definition trusted_of :: "dict \<Rightarrow> execution_lease option \<Rightarrow> early_end + trusted" where
  "trusted_of claim lease =
     (case lease of
        Some l \<Rightarrow> Inr \<lparr>tr_job_id = JStr (el_job_id l), tr_attempt_token = Some (JInt (el_attempt_token l)),
                     tr_lease_id = Some (el_lease_id l)\<rparr>
      | None \<Rightarrow>
          (case raw_job_of claim of
             None \<Rightarrow> Inl Uncaught
           | Some job \<Rightarrow>
               Inr \<lparr>tr_job_id = (if has_key job ''id'' then dget job ''id'' else JStr ''?''),
                    tr_attempt_token = (let v = dget claim ''attempt_token'' in
                      if as_int v \<noteq> None then Some v else None),
                    tr_lease_id = None\<rparr>))"

definition admit_payload ::
    "(string \<Rightarrow> string + json) \<Rightarrow> dict \<Rightarrow> execution_lease option \<Rightarrow> trusted \<Rightarrow> early_end + dict" where
  "admit_payload loads claim lease tr =
     (case raw_job_of claim of
        None \<Rightarrow> Inl Uncaught
      | Some job \<Rightarrow>
          (case extract_payload loads job of
             Inl m \<Rightarrow> Inl (if lease \<noteq> None then Rejected tr m else Dropped)
           | Inr payload \<Rightarrow> Inr payload))"

definition admit_binding ::
    "(string \<Rightarrow> string) \<Rightarrow> worker_config \<Rightarrow> dict \<Rightarrow> execution_lease option \<Rightarrow> trusted
     \<Rightarrow> early_end + executor_binding option" where
  "admit_binding sha cfg payload lease tr =
     (if lease \<noteq> None then
        (if \<not> has_key payload ''executor_binding''
           then Inl (Rejected tr ''managed claim missing executor_binding'')
         else
           (case validate_executor_binding sha (dget payload ''executor_binding'') (wc_id cfg) (wc_adapter cfg) of
              Inl (ExecutorBindingError m) \<Rightarrow> Inl (Rejected tr m)
            | Inr None \<Rightarrow> Inl (Rejected tr ''executor_binding is null'')
            | Inr (Some b) \<Rightarrow> Inr (Some b)))
      else if has_key payload ''executor_binding'' then Inl Dropped
      else Inr None)"

definition admit_context ::
    "(string \<Rightarrow> string) \<Rightarrow> worker_config \<Rightarrow> dict \<Rightarrow> trusted
     \<Rightarrow> early_end + dict \<times> execution_context \<times> int" where
  "admit_context sha cfg claim tr =
     (case validate_claim_response sha (Some [(''result'', JObj claim)]) (wc_id cfg) None of
        Inr r \<Rightarrow> Inr r
      | Inl (ExecutionContextError m) \<Rightarrow>
          Inl (if tr_attempt_token tr \<noteq> None
               then Rejected tr (''execution context rejected: '' @ m) else Dropped))"

text \<open>One of the two cross-checks of the lease, with its message.\<close>
definition recheck_lease ::
    "(string \<Rightarrow> string) \<Rightarrow> worker_config \<Rightarrow> dict \<Rightarrow> execution_context \<Rightarrow> int \<Rightarrow> json \<Rightarrow> string \<Rightarrow> trusted
     \<Rightarrow> early_end + execution_lease" where
  "recheck_lease sha cfg claim ctx token binding label tr =
     (case validate_execution_lease sha (dget claim ''execution_lease'') (wc_id cfg) (Some (ec_job_id ctx))
             (Some token) (JObj (context_to_dict ctx)) binding of
        Inr lease \<Rightarrow> Inr lease
      | Inl (ExecutionLeaseError m) \<Rightarrow> Inl (Rejected tr (label @ m))
      | Inl (ResourceIdentityError m) \<Rightarrow> Inl Uncaught)"

definition cross_check_lease ::
    "(string \<Rightarrow> string) \<Rightarrow> worker_config \<Rightarrow> dict \<Rightarrow> dict \<Rightarrow> execution_context \<Rightarrow> int
     \<Rightarrow> execution_lease option \<Rightarrow> trusted \<Rightarrow> early_end + execution_lease option \<times> trusted" where
  "cross_check_lease sha cfg claim payload ctx token lease tr =
     (case lease of
        None \<Rightarrow> Inr (None, tr)
      | Some _ \<Rightarrow>
          ebind (recheck_lease sha cfg claim ctx token JNull ''execution lease cross-check failed: '' tr) (\<lambda>l.
          let tr' = tr\<lparr>tr_lease_id := Some (el_lease_id l)\<rparr> in
          ebind (recheck_lease sha cfg claim ctx token (dget payload ''executor_binding'')
            ''execution lease binding cross-check failed: '' tr') (\<lambda>l'.
          Inr (Some l', tr'\<lparr>tr_lease_id := Some (el_lease_id l')\<rparr>))))"

text \<open>\<open>payload.get("prompt", "")\<close>, of which the log line takes the length.\<close>
definition prompt_of :: "dict \<Rightarrow> early_end + json" where
  "prompt_of payload =
     (if \<not> has_key payload ''prompt'' then Inr (JStr [])
      else (case dget payload ''prompt'' of
          JStr s \<Rightarrow> Inr (JStr s)
        | JList xs \<Rightarrow> Inr (JList xs)
        | JObj d \<Rightarrow> Inr (JObj d)
        | _ \<Rightarrow> Inl Uncaught))"

definition admit_job ::
    "(string \<Rightarrow> string) \<Rightarrow> (string \<Rightarrow> string + json) \<Rightarrow> worker_config \<Rightarrow> dict \<Rightarrow> early_end + run_plan" where
  "admit_job sha loads cfg claim =
     ebind (admit_lease sha cfg claim) (\<lambda>lease0.
     ebind (trusted_of claim lease0) (\<lambda>tr0.
     ebind (admit_payload loads claim lease0 tr0) (\<lambda>payload.
     ebind (admit_binding sha cfg payload lease0 tr0) (\<lambda>binding.
     ebind (admit_context sha cfg claim tr0) (\<lambda>(job, ctx, token).
     ebind (cross_check_lease sha cfg claim payload ctx token lease0 tr0) (\<lambda>(lease, tr).
     ebind (prompt_of payload) (\<lambda>prompt.
     Inr \<lparr>rp_trusted = tr, rp_lease = lease, rp_binding = binding, rp_context = ctx, rp_prompt = prompt,
          rp_recovery_session_id = recovery_session_id job\<rparr>)))))))"

section \<open>The state of a running job\<close>

text \<open>What the worker asks of the provider.\<close>
datatype provider_call =
    Call json string
  | Resume string json string

text \<open>How the provider call ends; the last two are cancellations at the \<open>await\<close>.\<close>
datatype call_end =
    Returned adapter_result
  | Raised string
  | LeaseLost
  | WorkerStopped

text \<open>A report to Coordinate, as the arguments of \<open>report_job\<close>.\<close>
record report_call =
  rc_job_id :: json
  rc_status :: string
  rc_result :: dict
  rc_attempt_token :: "json option"
  rc_lease_id :: "string option"

record progress_call =
  pc_stage :: string
  pc_summary :: string
  pc_session_id :: string

record 'w worker_state =
  ws_store :: session_store
  ws_calls :: "provider_call list"
  ws_reports :: "report_call list"
  ws_sends :: "progress_call list"
  ws_progress :: "(string \<times> string) list"
  ws_sent_at :: int
  ws_sent_session :: string
  ws_logs :: "(log_level \<times> string) list"
  ws_world :: 'w

text \<open>
  The environment. \<open>we_provider\<close> gets the calls made so far and the present one; it gives the
  progress updates the call emits, each with the monotonic clock in milliseconds and the wall clock,
  and its end. \<open>we_wall\<close> is the wall clock in milliseconds once some calls have been made.
\<close>
record 'w worker_env =
  we_sha :: "string \<Rightarrow> string"
  we_loads :: "string \<Rightarrow> string + json"
  we_exec :: "string list \<Rightarrow> 'w \<Rightarrow> cli_outcome \<times> 'w"
  we_client :: coordinate_client
  we_provider :: "provider_call list \<Rightarrow> provider_call \<Rightarrow> (int \<times> int \<times> json) list \<times> call_end"
  we_wall :: "nat \<Rightarrow> int"

text \<open>
  \<open>report_job\<close>: a job id that is not a string makes \<open>subprocess.run\<close> fail, which \<open>_run_cli\<close> turns
  into its own error.
\<close>
definition report_job ::
    "'w worker_env \<Rightarrow> worker_config \<Rightarrow> report_call \<Rightarrow> 'w worker_state
     \<Rightarrow> (coord_exc + dict) \<times> 'w worker_state" where
  "report_job env cfg rc w =
     (let w1 = w\<lparr>ws_reports := ws_reports w @ [rc]\<rparr> in
      case rc_job_id rc of
        JStr job \<Rightarrow>
          (case run_cli (we_exec env) (we_loads env)
                  (report_argv (we_client env) job (wc_id cfg) (rc_status rc) (rc_result rc)
                    (rc_attempt_token rc) (rc_lease_id rc)) (ws_world w1) of
             (res, world) \<Rightarrow> (res, w1\<lparr>ws_world := world\<rparr>))
      | _ \<Rightarrow> (Inl (CoordinateRuntimeError ''coordinate CLI unexpected error''), w1))"

section \<open>Progress\<close>

definition PROGRESS_INTERVAL_MS :: int where "PROGRESS_INTERVAL_MS = 10000"

text \<open>\<open>_record\<close>, the callback that the provider gets.\<close>
definition record_progress ::
    "worker_config \<Rightarrow> string \<Rightarrow> string \<Rightarrow> 'w worker_state \<Rightarrow> int \<times> int \<times> json \<Rightarrow> 'w worker_state" where
  "record_progress cfg session_scope_id work_dir w u =
     (case u of (tick, wall, update) \<Rightarrow>
      let progress = normalize_progress update in
      if progress = [] then w
      else
        let w1 = w\<lparr>ws_progress := alist_update (ws_progress w) (filter (\<lambda>(k, v). v \<noteq> []) progress)\<rparr>;
            session_id = progress_field progress ''session_id'';
            w2 = (if session_id \<noteq> [] \<and> session_scope_id \<noteq> []
                  then w1\<lparr>ws_store := session_upsert wall session_scope_id (wc_id cfg) (wc_adapter cfg)
                            session_id (Some work_dir) (ws_store w1)\<rparr>
                  else w1);
            should_send = (session_id \<noteq> [] \<and> session_id \<noteq> ws_sent_session w2
              \<or> tick - ws_sent_at w2 \<ge> PROGRESS_INTERVAL_MS)
        in if \<not> should_send then w2
           else w2\<lparr>ws_sent_at := tick,
                   ws_sent_session := (if session_id \<noteq> [] then session_id else ws_sent_session w2),
                   ws_sends := ws_sends w2 @ [\<lparr>pc_stage = progress_field progress ''stage'',
                     pc_summary = progress_field progress ''summary'', pc_session_id = session_id\<rparr>]\<rparr>)"

section \<open>The provider\<close>

definition ask_provider ::
    "'w worker_env \<Rightarrow> worker_config \<Rightarrow> string \<Rightarrow> provider_call \<Rightarrow> 'w worker_state
     \<Rightarrow> call_end \<times> 'w worker_state" where
  "ask_provider env cfg scope c w =
     (let work_dir = (case c of Call p d \<Rightarrow> d | Resume s p d \<Rightarrow> d) in
      case we_provider env (ws_calls w) c of
        (updates, res) \<Rightarrow>
          (res, foldl (record_progress cfg scope work_dir) (w\<lparr>ws_calls := ws_calls w @ [c]\<rparr>) updates))"

definition RECOVERY_FAILED :: string where
  "RECOVERY_FAILED =
     ''Agent error: recoverable session resume failed; not starting duplicate fresh execution''"

definition resume_recoverable_session ::
    "'w worker_env \<Rightarrow> worker_config \<Rightarrow> string \<Rightarrow> string \<Rightarrow> json \<Rightarrow> string \<Rightarrow> 'w worker_state
     \<Rightarrow> call_end \<times> 'w worker_state" where
  "resume_recoverable_session env cfg scope session_id prompt work_dir w =
     (case ask_provider env cfg scope (Resume session_id prompt work_dir) w of
        (Returned r, w') \<Rightarrow>
          if is_error (ar_text r)
            then (Returned \<lparr>ar_text = RECOVERY_FAILED, ar_session_id = Some session_id, ar_resumed = True,
                    ar_metadata = []\<rparr>, w')
          else (Returned r, w')
      | (e, w') \<Rightarrow> (e, w'))"

definition retire_scope ::
    "'w worker_env \<Rightarrow> worker_config \<Rightarrow> string \<Rightarrow> 'w worker_state \<Rightarrow> 'w worker_state" where
  "retire_scope env cfg scope w =
     w\<lparr>ws_store := retire_session (we_wall env (length (ws_calls w))) (scope, wc_id cfg) (ws_store w)\<rparr>"

definition call_or_resume ::
    "'w worker_env \<Rightarrow> worker_config \<Rightarrow> json \<Rightarrow> string \<Rightarrow> string list \<Rightarrow> string \<Rightarrow> string \<Rightarrow> 'w worker_state
     \<Rightarrow> call_end \<times> 'w worker_state" where
  "call_or_resume env cfg prompt scope legacy work_dir recovery w =
     (if scope = [] then
        (if recovery \<noteq> [] then resume_recoverable_session env cfg scope recovery prompt work_dir w
         else ask_provider env cfg scope (Call prompt work_dir) w)
      else
        let found = get_first_active (ws_store w) (scope # legacy) (wc_id cfg);
            mismatch = (case found of None \<Rightarrow> False
              | Some r \<Rightarrow> work_dir \<noteq> [] \<and> (case sr_work_dir r of None \<Rightarrow> False
                  | Some d \<Rightarrow> d \<noteq> [] \<and> work_dir \<noteq> d));
            w1 = (case found of Some r \<Rightarrow> if mismatch then retire_scope env cfg (sr_scope_id r) w else w
              | None \<Rightarrow> w);
            existing = (if mismatch then None else found)
        in if recovery \<noteq> [] then resume_recoverable_session env cfg scope recovery prompt work_dir w1
           else
             (case existing of
                Some r \<Rightarrow>
                  (case ask_provider env cfg scope (Resume (sr_session_id r) prompt work_dir) w1 of
                     (Returned res, w2) \<Rightarrow>
                       if is_error (ar_text res)
                         then ask_provider env cfg scope (Call prompt work_dir)
                                (retire_scope env cfg (sr_scope_id r) w2)
                       else (Returned res, w2)
                   | (e, w2) \<Rightarrow> (e, w2))
              | None \<Rightarrow> ask_provider env cfg scope (Call prompt work_dir) w1))"

section \<open>Reporting\<close>

text \<open>\<open>result_json\<close>; \<open>None\<close> for the \<open>TypeError\<close> of a timeout that is not a mapping.\<close>
definition result_json_of ::
    "run_plan \<Rightarrow> adapter_result \<Rightarrow> int \<Rightarrow> (string \<times> string) list \<Rightarrow> dict option" where
  "result_json_of plan r duration_ms progress =
     (let ctx = rp_context plan;
          progress_json = JObj (map (\<lambda>(k, v). (k, JStr v)) progress);
          base = [(''response_text'', JStr (ar_text r)),
                  (''session_id'', JStr (case ar_session_id r of None \<Rightarrow> [] | Some s \<Rightarrow> s)),
                  (''duration_ms'', JInt duration_ms),
                  (''execution_context_id'', JStr (ec_context_id ctx)),
                  (''worktree_path'', JStr (ec_worktree_path ctx)),
                  (''session_scope_id'', JStr (ec_session_scope_id ctx))];
          with_binding = (case rp_binding plan of None \<Rightarrow> base | Some b \<Rightarrow> alist_update base (result_evidence b));
          with_progress = (if progress = [] then with_binding
                           else alist_set with_binding ''progress'' progress_json)
      in if \<not> has_key (ar_metadata r) ''timeout'' then Some with_progress
         else (case dget (ar_metadata r) ''timeout'' of
             JObj t \<Rightarrow> Some (alist_set with_progress ''timeout'' (JObj (alist_set t ''progress'' progress_json)))
           | _ \<Rightarrow> None))"

datatype job_end = Finished | Escaped | Stopped

definition send_report ::
    "'w worker_env \<Rightarrow> worker_config \<Rightarrow> trusted \<Rightarrow> string \<Rightarrow> dict \<Rightarrow> 'w worker_state
     \<Rightarrow> job_end \<times> 'w worker_state" where
  "send_report env cfg tr status result w =
     (case report_job env cfg \<lparr>rc_job_id = tr_job_id tr, rc_status = status, rc_result = result,
             rc_attempt_token = tr_attempt_token tr, rc_lease_id = tr_lease_id tr\<rparr> w of
        (Inr _, w') \<Rightarrow> (Finished, w')
      | (Inl _, w') \<Rightarrow> (Escaped, w'))"

text \<open>After the provider has returned; \<open>start\<close> is the wall clock before it.\<close>
definition finish_job ::
    "'w worker_env \<Rightarrow> worker_config \<Rightarrow> run_plan \<Rightarrow> int \<Rightarrow> adapter_result \<Rightarrow> 'w worker_state
     \<Rightarrow> job_end \<times> 'w worker_state" where
  "finish_job env cfg plan start r w =
     (let ctx = rp_context plan;
          now = we_wall env (length (ws_calls w));
          w1 = (case ar_session_id r of
              Some sid \<Rightarrow> if sid \<noteq> [] \<and> ec_session_scope_id ctx \<noteq> []
                then w\<lparr>ws_store := session_upsert now (ec_session_scope_id ctx) (wc_id cfg) (wc_adapter cfg) sid
                         (Some (context_cwd ctx)) (ws_store w)\<rparr>
                else w
            | None \<Rightarrow> w)
      in case result_json_of plan r (now - start) (ws_progress w1) of
           None \<Rightarrow> (Escaped, w1)
         | Some result \<Rightarrow> send_report env cfg (rp_trusted plan) (status_for_result r) result w1)"

text \<open>
  The run of an admitted job. Losing the lease ends it without a report; an exception of the provider
  becomes the result \<open>Agent error: ...\<close>. Without a lease there is no renewal task, so \<open>LeaseLost\<close>
  cannot occur and stands for the stop of the worker.
\<close>
definition execute_plan ::
    "'w worker_env \<Rightarrow> worker_config \<Rightarrow> run_plan \<Rightarrow> 'w worker_state \<Rightarrow> job_end \<times> 'w worker_state" where
  "execute_plan env cfg plan w =
     (let ctx = rp_context plan; start = we_wall env (length (ws_calls w)) in
      case call_or_resume env cfg (rp_prompt plan) (ec_session_scope_id ctx) (ec_legacy_scope_ids ctx)
             (context_cwd ctx) (rp_recovery_session_id plan)
             (w\<lparr>ws_progress := [], ws_sent_at := 0, ws_sent_session := []\<rparr>) of
        (Returned r, w') \<Rightarrow> finish_job env cfg plan start r w'
      | (Raised m, w') \<Rightarrow>
          finish_job env cfg plan start
            \<lparr>ar_text = ''Agent error: '' @ m, ar_session_id = None, ar_resumed = False, ar_metadata = []\<rparr> w'
      | (LeaseLost, w') \<Rightarrow> (if tr_lease_id (rp_trusted plan) \<noteq> None then Finished else Stopped, w')
      | (WorkerStopped, w') \<Rightarrow> (Stopped, w'))"

definition process_job ::
    "'w worker_env \<Rightarrow> worker_config \<Rightarrow> dict \<Rightarrow> 'w worker_state \<Rightarrow> job_end \<times> 'w worker_state" where
  "process_job env cfg claim w =
     (case admit_job (we_sha env) (we_loads env) cfg claim of
        Inl Dropped \<Rightarrow> (Finished, w)
      | Inl Uncaught \<Rightarrow> (Escaped, w)
      | Inl (Rejected tr m) \<Rightarrow> send_report env cfg tr ''failed'' [(''error'', JStr m)] w
      | Inr plan \<Rightarrow> execute_plan env cfg plan w)"

section \<open>The main loop\<close>

text \<open>The checks of \<open>run\<close> before the loop: the reap policy and the normalised recovery reason.\<close>
definition run_policy :: "bool \<Rightarrow> json \<Rightarrow> json \<Rightarrow> json \<Rightarrow> json \<Rightarrow> coord_exc + (string \<times> string option) \<times> string" where
  "run_policy recoverable recovery_reason prior_stopped reap_mode reap_reason =
     ebind (normalize_claim_reap_policy reap_mode reap_reason) (\<lambda>policy.
     if recoverable then
       (if prior_stopped \<noteq> JBool True
          then Inl (CoordinateRuntimeError ''recoverable worker run requires prior_process_stopped=True'')
        else ebind (normalize_recovery_reason recovery_reason) (\<lambda>reason. Inr (policy, reason)))
     else if recovery_reason \<noteq> JStr []
       then Inl (CoordinateRuntimeError ''non-recoverable worker run must not carry recovery_reason'')
     else if prior_stopped \<noteq> JBool False
       then Inl (CoordinateRuntimeError ''non-recoverable worker run must not carry prior_process_stopped'')
     else Inr (policy, []))"

datatype run_end =
    Running      \<comment> \<open>the rounds given are over\<close>
  | RunStopped
  | RunCrashed   \<comment> \<open>an exception left \<open>run\<close>\<close>

definition claim_in_loop ::
    "'w worker_env \<Rightarrow> worker_config \<Rightarrow> bool \<Rightarrow> json \<Rightarrow> (string \<times> string option) \<times> string
     \<Rightarrow> 'w worker_state \<Rightarrow> (coord_exc + dict) \<times> 'w worker_state" where
  "claim_in_loop env cfg recoverable prior_stopped pol w =
     (case pol of ((mode, why), reason) \<Rightarrow>
      (case claim_job (we_exec env) (we_loads env) (we_client env) (wc_id cfg) recoverable (JStr reason) prior_stopped
              (if mode = ''none'' then JStr mode else JStr ''global'')
              (if mode = ''none'' then opt_str why else JNull) (ws_world w) of
         (res, world) \<Rightarrow> (res, w\<lparr>ws_world := world\<rparr>)))"

text \<open>\<open>while self._running\<close>, for \<open>n\<close> rounds; waiting between rounds has no effect here.\<close>
fun run_loop ::
    "nat \<Rightarrow> 'w worker_env \<Rightarrow> worker_config \<Rightarrow> bool \<Rightarrow> json \<Rightarrow> (string \<times> string option) \<times> string
     \<Rightarrow> 'w worker_state \<Rightarrow> run_end \<times> 'w worker_state" where
  "run_loop 0 env cfg recoverable prior_stopped pol w = (Running, w)"
| "run_loop (Suc n) env cfg recoverable prior_stopped pol w =
     (case claim_in_loop env cfg recoverable prior_stopped pol w of
        (Inl e, w1) \<Rightarrow> run_loop n env cfg recoverable prior_stopped pol w1
      | (Inr claim, w1) \<Rightarrow>
          if \<not> truthy (dget claim ''claimed'') then
            run_loop n env cfg recoverable prior_stopped pol
              (w1\<lparr>ws_logs := ws_logs w1 @ (case log_claim_blocker claim of None \<Rightarrow> [] | Some l \<Rightarrow> [l])\<rparr>)
          else
            (case process_job env cfg claim w1 of
               (Finished, w2) \<Rightarrow> run_loop n env cfg recoverable prior_stopped pol w2
             | (Escaped, w2) \<Rightarrow> (RunCrashed, w2)
             | (Stopped, w2) \<Rightarrow> (RunStopped, w2)))"

definition worker_run ::
    "nat \<Rightarrow> 'w worker_env \<Rightarrow> worker_config \<Rightarrow> bool \<Rightarrow> json \<Rightarrow> json \<Rightarrow> json \<Rightarrow> json \<Rightarrow> 'w worker_state
     \<Rightarrow> coord_exc + run_end \<times> 'w worker_state" where
  "worker_run n env cfg recoverable recovery_reason prior_stopped reap_mode reap_reason w =
     ebind (run_policy recoverable recovery_reason prior_stopped reap_mode reap_reason) (\<lambda>pol.
     Inr (run_loop n env cfg recoverable prior_stopped pol w))"

section \<open>The renewal of the lease\<close>

definition RENEWAL_SAFETY_MARGIN_SECONDS :: int where "RENEWAL_SAFETY_MARGIN_SECONDS = 5"

text \<open>\<open>_to_monotonic_deadline\<close> at the monotonic time \<open>now\<close>; \<open>None\<close> is the \<open>ValueError\<close> of \<open>strptime\<close>.\<close>
definition to_monotonic_deadline :: "int \<Rightarrow> string \<Rightarrow> string \<Rightarrow> int option" where
  "to_monotonic_deadline now server_now expires_at =
     (case (strptime_utc server_now, strptime_utc expires_at) of
        (Some s, Some e) \<Rightarrow> Some (now + (e - s) - RENEWAL_SAFETY_MARGIN_SECONDS)
      | _ \<Rightarrow> None)"

text \<open>
  One round of the loop as the code meets it: the clock at its head, whether the event was set while
  it slept, the outcome of the renewal and the clock when the new deadline is computed.
\<close>
record renewal_round =
  rr_now :: int
  rr_woken :: bool
  rr_response :: "coord_exc + dict"
  rr_after :: int

datatype renewal_end =
    Renewed int    \<comment> \<open>still waiting, with this deadline\<close>
  | Lost
  | Woken

definition sleep_until :: "int \<Rightarrow> int \<Rightarrow> int \<Rightarrow> int" where
  "sleep_until interval now deadline = min deadline (now + max 1 interval)"

definition renewal_round_end :: "int \<Rightarrow> renewal_round \<Rightarrow> renewal_end" where
  "renewal_round_end deadline r =
     (if rr_now r \<ge> deadline then Lost
      else if rr_woken r then Woken
      else
        (case rr_response r of
           Inl e \<Rightarrow> Lost
         | Inr response \<Rightarrow>
             (case dget response ''result'' of
                JObj result \<Rightarrow>
                  (case (dget result ''expires_at'', dget result ''server_now'') of
                     (JStr expires_at, JStr server_now) \<Rightarrow>
                       (case to_monotonic_deadline (rr_after r) server_now expires_at of
                          None \<Rightarrow> Lost
                        | Some d \<Rightarrow> Renewed d)
                   | _ \<Rightarrow> Lost)
              | _ \<Rightarrow> Lost)))"

text \<open>The supervisor over the rounds that happen: it stops at the first that ends it.\<close>
fun renewal_supervisor :: "int \<Rightarrow> renewal_round list \<Rightarrow> renewal_end" where
  "renewal_supervisor deadline [] = Renewed deadline"
| "renewal_supervisor deadline (r # rs) =
     (case renewal_round_end deadline r of
        Renewed d \<Rightarrow> renewal_supervisor d rs
      | e \<Rightarrow> e)"

end
