(* ===== verification/WorkerSafety.thy ===== *)
theory WorkerSafety
  imports AgentdWorker
begin

text \<open>
  What the worker of \<open>AgentdWorker\<close> guarantees.

  \<^item> \<open>admit_job_authority\<close>: the provider starts only under a context, and where the claim is
    managed under a lease and a binding, that agree with each other and with this agent.
  \<^item> \<open>rejected_is_trusted\<close> and \<open>reports_of_job\<close>: what a job may tell Coordinate, and how often.
  \<^item> \<open>calls_with_recovery\<close> and \<open>calls_without_recovery\<close>: the provider calls of one job.
  \<^item> \<open>renewal_round_facts\<close> and the theorems on the deadline of the lease.
\<close>

section \<open>Admission\<close>

lemma validate_executor_binding_Some:
  "validate_executor_binding sha data agent adapter = Inr (Some b) \<longleftrightarrow>
     data \<noteq> JNull \<and> parse_executor_binding sha data = Inr b \<and> eb_executor_instance_id b = agent
     \<and> eb_runner_profile_id b = agent \<and> eb_adapter b = adapter"
  by (auto simp: validate_executor_binding_def split: sum.splits binding_exc.splits if_splits)

lemma admit_lease_Inr:
  "admit_lease sha cfg claim = Inr lease \<longleftrightarrow>
     (if has_key claim ''execution_lease''
      then \<exists>raw l. dget claim ''execution_lease'' = JObj raw \<and> lease = Some l
        \<and> validate_execution_lease sha (JObj raw) (wc_id cfg) None None JNull JNull = Inr l
      else lease = None)"
  by (auto simp: admit_lease_def split: json.splits sum.splits lease_exc.splits)

lemma trusted_of_None: "trusted_of claim None = Inr tr \<Longrightarrow> tr_lease_id tr = None"
  by (auto simp: trusted_of_def split: option.splits)

lemma admit_binding_Inr:
  "admit_binding sha cfg payload lease tr = Inr b \<longleftrightarrow>
     (if lease \<noteq> None
      then \<exists>b'. b = Some b' \<and> has_key payload ''executor_binding''
        \<and> validate_executor_binding sha (dget payload ''executor_binding'') (wc_id cfg) (wc_adapter cfg) = Inr (Some b')
      else b = None \<and> \<not> has_key payload ''executor_binding'')"
  by (auto simp: admit_binding_def split: sum.splits option.splits binding_exc.splits)

lemma admit_payload_Inr:
  "admit_payload loads claim lease tr = Inr payload \<longleftrightarrow>
     (\<exists>job. raw_job_of claim = Some job \<and> extract_payload loads job = Inr payload)"
  by (auto simp: admit_payload_def split: option.splits sum.splits)

lemma admit_context_Inr:
  "admit_context sha cfg claim tr = Inr r \<longleftrightarrow>
     validate_claim_response sha (Some [(''result'', JObj claim)]) (wc_id cfg) None = Inr r"
  by (auto simp: admit_context_def split: sum.splits context_exc.splits)

lemma recheck_lease_Inr:
  "recheck_lease sha cfg claim ctx token binding label tr = Inr l \<longleftrightarrow>
     validate_execution_lease sha (dget claim ''execution_lease'') (wc_id cfg) (Some (ec_job_id ctx))
       (Some token) (JObj (context_to_dict ctx)) binding = Inr l"
  by (auto simp: recheck_lease_def split: sum.splits lease_exc.splits)

lemma lease_of_validation:
  "validate_execution_lease sha data agent job token ctx binding = Inr l \<Longrightarrow> parse_execution_lease data = Inr l"
  by (simp add: validate_execution_lease_iff)

lemma lease_check_context_dict:
  "lease_check_context l (JObj (context_to_dict c)) = Inr u \<longleftrightarrow>
     el_job_id l = ec_job_id c \<and> el_agent_id l = ec_assigned_agent c \<and> el_host_id l = ec_host_id c
     \<and> el_normalized_path l = ec_worktree_path c"
  by (auto simp: lease_check_context_Inr context_to_dict_def dget_Cons)

lemma binding_check_fields:
  assumes "parse_executor_binding sha v = Inr b" "lease_check_binding l v = Inr u"
  shows "eb_executor_instance_id b = el_agent_id l \<and> eb_runner_profile_id b = el_runner_profile_id l"
proof -
  obtain d where d: "v = JObj d"
    using assms(1) parse_executor_binding_obj by blast
  then have "holds_fields d (binding_dict b)"
    using assms(1) by (simp add: parse_executor_binding_iff)
  then show ?thesis
    using assms(2) d by (auto simp: lease_check_binding_Inr holds_fields_def binding_dict_def binding_snapshot_def)
qed

text \<open>The trusted identity of a lease.\<close>
definition trusted_lease :: "execution_lease \<Rightarrow> trusted" where
  "trusted_lease l = \<lparr>tr_job_id = JStr (el_job_id l), tr_attempt_token = Some (JInt (el_attempt_token l)),
     tr_lease_id = Some (el_lease_id l)\<rparr>"

lemma trusted_of_lease: "trusted_of claim (Some l) = Inr (trusted_lease l)"
  by (simp add: trusted_of_def trusted_lease_def)

text \<open>The lease of a claim is one and the same in all three validations.\<close>
lemma cross_check_lease_Inr:
  assumes "admit_lease sha cfg claim = Inr (Some l0)"
  shows "cross_check_lease sha cfg claim payload ctx token (Some l0) (trusted_lease l0) = Inr (lease, tr) \<longleftrightarrow>
     lease = Some l0 \<and> tr = trusted_lease l0
     \<and> validate_execution_lease sha (dget claim ''execution_lease'') (wc_id cfg) (Some (ec_job_id ctx))
         (Some token) (JObj (context_to_dict ctx)) (dget payload ''executor_binding'') = Inr l0"
proof -
  have p: "parse_execution_lease (dget claim ''execution_lease'') = Inr l0"
    using assms lease_of_validation by (auto simp: admit_lease_Inr split: if_splits)
  have "lease_check_binding l JNull = Inr ()" for l
    by (simp add: lease_check_binding_def)
  then show ?thesis
    using p by (auto simp: cross_check_lease_def result_simps recheck_lease_Inr validate_execution_lease_iff
        trusted_lease_def Let_def)
qed

text \<open>All that admission establishes, stage by stage.\<close>
lemma admit_job_Inr:
  assumes "admit_job sha loads cfg claim = Inr plan"
  obtains lease0 tr0 payload job token where
    "admit_lease sha cfg claim = Inr lease0"
    "trusted_of claim lease0 = Inr tr0"
    "admit_payload loads claim lease0 tr0 = Inr payload"
    "admit_binding sha cfg payload lease0 tr0 = Inr (rp_binding plan)"
    "admit_context sha cfg claim tr0 = Inr (job, rp_context plan, token)"
    "cross_check_lease sha cfg claim payload (rp_context plan) token lease0 tr0 = Inr (rp_lease plan, rp_trusted plan)"
    "prompt_of payload = Inr (rp_prompt plan)"
    "rp_recovery_session_id plan = recovery_session_id job"
  using assms unfolding admit_job_def by (clarsimp simp: result_simps)

text \<open>What a managed plan was admitted under.\<close>
lemma managed_plan_facts:
  assumes "admit_job sha loads cfg claim = Inr plan" "rp_lease plan = Some l"
  shows "lease_wf l \<and> el_agent_id l = wc_id cfg \<and> el_job_id l = ec_job_id (rp_context plan)
    \<and> el_host_id l = ec_host_id (rp_context plan) \<and> el_normalized_path l = ec_worktree_path (rp_context plan)
    \<and> el_resource_key l = compute_resource_key sha
        \<lparr>wr_host_id = el_host_id l, wr_normalized_path = el_normalized_path l\<rparr>
    \<and> rp_trusted plan = trusted_lease l
    \<and> (\<exists>b. rp_binding plan = Some b \<and> binding_wf b \<and> eb_executor_instance_id b = wc_id cfg
         \<and> eb_runner_profile_id b = el_runner_profile_id l \<and> eb_adapter b = wc_adapter cfg)
    \<and> as_int (dget claim ''attempt_token'') = Some (el_attempt_token l)"
proof -
  obtain lease0 tr0 payload job token where st:
    "admit_lease sha cfg claim = Inr lease0" "trusted_of claim lease0 = Inr tr0"
    "admit_payload loads claim lease0 tr0 = Inr payload"
    "admit_binding sha cfg payload lease0 tr0 = Inr (rp_binding plan)"
    "admit_context sha cfg claim tr0 = Inr (job, rp_context plan, token)"
    "cross_check_lease sha cfg claim payload (rp_context plan) token lease0 tr0 = Inr (rp_lease plan, rp_trusted plan)"
    using assms(1) by (rule admit_job_Inr) blast
  have l0: "lease0 = Some l" "tr0 = trusted_lease l"
  proof -
    obtain l1 where "lease0 = Some l1"
      using st(6) assms(2) by (cases lease0) (auto simp: cross_check_lease_def)
    moreover from this have "tr0 = trusted_lease l1"
      using st(2) by (simp add: trusted_of_lease)
    ultimately show "lease0 = Some l" "tr0 = trusted_lease l"
      using st(1,6) assms(2) by (auto simp: cross_check_lease_Inr)
  qed
  have v: "validate_execution_lease sha (dget claim ''execution_lease'') (wc_id cfg)
      (Some (ec_job_id (rp_context plan))) (Some token) (JObj (context_to_dict (rp_context plan)))
      (dget payload ''executor_binding'') = Inr l" and tr: "rp_trusted plan = trusted_lease l"
    using st(1,6) l0 assms(2) by (simp_all add: cross_check_lease_Inr)
  obtain raw where raw: "dget claim ''execution_lease'' = JObj raw"
    using st(1) l0 by (auto simp: admit_lease_Inr split: if_splits)
  obtain b where b: "rp_binding plan = Some b"
    "validate_executor_binding sha (dget payload ''executor_binding'') (wc_id cfg) (wc_adapter cfg) = Inr (Some b)"
    using st(4) l0 by (auto simp: admit_binding_Inr)
  then have parsed: "parse_executor_binding sha (dget payload ''executor_binding'') = Inr b"
    by (simp only: validate_executor_binding_Some)
  obtain d where d1: "dget payload ''executor_binding'' = JObj d"
    using parse_executor_binding_obj [OF parsed] by blast
  have d: "dget payload ''executor_binding'' = JObj d" "parse_executor_binding sha (JObj d) = Inr b"
    using d1 parsed by simp_all
  have "eb_executor_instance_id b = wc_id cfg" "eb_adapter b = wc_adapter cfg"
    using b(2) by (simp_all only: validate_executor_binding_Some)
  moreover have "binding_wf b"
    using d(2) by (simp only: parse_executor_binding_iff)
  moreover have "eb_runner_profile_id b = el_runner_profile_id l"
  proof -
    have "lease_check_binding l (JObj d) = Inr ()"
      using v d(1) by (simp only: validate_execution_lease_iff)
    then show ?thesis
      using binding_check_fields [OF d(2)] by blast
  qed
  moreover have "as_int (dget claim ''attempt_token'') = Some token" "el_attempt_token l = token"
    using st(5) v by (auto simp: admit_context_Inr validate_claim_response_iff validate_execution_lease_iff dget_Cons)
  moreover note vi = v [unfolded validate_execution_lease_iff lease_check_context_dict]
  moreover have "lease_wf l"
    using vi unfolding raw parse_execution_lease_iff by blast
  ultimately show ?thesis
    using tr b(1) by (simp only: ex_simps simp_thms option.inject)
qed

lemma plan_context_facts:
  assumes "admit_job sha loads cfg claim = Inr plan"
  shows "context_wf (rp_context plan) \<and> ec_assigned_agent (rp_context plan) = wc_id cfg
    \<and> ec_context_id (rp_context plan) = compute_context_id sha (canonical_snapshot_dict (rp_context plan))
    \<and> truthy (dget claim ''claimed'')"
proof -
  obtain tr0 job token where "admit_context sha cfg claim tr0 = Inr (job, rp_context plan, token)"
    using assms by (rule admit_job_Inr) blast
  then show ?thesis
    by (auto simp: admit_context_Inr validate_claim_response_iff parse_execution_context_iff expected_ok_def dget_Cons)
qed

lemma unmanaged_plan_facts:
  assumes "admit_job sha loads cfg claim = Inr plan" "rp_lease plan = None"
  shows "\<not> has_key claim ''execution_lease'' \<and> rp_binding plan = None \<and> tr_lease_id (rp_trusted plan) = None
    \<and> (\<exists>job payload. raw_job_of claim = Some job \<and> extract_payload loads job = Inr payload
         \<and> \<not> has_key payload ''executor_binding'')"
proof -
  obtain lease0 tr0 payload job token where st:
    "admit_lease sha cfg claim = Inr lease0" "trusted_of claim lease0 = Inr tr0"
    "admit_payload loads claim lease0 tr0 = Inr payload"
    "admit_binding sha cfg payload lease0 tr0 = Inr (rp_binding plan)"
    "cross_check_lease sha cfg claim payload (rp_context plan) token lease0 tr0 = Inr (rp_lease plan, rp_trusted plan)"
    using assms(1) by (rule admit_job_Inr) blast
  have l0: "lease0 = None"
    using st(5) assms(2) by (cases lease0) (auto simp: cross_check_lease_def result_simps Let_def)
  then have "rp_trusted plan = tr0"
    using st(5) by (simp add: cross_check_lease_def)
  then show ?thesis
    using st(1-4) l0 trusted_of_None [of claim tr0]
    by (auto simp: admit_lease_Inr admit_binding_Inr admit_payload_Inr split: if_splits)
qed

text \<open>A rejection carries the identity of a lease that was validated, or none and a raw token.\<close>
lemma rejected_is_trusted:
  assumes "admit_job sha loads cfg claim = Inl (Rejected tr m)"
  shows "(\<exists>l. admit_lease sha cfg claim = Inr (Some l) \<and> tr = trusted_lease l)
    \<or> \<not> has_key claim ''execution_lease'' \<and> tr_lease_id tr = None \<and> tr_attempt_token tr \<noteq> None"
proof (cases "admit_lease sha cfg claim")
  case (Inl e)
  then show ?thesis
    using assms by (auto simp: admit_job_def admit_lease_def split: json.splits sum.splits lease_exc.splits if_splits)
next
  case lease: (Inr lease)
  show ?thesis
  proof (cases lease)
    case (Some l)
    have "tr = trusted_lease l"
    proof -
      have p: "parse_execution_lease (dget claim ''execution_lease'') = Inr l"
        using lease Some lease_of_validation by (auto simp: admit_lease_Inr split: if_splits)
      have same: "el_lease_id l' = el_lease_id l"
        if "recheck_lease sha cfg claim ctx token v lab tr' = Inr l'" for ctx token v lab tr' l'
        using that p by (simp add: recheck_lease_Inr validate_execution_lease_iff)
      have upd: "trusted_lease l\<lparr>tr_lease_id := Some (el_lease_id l)\<rparr> = trusted_lease l"
        by (simp add: trusted_lease_def)
      have rej: "tr' = trusted_lease l"
        if "recheck_lease sha cfg claim ctx token v lab (trusted_lease l) = Inl (Rejected tr' m')" for ctx token v lab tr' m'
        using that by (auto simp: recheck_lease_def split: sum.splits lease_exc.splits)
      have "tr' = trusted_lease l"
        if "cross_check_lease sha cfg claim payload ctx token (Some l) (trusted_lease l) = Inl (Rejected tr' m')"
        for payload ctx token tr' m'
        using that by (auto simp: cross_check_lease_def Let_def result_simps same upd dest: rej)
      then show ?thesis
        using assms lease Some
        by (auto simp: admit_job_def result_simps trusted_of_lease admit_payload_def admit_binding_def admit_context_def
            prompt_of_def split: option.splits sum.splits json.splits binding_exc.splits context_exc.splits if_splits)
    qed
    then show ?thesis
      using lease Some by blast
  next
    case None
    then have "\<not> has_key claim ''execution_lease''"
      using lease by (auto simp: admit_lease_Inr split: if_splits)
    moreover have "tr_lease_id tr = None \<and> tr_attempt_token tr \<noteq> None"
      using assms lease None
      by (auto simp: admit_job_def result_simps trusted_of_def admit_payload_def admit_binding_def admit_context_def
          cross_check_lease_def prompt_of_def
          split: option.splits sum.splits json.splits context_exc.splits if_splits)
    ultimately show ?thesis
      by blast
  qed
qed

section \<open>What a step does to the state\<close>

lemma record_progress_frame [simp]:
  "ws_calls (record_progress cfg sc wd w u) = ws_calls w"
  "ws_reports (record_progress cfg sc wd w u) = ws_reports w"
  "ws_world (record_progress cfg sc wd w u) = ws_world w"
  "ws_logs (record_progress cfg sc wd w u) = ws_logs w"
  by (simp_all add: record_progress_def Let_def split: prod.splits)

lemma foldl_progress_frame [simp]:
  "ws_calls (foldl (record_progress cfg sc wd) w us) = ws_calls w"
  "ws_reports (foldl (record_progress cfg sc wd) w us) = ws_reports w"
  "ws_world (foldl (record_progress cfg sc wd) w us) = ws_world w"
  "ws_logs (foldl (record_progress cfg sc wd) w us) = ws_logs w"
  by (induction us arbitrary: w) simp_all

lemma ask_provider_frame:
  assumes "ask_provider env cfg sc c w = (e, w')"
  shows "ws_calls w' = ws_calls w @ [c] \<and> ws_reports w' = ws_reports w \<and> ws_world w' = ws_world w
    \<and> ws_logs w' = ws_logs w"
  using assms by (auto simp: ask_provider_def Let_def split: prod.splits)

lemma retire_scope_frame [simp]:
  "ws_calls (retire_scope env cfg sc w) = ws_calls w"
  "ws_reports (retire_scope env cfg sc w) = ws_reports w"
  "ws_world (retire_scope env cfg sc w) = ws_world w"
  "ws_logs (retire_scope env cfg sc w) = ws_logs w"
  by (simp_all add: retire_scope_def)

lemma resume_recoverable_frame:
  assumes "resume_recoverable_session env cfg sc sid prompt wd w = (e, w')"
  shows "ws_calls w' = ws_calls w @ [Resume sid prompt wd] \<and> ws_reports w' = ws_reports w
    \<and> ws_world w' = ws_world w \<and> ws_logs w' = ws_logs w"
  using assms ask_provider_frame [of env cfg sc "Resume sid prompt wd" w]
  by (auto simp: resume_recoverable_session_def split: prod.splits call_end.splits if_splits)

text \<open>With a recovery session there is one provider call: the resume of that session.\<close>
lemma calls_with_recovery:
  assumes "call_or_resume env cfg prompt sc legacy wd recovery w = (e, w')" "recovery \<noteq> []"
  shows "ws_calls w' = ws_calls w @ [Resume recovery prompt wd] \<and> ws_reports w' = ws_reports w"
  using assms
  by (auto simp: call_or_resume_def Let_def dest: resume_recoverable_frame split: option.splits if_splits)

text \<open>The session that is resumed without a recovery session: active, and of the same work tree.\<close>
definition resumable :: "session_store \<Rightarrow> string list \<Rightarrow> string \<Rightarrow> string \<Rightarrow> session_row \<Rightarrow> bool" where
  "resumable t scopes agent wd r =
     (get_first_active t scopes agent = Some r
      \<and> (wd = [] \<or> sr_work_dir r = None \<or> sr_work_dir r = Some [] \<or> sr_work_dir r = Some wd))"

lemma calls_without_recovery:
  assumes "call_or_resume env cfg prompt sc legacy wd [] w = (e, w')"
  shows "ws_reports w' = ws_reports w
    \<and> (ws_calls w' = ws_calls w @ [Call prompt wd]
       \<or> (\<exists>r. resumable (ws_store w) (sc # legacy) (wc_id cfg) wd r
            \<and> (ws_calls w' = ws_calls w @ [Resume (sr_session_id r) prompt wd]
               \<or> ws_calls w' = ws_calls w @ [Resume (sr_session_id r) prompt wd, Call prompt wd])))"
proof (cases "sc = []")
  case True
  then show ?thesis
    using assms ask_provider_frame by (fastforce simp: call_or_resume_def)
next
  case sc: False
  let ?found = "get_first_active (ws_store w) (sc # legacy) (wc_id cfg)"
  show ?thesis
  proof (cases ?found)
    case None
    then show ?thesis
      using assms sc ask_provider_frame [of env cfg sc "Call prompt wd" w]
      by (simp add: call_or_resume_def Let_def del: get_first_active.simps)
  next
    case (Some r)
    show ?thesis
    proof (cases "resumable (ws_store w) (sc # legacy) (wc_id cfg) wd r")
      case False
      then have "ask_provider env cfg sc (Call prompt wd) (retire_scope env cfg (sr_scope_id r) w) = (e, w')"
        using assms sc Some
        by (auto simp: call_or_resume_def Let_def resumable_def simp del: get_first_active.simps split: option.splits)
      then show ?thesis
        using ask_provider_frame by fastforce
    next
      case True
      then have eq: "call_or_resume env cfg prompt sc legacy wd [] w =
        (case ask_provider env cfg sc (Resume (sr_session_id r) prompt wd) w of
           (Returned res, w2) \<Rightarrow>
             if is_error (ar_text res)
               then ask_provider env cfg sc (Call prompt wd) (retire_scope env cfg (sr_scope_id r) w2)
             else (Returned res, w2)
         | (e, w2) \<Rightarrow> (e, w2))"
        using sc Some
        by (auto simp: call_or_resume_def Let_def resumable_def simp del: get_first_active.simps split: option.splits)
      obtain e1 w1 where a: "ask_provider env cfg sc (Resume (sr_session_id r) prompt wd) w = (e1, w1)"
        by (cases "ask_provider env cfg sc (Resume (sr_session_id r) prompt wd) w")
      note f1 = ask_provider_frame [OF a]
      have "w' = w1 \<or> ask_provider env cfg sc (Call prompt wd) (retire_scope env cfg (sr_scope_id r) w1) = (e, w')"
        using assms unfolding eq a by (auto split: call_end.splits if_splits)
      then show ?thesis
        using f1 True ask_provider_frame [of env cfg sc "Call prompt wd" "retire_scope env cfg (sr_scope_id r) w1" e w']
        by auto
    qed
  qed
qed

lemma call_or_resume_reports:
  "call_or_resume env cfg prompt sc legacy wd recovery w = (e, w') \<Longrightarrow> ws_reports w' = ws_reports w"
  using calls_with_recovery calls_without_recovery by (cases "recovery = []") blast+

lemma report_job_frame:
  assumes "report_job env cfg rc w = (res, w')"
  shows "ws_reports w' = ws_reports w @ [rc] \<and> ws_calls w' = ws_calls w \<and> ws_store w' = ws_store w"
  using assms by (auto simp: report_job_def Let_def split: json.splits prod.splits)

lemma send_report_frame:
  assumes "send_report env cfg tr status result w = (e, w')"
  shows "ws_reports w' = ws_reports w @ [\<lparr>rc_job_id = tr_job_id tr, rc_status = status, rc_result = result,
        rc_attempt_token = tr_attempt_token tr, rc_lease_id = tr_lease_id tr\<rparr>]
    \<and> ws_calls w' = ws_calls w \<and> ws_store w' = ws_store w"
  using assms by (auto simp: send_report_def split: prod.splits sum.splits dest: report_job_frame)

lemma finish_job_frame:
  assumes "finish_job env cfg plan start r w = (e, w')"
  shows "ws_calls w' = ws_calls w \<and>
    (ws_reports w' = ws_reports w \<and> e = Escaped \<or>
     (\<exists>result progress dur. result_json_of plan r dur progress = Some result
        \<and> ws_reports w' = ws_reports w @ [\<lparr>rc_job_id = tr_job_id (rp_trusted plan), rc_status = status_for_result r,
            rc_result = result, rc_attempt_token = tr_attempt_token (rp_trusted plan),
            rc_lease_id = tr_lease_id (rp_trusted plan)\<rparr>]))"
  using assms
  by (auto simp: finish_job_def Let_def dest!: send_report_frame split: option.splits if_splits)

text \<open>The result that a run of the provider ends with, if it does.\<close>
definition result_of_end :: "call_end \<Rightarrow> adapter_result option" where
  "result_of_end e =
     (case e of
        Returned r \<Rightarrow> Some r
      | Raised m \<Rightarrow> Some \<lparr>ar_text = ''Agent error: '' @ m, ar_session_id = None, ar_resumed = False, ar_metadata = []\<rparr>
      | _ \<Rightarrow> None)"

lemma execute_plan_cases:
  assumes "execute_plan env cfg plan w = (e, w')"
  obtains ce w1 where
    "call_or_resume env cfg (rp_prompt plan) (ec_session_scope_id (rp_context plan)) (ec_legacy_scope_ids (rp_context plan))
       (context_cwd (rp_context plan)) (rp_recovery_session_id plan)
       (w\<lparr>ws_progress := [], ws_sent_at := 0, ws_sent_session := []\<rparr>) = (ce, w1)"
    "case result_of_end ce of
       Some r \<Rightarrow> finish_job env cfg plan (we_wall env (length (ws_calls w))) r w1 = (e, w')
     | None \<Rightarrow> w' = w1 \<and> e \<noteq> Escaped"
proof -
  obtain ce w1 where c: "call_or_resume env cfg (rp_prompt plan) (ec_session_scope_id (rp_context plan))
       (ec_legacy_scope_ids (rp_context plan))
       (context_cwd (rp_context plan)) (rp_recovery_session_id plan)
       (w\<lparr>ws_progress := [], ws_sent_at := 0, ws_sent_session := []\<rparr>) = (ce, w1)"
    by fastforce
  moreover have "case result_of_end ce of
       Some r \<Rightarrow> finish_job env cfg plan (we_wall env (length (ws_calls w))) r w1 = (e, w')
     | None \<Rightarrow> w' = w1 \<and> e \<noteq> Escaped"
    using assms c by (cases ce) (auto simp: execute_plan_def Let_def result_of_end_def split: if_splits)
  ultimately show thesis
    by (rule that)
qed

lemma execute_plan_reports:
  assumes "execute_plan env cfg plan w = (e, w')"
  shows "ws_reports w' = ws_reports w \<or>
    (\<exists>r result progress dur. result_json_of plan r dur progress = Some result
        \<and> ws_reports w' = ws_reports w @ [\<lparr>rc_job_id = tr_job_id (rp_trusted plan), rc_status = status_for_result r,
            rc_result = result, rc_attempt_token = tr_attempt_token (rp_trusted plan),
            rc_lease_id = tr_lease_id (rp_trusted plan)\<rparr>])"
  using assms
proof (rule execute_plan_cases)
  fix ce w1
  assume c: "call_or_resume env cfg (rp_prompt plan) (ec_session_scope_id (rp_context plan))
       (ec_legacy_scope_ids (rp_context plan)) (context_cwd (rp_context plan)) (rp_recovery_session_id plan)
       (w\<lparr>ws_progress := [], ws_sent_at := 0, ws_sent_session := []\<rparr>) = (ce, w1)"
    and f: "case result_of_end ce of
       Some r \<Rightarrow> finish_job env cfg plan (we_wall env (length (ws_calls w))) r w1 = (e, w')
     | None \<Rightarrow> w' = w1 \<and> e \<noteq> Escaped"
  have "ws_reports w1 = ws_reports w"
    using call_or_resume_reports [OF c] by simp
  show ?thesis
  proof (cases "result_of_end ce")
    case None
    then show ?thesis
      using f \<open>ws_reports w1 = ws_reports w\<close> by simp
  next
    case (Some r)
    then have "finish_job env cfg plan (we_wall env (length (ws_calls w))) r w1 = (e, w')"
      using f by simp
    then show ?thesis
      using finish_job_frame \<open>ws_reports w1 = ws_reports w\<close> by metis
  qed
qed

lemma execute_plan_calls:
  assumes "execute_plan env cfg plan w = (e, w')"
  shows "(rp_recovery_session_id plan \<noteq> [] \<longrightarrow>
      ws_calls w' = ws_calls w @ [Resume (rp_recovery_session_id plan) (rp_prompt plan) (context_cwd (rp_context plan))])
    \<and> (rp_recovery_session_id plan = [] \<longrightarrow>
      ws_calls w' = ws_calls w @ [Call (rp_prompt plan) (context_cwd (rp_context plan))]
       \<or> (\<exists>r. resumable (ws_store w) (ec_session_scope_id (rp_context plan) # ec_legacy_scope_ids (rp_context plan))
              (wc_id cfg) (context_cwd (rp_context plan)) r
            \<and> (ws_calls w' = ws_calls w @ [Resume (sr_session_id r) (rp_prompt plan) (context_cwd (rp_context plan))]
               \<or> ws_calls w' = ws_calls w @ [Resume (sr_session_id r) (rp_prompt plan) (context_cwd (rp_context plan)),
                   Call (rp_prompt plan) (context_cwd (rp_context plan))])))"
  using assms
proof (rule execute_plan_cases)
  fix ce w1
  assume c: "call_or_resume env cfg (rp_prompt plan) (ec_session_scope_id (rp_context plan))
       (ec_legacy_scope_ids (rp_context plan)) (context_cwd (rp_context plan)) (rp_recovery_session_id plan)
       (w\<lparr>ws_progress := [], ws_sent_at := 0, ws_sent_session := []\<rparr>) = (ce, w1)"
    and f: "case result_of_end ce of
       Some r \<Rightarrow> finish_job env cfg plan (we_wall env (length (ws_calls w))) r w1 = (e, w')
     | None \<Rightarrow> w' = w1 \<and> e \<noteq> Escaped"
  have "ws_calls w' = ws_calls w1"
    using f finish_job_frame by (cases "result_of_end ce") (simp, fastforce)
  then show ?thesis
    using calls_with_recovery [OF c] c calls_without_recovery
      [of env cfg "rp_prompt plan" "ec_session_scope_id (rp_context plan)" "ec_legacy_scope_ids (rp_context plan)"
        "context_cwd (rp_context plan)" "w\<lparr>ws_progress := [], ws_sent_at := 0, ws_sent_session := []\<rparr>" ce w1]
    by (cases "rp_recovery_session_id plan = []") simp_all
qed

text \<open>A job calls the provider only through its plan.\<close>
lemma process_job_cases:
  assumes "process_job env cfg claim w = (e, w')"
  obtains (plan) plan where "admit_job (we_sha env) (we_loads env) cfg claim = Inr plan"
      "execute_plan env cfg plan w = (e, w')"
  | (rejected) tr m where "admit_job (we_sha env) (we_loads env) cfg claim = Inl (Rejected tr m)"
      "send_report env cfg tr ''failed'' [(''error'', JStr m)] w = (e, w')"
  | (silent) "admit_job (we_sha env) (we_loads env) cfg claim \<in> {Inl Dropped, Inl Uncaught}" "w' = w"
  using assms by (auto simp: process_job_def split: sum.splits early_end.splits)

lemma status_values: "status_for_result r \<in> {''done'', ''failed'', ''timed_out''}"
  by (simp add: status_for_result_def)

section \<open>A managed claim\<close>

definition example_cfg :: worker_config where
  "example_cfg = \<lparr>wc_id = ''claude'', wc_adapter = ''claude''\<rparr>"

definition managed_claim :: "dict \<Rightarrow> dict" where
  "managed_claim extra =
     example_claim (example_job @ extra @ [(''payload'', JObj [(''prompt'', JStr ''hi''),
       (''executor_binding'', JObj (binding_dict example_binding))])]) (JInt 2)
     @ [(''execution_lease'', JObj (lease_to_dict example_lease))]"

definition example_plan :: "string \<Rightarrow> run_plan" where
  "example_plan recovery =
     \<lparr>rp_trusted = trusted_lease example_lease, rp_lease = Some example_lease,
      rp_binding = Some example_binding, rp_context = example_context, rp_prompt = JStr ''hi'',
      rp_recovery_session_id = recovery\<rparr>"

text \<open>A provider that answers, and a CLI that records its commands and accepts all of them.\<close>
definition example_env :: "string list list worker_env" where
  "example_env =
     \<lparr>we_sha = zero_sha, we_loads = example_loads, we_exec = example_exec, we_client = example_client,
      we_provider = (\<lambda>calls c. ([(20000, 5, JObj [(''session_id'', JStr ''s-5'')])],
        Returned \<lparr>ar_text = ''ok'', ar_session_id = Some ''s-5'', ar_resumed = False, ar_metadata = []\<rparr>)),
      we_wall = int\<rparr>"

definition example_state :: "session_store \<Rightarrow> string list list worker_state" where
  "example_state t =
     \<lparr>ws_store = t, ws_calls = [], ws_reports = [], ws_sends = [], ws_progress = [], ws_sent_at = 0,
      ws_sent_session = [], ws_logs = [], ws_world = []\<rparr>"

lemma example_env_simps [simp]: "we_sha example_env = zero_sha" "we_loads example_env = example_loads"
  by (simp_all add: example_env_def)

definition example_payload :: dict where
  "example_payload = [(''prompt'', JStr ''hi''), (''executor_binding'', JObj (binding_dict example_binding))]"

lemma admit_jobI:
  assumes "admit_lease sha cfg claim = Inr lease0" "trusted_of claim lease0 = Inr tr0"
    "admit_payload loads claim lease0 tr0 = Inr payload" "admit_binding sha cfg payload lease0 tr0 = Inr b"
    "admit_context sha cfg claim tr0 = Inr (job, ctx, token)"
    "cross_check_lease sha cfg claim payload ctx token lease0 tr0 = Inr (lease, tr)" "prompt_of payload = Inr prompt"
  shows "admit_job sha loads cfg claim = Inr \<lparr>rp_trusted = tr, rp_lease = lease, rp_binding = b, rp_context = ctx,
    rp_prompt = prompt, rp_recovery_session_id = recovery_session_id job\<rparr>"
  using assms by (simp add: admit_job_def)

lemma example_binding_admitted:
  "admit_binding zero_sha example_cfg example_payload (Some example_lease) (trusted_lease example_lease) = Inr (Some example_binding)"
  by code_simp

lemma example_lease_checked:
  "validate_execution_lease zero_sha (JObj (lease_to_dict example_lease)) (wc_id example_cfg) (Some (ec_job_id example_context)) (Some 2)
     (JObj (context_to_dict example_context)) (dget example_payload ''executor_binding'') = Inr example_lease"
  by code_simp

lemma example_prompt: "prompt_of example_payload = Inr (JStr ''hi'')"
  by code_simp

text \<open>A claim is admitted whose parts are those of the example, whatever else its job says.\<close>
lemma example_claim_admitted:
  assumes lease: "admit_lease zero_sha example_cfg claim = Inr (Some example_lease)"
    and raw: "dget claim ''execution_lease'' = JObj (lease_to_dict example_lease)"
    and payload: "admit_payload example_loads claim (Some example_lease) (trusted_lease example_lease) = Inr example_payload"
    and ctx: "admit_context zero_sha example_cfg claim (trusted_lease example_lease) = Inr (job, example_context, 2)"
  shows "admit_job zero_sha example_loads example_cfg claim = Inr (example_plan (recovery_session_id job))"
proof -
  have "cross_check_lease zero_sha example_cfg claim example_payload example_context 2 (Some example_lease)
      (trusted_lease example_lease) = Inr (Some example_lease, trusted_lease example_lease)"
    using example_lease_checked by (simp only: cross_check_lease_Inr [OF lease] raw simp_thms)
  from admit_jobI [OF lease trusted_of_lease payload example_binding_admitted ctx this example_prompt]
  show ?thesis
    by (simp add: example_plan_def)
qed

lemma example_admitted: "admit_job zero_sha example_loads example_cfg (managed_claim []) = Inr (example_plan [])"
proof -
  have "recovery_session_id (obj_or_empty (dget (managed_claim []) ''job'')) = []"
    by code_simp
  moreover have "admit_job zero_sha example_loads example_cfg (managed_claim [])
      = Inr (example_plan (recovery_session_id (obj_or_empty (dget (managed_claim []) ''job''))))"
    by (rule example_claim_admitted) code_simp+
  ultimately show ?thesis
    by simp
qed

definition recovery_claim :: dict where
  "recovery_claim = managed_claim [(''terminal_session_id'', JStr ''s-3'')]"

lemma example_recovery_admitted: "admit_job zero_sha example_loads example_cfg recovery_claim = Inr (example_plan ''s-3'')"
proof -
  have "recovery_session_id (obj_or_empty (dget recovery_claim ''job'')) = ''s-3''"
    by code_simp
  moreover have "admit_job zero_sha example_loads example_cfg recovery_claim
      = Inr (example_plan (recovery_session_id (obj_or_empty (dget recovery_claim ''job''))))"
    by (rule example_claim_admitted) code_simp+
  ultimately show ?thesis
    by simp
qed

lemma process_admitted:
  "admit_job (we_sha env) (we_loads env) cfg claim = Inr plan \<Longrightarrow> process_job env cfg claim w = execute_plan env cfg plan w"
  by (simp add: process_job_def)

text \<open>What the example job does.\<close>
lemma example_run:
  "ws_calls (snd (execute_plan example_env example_cfg (example_plan []) (example_state []))) = [Call (JStr ''hi'') ''/srv/w'']"
  "length (ws_reports (snd (execute_plan example_env example_cfg (example_plan []) (example_state [])))) = 1"
  by code_simp+

lemmas example_processed = process_admitted [of example_env, unfolded example_env_simps, OF example_admitted]

section \<open>Properties of a job\<close>



text \<open>
  C22: A claim is answered at most once and only in the name that was proved: processing it sends no
  report or one, with status done, failed or timed_out; if the claim has a lease field, the report
  carries the job, attempt and lease id of a lease that was validated for this agent, and otherwise
  it carries no lease id.
\<close>
theorem reports_are_trusted:
  assumes "process_job env cfg claim w = (e, w')"
  shows "ws_reports w' = ws_reports w \<or>
    (\<exists>rc. ws_reports w' = ws_reports w @ [rc] \<and> rc_status rc \<in> {''done'', ''failed'', ''timed_out''}
       \<and> (if has_key claim ''execution_lease''
          then \<exists>l. admit_lease (we_sha env) cfg claim = Inr (Some l) \<and> el_agent_id l = wc_id cfg
            \<and> rc_job_id rc = JStr (el_job_id l) \<and> rc_attempt_token rc = Some (JInt (el_attempt_token l))
            \<and> rc_lease_id rc = Some (el_lease_id l)
          else rc_lease_id rc = None))"
proof -
  have leased: "\<exists>l. admit_lease (we_sha env) cfg claim = Inr (Some l) \<and> tr = trusted_lease l"
    if h: "has_key claim ''execution_lease''" "admit_job (we_sha env) (we_loads env) cfg claim = Inr plan"
      "tr = rp_trusted plan" for plan tr
  proof -
    obtain lease0 tr0 payload token where st: "admit_lease (we_sha env) cfg claim = Inr lease0"
      "trusted_of claim lease0 = Inr tr0"
      "cross_check_lease (we_sha env) cfg claim payload (rp_context plan) token lease0 tr0 = Inr (rp_lease plan, rp_trusted plan)"
      using h(2) by (rule admit_job_Inr) blast
    then obtain l where "lease0 = Some l"
      using h(1) by (auto simp: admit_lease_Inr)
    then show ?thesis
      using st h(3) by (auto simp: trusted_of_lease cross_check_lease_Inr)
  qed
  have agent: "el_agent_id l = wc_id cfg" if "admit_lease (we_sha env) cfg claim = Inr (Some l)" for l
    using that by (auto simp: admit_lease_Inr validate_execution_lease_iff split: if_splits)
  show ?thesis
    using assms
  proof (cases rule: process_job_cases)
    case (plan plan)
    have none: "tr_lease_id (rp_trusted plan) = None" if "\<not> has_key claim ''execution_lease''"
    proof -
      have "rp_lease plan = None"
        using that plan(1) by (elim admit_job_Inr) (auto simp: admit_lease_Inr cross_check_lease_def)
      then show ?thesis
        using unmanaged_plan_facts [OF plan(1)] by blast
    qed
    consider "ws_reports w' = ws_reports w"
      | r result where "ws_reports w' = ws_reports w @ [\<lparr>rc_job_id = tr_job_id (rp_trusted plan),
            rc_status = status_for_result r, rc_result = result,
            rc_attempt_token = tr_attempt_token (rp_trusted plan), rc_lease_id = tr_lease_id (rp_trusted plan)\<rparr>]"
      using execute_plan_reports [OF plan(2)] by blast
    then show ?thesis
    proof cases
      case 1
      then show ?thesis
        by simp
    next
      case (2 r result)
      then show ?thesis
        using leased [OF _ plan(1) refl] agent none status_values [of r]
        by (cases "has_key claim ''execution_lease''") (auto simp: trusted_lease_def)
    qed
  next
    case (rejected tr m)
    then show ?thesis
      using rejected_is_trusted [OF rejected(1)] send_report_frame [OF rejected(2)] agent
      by (auto simp: trusted_lease_def admit_lease_Inr)
  next
    case silent
    then show ?thesis
      by simp
  qed
qed

theorem reports_are_trusted_witness:
  "\<exists>rc. ws_reports (snd (process_job example_env example_cfg (managed_claim []) (example_state []))) = [rc]
    \<and> rc_job_id rc = JStr ''job-1'' \<and> rc_attempt_token rc = Some (JInt 2)"
proof -
  have lease: "admit_lease (we_sha example_env) example_cfg (managed_claim []) = Inr (Some example_lease)"
    and key: "has_key (managed_claim []) ''execution_lease''"
    and none: "ws_reports (example_state []) = []"
    by code_simp+
  have sent: "ws_reports (snd (process_job example_env example_cfg (managed_claim []) (example_state []))) \<noteq> []"
    using example_run(2) unfolding example_processed by auto
  have "el_job_id example_lease = ''job-1''" "el_attempt_token example_lease = 2"
    by (simp_all add: example_lease_def)
  then show ?thesis
    using reports_are_trusted [OF prod.collapse [symmetric], of example_env example_cfg "managed_claim []" "example_state []"]
      lease key sent none by auto
qed

text \<open>
  C28: A job that recovers a session never starts a second execution: if the job names a session to
  recover, the provider is asked exactly once, to resume that very session, whatever the session
  table says and however the resume ends.
\<close>
theorem recovery_never_duplicates:
  assumes "admit_job (we_sha env) (we_loads env) cfg claim = Inr plan" "rp_recovery_session_id plan \<noteq> []"
    and "process_job env cfg claim w = (e, w')"
  shows "ws_calls w' = ws_calls w @ [Resume (rp_recovery_session_id plan) (rp_prompt plan) (context_cwd (rp_context plan))]"
proof -
  have "execute_plan env cfg plan w = (e, w')"
    using assms(1,3) by (simp add: process_job_def)
  then show ?thesis
    using execute_plan_calls assms(2) by blast
qed

theorem recovery_never_duplicates_witness:
  "ws_calls (snd (process_job example_env example_cfg recovery_claim
      (example_state []))) = [Resume ''s-3'' (JStr ''hi'') ''/srv/w'']"
  using recovery_never_duplicates
    [OF example_recovery_admitted [folded example_env_simps] _ prod.collapse [symmetric], of "example_state []"]
  by (simp add: example_plan_def example_state_def context_cwd_def example_context_def)

text \<open>
  Without a session to recover, the provider is asked once or twice: a fresh call, or the resume
  of the first active session of the job's scopes, provided it belongs to the same work tree, followed
  by a fresh call at most when the resume failed.
\<close>
theorem provider_calls_bounded:
  assumes "admit_job (we_sha env) (we_loads env) cfg claim = Inr plan" "rp_recovery_session_id plan = []"
    and "process_job env cfg claim w = (e, w')"
  shows "(let fresh = Call (rp_prompt plan) (context_cwd (rp_context plan)) in
      ws_calls w' = ws_calls w @ [fresh]
      \<or> (\<exists>r. resumable (ws_store w) (ec_session_scope_id (rp_context plan) # ec_legacy_scope_ids (rp_context plan))
              (wc_id cfg) (context_cwd (rp_context plan)) r
            \<and> (let resume = Resume (sr_session_id r) (rp_prompt plan) (context_cwd (rp_context plan)) in
               ws_calls w' = ws_calls w @ [resume] \<or> ws_calls w' = ws_calls w @ [resume, fresh])))"
proof -
  have "execute_plan env cfg plan w = (e, w')"
    using assms(1,3) by (simp add: process_job_def)
  then show ?thesis
    using execute_plan_calls assms(2) unfolding Let_def by blast
qed

theorem provider_calls_bounded_witness:
  "(let fresh = Call (JStr ''hi'') ''/srv/w'' in
    ws_calls (snd (process_job example_env example_cfg (managed_claim []) (example_state []))) = [fresh]
    \<or> (\<exists>r. resumable [] [''task:ws:t-1'', ''42''] ''claude'' ''/srv/w'' r))"
  using provider_calls_bounded
    [OF example_admitted [folded example_env_simps] _ prod.collapse [symmetric], of "example_state []"]
  by (auto simp: example_plan_def example_state_def context_cwd_def example_context_def example_cfg_def Let_def
      simp del: get_first_active.simps)

lemma admit_job_bad_lease:
  assumes "has_key claim ''execution_lease''"
    and "case dget claim ''execution_lease'' of
           JObj raw \<Rightarrow> \<not> is_ok (validate_execution_lease sha (JObj raw) (wc_id cfg) None None JNull JNull)
         | _ \<Rightarrow> True"
  shows "admit_job sha loads cfg claim \<in> {Inl Dropped, Inl Uncaught}"
  using assms
  by (auto simp: admit_job_def admit_lease_def is_ok_def split: json.splits sum.splits lease_exc.splits)

text \<open>
  An invalid lease is silent: if the claim has a lease field that is not an object or fails
  validation for this agent, the worker neither calls the provider nor reports nor changes any state,
  whatever else the claim contains.
\<close>
theorem invalid_lease_is_silent:
  assumes "has_key claim ''execution_lease''"
    and "case dget claim ''execution_lease'' of
           JObj raw \<Rightarrow> \<not> is_ok (validate_execution_lease (we_sha env) (JObj raw) (wc_id cfg) None None JNull JNull)
         | _ \<Rightarrow> True"
  shows "snd (process_job env cfg claim w) = w"
  using admit_job_bad_lease [OF assms, of "we_loads env"] by (auto simp: process_job_def)

theorem invalid_lease_is_silent_witness:
  "snd (process_job example_env example_cfg [(''execution_lease'', JObj [])] (example_state [])) = example_state []"
proof (rule invalid_lease_is_silent)
  show "has_key [(''execution_lease'', JObj [])] ''execution_lease''"
    by code_simp
  have "\<not> is_ok (validate_execution_lease zero_sha (JObj []) ''claude'' None None JNull JNull)"
    by code_simp
  then show "case dget [(''execution_lease'', JObj [])] ''execution_lease'' of
       JObj raw \<Rightarrow> \<not> is_ok (validate_execution_lease (we_sha example_env) (JObj raw) (wc_id example_cfg) None None JNull JNull)
     | _ \<Rightarrow> True"
    by (simp add: dget_Cons example_cfg_def)
qed

text \<open>
  Losing the lease silences the job: when the supervisor cancels the provider of a managed job,
  the job ends without a report, and the session table holds only what the provider's own calls left
  there.
\<close>
theorem lost_lease_is_silent:
  assumes "admit_job (we_sha env) (we_loads env) cfg claim = Inr plan" "rp_lease plan = Some l"
    and "call_or_resume env cfg (rp_prompt plan) (ec_session_scope_id (rp_context plan))
       (ec_legacy_scope_ids (rp_context plan)) (context_cwd (rp_context plan)) (rp_recovery_session_id plan)
       (w\<lparr>ws_progress := [], ws_sent_at := 0, ws_sent_session := []\<rparr>) = (LeaseLost, w1)"
  shows "process_job env cfg claim w = (Finished, w1) \<and> ws_reports w1 = ws_reports w"
proof -
  have "tr_lease_id (rp_trusted plan) \<noteq> None"
    using managed_plan_facts [OF assms(1,2)] by (simp add: trusted_lease_def)
  then have "execute_plan env cfg plan w = (Finished, w1)"
    using assms(3) by (simp add: execute_plan_def Let_def)
  then show ?thesis
    using assms(1) call_or_resume_reports [OF assms(3)] by (simp add: process_admitted)
qed

text \<open>A provider whose lease is lost while it runs.\<close>
definition losing_env :: "string list list worker_env" where
  "losing_env = example_env\<lparr>we_provider := (\<lambda>calls c. ([], LeaseLost))\<rparr>"

theorem lost_lease_is_silent_witness:
  "fst (process_job losing_env example_cfg (managed_claim []) (example_state [])) = Finished"
proof -
  have "admit_job (we_sha losing_env) (we_loads losing_env) example_cfg (managed_claim []) = Inr (example_plan [])"
    using example_admitted by (simp add: losing_env_def)
  moreover have "rp_lease (example_plan []) = Some example_lease"
    by (simp add: example_plan_def)
  moreover have "call_or_resume losing_env example_cfg (rp_prompt (example_plan []))
      (ec_session_scope_id (rp_context (example_plan []))) (ec_legacy_scope_ids (rp_context (example_plan [])))
      (context_cwd (rp_context (example_plan []))) (rp_recovery_session_id (example_plan []))
      ((example_state [])\<lparr>ws_progress := [], ws_sent_at := 0, ws_sent_session := []\<rparr>)
      = (LeaseLost, (example_state [])\<lparr>ws_calls := [Call (JStr ''hi'') ''/srv/w'']\<rparr>)"
    by code_simp
  ultimately have "process_job losing_env example_cfg (managed_claim []) (example_state [])
      = (Finished, (example_state [])\<lparr>ws_calls := [Call (JStr ''hi'') ''/srv/w'']\<rparr>)"
    using lost_lease_is_silent by blast
  then show ?thesis
    by simp
qed

section \<open>Reports and sessions\<close>

text \<open>The keys of the base result do not clash with those of the evidence.\<close>
lemma dget_alist_set: "dget (alist_set d k v) k' = (if k' = k then v else dget d k')"
  by (induction d) (auto simp: dget_Cons)

lemma dget_alist_update_fresh: "k \<notin> fst ` set e \<Longrightarrow> dget (alist_update d e) k = dget d k"
  unfolding alist_update_def by (induction e arbitrary: d) (auto simp: dget_alist_set)

text \<open>
  What a report says is what happened: the result carries the provider's text, session and the
  context's id, work tree and scope, the binding's evidence where there is a binding, and the status
  done exactly for a text that is not one of the known failures and has no timeout.
\<close>
theorem report_is_faithful:
  assumes "result_json_of plan r dur progress = Some result"
  shows "dget result ''response_text'' = JStr (ar_text r)
    \<and> dget result ''execution_context_id'' = JStr (ec_context_id (rp_context plan))
    \<and> dget result ''worktree_path'' = JStr (ec_worktree_path (rp_context plan))
    \<and> dget result ''session_scope_id'' = JStr (ec_session_scope_id (rp_context plan))
    \<and> (\<forall>b. rp_binding plan = Some b \<longrightarrow>
         dget result ''executor_binding_id'' = JStr (eb_binding_id b)
         \<and> dget result ''runner_profile_id'' = JStr (eb_runner_profile_id b))
    \<and> (status_for_result r = ''done''
         \<longleftrightarrow> \<not> is_error (ar_text r) \<and> \<not> truthy (dget (ar_metadata r) ''timeout''))"
proof -
  obtain base where base: "base = (case rp_binding plan of None \<Rightarrow>
      [(''response_text'', JStr (ar_text r)),
       (''session_id'', JStr (case ar_session_id r of None \<Rightarrow> [] | Some s \<Rightarrow> s)),
       (''duration_ms'', JInt dur),
       (''execution_context_id'', JStr (ec_context_id (rp_context plan))),
       (''worktree_path'', JStr (ec_worktree_path (rp_context plan))),
       (''session_scope_id'', JStr (ec_session_scope_id (rp_context plan)))]
    | Some b \<Rightarrow> alist_update
      [(''response_text'', JStr (ar_text r)),
       (''session_id'', JStr (case ar_session_id r of None \<Rightarrow> [] | Some s \<Rightarrow> s)),
       (''duration_ms'', JInt dur),
       (''execution_context_id'', JStr (ec_context_id (rp_context plan))),
       (''worktree_path'', JStr (ec_worktree_path (rp_context plan))),
       (''session_scope_id'', JStr (ec_session_scope_id (rp_context plan)))] (result_evidence b))"
    by blast
  have keep: "dget result k = dget base k" if "k \<notin> {''progress'', ''timeout''}" for k
    using assms that
    by (auto simp: result_json_of_def Let_def base [symmetric] dget_alist_set split: if_splits json.splits option.splits)
  have "startswith (ar_text r) ''Claude timeout:'' \<Longrightarrow> is_error (ar_text r)"
    by (auto simp: is_error_def ERROR_PREFIXES_def startswith_iff)
  then have status: "status_for_result r = ''done''
      \<longleftrightarrow> \<not> is_error (ar_text r) \<and> \<not> truthy (dget (ar_metadata r) ''timeout'')"
    by (auto simp: status_for_result_def)
  show ?thesis
    using status
    by (cases "rp_binding plan")
      (simp_all add: keep base dget_Cons alist_update_def result_evidence_def)
qed

theorem report_is_faithful_witness:
  "\<exists>result. result_json_of (example_plan []) \<lparr>ar_text = ''ok'', ar_session_id = None, ar_resumed = False, ar_metadata = []\<rparr> 7 []
      = Some result \<and> dget result ''executor_binding_id'' = JStr (eb_binding_id example_binding)"
proof -
  obtain result where r: "result_json_of (example_plan [])
      \<lparr>ar_text = ''ok'', ar_session_id = None, ar_resumed = False, ar_metadata = []\<rparr> 7 [] = Some result"
    by (simp add: result_json_of_def Let_def has_key_def)
  then show ?thesis
    using report_is_faithful [OF r] by (auto simp: example_plan_def)
qed

text \<open>
  The session of a finished job is the one that is recovered next: if the provider returns a
  session, then after the job the session table has it as the active session of the job's scope and
  agent, with the context's work tree, and the next job of that scope and work tree may resume it.
\<close>
theorem finished_session_is_recovered:
  assumes "store_wf (ws_store w)" "ar_session_id r = Some sid" "sid \<noteq> []"
    and "ec_session_scope_id (rp_context plan) \<noteq> []"
    and "finish_job env cfg plan start r w = (e, w')"
  shows "\<exists>row. resumable (ws_store w') (ec_session_scope_id (rp_context plan) # legacy) (wc_id cfg)
      (context_cwd (rp_context plan)) row \<and> sr_session_id row = sid \<and> sr_adapter row = wc_adapter cfg"
proof -
  let ?k = "(ec_session_scope_id (rp_context plan), wc_id cfg)"
  define p where "p = \<lparr>sp_now = we_wall env (length (ws_calls w)), sp_adapter = wc_adapter cfg, sp_session_id = sid,
    sp_work_dir = Some (context_cwd (rp_context plan))\<rparr>"
  have "ws_store w' = put_session p ?k (ws_store w)"
    using assms(2-5)
    by (auto simp: finish_job_def Let_def put_session_def p_def dest!: send_report_frame split: option.splits)
  moreover obtain row where "session_get (put_session p ?k (ws_store w)) (fst ?k) (snd ?k) = Some row"
      "stored_session p ?k row"
    using sessions.get_put [OF assms(1), of p ?k] by blast
  ultimately show ?thesis
    by (auto simp: resumable_def stored_session_def p_def)
qed

theorem finished_session_is_recovered_witness:
  "\<exists>row. resumable (ws_store (snd (finish_job example_env example_cfg (example_plan []) 0
        \<lparr>ar_text = ''ok'', ar_session_id = Some ''s-5'', ar_resumed = False, ar_metadata = []\<rparr> (example_state example_store))))
      [''task:ws:t-1''] ''claude'' ''/srv/w'' row \<and> sr_session_id row = ''s-5''"
  using finished_session_is_recovered [OF _ _ _ _ prod.collapse [symmetric], where w = "example_state example_store"
      and r = "\<lparr>ar_text = ''ok'', ar_session_id = Some ''s-5'', ar_resumed = False, ar_metadata = []\<rparr>"
      and env = example_env and cfg = example_cfg and plan = "example_plan []" and start = 0
      and sid = "''s-5''" and legacy = "[]"] example_store_wf
  by (auto simp: example_state_def example_plan_def example_context_def example_cfg_def context_cwd_def)

section \<open>The main loop\<close>

lemma run_policy_Inr:
  assumes "run_policy recoverable reason prior mode why = Inr ((m, y), r)"
  shows "reap_policy_ok (if m = ''none'' then JStr m else JStr ''global'') (if m = ''none'' then opt_str y else JNull)
    \<and> claim_evidence_ok recoverable (JStr r) prior"
  using assms
  by (cases recoverable)
    (auto simp: run_policy_def result_simps normalize_claim_reap_policy_Inr normalize_recovery_reason_Inr
      reap_policy_ok_def claim_evidence_ok_def opt_str_def split: if_splits json.splits)

lemma claim_job_starts:
  assumes "reap_policy_ok mode why" "claim_evidence_ok recoverable reason prior"
  shows "\<exists>cmd. snd (claim_job exec loads cl agent recoverable reason prior mode why w) = snd (exec cmd w)"
proof -
  obtain pol where "normalize_claim_reap_policy mode why = Inr pol"
    using assms(1) normalize_claim_reap_policy_Inr by blast
  moreover obtain r where "claim_evidence recoverable reason prior = Inr r"
    using assms(2) claim_evidence_Inr by blast
  ultimately have "snd (claim_job exec loads cl agent recoverable reason prior mode why w)
      = snd (exec (claim_argv cl agent recoverable r pol) w)"
    by (simp add: claim_job_def run_cli_def split: prod.splits)
  then show ?thesis
    by blast
qed

text \<open>
  The worker polls only with a policy that every poll accepts: \<open>run\<close> fails before its first claim
  unless the reap policy and the recovery evidence are complete, and once it runs, no claim is
  refused by the client itself: each one starts the CLI.
\<close>
theorem run_policy_fits_claims:
  assumes "run_policy recoverable reason prior mode why = Inr pol"
  shows "reap_policy_ok mode why \<and> claim_evidence_ok recoverable reason prior
    \<and> (\<exists>cmd. ws_world (snd (claim_in_loop env cfg recoverable prior pol w)) = snd (we_exec env cmd (ws_world w)))"
proof -
  obtain m y r where pol: "pol = ((m, y), r)"
    by (metis prod.collapse)
  note ok = run_policy_Inr [OF assms [unfolded pol]]
  have "reap_policy_ok mode why \<and> claim_evidence_ok recoverable reason prior"
    using assms unfolding pol
    by (cases recoverable)
      (auto simp: run_policy_def result_simps normalize_claim_reap_policy_Inr normalize_recovery_reason_Inr
        claim_evidence_ok_def split: if_splits json.splits)
  moreover have "\<exists>cmd. ws_world (snd (claim_in_loop env cfg recoverable prior pol w)) = snd (we_exec env cmd (ws_world w))"
    using claim_job_starts [of _ _ recoverable "JStr r" prior "we_exec env" "we_loads env" "we_client env" "wc_id cfg" "ws_world w"] ok
    unfolding pol by (auto simp: claim_in_loop_def split: prod.splits) (metis snd_conv)+
  ultimately show ?thesis
    by blast
qed

theorem run_policy_fits_claims_witness:
  "\<exists>cmd. ws_world (snd (claim_in_loop example_env example_cfg True (JBool True) ((''none'', Some ''why''), ''why'') (example_state [])))
     = snd (we_exec example_env cmd [])"
proof -
  have "run_policy True (JStr '' why '') (JBool True) (JStr ''none'') (JStr ''why'') = Inr ((''none'', Some ''why''), ''why'')"
    by code_simp
  from run_policy_fits_claims [OF this, of example_env example_cfg "example_state []"] show ?thesis
    by (simp add: example_state_def)
qed

text \<open>
  A failed report ends the worker: errors of a claim are waited out, but when the CLI fails on the
  report of a rejected claim, the exception is caught nowhere and leaves \<open>run\<close>.
\<close>
theorem failed_report_ends_worker:
  assumes "claim_in_loop env cfg recoverable prior pol w = (Inr claim, w1)" "truthy (dget claim ''claimed'')"
    and "admit_job (we_sha env) (we_loads env) cfg claim = Inl (Rejected tr m)"
    and timeout: "\<And>cmd u. ''report'' \<in> set cmd \<Longrightarrow> fst (we_exec env cmd u) = CliTimeout"
  shows "fst (run_loop (Suc n) env cfg recoverable prior pol w) = RunCrashed"
proof -
  have "\<exists>w2. process_job env cfg claim w1 = (Escaped, w2)"
  proof (cases "tr_job_id tr")
    case (JStr j)
    let ?cmd = "report_argv (we_client env) j (wc_id cfg) ''failed'' [(''error'', JStr m)] (tr_attempt_token tr) (tr_lease_id tr)"
    have "''report'' \<in> set ?cmd"
      by (simp add: report_argv_def)
    then obtain u where "we_exec env ?cmd (ws_world w1) = (CliTimeout, u)"
      using timeout by (metis prod.collapse)
    then show ?thesis
      using assms(3) JStr
      by (simp add: process_job_def send_report_def report_job_def Let_def run_cli_def decode_cli_def)
  qed (use assms(3) in \<open>simp_all add: process_job_def send_report_def report_job_def Let_def\<close>)
  then show ?thesis
    using assms(1,2) by auto
qed

text \<open>A managed claim without a payload, and a CLI that hands it out but hangs on every report.\<close>
definition unbound_claim :: dict where
  "unbound_claim = example_claim example_job (JInt 2) @ [(''execution_lease'', JObj (lease_to_dict example_lease))]"

definition hanging_env :: "string list list worker_env" where
  "hanging_env = example_env\<lparr>
     we_loads := (\<lambda>s. Inr (JObj [(''result'', JObj unbound_claim)])),
     we_exec := (\<lambda>cmd u. (if ''report'' \<in> set cmd then CliTimeout else CliExit 0 ''{}'' [], u))\<rparr>"

lemma unbound_claim_rejected:
  "admit_job zero_sha loads example_cfg unbound_claim
     = Inl (Rejected (trusted_lease example_lease) ''managed claim missing executor_binding'')"
proof -
  have "admit_lease zero_sha example_cfg unbound_claim = Inr (Some example_lease)"
    by code_simp
  moreover have "raw_job_of unbound_claim = Some example_job"
    by code_simp
  moreover have "extract_payload loads example_job = Inr []"
    by (simp add: extract_payload_def example_job_def dget_Cons)
  ultimately show ?thesis
    by (simp add: admit_job_def trusted_of_lease admit_payload_def admit_binding_def has_key_def)
qed

theorem failed_report_ends_worker_witness:
  "fst (run_loop (Suc 3) hanging_env example_cfg False (JBool False) ((''global'', None), []) (example_state [])) = RunCrashed"
proof (rule failed_report_ends_worker)
  show "claim_in_loop hanging_env example_cfg False (JBool False) ((''global'', None), []) (example_state [])
      = (Inr unbound_claim, example_state [])"
    by (simp add: claim_in_loop_def claim_job_def normalize_claim_reap_policy_def claim_evidence_def run_cli_def decode_cli_def
        hanging_env_def claim_argv_def example_env_def example_client_def example_cfg_def example_state_def dget_Cons
        strip_id py_space_def ord_def)
  show "truthy (dget unbound_claim ''claimed'')"
    by code_simp
  show "admit_job (we_sha hanging_env) (we_loads hanging_env) example_cfg unbound_claim
      = Inl (Rejected (trusted_lease example_lease) ''managed claim missing executor_binding'')"
    using unbound_claim_rejected by (simp add: hanging_env_def)
qed (simp add: hanging_env_def)

section \<open>The supervisor of the lease\<close>

text \<open>The timestamps of a renewal, as seconds of the server's clock: \<open>server_now\<close>, \<open>expires_at\<close>.\<close>
definition round_times :: "renewal_round \<Rightarrow> (int \<times> int) option" where
  "round_times r =
     (case rr_response r of
        Inr response \<Rightarrow>
          (case dget response ''result'' of
             JObj result \<Rightarrow>
               (case (dget result ''expires_at'', dget result ''server_now'') of
                  (JStr e, JStr s) \<Rightarrow>
                    (case (strptime_utc s, strptime_utc e) of
                       (Some ts, Some te) \<Rightarrow> Some (ts, te)
                     | _ \<Rightarrow> None)
                | _ \<Rightarrow> None)
           | _ \<Rightarrow> None)
      | _ \<Rightarrow> None)"

lemma renewal_round_facts:
  "renewal_round_end deadline r = Renewed d \<longleftrightarrow>
     rr_now r < deadline \<and> \<not> rr_woken r
     \<and> (\<exists>ts te. round_times r = Some (ts, te) \<and> d = rr_after r + (te - ts) - RENEWAL_SAFETY_MARGIN_SECONDS)"
  by (auto simp: renewal_round_end_def round_times_def to_monotonic_deadline_def
      split: sum.splits json.splits option.splits)

text \<open>
  The server's clock is the local monotonic clock plus \<open>off\<close>. A run is timely if the answer to a
  renewal is there at most \<open>delay\<close> seconds after the sleep ends, and its \<open>server_now\<close> is then at most
  \<open>latency\<close> seconds old.
\<close>
fun timely :: "int \<Rightarrow> int \<Rightarrow> int \<Rightarrow> int \<Rightarrow> int \<Rightarrow> renewal_round list \<Rightarrow> bool" where
  "timely interval off latency delay deadline [] = True"
| "timely interval off latency delay deadline (r # rs) =
     ((rr_now r < deadline \<longrightarrow> rr_after r \<le> sleep_until interval (rr_now r) deadline + delay)
      \<and> (case renewal_round_end deadline r of
           Renewed d \<Rightarrow>
             (case round_times r of
                Some (ts, te) \<Rightarrow> rr_after r + off - ts \<le> latency
              | None \<Rightarrow> False) \<and> timely interval off latency delay d rs
         | _ \<Rightarrow> True))"

text \<open>
  The lease covers the run if each round that goes to sleep has its verdict, renewed or lost, before
  the lease expires.
\<close>
fun covered :: "int \<Rightarrow> int \<Rightarrow> int \<Rightarrow> renewal_round list \<Rightarrow> bool" where
  "covered off expiry deadline [] = True"
| "covered off expiry deadline (r # rs) =
     ((rr_now r < deadline \<longrightarrow> rr_after r + off \<le> expiry)
      \<and> (case renewal_round_end deadline r of
           Renewed d \<Rightarrow> covered off (case round_times r of Some (ts, te) \<Rightarrow> te | None \<Rightarrow> 0) d rs
         | _ \<Rightarrow> True))"


text \<open>
  A lease of 30 seconds with the interval 10 that is renewed once; the server's clock is
  1970-01-01T00:16:40Z when the local clock is 0.
\<close>
definition short_offset :: int where
  "short_offset = 62135684200"

definition short_rounds :: "int \<Rightarrow> renewal_round list" where
  "short_rounds delay =
     [\<lparr>rr_now = 0, rr_woken = False,
       rr_response = Inr [(''result'', JObj [(''expires_at'', JStr ''1970-01-01T00:17:20Z''),
         (''server_now'', JStr ''1970-01-01T00:16:50Z'')])], rr_after = 10\<rparr>,
      \<lparr>rr_now = 10, rr_woken = False, rr_response = Inl (CoordinateRuntimeError ''coordinate CLI timed out''),
       rr_after = 20 + delay\<rparr>]"


text \<open>
  The margin does not cover the time limit of the CLI, which is 30 seconds: under a lease of 30
  seconds whose renewal hangs until that limit, with an exact clock and the interval of 10 seconds,
  the supervisor notices the loss only ten seconds after the lease has expired, and the provider runs
  until then.
\<close>
theorem hanging_renewal_overruns_lease:
  "timely 10 short_offset 0 30 25 (short_rounds 30) \<and> renewal_supervisor 25 (short_rounds 30) = Lost
   \<and> \<not> covered short_offset (short_offset + 30) 25 (short_rounds 30)
   \<and> map_option snd (round_times (short_rounds 30 ! 0)) = Some (short_offset + 40)
   \<and> rr_after (last (short_rounds 30)) + short_offset = short_offset + 40 + 10"
  by (intro conjI; code_simp)

text \<open>
  Renewal fails closed: the supervisor goes on only after an answer with both timestamps; the first
  round at or past the deadline, with an error of the client, or without well-formed timestamps loses
  the lease, and the rounds after it do not matter.
\<close>
theorem renewal_fails_closed:
  "renewal_supervisor deadline (rs @ [r] @ rs') = Lost"
  if "renewal_supervisor deadline rs = Renewed d" "d \<le> rr_now r \<or> \<not> rr_woken r \<and> round_times r = None"
  using that
proof (induction rs arbitrary: deadline)
  case Nil
  have "renewal_round_end d r \<noteq> Renewed d'" for d'
    using Nil.prems(2) by (auto simp: renewal_round_facts)
  moreover have "renewal_round_end d r \<noteq> Woken"
    using Nil.prems(2) by (auto simp: renewal_round_end_def split: sum.splits json.splits option.splits)
  ultimately have "renewal_round_end d r = Lost"
    by (metis renewal_end.exhaust)
  then show ?case
    using Nil.prems(1) by simp
next
  case (Cons q rs)
  then show ?case
    by (auto split: renewal_end.splits)
qed

theorem renewal_fails_closed_witness: "renewal_supervisor 25 (short_rounds 30) = Lost"
proof -
  have "renewal_supervisor 25 [short_rounds 30 ! 0] = Renewed 35"
    by code_simp
  moreover have "\<not> rr_woken (short_rounds 30 ! 1) \<and> round_times (short_rounds 30 ! 1) = None"
    by code_simp
  ultimately have "renewal_supervisor 25 ([short_rounds 30 ! 0] @ [short_rounds 30 ! 1] @ []) = Lost"
    by (intro renewal_fails_closed) auto
  then show ?thesis
    by (simp add: short_rounds_def)
qed

section \<open>Logging\<close>

lemma sanitize_blocked: "length (sanitize_blocked_field v) \<le> 64 \<and> \<not> list_ex is_control (sanitize_blocked_field v)"
proof -
  have q: "\<not> is_control CHR ''?''"
    by (simp add: is_control_def ord_def)
  have "\<not> is_control c" if c: "c \<in> set (sanitize_blocked_field v)" for c
  proof -
    have "c \<in> (\<lambda>c. if is_control c then CHR ''?'' else c) ` set v"
      using c unfolding sanitize_blocked_field_def set_map [symmetric] by (rule in_set_takeD)
    then show ?thesis
      using q by (elim imageE) (simp split: if_splits)
  qed
  moreover have "length (sanitize_blocked_field v) \<le> 64"
    unfolding sanitize_blocked_field_def length_take by (rule min.cobounded2)
  ultimately show ?thesis
    unfolding list_ex_iff by blast
qed

text \<open>
  The log of a claim without a job is safe: the line has at most 208 characters and no control
  character, and it depends on nothing but the reason and the two identifiers, so that it cannot
  contain a prompt or payload.
\<close>
theorem claim_blocker_log_is_safe:
  "(case log_claim_blocker claim of
      Some (level, line) \<Rightarrow> length line \<le> 208 \<and> \<not> list_ex is_control line
    | None \<Rightarrow> True)
   \<and> log_claim_blocker claim = log_claim_blocker (map (\<lambda>k. (k, dget claim k))
        [''reason'', ''oldest_blocked_job_id'', ''oldest_blocked_resource_key''])"
proof
  show "log_claim_blocker claim = log_claim_blocker (map (\<lambda>k. (k, dget claim k))
        [''reason'', ''oldest_blocked_job_id'', ''oldest_blocked_resource_key''])"
  proof -
    let ?c = "map (\<lambda>k. (k, dget claim k)) [''reason'', ''oldest_blocked_job_id'', ''oldest_blocked_resource_key'']"
    have "dget ?c ''reason'' = dget claim ''reason''"
      "dget ?c ''oldest_blocked_job_id'' = dget claim ''oldest_blocked_job_id''"
      "dget ?c ''oldest_blocked_resource_key'' = dget claim ''oldest_blocked_resource_key''"
      by (simp_all add: dget_Cons)
    then show ?thesis
      unfolding log_claim_blocker_def by (simp only:)
  qed
  define j where "j = (case dget claim ''oldest_blocked_job_id'' of JStr s \<Rightarrow> sanitize_blocked_field s | _ \<Rightarrow> [])"
  define k where "k = (case dget claim ''oldest_blocked_resource_key'' of JStr s \<Rightarrow> sanitize_blocked_field s | _ \<Rightarrow> [])"
  have jk: "length j \<le> 64" "\<not> list_ex is_control j" "length k \<le> 64" "\<not> list_ex is_control k"
    using sanitize_blocked by (simp_all add: j_def k_def split: json.splits)
  show "case log_claim_blocker claim of
      Some (level, line) \<Rightarrow> length line \<le> 208 \<and> \<not> list_ex is_control line
    | None \<Rightarrow> True"
    using jk
    by (auto simp: log_claim_blocker_def Let_def BLOCKER_REASONS_def j_def [symmetric] k_def [symmetric]
        is_control_def ord_def split: json.splits)
qed

end
