(* ===== verification/LockProbes.thy ===== *)
theory LockProbes
  imports Json Sha256
begin

text \<open>
  \<open>scripts/production-mutation-lock.py\<close>, the validators and the two probes that must find nothing
  running before a lock may be recovered. The ends of the subprocesses, \<open>/proc\<close> and \<open>kill\<close> are
  arguments. A command line is handled as its bytes: splitting at NUL and comparing with ASCII text
  commute with the decoding, so only its validity is modelled (\<open>utf8_valid\<close>).

  \<^item> \<open>systemd_probe_exact\<close> and \<open>process_probe_exact\<close> say exactly when a probe succeeds, in terms of
    what was running.
  \<^item> \<open>classify_argv_None_iff\<close>: which command lines are not blocked.
  \<^item> \<open>enumerate_pids_roundtrip\<close>: the reader of \<open>ps\<close> gives back the process ids that were listed.
\<close>

section \<open>Strings\<close>

text \<open>The line boundaries of \<open>str.splitlines\<close> among the code points 0 to 255.\<close>
definition is_line_break :: "char \<Rightarrow> bool" where
  "is_line_break c = (let n = ord c in 10 \<le> n \<and> n \<le> 13 \<or> 28 \<le> n \<and> n \<le> 30 \<or> n = 133)"

text \<open>CR LF is one boundary.\<close>
fun join_crlf :: "string \<Rightarrow> string" where
  "join_crlf (c # d # s) =
     (if c = CHR 0x0D \<and> d = nl then nl # join_crlf s else c # join_crlf (d # s))"
| "join_crlf s = s"

fun split_breaks :: "string \<Rightarrow> string \<Rightarrow> string list" where
  "split_breaks acc [] = (if acc = [] then [] else [rev acc])"
| "split_breaks acc (c # cs) =
     (if is_line_break c then rev acc # split_breaks [] cs else split_breaks (c # acc) cs)"

definition splitlines :: "string \<Rightarrow> string list" where
  "splitlines s = split_breaks [] (join_crlf s)"

text \<open>\<open>s.split()\<close>\<close>
fun split_ws_from :: "string \<Rightarrow> string \<Rightarrow> string list" where
  "split_ws_from acc [] = (if acc = [] then [] else [rev acc])"
| "split_ws_from acc (c # cs) =
     (if py_space c then (if acc = [] then split_ws_from [] cs else rev acc # split_ws_from [] cs)
      else split_ws_from (c # acc) cs)"

definition split_ws :: "string \<Rightarrow> string list" where
  "split_ws s = split_ws_from [] s"

lemma splitlines_examples:
  "splitlines (''a'' @ [CHR 0x0D, nl] @ ''b'' @ [nl]) = [''a'', ''b'']"
  "splitlines ([nl] @ ''b'' @ [CHR 0x0D, CHR 0x0D, nl] @ ''c'') = [[], ''b'', [], ''c'']"
  "splitlines [] = []"
  by code_simp+

lemma split_ws_blank: "list_all py_space s \<Longrightarrow> split_ws s = []"
  by (induction s) (auto simp: split_ws_def)

text \<open>
  A strict UTF-8 decoder accepts the bytes: the ranges of the continuation bytes that a first byte
  asks for exclude overlong forms, surrogates and code points above U+10FFFF.
\<close>
definition utf8_follow :: "nat \<Rightarrow> (nat \<times> nat) list option" where
  "utf8_follow n =
     (if n < 128 then Some []
      else if 194 \<le> n \<and> n \<le> 223 then Some [(128, 191)]
      else if n = 224 then Some [(160, 191), (128, 191)]
      else if n = 237 then Some [(128, 159), (128, 191)]
      else if 225 \<le> n \<and> n \<le> 239 then Some [(128, 191), (128, 191)]
      else if n = 240 then Some [(144, 191), (128, 191), (128, 191)]
      else if 241 \<le> n \<and> n \<le> 243 then Some [(128, 191), (128, 191), (128, 191)]
      else if n = 244 then Some [(128, 143), (128, 191), (128, 191)]
      else None)"

fun utf8_run :: "(nat \<times> nat) list \<Rightarrow> string \<Rightarrow> bool" where
  "utf8_run e [] = (e = [])"
| "utf8_run [] (c # s) = (case utf8_follow (ord c) of None \<Rightarrow> False | Some e \<Rightarrow> utf8_run e s)"
| "utf8_run ((lo, hi) # e) (c # s) = (lo \<le> ord c \<and> ord c \<le> hi \<and> utf8_run e s)"

definition utf8_valid :: "string \<Rightarrow> bool" where
  "utf8_valid s = utf8_run [] s"

lemma utf8_valid_ascii: "list_all (\<lambda>c. ord c < 128) s \<Longrightarrow> utf8_valid s"
  by (induction s) (auto simp: utf8_valid_def utf8_follow_def)

lemma utf8_valid_examples:
  "utf8_valid [CHR 0xC3, CHR 0xA9]" "\<not> utf8_valid [CHR 0xC0, CHR 0x80]"
  "\<not> utf8_valid [CHR 0xED, CHR 0xA0, CHR 0x80]" "\<not> utf8_valid [CHR 0xC3]"
  by code_simp+

section \<open>The systemd probe\<close>

record probe_result =
  pr_ok :: bool
  pr_reason :: string

abbreviation probe_fail :: "string \<Rightarrow> probe_result" where
  "probe_fail why \<equiv> \<lparr>pr_ok = False, pr_reason = why\<rparr>"

text \<open>How \<open>subprocess.run\<close> ends: no such command, another exception, or a return code and outputs.\<close>
datatype command_end = NotFound | CommandFailed | Completed int string string

definition MAX_SYSTEMD_STDOUT :: nat where "MAX_SYSTEMD_STDOUT = 1048576"

text \<open>\<open>_UNIT_RE\<close>, one character class for each position.\<close>
definition unit_classes :: "(char \<Rightarrow> bool) list" where
  "unit_classes =
     map (=) ''p9-3c-fixture-e'' @ [\<lambda>c. c = CHR ''1'' \<or> c = CHR ''2''] @ map (=) ''-p9-3c1-prod-''
     @ replicate 8 is_digit @ map (=) ''t'' @ replicate 6 is_digit @ map (=) ''z-''
     @ replicate 8 is_lower_hex @ map (=) ''.service''"

definition unit_shape :: "string \<Rightarrow> bool" where
  "unit_shape s = list_all2 (\<lambda>p c. p c) unit_classes s"

fun systemd_rows :: "string list \<Rightarrow> probe_result" where
  "systemd_rows [] = \<lparr>pr_ok = True, pr_reason = ''no active p9-3c1 units''\<rparr>"
| "systemd_rows (line # lines) =
     (if strip line = [] then probe_fail ''systemd output contains blank or whitespace-only row''
      else
        let columns = split_ws line in
        if length columns < 4 then probe_fail ''systemd output row has fewer than four columns''
        else
          let unit = hd columns in
          if list_ex is_control unit
            then probe_fail ''systemd output row unit name contains control character''
          else if \<not> endswith unit ''.service''
            then probe_fail ''systemd output row is not a .service unit''
          else if re_dollar unit_shape unit then probe_fail ''active p9-3c1 unit''
          else systemd_rows lines)"

definition probe_systemd :: "command_end \<Rightarrow> probe_result" where
  "probe_systemd res =
     (case res of
        NotFound \<Rightarrow> probe_fail ''systemctl unavailable: cannot prove no p9-3c1 units''
      | CommandFailed \<Rightarrow> probe_fail ''systemd probe unavailable''
      | Completed rc stdout stderr \<Rightarrow>
          if rc \<noteq> 0 then probe_fail ''systemctl exited non-zero''
          else if stderr \<noteq> [] then probe_fail ''systemd probe returned non-empty stderr''
          else if length (utf8 stdout) > MAX_SYSTEMD_STDOUT
            then probe_fail ''systemd probe: oversized stdout''
          else systemd_rows (splitlines stdout))"

text \<open>A row of the listing that shows a unit other than the ones looked for.\<close>
definition harmless_row :: "string \<Rightarrow> bool" where
  "harmless_row line =
     (case split_ws line of
        unit # a # b # c # rest \<Rightarrow>
          \<not> list_ex is_control unit \<and> endswith unit ''.service'' \<and> \<not> unit_shape unit
      | _ \<Rightarrow> False)"

lemma four_columns: "\<not> length xs < 4 \<longleftrightarrow> (\<exists>a b c d r. xs = a # b # c # d # r)"
  by (auto simp: not_less numeral_eq_Suc Suc_le_length_iff)

lemma endswith_no_newline: "endswith s ''.service'' \<Longrightarrow> s \<noteq> [] \<and> last s = CHR ''e''"
  by (auto simp: endswith_iff)

lemma systemd_rows_ok: "pr_ok (systemd_rows lines) \<longleftrightarrow> list_all harmless_row lines"
proof (induction lines rule: systemd_rows.induct)
  case (2 line lines)
  show ?case
  proof (cases "length (split_ws line) < 4")
    case True
    then have "\<not> harmless_row line"
      by (auto simp: harmless_row_def split: list.splits)
    then show ?thesis
      using True by (simp add: Let_def)
  next
    case False
    then obtain unit a b c r where cols: "split_ws line = unit # a # b # c # r"
      by (auto simp: four_columns)
    then have "strip line \<noteq> []"
      using split_ws_blank [of line] by (auto simp: strip_eq_Nil_iff)
    moreover have "re_dollar unit_shape unit \<longleftrightarrow> unit_shape unit" if "endswith unit ''.service''"
      using endswith_no_newline [OF that] by (auto simp: re_dollar_def)
    ultimately show ?thesis
      using 2 cols by (auto simp: harmless_row_def)
  qed
qed simp

text \<open>
  The systemd probe is exact: it succeeds only after \<open>systemctl\<close> returned 0 with an empty error
  stream and at most one mebibyte of output, in which every row has four columns and shows a service
  that is not one of the fixture units; whatever else happens, it fails.
\<close>
theorem systemd_probe_exact:
  "pr_ok (probe_systemd res) =
     (case res of
        Completed rc stdout stderr \<Rightarrow>
          rc = 0 \<and> stderr = [] \<and> length (utf8 stdout) \<le> 1048576 \<and> list_all harmless_row (splitlines stdout)
      | _ \<Rightarrow> False)"
  by (cases res) (simp_all add: probe_systemd_def systemd_rows_ok MAX_SYSTEMD_STDOUT_def not_less)

lemma systemd_rows_examples:
  "pr_ok (systemd_rows (splitlines (''ssh.service loaded active running x'' @ [nl])))"
  "systemd_rows (splitlines (''ssh.service loaded active running x'' @ [nl]
       @ ''p9-3c-fixture-e1-p9-3c1-prod-20250101t000000z-0123abcd.service loaded active running y''))
     = probe_fail ''active p9-3c1 unit''"
  by code_simp+

section \<open>The process ids\<close>

definition MAX_PID_STDOUT :: nat where "MAX_PID_STDOUT = 1048576"
definition MAX_PID_COUNT :: nat where "MAX_PID_COUNT = 131072"
definition MAX_PID_VALUE :: int where "MAX_PID_VALUE = 2147483647"

text \<open>
  The ids of the lines of \<open>ps\<close>, or the message of the \<open>OSError\<close>. \<open>int\<close> refuses more than 4300
  digits.
\<close>
fun pid_lines :: "string list \<Rightarrow> string + int list" where
  "pid_lines [] = Inr []"
| "pid_lines (line # lines) =
     (let stripped = strip line in
      if stripped = [] then pid_lines lines
      else if \<not> list_all is_digit stripped then Inl ''malformed PID''
      else if 4300 < length stripped then Inl ''malformed PID''
      else
        let pid = int (read_nat stripped) in
        if pid \<le> 0 \<or> MAX_PID_VALUE < pid then Inl ''PID out of range''
        else ebind (pid_lines lines) (\<lambda>pids. Inr (pid # pids)))"

definition enumerate_pids :: "command_end \<Rightarrow> string + int list" where
  "enumerate_pids res =
     (case res of
        Completed rc stdout stderr \<Rightarrow>
          if rc \<noteq> 0 then Inl ''ps exited non-zero''
          else if stderr \<noteq> [] then Inl ''ps returned non-empty stderr''
          else if length (utf8 stdout) > MAX_PID_STDOUT then Inl ''ps output exceeds 1 MiB''
          else
            ebind (pid_lines (splitlines stdout)) (\<lambda>pids.
            if length pids > MAX_PID_COUNT then Inl ''PID count exceeds limit''
            else if \<not> distinct pids then Inl ''duplicate PIDs in ps output''
            else Inr pids)
      | _ \<Rightarrow> Inl ''ps did not run'')"

text \<open>What \<open>ps -e -o pid=\<close> prints: one id to a line.\<close>
definition ps_listing :: "int list \<Rightarrow> string" where
  "ps_listing pids = concat (map (\<lambda>p. show_nat (nat p) @ [nl]) pids)"

lemma digit_facts:
  assumes "is_digit c"
  shows "\<not> is_line_break c" "c \<noteq> CHR 0x0D" "c \<noteq> nl" "\<not> py_space c" "ord c < 128"
  using assms by (auto simp: is_digit_def between_def is_line_break_def py_space_def ord_def Let_def)

lemma join_crlf_digits:
  "list_all is_digit w \<Longrightarrow> join_crlf (w @ [nl] @ s) = w @ [nl] @ join_crlf s"
proof (induction w)
  case Nil
  show ?case by (cases s) simp_all
next
  case (Cons c w)
  then show ?case
    using digit_facts [of c] by (cases "w @ [nl] @ s") auto
qed

lemma split_breaks_digits:
  "list_all is_digit w \<Longrightarrow> split_breaks acc (w @ [nl] @ s) = (rev acc @ w) # split_breaks [] s"
proof (induction w arbitrary: acc)
  case Nil
  show ?case by (simp add: is_line_break_def ord_def)
next
  case (Cons c w)
  then show ?case
    using digit_facts [of c] by simp
qed

lemma digits_show_nat: "list_all is_digit (show_nat n)"
  by (simp add: list_all_iff show_nat_digits)

lemma splitlines_ps_listing: "splitlines (ps_listing pids) = map (\<lambda>p. show_nat (nat p)) pids"
proof (induction pids)
  case (Cons p pids)
  have "join_crlf (ps_listing (p # pids)) = show_nat (nat p) @ [nl] @ join_crlf (ps_listing pids)"
    using join_crlf_digits [OF digits_show_nat] by (simp add: ps_listing_def)
  then show ?case
    using Cons split_breaks_digits [OF digits_show_nat, of "[]"] by (simp add: splitlines_def)
qed (simp add: splitlines_def ps_listing_def)

lemma strip_show_nat: "strip (show_nat n) = show_nat n"
  by (rule strip_id) (meson digit_facts(4) hd_in_set last_in_set show_nat_digits show_nat_not_Nil)

lemma length_show_nat_digits: "n < 10 ^ k \<Longrightarrow> 0 < k \<Longrightarrow> length (show_nat n) \<le> k"
proof (induction k arbitrary: n)
  case (Suc k)
  show ?case
  proof (cases "n < 10")
    case False
    then have "0 < k"
      using Suc.prems by (cases k) auto
    moreover have "n div 10 < 10 ^ k"
      using Suc.prems by (simp add: div_less_iff_less_mult mult.commute)
    ultimately show ?thesis
      using Suc.IH False by (subst show_nat.simps) simp
  qed (subst show_nat.simps, simp)
qed simp

lemma pid_lines_show:
  "list_all (\<lambda>p. 0 < p \<and> p \<le> MAX_PID_VALUE) pids \<Longrightarrow>
   pid_lines (map (\<lambda>p. show_nat (nat p)) pids) = Inr pids"
proof (induction pids)
  case (Cons p pids)
  then have "nat p < 10 ^ 10"
    by (simp add: MAX_PID_VALUE_def nat_less_iff)
  then have "length (show_nat (nat p)) \<le> 4300"
    using length_show_nat_digits [of "nat p" 10] by simp
  then show ?case
    using Cons by (simp add: strip_show_nat digits_show_nat Let_def not_less)
qed simp

lemma pid_lines_range:
  "pid_lines lines = Inr pids \<Longrightarrow> list_all (\<lambda>p. 0 < p \<and> p \<le> MAX_PID_VALUE) pids"
  by (induction lines arbitrary: pids) (auto simp: Let_def result_simps split: if_splits)

lemma utf8_ps_listing: "utf8 (ps_listing pids) = ps_listing pids"
proof -
  have "utf8 s = s" if "list_all (\<lambda>c. ord c < 128) s" for s
    using that by (induction s) (simp_all add: utf8_def utf8_char_def)
  moreover have "list_all (\<lambda>c. ord c < 128) (ps_listing pids)"
    using digit_facts(5) show_nat_digits by (fastforce simp: ps_listing_def list_all_iff ord_def)
  ultimately show ?thesis by blast
qed

text \<open>
  Enumeration inverts the listing: the ids that \<open>ps\<close> prints, one to a line, are read back in order,
  provided they are distinct, positive, within the 32-bit bound and no more than the limits allow;
  and what enumeration returns always has these properties.
\<close>
theorem enumerate_pids_roundtrip:
  "enumerate_pids (Completed 0 (ps_listing pids) []) = Inr pids
     \<longleftrightarrow> distinct pids \<and> list_all (\<lambda>p. 0 < p \<and> p \<le> 2147483647) pids \<and> length pids \<le> 131072
       \<and> length (ps_listing pids) \<le> 1048576"
  (is "?l \<longleftrightarrow> ?r")
proof
  assume ?l
  then show ?r
    by (auto simp: enumerate_pids_def result_simps utf8_ps_listing not_less MAX_PID_STDOUT_def
        MAX_PID_COUNT_def MAX_PID_VALUE_def dest!: pid_lines_range split: if_splits)
next
  assume ?r
  then show ?l
    using pid_lines_show [of pids]
    by (simp add: enumerate_pids_def utf8_ps_listing splitlines_ps_listing MAX_PID_STDOUT_def
        MAX_PID_COUNT_def MAX_PID_VALUE_def not_less)
qed

section \<open>The identity of a process\<close>

definition CONTROLLER_ARGV0 :: string where "CONTROLLER_ARGV0 = ''/usr/bin/python3.12''"
definition CONTROLLER_ARGV1 :: string where
  "CONTROLLER_ARGV1 = ''/opt/multinexus/scripts/p9_3c1_controller.py''"
definition FIXTURE_ARGV0 :: string where "FIXTURE_ARGV0 = ''/usr/bin/python3.12''"
definition FIXTURE_MODULE :: string where "FIXTURE_MODULE = ''multinexus.agentd''"
definition FIXTURE_IDS :: "string list" where "FIXTURE_IDS = [''p9-3c-fixture-e1'', ''p9-3c-fixture-e2'']"
definition MAX_CMDLINE_READ :: int where "MAX_CMDLINE_READ = 65537"

text \<open>The scan for \<open>--agent <id>\<close> pairs: the last id and the number of pairs.\<close>
fun agent_pairs :: "string list \<Rightarrow> string option \<Rightarrow> nat \<Rightarrow> string option \<times> nat" where
  "agent_pairs (a # b # args) agent_id n =
     (if a = ''--agent'' then agent_pairs args (Some b) (n + 1) else agent_pairs (b # args) agent_id n)"
| "agent_pairs args agent_id n = (agent_id, n)"

text \<open>\<open>s.replace("-", "")\<close>\<close>
definition remove_dashes :: "string \<Rightarrow> string" where
  "remove_dashes s = filter (\<lambda>c. c \<noteq> CHR ''-'') s"

definition classify_argv :: "string list \<Rightarrow> string option" where
  "classify_argv argv =
     (if length argv < 2 then None
      else if argv ! 0 = CONTROLLER_ARGV0 \<and> argv ! 1 = CONTROLLER_ARGV1 then Some ''controller''
      else if argv ! 0 = FIXTURE_ARGV0 \<and> 3 \<le> length argv \<and> take 2 (drop 1 argv) = [''-m'', FIXTURE_MODULE]
      then
        (let (agent_id, agent_count) = agent_pairs (drop 3 argv) None 0;
             fixture_agent = (case agent_id of None \<Rightarrow> False | Some a \<Rightarrow> a \<in> set FIXTURE_IDS)
         in if agent_count = 1 \<and> fixture_agent
            then Some (''fixture-'' @ remove_dashes (removeprefix (the agent_id) ''p9-3c-''))
            else if fixture_agent then Some ''malformed-fixture''
            else if list_ex (\<lambda>fid. fid \<in> set argv) FIXTURE_IDS then Some ''malformed-fixture''
            else None)
      else None)"

text \<open>What must not run: the controller script, or an agentd with a fixture id among its arguments.\<close>
definition blocked_identity :: "string list \<Rightarrow> bool" where
  "blocked_identity argv =
     (case argv of
        a # b # args \<Rightarrow>
          a = ''/usr/bin/python3.12''
          \<and> (b = ''/opt/multinexus/scripts/p9_3c1_controller.py''
             \<or> b = ''-m'' \<and> take 1 args = [''multinexus.agentd'']
               \<and> (''p9-3c-fixture-e1'' \<in> set args \<or> ''p9-3c-fixture-e2'' \<in> set args))
      | _ \<Rightarrow> False)"

lemma agent_pairs_mem:
  "agent_pairs args agent_id n = (Some a, k) \<Longrightarrow> agent_id = Some a \<or> a \<in> set args"
  by (induction args agent_id n rule: agent_pairs.induct) (auto split: if_splits)

lemma classify_argv_None_iff: "classify_argv argv = None \<longleftrightarrow> \<not> blocked_identity argv"
proof (cases "\<exists>a b args. argv = a # b # args")
  case False
  then have "length argv < 2" "\<not> blocked_identity argv"
    by (cases argv; cases "tl argv"; auto simp: blocked_identity_def)+
  then show ?thesis by (simp add: classify_argv_def)
next
  case True
  then obtain a b args where argv: "argv = a # b # args" by blast
  show ?thesis
  proof (cases args)
    case Nil
    then show ?thesis
      by (simp add: argv classify_argv_def blocked_identity_def CONTROLLER_ARGV0_def CONTROLLER_ARGV1_def)
  next
    case (Cons c rest)
    obtain agent k where pairs: "agent_pairs rest None 0 = (agent, k)" by fastforce
    then have fixture: "agent = Some i \<Longrightarrow> i \<in> set argv" for i
      using agent_pairs_mem [of rest None 0 i k] by (simp add: argv Cons)
    define running where "running \<longleftrightarrow> a = FIXTURE_ARGV0 \<and> b = ''-m'' \<and> c = FIXTURE_MODULE"
    have "classify_argv argv = None \<longleftrightarrow>
        \<not> (a = CONTROLLER_ARGV0 \<and> b = CONTROLLER_ARGV1) \<and> (running \<longrightarrow> \<not> list_ex (\<lambda>fid. fid \<in> set argv) FIXTURE_IDS)"
    proof (cases "a = CONTROLLER_ARGV0 \<and> b = CONTROLLER_ARGV1 \<or> \<not> running")
      case True
      then show ?thesis
        by (auto simp: argv Cons classify_argv_def running_def)
    next
      case False
      then have abc: "a = FIXTURE_ARGV0" "b = ''-m''" "c = FIXTURE_MODULE"
        and other: "\<not> (a = CONTROLLER_ARGV0 \<and> b = CONTROLLER_ARGV1)" and "running"
        by (simp_all add: running_def)
      have "classify_argv argv = None \<longleftrightarrow>
          (case agent of None \<Rightarrow> True | Some i \<Rightarrow> i \<notin> set FIXTURE_IDS) \<and> \<not> list_ex (\<lambda>fid. fid \<in> set argv) FIXTURE_IDS"
        using other pairs by (cases agent) (auto simp: argv Cons classify_argv_def abc Let_def)
      also have "\<dots> \<longleftrightarrow> \<not> list_ex (\<lambda>fid. fid \<in> set argv) FIXTURE_IDS"
        using fixture by (cases agent) (auto simp only: list_ex_iff option.case)
      finally show ?thesis
        using other \<open>running\<close> by blast
    qed
    moreover have "blocked_identity argv \<longleftrightarrow>
        a = CONTROLLER_ARGV0 \<and> b = CONTROLLER_ARGV1 \<or> running \<and> list_ex (\<lambda>fid. fid \<in> set (c # rest)) FIXTURE_IDS"
      by (auto simp: argv Cons blocked_identity_def running_def CONTROLLER_ARGV0_def CONTROLLER_ARGV1_def
          FIXTURE_ARGV0_def FIXTURE_MODULE_def FIXTURE_IDS_def)
    moreover have "running \<Longrightarrow> a \<notin> set FIXTURE_IDS \<and> b \<notin> set FIXTURE_IDS"
      by (simp add: running_def FIXTURE_ARGV0_def FIXTURE_IDS_def)
    ultimately show ?thesis
      by (auto simp: argv Cons list_ex_iff)
  qed
qed

text \<open>The label of a well-formed fixture has no dash, unlike the ones the docstring names.\<close>
lemma classify_fixture_label:
  "classify_argv [''/usr/bin/python3.12'', ''-m'', ''multinexus.agentd'', ''--agent'', ''p9-3c-fixture-e1'']
     = Some ''fixture-fixturee1''"
  by code_simp

section \<open>The process probe\<close>

text \<open>The end of reading a command line, with the \<open>errno\<close> of an \<open>OSError\<close>, and of \<open>kill(pid, 0)\<close>.\<close>
datatype read_end = ReadOk string | ReadError int
datatype kill_end = KillOk | KillError int | KillRejected

definition ENOENT :: int where "ENOENT = 2"
definition ESRCH :: int where "ESRCH = 3"

abbreviation nul :: char where "nul \<equiv> CHR 0x00"

fun has_double_nul :: "string \<Rightarrow> bool" where
  "has_double_nul (a # b # s) = (a = nul \<and> b = nul \<or> has_double_nul (b # s))"
| "has_double_nul s = False"

text \<open>
  The argument vector of a command line: \<open>Inl\<close> is the rest of the reason to fail, and \<open>Inr None\<close> a
  kernel thread, which is ignored.
\<close>
definition parse_cmdline :: "string \<Rightarrow> string + string list option" where
  "parse_cmdline raw =
     (if MAX_CMDLINE_READ \<le> int (length raw) then Inl ''cmdline too long''
      else if raw = [] \<or> raw = [nul] then Inr None
      else if has_double_nul raw then Inl ''cmdline contains empty interior argv''
      else if \<not> utf8_valid raw then Inl ''cmdline is not valid UTF-8''
      else if \<not> endswith raw [nul] then Inl ''cmdline does not end with NUL''
      else
        let argv = split_on nul (butlast raw) in
        if [] \<in> set argv then Inl ''cmdline contains empty argv'' else Inr (Some argv))"

text \<open>One process: the reason to fail at once, or whether its id is to be blocked.\<close>
definition probe_pid ::
    "(int \<Rightarrow> read_end) \<Rightarrow> (int \<Rightarrow> kill_end) \<Rightarrow> int \<Rightarrow> string + bool" where
  "probe_pid read_cmdline kill_0 pid =
     (let failing = (\<lambda>what. Inl (''PID '' @ show_int pid @ '' '' @ what)) in
      case read_cmdline pid of
        ReadError eno \<Rightarrow>
          if eno = ENOENT \<or> eno = ESRCH then
            (case kill_0 pid of
               KillError eno2 \<Rightarrow>
                 if eno2 = ESRCH then Inr False
                 else failing ''disappeared from /proc but kill(0) did not confirm exit''
             | KillRejected \<Rightarrow> failing ''disappeared from /proc but kill(0) did not confirm exit''
             | KillOk \<Rightarrow> failing ''/proc read returned error but kill(0) did not confirm exit'')
          else failing ''cmdline read failed''
      | ReadOk raw \<Rightarrow>
          (case parse_cmdline raw of
             Inl why \<Rightarrow> failing why
           | Inr None \<Rightarrow> Inr False
           | Inr (Some argv) \<Rightarrow> Inr (classify_argv argv \<noteq> None)))"

fun probe_pids ::
    "int \<Rightarrow> (int \<Rightarrow> read_end) \<Rightarrow> (int \<Rightarrow> kill_end) \<Rightarrow> int list \<Rightarrow> string + int list" where
  "probe_pids my_pid read_cmdline kill_0 [] = Inr []"
| "probe_pids my_pid read_cmdline kill_0 (pid # pids) =
     (if pid = my_pid then probe_pids my_pid read_cmdline kill_0 pids
      else
        ebind (probe_pid read_cmdline kill_0 pid) (\<lambda>hit.
        ebind (probe_pids my_pid read_cmdline kill_0 pids) (\<lambda>blocked.
        Inr (if hit then pid # blocked else blocked))))"

definition probe_processes ::
    "string + int list \<Rightarrow> (int \<Rightarrow> read_end) \<Rightarrow> (int \<Rightarrow> kill_end) \<Rightarrow> int \<Rightarrow> probe_result" where
  "probe_processes pids read_cmdline kill_0 self_pid =
     (case pids of
        Inl e \<Rightarrow> probe_fail ''PID enumeration failed''
      | Inr ps \<Rightarrow>
          (case probe_pids self_pid read_cmdline kill_0 ps of
             Inl why \<Rightarrow> probe_fail why
           | Inr blocked \<Rightarrow>
               if blocked \<noteq> [] then
                 probe_fail (''running p9-3c1 processes: ['' @ join_with '', '' (map show_int blocked) @ '']'')
               else \<lparr>pr_ok = True, pr_reason = ''no running p9-3c1 processes''\<rparr>))"

subsection \<open>When it succeeds\<close>

definition cmdline_of :: "string list \<Rightarrow> string" where
  "cmdline_of argv = concat (map (\<lambda>a. a @ [nul]) argv)"

text \<open>A process that is surely neither the controller nor a fixture.\<close>
definition harmless_process :: "read_end \<Rightarrow> kill_end \<Rightarrow> bool" where
  "harmless_process r k =
     (case r of
        ReadError e \<Rightarrow> (e = 2 \<or> e = 3) \<and> k = KillError 3
      | ReadOk raw \<Rightarrow> raw = [] \<or> raw = [nul]
          \<or> (\<exists>argv. raw = cmdline_of argv \<and> argv \<noteq> [] \<and> list_all (\<lambda>a. a \<noteq> [] \<and> nul \<notin> set a) argv
              \<and> length raw < 65537 \<and> utf8_valid raw \<and> \<not> blocked_identity argv))"

lemma butlast_cmdline: "argv \<noteq> [] \<Longrightarrow> butlast (cmdline_of argv) = join_with [nul] argv"
proof (induction argv)
  case (Cons a argv)
  then show ?case
    by (cases argv) (auto simp: cmdline_of_def butlast_append)
qed simp

lemma endswith_cmdline: "argv \<noteq> [] \<Longrightarrow> endswith (cmdline_of argv) [nul]"
  by (cases argv rule: rev_cases) (auto simp: cmdline_of_def endswith_iff)

lemma has_double_nul_Cons: "has_double_nul s \<Longrightarrow> has_double_nul (c # s)"
  by (cases s) auto

lemma has_double_nul_word:
  "nul \<notin> set a \<Longrightarrow> has_double_nul (a @ nul # s) \<longleftrightarrow> has_double_nul (nul # s)"
proof (induction a)
  case (Cons c a)
  then show ?case by (cases "a @ nul # s") (auto simp: Cons_eq_append_conv)
qed simp

lemma no_double_nul_cmdline:
  "list_all (\<lambda>a. a \<noteq> [] \<and> nul \<notin> set a) argv \<Longrightarrow> \<not> has_double_nul (nul # cmdline_of argv)"
proof (induction argv)
  case (Cons a argv)
  then obtain c w where a: "a = c # w" "c \<noteq> nul" "nul \<notin> set a"
    by (cases a) auto
  have "has_double_nul (nul # cmdline_of (a # argv)) \<longleftrightarrow> has_double_nul (a @ nul # cmdline_of argv)"
    using a by (simp add: cmdline_of_def)
  also have "\<dots> \<longleftrightarrow> has_double_nul (nul # cmdline_of argv)"
    by (rule has_double_nul_word [OF a(3)])
  finally show ?case
    using Cons by simp
qed (simp add: cmdline_of_def)

lemma parse_cmdline_Some_iff:
  "parse_cmdline raw = Inr (Some argv) \<longleftrightarrow>
     raw = cmdline_of argv \<and> argv \<noteq> [] \<and> list_all (\<lambda>a. a \<noteq> [] \<and> nul \<notin> set a) argv
     \<and> length raw < 65537 \<and> utf8_valid raw" (is "?l \<longleftrightarrow> ?r")
proof
  assume l: ?l
  then have argv: "argv = split_on nul (butlast raw)" and ends: "endswith raw [nul]" and ne: "[] \<notin> set argv"
    and len: "length raw < 65537" and valid: "utf8_valid raw"
    by (auto simp: parse_cmdline_def MAX_CMDLINE_READ_def Let_def split: if_splits)
  have "raw = butlast raw @ [nul]"
    using ends by (auto simp: endswith_iff)
  also have "butlast raw = join_with [nul] argv"
    by (simp add: argv join_split_on)
  also have "\<dots> @ [nul] = cmdline_of argv"
    using butlast_cmdline [of argv] endswith_cmdline [of argv] argv by (auto simp: endswith_iff)
  finally show ?r
    using argv ne len valid split_on_no_sep by (auto simp: list_all_iff)
next
  assume r: ?r
  then obtain a rest where cons: "argv = a # rest" by (cases argv) auto
  have "split_on nul (butlast raw) = argv"
    using r split_on_join [of argv nul] by (simp add: butlast_cmdline list_all_iff)
  moreover have "raw \<noteq> []" "raw \<noteq> [nul]"
    using r by (cases a; auto simp: cons cmdline_of_def)+
  moreover have "\<not> has_double_nul raw"
    using r no_double_nul_cmdline [of argv] has_double_nul_Cons by blast
  moreover have "[] \<notin> set argv"
    using r by (auto simp: list_all_iff)
  ultimately show ?l
    using r endswith_cmdline [of argv] by (auto simp: parse_cmdline_def MAX_CMDLINE_READ_def not_le)
qed

lemma parse_cmdline_None_iff: "parse_cmdline raw = Inr None \<longleftrightarrow> raw = [] \<or> raw = [nul]"
  by (auto simp: parse_cmdline_def MAX_CMDLINE_READ_def Let_def)

lemma probe_pid_harmless:
  "probe_pid read_cmdline kill_0 pid = Inr False \<longleftrightarrow> harmless_process (read_cmdline pid) (kill_0 pid)"
proof (cases "read_cmdline pid")
  case (ReadOk raw)
  have "probe_pid read_cmdline kill_0 pid = Inr False \<longleftrightarrow>
      parse_cmdline raw = Inr None \<or> (\<exists>argv. parse_cmdline raw = Inr (Some argv) \<and> classify_argv argv = None)"
    by (auto simp: probe_pid_def ReadOk Let_def split: sum.splits option.splits)
  then show ?thesis
    by (auto simp: ReadOk harmless_process_def parse_cmdline_Some_iff parse_cmdline_None_iff
        classify_argv_None_iff)
qed (auto simp: probe_pid_def harmless_process_def ENOENT_def ESRCH_def Let_def split: kill_end.splits)

lemma probe_pids_Nil_iff:
  "probe_pids self read_cmdline kill_0 pids = Inr [] \<longleftrightarrow>
   list_all (\<lambda>p. p = self \<or> harmless_process (read_cmdline p) (kill_0 p)) pids"
  by (induction pids) (auto simp: result_simps probe_pid_harmless [symmetric])

text \<open>
  The process probe is exact: it succeeds if and only if the process ids could be enumerated and
  each of them except its own belongs to a process that has surely exited, to a kernel thread, or to
  a process whose complete, well-formed command line is neither the controller's nor that of an
  agentd with a fixture id; so a process that cannot be identified blocks the recovery.
\<close>
theorem process_probe_exact:
  "pr_ok (probe_processes pids read_cmdline kill_0 self_pid) =
     (case pids of
        Inl e \<Rightarrow> False
      | Inr ps \<Rightarrow> list_all (\<lambda>p. p = self_pid \<or> harmless_process (read_cmdline p) (kill_0 p)) ps)"
  by (auto simp: probe_processes_def probe_pids_Nil_iff [symmetric] split: sum.splits)

end
