(* ===== verification/MutationLock.thy ===== *)
theory MutationLock
  imports LockProbes Timestamp
begin

text \<open>
  \<open>scripts/production-mutation-lock.py\<close>: the lock that serialises changes of the production host. It
  is a directory made by \<open>mkdir\<close> that holds one file, \<open>owner.json\<close>, with the token of the holder.

  The state is what the script looks at: the inode at the lock path, the entries of that directory,
  and the audit log with its parent. Each operation returns its result or exception and the new
  state; where the operating system may fail, its answer is an argument (\<open>lock_env\<close>). The exceptions
  are \<open>LockError\<close> with its state, detail and exit code, and \<open>Escaped\<close> for those that no handler of
  the script catches. The interleaving of several processes is in \<open>LockProtocol\<close>.
\<close>

section \<open>Errors\<close>

datatype lock_exc = LockError string dict int | Escaped string

abbreviation reason_detail :: "string \<Rightarrow> dict" where
  "reason_detail why \<equiv> [(''reason'', JStr why)]"

abbreviation invalid_lock :: "string \<Rightarrow> lock_exc" where
  "invalid_lock why \<equiv> LockError ''invalid'' (reason_detail why) 3"

abbreviation blocked_op :: "string \<Rightarrow> lock_exc" where
  "blocked_op why \<equiv> LockError ''blocked'' (reason_detail why) 4"

abbreviation mismatch :: "string \<Rightarrow> lock_exc" where
  "mismatch why \<equiv> LockError ''mismatch'' (reason_detail why) 6"

text \<open>\<open>str(exc)\<close> of an \<open>OSError\<close> with a number and a message, and with a path.\<close>
definition os_error :: "int \<Rightarrow> string \<Rightarrow> string" where
  "os_error code msg = ''[Errno '' @ show_int code @ ''] '' @ msg"

definition os_error_at :: "int \<Rightarrow> string \<Rightarrow> string \<Rightarrow> string" where
  "os_error_at code msg path = os_error code msg @ '': '' @ [squote] @ path @ [squote]"

definition OWNER_PATH :: string where
  "OWNER_PATH = ''/run/lock/coordinate-production-mutation.lock/owner.json''"
definition AUDIT_PATH :: string where
  "AUDIT_PATH = ''/var/log/coordinate-production-mutation-lock-recovery.jsonl''"

section \<open>Validation of the arguments\<close>

definition lock_id_char :: "char \<Rightarrow> bool" where
  "lock_id_char c = (is_ascii_letter c \<or> is_digit c \<or> c = CHR ''_'' \<or> c = CHR '':'' \<or> c = CHR ''-'')"

text \<open>\<open>_ALLOWED_RE\<close> with \<open>fullmatch\<close>.\<close>
definition lock_id_shape :: "string \<Rightarrow> bool" where
  "lock_id_shape s = (1 \<le> length s \<and> length s \<le> 128 \<and> list_all lock_id_char s)"

definition validate_id :: "json \<Rightarrow> string \<Rightarrow> lock_exc + string" where
  "validate_id value field =
     (case value of
        JStr s \<Rightarrow>
          if \<not> lock_id_shape s
            then Inl (LockError ''invalid_input''
              [(''field'', JStr field), (''reason'', JStr (field @ '' contains invalid characters''))] 2)
          else Inr s
      | _ \<Rightarrow> Inl (LockError ''invalid_input''
              [(''field'', JStr field), (''reason'', JStr (field @ '' must be a string''))] 2))"

definition validate_positive_int_pid :: "json \<Rightarrow> string \<Rightarrow> lock_exc + int" where
  "validate_positive_int_pid value field =
     (case value of
        JInt i \<Rightarrow>
          if i \<le> 0
            then Inl (LockError ''invalid_input''
              [(''field'', JStr field), (''reason'', JStr (field @ '' must be positive''))] 2)
          else Inr i
      | _ \<Rightarrow> Inl (LockError ''invalid_input''
              [(''field'', JStr field), (''reason'', JStr (field @ '' must be an integer, not bool''))] 2))"

text \<open>\<open>_TOKEN_RE\<close> with \<open>fullmatch\<close> is \<open>is_hex64\<close>.\<close>
definition validate_token_shape :: "json \<Rightarrow> lock_exc + string" where
  "validate_token_shape token =
     (case token of
        JStr s \<Rightarrow>
          if \<not> is_hex64 s
            then Inl (LockError ''invalid_input'' (reason_detail ''token must be 64-char lowercase hex'') 2)
          else Inr s
      | _ \<Rightarrow> Inl (LockError ''invalid_input'' (reason_detail ''token must be a string'') 2))"

definition token_digest :: "(string \<Rightarrow> string) \<Rightarrow> string \<Rightarrow> string" where
  "token_digest sha token = ''sha256:'' @ sha (utf8 token)"

definition token_prefix :: "string \<Rightarrow> string" where
  "token_prefix token = take 16 token @ ''...''"

lemma validate_id_Inr: "validate_id v f = Inr s \<longleftrightarrow> v = JStr s \<and> lock_id_shape s"
  by (cases v) (auto simp: validate_id_def)

lemma validate_positive_int_pid_Inr: "validate_positive_int_pid v f = Inr i \<longleftrightarrow> v = JInt i \<and> 0 < i"
  by (cases v) (auto simp: validate_positive_int_pid_def)

lemma validate_token_shape_Inr: "validate_token_shape v = Inr s \<longleftrightarrow> v = JStr s \<and> is_hex64 s"
  by (cases v) (auto simp: validate_token_shape_def)

section \<open>The file system\<close>

datatype file_kind = RegularFile | Directory | SymLink | OtherFile

record inode =
  in_kind :: file_kind
  in_uid :: int
  in_gid :: int
  in_mode :: int
  in_nlink :: int
  in_data :: string

text \<open>The entries belong to the directory at the lock path.\<close>
record lock_fs =
  fs_dir :: "inode option"
  fs_entries :: "(string \<times> inode) list"
  fs_audit_parent :: "inode option"
  fs_audit :: "inode option"

definition OWNER_FILE :: string where "OWNER_FILE = ''owner.json''"

definition MODE_0600 :: int where "MODE_0600 = 384"
definition MODE_0700 :: int where "MODE_0700 = 448"

definition owner_inode :: "lock_fs \<Rightarrow> inode option" where
  "owner_inode fs = map_of (fs_entries fs) OWNER_FILE"

definition root_owned :: "inode \<Rightarrow> bool" where
  "root_owned i = (in_uid i = 0 \<and> in_gid i = 0)"

section \<open>Reading owner.json\<close>

text \<open>
  \<open>_read_owner\<close>; \<open>Inl\<close> is the text of the exception. \<open>O_NOFOLLOW\<close> makes \<open>open\<close> fail with ELOOP on a
  symbolic link. \<open>loads\<close> is \<open>json.loads\<close> of the decoded bytes.
\<close>
definition read_owner :: "(string \<Rightarrow> string + json) \<Rightarrow> lock_fs \<Rightarrow> string + dict" where
  "read_owner loads fs =
     (case owner_inode fs of
        None \<Rightarrow> Inl (''owner.json open failed: '' @ os_error_at 2 ''No such file or directory'' OWNER_PATH)
      | Some i \<Rightarrow>
          if in_kind i = SymLink
            then Inl (''owner.json open failed: '' @ os_error_at 40 ''Too many levels of symbolic links'' OWNER_PATH)
          else if in_kind i \<noteq> RegularFile then Inl ''owner.json is not a regular file''
          else if \<not> root_owned i then Inl ''owner.json has non-root ownership''
          else if in_mode i \<noteq> MODE_0600 then Inl ''owner.json mode is not 0600''
          else if in_nlink i \<noteq> 1 then Inl ''owner.json link count is not 1''
          else
            (case loads (in_data i) of
               Inl e \<Rightarrow> Inl e
             | Inr (JObj meta) \<Rightarrow> Inr meta
             | Inr _ \<Rightarrow> Inl ''owner.json is not a JSON object''))"

definition OWNER_KEYS :: "string list" where
  "OWNER_KEYS = [''contract_version'', ''token'', ''owner'', ''action'', ''owner_host'', ''owner_pid'',
     ''started_at'', ''phase'']"

section \<open>The authority of the lock\<close>

definition check_lock_dir :: "lock_fs \<Rightarrow> lock_exc + unit" where
  "check_lock_dir fs =
     (case fs_dir fs of
        None \<Rightarrow> Inl (LockError ''absent'' (reason_detail ''lock directory does not exist'') 1)
      | Some d \<Rightarrow>
          if in_kind d = SymLink then Inl (invalid_lock ''lock directory is a symlink'')
          else if in_kind d \<noteq> Directory then Inl (invalid_lock ''lock path is not a directory'')
          else if \<not> root_owned d then Inl (invalid_lock ''lock directory has non-root ownership'')
          else if in_mode d \<noteq> MODE_0700 then Inl (invalid_lock ''lock directory mode is not 0700'')
          else if in_nlink d < 2 then Inl (invalid_lock ''lock directory link count is too low'')
          else Inr ())"

definition check_owner_file :: "lock_fs \<Rightarrow> lock_exc + unit" where
  "check_owner_file fs =
     (case owner_inode fs of
        None \<Rightarrow> Inl (invalid_lock ''owner.json is missing'')
      | Some i \<Rightarrow>
          if in_kind i = SymLink then Inl (invalid_lock ''owner.json is a symlink'')
          else if in_kind i \<noteq> RegularFile then Inl (invalid_lock ''owner.json is not a regular file'')
          else if \<not> root_owned i then Inl (invalid_lock ''owner.json has non-root ownership'')
          else if in_mode i \<noteq> MODE_0600 then Inl (invalid_lock ''owner.json mode is not 0600'')
          else if in_nlink i \<noteq> 1 then Inl (invalid_lock ''owner.json link count is not 1'')
          else Inr ())"

text \<open>\<open>set(entries) == {"owner.json"}\<close>\<close>
definition only_owner_file :: "lock_fs \<Rightarrow> bool" where
  "only_owner_file fs = (fs_entries fs \<noteq> [] \<and> list_all (\<lambda>e. fst e = OWNER_FILE) (fs_entries fs))"

text \<open>An error of a validator, wrapped by the handler of \<open>_check_authority\<close>.\<close>
definition rewrap :: "string \<Rightarrow> lock_exc + 'a \<Rightarrow> lock_exc + 'a" where
  "rewrap field r =
     (case r of
        Inl (LockError st detail code) \<Rightarrow>
          Inl (invalid_lock (field @ '' invalid: '' @ (case dget detail ''reason'' of JStr why \<Rightarrow> why | _ \<Rightarrow> [])))
      | x \<Rightarrow> x)"

text \<open>
  The checks on the metadata. \<open>_TOKEN_RE.fullmatch\<close> on a value that is no string raises a \<open>TypeError\<close>
  that nothing catches.
\<close>
definition check_meta :: "dict \<Rightarrow> lock_exc + dict" where
  "check_meta meta =
     (if \<not> keys_are meta OWNER_KEYS then Inl (invalid_lock ''owner.json keys mismatch'')
      else if \<not> equals_one (dget meta ''contract_version'')
        then Inl (invalid_lock ''owner.json contract_version mismatch'')
      else if dget meta ''phase'' \<noteq> JStr ''held'' then Inl (invalid_lock ''owner.json phase is not held'')
      else
        (case dget meta ''token'' of
           JStr token \<Rightarrow>
             if \<not> is_hex64 token then Inl (invalid_lock ''owner.json token is not 64-char lowercase hex'')
             else if (case dget meta ''started_at'' of JStr t \<Rightarrow> strptime_utc t = None | _ \<Rightarrow> True)
               then Inl (invalid_lock ''owner.json started_at is not canonical UTC'')
             else
               ebind (rewrap ''owner_pid'' (validate_positive_int_pid (dget meta ''owner_pid'') ''owner_pid'')) (\<lambda>pid.
               ebind (rewrap ''owner'' (validate_id (dget meta ''owner'') ''owner'')) (\<lambda>owner.
               ebind (rewrap ''action'' (validate_id (dget meta ''action'') ''action'')) (\<lambda>action.
               ebind (rewrap ''owner_host'' (validate_id (dget meta ''owner_host'') ''owner_host'')) (\<lambda>host.
               Inr meta))))
         | _ \<Rightarrow> Inl (Escaped ''TypeError'')))"

definition check_authority :: "(string \<Rightarrow> string + json) \<Rightarrow> lock_fs \<Rightarrow> lock_exc + dict" where
  "check_authority loads fs =
     ebind (check_lock_dir fs) (\<lambda>_.
     ebind (check_owner_file fs) (\<lambda>_.
     if \<not> only_owner_file fs then Inl (invalid_lock ''lock directory contains unexpected entries'')
     else
       (case read_owner loads fs of
          Inl e \<Rightarrow> Inl (invalid_lock (''owner.json is unreadable: '' @ e))
        | Inr meta \<Rightarrow> check_meta meta)))"

definition meta_token :: "dict \<Rightarrow> string" where
  "meta_token meta = (case dget meta ''token'' of JStr s \<Rightarrow> s | _ \<Rightarrow> [])"

definition redact_meta :: "(string \<Rightarrow> string) \<Rightarrow> dict \<Rightarrow> dict" where
  "redact_meta sha meta =
     map (\<lambda>k. (k, dget meta k))
       [''contract_version'', ''owner'', ''action'', ''owner_host'', ''owner_pid'', ''started_at'', ''phase'']
     @ [(''token_digest'', JStr (token_digest sha (meta_token meta))),
        (''token_prefix'', JStr (token_prefix (meta_token meta)))]"

section \<open>The environment of an operation\<close>

text \<open>
  \<open>_write_owner\<close> may fail before the rename, leaving the temporary file or not, or after it.
\<close>
datatype write_end = WriteDone | FailedEarly string bool | FailedLate string

text \<open>The clean-up after it stops at the first \<open>OSError\<close>.\<close>
datatype cleanup_end = CleanDone | CleanUnlinkFails | CleanRmdirFails

text \<open>The removal of \<open>owner.json\<close> and of the directory; \<open>Vanished\<close> is \<open>FileNotFoundError\<close>.\<close>
datatype os_fault = Vanished | OsFault string
datatype remove_end = Removed | UnlinkFails os_fault | RmdirFails os_fault

text \<open>The append to the audit log: after how many bytes a write fails, or whether an fsync does.\<close>
datatype audit_end = AuditDone | AuditOpenFails string | AuditWriteFails nat string | AuditSyncFails string

text \<open>What \<open>_read_token_file\<close> meets; a \<open>None\<close> is an \<open>OSError\<close> or \<open>ValueError\<close>.\<close>
record file_stat =
  st_inode :: inode
  st_ino :: int
  st_dev :: int
  st_size :: nat
  st_mtime_ns :: int
  st_ctime_ns :: int

record token_file =
  tf_parent :: "inode option"
  tf_opens :: bool
  tf_stat1 :: "file_stat option"
  tf_read :: "nat \<Rightarrow> string option"
  tf_stat2 :: "file_stat option"

record lock_env =
  le_sha :: "string \<Rightarrow> string"
  le_loads :: "string \<Rightarrow> string + json"
  le_root :: bool
  le_now :: string
  le_token :: string
  le_tmp_suffix :: string
  le_mkdir :: "string option"
  le_chown :: "string option"
  le_write :: write_end
  le_cleanup :: cleanup_end
  le_remove :: remove_end
  le_systemd :: probe_result
  le_processes :: probe_result
  le_audit :: audit_end
  le_token_file :: "string \<Rightarrow> token_file"

section \<open>Acquire\<close>

definition new_directory :: inode where
  "new_directory = \<lparr>in_kind = Directory, in_uid = 0, in_gid = 0, in_mode = MODE_0700, in_nlink = 2, in_data = []\<rparr>"

definition new_file :: "string \<Rightarrow> inode" where
  "new_file data =
     \<lparr>in_kind = RegularFile, in_uid = 0, in_gid = 0, in_mode = MODE_0600, in_nlink = 1, in_data = data\<rparr>"

definition put_entry :: "string \<Rightarrow> inode \<Rightarrow> lock_fs \<Rightarrow> lock_fs" where
  "put_entry f i fs = fs\<lparr>fs_entries := (f, i) # filter (\<lambda>e. fst e \<noteq> f) (fs_entries fs)\<rparr>"

definition drop_entry :: "string \<Rightarrow> lock_fs \<Rightarrow> lock_fs" where
  "drop_entry f fs = fs\<lparr>fs_entries := filter (\<lambda>e. fst e \<noteq> f) (fs_entries fs)\<rparr>"

definition drop_dir :: "lock_fs \<Rightarrow> lock_fs" where
  "drop_dir fs = fs\<lparr>fs_dir := None, fs_entries := []\<rparr>"

definition canonical_meta :: "dict \<Rightarrow> string" where
  "canonical_meta meta = utf8 (canonical_json (JObj meta))"

text \<open>\<open>_write_owner\<close>: the text of the exception, if any, and the state it leaves.\<close>
definition write_owner :: "lock_env \<Rightarrow> dict \<Rightarrow> lock_fs \<Rightarrow> string option \<times> lock_fs" where
  "write_owner env meta fs =
     (let written = put_entry OWNER_FILE (new_file (canonical_meta meta)) fs in
      case le_write env of
        WriteDone \<Rightarrow> (None, written)
      | FailedEarly e tmp_left \<Rightarrow>
          (Some e, if tmp_left then put_entry (''.owner.json.tmp.'' @ le_tmp_suffix env) (new_file (canonical_meta meta)) fs else fs)
      | FailedLate e \<Rightarrow> (Some e, written))"

text \<open>The removal of what a failed write has left, only if it is nothing but \<open>owner.json\<close>.\<close>
definition clean_partial :: "lock_env \<Rightarrow> lock_fs \<Rightarrow> lock_fs" where
  "clean_partial env fs =
     (if list_all (\<lambda>e. fst e = OWNER_FILE) (fs_entries fs) then
        (case le_cleanup env of
           CleanUnlinkFails \<Rightarrow> fs
         | CleanRmdirFails \<Rightarrow> drop_entry OWNER_FILE fs
         | CleanDone \<Rightarrow> drop_dir (drop_entry OWNER_FILE fs))
      else fs)"

definition owner_meta :: "string \<Rightarrow> string \<Rightarrow> string \<Rightarrow> string \<Rightarrow> int \<Rightarrow> string \<Rightarrow> dict" where
  "owner_meta token owner action owner_host owner_pid started_at =
     [(''contract_version'', JInt 1), (''token'', JStr token), (''owner'', JStr owner),
      (''action'', JStr action), (''owner_host'', JStr owner_host), (''owner_pid'', JInt owner_pid),
      (''started_at'', JStr started_at), (''phase'', JStr ''held'')]"

definition acquire_args ::
    "json \<Rightarrow> json \<Rightarrow> json \<Rightarrow> json \<Rightarrow> lock_exc + string \<times> string \<times> string \<times> int" where
  "acquire_args owner action owner_host owner_pid =
     ebind (validate_id owner ''owner'') (\<lambda>o'.
     ebind (validate_id action ''action'') (\<lambda>a.
     ebind (validate_id owner_host ''owner_host'') (\<lambda>h.
     ebind (validate_positive_int_pid owner_pid ''owner_pid'') (\<lambda>p. Inr (o', a, h, p)))))"

text \<open>The rest of \<open>acquire\<close> once \<open>mkdir\<close> has made the directory.\<close>
definition acquire_fresh ::
    "lock_env \<Rightarrow> string \<Rightarrow> string \<Rightarrow> string \<Rightarrow> int \<Rightarrow> lock_fs \<Rightarrow> (lock_exc + dict) \<times> lock_fs" where
  "acquire_fresh env owner action owner_host owner_pid fs =
     (case le_chown env of
        Some e \<Rightarrow>
          (Inl (invalid_lock (''chown failed on lock directory: '' @ e)),
           if le_cleanup env = CleanRmdirFails then fs else drop_dir fs)
      | None \<Rightarrow>
          (let meta = owner_meta (le_token env) owner action owner_host owner_pid (le_now env) in
           case write_owner env meta fs of
             (Some e, fs') \<Rightarrow> (Inl (invalid_lock (''metadata write failed: '' @ e)), clean_partial env fs')
           | (None, fs') \<Rightarrow>
               (Inr [(''state'', JStr ''acquired''), (''token'', JStr (le_token env)),
                     (''started_at'', JStr (le_now env))], fs')))"

definition acquire ::
    "lock_env \<Rightarrow> json \<Rightarrow> json \<Rightarrow> json \<Rightarrow> json \<Rightarrow> lock_fs \<Rightarrow> (lock_exc + dict) \<times> lock_fs" where
  "acquire env owner action owner_host owner_pid fs =
     (if \<not> le_root env then (Inl (blocked_op ''must be root to acquire''), fs)
      else
        (case acquire_args owner action owner_host owner_pid of
           Inl e \<Rightarrow> (Inl e, fs)
         | Inr (o', a, h, p) \<Rightarrow>
             if fs_dir fs \<noteq> None then
               (case check_authority (le_loads env) fs of
                  Inl e \<Rightarrow> (Inl e, fs)
                | Inr meta \<Rightarrow> (Inl (LockError ''blocked'' (redact_meta (le_sha env) meta) 5), fs))
             else
               (case le_mkdir env of
                  Some e \<Rightarrow> (Inl (invalid_lock (''mkdir failed: '' @ e)), fs)
                | None \<Rightarrow> acquire_fresh env o' a h p (fs\<lparr>fs_dir := Some new_directory, fs_entries := []\<rparr>))))"

section \<open>Status and release\<close>

definition lock_status :: "lock_env \<Rightarrow> json option \<Rightarrow> lock_fs \<Rightarrow> lock_exc + dict" where
  "lock_status env expect_token fs =
     ebind (case expect_token of None \<Rightarrow> Inr [] | Some t \<Rightarrow> validate_token_shape t) (\<lambda>expected.
     case check_authority (le_loads env) fs of
       Inl (LockError st detail code) \<Rightarrow>
         if st = ''invalid'' then Inl (LockError st detail code)
         else Inr [(''state'', JStr ''free''), (''phase'', JStr ''free'')]
     | Inl (Escaped e) \<Rightarrow> Inl (Escaped e)
     | Inr meta \<Rightarrow>
         Inr ((''state'', JStr ''held'') # (''phase'', JStr ''held'') #
              filter (\<lambda>e. fst e \<noteq> ''phase'') (redact_meta (le_sha env) meta)
              @ (if expect_token = None then []
                 else [(''token_matches'', JBool (meta_token meta = expected))])))"

text \<open>The unlink and rmdir at the end of \<open>release\<close> and \<open>recover\<close>.\<close>
definition remove_lock :: "remove_end \<Rightarrow> lock_fs \<Rightarrow> os_fault option \<times> lock_fs" where
  "remove_lock r fs =
     (case r of
        Removed \<Rightarrow> (None, drop_dir (drop_entry OWNER_FILE fs))
      | UnlinkFails Vanished \<Rightarrow> (Some Vanished, drop_entry OWNER_FILE fs)
      | UnlinkFails (OsFault e) \<Rightarrow> (Some (OsFault e), fs)
      | RmdirFails Vanished \<Rightarrow> (Some Vanished, drop_dir (drop_entry OWNER_FILE fs))
      | RmdirFails (OsFault e) \<Rightarrow> (Some (OsFault e), drop_entry OWNER_FILE fs))"

definition already_free :: dict where
  "already_free = [(''state'', JStr ''already_free''), (''phase'', JStr ''free'')]"

definition release ::
    "lock_env \<Rightarrow> json \<Rightarrow> bool \<Rightarrow> lock_fs \<Rightarrow> (lock_exc + dict) \<times> lock_fs" where
  "release env token allow_already_free fs =
     (if \<not> le_root env then (Inl (blocked_op ''must be root to release''), fs)
      else
        (case validate_token_shape token of
           Inl e \<Rightarrow> (Inl e, fs)
         | Inr t \<Rightarrow>
             (case check_authority (le_loads env) fs of
                Inl (Escaped e) \<Rightarrow> (Inl (Escaped e), fs)
              | Inl (LockError st detail code) \<Rightarrow>
                  if st = ''invalid'' then (Inl (LockError st detail code), fs)
                  else if allow_already_free then (Inr already_free, fs)
                  else (Inl (mismatch ''lock is free; cannot release without --allow-already-free''), fs)
              | Inr meta \<Rightarrow>
                  if meta_token meta \<noteq> t then (Inl (mismatch ''token mismatch''), fs)
                  else
                    (case remove_lock (le_remove env) fs of
                       (None, fs') \<Rightarrow> (Inr [(''state'', JStr ''released''), (''phase'', JStr ''free'')], fs')
                     | (Some Vanished, fs') \<Rightarrow>
                         (if allow_already_free then Inr already_free
                          else Inl (mismatch ''lock disappeared during release''), fs')
                     | (Some (OsFault e), fs') \<Rightarrow>
                         (Inl (invalid_lock (''release failed: '' @ e)), fs')))))"

section \<open>The token file of recover\<close>

text \<open>The checks of a directory and of a file that \<open>_read_token_file\<close> makes, with its messages.\<close>
definition check_token_parent :: "inode option \<Rightarrow> lock_exc + unit" where
  "check_token_parent parent =
     (case parent of
        None \<Rightarrow> Inl (blocked_op ''token-file parent lstat failed'')
      | Some d \<Rightarrow>
          if in_kind d = SymLink then Inl (blocked_op ''token-file parent is a symlink'')
          else if in_kind d \<noteq> Directory then Inl (blocked_op ''token-file parent is not a directory'')
          else if \<not> root_owned d then Inl (blocked_op ''token-file parent must be root:root'')
          else if in_mode d \<noteq> MODE_0700 then Inl (blocked_op ''token-file parent mode must be 0700'')
          else Inr ())"

definition check_token_stat :: "file_stat option \<Rightarrow> lock_exc + file_stat" where
  "check_token_stat st =
     (case st of
        None \<Rightarrow> Inl (blocked_op ''token-file fstat failed'')
      | Some st1 \<Rightarrow>
          if in_kind (st_inode st1) \<noteq> RegularFile then Inl (blocked_op ''token-file is not a regular file'')
          else if \<not> root_owned (st_inode st1) then Inl (blocked_op ''token-file must be root:root'')
          else if in_mode (st_inode st1) \<noteq> MODE_0600 then Inl (blocked_op ''token-file mode must be 0600'')
          else if in_nlink (st_inode st1) \<noteq> 1 then Inl (blocked_op ''token-file link count must be 1'')
          else if st_size st1 \<noteq> 64 \<and> st_size st1 \<noteq> 65
            then Inl (blocked_op (''token-file size '' @ show_nat (st_size st1) @ '' not in (64, 65)''))
          else Inr st1)"

text \<open>The fields compared between the two \<open>fstat\<close> calls; \<open>st_mode\<close> holds kind and mode.\<close>
definition same_stat :: "file_stat \<Rightarrow> file_stat \<Rightarrow> bool" where
  "same_stat st2 st1 =
     (st_ino st2 = st_ino st1 \<and> st_dev st2 = st_dev st1 \<and> st_size st2 = st_size st1
      \<and> in_uid (st_inode st2) = in_uid (st_inode st1) \<and> in_gid (st_inode st2) = in_gid (st_inode st1)
      \<and> in_kind (st_inode st2) = in_kind (st_inode st1) \<and> in_mode (st_inode st2) = in_mode (st_inode st1)
      \<and> in_nlink (st_inode st2) = in_nlink (st_inode st1)
      \<and> st_mtime_ns st2 = st_mtime_ns st1 \<and> st_ctime_ns st2 = st_ctime_ns st1)"

definition token_of_bytes :: "string \<Rightarrow> lock_exc + string" where
  "token_of_bytes raw =
     (let content = (if endswith raw [nl] then butlast raw else raw) in
      if \<not> list_all (\<lambda>c. ord c < 128) content then Inl (blocked_op ''token-file content is not ASCII'')
      else if nl \<in> set content \<or> CHR 0x0D \<in> set content
        then Inl (blocked_op ''token-file contains embedded newline/CR'')
      else if \<not> is_hex64 content
        then Inl (blocked_op ''token-file content is not 64-char lowercase hex'')
      else Inr content)"

definition read_token_file :: "lock_env \<Rightarrow> string \<Rightarrow> lock_exc + string" where
  "read_token_file env path =
     (let tf = le_token_file env path in
      if path = [] \<or> \<not> startswith path ''/''
        then Inl (blocked_op ''token-file must be a non-blank absolute path'')
      else
        ebind (check_token_parent (tf_parent tf)) (\<lambda>_.
        if \<not> tf_opens tf then Inl (blocked_op ''token-file open failed'')
        else
        ebind (check_token_stat (tf_stat1 tf)) (\<lambda>st1.
        case tf_read tf (st_size st1 + 1) of
          None \<Rightarrow> Inl (blocked_op ''token-file read failed'')
        | Some raw \<Rightarrow>
            if length raw \<noteq> st_size st1
              then Inl (blocked_op ''token-file size changed between stat and read'')
            else
              (case tf_stat2 tf of
                 None \<Rightarrow> Inl (blocked_op ''token-file second fstat failed'')
               | Some st2 \<Rightarrow>
                   if \<not> same_stat st2 st1 then Inl (blocked_op ''token-file changed between stat calls'')
                   else token_of_bytes raw))))"

section \<open>Recover\<close>

definition audit_entry :: "(string \<Rightarrow> string) \<Rightarrow> string \<Rightarrow> string \<Rightarrow> string \<Rightarrow> dict \<Rightarrow> dict" where
  "audit_entry sha now operator reason meta =
     [(''recovered_at'', JStr now), (''operator'', JStr operator), (''reason'', JStr reason),
      (''lock_owner'', dget meta ''owner''), (''lock_action'', dget meta ''action''),
      (''lock_owner_host'', dget meta ''owner_host''), (''lock_owner_pid'', dget meta ''owner_pid''),
      (''lock_started_at'', dget meta ''started_at''),
      (''lock_token_digest'', JStr (token_digest sha (meta_token meta))),
      (''lock_token_prefix'', JStr (token_prefix (meta_token meta)))]"

definition audit_line :: "dict \<Rightarrow> string" where
  "audit_line entry = utf8 (canonical_json (JObj entry) @ [nl])"

text \<open>
  \<open>_audit_append\<close>: the text of the \<open>OSError\<close>, if any. The file is created by \<open>O_CREAT\<close> when it is
  missing, and what was written before a failure stays.
\<close>
definition audit_append :: "lock_env \<Rightarrow> dict \<Rightarrow> lock_fs \<Rightarrow> string option \<times> lock_fs" where
  "audit_append env entry fs =
     (case fs_audit_parent fs of
        None \<Rightarrow> (Some (os_error 5 (''audit parent unavailable: ''
                   @ os_error_at 2 ''No such file or directory'' ''/var/log'')), fs)
      | Some p \<Rightarrow>
          if in_kind p \<noteq> Directory \<or> \<not> root_owned p
            then (Some (os_error 1 ''audit parent must be a root-owned directory''), fs)
          else
            (case le_audit env of
               AuditOpenFails e \<Rightarrow> (Some e, fs)
             | outcome \<Rightarrow>
                 (let file = (case fs_audit fs of None \<Rightarrow> new_file [] | Some f \<Rightarrow> f) in
                  if in_kind file = SymLink
                    then (Some (os_error_at 40 ''Too many levels of symbolic links'' AUDIT_PATH), fs)
                  else if in_kind file = Directory
                    then (Some (os_error_at 21 ''Is a directory'' AUDIT_PATH), fs)
                  else if in_kind file \<noteq> RegularFile \<or> \<not> root_owned file \<or> in_mode file \<noteq> MODE_0600
                       \<or> in_nlink file \<noteq> 1
                    then (Some (os_error 1
                           ''audit file must be a root-owned 0600 single-link regular file''), fs)
                  else
                    (let append = (\<lambda>bytes. fs\<lparr>fs_audit := Some (file\<lparr>in_data := in_data file @ bytes\<rparr>)\<rparr>) in
                     case outcome of
                       AuditWriteFails n e \<Rightarrow> (Some e, append (take n (audit_line entry)))
                     | AuditSyncFails e \<Rightarrow> (Some e, append (audit_line entry))
                     | _ \<Rightarrow> (None, append (audit_line entry))))))"

text \<open>The checks before the first change; the result is the audit entry.\<close>
definition recover_check ::
    "lock_env \<Rightarrow> json \<Rightarrow> json \<Rightarrow> json \<Rightarrow> bool \<Rightarrow> lock_fs \<Rightarrow> lock_exc + dict" where
  "recover_check env token operator reason confirm_owner_stopped fs =
     (if \<not> le_root env then Inl (blocked_op ''must be root to recover'')
      else
        ebind (validate_token_shape token) (\<lambda>t.
        ebind (validate_id operator ''operator'') (\<lambda>op.
        ebind (validate_id reason ''reason'') (\<lambda>why.
        if \<not> confirm_owner_stopped
          then Inl (blocked_op ''recover requires --confirm-owner-stopped'')
        else
        ebind (check_authority (le_loads env) fs) (\<lambda>meta.
        if meta_token meta \<noteq> t then Inl (mismatch ''token mismatch'')
        else if \<not> pr_ok (le_systemd env)
          then Inl (blocked_op (''systemd probe failed: '' @ pr_reason (le_systemd env)))
        else if \<not> pr_ok (le_processes env)
          then Inl (blocked_op (''process probe failed: '' @ pr_reason (le_processes env)))
        else Inr (audit_entry (le_sha env) (le_now env) op why meta))))))"

definition recover ::
    "lock_env \<Rightarrow> json \<Rightarrow> json \<Rightarrow> json \<Rightarrow> bool \<Rightarrow> lock_fs \<Rightarrow> (lock_exc + dict) \<times> lock_fs" where
  "recover env token operator reason confirm_owner_stopped fs =
     (case recover_check env token operator reason confirm_owner_stopped fs of
        Inl e \<Rightarrow> (Inl e, fs)
      | Inr entry \<Rightarrow>
          (case audit_append env entry fs of
             (Some e, fs1) \<Rightarrow> (Inl (blocked_op (''audit append failed: '' @ e)), fs1)
           | (None, fs1) \<Rightarrow>
               (case remove_lock (le_remove env) fs1 of
                  (Some fault, fs2) \<Rightarrow>
                    (Inl (invalid_lock (''recover release failed: '' @
                       (case fault of OsFault e \<Rightarrow> e
                        | Vanished \<Rightarrow> os_error_at 2 ''No such file or directory'' OWNER_PATH))), fs2)
                | (None, fs2) \<Rightarrow>
                    (Inr [(''state'', JStr ''recovered''), (''phase'', JStr ''free''),
                          (''receipt_digest'',
                            JStr (token_digest (le_sha env) (dumps (sort_keys (JObj entry)))))], fs2))))"

section \<open>The command line\<close>

datatype lock_command =
    Acquire string string string int
  | Status "string option"
  | Release string bool
  | Recover "string + string" string string bool  \<comment> \<open>the token, or the path of its file\<close>

text \<open>What the process shows: its two streams and its exit code, or an uncaught exception.\<close>
record cli_end =
  ce_stdout :: string
  ce_stderr :: string
  ce_code :: int

text \<open>\<open>_TOKEN_RE.sub\<close> in \<open>_scrub\<close>: \<open>$\<close> also matches before a final line feed.\<close>
definition scrub_string :: "string \<Rightarrow> string" where
  "scrub_string s =
     (if is_hex64 s then ''<redacted:64hex>''
      else if s \<noteq> [] \<and> last s = nl \<and> is_hex64 (butlast s) then ''<redacted:64hex>'' @ [nl]
      else s)"

fun scrub :: "json \<Rightarrow> json" where
  "scrub (JStr s) = JStr (scrub_string s)"
| "scrub (JObj d) = JObj (map (\<lambda>(k, v). (k, scrub v)) d)"
| "scrub (JList xs) = JList (map scrub xs)"
| "scrub v = v"

definition json_out :: "json \<Rightarrow> string" where
  "json_out v = canonical_json v @ [nl]"

definition run_command :: "lock_env \<Rightarrow> lock_command \<Rightarrow> lock_fs \<Rightarrow> (lock_exc + string) \<times> lock_fs" where
  "run_command env c fs =
     (case c of
        Acquire owner action host pid \<Rightarrow>
          (case acquire env (JStr owner) (JStr action) (JStr host) (JInt pid) fs of
             (Inl e, fs') \<Rightarrow> (Inl e, fs')
           | (Inr result, fs') \<Rightarrow>
               (if \<not> is_hex64 (meta_token result)
                  then (Inl (invalid_lock ''internal token shape violation''), fs')
                else (Inr (meta_token result @ [nl]), fs')))
      | Status expect_token \<Rightarrow>
          (ebind (lock_status env (map_option JStr expect_token) fs) (\<lambda>d. Inr (json_out (JObj d))), fs)
      | Release token allow \<Rightarrow>
          (case release env (JStr token) allow fs of
             (r, fs') \<Rightarrow> (ebind r (\<lambda>d. Inr (json_out (JObj d))), fs'))
      | Recover source operator reason confirm \<Rightarrow>
          (case (case source of Inl t \<Rightarrow> Inr t | Inr path \<Rightarrow> read_token_file env path) of
             Inl e \<Rightarrow> (Inl e, fs)
           | Inr token \<Rightarrow>
               (case recover env (JStr token) (JStr operator) (JStr reason) confirm fs of
                  (r, fs') \<Rightarrow> (ebind r (\<lambda>d. Inr (json_out (JObj d))), fs'))))"

text \<open>\<open>main\<close> after the argument parser; \<open>None\<close> is an uncaught exception.\<close>
definition lock_main :: "lock_env \<Rightarrow> lock_command \<Rightarrow> lock_fs \<Rightarrow> cli_end option \<times> lock_fs" where
  "lock_main env c fs =
     (case run_command env c fs of
        (Inr out, fs') \<Rightarrow> (Some \<lparr>ce_stdout = out, ce_stderr = [], ce_code = 0\<rparr>, fs')
      | (Inl (LockError st detail code), fs') \<Rightarrow>
          (let shown = (''state'', JStr st) # filter (\<lambda>e. fst e \<noteq> ''token'') detail in
           (Some \<lparr>ce_stdout = [], ce_stderr = json_out (scrub (JObj shown)), ce_code = code\<rparr>, fs'))
      | (Inl (Escaped e), fs') \<Rightarrow> (None, fs'))"

end
