(* ===== verification/LockSafety.thy ===== *)
theory LockSafety
  imports MutationLock
begin

text \<open>
  Properties of the operations of \<open>MutationLock\<close>, one process at a time: what the authority check
  accepts, that acquire and release are inverse to each other, that a lock is changed only by its
  holder or by a recovery with complete evidence and a durable audit line, that failures leave no
  usable lock behind, and that the outputs do not depend on the token.
\<close>

section \<open>The authority check\<close>

definition meta_ok :: "dict \<Rightarrow> bool" where
  "meta_ok meta =
     (keys_are meta OWNER_KEYS \<and> equals_one (dget meta ''contract_version'') \<and> dget meta ''phase'' = JStr ''held''
      \<and> (\<exists>token. dget meta ''token'' = JStr token \<and> is_hex64 token)
      \<and> (\<exists>t. dget meta ''started_at'' = JStr t \<and> strptime_utc t \<noteq> None)
      \<and> (\<exists>pid. dget meta ''owner_pid'' = JInt pid \<and> 0 < pid)
      \<and> (\<exists>s. dget meta ''owner'' = JStr s \<and> lock_id_shape s)
      \<and> (\<exists>s. dget meta ''action'' = JStr s \<and> lock_id_shape s)
      \<and> (\<exists>s. dget meta ''owner_host'' = JStr s \<and> lock_id_shape s))"

definition dir_ok :: "inode \<Rightarrow> bool" where
  "dir_ok d = (in_kind d = Directory \<and> root_owned d \<and> in_mode d = MODE_0700 \<and> 2 \<le> in_nlink d)"

definition file_ok :: "inode \<Rightarrow> bool" where
  "file_ok i = (in_kind i = RegularFile \<and> root_owned i \<and> in_mode i = MODE_0600 \<and> in_nlink i = 1)"

text \<open>The lock is held under the metadata.\<close>
definition held :: "(string \<Rightarrow> string + json) \<Rightarrow> lock_fs \<Rightarrow> dict \<Rightarrow> bool" where
  "held loads fs meta =
     ((\<exists>d. fs_dir fs = Some d \<and> dir_ok d)
      \<and> (\<exists>i. owner_inode fs = Some i \<and> file_ok i \<and> loads (in_data i) = Inr (JObj meta))
      \<and> only_owner_file fs \<and> meta_ok meta)"

lemma rewrap_Inr [simp]: "rewrap f r = Inr x \<longleftrightarrow> r = Inr x"
  by (auto simp: rewrap_def split: sum.splits lock_exc.splits)

lemma check_lock_dir_Inr: "check_lock_dir fs = Inr u \<longleftrightarrow> (\<exists>d. fs_dir fs = Some d \<and> dir_ok d)"
  by (auto simp: check_lock_dir_def dir_ok_def split: option.splits)

lemma check_owner_file_Inr: "check_owner_file fs = Inr u \<longleftrightarrow> (\<exists>i. owner_inode fs = Some i \<and> file_ok i)"
  by (auto simp: check_owner_file_def file_ok_def split: option.splits)

lemma check_meta_Inr: "check_meta meta = Inr m \<longleftrightarrow> m = meta \<and> meta_ok meta"
proof (cases "dget meta ''token''")
  case (JStr token)
  have "(case dget meta ''started_at'' of JStr t \<Rightarrow> strptime_utc t = None | _ \<Rightarrow> True)
      \<longleftrightarrow> \<not> (\<exists>t. dget meta ''started_at'' = JStr t \<and> strptime_utc t \<noteq> None)"
    by (auto split: json.splits)
  then show ?thesis
    by (auto simp: check_meta_def meta_ok_def JStr result_simps validate_id_Inr validate_positive_int_pid_Inr)
qed (auto simp: check_meta_def meta_ok_def)

lemma read_owner_Inr:
  "owner_inode fs = Some i \<Longrightarrow> file_ok i \<Longrightarrow>
   read_owner loads fs = Inr meta \<longleftrightarrow> loads (in_data i) = Inr (JObj meta)"
  by (auto simp: read_owner_def file_ok_def split: sum.splits json.splits)

lemma check_authority_Inr: "check_authority loads fs = Inr meta \<longleftrightarrow> held loads fs meta"
proof -
  have "(case read_owner loads fs of Inl e \<Rightarrow> Inl (invalid_lock (''owner.json is unreadable: '' @ e))
          | Inr m \<Rightarrow> check_meta m) = Inr meta \<longleftrightarrow> read_owner loads fs = Inr meta \<and> meta_ok meta"
    by (auto simp: check_meta_Inr split: sum.splits)
  then show ?thesis
    unfolding check_authority_def held_def
    by (auto simp: result_simps check_lock_dir_Inr check_owner_file_Inr read_owner_Inr)
qed

text \<open>The exceptions of the check: invalid, absent exactly without a directory, or a token of a wrong type.\<close>
lemma rewrap_Inl:
  "rewrap f r = Inl e \<Longrightarrow> (\<exists>why. e = invalid_lock why) \<or> (\<exists>x. e = Escaped x \<and> r = Inl (Escaped x))"
  by (auto simp: rewrap_def split: sum.splits lock_exc.splits)

lemma validators_not_escaped:
  "validate_id v f \<noteq> Inl (Escaped x)" "validate_positive_int_pid v f \<noteq> Inl (Escaped x)"
  by (auto simp: validate_id_def validate_positive_int_pid_def split: json.splits)

lemma check_meta_Inl:
  assumes "check_meta meta = Inl e"
  shows "(\<exists>why. e = invalid_lock why) \<or> e = Escaped ''TypeError''"
  using assms unfolding check_meta_def
  by (auto simp: result_simps validators_not_escaped dest!: rewrap_Inl split: if_splits json.splits)

lemma check_authority_Inl:
  assumes "check_authority loads fs = Inl e"
  shows "(\<exists>why. e = invalid_lock why) \<or> e = Escaped ''TypeError''
    \<or> fs_dir fs = None \<and> e = LockError ''absent'' (reason_detail ''lock directory does not exist'') 1"
proof -
  consider "check_lock_dir fs = Inl e" | "check_owner_file fs = Inl e"
    | why where "e = invalid_lock why" | m where "check_meta m = Inl e"
    using assms by (auto simp: check_authority_def result_simps split: if_splits sum.splits)
  then show ?thesis
  proof cases
    case (4 m)
    then show ?thesis by (blast dest: check_meta_Inl)
  qed (auto simp: check_lock_dir_def check_owner_file_def split: option.splits if_splits)
qed

lemma check_authority_free:
  "fs_dir fs = None \<Longrightarrow>
   check_authority loads fs = Inl (LockError ''absent'' (reason_detail ''lock directory does not exist'') 1)"
  by (simp add: check_authority_def check_lock_dir_def)

section \<open>Acquire\<close>

definition lock_free :: "lock_fs \<Rightarrow> bool" where
  "lock_free fs = (fs_dir fs = None \<and> fs_entries fs = [])"

text \<open>No call of the operating system fails.\<close>
definition no_faults :: "lock_env \<Rightarrow> bool" where
  "no_faults env = (le_mkdir env = None \<and> le_chown env = None \<and> le_write env = WriteDone \<and> le_remove env = Removed)"

text \<open>\<open>json.loads\<close> gives back the dictionary that \<open>json.dumps\<close> has written, its keys sorted.\<close>
definition reads_back :: "(string \<Rightarrow> string + json) \<Rightarrow> dict \<Rightarrow> bool" where
  "reads_back loads meta = (loads (canonical_meta meta) = Inr (sort_keys (JObj meta)))"

lemma acquire_args_Inr:
  "acquire_args ow ac ho pi = Inr (o', a, h, p) \<longleftrightarrow>
     ow = JStr o' \<and> ac = JStr a \<and> ho = JStr h \<and> pi = JInt p
     \<and> lock_id_shape o' \<and> lock_id_shape a \<and> lock_id_shape h \<and> 0 < p"
  by (auto simp: acquire_args_def result_simps validate_id_Inr validate_positive_int_pid_Inr)

text \<open>The dictionary in \<open>owner.json\<close> after it has been read back.\<close>
definition stored_meta :: "string \<Rightarrow> string \<Rightarrow> string \<Rightarrow> string \<Rightarrow> int \<Rightarrow> string \<Rightarrow> dict" where
  "stored_meta token ow ac ho pid started_at =
     [(''action'', JStr ac), (''contract_version'', JInt 1), (''owner'', JStr ow), (''owner_host'', JStr ho),
      (''owner_pid'', JInt pid), (''phase'', JStr ''held''), (''started_at'', JStr started_at), (''token'', JStr token)]"

lemma sort_owner_meta: "sort_keys (JObj (owner_meta tok ow ac ho pid t)) = JObj (stored_meta tok ow ac ho pid t)"
  by (simp add: owner_meta_def stored_meta_def)

lemma meta_ok_stored:
  assumes "is_hex64 tok" "strptime_utc t \<noteq> None" "lock_id_shape ow" "lock_id_shape ac" "lock_id_shape ho" "0 < pid"
  shows "meta_ok (stored_meta tok ow ac ho pid t)" "meta_token (stored_meta tok ow ac ho pid t) = tok"
  using assms
  by (simp_all add: meta_ok_def stored_meta_def keys_are_def keys_def OWNER_KEYS_def dget_Cons meta_token_def)

lemma held_after_write:
  assumes "meta_ok meta" "loads data = Inr (JObj meta)" "fs_entries fs = []" "fs_dir fs = Some new_directory"
  shows "held loads (put_entry OWNER_FILE (new_file data) fs) meta"
  using assms
  by (simp add: held_def put_entry_def owner_inode_def only_owner_file_def dir_ok_def file_ok_def new_file_def
      new_directory_def root_owned_def)

lemma acquire_success:
  assumes "le_root env" "no_faults env" "acquire_args ow ac ho pi = Inr (o', a, h, p)" "fs_dir fs = None"
  shows "acquire env ow ac ho pi fs =
    (Inr [(''state'', JStr ''acquired''), (''token'', JStr (le_token env)), (''started_at'', JStr (le_now env))],
     put_entry OWNER_FILE (new_file (canonical_meta (owner_meta (le_token env) o' a h p (le_now env))))
       (fs\<lparr>fs_dir := Some new_directory, fs_entries := []\<rparr>))"
  using assms by (simp add: acquire_def acquire_fresh_def no_faults_def write_owner_def Let_def)

lemma release_held:
  assumes "le_root env" "held (le_loads env) fs meta" "is_hex64 t" "meta_token meta = t" "le_remove env = Removed"
  shows "release env (JStr t) allow fs =
    (Inr [(''state'', JStr ''released''), (''phase'', JStr ''free'')], drop_dir (drop_entry OWNER_FILE fs))"
proof -
  have "check_authority (le_loads env) fs = Inr meta"
    using assms(2) by (simp add: check_authority_Inr)
  then show ?thesis
    using assms by (simp add: release_def validate_token_shape_def remove_lock_def)
qed

text \<open>
  C23: Acquire and release are inverse: on a free lock, without faults of the operating system, a root
  acquire with valid arguments returns its fresh token and leaves the lock held under exactly the
  metadata given, so that the status with this token reports a match; releasing with this token puts
  the file system back as it was.
\<close>
theorem acquire_release_roundtrip:
  assumes "le_root env" "no_faults env" "acquire_args ow ac ho pi = Inr (o', a, h, p)" "lock_free fs"
    and "is_hex64 (le_token env)" "strptime_utc (le_now env) \<noteq> None"
    and "reads_back (le_loads env) (owner_meta (le_token env) o' a h p (le_now env))"
  shows "case acquire env ow ac ho pi fs of (r, fs') \<Rightarrow>
      r = Inr [(''state'', JStr ''acquired''), (''token'', JStr (le_token env)), (''started_at'', JStr (le_now env))]
      \<and> check_authority (le_loads env) fs' = Inr (stored_meta (le_token env) o' a h p (le_now env))
      \<and> (case lock_status env (Some (JStr (le_token env))) fs' of
           Inl e \<Rightarrow> False
         | Inr d \<Rightarrow> dget d ''state'' = JStr ''held'' \<and> dget d ''token_matches'' = JBool True
                  \<and> dget d ''owner'' = JStr o')
      \<and> release env (JStr (le_token env)) allow fs'
          = (Inr [(''state'', JStr ''released''), (''phase'', JStr ''free'')], fs)"
proof -
  define meta where "meta = stored_meta (le_token env) o' a h p (le_now env)"
  define fs' where "fs' = put_entry OWNER_FILE (new_file (canonical_meta (owner_meta (le_token env) o' a h p (le_now env))))
    (fs\<lparr>fs_dir := Some new_directory, fs_entries := []\<rparr>)"
  have ok: "meta_ok meta" "meta_token meta = le_token env"
    using assms(3,5,6) by (auto simp: meta_def acquire_args_Inr intro: meta_ok_stored)
  moreover have "le_loads env (canonical_meta (owner_meta (le_token env) o' a h p (le_now env))) = Inr (JObj meta)"
    using assms(7) by (simp only: reads_back_def sort_owner_meta meta_def)
  ultimately have held: "held (le_loads env) fs' meta"
    by (simp add: fs'_def held_after_write)
  then have check: "check_authority (le_loads env) fs' = Inr meta"
    by (simp add: check_authority_Inr)
  have "drop_dir (drop_entry OWNER_FILE fs') = fs"
    using assms(4) by (simp add: fs'_def drop_dir_def drop_entry_def put_entry_def lock_free_def)
  then have "release env (JStr (le_token env)) allow fs'
      = (Inr [(''state'', JStr ''released''), (''phase'', JStr ''free'')], fs)"
    using release_held [OF assms(1) held assms(5) ok(2)] assms(2) by (simp add: no_faults_def)
  moreover have "acquire env ow ac ho pi fs =
      (Inr [(''state'', JStr ''acquired''), (''token'', JStr (le_token env)), (''started_at'', JStr (le_now env))], fs')"
    using acquire_success [OF assms(1-3)] assms(4) by (simp add: lock_free_def fs'_def)
  moreover have "case lock_status env (Some (JStr (le_token env))) fs' of Inl e \<Rightarrow> False
      | Inr d \<Rightarrow> dget d ''state'' = JStr ''held'' \<and> dget d ''token_matches'' = JBool True \<and> dget d ''owner'' = JStr o'"
    using assms(5) check ok(2)
    by (simp add: lock_status_def validate_token_shape_def redact_meta_def dget_Cons meta_def stored_meta_def)
  ultimately show ?thesis
    using check by (simp add: meta_def)
qed

definition example_meta :: dict where
  "example_meta = owner_meta (replicate 64 CHR ''a'') ''ops'' ''deploy'' ''host-1'' 42 ''2025-01-01T00:00:00Z''"

definition free_fs :: lock_fs where
  "free_fs = \<lparr>fs_dir = None, fs_entries = [], fs_audit_parent = Some new_directory, fs_audit = None\<rparr>"

definition no_token_file :: token_file where
  "no_token_file = \<lparr>tf_parent = None, tf_opens = False, tf_stat1 = None, tf_read = (\<lambda>n. None), tf_stat2 = None\<rparr>"

definition example_lock_env :: lock_env where
  "example_lock_env = \<lparr>le_sha = (\<lambda>s. replicate 64 CHR ''0''), le_loads = (\<lambda>s. Inr (sort_keys (JObj example_meta))),
     le_root = True, le_now = ''2025-01-01T00:00:00Z'', le_token = replicate 64 CHR ''a'', le_tmp_suffix = ''1.2'',
     le_mkdir = None, le_chown = None, le_write = WriteDone, le_cleanup = CleanDone, le_remove = Removed,
     le_systemd = \<lparr>pr_ok = True, pr_reason = []\<rparr>, le_processes = \<lparr>pr_ok = True, pr_reason = []\<rparr>,
     le_audit = AuditDone, le_token_file = (\<lambda>p. no_token_file)\<rparr>"

lemma example_lock_facts:
  "le_root example_lock_env" "no_faults example_lock_env" "lock_free free_fs" "is_hex64 (le_token example_lock_env)"
  "strptime_utc (le_now example_lock_env) \<noteq> None"
  "acquire_args (JStr ''ops'') (JStr ''deploy'') (JStr ''host-1'') (JInt 42) = Inr (''ops'', ''deploy'', ''host-1'', 42)"
  "reads_back (le_loads example_lock_env)
     (owner_meta (le_token example_lock_env) ''ops'' ''deploy'' ''host-1'' 42 (le_now example_lock_env))"
        apply (simp add: example_lock_env_def)
       apply (simp add: example_lock_env_def no_faults_def)
      apply (simp add: lock_free_def free_fs_def)
     apply code_simp
    apply code_simp
   apply code_simp
  apply (simp add: reads_back_def example_lock_env_def example_meta_def)
  done

theorem acquire_release_roundtrip_witness:
  "release example_lock_env (JStr (replicate 64 CHR ''a'')) False
     (snd (acquire example_lock_env (JStr ''ops'') (JStr ''deploy'') (JStr ''host-1'') (JInt 42) free_fs))
     = (Inr [(''state'', JStr ''released''), (''phase'', JStr ''free'')], free_fs)"
  using acquire_release_roundtrip [OF example_lock_facts(1,2,6,3,4,5,7), of False]
  by (simp add: split_beta example_lock_env_def)

section \<open>Who may change the lock\<close>

text \<open>The part of the state that is the lock.\<close>
definition lock_part :: "lock_fs \<Rightarrow> inode option \<times> (string \<times> inode) list" where
  "lock_part fs = (fs_dir fs, fs_entries fs)"

lemma lock_part_cong:
  assumes "lock_part fs = lock_part fs'"
  shows "check_authority loads fs = check_authority loads fs'" "fs_dir fs = fs_dir fs'"
  using assms
  by (auto simp: lock_part_def check_authority_def check_lock_dir_def check_owner_file_def only_owner_file_def
      read_owner_def owner_inode_def)

lemma lock_part_audit [simp]: "lock_part (fs\<lparr>fs_audit := x\<rparr>) = lock_part fs"
  by (simp add: lock_part_def)

lemma audit_append_lock_part: "lock_part (snd (audit_append env entry fs)) = lock_part fs"
  unfolding audit_append_def Let_def by (auto split: option.split audit_end.split if_splits)

lemma acquire_existing:
  "fs_dir fs \<noteq> None \<Longrightarrow> \<exists>e. acquire env ow ac ho pi fs = (Inl e, fs)"
  by (auto simp: acquire_def split: sum.splits prod.splits)

text \<open>Only the holder of the token in \<open>owner.json\<close> releases, as root.\<close>
lemma release_changes:
  assumes "release env token allow fs = (r, fs')" "fs' \<noteq> fs"
  obtains meta t where "le_root env" "token = JStr t" "check_authority (le_loads env) fs = Inr meta"
    "meta_token meta = t" "fs' = snd (remove_lock (le_remove env) fs)"
  using assms unfolding release_def
  by (auto simp: validate_token_shape_Inr split: if_splits sum.splits lock_exc.splits option.splits
      os_fault.splits prod.splits)

lemma recover_check_Inr:
  "recover_check env token operator reason confirm fs = Inr entry \<longleftrightarrow>
     le_root env \<and> confirm \<and> pr_ok (le_systemd env) \<and> pr_ok (le_processes env)
     \<and> (\<exists>meta op why. token = JStr (meta_token meta) \<and> is_hex64 (meta_token meta)
          \<and> operator = JStr op \<and> lock_id_shape op \<and> reason = JStr why \<and> lock_id_shape why
          \<and> check_authority (le_loads env) fs = Inr meta
          \<and> entry = audit_entry (le_sha env) (le_now env) op why meta)"
  unfolding recover_check_def
  by (auto simp: validate_token_shape_Inr validate_id_Inr result_simps split: if_splits)

text \<open>A recovery changes the lock only after the checks and a complete audit line.\<close>
lemma recover_changes:
  assumes "recover env token operator reason confirm fs = (r, fs')" "lock_part fs' \<noteq> lock_part fs"
  obtains entry where "recover_check env token operator reason confirm fs = Inr entry"
    "fst (audit_append env entry fs) = None"
    "fs' = snd (remove_lock (le_remove env) (snd (audit_append env entry fs)))"
proof (cases "recover_check env token operator reason confirm fs")
  case (Inr entry)
  obtain f fs1 where app: "audit_append env entry fs = (f, fs1)" by fastforce
  obtain g fs2 where rm: "remove_lock (le_remove env) fs1 = (g, fs2)" by fastforce
  have "lock_part fs1 = lock_part fs"
    using audit_append_lock_part [of env entry fs] app by simp
  then have "f = None" "fs' = fs2"
    using assms by (auto simp: recover_def Inr app rm split: option.splits)
  then show ?thesis
    using that [OF Inr] by (simp add: app rm)
qed (use assms in \<open>simp add: recover_def\<close>)

text \<open>The token that a command presents.\<close>
definition command_token :: "lock_env \<Rightarrow> lock_command \<Rightarrow> string option" where
  "command_token env c =
     (case c of
        Release t allow \<Rightarrow> Some t
      | Recover (Inl t) operator reason confirm \<Rightarrow> Some t
      | Recover (Inr path) operator reason confirm \<Rightarrow>
          (case read_token_file env path of Inl e \<Rightarrow> None | Inr t \<Rightarrow> Some t)
      | _ \<Rightarrow> None)"

definition presents_token :: "lock_env \<times> lock_command \<Rightarrow> lock_fs \<Rightarrow> bool" where
  "presents_token op fs =
     (case check_authority (le_loads (fst op)) fs of
        Inl e \<Rightarrow> False
      | Inr meta \<Rightarrow> command_token (fst op) (snd op) = Some (meta_token meta))"

lemma lock_main_part:
  assumes "fs_dir fs \<noteq> None" "\<not> presents_token (env, c) fs"
  shows "lock_part (snd (lock_main env c fs)) = lock_part fs"
proof -
  have main: "snd (lock_main env c fs) = snd (run_command env c fs)"
    by (auto simp: lock_main_def Let_def split: prod.splits sum.splits lock_exc.splits)
  have rec: "lock_part (snd (recover env (JStr t) (JStr op) (JStr why) confirm fs)) = lock_part fs"
    if "\<And>meta. check_authority (le_loads env) fs = Inr meta \<Longrightarrow> meta_token meta \<noteq> t" for t op why confirm
  proof (rule ccontr)
    assume changed: "lock_part (snd (recover env (JStr t) (JStr op) (JStr why) confirm fs)) \<noteq> lock_part fs"
    obtain entry where "recover_check env (JStr t) (JStr op) (JStr why) confirm fs = Inr entry"
      using recover_changes [OF prod.collapse [symmetric] changed] by blast
    then show False
      using that by (auto simp: recover_check_Inr)
  qed
  have other: "command_token env c \<noteq> Some (meta_token meta)" if "check_authority (le_loads env) fs = Inr meta" for meta
    using assms(2) that by (simp add: presents_token_def)
  show ?thesis
  proof (cases c)
    case (Acquire ow ac ho pid)
    obtain e where "acquire env (JStr ow) (JStr ac) (JStr ho) (JInt pid) fs = (Inl e, fs)"
      using acquire_existing [OF assms(1)] by blast
    then show ?thesis
      using main by (simp add: run_command_def Acquire)
  next
    case (Status t)
    then show ?thesis
      using main by (simp add: run_command_def)
  next
    case (Release t allow)
    obtain r fs' where rel: "release env (JStr t) allow fs = (r, fs')"
      by fastforce
    have "fs' = fs"
    proof (rule ccontr)
      assume "fs' \<noteq> fs"
      then obtain meta where "check_authority (le_loads env) fs = Inr meta" "meta_token meta = t"
        by (rule release_changes [OF rel]) simp
      then show False
        using other [of meta] by (simp add: Release command_token_def)
    qed
    then show ?thesis
      using main by (simp add: run_command_def Release rel)
  next
    case (Recover source op why confirm)
    show ?thesis
    proof (cases "case source of Inl t \<Rightarrow> Inr t | Inr path \<Rightarrow> read_token_file env path")
      case (Inl e)
      then show ?thesis
        using main by (simp add: run_command_def Recover)
    next
      case (Inr t)
      then have "command_token env c = Some t"
        by (cases source) (simp_all add: command_token_def Recover)
      then have "lock_part (snd (recover env (JStr t) (JStr op) (JStr why) confirm fs)) = lock_part fs"
        by (intro rec) (use other in auto)
      moreover have "snd (run_command env c fs) = snd (recover env (JStr t) (JStr op) (JStr why) confirm fs)"
        using Inr by (simp add: run_command_def Recover split_beta)
      ultimately show ?thesis
        using main by simp
    qed
  qed
qed

section \<open>The contract of a lock\<close>

fun run_ops :: "('op \<Rightarrow> 's \<Rightarrow> 'out \<times> 's) \<Rightarrow> 'op list \<Rightarrow> 's \<Rightarrow> ('op \<times> 'out) list \<times> 's" where
  "run_ops step [] s = ([], s)"
| "run_ops step (op # ops) s =
     (case step op s of (out, s1) \<Rightarrow> case run_ops step ops s1 of (outs, s2) \<Rightarrow> ((op, out) # outs, s2))"

fun never_presented :: "('op \<Rightarrow> 's \<Rightarrow> 'out \<times> 's) \<Rightarrow> ('op \<Rightarrow> 's \<Rightarrow> bool) \<Rightarrow> 'op list \<Rightarrow> 's \<Rightarrow> bool" where
  "never_presented step presents [] s = True"
| "never_presented step presents (op # ops) s =
     (\<not> presents op s \<and> never_presented step presents ops (snd (step op s)))"

text \<open>
  What the clients of a token lock rely on: while somebody holds it, an operation that does not present
  the holder's token changes nothing and grants nothing. A run of such operations then keeps it.
\<close>
locale token_lock =
  fixes step :: "'op \<Rightarrow> 's \<Rightarrow> 'out \<times> 's"
    and holder :: "'s \<Rightarrow> 'h option"
    and presents :: "'op \<Rightarrow> 's \<Rightarrow> bool"
    and grants :: "'op \<Rightarrow> 'out \<Rightarrow> bool"
  assumes step_keeps: "holder s = Some h \<Longrightarrow> \<not> presents op s \<Longrightarrow> holder (snd (step op s)) = Some h"
    and step_refuses: "holder s = Some h \<Longrightarrow> \<not> grants op (fst (step op s))"
begin

lemma run_keeps:
  assumes "holder s = Some h" "never_presented step presents ops s"
  shows "holder (snd (run_ops step ops s)) = Some h \<and> list_all (\<lambda>(op, out). \<not> grants op out) (fst (run_ops step ops s))"
  using assms
proof (induction ops arbitrary: s)
  case (Cons op ops)
  obtain out s1 where st: "step op s = (out, s1)" by fastforce
  then have "holder s1 = Some h" "\<not> grants op out"
    using Cons.prems step_keeps [of s h op] step_refuses [of s h op] by auto
  then show ?case
    using Cons st by (auto simp: split_beta)
qed simp

end

definition lock_step :: "lock_env \<times> lock_command \<Rightarrow> lock_fs \<Rightarrow> cli_end option \<times> lock_fs" where
  "lock_step op fs = lock_main (fst op) (snd op) fs"

definition lock_holder :: "lock_fs \<Rightarrow> (inode option \<times> (string \<times> inode) list) option" where
  "lock_holder fs = (if fs_dir fs = None then None else Some (lock_part fs))"

definition lock_grants :: "lock_env \<times> lock_command \<Rightarrow> cli_end option \<Rightarrow> bool" where
  "lock_grants op out =
     (case (snd op, out) of (Acquire ow ac ho pid, Some r) \<Rightarrow> ce_code r = 0 | _ \<Rightarrow> False)"

lemma check_codes:
  "check_authority loads fs = Inl (LockError st d code) \<Longrightarrow> code = 3 \<or> code = 1"
  by (drule check_authority_Inl) auto

lemma acquire_existing_code:
  assumes "fs_dir fs \<noteq> None" "acquire env ow ac ho pi fs = (Inl (LockError st d code), fs)"
  shows "code \<noteq> 0"
proof -
  have "code = 2" if "acquire_args ow ac ho pi = Inl (LockError st d code)"
    using that
    by (auto simp: acquire_args_def result_simps validate_id_def validate_positive_int_pid_def
        split: json.splits if_splits)
  then show ?thesis
    using assms check_codes [of "le_loads env" fs st d code] unfolding acquire_def
    by (auto split: if_splits sum.splits prod.splits)
qed

interpretation mutation_lock: token_lock lock_step lock_holder presents_token lock_grants
proof
  fix fs :: lock_fs and h and op :: "lock_env \<times> lock_command"
  assume h: "lock_holder fs = Some h"
  then have dir: "fs_dir fs \<noteq> None"
    by (simp add: lock_holder_def split: if_splits)
  {
    assume "\<not> presents_token op fs"
    then have "lock_part (snd (lock_step op fs)) = lock_part fs"
      using lock_main_part [OF dir, of "fst op" "snd op"] by (simp add: lock_step_def)
    then show "lock_holder (snd (lock_step op fs)) = Some h"
      using h by (auto simp: lock_holder_def lock_part_def split: if_splits)
  }
  show "\<not> lock_grants op (fst (lock_step op fs))"
  proof (cases "snd op")
    case (Acquire ow ac ho pid)
    obtain e where acq: "acquire (fst op) (JStr ow) (JStr ac) (JStr ho) (JInt pid) fs = (Inl e, fs)"
      using acquire_existing [OF dir] by blast
    then show ?thesis
      using acquire_existing_code [OF dir, of "fst op"]
      by (cases e) (auto simp: lock_grants_def lock_step_def lock_main_def run_command_def Acquire Let_def)
  qed (auto simp: lock_grants_def)
qed

text \<open>
  C3: Mutual exclusion over time: once the lock directory exists, no sequence of commands, by any
  processes, with any failures of the operating system, changes the lock or makes an acquire succeed,
  as long as none of them presents the token stored in it; this also holds for a lock in an invalid
  state, which is never repaired.
\<close>
theorem lock_exclusive:
  assumes "fs_dir fs \<noteq> None" "never_presented lock_step presents_token ops fs"
  shows "lock_part (snd (run_ops lock_step ops fs)) = lock_part fs
    \<and> list_all (\<lambda>(op, out). \<not> lock_grants op out) (fst (run_ops lock_step ops fs))"
  using mutation_lock.run_keeps [of fs "lock_part fs" ops] assms
  by (auto simp: lock_holder_def split: if_splits)

definition held_fs :: lock_fs where
  "held_fs = free_fs\<lparr>fs_dir := Some new_directory, fs_entries := [(OWNER_FILE, new_file (canonical_meta example_meta))]\<rparr>"

abbreviation example_stored :: dict where
  "example_stored \<equiv> stored_meta (replicate 64 CHR ''a'') ''ops'' ''deploy'' ''host-1'' 42 ''2025-01-01T00:00:00Z''"

lemma held_fs_held: "check_authority (le_loads example_lock_env) held_fs = Inr example_stored"
proof -
  have "meta_ok example_stored"
    by (rule meta_ok_stored) code_simp+
  moreover have "le_loads example_lock_env x = Inr (JObj example_stored)" for x
    by (simp add: example_lock_env_def example_meta_def sort_owner_meta del: sort_keys.simps)
  ultimately show ?thesis
    by (simp add: check_authority_Inr held_def held_fs_def free_fs_def owner_inode_def only_owner_file_def dir_ok_def
        file_ok_def new_file_def new_directory_def root_owned_def)
qed

lemma meta_token_example: "meta_token example_stored = replicate 64 CHR ''a''"
  by (simp add: meta_token_def stored_meta_def dget_Cons)

theorem lock_exclusive_witness:
  "lock_part (snd (run_ops lock_step
     [(example_lock_env, Acquire ''ops'' ''deploy'' ''host-1'' 42),
      (example_lock_env, Release (replicate 64 CHR ''b'') True)] held_fs)) = lock_part held_fs"
proof -
  let ?acq = "Acquire ''ops'' ''deploy'' ''host-1'' 42" and ?rel = "Release (replicate 64 CHR ''b'') True"
  have dir: "fs_dir held_fs \<noteq> None"
    by (simp add: held_fs_def)
  have other: "\<not> presents_token (example_lock_env, ?acq) held_fs" "\<not> presents_token (example_lock_env, ?rel) held_fs"
    by (simp_all add: presents_token_def held_fs_held command_token_def meta_token_example)
  have acq: "snd (lock_step (example_lock_env, ?acq) held_fs) = held_fs"
    using acquire_existing [OF dir, of example_lock_env "JStr ''ops''" "JStr ''deploy''" "JStr ''host-1''" "JInt 42"]
    by (auto simp: lock_step_def lock_main_def run_command_def Let_def split: lock_exc.splits)
  show ?thesis
    using lock_exclusive [OF dir, of "[(example_lock_env, ?acq), (example_lock_env, ?rel)]"] other acq by simp
qed

section \<open>Recovery\<close>

lemma audit_append_None:
  assumes "audit_append env entry fs = (None, fs1)"
  obtains f where "fs_audit fs1 = Some f" "file_ok f"
    "in_data f = (case fs_audit fs of None \<Rightarrow> [] | Some g \<Rightarrow> in_data g) @ audit_line entry"
    "\<And>p. fs_audit_parent fs = Some p \<Longrightarrow> in_kind p = Directory \<and> root_owned p"
proof -
  define lf where "lf = (case fs_audit fs of None \<Rightarrow> new_file [] | Some f \<Rightarrow> f)"
  have "file_ok lf \<and> fs1 = fs\<lparr>fs_audit := Some (lf\<lparr>in_data := in_data lf @ audit_line entry\<rparr>)\<rparr>
      \<and> (\<forall>p. fs_audit_parent fs = Some p \<longrightarrow> in_kind p = Directory \<and> root_owned p)"
    using assms unfolding audit_append_def lf_def [symmetric] file_ok_def Let_def
    by (auto split: option.splits if_splits audit_end.splits)
  then show ?thesis
    using that [of "lf\<lparr>in_data := in_data lf @ audit_line entry\<rparr>"]
    by (auto simp: file_ok_def root_owned_def lf_def new_file_def split: option.splits)
qed

lemma remove_lock_audit: "fs_audit (snd (remove_lock r fs)) = fs_audit fs"
  by (auto simp: remove_lock_def drop_dir_def drop_entry_def split: remove_end.split os_fault.split)

text \<open>
  C25: A recovery is never silent: if it changes the lock in any way, then it ran as root with the stop
  of the owner confirmed, it presented the token in the authority file, both probes had succeeded, and
  before the change the audit log, a root-owned private file, had received one complete line with
  the operator, the reason, the owner of the lock and the digest of its token.
\<close>
theorem recover_needs_evidence:
  assumes "recover env token operator reason confirm fs = (r, fs')" "lock_part fs' \<noteq> lock_part fs"
  shows "\<exists>meta op why log.
      le_root env \<and> confirm \<and> pr_ok (le_systemd env) \<and> pr_ok (le_processes env)
      \<and> operator = JStr op \<and> lock_id_shape op \<and> reason = JStr why \<and> lock_id_shape why
      \<and> held (le_loads env) fs meta \<and> token = JStr (meta_token meta)
      \<and> fs_audit fs' = Some log \<and> file_ok log
      \<and> in_data log = (case fs_audit fs of None \<Rightarrow> [] | Some g \<Rightarrow> in_data g)
          @ audit_line (audit_entry (le_sha env) (le_now env) op why meta)"
proof -
  obtain entry where check: "recover_check env token operator reason confirm fs = Inr entry"
    and app: "fst (audit_append env entry fs) = None"
    and fs': "fs' = snd (remove_lock (le_remove env) (snd (audit_append env entry fs)))"
    using recover_changes [OF assms] by blast
  obtain f where "fs_audit (snd (audit_append env entry fs)) = Some f" "file_ok f"
    "in_data f = (case fs_audit fs of None \<Rightarrow> [] | Some g \<Rightarrow> in_data g) @ audit_line entry"
    using audit_append_None [of env entry fs "snd (audit_append env entry fs)"] app
    by (metis prod.collapse)
  then show ?thesis
    using check by (auto simp: recover_check_Inr fs' remove_lock_audit check_authority_Inr)
qed

lemma example_recover:
  "recover example_lock_env (JStr (replicate 64 CHR ''a'')) (JStr ''op'') (JStr ''why'') True held_fs =
     (Inr [(''state'', JStr ''recovered''), (''phase'', JStr ''free''),
        (''receipt_digest'', JStr (''sha256:'' @ replicate 64 CHR ''0''))],
      drop_dir (drop_entry OWNER_FILE (held_fs\<lparr>fs_audit := Some (new_file (audit_line
        (audit_entry (le_sha example_lock_env) (le_now example_lock_env) ''op'' ''why'' example_stored)))\<rparr>)))"
proof -
  define entry where "entry = audit_entry (le_sha example_lock_env) (le_now example_lock_env) ''op'' ''why'' example_stored"
  have ids: "lock_id_shape ''op''" "lock_id_shape ''why''" "is_hex64 (replicate 64 CHR ''a'')"
    by code_simp+
  have check: "recover_check example_lock_env (JStr (replicate 64 CHR ''a'')) (JStr ''op'') (JStr ''why'') True held_fs = Inr entry"
    using ids held_fs_held meta_token_example unfolding recover_check_Inr entry_def
    by (auto simp: example_lock_env_def)
  have app: "audit_append example_lock_env entry held_fs = (None, held_fs\<lparr>fs_audit := Some (new_file (audit_line entry))\<rparr>)"
    by (simp add: audit_append_def held_fs_def free_fs_def new_directory_def root_owned_def new_file_def
        example_lock_env_def)
  have env: "le_remove example_lock_env = Removed" "le_sha example_lock_env = (\<lambda>s. replicate 64 CHR ''0'')"
    by (simp_all add: example_lock_env_def)
  show ?thesis
    using check app unfolding recover_def
    by (simp add: remove_lock_def env token_digest_def entry_def)
qed

theorem recover_needs_evidence_witness:
  "pr_ok (le_systemd example_lock_env)
   \<and> fs_audit (snd (recover example_lock_env (JStr (replicate 64 CHR ''a'')) (JStr ''op'') (JStr ''why'') True held_fs)) \<noteq> None"
proof -
  have "lock_part (snd (recover example_lock_env (JStr (replicate 64 CHR ''a'')) (JStr ''op'') (JStr ''why'') True held_fs))
      \<noteq> lock_part held_fs"
    unfolding example_recover by (simp add: lock_part_def drop_dir_def held_fs_def)
  then show ?thesis
    using recover_needs_evidence [OF prod.collapse [symmetric],
        of example_lock_env "JStr (replicate 64 CHR ''a'')" "JStr ''op''" "JStr ''why''" True held_fs]
    by blast
qed

section \<open>Failures\<close>

text \<open>
  A failed acquire leaves no lock behind: on a free lock, unless the clean-up itself fails or the
  temporary file cannot be removed, the file system is as it was; and even then what is left is not
  a lock that anybody holds, except when the write failed after the rename and \<open>owner.json\<close> could not
  be removed again.
\<close>
theorem failed_acquire_leaves_nothing:
  assumes "acquire env ow ac ho pi fs = (Inl e, fs')" "lock_free fs"
  shows "(le_cleanup env = CleanDone \<and> (\<forall>m. le_write env \<noteq> FailedEarly m True) \<longrightarrow> fs' = fs)
    \<and> ((\<exists>meta. held (le_loads env) fs' meta) \<longrightarrow>
         le_cleanup env = CleanUnlinkFails \<and> (\<exists>m. le_write env = FailedLate m))"
proof (cases "fs' = fs")
  case True
  then show ?thesis
    using assms(2) by (auto simp: held_def lock_free_def)
next
  case False
  define fs1 where "fs1 = fs\<lparr>fs_dir := Some new_directory, fs_entries := []\<rparr>"
  obtain o' a h p where fresh: "acquire_fresh env o' a h p fs1 = (Inl e, fs')"
    using assms False by (auto simp: acquire_def lock_free_def fs1_def split: if_splits sum.splits option.splits prod.splits)
  have undo: "drop_dir fs1 = fs" "drop_entry OWNER_FILE fs1 = fs1"
    "drop_dir (drop_entry OWNER_FILE (put_entry OWNER_FILE x fs1)) = fs"
    "drop_entry OWNER_FILE (put_entry OWNER_FILE x fs1) = fs1" for x
    using assms(2) by (simp_all add: fs1_def drop_dir_def drop_entry_def put_entry_def lock_free_def)
  have free: "\<not> held l fs1 m" "\<not> held l fs m" for l m
    using assms(2) by (simp_all add: held_def fs1_def owner_inode_def lock_free_def)
  have tmp: "\<not> held l (put_entry (''.owner.json.tmp.'' @ x) i fs1) m" for l x i m
    by (simp add: held_def owner_inode_def put_entry_def fs1_def OWNER_FILE_def)
  show ?thesis
  proof (cases "le_chown env")
    case (Some c)
    then have "fs' = fs1 \<and> le_cleanup env = CleanRmdirFails \<or> fs' = fs"
      using fresh by (auto simp: acquire_fresh_def undo split: if_splits)
    then show ?thesis
      using free by auto
  next
    case None
    define meta where "meta = owner_meta (le_token env) o' a h p (le_now env)"
    obtain m fs2 where w: "write_owner env meta fs1 = (Some m, fs2)" and fs': "fs' = clean_partial env fs2"
      using fresh None by (auto simp: acquire_fresh_def meta_def Let_def split: prod.splits option.splits)
    show ?thesis
    proof (cases "le_write env")
      case WriteDone
      then show ?thesis
        using w by (simp add: write_owner_def)
    next
      case (FailedEarly m' left)
      have kept: "clean_partial env (put_entry (''.owner.json.tmp.'' @ x) i fs1) = put_entry (''.owner.json.tmp.'' @ x) i fs1" for x i
        by (simp add: clean_partial_def put_entry_def OWNER_FILE_def)
      have "clean_partial env fs1 = (if le_cleanup env = CleanDone then fs else fs1)"
        by (cases "le_cleanup env") (simp_all add: clean_partial_def undo, simp_all add: fs1_def)
      then have "left \<and> fs' = put_entry (''.owner.json.tmp.'' @ le_tmp_suffix env) (new_file (canonical_meta meta)) fs1
          \<or> \<not> left \<and> fs' = (if le_cleanup env = CleanDone then fs else fs1)"
        using w FailedEarly kept by (cases left) (simp_all add: fs' write_owner_def Let_def, metis)
      then show ?thesis
        using FailedEarly free tmp by (auto split: if_splits)
    next
      case (FailedLate m')
      then have fs2: "fs2 = put_entry OWNER_FILE (new_file (canonical_meta meta)) fs1"
        using w by (simp add: write_owner_def Let_def)
      then have "list_all (\<lambda>e. fst e = OWNER_FILE) (fs_entries fs2)"
        by (simp add: put_entry_def fs1_def)
      then have "fs' = (case le_cleanup env of CleanUnlinkFails \<Rightarrow> fs2 | CleanRmdirFails \<Rightarrow> fs1 | CleanDone \<Rightarrow> fs)"
        by (simp add: fs' clean_partial_def fs2 undo split: cleanup_end.split)
      then show ?thesis
        using FailedLate free by (cases "le_cleanup env") auto
    qed
  qed
qed

definition failing_lock_env :: lock_env where
  "failing_lock_env = example_lock_env\<lparr>le_write := FailedLate ''injected dir fsync failure''\<rparr>"

theorem failed_acquire_leaves_nothing_witness:
  "snd (acquire failing_lock_env (JStr ''ops'') (JStr ''deploy'') (JStr ''host-1'') (JInt 42) free_fs) = free_fs"
proof -
  let ?r = "acquire failing_lock_env (JStr ''ops'') (JStr ''deploy'') (JStr ''host-1'') (JInt 42) free_fs"
  have "\<exists>e. fst ?r = Inl e"
    using example_lock_facts(6)
    by (simp add: acquire_def failing_lock_env_def example_lock_env_def free_fs_def acquire_fresh_def
        write_owner_def Let_def)
  then obtain e where "?r = (Inl e, snd ?r)"
    by (metis prod.collapse)
  then show ?thesis
    using failed_acquire_leaves_nothing [of failing_lock_env "JStr ''ops''" "JStr ''deploy''" "JStr ''host-1''"
        "JInt 42" free_fs e "snd ?r"] example_lock_facts(3)
    by (simp add: failing_lock_env_def example_lock_env_def)
qed

subsection \<open>Exit codes\<close>

definition bounded_error :: "lock_exc \<Rightarrow> bool" where
  "bounded_error e = (case e of LockError st d code \<Rightarrow> 1 \<le> code \<and> code \<le> 6 | Escaped x \<Rightarrow> False)"

lemma bounded_error_simps [simp]:
  "bounded_error (LockError st d code) \<longleftrightarrow> 1 \<le> code \<and> code \<le> 6" "\<not> bounded_error (Escaped x)"
  by (simp_all add: bounded_error_def)

lemma validator_errors:
  "validate_id v f = Inl e \<Longrightarrow> bounded_error e"
  "validate_positive_int_pid v f = Inl e \<Longrightarrow> bounded_error e"
  "validate_token_shape v = Inl e \<Longrightarrow> bounded_error e"
  "acquire_args ow ac ho pi = Inl e \<Longrightarrow> bounded_error e"
proof -
  show id: "validate_id v f = Inl e \<Longrightarrow> bounded_error e" for v f
    by (auto simp: validate_id_def split: json.splits if_splits)
  show pid: "validate_positive_int_pid v f = Inl e \<Longrightarrow> bounded_error e" for v f
    by (auto simp: validate_positive_int_pid_def split: json.splits if_splits)
  show "validate_token_shape v = Inl e \<Longrightarrow> bounded_error e"
    by (auto simp: validate_token_shape_def split: json.splits if_splits)
  show "acquire_args ow ac ho pi = Inl e \<Longrightarrow> bounded_error e"
    by (auto simp: acquire_args_def ebind_eq_Inl dest: id pid)
qed

lemma check_authority_error:
  "check_authority loads fs = Inl e \<Longrightarrow> bounded_error e \<or> e = Escaped ''TypeError''"
  by (drule check_authority_Inl) auto

lemma token_file_error:
  assumes "read_token_file env path = Inl e"
  shows "bounded_error e"
proof -
  have parent: "check_token_parent p = Inl e \<Longrightarrow> bounded_error e" for p e
    by (auto simp: check_token_parent_def split: option.splits if_splits)
  have stat: "check_token_stat st = Inl e \<Longrightarrow> bounded_error e" for st e
    by (auto simp: check_token_stat_def split: option.splits if_splits)
  have bytes: "token_of_bytes raw = Inl e \<Longrightarrow> bounded_error e" for raw e
    by (auto simp: token_of_bytes_def Let_def split: if_splits)
  let ?tf = "le_token_file env path"
  show ?thesis
  proof (cases "check_token_stat (tf_stat1 ?tf)")
    case (Inr st1)
    then show ?thesis
      using assms parent bytes unfolding read_token_file_def Let_def
      by (cases "check_token_parent (tf_parent ?tf)"; cases "tf_read ?tf (st_size st1 + 1)"; cases "tf_stat2 ?tf")
        (auto split: if_splits)
  next
    case (Inl e')
    then show ?thesis
      using assms parent stat [OF Inl] unfolding read_token_file_def Let_def
      by (cases "check_token_parent (tf_parent ?tf)") (auto split: if_splits)
  qed
qed

text \<open>The only exception of an operation that is not a \<open>LockError\<close> comes from the authority check.\<close>
definition expected_error :: "lock_env \<Rightarrow> lock_fs \<Rightarrow> lock_exc \<Rightarrow> bool" where
  "expected_error env fs e = (bounded_error e \<or> (e = Escaped ''TypeError'' \<and> check_authority (le_loads env) fs = Inl e))"

lemma acquire_error: "acquire env ow ac ho pi fs = (Inl e, fs') \<Longrightarrow> expected_error env fs e"
  unfolding acquire_def acquire_fresh_def expected_error_def Let_def
  by (auto split: if_splits sum.splits option.splits prod.splits dest: validator_errors check_authority_error)

lemma status_error:
  assumes "lock_status env t fs = Inl e"
  shows "expected_error env fs e"
proof (cases "case t of None \<Rightarrow> Inr [] | Some t \<Rightarrow> validate_token_shape t")
  case (Inl e')
  then have "bounded_error e'"
    by (auto split: option.splits dest: validator_errors)
  then show ?thesis
    using assms Inl by (simp add: lock_status_def expected_error_def)
next
  case (Inr x)
  show ?thesis
  proof (cases "check_authority (le_loads env) fs")
    case (Inl e')
    then show ?thesis
      using assms Inr check_authority_error [OF Inl]
      by (cases e') (auto simp: lock_status_def expected_error_def split: if_splits)
  qed (use assms Inr in \<open>simp add: lock_status_def\<close>)
qed

lemma release_error: "release env t allow fs = (Inl e, fs') \<Longrightarrow> expected_error env fs e"
  unfolding release_def expected_error_def
  by (auto split: if_splits sum.splits option.splits prod.splits lock_exc.splits os_fault.splits
      dest: validator_errors check_authority_error)

lemma recover_error:
  assumes "recover env t op why confirm fs = (Inl e, fs')"
  shows "expected_error env fs e"
proof (cases "recover_check env t op why confirm fs")
  case (Inl e')
  then have "expected_error env fs e'"
    unfolding recover_check_def expected_error_def
    by (auto simp: ebind_eq_Inl split: if_splits dest: validator_errors check_authority_error)
  then show ?thesis
    using assms Inl by (simp add: recover_def)
next
  case (Inr entry)
  then show ?thesis
    using assms by (auto simp: recover_def expected_error_def split: prod.splits option.splits)
qed

lemma run_command_error:
  assumes "run_command env c fs = (Inl e, fs')"
  shows "expected_error env fs e"
proof (cases c)
  case (Acquire ow ac ho pid)
  then show ?thesis
    using assms acquire_error [of env "JStr ow" "JStr ac" "JStr ho" "JInt pid" fs]
    by (auto simp: run_command_def expected_error_def split: prod.splits sum.splits if_splits)
next
  case (Status t)
  then show ?thesis
    using assms status_error by (auto simp: run_command_def ebind_eq_Inl)
next
  case (Release t allow)
  then show ?thesis
    using assms release_error by (auto simp: run_command_def ebind_eq_Inl split: prod.splits)
next
  case (Recover source op why confirm)
  then show ?thesis
    using assms recover_error token_file_error [of env]
    by (auto simp: run_command_def ebind_eq_Inl expected_error_def split: prod.splits sum.splits)
qed

lemma run_command_output: "run_command env c fs = (Inr out, fs') \<Longrightarrow> out \<noteq> []"
  by (auto simp: run_command_def json_out_def result_simps split: lock_command.splits prod.splits sum.splits if_splits)

text \<open>
  Every run of the script ends in one of three ways: success with exit code 0, something on the
  standard output and nothing on the error stream; an error with a code from 1 to 6, nothing on the
  standard output and one JSON line on the error stream; or an uncaught \<open>TypeError\<close>, and this only
  when the token in \<open>owner.json\<close> is not a string.
\<close>
theorem lock_exit_codes:
  "case lock_main env c fs of
     (Some r, fs') \<Rightarrow> (if ce_code r = 0 then ce_stdout r \<noteq> [] \<and> ce_stderr r = []
        else 1 \<le> ce_code r \<and> ce_code r \<le> 6 \<and> ce_stdout r = [] \<and> ce_stderr r \<noteq> [])
   | (None, fs') \<Rightarrow> check_authority (le_loads env) fs = Inl (Escaped ''TypeError'')"
proof -
  obtain res fs' where run: "run_command env c fs = (res, fs')" by fastforce
  show ?thesis
  proof (cases res)
    case (Inr out)
    then show ?thesis
      using run run_command_output by (auto simp: lock_main_def)
  next
    case (Inl e)
    then have "expected_error env fs e"
      using run run_command_error by blast
    then show ?thesis
      using run Inl by (cases e) (auto simp: lock_main_def expected_error_def json_out_def Let_def)
  qed
qed

text \<open>A lock directory without \<open>owner.json\<close> is refused by every command.\<close>
lemma broken_authority:
  assumes "fs_dir fs \<noteq> None" "owner_inode fs = None"
  obtains why where "check_authority loads fs = Inl (invalid_lock why)"
proof (cases "check_lock_dir fs")
  case (Inl e)
  then show ?thesis
    using assms that by (auto simp: check_authority_def check_lock_dir_def split: if_splits)
next
  case (Inr u)
  have "check_owner_file fs = Inl (invalid_lock ''owner.json is missing'')"
    using assms(2) by (simp add: check_owner_file_def)
  then show ?thesis
    using that Inr by (simp add: check_authority_def)
qed

lemma broken_step:
  assumes "fs_dir fs \<noteq> None" "owner_inode fs = None"
  shows "\<exists>r. lock_step op fs = (Some r, fs) \<and> ce_code r \<noteq> 0"
proof -
  obtain env c where op: "op = (env, c)" by (cases op)
  obtain why where check: "check_authority (le_loads env) fs = Inl (invalid_lock why)"
    using broken_authority [OF assms] by blast
  have "\<exists>e. run_command env c fs = (Inl e, fs)"
  proof (cases c)
    case (Acquire ow ac ho pid)
    then show ?thesis
      using acquire_existing [OF assms(1), of env "JStr ow" "JStr ac" "JStr ho" "JInt pid"]
      by (auto simp: run_command_def)
  next
    case (Status t)
    have "\<exists>e. lock_status env (map_option JStr t) fs = Inl e"
      using check by (auto simp: lock_status_def ebind_def split: sum.split)
    then show ?thesis
      by (auto simp: run_command_def Status)
  next
    case (Release t allow)
    have "\<exists>e. release env (JStr t) allow fs = (Inl e, fs)"
      using check by (auto simp: release_def split: sum.split)
    then show ?thesis
      by (auto simp: run_command_def Release)
  next
    case (Recover source oper reason confirm)
    have "\<exists>e. recover env (JStr t) (JStr oper) (JStr reason) confirm fs = (Inl e, fs)" for t
    proof -
      have "recover_check env (JStr t) (JStr oper) (JStr reason) confirm fs \<noteq> Inr entry" for entry
        using check by (auto simp: recover_check_Inr)
      then show ?thesis
        by (cases "recover_check env (JStr t) (JStr oper) (JStr reason) confirm fs") (auto simp: recover_def)
    qed
    then show ?thesis
      by (auto simp: run_command_def Recover split: sum.splits) (metis ebind_simps(1) case_prod_conv)+
  qed
  then obtain e where run: "run_command env c fs = (Inl e, fs)" by blast
  then have "bounded_error e"
    using run_command_error [OF run] check by (auto simp: expected_error_def)
  then show ?thesis
    using run by (cases e) (auto simp: op lock_step_def lock_main_def Let_def)
qed

text \<open>
  A release that fails half-way fails closed: when the lock directory is left without \<open>owner.json\<close>,
  the lock is neither free nor held, and every later sequence of commands ends each with an exit code
  other than 0 and leaves the file system as it is, until an operator removes the directory by hand.
\<close>
theorem partial_release_fails_closed:
  assumes "release env token allow fs = (r, fs1)" "fs_dir fs1 \<noteq> None" "fs1 \<noteq> fs"
  shows "snd (run_ops lock_step ops fs1) = fs1
    \<and> list_all (\<lambda>(op, out). case out of None \<Rightarrow> False | Some r \<Rightarrow> ce_code r \<noteq> 0) (fst (run_ops lock_step ops fs1))"
proof -
  have "owner_inode fs1 = None"
    using assms
    by (elim release_changes)
      (auto simp: remove_lock_def drop_dir_def drop_entry_def owner_inode_def map_of_eq_None_iff
        split: remove_end.splits os_fault.splits)
  then have "list_all (\<lambda>(op, out). case out of None \<Rightarrow> False | Some r \<Rightarrow> ce_code r \<noteq> 0) (fst (run_ops lock_step ops fs1))
      \<and> snd (run_ops lock_step ops fs1) = fs1"
  proof (induction ops)
    case (Cons op ops)
    obtain r where "lock_step op fs1 = (Some r, fs1)" "ce_code r \<noteq> 0"
      using broken_step [OF assms(2) Cons.prems] by blast
    then show ?case
      using Cons by (auto simp: split_beta)
  qed simp
  then show ?thesis by simp
qed

definition stuck_env :: lock_env where
  "stuck_env = example_lock_env\<lparr>le_remove := RmdirFails (OsFault ''[Errno 16] Device or resource busy'')\<rparr>"

theorem partial_release_fails_closed_witness:
  "snd (run_ops lock_step [(example_lock_env, Acquire ''ops'' ''deploy'' ''host-1'' 42)]
      (snd (release stuck_env (JStr (replicate 64 CHR ''a'')) True held_fs)))
     = snd (release stuck_env (JStr (replicate 64 CHR ''a'')) True held_fs)"
proof -
  let ?r = "release stuck_env (JStr (replicate 64 CHR ''a'')) True held_fs"
  have "check_authority (le_loads stuck_env) held_fs = Inr example_stored"
    using held_fs_held by (simp add: stuck_env_def)
  moreover have "is_hex64 (replicate 64 CHR ''a'')"
    by code_simp
  ultimately have "snd ?r = drop_entry OWNER_FILE held_fs"
    by (simp add: release_def validate_token_shape_def meta_token_example remove_lock_def)
      (simp add: stuck_env_def example_lock_env_def)
  then have "fs_dir (snd ?r) \<noteq> None" "snd ?r \<noteq> held_fs"
    by (auto simp: drop_entry_def held_fs_def dest!: arg_cong [of _ _ fs_entries])
  then show ?thesis
    using partial_release_fails_closed [of stuck_env "JStr (replicate 64 CHR ''a'')" True held_fs "fst ?r" "snd ?r"
        "[(example_lock_env, Acquire ''ops'' ''deploy'' ''host-1'' 42)]"]
    by (simp del: run_ops.simps)
qed

section \<open>The token stays secret\<close>

text \<open>The token that a command names, as a proof or as a guess.\<close>
definition mentioned_token :: "lock_env \<Rightarrow> lock_command \<Rightarrow> string option" where
  "mentioned_token env c = (case c of Status t \<Rightarrow> t | _ \<Rightarrow> command_token env c)"

text \<open>Two authorities that agree in all but the token, and in the digest and the prefix of the token.\<close>
definition same_but_token :: "(string \<Rightarrow> string) \<Rightarrow> dict \<Rightarrow> dict \<Rightarrow> bool" where
  "same_but_token sha m1 m2 =
     (list_all (\<lambda>k. k = ''token'' \<or> dget m1 k = dget m2 k) OWNER_KEYS
      \<and> token_digest sha (meta_token m1) = token_digest sha (meta_token m2)
      \<and> token_prefix (meta_token m1) = token_prefix (meta_token m2))"

lemma redact_same: "same_but_token sha m1 m2 \<Longrightarrow> redact_meta sha m1 = redact_meta sha m2"
  by (simp add: same_but_token_def redact_meta_def OWNER_KEYS_def)

text \<open>
  The outputs do not reveal the token: for two held locks that differ only in their tokens, where
  the tokens have the same digest and the same first 16 characters, any command that does not name
  one of the two tokens shows the same standard output, error stream and exit code.
\<close>
theorem lock_output_hides_token:
  assumes "held (le_loads env) fs1 m1" "held (le_loads env) fs2 m2" "same_but_token (le_sha env) m1 m2"
    and "mentioned_token env c \<noteq> Some (meta_token m1)" "mentioned_token env c \<noteq> Some (meta_token m2)"
  shows "fst (lock_main env c fs1) = fst (lock_main env c fs2)"
proof -
  have check: "check_authority (le_loads env) fs1 = Inr m1" "check_authority (le_loads env) fs2 = Inr m2"
    using assms(1,2) by (simp_all add: check_authority_Inr)
  have dir: "fs_dir fs1 \<noteq> None" "fs_dir fs2 \<noteq> None"
    using assms(1,2) by (auto simp: held_def)
  note red = redact_same [OF assms(3)]
  have "fst (run_command env c fs1) = fst (run_command env c fs2)"
  proof (cases c)
    case (Acquire ow ac ho pid)
    have "fst (acquire env (JStr ow) (JStr ac) (JStr ho) (JInt pid) fs1)
        = fst (acquire env (JStr ow) (JStr ac) (JStr ho) (JInt pid) fs2)"
      using dir check by (simp add: acquire_def red split: sum.split)
    moreover obtain e1 where "acquire env (JStr ow) (JStr ac) (JStr ho) (JInt pid) fs1 = (Inl e1, fs1)"
      using acquire_existing [OF dir(1)] by blast
    moreover obtain e2 where "acquire env (JStr ow) (JStr ac) (JStr ho) (JInt pid) fs2 = (Inl e2, fs2)"
      using acquire_existing [OF dir(2)] by blast
    ultimately show ?thesis
      by (simp add: run_command_def Acquire)
  next
    case (Status t)
    have "lock_status env (map_option JStr t) fs1 = lock_status env (map_option JStr t) fs2"
      using assms(4,5) check
      by (cases t) (auto simp: lock_status_def red Status mentioned_token_def validate_token_shape_def)
    then show ?thesis
      by (simp add: run_command_def Status)
  next
    case (Release t allow)
    then have "t \<noteq> meta_token m1" "t \<noteq> meta_token m2"
      using assms(4,5) by (auto simp: mentioned_token_def command_token_def)
    then have "fst (release env (JStr t) allow fs1) = fst (release env (JStr t) allow fs2)"
      using check by (auto simp: release_def validate_token_shape_def)
    then show ?thesis
      by (simp add: run_command_def Release split_beta)
  next
    case (Recover source oper reason confirm)
    show ?thesis
    proof (cases "case source of Inl t \<Rightarrow> Inr t | Inr path \<Rightarrow> read_token_file env path")
      case (Inl e)
      then show ?thesis
        by (simp add: run_command_def Recover)
    next
      case (Inr t)
      then have "command_token env c = Some t"
        by (cases source) (simp_all add: command_token_def Recover)
      then have t: "t \<noteq> meta_token m1" "t \<noteq> meta_token m2"
        using assms(4,5) by (auto simp: mentioned_token_def Recover)
      have "recover_check env (JStr t) (JStr oper) (JStr reason) confirm fs1
          = recover_check env (JStr t) (JStr oper) (JStr reason) confirm fs2"
        using check t by (auto simp: recover_check_def validate_token_shape_def ebind_def split: sum.split)
      moreover have "\<exists>e. recover_check env (JStr t) (JStr oper) (JStr reason) confirm fs1 = Inl e"
        using check t by (cases "recover_check env (JStr t) (JStr oper) (JStr reason) confirm fs1")
          (auto simp: recover_check_Inr)
      ultimately have "fst (recover env (JStr t) (JStr oper) (JStr reason) confirm fs1)
          = fst (recover env (JStr t) (JStr oper) (JStr reason) confirm fs2)"
        by (auto simp: recover_def)
      then show ?thesis
        using Inr by (simp add: run_command_def Recover split_beta)
    qed
  qed
  then show ?thesis
    by (cases "run_command env c fs1"; cases "run_command env c fs2")
      (auto simp: lock_main_def Let_def split: sum.splits lock_exc.splits)
qed

definition other_meta :: dict where
  "other_meta = stored_meta (replicate 16 CHR ''a'' @ replicate 48 CHR ''b'') ''ops'' ''deploy'' ''host-1'' 42 ''2025-01-01T00:00:00Z''"

definition two_env :: lock_env where
  "two_env = example_lock_env\<lparr>le_loads := (\<lambda>s. Inr (JObj (if s = ''1'' then example_stored else other_meta)))\<rparr>"

definition fs_with :: "string \<Rightarrow> lock_fs" where
  "fs_with data = free_fs\<lparr>fs_dir := Some new_directory, fs_entries := [(OWNER_FILE, new_file data)]\<rparr>"

theorem lock_output_hides_token_witness:
  "fst (lock_main two_env (Status None) (fs_with ''1'')) = fst (lock_main two_env (Status None) (fs_with ''2''))"
proof -
  have ok: "meta_ok example_stored" "meta_ok other_meta"
    unfolding other_meta_def by (rule meta_ok_stored; code_simp)+
  have "held (le_loads two_env) (fs_with d) (if d = ''1'' then example_stored else other_meta)" for d
    using ok by (simp add: held_def fs_with_def free_fs_def owner_inode_def only_owner_file_def dir_ok_def file_ok_def
        new_file_def new_directory_def root_owned_def two_env_def)
  from this [of "''1''"] this [of "''2''"]
  have held: "held (le_loads two_env) (fs_with ''1'') example_stored" "held (le_loads two_env) (fs_with ''2'') other_meta"
    by simp_all
  have "le_sha two_env = (\<lambda>s. replicate 64 CHR ''0'')"
    by (simp add: two_env_def example_lock_env_def)
  then have "same_but_token (le_sha two_env) example_stored other_meta"
    by (simp add: same_but_token_def OWNER_KEYS_def stored_meta_def other_meta_def dget_Cons meta_token_def
        token_digest_def token_prefix_def)
  from lock_output_hides_token [OF held this, of "Status None"] show ?thesis
    by (simp add: mentioned_token_def)
qed

section \<open>The token file\<close>

lemma check_token_parent_Inr:
  "check_token_parent p = Inr u \<longleftrightarrow>
     (\<exists>d. p = Some d \<and> in_kind d = Directory \<and> root_owned d \<and> in_mode d = MODE_0700)"
  by (auto simp: check_token_parent_def split: option.splits)

lemma check_token_stat_Inr:
  "check_token_stat st = Inr st1 \<longleftrightarrow>
     st = Some st1 \<and> file_ok (st_inode st1) \<and> (st_size st1 = 64 \<or> st_size st1 = 65)"
  by (auto simp: check_token_stat_def file_ok_def split: option.splits if_splits)

lemma hex64_ascii: "is_hex64 t \<Longrightarrow> list_all (\<lambda>c. ord c < 128) t \<and> nl \<notin> set t \<and> CHR 0x0D \<notin> set t \<and> t \<noteq> []"
  by (auto simp: is_hex64_def list_all_iff is_lower_hex_def is_digit_def between_def ord_def)

lemma token_of_bytes_Inr: "token_of_bytes raw = Inr t \<longleftrightarrow> is_hex64 t \<and> (raw = t \<or> raw = t @ [nl])"
proof -
  have "endswith raw [nl] \<Longrightarrow> raw = butlast raw @ [nl]"
    by (auto simp: endswith_iff)
  moreover have "\<not> endswith t [nl]" if "is_hex64 t"
    using hex64_ascii [OF that] by (auto simp: endswith_iff)
  moreover have "endswith (t @ [nl]) [nl]"
    by (simp add: endswith_iff)
  ultimately show ?thesis
    using hex64_ascii [of t] hex64_ascii [of raw] hex64_ascii [of "butlast raw"]
    by (auto simp: token_of_bytes_def Let_def)
qed

text \<open>
  The token file is read only where nobody else can have written it: a token comes out exactly if
  the path is absolute, the parent is a directory of root closed to others, the file is a regular
  file of root closed to others with one link, it has 64 or 65 bytes and did not change while it was
  read, and the bytes are the 64 hexadecimal digits of the token with at most one line feed.
\<close>
theorem token_file_exact:
  "read_token_file env path = Inr t \<longleftrightarrow>
     (case le_token_file env path of tf \<Rightarrow>
      startswith path ''/''
      \<and> (\<exists>d. tf_parent tf = Some d \<and> in_kind d = Directory \<and> root_owned d \<and> in_mode d = MODE_0700)
      \<and> tf_opens tf
      \<and> (\<exists>st1 st2 raw. tf_stat1 tf = Some st1 \<and> file_ok (st_inode st1)
           \<and> (st_size st1 = 64 \<or> st_size st1 = 65)
           \<and> tf_read tf (st_size st1 + 1) = Some raw \<and> length raw = st_size st1
           \<and> tf_stat2 tf = Some st2 \<and> same_stat st2 st1
           \<and> is_hex64 t \<and> (raw = t \<or> raw = t @ [nl])))"
proof -
  define tf where "tf = le_token_file env path"
  have body: "(case tf_read tf (st_size st1 + 1) of
          None \<Rightarrow> Inl (blocked_op ''token-file read failed'')
        | Some raw \<Rightarrow>
            if length raw \<noteq> st_size st1
              then Inl (blocked_op ''token-file size changed between stat and read'')
            else
              (case tf_stat2 tf of
                 None \<Rightarrow> Inl (blocked_op ''token-file second fstat failed'')
               | Some st2 \<Rightarrow>
                   if \<not> same_stat st2 st1 then Inl (blocked_op ''token-file changed between stat calls'')
                   else token_of_bytes raw)) = Inr t \<longleftrightarrow>
      (\<exists>st2 raw. tf_read tf (st_size st1 + 1) = Some raw \<and> length raw = st_size st1 \<and> tf_stat2 tf = Some st2
         \<and> same_stat st2 st1 \<and> is_hex64 t \<and> (raw = t \<or> raw = t @ [nl]))" for st1
    by (cases "tf_read tf (st_size st1 + 1)"; cases "tf_stat2 tf") (simp_all add: token_of_bytes_Inr)
  have path: "(path = [] \<or> \<not> startswith path ''/'') \<longleftrightarrow> \<not> startswith path ''/''"
    by (cases path) simp_all
  show ?thesis
    unfolding read_token_file_def Let_def tf_def [symmetric] path if_Inl_eq_Inr ebind_eq_Inr
      check_token_parent_Inr check_token_stat_Inr body
    by auto
qed

end
