(* ===== verification/LockProtocol.thy ===== *)
theory LockProtocol
  imports Main
begin

text \<open>
  The lock of \<open>scripts/production-mutation-lock.py\<close> under several processes, one system call at a time.
  The state is what the processes share, whether the directory exists and which token \<open>owner.json\<close>
  holds, and where each process stands. \<open>mkdir\<close>, \<open>replace\<close>, \<open>unlink\<close> and \<open>rmdir\<close> are atomic; between
  the authority check of \<open>release\<close> (or \<open>recover\<close>) and its \<open>unlink\<close>, other processes run.

  A token is the number of the process that acquired it, since \<open>secrets.token_hex(32)\<close> does not repeat.
  The client of the token stops to use it when its release begins.

  \<^item> \<open>one_holder\<close>: if no two releases overlap, there is never more than one holder.
  \<^item> \<open>two_holders\<close>: without this discipline there can be two, because the check and the removal are
    not atomic.
  \<^item> \<open>holder_can_release\<close>: no reachable state with a holder is stuck.
\<close>

section \<open>Processes\<close>

datatype pc =
    Idle
  | Made            \<comment> \<open>\<open>mkdir\<close> has succeeded, \<open>owner.json\<close> is not written\<close>
  | Holding         \<comment> \<open>the token has been printed\<close>
  | Checked nat     \<comment> \<open>a release has found this token in \<open>owner.json\<close>\<close>
  | Unlinked        \<comment> \<open>a release has removed \<open>owner.json\<close>\<close>
  | Ended

record shared =
  sh_dir :: bool
  sh_owner :: "nat option"
  sh_pc :: "nat \<Rightarrow> pc"

definition start :: shared where
  "start = \<lparr>sh_dir = False, sh_owner = None, sh_pc = (\<lambda>p. Idle)\<rparr>"

definition releasing :: "pc \<Rightarrow> bool" where
  "releasing c = (case c of Checked t \<Rightarrow> True | Unlinked \<Rightarrow> True | _ \<Rightarrow> False)"

text \<open>The client that used the token ends.\<close>
definition retire :: "nat \<Rightarrow> (nat \<Rightarrow> pc) \<Rightarrow> nat \<Rightarrow> pc" where
  "retire t f = (if f t = Holding then f(t := Ended) else f)"

text \<open>
  One system call. With \<open>alone\<close>, a release begins only when no other one is under way; the other steps
  do not depend on it.
\<close>
inductive syscall :: "bool \<Rightarrow> shared \<Rightarrow> shared \<Rightarrow> bool" for alone :: bool where
  mkdir_ok: "sh_pc s p = Idle \<Longrightarrow> \<not> sh_dir s \<Longrightarrow>
     syscall alone s (s\<lparr>sh_dir := True, sh_pc := (sh_pc s)(p := Made)\<rparr>)"
| mkdir_exists: "sh_pc s p = Idle \<Longrightarrow> sh_dir s \<Longrightarrow>
     syscall alone s (s\<lparr>sh_pc := (sh_pc s)(p := Ended)\<rparr>)"
| replace_ok: "sh_pc s p = Made \<Longrightarrow> sh_dir s \<Longrightarrow>
     syscall alone s (s\<lparr>sh_owner := Some p, sh_pc := (sh_pc s)(p := Holding)\<rparr>)"
| replace_fails: "sh_pc s p = Made \<Longrightarrow> \<not> sh_dir s \<Longrightarrow>
     syscall alone s (s\<lparr>sh_pc := (sh_pc s)(p := Ended)\<rparr>)"
| check_ok: "sh_pc s q = Idle \<Longrightarrow> sh_dir s \<Longrightarrow> sh_owner s = Some t \<Longrightarrow>
     (alone \<longrightarrow> (\<forall>r. \<not> releasing (sh_pc s r))) \<Longrightarrow>
     syscall alone s (s\<lparr>sh_pc := (retire t (sh_pc s))(q := Checked t)\<rparr>)"
| unlink_ok: "sh_pc s q = Checked t \<Longrightarrow> sh_owner s \<noteq> None \<Longrightarrow>
     syscall alone s (s\<lparr>sh_owner := None, sh_pc := (sh_pc s)(q := Unlinked)\<rparr>)"
| unlink_fails: "sh_pc s q = Checked t \<Longrightarrow> sh_owner s = None \<Longrightarrow>
     syscall alone s (s\<lparr>sh_pc := (sh_pc s)(q := Ended)\<rparr>)"
| rmdir_ok: "sh_pc s q = Unlinked \<Longrightarrow> sh_dir s \<Longrightarrow> sh_owner s = None \<Longrightarrow>
     syscall alone s (s\<lparr>sh_dir := False, sh_pc := (sh_pc s)(q := Ended)\<rparr>)"
| rmdir_fails: "sh_pc s q = Unlinked \<Longrightarrow> \<not> sh_dir s \<or> sh_owner s \<noteq> None \<Longrightarrow>
     syscall alone s (s\<lparr>sh_pc := (sh_pc s)(q := Ended)\<rparr>)"

inductive_cases syscallE: "syscall alone s s'"

inductive reachable :: "bool \<Rightarrow> shared \<Rightarrow> bool" for alone :: bool where
  reach_start: "reachable alone start"
| reach_step: "reachable alone s \<Longrightarrow> syscall alone s s' \<Longrightarrow> reachable alone s'"

section \<open>Mutual exclusion\<close>

text \<open>A process that has made the directory, holds the token or is taking the lock down.\<close>
definition active :: "pc \<Rightarrow> bool" where
  "active c = (c \<noteq> Idle \<and> c \<noteq> Ended)"

lemma active_simps [simp]:
  "\<not> active Idle" "\<not> active Ended" "active Made" "active Holding" "active (Checked t)" "active Unlinked"
  by (simp_all add: active_def)

lemma releasing_simps [simp]:
  "\<not> releasing Idle" "\<not> releasing Ended" "\<not> releasing Made" "\<not> releasing Holding" "releasing (Checked t)"
  "releasing Unlinked"
  by (simp_all add: releasing_def)

text \<open>What \<open>owner.json\<close> contains while the process is active.\<close>
definition owner_of :: "nat \<Rightarrow> pc \<Rightarrow> nat option" where
  "owner_of p c = (case c of Holding \<Rightarrow> Some p | Checked t \<Rightarrow> Some t | _ \<Rightarrow> None)"

text \<open>Either the lock is free and no process is active, or exactly one is, and it owns what is there.\<close>
definition quiet :: "shared \<Rightarrow> bool" where
  "quiet s = (\<not> sh_dir s \<and> sh_owner s = None \<and> (\<forall>p. \<not> active (sh_pc s p)))"

definition owned_by :: "shared \<Rightarrow> nat \<Rightarrow> bool" where
  "owned_by s p =
     (sh_dir s \<and> active (sh_pc s p) \<and> (\<forall>q. q \<noteq> p \<longrightarrow> \<not> active (sh_pc s q)) \<and> sh_owner s = owner_of p (sh_pc s p))"

definition protocol_inv :: "shared \<Rightarrow> bool" where
  "protocol_inv s = (quiet s \<or> (\<exists>p. owned_by s p))"

lemma quiet_pc: "quiet s \<Longrightarrow> c = sh_pc s p \<Longrightarrow> active c \<Longrightarrow> False"
  by (simp add: quiet_def)

lemma quiet_step:
  assumes "quiet s" "syscall True s s'"
  shows "protocol_inv s'"
  using assms(2) assms(1)
proof cases
  case (mkdir_ok p)
  then have "owned_by s' p"
    using assms(1) by (auto simp: quiet_def owned_by_def owner_of_def)
  then show ?thesis by (auto simp: protocol_inv_def)
next
  case (replace_fails p)
  then show ?thesis using quiet_pc [OF assms(1), of Made p] by simp
next
  case (unlink_fails q t)
  then show ?thesis using quiet_pc [OF assms(1), of "Checked t" q] by simp
next
  case (rmdir_fails q)
  then show ?thesis using quiet_pc [OF assms(1), of Unlinked q] by simp
qed (use assms(1) in \<open>auto simp: quiet_def\<close>)

lemma owned_active: "owned_by s p \<Longrightarrow> active (sh_pc s q) \<Longrightarrow> q = p"
  by (auto simp: owned_by_def)

lemma owned_step:
  assumes own: "owned_by s p" and step: "syscall True s s'"
  shows "protocol_inv s'"
  using step
proof cases
  case (mkdir_ok q)
  then show ?thesis using own by (simp add: owned_by_def)
next
  case (mkdir_exists q)
  then have "owned_by s' p"
    using own by (auto simp: owned_by_def)
  then show ?thesis by (auto simp: protocol_inv_def)
next
  case (replace_ok q)
  then have "q = p"
    using owned_active [OF own, of q] by simp
  then have "owned_by s' p"
    using own replace_ok by (auto simp: owned_by_def owner_of_def)
  then show ?thesis by (auto simp: protocol_inv_def)
next
  case (replace_fails q)
  then show ?thesis using own by (simp add: owned_by_def)
next
  case (check_ok q t)
  then have "sh_pc s p = Holding" "t = p"
    using own by (cases "sh_pc s p"; auto simp: owned_by_def owner_of_def dest: spec [of _ p])+
  then have "owned_by s' q"
    using own check_ok by (auto simp: owned_by_def owner_of_def retire_def)
  then show ?thesis by (auto simp: protocol_inv_def)
next
  case (unlink_ok q t)
  then have "q = p"
    using owned_active [OF own, of q] by simp
  then have "owned_by s' p"
    using own unlink_ok by (auto simp: owned_by_def owner_of_def)
  then show ?thesis by (auto simp: protocol_inv_def)
next
  case (unlink_fails q t)
  then have "q = p"
    using owned_active [OF own, of q] by simp
  then show ?thesis
    using own unlink_fails by (simp add: owned_by_def owner_of_def)
next
  case (rmdir_ok q)
  then have "q = p"
    using owned_active [OF own, of q] by simp
  then have "quiet s'"
    using own rmdir_ok by (auto simp: owned_by_def quiet_def)
  then show ?thesis by (simp add: protocol_inv_def)
next
  case (rmdir_fails q)
  then have "q = p"
    using owned_active [OF own, of q] by simp
  then show ?thesis
    using own rmdir_fails by (auto simp: owned_by_def owner_of_def)
qed

lemma reachable_inv: "reachable True s \<Longrightarrow> protocol_inv s"
proof (induction rule: reachable.induct)
  case reach_start
  show ?case by (simp add: protocol_inv_def quiet_def start_def)
next
  case (reach_step s s')
  then show ?case
    using quiet_step [of s s'] owned_step [of s _ s'] unfolding protocol_inv_def [of s] by blast
qed


text \<open>A run of the protocol, as a list of states.\<close>
lemma reach_mkdir: "reachable a s \<Longrightarrow> sh_pc s p = Idle \<Longrightarrow> \<not> sh_dir s \<Longrightarrow>
    reachable a (s\<lparr>sh_dir := True, sh_pc := (sh_pc s)(p := Made)\<rparr>)"
  by (rule reach_step [OF _ mkdir_ok])

lemma reach_replace: "reachable a s \<Longrightarrow> sh_pc s p = Made \<Longrightarrow> sh_dir s \<Longrightarrow>
    reachable a (s\<lparr>sh_owner := Some p, sh_pc := (sh_pc s)(p := Holding)\<rparr>)"
  by (rule reach_step [OF _ replace_ok])

lemma reach_acquire:
  assumes "reachable a s" "sh_pc s p = Idle" "\<not> sh_dir s"
  shows "reachable a (s\<lparr>sh_dir := True, sh_owner := Some p, sh_pc := (sh_pc s)(p := Holding)\<rparr>)"
  using reach_replace [OF reach_mkdir [OF assms], of p] by simp

definition held_by_0 :: shared where
  "held_by_0 = \<lparr>sh_dir = True, sh_owner = Some 0, sh_pc = (\<lambda>p. Idle)(0 := Holding)\<rparr>"

lemma reach_held_by_0: "reachable a held_by_0"
  using reach_acquire [OF reach_start, of 0 a] by (simp add: start_def held_by_0_def)


section \<open>Without the discipline\<close>

text \<open>The remaining steps of a run, as rules that extend it.\<close>
lemma reach_check:
  "reachable False s \<Longrightarrow> sh_pc s q = Idle \<Longrightarrow> sh_dir s \<Longrightarrow> sh_owner s = Some t \<Longrightarrow>
   reachable False (s\<lparr>sh_pc := (retire t (sh_pc s))(q := Checked t)\<rparr>)"
  by (rule reach_step [OF _ check_ok]) simp_all

lemma reach_remove:
  assumes "reachable a s" "sh_pc s q = Checked t" "sh_owner s \<noteq> None" "sh_dir s"
  shows "reachable a (s\<lparr>sh_dir := False, sh_owner := None, sh_pc := (sh_pc s)(q := Ended)\<rparr>)"
proof -
  have "reachable a (s\<lparr>sh_owner := None, sh_pc := (sh_pc s)(q := Unlinked)\<rparr>)"
    using assms by (intro reach_step [OF _ unlink_ok])
  from reach_step [OF this rmdir_ok [of _ q]] show ?thesis
    using assms by (cases s) simp
qed

text \<open>
  The check and the removal of a release are not atomic, and without the discipline mutual exclusion
  fails: when two releases of the same token overlap, the second one can remove the lock that a
  third process has acquired in between, and then two processes hold tokens at the same time.
\<close>
theorem two_holders:
  "\<exists>s p q. reachable False s \<and> sh_pc s p = Holding \<and> sh_pc s q = Holding \<and> p \<noteq> q"
proof -
  define s1 where "s1 = held_by_0\<lparr>sh_pc := (retire 0 (sh_pc held_by_0))(1 := Checked 0)\<rparr>"
  define s2 where "s2 = s1\<lparr>sh_pc := (retire 0 (sh_pc s1))(2 := Checked 0)\<rparr>"
  define s3 where "s3 = s2\<lparr>sh_dir := False, sh_owner := None, sh_pc := (sh_pc s2)(1 := Ended)\<rparr>"
  define s4 where "s4 = s3\<lparr>sh_dir := True, sh_owner := Some 3, sh_pc := (sh_pc s3)(3 := Holding)\<rparr>"
  define s5 where "s5 = s4\<lparr>sh_dir := False, sh_owner := None, sh_pc := (sh_pc s4)(2 := Ended)\<rparr>"
  define s6 where "s6 = s5\<lparr>sh_dir := True, sh_owner := Some 4, sh_pc := (sh_pc s5)(4 := Holding)\<rparr>"
  note defs = s1_def s2_def s3_def s4_def s5_def s6_def held_by_0_def retire_def
  have "reachable False s1"
    unfolding s1_def by (rule reach_check [OF reach_held_by_0]) (simp_all add: held_by_0_def)
  then have "reachable False s2"
    unfolding s2_def by (rule reach_check) (simp_all add: defs)
  then have "reachable False s3"
    unfolding s3_def by (rule reach_remove) (simp_all add: defs)
  then have "reachable False s4"
    unfolding s4_def by (rule reach_acquire) (simp_all add: defs)
  then have "reachable False s5"
    unfolding s5_def by (rule reach_remove) (simp_all add: defs)
  then have "reachable False s6"
    unfolding s6_def by (rule reach_acquire) (simp_all add: defs)
  moreover have "sh_pc s6 3 = Holding" "sh_pc s6 4 = Holding"
    by (simp_all add: defs)
  ultimately show ?thesis by (intro exI [of _ s6] exI [of _ 3] exI [of _ 4]) simp
qed

section \<open>Progress\<close>

text \<open>
  No reachable state with a holder is stuck: a fresh process that releases the token can always take
  its three steps, and they leave the lock free for the next acquire.
\<close>
theorem holder_can_release:
  assumes "reachable True s" "sh_pc s p = Holding" "sh_pc s q = Idle"
  shows "\<exists>s1 s2 s3. syscall True s s1 \<and> syscall True s1 s2 \<and> syscall True s2 s3
    \<and> \<not> sh_dir s3 \<and> sh_owner s3 = None \<and> (\<forall>r. \<not> active (sh_pc s3 r))"
proof -
  have "\<not> quiet s"
    using assms(2) quiet_pc [of s "sh_pc s p" p] by auto
  then have own: "owned_by s p"
    using reachable_inv [OF assms(1)] owned_active [of s _ p] assms(2) by (auto simp: protocol_inv_def)
  then have others: "r \<noteq> p \<Longrightarrow> \<not> active (sh_pc s r)" for r
    by (simp add: owned_by_def)
  have owner: "sh_dir s" "sh_owner s = Some p"
    using own assms(2) by (simp_all add: owned_by_def owner_of_def)
  define s1 where "s1 = s\<lparr>sh_pc := (retire p (sh_pc s))(q := Checked p)\<rparr>"
  define s2 where "s2 = s1\<lparr>sh_owner := None, sh_pc := (sh_pc s1)(q := Unlinked)\<rparr>"
  define s3 where "s3 = s2\<lparr>sh_dir := False, sh_pc := (sh_pc s2)(q := Ended)\<rparr>"
  have "\<not> releasing (sh_pc s r)" for r
    using others [of r] assms(2) by (cases "r = p"; cases "sh_pc s r") simp_all
  then have "syscall True s s1"
    unfolding s1_def using assms(3) owner by (intro check_ok) simp_all
  moreover have "syscall True s1 s2"
    unfolding s2_def by (rule unlink_ok [of _ _ p]) (simp_all add: s1_def owner)
  moreover have "syscall True s2 s3"
    unfolding s3_def by (rule rmdir_ok) (simp_all add: s2_def s1_def owner)
  moreover have "\<not> active (sh_pc s3 r)" for r
    using others [of r] assms(2) by (cases "r = p") (auto simp: s3_def s2_def s1_def retire_def)
  ultimately show ?thesis
    by (intro exI [of _ s1] exI [of _ s2] exI [of _ s3]) (simp add: s3_def s2_def)
qed

theorem holder_can_release_witness:
  "\<exists>s1 s2 s3. syscall True held_by_0 s1 \<and> syscall True s1 s2 \<and> syscall True s2 s3 \<and> \<not> sh_dir s3"
  using holder_can_release [OF reach_held_by_0, of 0 1] by (auto simp: held_by_0_def)

end
