(* ===== verification/RegistryAuthority.thy ===== *)
theory RegistryAuthority
  imports CapacityAuthority
begin

text \<open>
  \<open>multinexus/registry_authority.py\<close>: the secret-free registry of agents and executors, the roster of a
  private runtime configuration, and the check that the two agree. A document is the dictionary
  \<open>tomllib.loads\<close> returns, without dates, or the text of the exception; the digest is a parameter.

  \<^item> \<open>authority_wf\<close> is the invariant of a loaded authority (\<open>load_authority_sound\<close>).
  \<^item> \<open>roster_text_inj\<close>: the digested text determines the roster up to the order of its entries.
  \<^item> \<open>diff_rosters_Nil_iff\<close> and \<open>parity_exact\<close>: what a successful verification means.
\<close>

section \<open>str and repr\<close>

definition hex_escape :: "char \<Rightarrow> string" where
  "hex_escape c = [bslash, CHR ''x'', hex_digit (ord c div 16), hex_digit (ord c mod 16)]"

definition repr_char :: "char \<Rightarrow> char \<Rightarrow> string" where
  "repr_char q c =
     (if c = q \<or> c = bslash then [bslash, c]
      else if c = nl then [bslash, CHR ''n'']
      else if c = CHR 0x0D then [bslash, CHR ''r'']
      else if c = CHR 0x09 then [bslash, CHR ''t'']
      else if ord c < 32 \<or> 127 \<le> ord c \<and> ord c \<le> 160 \<or> ord c = 173 then hex_escape c
      else [c])"

definition repr_str :: "string \<Rightarrow> string" where
  "repr_str s =
     (let q = (if squote \<in> set s \<and> dquote \<notin> set s then dquote else squote)
      in q # concat (map (repr_char q) s) @ [q])"

fun py_repr :: "json \<Rightarrow> string" where
  "py_repr JNull = ''None''"
| "py_repr (JBool b) = (if b then ''True'' else ''False'')"
| "py_repr (JInt i) = show_int i"
| "py_repr (JFloat s) =
     (if s = ''NaN'' then ''nan'' else if s = ''Infinity'' then ''inf''
      else if s = ''-Infinity'' then ''-inf'' else s)"
| "py_repr (JStr s) = repr_str s"
| "py_repr (JList xs) = ''['' @ join_with '', '' (map py_repr xs) @ '']''"
| "py_repr (JObj d) = ''{'' @ join_with '', '' (map (\<lambda>(k, v). repr_str k @ '': '' @ py_repr v) d) @ ''}''"

text \<open>\<open>str(v)\<close>\<close>
definition py_str :: "json \<Rightarrow> string" where
  "py_str v = (case v of JStr s \<Rightarrow> s | _ \<Rightarrow> py_repr v)"

definition in_quotes :: "string \<Rightarrow> string" where
  "in_quotes s = [squote] @ s @ [squote]"

section \<open>Data\<close>

text \<open>The second is Python's own \<open>TypeError\<close>, for a value that cannot be iterated.\<close>
datatype registry_exc = AuthorityError string | RegistryTypeError

definition ROOT_KEYS :: "string list" where
  "ROOT_KEYS = [''registry'', ''agents'', ''external_agents'', ''executor_definitions'', ''capacity_registry'',
     ''executor_capacities'']"
definition REGISTRY_KEYS :: "string list" where "REGISTRY_KEYS = [''id'', ''version'']"
definition ENTRY_KEYS :: "string list" where
  "ENTRY_KEYS = [''id'', ''display_name'', ''discord_user_id'', ''executor_definition_id'', ''runner_profile_id'',
     ''enabled'']"
definition DEFINITION_KEYS :: "string list" where
  "DEFINITION_KEYS = [''id'', ''provider'', ''adapter'', ''capabilities'']"

record agent_entry =
  ae_id :: string
  ae_display_name :: string
  ae_discord_user_id :: string
  ae_agent_type :: string
  ae_executor_definition_id :: "string option"
  ae_runner_profile_id :: "string option"

definition entry_canonical_dict :: "agent_entry \<Rightarrow> dict" where
  "entry_canonical_dict e =
     [(''id'', JStr (ae_id e)), (''discord_user_id'', JStr (ae_discord_user_id e)),
      (''display_name'', JStr (ae_display_name e)), (''agent_type'', JStr (ae_agent_type e))]"

record executor_definition =
  ed_id :: string
  ed_provider :: string
  ed_adapter :: string
  ed_capabilities :: "string list"

definition definition_canonical_dict :: "executor_definition \<Rightarrow> dict" where
  "definition_canonical_dict d =
     [(''id'', JStr (ed_id d)), (''provider'', JStr (ed_provider d)), (''adapter'', JStr (ed_adapter d)),
      (''capabilities'', JList (map JStr (ed_capabilities d)))]"

record instance_binding =
  ib_agent_id :: string
  ib_executor_definition_id :: string
  ib_runner_profile_id :: string
  ib_enabled :: bool

definition instance_canonical_dict :: "instance_binding \<Rightarrow> dict" where
  "instance_canonical_dict b =
     [(''agent_id'', JStr (ib_agent_id b)), (''executor_definition_id'', JStr (ib_executor_definition_id b)),
      (''runner_profile_id'', JStr (ib_runner_profile_id b)), (''enabled'', JBool (ib_enabled b))]"

record authority =
  au_source_id :: string
  au_source_version :: int
  au_entries :: "agent_entry list"
  au_source_hash :: string
  au_executor_definitions :: "executor_definition list"
  au_executor_bindings :: "instance_binding list"
  au_executor_catalog_hash :: string

section \<open>Validation\<close>

text \<open>\<open>int\<close> refuses more than 4300 digits with a \<open>ValueError\<close> of its own.\<close>
definition validate_discord_user_id :: "json \<Rightarrow> bool \<Rightarrow> string + string" where
  "validate_discord_user_id value require_string =
     (if value = JNull then Inl ''missing discord_user_id''
      else if require_string \<and> (case value of JStr s \<Rightarrow> False | _ \<Rightarrow> True)
        then Inl ''invalid discord_user_id: must be a quoted string''
      else
        let raw = py_str value in
        if raw \<noteq> strip raw then Inl ''invalid discord_user_id: surrounding whitespace is not allowed''
        else if raw = [] \<or> \<not> list_all is_digit raw then Inl ''invalid discord_user_id''
        else if 4300 < length raw
          then Inl (''Exceeds the limit (4300 digits) for integer string conversion: value has ''
            @ show_nat (length raw) @ '' digits; use sys.set_int_max_str_digits() to increase the limit'')
        else if read_nat raw = 0 then Inl ''invalid discord_user_id''
        else Inr raw)"

definition MISSING_ID :: string where
  "MISSING_ID = ''missing '' @ [squote] @ ''id'' @ [squote]"

definition normalize_id :: "json \<Rightarrow> string + string" where
  "normalize_id value =
     (if value = JNull then Inl MISSING_ID
      else
        let agent_id = strip (py_str value) in
        if agent_id = [] then Inl MISSING_ID
        else Inr agent_id)"

definition normalize_display_name :: "json \<Rightarrow> string \<Rightarrow> string" where
  "normalize_display_name value agent_id =
     (let display_name = (if value = JNull then [] else strip (py_str value)) in
      if display_name = [] then agent_id else display_name)"

definition registry_label :: "json \<Rightarrow> string \<Rightarrow> string + string" where
  "registry_label value label =
     (case value of
        JStr s \<Rightarrow>
          if s \<noteq> strip s then Inl (label @ '' must not have surrounding whitespace'')
          else if s = [] then Inl (label @ '' is required'')
          else if length s > 64 then Inl (label @ '' exceeds 64 characters'')
          else if \<not> re_dollar safe_label_shape s then Inl (label @ '' contains unsafe characters: '' @ repr_str s)
          else Inr s
      | _ \<Rightarrow> Inl (label @ '' must be a string''))"

fun registry_capability_loop :: "string \<Rightarrow> string list \<Rightarrow> json list \<Rightarrow> string + string list" where
  "registry_capability_loop label acc [] = Inr acc"
| "registry_capability_loop label acc (item # items) =
     ebind (registry_label item (label @ '' item'')) (\<lambda>cap.
     if cap \<in> set acc then Inl (label @ '' contains duplicate capability: '' @ repr_str cap)
     else registry_capability_loop label (acc @ [cap]) items)"

definition registry_capabilities :: "json \<Rightarrow> string \<Rightarrow> string + string list" where
  "registry_capabilities value label =
     (case value of
        JList items \<Rightarrow>
          if 32 < length items then Inl (label @ '' exceeds 32 items'')
          else
            ebind (registry_capability_loop label [] items) (\<lambda>normalized.
            if normalized \<noteq> sort normalized then Inl (label @ '' must be sorted'')
            else Inr normalized)
      | _ \<Rightarrow> Inl (label @ '' must be a list''))"

text \<open>\<open>except ValueError as exc: raise AuthorityError(prefix + str(exc))\<close>\<close>
definition as_authority :: "string \<Rightarrow> string + 'a \<Rightarrow> registry_exc + 'a" where
  "as_authority prefix r = (case r of Inl m \<Rightarrow> Inl (AuthorityError (prefix @ m)) | Inr a \<Rightarrow> Inr a)"

section \<open>Digests\<close>

definition roster_text :: "agent_entry list \<Rightarrow> string" where
  "roster_text entries =
     utf8 (canonical_json (JList (map (\<lambda>e. JObj (entry_canonical_dict e)) (sort_key ae_id entries))))"

definition canonical_hash :: "(string \<Rightarrow> string) \<Rightarrow> agent_entry list \<Rightarrow> string" where
  "canonical_hash sha entries = sha (roster_text entries)"

definition catalog_payload ::
    "string \<Rightarrow> int \<Rightarrow> executor_definition list \<Rightarrow> instance_binding list \<Rightarrow> dict" where
  "catalog_payload source_id source_version definitions bindings =
     [(''contract_version'', JInt 1), (''source_id'', JStr source_id), (''source_version'', JInt source_version),
      (''executor_definitions'',
         JList (map (\<lambda>d. JObj (definition_canonical_dict d)) (sort_key ed_id definitions))),
      (''executor_instance_bindings'',
         JList (map (\<lambda>b. JObj (instance_canonical_dict b)) (sort_key ib_agent_id bindings)))]"

definition catalog_text ::
    "string \<Rightarrow> int \<Rightarrow> executor_definition list \<Rightarrow> instance_binding list \<Rightarrow> string" where
  "catalog_text source_id source_version definitions bindings =
     utf8 (canonical_json (JObj (catalog_payload source_id source_version definitions bindings)))"

definition canonical_executor_catalog_hash ::
    "(string \<Rightarrow> string) \<Rightarrow> string \<Rightarrow> int \<Rightarrow> executor_definition list \<Rightarrow> instance_binding list \<Rightarrow> string" where
  "canonical_executor_catalog_hash sha source_id source_version definitions bindings =
     sha (catalog_text source_id source_version definitions bindings)"

section \<open>Loading the authority\<close>

text \<open>\<open>for raw in data.get(key, [])\<close>: strings and dictionaries can be iterated too.\<close>
definition iterate_key :: "dict \<Rightarrow> string \<Rightarrow> registry_exc + json list" where
  "iterate_key d key =
     (if \<not> has_key d key then Inr []
      else case dget d key of
          JList xs \<Rightarrow> Inr xs
        | JStr s \<Rightarrow> Inr (map (\<lambda>c. JStr [c]) s)
        | JObj e \<Rightarrow> Inr (map JStr (keys e))
        | _ \<Rightarrow> Inl RegistryTypeError)"

text \<open>\<open>sorted(set(d.keys()) - allowed)\<close> in a message\<close>
definition unknown_keys :: "dict \<Rightarrow> string list \<Rightarrow> string" where
  "unknown_keys d ks =
     py_repr (JList (map JStr (sort (remdups (filter (\<lambda>k. k \<notin> set ks) (keys d))))))"

definition only_keys :: "dict \<Rightarrow> string list \<Rightarrow> bool" where
  "only_keys d ks = list_all (\<lambda>k. k \<in> set ks) (keys d)"

definition load_definition ::
    "executor_definition list \<Rightarrow> json \<Rightarrow> registry_exc + executor_definition list" where
  "load_definition acc raw =
     (case raw of
        JObj e \<Rightarrow>
          if \<not> only_keys e DEFINITION_KEYS
            then Inl (AuthorityError (''unknown keys in executor_definitions entry: '' @ unknown_keys e DEFINITION_KEYS))
          else
            ebind (as_authority [] (registry_label (dget e ''id'') ''executor_definition.id'')) (\<lambda>def_id.
            if def_id \<in> ed_id ` set acc then Inl (AuthorityError (''duplicate executor_definition id '' @ in_quotes def_id))
            else
              ebind (as_authority [] (registry_label (dget e ''provider'') ''executor_definition.provider'')) (\<lambda>provider.
              ebind (as_authority [] (registry_label (dget e ''adapter'') ''executor_definition.adapter'')) (\<lambda>adapter.
              ebind (as_authority [] (registry_capabilities
                  (if has_key e ''capabilities'' then dget e ''capabilities'' else JList [])
                  ''executor_definition.capabilities'')) (\<lambda>caps.
              Inr (acc @ [\<lparr>ed_id = def_id, ed_provider = provider, ed_adapter = adapter,
                           ed_capabilities = caps\<rparr>])))))
      | _ \<Rightarrow> Inl (AuthorityError ''executor_definitions entry must be a table''))"

text \<open>The state of the loop over the entries: \<open>seen_ids\<close>, \<open>seen_discord_ids\<close> and the two results.\<close>
record roster_state =
  rs_ids :: "(string \<times> string) list"
  rs_discord :: "(string \<times> string) list"
  rs_entries :: "agent_entry list"
  rs_bindings :: "instance_binding list"

definition empty_roster :: roster_state where
  "empty_roster = \<lparr>rs_ids = [], rs_discord = [], rs_entries = [], rs_bindings = []\<rparr>"

definition section_label :: "string \<Rightarrow> string" where
  "section_label agent_type = (if agent_type = ''managed'' then ''agents'' else ''external_agents'')"

definition add_entry :: "agent_entry \<Rightarrow> roster_state \<Rightarrow> roster_state" where
  "add_entry e st = st\<lparr>rs_entries := rs_entries st @ [e]\<rparr>"

text \<open>The executor binding of an entry: none, or the definition and the runner profile.\<close>
definition entry_binding ::
    "string list \<Rightarrow> string \<Rightarrow> string \<Rightarrow> dict \<Rightarrow> registry_exc + (string \<times> string) option" where
  "entry_binding definition_ids agent_type agent_id e =
     (let def_id = dget e ''executor_definition_id''; profile = dget e ''runner_profile_id'' in
      if agent_type = ''external'' then
        (if def_id \<noteq> JNull \<or> profile \<noteq> JNull \<or> has_key e ''enabled''
           then Inl (AuthorityError (''external agent '' @ in_quotes agent_id @ '' must not carry executor bindings''))
         else Inr None)
      else if def_id = JNull \<and> profile = JNull then Inr None
      else if def_id = JNull \<or> profile = JNull
        then Inl (AuthorityError (''agent '' @ in_quotes agent_id
               @ '' must set both executor_definition_id and runner_profile_id''))
      else
        ebind (as_authority [] (registry_label def_id (''agent '' @ in_quotes agent_id @ ''.executor_definition_id''))) (\<lambda>d.
        ebind (as_authority [] (registry_label profile (''agent '' @ in_quotes agent_id @ ''.runner_profile_id''))) (\<lambda>r.
        if d \<notin> set definition_ids
          then Inl (AuthorityError (''agent '' @ in_quotes agent_id @ '' references unknown executor_definition_id: ''
                  @ repr_str d))
        else if r \<noteq> agent_id
          then Inl (AuthorityError (''agent '' @ in_quotes agent_id @ '' runner_profile_id must equal agent_id in P9-2A: got ''
                  @ repr_str r))
        else Inr (Some (d, r)))))"

definition entry_enabled :: "string \<Rightarrow> string \<Rightarrow> dict \<Rightarrow> registry_exc + bool" where
  "entry_enabled sec agent_id e =
     (case (if has_key e ''enabled'' then dget e ''enabled'' else JBool True) of
        JBool b \<Rightarrow> Inr b
      | _ \<Rightarrow> Inl (AuthorityError (sec @ '' entry '' @ in_quotes agent_id @ '': enabled must be a boolean'')))"

text \<open>What an accepted entry adds to the state.\<close>
definition admit_entry ::
    "string \<Rightarrow> string \<Rightarrow> string \<Rightarrow> string \<Rightarrow> bool \<Rightarrow> (string \<times> string) option \<Rightarrow> roster_state \<Rightarrow> roster_state" where
  "admit_entry agent_type agent_id display_name did enabled bound st =
     (let st1 = st\<lparr>rs_ids := rs_ids st @ [(agent_id, section_label agent_type)],
                   rs_discord := rs_discord st @ [(did, agent_id)]\<rparr>;
          entry = \<lparr>ae_id = agent_id, ae_display_name = display_name, ae_discord_user_id = did,
            ae_agent_type = agent_type, ae_executor_definition_id = map_option fst bound,
            ae_runner_profile_id = map_option snd bound\<rparr>
      in case bound of
          None \<Rightarrow> add_entry entry st1
        | Some (d, r) \<Rightarrow> add_entry entry st1\<lparr>rs_bindings := rs_bindings st1 @
            [\<lparr>ib_agent_id = agent_id, ib_executor_definition_id = d, ib_runner_profile_id = r,
              ib_enabled = enabled\<rparr>]\<rparr>)"

definition load_entry ::
    "string list \<Rightarrow> string \<Rightarrow> roster_state \<Rightarrow> json \<Rightarrow> registry_exc + roster_state" where
  "load_entry definition_ids agent_type st raw =
     (let sec = section_label agent_type in
      case raw of
        JObj e \<Rightarrow>
          if \<not> only_keys e ENTRY_KEYS then Inl (AuthorityError (''unknown keys in '' @ sec @ '' entry: '' @ unknown_keys e ENTRY_KEYS))
          else
            ebind (as_authority (sec @ '' entry: '') (normalize_id (dget e ''id''))) (\<lambda>agent_id.
            if agent_id \<in> fst ` set (rs_ids st)
              then Inl (AuthorityError (''duplicate agent id '' @ in_quotes agent_id @ '' in ''
                     @ the (map_of (rs_ids st) agent_id) @ '' and '' @ sec))
            else
              let display_name = normalize_display_name (dget e ''display_name'') agent_id in
              ebind (as_authority (sec @ '' entry '' @ in_quotes agent_id @ '': '')
                  (validate_discord_user_id (dget e ''discord_user_id'') True)) (\<lambda>did.
              if did \<in> fst ` set (rs_discord st)
                then Inl (AuthorityError (''duplicate discord_user_id '' @ in_quotes did @ '' in ''
                       @ the (map_of (rs_discord st) did) @ '' and '' @ agent_id))
              else
                ebind (entry_enabled sec agent_id e) (\<lambda>enabled.
                ebind (entry_binding definition_ids agent_type agent_id e) (\<lambda>bound.
                Inr (admit_entry agent_type agent_id display_name did enabled bound st)))))
      | _ \<Rightarrow> Inl (AuthorityError (sec @ '' entry must be a table'')))"

definition load_section ::
    "string list \<Rightarrow> dict \<Rightarrow> roster_state \<Rightarrow> string \<Rightarrow> registry_exc + roster_state" where
  "load_section definition_ids data st agent_type =
     (let sec = section_label agent_type in
      case dget data sec of
        JNull \<Rightarrow> Inr st
      | JList raws \<Rightarrow> efoldM (load_entry definition_ids agent_type) st raws
      | _ \<Rightarrow> Inl (AuthorityError (sec @ '' must be a list of tables'')))"

text \<open>The \<open>[registry]\<close> table: the source and its version.\<close>
definition load_registry :: "dict \<Rightarrow> registry_exc + string \<times> int" where
  "load_registry data =
     (case dget data ''registry'' of
        JObj reg \<Rightarrow>
          if \<not> only_keys reg REGISTRY_KEYS then Inl (AuthorityError (''unknown [registry] keys: '' @ unknown_keys reg REGISTRY_KEYS))
          else
            let source_id = strip (if has_key reg ''id'' then py_str (dget reg ''id'') else []) in
            if source_id = [] then Inl (AuthorityError ''[registry].id is required'')
            else
              ebind (as_authority [] (registry_label (JStr source_id) ''[registry].id'')) (\<lambda>_.
              case dget reg ''version'' of
                JInt v \<Rightarrow> if v < 0 then Inl (AuthorityError ''[registry].version must be a non-negative integer'')
                  else Inr (source_id, v)
              | _ \<Rightarrow> Inl (AuthorityError ''[registry].version must be a non-negative integer''))
      | _ \<Rightarrow> Inl (AuthorityError ''missing [registry] metadata''))"

definition load_authority :: "(string \<Rightarrow> string) \<Rightarrow> string + dict \<Rightarrow> registry_exc + authority" where
  "load_authority sha document =
     (case document of
        Inl e \<Rightarrow> Inl (AuthorityError (''cannot parse authority TOML: '' @ e))
      | Inr data \<Rightarrow>
          if \<not> only_keys data ROOT_KEYS then Inl (AuthorityError (''unknown root keys: '' @ unknown_keys data ROOT_KEYS))
          else
            ebind (load_registry data) (\<lambda>(source_id, source_version).
            ebind (iterate_key data ''executor_definitions'') (\<lambda>raws.
            ebind (efoldM load_definition [] raws) (\<lambda>definitions.
            ebind (efoldM (load_section (map ed_id definitions) data) empty_roster [''managed'', ''external'']) (\<lambda>st.
            Inr \<lparr>au_source_id = source_id, au_source_version = source_version, au_entries = rs_entries st,
                 au_source_hash = canonical_hash sha (rs_entries st),
                 au_executor_definitions = definitions, au_executor_bindings = rs_bindings st,
                 au_executor_catalog_hash =
                   canonical_executor_catalog_hash sha source_id source_version definitions (rs_bindings st)\<rparr>)))))"

section \<open>The runtime roster\<close>

text \<open>
  One entry of the loop, on the state and the errors so far; \<open>rs_bindings\<close> is not used. An id that was
  seen stays seen when the rest of its entry is in error.
\<close>
definition project_entry ::
    "string \<Rightarrow> roster_state \<times> string list \<Rightarrow> nat \<times> json \<Rightarrow> roster_state \<times> string list" where
  "project_entry agent_type acc item =
     (case (acc, item) of ((st, errors), (idx, raw)) \<Rightarrow>
      let sec = section_label agent_type in
      case raw of
        JObj e \<Rightarrow>
          (case normalize_id (dget e ''id'') of
             Inl m \<Rightarrow> (st, errors @ [sec @ '' entry '' @ show_nat idx @ '' '' @ MISSING_ID])
           | Inr agent_id \<Rightarrow>
               if agent_id \<in> fst ` set (rs_ids st)
                 then (st, errors @ [''duplicate agent id '' @ in_quotes agent_id @ '' in ''
                        @ the (map_of (rs_ids st) agent_id) @ '' and '' @ sec])
               else
                 let st1 = st\<lparr>rs_ids := rs_ids st @ [(agent_id, sec)]\<rparr>;
                     display_name = normalize_display_name (dget e ''display_name'') agent_id
                 in if dget e ''discord_user_id'' = JNull
                      then (st1, errors @ [sec @ '' entry '' @ in_quotes agent_id @ '' missing discord_user_id''])
                    else
                      (case validate_discord_user_id (dget e ''discord_user_id'') False of
                         Inl m \<Rightarrow> (st1, errors @ [sec @ '' entry '' @ in_quotes agent_id @ '': '' @ m])
                       | Inr did \<Rightarrow>
                           if did \<in> fst ` set (rs_discord st1)
                             then (st1, errors @ [''duplicate discord_user_id in ''
                                    @ the (map_of (rs_discord st1) did) @ '' and '' @ agent_id])
                           else
                             (add_entry \<lparr>ae_id = agent_id, ae_display_name = display_name,
                                 ae_discord_user_id = did, ae_agent_type = agent_type,
                                 ae_executor_definition_id = None, ae_runner_profile_id = None\<rparr>
                               (st1\<lparr>rs_discord := rs_discord st1 @ [(did, agent_id)]\<rparr>), errors)))
      | _ \<Rightarrow> (st, errors @ [sec @ '' entry '' @ show_nat idx @ '' must be a table'']))"

definition project_section ::
    "dict \<Rightarrow> roster_state \<times> string list \<Rightarrow> string \<Rightarrow> roster_state \<times> string list" where
  "project_section data acc agent_type =
     (let sec = section_label agent_type in
      case dget data sec of
        JNull \<Rightarrow> acc
      | JList raws \<Rightarrow> foldl (project_entry agent_type) acc (enumerate 0 raws)
      | _ \<Rightarrow> (fst acc, snd acc @ [sec @ '' must be a list of tables'']))"

definition project_runtime_roster :: "string + dict \<Rightarrow> agent_entry list \<times> string list" where
  "project_runtime_roster document =
     (case document of
        Inl e \<Rightarrow> ([], [''cannot parse runtime TOML: '' @ e])
      | Inr data \<Rightarrow>
          (case foldl (project_section data) (empty_roster, []) [''managed'', ''external''] of
             (st, errors) \<Rightarrow> (rs_entries st, errors)))"

section \<open>Comparing the two\<close>

datatype roster_change = RosterRemoved string | RosterAdded string | RosterChanged string "string list"

definition changed_fields :: "agent_entry \<Rightarrow> agent_entry \<Rightarrow> string list" where
  "changed_fields a r =
     (if ae_display_name a \<noteq> ae_display_name r then [''display_name''] else [])
     @ (if ae_discord_user_id a \<noteq> ae_discord_user_id r then [''discord_user_id''] else [])
     @ (if ae_agent_type a \<noteq> ae_agent_type r then [''agent_type''] else [])"

text \<open>\<open>{e.id: e for e in entries}.get(agent_id)\<close>: the last entry counts.\<close>
definition entry_by_id :: "agent_entry list \<Rightarrow> string \<Rightarrow> agent_entry option" where
  "entry_by_id entries i = map_of (rev (map (\<lambda>e. (ae_id e, e)) entries)) i"

definition diff_entry :: "agent_entry option \<Rightarrow> agent_entry option \<Rightarrow> string \<Rightarrow> roster_change list" where
  "diff_entry a r i =
     (case (a, r) of
        (None, _) \<Rightarrow> [RosterRemoved i]
      | (Some _, None) \<Rightarrow> [RosterAdded i]
      | (Some x, Some y) \<Rightarrow> (if changed_fields x y = [] then [] else [RosterChanged i (changed_fields x y)]))"

definition diff_rosters :: "agent_entry list \<Rightarrow> agent_entry list \<Rightarrow> roster_change list" where
  "diff_rosters authority_entries runtime_entries =
     concat (map (\<lambda>i. diff_entry (entry_by_id authority_entries i) (entry_by_id runtime_entries i) i)
       (sort (remdups (map ae_id authority_entries @ map ae_id runtime_entries))))"

text \<open>\<open>_runtime_adapter_by_id\<close>: the last usable entry of an agent counts.\<close>
definition adapter_entry :: "(string \<times> string) list \<Rightarrow> json \<Rightarrow> (string \<times> string) list" where
  "adapter_entry acc raw =
     (case raw of
        JObj e \<Rightarrow>
          let agent_id = strip (if has_key e ''id'' then py_str (dget e ''id'') else []) in
          (case dget e ''adapter'' of
             JStr a \<Rightarrow> if agent_id = [] then acc else alist_set acc agent_id (strip a)
           | _ \<Rightarrow> acc)
      | _ \<Rightarrow> acc)"

definition runtime_adapter_by_id :: "string + dict \<Rightarrow> registry_exc + (string \<times> string) list" where
  "runtime_adapter_by_id document =
     (case document of
        Inl e \<Rightarrow> Inr []
      | Inr data \<Rightarrow> ebind (iterate_key data ''agents'') (\<lambda>raws. Inr (foldl adapter_entry [] raws)))"

record parity_result =
  pa_ok :: bool
  pa_authority :: "authority option"
  pa_authority_count :: nat
  pa_runtime_count :: nat
  pa_source_hash :: "string option"
  pa_catalog_hash :: "string option"
  pa_diff :: "roster_change list"
  pa_errors :: "string list"

text \<open>The error of one executor binding, if any.\<close>
definition binding_parity ::
    "executor_definition list \<Rightarrow> (string \<times> string) list \<Rightarrow> string \<times> instance_binding \<Rightarrow> string list" where
  "binding_parity definitions adapters item =
     (case item of (agent_id, binding) \<Rightarrow>
      case map_of adapters agent_id of
        None \<Rightarrow> [''executor binding parity: missing runtime agent '' @ in_quotes agent_id]
      | Some runtime_adapter \<Rightarrow>
          (case find (\<lambda>d. ed_id d = ib_executor_definition_id binding) definitions of
             None \<Rightarrow> [''executor binding parity: unknown definition ''
                      @ in_quotes (ib_executor_definition_id binding)]
           | Some d \<Rightarrow>
               if runtime_adapter \<noteq> ed_adapter d
                 then [''executor binding parity: agent '' @ in_quotes agent_id @ '' runtime adapter ''
                   @ repr_str runtime_adapter @ '' != authority '' @ repr_str (ed_adapter d)]
               else []))"

definition verify_parity ::
    "(string \<Rightarrow> string) \<Rightarrow> string + dict \<Rightarrow> string + dict \<Rightarrow> registry_exc + parity_result" where
  "verify_parity sha authority_doc runtime_doc =
     (case load_authority sha authority_doc of
        Inl (AuthorityError m) \<Rightarrow>
          Inr \<lparr>pa_ok = False, pa_authority = None, pa_authority_count = 0, pa_runtime_count = 0,
               pa_source_hash = None, pa_catalog_hash = None, pa_diff = [], pa_errors = [''authority: '' @ m]\<rparr>
      | Inl RegistryTypeError \<Rightarrow> Inl RegistryTypeError
      | Inr authority \<Rightarrow>
          (case project_runtime_roster runtime_doc of (runtime_entries, runtime_errors) \<Rightarrow>
           ebind (runtime_adapter_by_id runtime_doc) (\<lambda>adapters.
           let result = \<lparr>pa_ok = False, pa_authority = Some authority,
                 pa_authority_count = length (au_entries authority), pa_runtime_count = length runtime_entries,
                 pa_source_hash = Some (au_source_hash authority),
                 pa_catalog_hash = Some (au_executor_catalog_hash authority), pa_diff = [],
                 pa_errors = map (\<lambda>e. ''runtime: '' @ e) runtime_errors\<rparr>;
               diff = diff_rosters (au_entries authority) runtime_entries
           in if runtime_errors \<noteq> [] then Inr result
              else if diff \<noteq> [] then Inr (result\<lparr>pa_diff := diff\<rparr>)
              else if canonical_hash sha runtime_entries \<noteq> au_source_hash authority
                then Inr (result\<lparr>pa_errors := [''canonical roster hash mismatch'']\<rparr>)
              else
                let errors = concat (map (binding_parity (au_executor_definitions authority) adapters)
                      (alist_update [] (map (\<lambda>b. (ib_agent_id b, b)) (au_executor_bindings authority))))
                in Inr (result\<lparr>pa_errors := errors, pa_ok := (errors = [])\<rparr>))))"

section \<open>The command line\<close>

definition change_json :: "roster_change \<Rightarrow> json" where
  "change_json c =
     (case c of
        RosterRemoved i \<Rightarrow> JObj [(''id'', JStr i), (''status'', JStr ''removed'')]
      | RosterAdded i \<Rightarrow> JObj [(''id'', JStr i), (''status'', JStr ''added'')]
      | RosterChanged i fs \<Rightarrow>
          JObj [(''id'', JStr i), (''status'', JStr ''changed''), (''fields'', JList (map JStr fs))])"

definition parity_to_dict :: "parity_result \<Rightarrow> dict" where
  "parity_to_dict p =
     [(''ok'', JBool (pa_ok p)),
      (''source_id'', opt_str (map_option au_source_id (pa_authority p))),
      (''source_version'', (case pa_authority p of None \<Rightarrow> JNull | Some a \<Rightarrow> JInt (au_source_version a))),
      (''source_hash'', opt_str (pa_source_hash p)), (''authority_hash'', opt_str (pa_source_hash p)),
      (''executor_catalog_hash'', opt_str (pa_catalog_hash p)),
      (''authority_count'', JInt (int (pa_authority_count p))),
      (''runtime_count'', JInt (int (pa_runtime_count p))),
      (''diff'', JList (map change_json (pa_diff p))), (''errors'', JList (map JStr (pa_errors p)))]"

text \<open>The commands: the exit code and what is printed, on stdout for 0 and for \<open>verify\<close>.\<close>
definition cmd_verify :: "(string \<Rightarrow> string) \<Rightarrow> string + dict \<Rightarrow> string + dict \<Rightarrow> registry_exc + int \<times> string" where
  "cmd_verify sha authority_doc runtime_doc =
     ebind (verify_parity sha authority_doc runtime_doc) (\<lambda>r.
     Inr (if pa_ok r then 0 else 1, canonical_json (JObj (parity_to_dict r)) @ [nl]))"

definition cmd_show :: "(string \<Rightarrow> string) \<Rightarrow> string + dict \<Rightarrow> registry_exc + int \<times> string" where
  "cmd_show sha authority_doc =
     (case load_authority sha authority_doc of
        Inl RegistryTypeError \<Rightarrow> Inl RegistryTypeError
      | Inl (AuthorityError m) \<Rightarrow>
          Inr (1, canonical_json (JObj [(''ok'', JBool False), (''error'', JStr m)]) @ [nl])
      | Inr a \<Rightarrow>
          Inr (0, canonical_json (JObj
            [(''ok'', JBool True), (''source_id'', JStr (au_source_id a)),
             (''source_version'', JInt (au_source_version a)), (''source_hash'', JStr (au_source_hash a)),
             (''executor_catalog_hash'', JStr (au_executor_catalog_hash a)),
             (''count'', JInt (int (length (au_entries a)))),
             (''entries'', JList (map (\<lambda>e. JObj (entry_canonical_dict e)) (sort_key ae_id (au_entries a)))),
             (''executor_definitions'',
                JList (map (\<lambda>d. JObj (definition_canonical_dict d)) (sort_key ed_id (au_executor_definitions a)))),
             (''executor_bindings'',
                JList (map (\<lambda>b. JObj (instance_canonical_dict b)) (sort_key ib_agent_id (au_executor_bindings a))))])
            @ [nl]))"

end
