(* ===== verification/RegistrySafety.thy ===== *)
theory RegistrySafety
  imports RegistryAuthority
begin

text \<open>
  Properties of \<open>RegistryAuthority\<close>: the invariant of a loaded authority, what its two hashes identify,
  and the meaning of a successful parity check.
\<close>

section \<open>Validators\<close>

lemma registry_label_Inr: "registry_label v label = Inr s \<longleftrightarrow> v = JStr s \<and> binding_label_ok s"
proof -
  have "registry_label v label = Inr s \<longleftrightarrow> capacity_bounded_label v label = Inr s"
    by (simp add: registry_label_def capacity_bounded_label_def split: json.splits)
  then show ?thesis
    by (simp only: capacity_bounded_label_Inr)
qed

lemma binding_label_short: "binding_label_ok s \<Longrightarrow> length s \<le> 64"
  by (simp add: binding_label_ok_def BINDING_MAX_LABEL_LEN_def)

lemma registry_capability_loop_eq:
  "registry_capability_loop label acc items = Inr cs \<longleftrightarrow> capability_loop label acc items = Inr cs"
proof (induction items arbitrary: acc)
  case (Cons item items)
  show ?case
  proof (cases "\<exists>s. item = JStr s \<and> binding_label_ok s")
    case True
    then obtain s where "item = JStr s" "binding_label_ok s" by blast
    then have "registry_label item (label @ '' item'') = Inr s" "binding_bounded_label item (label @ '' item'') = Inr s"
      "length s \<le> MAX_CAPABILITY_LEN"
      using binding_label_short [of s] by (simp_all add: registry_label_Inr binding_bounded_label_Inr MAX_CAPABILITY_LEN_def)
    then show ?thesis
      using Cons.IH by simp
  next
    case False
    then have "\<nexists>s. registry_label item (label @ '' item'') = Inr s" "\<nexists>s. binding_bounded_label item (label @ '' item'') = Inr s"
      by (auto simp: registry_label_Inr binding_bounded_label_Inr)
    then show ?thesis
      by (auto simp: result_simps)
  qed
qed simp

lemma registry_capabilities_Inr:
  "registry_capabilities v label = Inr cs \<longleftrightarrow> v = JList (map JStr cs) \<and> capabilities_ok cs"
proof -
  have "registry_capabilities v label = Inr cs \<longleftrightarrow> validate_capabilities v label = Inr cs"
    by (auto simp: registry_capabilities_def validate_capabilities_def result_simps registry_capability_loop_eq
        MAX_CAPABILITIES_def split: json.splits)
  then show ?thesis
    by (simp only: validate_capabilities_Inr)
qed

lemma as_authority_Inr [simp]: "as_authority p r = Inr a \<longleftrightarrow> r = Inr a"
  by (simp add: as_authority_def split: sum.splits)

definition discord_id_ok :: "string \<Rightarrow> bool" where
  "discord_id_ok s = (s \<noteq> [] \<and> list_all is_digit s \<and> 0 < read_nat s)"

lemma validate_discord_user_id_Inr:
  "validate_discord_user_id v req = Inr s \<Longrightarrow> discord_id_ok s"
  by (auto simp: validate_discord_user_id_def discord_id_ok_def Let_def split: if_splits)

definition agent_id_ok :: "string \<Rightarrow> bool" where
  "agent_id_ok s = (s \<noteq> [] \<and> strip s = s)"

lemma normalize_id_Inr: "normalize_id v = Inr s \<Longrightarrow> agent_id_ok s"
  by (auto simp: normalize_id_def agent_id_ok_def Let_def split: if_splits)

section \<open>The invariant of the loops\<close>

definition definition_ok :: "executor_definition \<Rightarrow> bool" where
  "definition_ok d =
     (binding_label_ok (ed_id d) \<and> binding_label_ok (ed_provider d) \<and> binding_label_ok (ed_adapter d)
      \<and> capabilities_ok (ed_capabilities d))"

definition definitions_wf :: "executor_definition list \<Rightarrow> bool" where
  "definitions_wf ds = (list_all definition_ok ds \<and> distinct (map ed_id ds))"

lemma load_definition_wf:
  "definitions_wf acc \<Longrightarrow> load_definition acc raw = Inr ds \<Longrightarrow> definitions_wf ds"
  by (auto simp: load_definition_def definitions_wf_def definition_ok_def registry_label_Inr
      registry_capabilities_Inr result_simps split: json.splits)

lemma load_definitions_wf: "efoldM load_definition [] raws = Inr ds \<Longrightarrow> definitions_wf ds"
  by (erule efoldM_invariant [where P = definitions_wf]) (auto intro: load_definition_wf, simp add: definitions_wf_def)

definition entry_ok :: "string list \<Rightarrow> agent_entry \<Rightarrow> bool" where
  "entry_ok definition_ids e =
     (agent_id_ok (ae_id e) \<and> discord_id_ok (ae_discord_user_id e)
      \<and> (ae_agent_type e = ''managed'' \<or> ae_agent_type e = ''external'')
      \<and> (case ae_executor_definition_id e of
           None \<Rightarrow> ae_runner_profile_id e = None
         | Some d \<Rightarrow> ae_agent_type e = ''managed'' \<and> d \<in> set definition_ids
             \<and> ae_runner_profile_id e = Some (ae_id e)))"

text \<open>The binding that an entry with an executor definition gives rise to.\<close>
definition bound_to :: "agent_entry \<Rightarrow> instance_binding \<Rightarrow> bool" where
  "bound_to e b =
     (ib_agent_id b = ae_id e \<and> ae_executor_definition_id e = Some (ib_executor_definition_id b)
      \<and> ae_runner_profile_id e = Some (ib_runner_profile_id b))"

definition roster_wf :: "string list \<Rightarrow> agent_entry list \<Rightarrow> instance_binding list \<Rightarrow> bool" where
  "roster_wf definition_ids entries bindings =
     (list_all (entry_ok definition_ids) entries
      \<and> distinct (map ae_id entries) \<and> distinct (map ae_discord_user_id entries)
      \<and> list_all2 bound_to (filter (\<lambda>e. ae_executor_definition_id e \<noteq> None) entries) bindings)"

definition roster_inv :: "string list \<Rightarrow> roster_state \<Rightarrow> bool" where
  "roster_inv definition_ids st =
     (roster_wf definition_ids (rs_entries st) (rs_bindings st)
      \<and> map fst (rs_ids st) = map ae_id (rs_entries st)
      \<and> map fst (rs_discord st) = map ae_discord_user_id (rs_entries st))"

lemma entry_binding_Inr:
  assumes "entry_binding ids ty agent_id e = Inr bound" "ty = ''managed'' \<or> ty = ''external''"
  shows "case bound of None \<Rightarrow> True | Some (d, r) \<Rightarrow> ty = ''managed'' \<and> d \<in> set ids \<and> r = agent_id"
  using assms by (auto simp: entry_binding_def Let_def result_simps split: if_splits)

lemma load_entry_inv:
  assumes "roster_inv ids st" "load_entry ids ty st raw = Inr st'" "ty = ''managed'' \<or> ty = ''external''"
  shows "roster_inv ids st'"
proof -
  obtain e agent_id did enabled bound where raw: "raw = JObj e"
    and id: "normalize_id (dget e ''id'') = Inr agent_id" "agent_id \<notin> fst ` set (rs_ids st)"
    and did: "validate_discord_user_id (dget e ''discord_user_id'') True = Inr did" "did \<notin> fst ` set (rs_discord st)"
    and bound: "entry_binding ids ty agent_id e = Inr bound"
    and st': "st' = admit_entry ty agent_id (normalize_display_name (dget e ''display_name'') agent_id) did enabled bound st"
    using assms(2) by (auto simp: load_entry_def Let_def result_simps split: json.splits)
  have fresh: "agent_id \<notin> ae_id ` set (rs_entries st)" "did \<notin> ae_discord_user_id ` set (rs_entries st)"
    using assms(1) id(2) did(2) unfolding roster_inv_def by (metis list.set_map)+
  show ?thesis
    using assms(1,3) fresh normalize_id_Inr [OF id(1)] validate_discord_user_id_Inr [OF did(1)]
      entry_binding_Inr [OF bound assms(3)]
    by (cases bound) (auto simp: st' admit_entry_def roster_inv_def roster_wf_def add_entry_def entry_ok_def bound_to_def
        Let_def intro!: list_all2_appendI split: prod.splits)
qed

definition authority_wf :: "(string \<Rightarrow> string) \<Rightarrow> authority \<Rightarrow> bool" where
  "authority_wf sha a =
     (binding_label_ok (au_source_id a) \<and> 0 \<le> au_source_version a
      \<and> definitions_wf (au_executor_definitions a)
      \<and> roster_wf (map ed_id (au_executor_definitions a)) (au_entries a) (au_executor_bindings a)
      \<and> au_source_hash a = sha (roster_text (au_entries a))
      \<and> au_executor_catalog_hash a = sha (catalog_text (au_source_id a) (au_source_version a)
           (au_executor_definitions a) (au_executor_bindings a)))"

lemma load_section_inv:
  assumes "roster_inv ids st" "load_section ids data st ty = Inr st'" "ty = ''managed'' \<or> ty = ''external''"
  shows "roster_inv ids st'"
proof (cases "dget data (section_label ty)")
  case (JList raws)
  then have "efoldM (load_entry ids ty) st raws = Inr st'"
    using assms(2) by (simp add: load_section_def Let_def)
  then show ?thesis
    using assms(1) by (rule efoldM_invariant) (use assms(3) load_entry_inv in blast)
qed (use assms in \<open>simp_all add: load_section_def Let_def\<close>)

lemma load_registry_Inr:
  "load_registry data = Inr (i, v) \<Longrightarrow> binding_label_ok i \<and> 0 \<le> v"
  by (auto simp: load_registry_def Let_def result_simps registry_label_Inr split: json.splits if_splits)

lemma load_authority_facts:
  assumes "load_authority sha (Inr data) = Inr a"
  obtains ds st where "load_registry data = Inr (au_source_id a, au_source_version a)"
    "definitions_wf ds" "roster_inv (map ed_id ds) st" "only_keys data ROOT_KEYS"
    "au_executor_definitions a = ds" "au_entries a = rs_entries st" "au_executor_bindings a = rs_bindings st"
    "au_source_hash a = sha (roster_text (au_entries a))"
    "au_executor_catalog_hash a = sha (catalog_text (au_source_id a) (au_source_version a) ds (rs_bindings st))"
proof -
  obtain i v raws ds st where parts: "load_registry data = Inr (i, v)" "efoldM load_definition [] raws = Inr ds"
    and st: "efoldM (load_section (map ed_id ds) data) empty_roster [''managed'', ''external''] = Inr st"
    and root: "only_keys data ROOT_KEYS"
    and a: "a = \<lparr>au_source_id = i, au_source_version = v, au_entries = rs_entries st,
                 au_source_hash = canonical_hash sha (rs_entries st),
                 au_executor_definitions = ds, au_executor_bindings = rs_bindings st,
                 au_executor_catalog_hash =
                   canonical_executor_catalog_hash sha i v ds (rs_bindings st)\<rparr>"
    using assms unfolding load_authority_def by (auto simp: ebind_eq_Inr simp del: efoldM.simps split: if_splits)
  have "roster_inv (map ed_id ds) empty_roster"
    by (simp add: roster_inv_def roster_wf_def empty_roster_def)
  with st have "roster_inv (map ed_id ds) st"
    by (rule efoldM_invariant) (auto intro: load_section_inv)
  then show ?thesis
    using that [OF _ load_definitions_wf [OF parts(2)], of st] parts(1) root
    by (simp add: a canonical_hash_def canonical_executor_catalog_hash_def)
qed

lemma load_authority_wf:
  assumes "load_authority sha document = Inr a"
  shows "authority_wf sha a"
proof -
  obtain data where "document = Inr data"
    using assms by (auto simp: load_authority_def split: sum.splits)
  then have "load_authority sha (Inr data) = Inr a"
    using assms by simp
  then obtain ds st where "load_registry data = Inr (au_source_id a, au_source_version a)"
    "definitions_wf ds" "roster_inv (map ed_id ds) st"
    "au_executor_definitions a = ds" "au_entries a = rs_entries st" "au_executor_bindings a = rs_bindings st"
    "au_source_hash a = sha (roster_text (au_entries a))"
    "au_executor_catalog_hash a = sha (catalog_text (au_source_id a) (au_source_version a) ds (rs_bindings st))"
    by (rule load_authority_facts)
  then show ?thesis
    using load_registry_Inr by (simp add: authority_wf_def roster_inv_def)
qed

text \<open>
  C24: A loaded authority satisfies the whole invariant: the agents have distinct ids and distinct,
  positive Discord ids, every executor definition is well formed and has its own id, an external agent
  has no executor, every binding belongs to exactly one managed agent, refers to a definition of the
  file and runs under the agent's own profile, and the two hashes are those of the canonical texts.
\<close>
theorem load_authority_sound:
  assumes "load_authority sha document = Inr a"
  shows "authority_wf sha a"
  using assms by (rule load_authority_wf)

definition example_registry :: dict where
  "example_registry =
     [(''registry'', JObj [(''id'', JStr ''team''), (''version'', JInt 3)]),
      (''executor_definitions'', JList [JObj [(''id'', JStr ''claude-def''), (''provider'', JStr ''anthropic''),
         (''adapter'', JStr ''claude''), (''capabilities'', JList [JStr ''code'', JStr ''review''])]]),
      (''agents'', JList [JObj [(''id'', JStr ''pi''), (''discord_user_id'', JStr ''1001''),
         (''executor_definition_id'', JStr ''claude-def''), (''runner_profile_id'', JStr ''pi'')]]),
      (''external_agents'', JList [JObj [(''id'', JStr ''bob''), (''display_name'', JStr '' Bob ''),
         (''discord_user_id'', JStr ''1002'')]])]"

definition example_entries :: "agent_entry list" where
  "example_entries =
     [\<lparr>ae_id = ''pi'', ae_display_name = ''pi'', ae_discord_user_id = ''1001'', ae_agent_type = ''managed'',
        ae_executor_definition_id = Some ''claude-def'', ae_runner_profile_id = Some ''pi''\<rparr>,
      \<lparr>ae_id = ''bob'', ae_display_name = ''Bob'', ae_discord_user_id = ''1002'', ae_agent_type = ''external'',
        ae_executor_definition_id = None, ae_runner_profile_id = None\<rparr>]"

definition example_definitions :: "executor_definition list" where
  "example_definitions =
     [\<lparr>ed_id = ''claude-def'', ed_provider = ''anthropic'', ed_adapter = ''claude'',
        ed_capabilities = [''code'', ''review'']\<rparr>]"

definition example_bindings :: "instance_binding list" where
  "example_bindings =
     [\<lparr>ib_agent_id = ''pi'', ib_executor_definition_id = ''claude-def'', ib_runner_profile_id = ''pi'', ib_enabled = True\<rparr>]"

definition example_authority :: "(string \<Rightarrow> string) \<Rightarrow> authority" where
  "example_authority sha =
     \<lparr>au_source_id = ''team'', au_source_version = 3, au_entries = example_entries,
      au_source_hash = canonical_hash sha example_entries, au_executor_definitions = example_definitions,
      au_executor_bindings = example_bindings,
      au_executor_catalog_hash = canonical_executor_catalog_hash sha ''team'' 3 example_definitions example_bindings\<rparr>"

lemma example_registry_loads: "load_authority sha (Inr example_registry) = Inr (example_authority sha)"
proof -
  have reg: "load_registry example_registry = Inr (''team'', 3)"
    by code_simp
  have keys: "only_keys example_registry ROOT_KEYS"
    by code_simp
  have ds: "ebind (iterate_key example_registry ''executor_definitions'') (efoldM load_definition [])
      = Inr example_definitions"
    by code_simp
  have st: "map_sum id (\<lambda>st. (rs_entries st, rs_bindings st))
      (efoldM (load_section [''claude-def''] example_registry) empty_roster [''managed'', ''external''])
      = Inr (example_entries, example_bindings)"
    by code_simp
  obtain raws where "iterate_key example_registry ''executor_definitions'' = Inr raws"
    "efoldM load_definition [] raws = Inr example_definitions"
    using ds by (auto simp: ebind_eq_Inr)
  moreover obtain st' where "efoldM (load_section [''claude-def''] example_registry) empty_roster [''managed'', ''external''] = Inr st'"
    "rs_entries st' = example_entries" "rs_bindings st' = example_bindings"
    using st by (cases "efoldM (load_section [''claude-def''] example_registry) empty_roster [''managed'', ''external'']") auto
  moreover have "map ed_id example_definitions = [''claude-def'']"
    by (simp add: example_definitions_def)
  ultimately show ?thesis
    using reg keys by (simp add: load_authority_def example_authority_def del: efoldM.simps)
qed

theorem load_authority_sound_witness: "authority_wf sha256_hex (example_authority sha256_hex)"
  by (rule load_authority_sound [OF example_registry_loads])

section \<open>The hashes\<close>

lemma entry_dict_eq_iff:
  "entry_canonical_dict e = entry_canonical_dict f \<longleftrightarrow>
     ae_id e = ae_id f \<and> ae_display_name e = ae_display_name f
     \<and> ae_discord_user_id e = ae_discord_user_id f \<and> ae_agent_type e = ae_agent_type f"
  by (auto simp: entry_canonical_dict_def)

lemma definition_dict_eq_iff: "definition_canonical_dict d = definition_canonical_dict d' \<longleftrightarrow> d = d'"
  by (cases d; cases d') (auto simp: definition_canonical_dict_def inj_map_eq_map inj_def)

lemma instance_dict_eq_iff: "instance_canonical_dict b = instance_canonical_dict b' \<longleftrightarrow> b = b'"
  by (cases b; cases b') (auto simp: instance_canonical_dict_def)

text \<open>The keys of these dictionaries are sorted in a fixed way, so sorting them loses nothing.\<close>
lemma sorted_entry_dict:
  "sort_keys (JObj (entry_canonical_dict e)) =
     JObj [(''agent_type'', JStr (ae_agent_type e)), (''discord_user_id'', JStr (ae_discord_user_id e)),
           (''display_name'', JStr (ae_display_name e)), (''id'', JStr (ae_id e))]"
  by (simp add: entry_canonical_dict_def)

lemma sorted_definition_dict:
  "sort_keys (JObj (definition_canonical_dict d)) =
     JObj [(''adapter'', JStr (ed_adapter d)), (''capabilities'', JList (map JStr (ed_capabilities d))),
           (''id'', JStr (ed_id d)), (''provider'', JStr (ed_provider d))]"
  by (simp add: definition_canonical_dict_def comp_def)

lemma sorted_instance_dict:
  "sort_keys (JObj (instance_canonical_dict b)) =
     JObj [(''agent_id'', JStr (ib_agent_id b)), (''enabled'', JBool (ib_enabled b)),
           (''executor_definition_id'', JStr (ib_executor_definition_id b)),
           (''runner_profile_id'', JStr (ib_runner_profile_id b))]"
  by (simp add: instance_canonical_dict_def)

lemmas sorted_dicts = sorted_entry_dict sorted_definition_dict sorted_instance_dict

lemma sorted_dicts_inj:
  "sort_keys (JObj (entry_canonical_dict e)) = sort_keys (JObj (entry_canonical_dict f)) \<Longrightarrow>
     entry_canonical_dict e = entry_canonical_dict f"
  "sort_keys (JObj (definition_canonical_dict d)) = sort_keys (JObj (definition_canonical_dict d')) \<Longrightarrow>
     definition_canonical_dict d = definition_canonical_dict d'"
  "sort_keys (JObj (instance_canonical_dict b)) = sort_keys (JObj (instance_canonical_dict b')) \<Longrightarrow>
     instance_canonical_dict b = instance_canonical_dict b'"
  unfolding sorted_dicts
  by (simp_all add: entry_canonical_dict_def definition_canonical_dict_def instance_canonical_dict_def)

lemma map_eq_transfer:
  assumes "map f xs = map f ys" "\<And>x y. f x = f y \<Longrightarrow> g x = g y"
  shows "map g xs = map g ys"
proof (rule nth_equalityI)
  show len: "length (map g xs) = length (map g ys)"
    using arg_cong [OF assms(1), of length] by simp
  fix i
  assume "i < length (map g xs)"
  then have i: "i < length xs" "i < length ys"
    using len by simp_all
  have "f (xs ! i) = f (ys ! i)"
    using arg_cong [OF assms(1), of "\<lambda>zs. zs ! i"] i by simp
  then have "g (xs ! i) = g (ys ! i)"
    by (rule assms(2))
  then show "map g xs ! i = map g ys ! i"
    using i by simp
qed

lemma mset_map_sort:
  assumes "map g (sort_key f xs) = map g (sort_key h ys)"
  shows "image_mset g (mset xs) = image_mset g (mset ys)"
proof -
  have "mset (map g (sort_key f xs)) = mset (map g (sort_key h ys))"
    by (simp only: assms)
  then show ?thesis by simp
qed

lemma roster_text_inj:
  assumes "roster_text es = roster_text es'"
  shows "image_mset entry_canonical_dict (mset es) = image_mset entry_canonical_dict (mset es')"
proof -
  let ?j = "\<lambda>es. JList (map (\<lambda>e. JObj (entry_canonical_dict e)) (sort_key ae_id es))"
  have "float_free (?j es)" for es
    by (simp add: list_all_iff entry_canonical_dict_def)
  moreover have "canonical_json (?j es) = canonical_json (?j es')"
    using assms by (auto simp: roster_text_def dest: utf8_inj)
  ultimately have "sort_keys (?j es) = sort_keys (?j es')"
    by (intro canonical_json_inj)
  then have "map (\<lambda>e. sort_keys (JObj (entry_canonical_dict e))) (sort_key ae_id es)
      = map (\<lambda>e. sort_keys (JObj (entry_canonical_dict e))) (sort_key ae_id es')"
    by (simp add: comp_def del: sort_keys.simps(2))
  then have "map entry_canonical_dict (sort_key ae_id es) = map entry_canonical_dict (sort_key ae_id es')"
    by (rule map_eq_transfer) (erule sorted_dicts_inj)
  then show ?thesis by (rule mset_map_sort)
qed

lemma catalog_text_inj:
  assumes "catalog_text i v ds bs = catalog_text i' v' ds' bs'"
  shows "i = i' \<and> v = v' \<and> mset ds = mset ds' \<and> mset bs = mset bs'"
proof -
  let ?d = "catalog_payload"
  have "float_free (JObj (?d i v ds bs))" for i v ds bs
    by (simp add: catalog_payload_def list_all_iff definition_canonical_dict_def instance_canonical_dict_def)
  moreover have "canonical_json (JObj (?d i v ds bs)) = canonical_json (JObj (?d i' v' ds' bs'))"
    using assms by (auto simp: catalog_text_def dest: utf8_inj)
  ultimately have "sort_keys (JObj (?d i v ds bs)) = sort_keys (JObj (?d i' v' ds' bs'))"
    by (intro canonical_json_inj)
  then have get: "sort_keys (dget (?d i v ds bs) k) = sort_keys (dget (?d i' v' ds' bs') k)" for k
    by (rule sort_keys_obj_eq) (simp_all add: catalog_payload_def keys_def)
  have "map (\<lambda>d. sort_keys (JObj (definition_canonical_dict d))) (sort_key ed_id ds)
      = map (\<lambda>d. sort_keys (JObj (definition_canonical_dict d))) (sort_key ed_id ds')"
    using get [of "''executor_definitions''"]
    by (simp add: catalog_payload_def dget_Cons comp_def del: sort_keys.simps(2))
  then have "map definition_canonical_dict (sort_key ed_id ds) = map definition_canonical_dict (sort_key ed_id ds')"
    by (rule map_eq_transfer) (erule sorted_dicts_inj)
  then have "sort_key ed_id ds = sort_key ed_id ds'"
    by (simp add: inj_map_eq_map inj_def definition_dict_eq_iff)
  moreover have "map (\<lambda>b. sort_keys (JObj (instance_canonical_dict b))) (sort_key ib_agent_id bs)
      = map (\<lambda>b. sort_keys (JObj (instance_canonical_dict b))) (sort_key ib_agent_id bs')"
    using get [of "''executor_instance_bindings''"]
    by (simp add: catalog_payload_def dget_Cons comp_def del: sort_keys.simps(2))
  then have "map instance_canonical_dict (sort_key ib_agent_id bs) = map instance_canonical_dict (sort_key ib_agent_id bs')"
    by (rule map_eq_transfer) (erule sorted_dicts_inj)
  then have "sort_key ib_agent_id bs = sort_key ib_agent_id bs'"
    by (simp add: inj_map_eq_map inj_def instance_dict_eq_iff)
  ultimately show ?thesis
    using get [of "''source_id''"] get [of "''source_version''"]
    by (simp add: catalog_payload_def dget_Cons) (metis mset_sort)
qed

lemma load_authority_hashes:
  assumes "load_authority sha document = Inr a"
  shows "au_source_hash a = sha (roster_text (au_entries a))"
    "au_executor_catalog_hash a = sha (catalog_text (au_source_id a) (au_source_version a)
       (au_executor_definitions a) (au_executor_bindings a))"
  using assms
  by (auto simp: load_authority_def ebind_eq_Inr canonical_hash_def canonical_executor_catalog_hash_def
      simp del: efoldM.simps split: sum.splits if_splits)

text \<open>
  The two hashes identify what they are computed from: two loaded authorities with the same source
  hash have the same roster up to the order of its entries, and with the same catalog hash the same
  source, version, executor definitions and bindings up to order, or their own canonical texts differ
  and are a collision of the digest.
\<close>
theorem authority_hashes_bind:
  assumes "load_authority sha doc = Inr a" "load_authority sha doc' = Inr a'"
  shows "(au_source_hash a = au_source_hash a' \<longrightarrow>
      image_mset entry_canonical_dict (mset (au_entries a)) = image_mset entry_canonical_dict (mset (au_entries a'))
      \<or> roster_text (au_entries a) \<noteq> roster_text (au_entries a')
        \<and> sha (roster_text (au_entries a)) = sha (roster_text (au_entries a')))
    \<and> (au_executor_catalog_hash a = au_executor_catalog_hash a' \<longrightarrow>
      au_source_id a = au_source_id a' \<and> au_source_version a = au_source_version a'
        \<and> mset (au_executor_definitions a) = mset (au_executor_definitions a')
        \<and> mset (au_executor_bindings a) = mset (au_executor_bindings a')
      \<or> (let t = \<lambda>a. catalog_text (au_source_id a) (au_source_version a) (au_executor_definitions a) (au_executor_bindings a)
         in t a \<noteq> t a' \<and> sha (t a) = sha (t a')))"
  using load_authority_hashes [OF assms(1)] load_authority_hashes [OF assms(2)]
    roster_text_inj [of "au_entries a" "au_entries a'"] catalog_text_inj
  unfolding Let_def by metis

theorem authority_hashes_bind_witness:
  "image_mset entry_canonical_dict (mset (au_entries (example_authority sha256_hex)))
     = image_mset entry_canonical_dict (mset example_entries)"
  using authority_hashes_bind [OF example_registry_loads example_registry_loads, of sha256_hex]
  by (simp add: example_authority_def)

section \<open>Parity\<close>

lemma entry_by_id_iff:
  assumes "distinct (map ae_id es)"
  shows "entry_by_id es i = Some e \<longleftrightarrow> e \<in> set es \<and> ae_id e = i"
proof -
  have "distinct (map fst (rev (map (\<lambda>e. (ae_id e, e)) es)))"
    using assms by (simp add: rev_map [symmetric] comp_def)
  then show ?thesis
    unfolding entry_by_id_def by (subst map_of_eq_Some_iff) auto
qed

lemma changed_fields_Nil:
  "ae_id a = ae_id r \<Longrightarrow> changed_fields a r = [] \<longleftrightarrow> entry_canonical_dict a = entry_canonical_dict r"
  by (auto simp: changed_fields_def entry_canonical_dict_def)

lemma diff_rosters_Nil_iff:
  assumes "distinct (map ae_id as)" "distinct (map ae_id rs)"
  shows "diff_rosters as rs = [] \<longleftrightarrow> entry_canonical_dict ` set as = entry_canonical_dict ` set rs"
    (is "_ \<longleftrightarrow> ?c as = ?c rs")
proof -
  have "diff_rosters as rs = [] \<longleftrightarrow>
      (\<forall>i \<in> ae_id ` set as \<union> ae_id ` set rs. diff_entry (entry_by_id as i) (entry_by_id rs i) i = [])"
    by (auto simp: diff_rosters_def)
  also have "\<dots> \<longleftrightarrow> ?c as = ?c rs"
  proof
    assume all: "\<forall>i \<in> ae_id ` set as \<union> ae_id ` set rs. diff_entry (entry_by_id as i) (entry_by_id rs i) i = []"
    have both: "\<exists>a r. entry_by_id as i = Some a \<and> entry_by_id rs i = Some r \<and> entry_canonical_dict a = entry_canonical_dict r"
      if "i \<in> ae_id ` set as \<union> ae_id ` set rs" for i
    proof -
      have "diff_entry (entry_by_id as i) (entry_by_id rs i) i = []"
        using all that by (rule bspec)
      then obtain a r where "entry_by_id as i = Some a" "entry_by_id rs i = Some r" "changed_fields a r = []"
        by (auto simp: diff_entry_def split: option.splits if_splits)
      then show ?thesis
        using changed_fields_Nil [of a r] assms by (auto simp: entry_by_id_iff)
    qed
    have "entry_canonical_dict e \<in> ?c rs" if mem: "e \<in> set as" for e
    proof -
      obtain a r where ar: "entry_by_id as (ae_id e) = Some a" "entry_by_id rs (ae_id e) = Some r"
        "entry_canonical_dict a = entry_canonical_dict r"
        using both [OF UnI1 [OF imageI [OF mem]]] by (elim exE conjE)
      have "a = e" "r \<in> set rs"
        using ar(1,2) mem entry_by_id_iff [OF assms(1), of "ae_id e" e] entry_by_id_iff [OF assms(2)] by simp_all
      then show ?thesis
        using ar(3) by blast
    qed
    moreover have "entry_canonical_dict e \<in> ?c as" if mem: "e \<in> set rs" for e
    proof -
      obtain a r where ar: "entry_by_id as (ae_id e) = Some a" "entry_by_id rs (ae_id e) = Some r"
        "entry_canonical_dict a = entry_canonical_dict r"
        using both [OF UnI2 [OF imageI [OF mem]]] by (elim exE conjE)
      have "r = e" "a \<in> set as"
        using ar(1,2) mem entry_by_id_iff [OF assms(2), of "ae_id e" e] entry_by_id_iff [OF assms(1)] by simp_all
      then show ?thesis
        using ar(3) by (metis imageI)
    qed
    ultimately show "?c as = ?c rs" by blast
  next
    assume eq: "?c as = ?c rs"
    have twin: "\<exists>f \<in> set ys. entry_canonical_dict f = entry_canonical_dict e"
      if "e \<in> set xs" "?c xs = ?c ys" for e xs ys
      using that by (metis image_iff)
    show "\<forall>i \<in> ae_id ` set as \<union> ae_id ` set rs. diff_entry (entry_by_id as i) (entry_by_id rs i) i = []"
    proof
      fix i assume "i \<in> ae_id ` set as \<union> ae_id ` set rs"
      then obtain a r where ar: "a \<in> set as" "r \<in> set rs" "entry_canonical_dict a = entry_canonical_dict r" "ae_id a = i"
        using twin [OF _ eq] twin [OF _ eq [symmetric]] by (auto simp: entry_dict_eq_iff) metis+
      then have "entry_by_id as i = Some a" "entry_by_id rs i = Some r"
        using assms by (auto simp: entry_by_id_iff entry_dict_eq_iff)
      then show "diff_entry (entry_by_id as i) (entry_by_id rs i) i = []"
        using ar changed_fields_Nil [of a r] by (simp add: diff_entry_def entry_dict_eq_iff)
    qed
  qed
  finally show ?thesis .
qed

text \<open>Rosters without a difference have the same canonical text, so the comparison of the hashes adds nothing.\<close>
lemma same_roster_text:
  assumes "distinct (map ae_id as)" "distinct (map ae_id rs)"
    and "entry_canonical_dict ` set as = entry_canonical_dict ` set rs"
  shows "roster_text as = roster_text rs"
proof -
  define key where "key = (\<lambda>d. case dget d ''id'' of JStr s \<Rightarrow> s | _ \<Rightarrow> [])"
  have key: "key (entry_canonical_dict e) = ae_id e" for e
    by (simp add: key_def entry_canonical_dict_def dget_Cons)
  have dist: "distinct (map entry_canonical_dict es)" if "distinct (map ae_id es)" for es
    using that by (auto simp: distinct_map inj_on_def entry_dict_eq_iff)
  have sorted: "sort_key key (map entry_canonical_dict es) = map entry_canonical_dict (sort_key ae_id fs)"
    if "mset (map entry_canonical_dict es) = mset (map entry_canonical_dict fs)" "distinct (map ae_id es)" for es fs
  proof (rule sort_key_inj_key_eq)
    show "mset (map entry_canonical_dict es) = mset (map entry_canonical_dict (sort_key ae_id fs))"
      using that(1) by simp
    show "inj_on key (set (map entry_canonical_dict es))"
      using that(2) by (auto simp: inj_on_def key distinct_map)
    show "sorted (map key (map entry_canonical_dict (sort_key ae_id fs)))"
      by (simp add: comp_def key)
  qed
  have "mset (map entry_canonical_dict as) = mset (map entry_canonical_dict rs)"
    using assms dist set_eq_iff_mset_eq_distinct by (metis list.set_map)
  from sorted [OF this assms(1)] sorted [OF refl assms(1)]
  have "map entry_canonical_dict (sort_key ae_id as) = map entry_canonical_dict (sort_key ae_id rs)"
    by simp
  then have "map JObj (map entry_canonical_dict (sort_key ae_id as)) = map JObj (map entry_canonical_dict (sort_key ae_id rs))"
    by (simp only:)
  then show ?thesis
    by (simp add: roster_text_def comp_def)
qed

definition projected_ok :: "roster_state \<times> string list \<Rightarrow> bool" where
  "projected_ok acc =
     (distinct (map ae_id (rs_entries (fst acc)))
      \<and> (\<forall>e \<in> set (rs_entries (fst acc)). ae_id e \<in> fst ` set (rs_ids (fst acc))))"

text \<open>An entry leaves the state alone, or notes its id, or notes its id and is added under it.\<close>
lemma project_entry_cases:
  fixes acc :: "roster_state \<times> string list" and ty :: string and item :: "nat \<times> json"
  defines "st \<equiv> fst acc" and "st' \<equiv> fst (project_entry ty acc item)"
  shows "st' = st \<or> (\<exists>i. i \<notin> fst ` set (rs_ids st) \<and> fst ` set (rs_ids st') = insert i (fst ` set (rs_ids st))
    \<and> (rs_entries st' = rs_entries st \<or> (\<exists>e. ae_id e = i \<and> rs_entries st' = rs_entries st @ [e])))"
proof (cases acc; cases item; cases "snd item")
  fix s errors idx raw e
  assume acc: "acc = (s, errors)" and item: "item = (idx, raw)" and obj: "snd item = JObj e"
  show ?thesis
  proof (cases "normalize_id (dget e ''id'')")
    case (Inr i)
    have set_ids: "st = s"
      by (simp add: st_def acc)
    show ?thesis
    proof (cases "i \<in> fst ` set (rs_ids s)")
      case True
      then have "st' = st"
        using acc item obj Inr by (simp add: st_def st'_def project_entry_def Let_def)
      then show ?thesis by simp
    next
      case False
      have "fst ` set (rs_ids st') = insert i (fst ` set (rs_ids st))
          \<and> (rs_entries st' = rs_entries st \<or> (\<exists>e. ae_id e = i \<and> rs_entries st' = rs_entries st @ [e]))"
        using acc item obj Inr False
        by (cases "validate_discord_user_id (dget e ''discord_user_id'') False")
          (simp_all add: st_def st'_def project_entry_def Let_def add_entry_def)
      then show ?thesis
        using False set_ids by blast
    qed
  qed (use acc item obj in \<open>simp add: st_def st'_def project_entry_def Let_def\<close>)
qed (simp_all add: st_def st'_def project_entry_def Let_def)

lemma project_entry_ok: "projected_ok acc \<Longrightarrow> projected_ok (project_entry ty acc item)"
  using project_entry_cases [of ty acc item] unfolding projected_ok_def by auto

lemma foldl_preserves: "(\<And>s x. P s \<Longrightarrow> P (f s x)) \<Longrightarrow> P s \<Longrightarrow> P (foldl f s xs)"
  by (induction xs arbitrary: s) auto

lemma project_section_ok: "projected_ok acc \<Longrightarrow> projected_ok (project_section data acc ty)"
  by (cases "dget data (section_label ty)")
    (simp_all add: project_section_def Let_def project_entry_ok foldl_preserves [where P = projected_ok],
      simp_all add: projected_ok_def)

lemma runtime_ids_distinct: "distinct (map ae_id (fst (project_runtime_roster doc)))"
proof (cases doc)
  case (Inr data)
  have "projected_ok (foldl (project_section data) (empty_roster, []) [''managed'', ''external''])"
    by (rule foldl_preserves) (rule project_section_ok, assumption, simp add: projected_ok_def empty_roster_def)
  then show ?thesis
    by (simp add: project_runtime_roster_def Inr projected_ok_def split_beta del: foldl.simps)
qed (simp add: project_runtime_roster_def)

lemma list_all2_bound_to:
  "list_all2 bound_to es bs \<Longrightarrow> map ib_agent_id bs = map ae_id es"
  by (induction es bs rule: list_all2_induct) (auto simp: bound_to_def)

lemma distinct_map_filter_ids: "distinct (map f xs) \<Longrightarrow> distinct (map f (filter P xs))"
  by (simp add: distinct_map_filter)

lemma bindings_distinct: "roster_wf ids es bs \<Longrightarrow> distinct (map ib_agent_id bs)"
  using list_all2_bound_to distinct_map_filter_ids unfolding roster_wf_def by metis

lemma list_all2_member2: "list_all2 P xs ys \<Longrightarrow> y \<in> set ys \<Longrightarrow> \<exists>x \<in> set xs. P x y"
  by (induction xs ys rule: list_all2_induct) auto

lemma binding_of_definition:
  assumes "roster_wf ids es bs" "b \<in> set bs"
  shows "ib_executor_definition_id b \<in> set ids"
proof -
  have rel: "list_all2 bound_to (filter (\<lambda>e. ae_executor_definition_id e \<noteq> None) es) bs"
    and ok: "list_all (entry_ok ids) es"
    using assms(1) by (simp_all add: roster_wf_def)
  obtain e where "e \<in> set es" "bound_to e b"
    using list_all2_member2 [OF rel assms(2)] by auto
  then show ?thesis
    using ok by (auto simp: list_all_iff entry_ok_def bound_to_def)
qed

text \<open>The definition that a binding runs, and its adapter in the runtime file.\<close>
definition adapter_agrees ::
    "executor_definition list \<Rightarrow> (string \<times> string) list \<Rightarrow> instance_binding \<Rightarrow> bool" where
  "adapter_agrees definitions adapters b =
     (\<exists>d \<in> set definitions. ed_id d = ib_executor_definition_id b
        \<and> map_of adapters (ib_agent_id b) = Some (ed_adapter d))"

lemma find_distinct:
  "distinct (map f xs) \<Longrightarrow> find (\<lambda>x. f x = k) xs = Some x \<longleftrightarrow> x \<in> set xs \<and> f x = k"
  by (induction xs) (auto simp: image_iff)

lemma binding_parity_Nil_iff:
  assumes "definitions_wf ds" "ib_executor_definition_id b \<in> set (map ed_id ds)"
  shows "binding_parity ds adapters (ib_agent_id b, b) = [] \<longleftrightarrow> adapter_agrees ds adapters b"
proof -
  have dist: "distinct (map ed_id ds)"
    using assms(1) by (simp add: definitions_wf_def)
  obtain d where d: "d \<in> set ds" "ed_id d = ib_executor_definition_id b"
    using assms(2) by auto
  then have "find (\<lambda>d. ed_id d = ib_executor_definition_id b) ds = Some d"
    using dist by (simp add: find_distinct)
  moreover have "adapter_agrees ds adapters b \<longleftrightarrow> map_of adapters (ib_agent_id b) = Some (ed_adapter d)"
    using d dist unfolding adapter_agrees_def distinct_map inj_on_def by metis
  ultimately show ?thesis
    by (cases "map_of adapters (ib_agent_id b)") (simp_all add: binding_parity_def)
qed

lemma bindings_parity_Nil_iff:
  assumes "authority_wf sha a"
  shows "concat (map (binding_parity (au_executor_definitions a) adapters)
        (alist_update [] (map (\<lambda>b. (ib_agent_id b, b)) (au_executor_bindings a)))) = []
    \<longleftrightarrow> list_all (adapter_agrees (au_executor_definitions a) adapters) (au_executor_bindings a)"
proof -
  have wf: "definitions_wf (au_executor_definitions a)"
    "roster_wf (map ed_id (au_executor_definitions a)) (au_entries a) (au_executor_bindings a)"
    using assms by (simp_all add: authority_wf_def)
  have "alist_update [] (map (\<lambda>b. (ib_agent_id b, b)) (au_executor_bindings a))
      = map (\<lambda>b. (ib_agent_id b, b)) (au_executor_bindings a)"
    using alist_update_distinct [of "[]" "map (\<lambda>b. (ib_agent_id b, b)) (au_executor_bindings a)"]
      bindings_distinct [OF wf(2)] by (simp add: comp_def)
  then show ?thesis
    using binding_parity_Nil_iff [OF wf(1) binding_of_definition [OF wf(2)]] by (simp add: list_all_iff)
qed

lemma parity_rosters:
  assumes "authority_wf sha a" "project_runtime_roster rdoc = (es, [])"
  shows "diff_rosters (au_entries a) es = [] \<longleftrightarrow> entry_canonical_dict ` set es = entry_canonical_dict ` set (au_entries a)"
    and "diff_rosters (au_entries a) es = [] \<Longrightarrow> canonical_hash sha es = au_source_hash a"
proof -
  have "distinct (map ae_id (au_entries a))"
    using assms(1) by (simp add: authority_wf_def roster_wf_def)
  moreover have "distinct (map ae_id es)"
    using runtime_ids_distinct [of rdoc] assms(2) by simp
  ultimately show diff: "diff_rosters (au_entries a) es = [] \<longleftrightarrow> entry_canonical_dict ` set es = entry_canonical_dict ` set (au_entries a)"
    and "diff_rosters (au_entries a) es = [] \<Longrightarrow> canonical_hash sha es = au_source_hash a"
    using assms(1) same_roster_text [of es "au_entries a"]
    by (auto simp: diff_rosters_Nil_iff canonical_hash_def authority_wf_def)
qed

text \<open>
  A verification succeeds exactly when the authority loads, the runtime file projects without an
  error, both have the same agents with the same name, Discord id and kind, and every agent with an
  executor binding has in the runtime file the adapter of the definition it is bound to; and a
  verification that fails says why.
\<close>
theorem parity_exact:
  assumes "verify_parity sha adoc rdoc = Inr r"
  shows "(pa_ok r \<longleftrightarrow>
      (\<exists>a adapters. load_authority sha adoc = Inr a
        \<and> snd (project_runtime_roster rdoc) = []
        \<and> entry_canonical_dict ` set (fst (project_runtime_roster rdoc)) = entry_canonical_dict ` set (au_entries a)
        \<and> runtime_adapter_by_id rdoc = Inr adapters
        \<and> (\<forall>b \<in> set (au_executor_bindings a). adapter_agrees (au_executor_definitions a) adapters b))) \<and> (pa_ok r \<longleftrightarrow> pa_errors r = [] \<and> pa_diff r = [])"
proof (cases "load_authority sha adoc")
  case (Inl e)
  then show ?thesis
    using assms by (cases e) (auto simp: verify_parity_def)
next
  case (Inr a)
  have wf: "authority_wf sha a"
    using Inr by (rule load_authority_wf)
  obtain es errors where proj: "project_runtime_roster rdoc = (es, errors)"
    by fastforce
  obtain adapters where ad: "runtime_adapter_by_id rdoc = Inr adapters"
    using assms by (auto simp: verify_parity_def Inr proj ebind_eq_Inr)
  show ?thesis
  proof (cases "errors = [] \<and> diff_rosters (au_entries a) es = []")
    case True
    then have "project_runtime_roster rdoc = (es, [])" "diff_rosters (au_entries a) es = []"
      using proj by simp_all
    note rosters = parity_rosters(1) [OF wf this(1)] parity_rosters(2) [OF wf this]
    show ?thesis
      using assms True rosters bindings_parity_Nil_iff [OF wf, of adapters]
      by (auto simp: verify_parity_def Inr proj ad Let_def list_all_iff simp del: concat_eq_Nil_conv)
  next
    case False
    then show ?thesis
      using assms parity_rosters(1) [OF wf, of rdoc es] proj
      by (auto simp: verify_parity_def Inr proj ad Let_def split: if_splits)
  qed
qed

lemma verify_parity_returns:
  assumes "load_authority sha adoc = Inr a" "runtime_adapter_by_id rdoc = Inr adapters"
  shows "\<exists>r. verify_parity sha adoc rdoc = Inr r"
proof -
  obtain es errors where "project_runtime_roster rdoc = (es, errors)"
    by fastforce
  then show ?thesis
    using assms by (simp add: verify_parity_def Let_def del: concat_eq_Nil_conv)
qed

definition example_runtime :: dict where
  "example_runtime =
     [(''agents'', JList [JObj [(''id'', JStr ''pi''), (''discord_user_id'', JInt 1001), (''adapter'', JStr '' claude ''),
         (''token'', JStr ''secret'')]]),
      (''external_agents'', JList [JObj [(''id'', JStr ''bob''), (''display_name'', JStr ''Bob''),
         (''discord_user_id'', JStr ''1002'')]])]"

lemma example_runtime_projects:
  "map_prod (map entry_canonical_dict) id (project_runtime_roster (Inr example_runtime))
     = (map entry_canonical_dict example_entries, [])"
  "runtime_adapter_by_id (Inr example_runtime) = Inr [(''pi'', ''claude'')]"
  by code_simp+

theorem parity_exact_witness:
  "\<exists>r. verify_parity sha256_hex (Inr example_registry) (Inr example_runtime) = Inr r \<and> pa_ok r"
proof -
  obtain r where r: "verify_parity sha256_hex (Inr example_registry) (Inr example_runtime) = Inr r"
    using verify_parity_returns [OF example_registry_loads example_runtime_projects(2)] by blast
  have proj: "snd (project_runtime_roster (Inr example_runtime)) = []"
    "map entry_canonical_dict (fst (project_runtime_roster (Inr example_runtime))) = map entry_canonical_dict example_entries"
    using example_runtime_projects(1) by (simp_all add: map_prod_def split_beta)
  have "entry_canonical_dict ` set (fst (project_runtime_roster (Inr example_runtime))) = entry_canonical_dict ` set example_entries"
    using proj(2) by (metis list.set_map)
  then have "pa_ok r"
    using parity_exact [OF r] proj(1) example_registry_loads example_runtime_projects(2)
    by (simp add: example_authority_def adapter_agrees_def example_bindings_def example_definitions_def)
  then show ?thesis
    using r by blast
qed

text \<open>A number for the agents is no error of the runtime roster's report but an uncaught exception.\<close>
lemma runtime_agents_number:
  "snd (project_runtime_roster (Inr [(''agents'', JInt 1)])) = [''agents must be a list of tables'']"
  "verify_parity sha (Inr example_registry) (Inr [(''agents'', JInt 1)]) = Inl RegistryTypeError"
proof -
  have ad: "runtime_adapter_by_id (Inr [(''agents'', JInt 1)]) = Inl RegistryTypeError"
    by (simp add: runtime_adapter_by_id_def iterate_key_def dget_Cons has_key_iff)
  then show "verify_parity sha (Inr example_registry) (Inr [(''agents'', JInt 1)]) = Inl RegistryTypeError"
    by (simp add: verify_parity_def example_registry_loads split_beta del: concat_eq_Nil_conv)
  show "snd (project_runtime_roster (Inr [(''agents'', JInt 1)])) = [''agents must be a list of tables'']"
    by code_simp
qed

end
