(* ===== verification/JsonParse.thy ===== *)
theory JsonParse
  imports Json
begin

text \<open>
  \<open>json.loads\<close>: the scanner of Python's \<open>json\<close> module on the code points 0 to 255. The result is
  \<open>None\<close> where \<open>JSONDecodeError\<close> is raised, and for the escapes of code points above 255, which the
  alphabet of the model lacks. A float keeps its literal, a repeated key its first place and its last
  value.

  \<^item> \<open>json_parse_canonical\<close>: the canonical text of a value is read back as the value, with the keys
    of its dictionaries in order.
  \<^item> \<open>p_value_fuel\<close>: the fuel of \<open>json_parse\<close> is enough.
\<close>

section \<open>The scanner\<close>

definition json_ws :: "char \<Rightarrow> bool" where
  "json_ws c = (c = CHR '' '' \<or> c = CHR 0x09 \<or> c = nl \<or> c = CHR 0x0D)"

definition skip_ws :: "string \<Rightarrow> string" where
  "skip_ws s = dropWhile json_ws s"

definition hex_value :: "char \<Rightarrow> nat option" where
  "hex_value c =
     (if is_digit c then Some (ord c - 48)
      else if between CHR ''a'' CHR ''f'' c then Some (ord c - 87)
      else if between CHR ''A'' CHR ''F'' c then Some (ord c - 55)
      else None)"

text \<open>The code point of a \<open>\uXXXX\<close> escape.\<close>
definition hex4 :: "char \<Rightarrow> char \<Rightarrow> char \<Rightarrow> char \<Rightarrow> char option" where
  "hex4 a b c d =
     (case (hex_value a, hex_value b, hex_value c, hex_value d) of
        (Some w, Some x, Some y, Some z) \<Rightarrow> if w = 0 \<and> x = 0 then Some (char_of (16 * y + z)) else None
      | _ \<Rightarrow> None)"

definition simple_escape :: "char \<Rightarrow> char option" where
  "simple_escape c =
     (if c = dquote \<or> c = bslash \<or> c = CHR ''/'' then Some c
      else if c = CHR ''n'' then Some nl
      else if c = CHR ''r'' then Some (CHR 0x0D)
      else if c = CHR ''t'' then Some (CHR 0x09)
      else if c = CHR ''f'' then Some (CHR 0x0C)
      else if c = CHR ''b'' then Some (CHR 0x08)
      else None)"

text \<open>A string after its opening quote, and the text after the closing one.\<close>
fun p_string :: "string \<Rightarrow> (string \<times> string) option" where
  "p_string [] = None"
| "p_string (c # s) =
     (if c = dquote then Some ([], s)
      else if ord c < 32 then None
      else if c \<noteq> bslash then map_option (\<lambda>(t, r). (c # t, r)) (p_string s)
      else
        (case s of
           [] \<Rightarrow> None
         | e # s1 \<Rightarrow>
             if e = CHR ''u'' then
               (case s1 of
                  w # x # y # z # s2 \<Rightarrow>
                    (case hex4 w x y z of
                       None \<Rightarrow> None
                     | Some d \<Rightarrow> map_option (\<lambda>(t, r). (d # t, r)) (p_string s2))
                | _ \<Rightarrow> None)
             else
               (case simple_escape e of
                  None \<Rightarrow> None
                | Some d \<Rightarrow> map_option (\<lambda>(t, r). (d # t, r)) (p_string s1))))"

text \<open>The fraction and the exponent of a number, empty where there is none.\<close>
definition p_fraction :: "string \<Rightarrow> string" where
  "p_fraction s =
     (if take 1 s = ''.'' \<and> takeWhile is_digit (drop 1 s) \<noteq> [] then CHR ''.'' # takeWhile is_digit (drop 1 s) else [])"

definition p_exponent :: "string \<Rightarrow> string" where
  "p_exponent s =
     (if take 1 s = ''e'' \<or> take 1 s = ''E'' then
        let sign = (if take 1 (drop 1 s) = ''+'' \<or> take 1 (drop 1 s) = ''-'' then take 1 (drop 1 s) else []);
            digits = takeWhile is_digit (drop (1 + length sign) s)
        in if digits = [] then [] else take 1 s @ sign @ digits
      else [])"

definition p_whole :: "string \<Rightarrow> string" where
  "p_whole s = (if take 1 s = ''0'' then ''0'' else takeWhile is_digit s)"

text \<open>The number after its sign.\<close>
definition p_unsigned :: "bool \<Rightarrow> string \<Rightarrow> (json \<times> string) option" where
  "p_unsigned neg s =
     (let whole = p_whole s;
          s2 = drop (length whole) s;
          frac = p_fraction s2;
          s3 = drop (length frac) s2;
          expo = p_exponent s3
      in if whole = [] then None
         else if frac = [] \<and> expo = [] then Some (JInt (if neg then - int (read_nat whole) else int (read_nat whole)), s2)
         else Some (JFloat ((if neg then ''-'' else []) @ whole @ frac @ expo), drop (length expo) s3))"

definition p_number :: "string \<Rightarrow> (json \<times> string) option" where
  "p_number s = (if take 1 s = ''-'' then p_unsigned True (drop 1 s) else p_unsigned False s)"

text \<open>The constants, and the numbers.\<close>
definition p_scalar :: "string \<Rightarrow> (json \<times> string) option" where
  "p_scalar s =
     (if startswith s ''null'' then Some (JNull, drop 4 s)
      else if startswith s ''true'' then Some (JBool True, drop 4 s)
      else if startswith s ''false'' then Some (JBool False, drop 5 s)
      else if p_number s \<noteq> None then p_number s
      else if startswith s ''NaN'' then Some (JFloat ''NaN'', drop 3 s)
      else if startswith s ''Infinity'' then Some (JFloat ''Infinity'', drop 8 s)
      else if startswith s ''-Infinity'' then Some (JFloat ''-Infinity'', drop 9 s)
      else None)"

text \<open>
  A value, the rest of an array from its next value, and the rest of an object from its next key. The
  first argument is fuel; each call has one unit less.
\<close>
fun p_value :: "nat \<Rightarrow> string \<Rightarrow> (json \<times> string) option"
  and p_elems :: "nat \<Rightarrow> string \<Rightarrow> (json list \<times> string) option"
  and p_members :: "nat \<Rightarrow> string \<Rightarrow> (dict \<times> string) option" where
  "p_value 0 s = None"
| "p_value (Suc n) s =
     (case s of
        [] \<Rightarrow> None
      | c # s1 \<Rightarrow>
          if c = dquote then map_option (\<lambda>(t, r). (JStr t, r)) (p_string s1)
          else if c = CHR ''['' then
            (if take 1 (skip_ws s1) = '']'' then Some (JList [], drop 1 (skip_ws s1))
             else map_option (\<lambda>(xs, r). (JList xs, r)) (p_elems n (skip_ws s1)))
          else if c = CHR ''{'' then
            (if take 1 (skip_ws s1) = ''}'' then Some (JObj [], drop 1 (skip_ws s1))
             else map_option (\<lambda>(d, r). (JObj (alist_update [] d), r)) (p_members n (skip_ws s1)))
          else p_scalar s)"
| "p_elems 0 s = None"
| "p_elems (Suc n) s =
     (case p_value n s of
        None \<Rightarrow> None
      | Some (x, r) \<Rightarrow>
          (case skip_ws r of
             [] \<Rightarrow> None
           | c # r1 \<Rightarrow>
               if c = CHR '']'' then Some ([x], r1)
               else if c = CHR '','' then map_option (\<lambda>(xs, r2). (x # xs, r2)) (p_elems n (skip_ws r1))
               else None))"
| "p_members 0 s = None"
| "p_members (Suc n) s =
     (case s of
        [] \<Rightarrow> None
      | q # s1 \<Rightarrow>
          if q \<noteq> dquote then None
          else
            (case p_string s1 of
               None \<Rightarrow> None
             | Some (k, r) \<Rightarrow>
                 if take 1 (skip_ws r) \<noteq> '':'' then None
                 else
                   (case p_value n (skip_ws (drop 1 (skip_ws r))) of
                      None \<Rightarrow> None
                    | Some (v, r1) \<Rightarrow>
                        (case skip_ws r1 of
                           [] \<Rightarrow> None
                         | c # r2 \<Rightarrow>
                             if c = CHR ''}'' then Some ([(k, v)], r2)
                             else if c = CHR '','' then
                               map_option (\<lambda>(d, r3). ((k, v) # d, r3)) (p_members n (skip_ws r2))
                             else None))))"

definition json_parse :: "string \<Rightarrow> json option" where
  "json_parse s =
     (case p_value (2 * length s + 2) (skip_ws s) of
        None \<Rightarrow> None
      | Some (j, r) \<Rightarrow> if skip_ws r = [] then Some j else None)"

lemma json_parse_examples:
  "json_parse ''{ }'' = Some (JObj [])"
  "json_parse (''['' @ nl # '' 1, -20 ,0.5e3, null] '') = Some (JList [JInt 1, JInt (-20), JFloat ''0.5e3'', JNull])"
  "json_parse ''01'' = None"
  "json_parse ''[1,]'' = None"
  "json_parse (''{'' @ quote ''a'' @ '':1,'' @ quote ''b'' @ '':[],'' @ quote ''a'' @ '':2}'') = Some (JObj [(''a'', JInt 2), (''b'', JList [])])"
  by code_simp+

section \<open>Reading back what was written\<close>

lemma hex_value_digit: "n < 16 \<Longrightarrow> hex_value (hex_digit n) = Some n"
  by (simp add: hex_value_def is_digit_def between_def ord_hex_digit) (simp add: ord_def)

lemma char_of_ord: "char_of (ord c) = c"
  by (simp add: ord_def)

lemma ord_escapes [simp]:
  "ord dquote = 34" "ord bslash = 92" "ord nl = 10" "ord (CHR 0x0D) = 13" "ord (CHR 0x09) = 9"
  "ord (CHR 0x0C) = 12" "ord (CHR 0x08) = 8" "ord CHR ''0'' = 48"
  by (simp_all add: ord_def)

lemma simple_escapes [simp]:
  "simple_escape dquote = Some dquote" "simple_escape bslash = Some bslash" "simple_escape CHR ''n'' = Some nl"
  "simple_escape CHR ''r'' = Some (CHR 0x0D)" "simple_escape CHR ''t'' = Some (CHR 0x09)"
  "simple_escape CHR ''f'' = Some (CHR 0x0C)" "simple_escape CHR ''b'' = Some (CHR 0x08)"
  by (simp_all add: simple_escape_def)

lemma hex4_control: "ord c < 32 \<Longrightarrow> hex4 CHR ''0'' CHR ''0'' (hex_digit (ord c div 16)) (hex_digit (ord c mod 16)) = Some c"
proof -
  assume "ord c < 32"
  moreover have "hex_value CHR ''0'' = Some 0"
    by code_simp
  ultimately show ?thesis
    by (simp add: hex4_def hex_value_digit char_of_ord)
qed

lemma p_string_esc:
  "p_string (esc_char c @ s) = map_option (\<lambda>(t, r). (c # t, r)) (p_string s)"
proof (cases "c \<in> {dquote, bslash, nl, CHR 0x0D, CHR 0x09, CHR 0x0C, CHR 0x08}")
  case True
  then show ?thesis
    by (elim insertE emptyE) (simp_all add: esc_char_def)
next
  case False
  then show ?thesis
    by (cases "ord c < 32") (simp_all add: esc_char_def hex4_control)
qed

lemma p_string_escape: "p_string (escape s @ dquote # r) = Some (s, r)"
  by (induction s) (simp_all add: escape_Cons p_string_esc escape_def)

lemma digit_not_delimiter: "delimited r \<Longrightarrow> takeWhile is_digit r = []"
  by (cases r) (auto simp: delimited_def is_digit_def between_def ord_def)

lemma takeWhile_digits: "list_all is_digit ds \<Longrightarrow> delimited r \<Longrightarrow> takeWhile is_digit (ds @ r) = ds"
  by (induction ds) (simp_all add: digit_not_delimiter)

lemma show_nat_zero: "take 1 (show_nat n) = ''0'' \<Longrightarrow> n = 0"
proof (induction n rule: show_nat.induct)
  case (1 n)
  show ?case
  proof (cases "n < 10")
    case True
    then have "char_of (48 + n) = CHR ''0''"
      using 1(2) by (subst (asm) show_nat.simps) simp
    then have "ord (char_of (48 + n)) = ord CHR ''0''"
      by (simp only:)
    then show ?thesis
      using True by simp
  next
    case False
    then have "take 1 (show_nat (n div 10)) = ''0''"
      using 1(2) by (subst (asm) show_nat.simps) (cases "show_nat (n div 10)", auto)
    then show ?thesis
      using 1(1) False by simp
  qed
qed

lemma p_fraction_delimited [simp]: "delimited r \<Longrightarrow> p_fraction r = []"
  by (cases r) (auto simp: p_fraction_def delimited_def)

lemma p_exponent_delimited [simp]: "delimited r \<Longrightarrow> p_exponent r = []"
  by (cases r) (auto simp: p_exponent_def delimited_def)

lemma whole_of_show_nat:
  assumes "delimited r"
  shows "p_whole (show_nat n @ r) = show_nat n"
proof -
  obtain c ds where n: "show_nat n = c # ds"
    by (cases "show_nat n") auto
  have "takeWhile is_digit (show_nat n @ r) = show_nat n"
    using assms show_nat_digits [of _ n] by (intro takeWhile_digits) (simp_all add: list_all_iff)
  moreover have "n = 0" if "c = CHR ''0''"
    using show_nat_zero [of n] that by (simp add: n)
  moreover have "show_nat 0 = ''0''"
    by code_simp
  ultimately show ?thesis
    using n by (auto simp: p_whole_def)
qed

lemma p_number_show_nat:
  assumes "delimited r"
  shows "p_number (show_nat n @ r) = Some (JInt (int n), r)"
    and "p_number (CHR ''-'' # show_nat n @ r) = Some (JInt (- int n), r)"
proof -
  obtain c ds where n: "show_nat n = c # ds" "is_digit c"
    using show_nat_digits [of _ n] by (cases "show_nat n") auto
  then have "take 1 (show_nat n @ r) \<noteq> ''-''"
    by (auto simp: is_digit_def between_def ord_def)
  then show "p_number (show_nat n @ r) = Some (JInt (int n), r)"
    "p_number (CHR ''-'' # show_nat n @ r) = Some (JInt (- int n), r)"
    using assms by (simp_all add: p_number_def p_unsigned_def Let_def whole_of_show_nat del: take_append)
qed

lemma p_number_show_int: "delimited r \<Longrightarrow> p_number (show_int i @ r) = Some (JInt i, r)"
  using p_number_show_nat [of r "nat i"] p_number_show_nat [of r "nat (- i)"] by (simp add: show_int_def)

section \<open>Reading back values\<close>

text \<open>Dictionaries without repeated keys, at every level.\<close>
fun keys_distinct :: "json \<Rightarrow> bool" where
  "keys_distinct (JList xs) = list_all keys_distinct xs"
| "keys_distinct (JObj d) = (distinct (map fst d) \<and> list_all (\<lambda>(k, v). keys_distinct v) d)"
| "keys_distinct j = True"

lemma json_ws_kind: "json_ws c \<Longrightarrow> char_kind c = 7"
  by (elim json_ws_def [THEN iffD1, THEN disjE] disjE) (simp_all add: char_kind_def num_char_def is_digit_def between_def ord_def)

lemma skip_ws_start: "\<not> json_ws c \<Longrightarrow> skip_ws (c # s) = c # s"
  by (simp add: skip_ws_def)

lemma skip_ws_marks [simp]:
  "skip_ws (CHR '','' # s) = CHR '','' # s" "skip_ws (CHR '']'' # s) = CHR '']'' # s"
  "skip_ws (CHR ''}'' # s) = CHR ''}'' # s" "skip_ws (CHR '':'' # s) = CHR '':'' # s"
  "skip_ws (dquote # s) = dquote # s" "skip_ws [] = []"
  by (simp_all add: skip_ws_def json_ws_def)

lemma kind_less: "float_free j \<Longrightarrow> kind j < 7"
  by (cases j) auto

lemma skip_ws_compact [simp]:
  assumes "float_free j"
  shows "skip_ws (compact j @ r) = compact j @ r"
proof -
  obtain c t where "compact j = c # t" "char_kind c = kind j"
    using assms by (rule first_char)
  then show ?thesis
    using json_ws_kind [of c] kind_less [OF assms] by (auto intro: skip_ws_start)
qed

lemma compact_first:
  assumes "float_free j"
  shows "take 1 (compact j @ r) \<noteq> '']''" and "compact j \<noteq> []"
proof -
  obtain c t where "compact j = c # t" "char_kind c = kind j"
    using assms by (rule first_char)
  then show "take 1 (compact j @ r) \<noteq> '']''" "compact j \<noteq> []"
    using kind_less [OF assms] by auto
qed

definition reads_value :: "json \<Rightarrow> bool" where
  "reads_value j \<longleftrightarrow> (\<forall>n r. 2 * length (compact j) \<le> n \<longrightarrow> delimited r \<longrightarrow> p_value n (compact j @ r) = Some (j, r))"

lemma reads_valueD:
  "reads_value j \<Longrightarrow> 2 * length (compact j) \<le> n \<Longrightarrow> delimited r \<Longrightarrow> p_value n (compact j @ r) = Some (j, r)"
  by (simp add: reads_value_def)

lemma p_elems_compact:
  assumes "\<And>y. y \<in> set (x # xs) \<Longrightarrow> reads_value y" "list_all float_free (x # xs)"
    and "2 * length (join_with '','' (map compact (x # xs))) + 3 \<le> n"
  shows "p_elems n (join_with '','' (map compact (x # xs)) @ CHR '']'' # r) = Some (x # xs, r)"
  using assms
proof (induction xs arbitrary: x n)
  case Nil
  then obtain m where n: "n = Suc m" "2 * length (compact x) \<le> m"
    by (cases n) auto
  then have "p_value m (compact x @ CHR '']'' # r) = Some (x, CHR '']'' # r)"
    using Nil(1) [of x] by (intro reads_valueD) simp_all
  then show ?case
    by (simp add: n(1))
next
  case (Cons y ys)
  let ?t = "join_with '','' (map compact (y # ys))"
  obtain m where n: "n = Suc m" "2 * length (compact x) + 2 * length ?t + 4 \<le> m"
    using Cons.prems(3) by (cases n) auto
  have "p_value m (compact x @ CHR '','' # ?t @ CHR '']'' # r) = Some (x, CHR '','' # ?t @ CHR '']'' # r)"
    using Cons.prems(1) [of x] n(2) by (intro reads_valueD) simp_all
  moreover have "p_elems m (?t @ CHR '']'' # r) = Some (y # ys, r)"
    using Cons.prems n(2) by (intro Cons.IH) simp_all
  moreover have "skip_ws (?t @ CHR '']'' # r) = ?t @ CHR '']'' # r"
    using Cons.prems(2) skip_ws_compact [of y] by (cases ys) simp_all
  ultimately show ?case
    by (simp add: n(1))
qed

lemma p_members_compact:
  assumes "\<And>p. p \<in> set (p0 # d) \<Longrightarrow> reads_value (snd p)" "list_all (\<lambda>p. float_free (snd p)) (p0 # d)"
    and "2 * length (join_with '','' (map pair_text (p0 # d))) + 3 \<le> n"
  shows "p_members n (join_with '','' (map pair_text (p0 # d)) @ CHR ''}'' # r) = Some (p0 # d, r)"
  using assms
proof (induction d arbitrary: p0 n)
  case Nil
  obtain k v where p0: "p0 = (k, v)" by (cases p0)
  obtain m where n: "n = Suc m" "2 * length (compact v) \<le> m"
    using Nil by (cases n) (auto simp: p0)
  then have "p_value m (compact v @ CHR ''}'' # r) = Some (v, CHR ''}'' # r)"
    using Nil(1) [of p0] by (intro reads_valueD) (simp_all add: p0)
  then show ?case
    using Nil(2) by (simp add: n(1) p0 quote_def p_string_escape)
next
  case (Cons q d)
  let ?t = "join_with '','' (map pair_text (q # d))"
  obtain k v where p0: "p0 = (k, v)" by (cases p0)
  obtain m where n: "n = Suc m" "2 * length (compact v) + 2 * length ?t + 4 \<le> m"
    using Cons.prems(3) by (cases n) (auto simp: p0)
  have "p_value m (compact v @ CHR '','' # ?t @ CHR ''}'' # r) = Some (v, CHR '','' # ?t @ CHR ''}'' # r)"
    using Cons.prems(1) [of p0] n(2) by (intro reads_valueD) (simp_all add: p0)
  moreover have "p_members m (?t @ CHR ''}'' # r) = Some (q # d, r)"
    using Cons.prems n(2) by (intro Cons.IH) simp_all
  moreover have "skip_ws (?t @ CHR ''}'' # r) = ?t @ CHR ''}'' # r"
    by (cases q; cases d) (simp_all add: quote_def)
  ultimately show ?case
    using Cons.prems(2) by (simp add: n(1) p0 quote_def p_string_escape)
qed

lemma p_scalar_int:
  assumes "delimited r"
  shows "p_value (Suc n) (show_int i @ r) = Some (JInt i, r)"
proof -
  obtain c t where ct: "show_int i = c # t" "char_kind c = 3"
    by (rule show_int_hd)
  then have "c \<notin> {CHR ''n'', CHR ''t'', CHR ''f'', dquote, CHR ''['', CHR ''{''}"
    by auto
  then have "p_value (Suc n) (show_int i @ r) = p_scalar (show_int i @ r)"
    "p_scalar (show_int i @ r) = p_number (show_int i @ r)"
    using p_number_show_int [OF assms, of i] by (simp_all add: ct p_scalar_def)
  then show ?thesis
    using p_number_show_int [OF assms] by simp
qed

lemma reads_value: "float_free j \<Longrightarrow> keys_distinct j \<Longrightarrow> reads_value j"
proof (induction j)
  case (JInt i)
  have "p_value n (show_int i @ r) = Some (JInt i, r)" if "2 * length (show_int i) \<le> n" "delimited r" for n r
    using that p_scalar_int [of r "n - 1" i] show_int_hd [of i] by (cases n) auto
  then show ?case
    by (simp add: reads_value_def)
next
  case (JStr s)
  have "p_value n (quote s @ r) = Some (JStr s, r)" if "2 * length (quote s) \<le> n" for n r
    using that by (cases n) (simp_all add: quote_def p_string_escape)
  then show ?case
    by (simp add: reads_value_def)
next
  case (JList xs)
  have "p_value n (compact (JList xs) @ r) = Some (JList xs, r)" if len: "2 * length (compact (JList xs)) \<le> n" for n r
  proof (cases xs)
    case Nil
    then show ?thesis
      using len by (cases n) simp_all
  next
    case (Cons x ys)
    let ?t = "join_with '','' (map compact xs) @ CHR '']'' # r"
    obtain m where n: "n = Suc m" "2 * length (join_with '','' (map compact xs)) + 3 \<le> m"
      using len by (cases n) auto
    have IH: "reads_value y" if "y \<in> set xs" for y
      using JList that by (auto simp: list_all_iff)
    have "p_elems m ?t = Some (xs, r)"
      using IH JList.prems n(2) unfolding Cons by (intro p_elems_compact) (simp_all add: list_all_iff)
    moreover have "float_free x"
      using JList.prems Cons by simp
    then have "skip_ws ?t = ?t" "take 1 ?t \<noteq> '']''"
      using skip_ws_compact [of x] compact_first [of x] by (cases ys; simp add: Cons)+
    ultimately show ?thesis
      by (simp add: n(1))
  qed
  then show ?case
    by (simp add: reads_value_def)
next
  case (JObj d)
  have "p_value n (compact (JObj d) @ r) = Some (JObj d, r)" if len: "2 * length (compact (JObj d)) \<le> n" for n r
  proof (cases d)
    case Nil
    then show ?thesis
      using len by (cases n) (simp_all add: alist_update_def)
  next
    case (Cons p e)
    let ?t = "join_with '','' (map pair_text d) @ CHR ''}'' # r"
    obtain m where n: "n = Suc m" "2 * length (join_with '','' (map pair_text d)) + 3 \<le> m"
      using len by (cases n) auto
    have IH: "reads_value (snd q)" "float_free (snd q)" if "q \<in> set d" for q
      using JObj.IH [of q "snd q"] JObj.prems that by (cases q; auto simp: list_all_iff)+
    then have "p_members m ?t = Some (d, r)"
      using n(2) unfolding Cons by (intro p_members_compact) (simp_all add: list_all_iff)
    moreover have "skip_ws ?t = ?t" "take 1 ?t \<noteq> ''}''"
      by (cases p; cases e; simp add: Cons quote_def)+
    moreover have "alist_update [] d = d"
      using JObj.prems alist_update_distinct [of "[]" d] by simp
    ultimately show ?thesis
      by (simp add: n(1))
  qed
  then show ?case
    by (simp add: reads_value_def)
next
  case (JBool b)
  have "p_value n (compact (JBool b) @ r) = Some (JBool b, r)" if "2 * length (compact (JBool b)) \<le> n" for n r
    using that by (cases n; cases b) (simp_all add: p_scalar_def)
  then show ?case
    by (simp add: reads_value_def)
next
  case JNull
  have "p_value n (compact JNull @ r) = Some (JNull, r)" if "2 * length (compact JNull) \<le> n" for n r
    using that by (cases n) (simp_all add: p_scalar_def)
  then show ?case
    by (simp add: reads_value_def)
qed simp

lemma keys_distinct_sort_keys: "keys_distinct j \<Longrightarrow> keys_distinct (sort_keys j)"
proof (induction j)
  case (JObj d)
  have "map fst (map (\<lambda>(k, v). (k, sort_keys v)) d) = map fst d"
    by (induction d) auto
  then have "distinct (map fst (map (\<lambda>(k, v). (k, sort_keys v)) d))"
    using JObj.prems by (simp only: keys_distinct.simps)
  then have "distinct (map fst (sort_key fst (map (\<lambda>(k, v). (k, sort_keys v)) d)))"
    by (simp only: distinct_map set_sort distinct_sort)
  moreover have "list_all (\<lambda>(k, v). keys_distinct v) (sort_key fst (map (\<lambda>(k, v). (k, sort_keys v)) d))"
    using JObj by (fastforce simp: list_all_iff)
  ultimately show ?case
    by simp
qed (auto simp: list_all_iff)

theorem json_parse_canonical:
  assumes "float_free j" "keys_distinct j"
  shows "json_parse (canonical_json j) = Some (sort_keys j)"
proof -
  have ok: "float_free (sort_keys j)" "keys_distinct (sort_keys j)"
    using assms by (simp_all add: float_free_sort_keys keys_distinct_sort_keys)
  then have "p_value (2 * length (canonical_json j) + 2) (compact (sort_keys j) @ []) = Some (sort_keys j, [])"
    using reads_value by (intro reads_valueD) (simp_all add: canonical_json_def)
  then show ?thesis
    using skip_ws_compact [OF ok(1), of "[]"] by (simp add: json_parse_def canonical_json_def)
qed

text \<open>The same for a text that ends in a line feed.\<close>
lemma json_parse_canonical_line:
  assumes "float_free j" "keys_distinct j"
  shows "json_parse (canonical_json j @ [nl]) = Some (sort_keys j)"
proof -
  have ok: "float_free (sort_keys j)" "keys_distinct (sort_keys j)"
    using assms by (simp_all add: float_free_sort_keys keys_distinct_sort_keys)
  then have "p_value (2 * length (canonical_json j @ [nl]) + 2) (compact (sort_keys j) @ [nl]) = Some (sort_keys j, [nl])"
    using reads_value by (intro reads_valueD) (simp_all add: canonical_json_def)
  then show ?thesis
    using skip_ws_compact [OF ok(1), of "[nl]"] by (simp add: json_parse_def canonical_json_def skip_ws_def json_ws_def)
qed

section \<open>The fuel\<close>

lemma skip_ws_length: "length (skip_ws s) \<le> length s"
  by (simp add: skip_ws_def length_dropWhile_le)

lemma p_string_consumes: "p_string s = Some (t, r) \<Longrightarrow> length r < length s"
  by (induction s arbitrary: t r rule: p_string.induct) (force split: if_splits list.splits option.splits)+

lemma p_unsigned_consumes:
  assumes "p_unsigned neg s = Some (j, r)"
  shows "length r < length s"
proof -
  have "length r \<le> length s - length (p_whole s)" "p_whole s \<noteq> []"
    using assms by (auto simp: p_unsigned_def Let_def split: if_splits)
  moreover have "s \<noteq> []"
    using calculation(2) by (auto simp: p_whole_def)
  ultimately show ?thesis
    by (cases "p_whole s"; cases s) auto
qed

lemma p_number_consumes: "p_number s = Some (j, r) \<Longrightarrow> length r < length s"
  using p_unsigned_consumes [of True "drop 1 s" j r] p_unsigned_consumes [of False s j r]
  by (auto simp: p_number_def split: if_splits)

lemma startswith_length: "startswith s p \<Longrightarrow> length p \<le> length s"
  by (auto simp: startswith_iff)

lemma p_scalar_consumes: "p_scalar s = Some (j, r) \<Longrightarrow> length r < length s"
  using startswith_length [of s] p_number_consumes [of s j r]
  by (fastforce simp: p_scalar_def split: if_splits)

lemma consumes:
  "\<And>j r. p_value n s = Some (j, r) \<Longrightarrow> length r < length s"
  "\<And>xs r. p_elems n s = Some (xs, r) \<Longrightarrow> length r < length s"
  "\<And>d r. p_members n s = Some (d, r) \<Longrightarrow> length r < length s"
proof (induction n arbitrary: s)
  case (Suc n)
  {
    case (1 j r)
    obtain c s1 where s: "s = c # s1"
      using 1 by (cases s) auto
    consider "p_string s1 = Some (the (map_option fst (p_string s1)), r)" | "r = drop 1 (skip_ws s1)"
      | xs where "p_elems n (skip_ws s1) = Some (xs, r)" | d where "p_members n (skip_ws s1) = Some (d, r)"
      | "p_scalar s = Some (j, r)"
      using 1 by (auto simp: s split: if_splits)
    then show ?case
      using p_string_consumes Suc(2,3) [of "skip_ws s1"] p_scalar_consumes skip_ws_length [of s1]
      by cases (fastforce simp: s)+
  next
    case (2 xs r)
    then obtain x r1 where x: "p_value n s = Some (x, r1)"
      by (auto split: option.splits)
    obtain c r2 where r1: "skip_ws r1 = c # r2"
      using 2 by (cases "skip_ws r1") (auto simp: x)
    have "r = r2 \<or> (\<exists>ys. p_elems n (skip_ws r2) = Some (ys, r))"
      using 2 by (auto simp: x r1 split: if_splits)
    then show ?case
      using Suc(1) [OF x] Suc(2) [of "skip_ws r2"] skip_ws_length [of r1] skip_ws_length [of r2] by (fastforce simp: r1)
  next
    case (3 d r)
    obtain s1 where s: "s = dquote # s1"
      using 3 by (cases s) (auto split: if_splits)
    obtain k r1 where k: "p_string s1 = Some (k, r1)"
      using 3 by (auto simp: s split: option.splits)
    obtain v r2 where v: "p_value n (skip_ws (drop 1 (skip_ws r1))) = Some (v, r2)"
      using 3 by (auto simp: s k split: option.splits if_splits)
    obtain c r3 where r2: "skip_ws r2 = c # r3"
      using 3 by (cases "skip_ws r2") (auto simp: s k v simp del: One_nat_def split: if_splits)
    have "r = r3 \<or> (\<exists>e. p_members n (skip_ws r3) = Some (e, r))"
      using 3 by (auto simp: s k v r2 simp del: One_nat_def split: if_splits)
    then show ?case
      using p_string_consumes [OF k] Suc(1) [OF v] Suc(3) [of "skip_ws r3"] skip_ws_length [of r1] skip_ws_length [of r2]
        skip_ws_length [of r3] skip_ws_length [of "drop 1 (skip_ws r1)"] by (fastforce simp: r2 s)
  }
qed simp_all

text \<open>More fuel than twice the length of the text changes nothing.\<close>
lemma fuel_step:
  "2 * length s \<le> n \<Longrightarrow> p_value (Suc n) s = p_value n s"
  "2 * length s + 1 \<le> n \<Longrightarrow> p_elems (Suc n) s = p_elems n s"
  "2 * length s + 1 \<le> n \<Longrightarrow> p_members (Suc n) s = p_members n s"
proof (induction n arbitrary: s)
  case (Suc n)
  {
    case 1
    show ?case
    proof (cases s)
      case (Cons c s1)
      then have "2 * length (skip_ws s1) + 1 \<le> n"
        using 1 skip_ws_length [of s1] by simp
      then show ?thesis
        using Suc(2,3) [of "skip_ws s1"] by (simp add: Cons)
    qed simp
  next
    case 2
    have val: "p_value (Suc n) s = p_value n s"
      using 2 by (intro Suc(1)) simp
    have "p_elems (Suc n) (skip_ws r2) = p_elems n (skip_ws r2)"
      if "p_value n s = Some (x, r1)" "skip_ws r1 = c # r2" for x r1 c r2
      using 2 consumes(1) [OF that(1)] that(2) skip_ws_length [of r1] skip_ws_length [of r2] by (intro Suc(2)) simp
    then show ?case
      unfolding p_elems.simps(2) [of "Suc n"] p_elems.simps(2) [of n] val
      by (auto split: option.splits list.splits)
  next
    case 3
    show ?case
    proof (cases s)
      case (Cons q s1)
      have val: "p_value (Suc n) (skip_ws (drop 1 (skip_ws r1))) = p_value n (skip_ws (drop 1 (skip_ws r1)))"
        if "p_string s1 = Some (k, r1)" for k r1
        using 3 p_string_consumes [OF that] skip_ws_length [of r1] skip_ws_length [of "drop 1 (skip_ws r1)"]
        by (intro Suc(1)) (simp add: Cons)
      have "p_members (Suc n) (skip_ws r3) = p_members n (skip_ws r3)"
        if "p_string s1 = Some (k, r1)" "p_value n (skip_ws (drop 1 (skip_ws r1))) = Some (v, r2)" "skip_ws r2 = c # r3"
        for k r1 v r2 c r3
        using 3 p_string_consumes [OF that(1)] consumes(1) [OF that(2)] that(3) skip_ws_length [of r1] skip_ws_length [of r2]
          skip_ws_length [of r3] skip_ws_length [of "drop 1 (skip_ws r1)"]
        by (intro Suc(3)) (simp add: Cons)
      then show ?thesis
        unfolding p_members.simps(2) [of "Suc n"] p_members.simps(2) [of n] Cons
        using val by (auto simp del: One_nat_def split: option.splits list.splits)
    qed simp
  }
qed simp_all

lemma p_value_fuel:
  assumes "2 * length s \<le> n"
  shows "p_value n s = p_value (2 * length s) s"
  using assms
proof (induction rule: dec_induct)
  case (step n)
  then show ?case
    using fuel_step(1) [of s n] by simp
qed simp

end
