(* ===== verification/ControllerBase.thy ===== *)
theory ControllerBase
  imports RegistryAuthority MutationLock JsonParse
begin

text \<open>
  \<open>scripts/p9_3c1_controller.py\<close>, the ground: the effects of the controller, its run directory, the
  hash-chained ledger and the phase file.

  The state is the files of one run directory (\<open>ctl_files\<close>), which only the controller writes, and the
  rest of the machine as an opaque world. What the operating system, the clock, SQLite, the installed
  commands and \<open>tomllib\<close> answer are functions of the world (\<open>ctl_env\<close>). Every write asks the world
  first: it may be done, fail without effect, or fail after its effect. Reads of the run directory do
  not fail. Files hold decoded text. The seams have their production values.
\<close>

section \<open>Exceptions and effects\<close>

text \<open>
  The second stands for every other subclass of \<open>Exception\<close>, by its name.
\<close>
datatype ctl_exc = ControllerError string | OtherExc string

text \<open>
  How an operation stops: with an exception, or not at all, when a loop has polled as often as \<open>ce_polls\<close>
  allows and would go on.
\<close>
datatype ctl_stop = Raised ctl_exc | Diverged

record ctl_files =
  cf_root :: bool
  cf_phase :: "string option"
  cf_ledger :: "string option"
  cf_token :: "inode option"
  cf_auth :: "inode option"
  cf_manifest :: "inode option"
  cf_manifest_sha :: "inode option"
  cf_backup :: "inode option"
  cf_evidence :: "(string \<times> string) list"
  cf_markers :: "string list"

record 'w ctl_state =
  cs_files :: ctl_files
  cs_world :: 'w

text \<open>An aware \<open>datetime\<close> in UTC.\<close>
record utc_time =
  dt_year :: int
  dt_month :: int
  dt_day :: int
  dt_hour :: int
  dt_minute :: int
  dt_second :: int
  dt_micro :: int

datatype io_answer = IoDone | IoBefore string | IoAfter string

text \<open>How a subprocess ends: its time is up, it cannot be started, or it returns.\<close>
datatype exec_answer = ExecTimeout | ExecFault string | Exited int string string

text \<open>\<open>datetime.fromisoformat\<close>: a \<open>ValueError\<close>, a naive time, or an aware one.\<close>
datatype iso_answer = IsoInvalid | IsoNaive utc_time | IsoAware utc_time

record 'w ctl_env =
  ce_sha :: "string \<Rightarrow> string"
  ce_now :: "'w \<Rightarrow> utc_time \<times> 'w"
  ce_monotonic :: "'w \<Rightarrow> int \<times> 'w"
  ce_sleep :: "int \<Rightarrow> 'w \<Rightarrow> 'w"
  ce_io :: "string \<Rightarrow> 'w \<Rightarrow> io_answer \<times> 'w"
  ce_exec :: "string list \<Rightarrow> (string \<times> string) list \<Rightarrow> int \<Rightarrow> 'w \<Rightarrow> exec_answer \<times> 'w"
  ce_query :: "'w \<Rightarrow> string \<Rightarrow> json list \<Rightarrow> string + dict list"
  ce_lstat :: "'w \<Rightarrow> string \<Rightarrow> inode option"
  ce_realpath :: "'w \<Rightarrow> string \<Rightarrow> string + string"
  ce_exists :: "'w \<Rightarrow> string \<Rightarrow> bool"
  ce_dev_ino :: "'w \<Rightarrow> string \<Rightarrow> int \<times> int"
  ce_db_copy :: "'w \<Rightarrow> string + string"
  ce_shlex :: "string \<Rightarrow> string + string list"
  ce_toml :: "string \<Rightarrow> string + dict"
  ce_fromiso :: "string \<Rightarrow> iso_answer"
  ce_json_error :: "string \<Rightarrow> string"
  ce_environ :: "(string \<times> string) list"
  ce_hostname :: string
  ce_pid :: int
  ce_polls :: nat
  ce_user :: "string \<Rightarrow> int option"
  ce_group :: "string \<Rightarrow> int option"

type_synonym ('w, 'a) ctl = "'w ctl_state \<Rightarrow> (ctl_stop + 'a) \<times> 'w ctl_state"

definition creturn :: "'a \<Rightarrow> ('w, 'a) ctl" where
  "creturn a s = (Inr a, s)"

definition craise :: "ctl_exc \<Rightarrow> ('w, 'a) ctl" where
  "craise e s = (Inl (Raised e), s)"

definition cdiverge :: "('w, 'a) ctl" where
  "cdiverge s = (Inl Diverged, s)"

abbreviation cerror :: "string \<Rightarrow> ('w, 'a) ctl" where
  "cerror msg \<equiv> craise (ControllerError msg)"

definition cbind :: "('w, 'a) ctl \<Rightarrow> ('a \<Rightarrow> ('w, 'b) ctl) \<Rightarrow> ('w, 'b) ctl" where
  "cbind m f s = (case m s of (Inl e, s') \<Rightarrow> (Inl e, s') | (Inr a, s') \<Rightarrow> f a s')"

definition cseq :: "('w, 'a) ctl \<Rightarrow> ('w, 'b) ctl \<Rightarrow> ('w, 'b) ctl" where
  "cseq m n = cbind m (\<lambda>_. n)"

text \<open>\<open>try: m except Exception as e: h e\<close>\<close>
definition ccatch :: "('w, 'a) ctl \<Rightarrow> (ctl_exc \<Rightarrow> ('w, 'a) ctl) \<Rightarrow> ('w, 'a) ctl" where
  "ccatch m h s =
     (case m s of
        (Inl (Raised e), s') \<Rightarrow> h e s'
      | (Inl Diverged, s') \<Rightarrow> (Inl Diverged, s')
      | (Inr a, s') \<Rightarrow> (Inr a, s'))"

text \<open>\<open>if b: raise ControllerError(msg)\<close>\<close>
definition crefuse :: "bool \<Rightarrow> string \<Rightarrow> ('w, unit) ctl" where
  "crefuse b msg = (if b then cerror msg else creturn ())"

definition raised :: "ctl_exc + 'a \<Rightarrow> ctl_stop + 'a" where
  "raised r = (case r of Inl e \<Rightarrow> Inl (Raised e) | Inr a \<Rightarrow> Inr a)"

lemma raised_simps [simp]: "raised (Inl e) = Inl (Raised e)" "raised (Inr a) = Inr a"
  by (simp_all add: raised_def)

lemma raised_Inr [simp]: "raised r = Inr a \<longleftrightarrow> r = Inr a" "Inr a = raised r \<longleftrightarrow> r = Inr a"
  by (cases r; auto)+

lemma raised_Diverged [simp]: "raised r \<noteq> Inl Diverged"
  by (cases r) simp_all

definition clift :: "ctl_exc + 'a \<Rightarrow> ('w, 'a) ctl" where
  "clift r s = (raised r, s)"

text \<open>What is computed from the state, which stays as it is.\<close>
definition cread :: "('w ctl_state \<Rightarrow> ctl_exc + 'a) \<Rightarrow> ('w, 'a) ctl" where
  "cread f s = (raised (f s), s)"

definition cworld :: "('w \<Rightarrow> 'a \<times> 'w) \<Rightarrow> ('w, 'a) ctl" where
  "cworld f s = (case f (cs_world s) of (a, w) \<Rightarrow> (Inr a, s\<lparr>cs_world := w\<rparr>))"

fun cfor :: "'a list \<Rightarrow> ('a \<Rightarrow> ('w, unit) ctl) \<Rightarrow> ('w, unit) ctl" where
  "cfor [] f = creturn ()"
| "cfor (x # xs) f = cseq (f x) (cfor xs f)"

text \<open>A write to the run directory.\<close>
definition io_step :: "'w ctl_env \<Rightarrow> string \<Rightarrow> (ctl_files \<Rightarrow> ctl_files) \<Rightarrow> ('w, unit) ctl" where
  "io_step env label upd s =
     (case ce_io env label (cs_world s) of
        (IoDone, w) \<Rightarrow> (Inr (), s\<lparr>cs_files := upd (cs_files s), cs_world := w\<rparr>)
      | (IoBefore e, w) \<Rightarrow> (Inl (Raised (OtherExc e)), s\<lparr>cs_world := w\<rparr>)
      | (IoAfter e, w) \<Rightarrow> (Inl (Raised (OtherExc e)), s\<lparr>cs_files := upd (cs_files s), cs_world := w\<rparr>))"

text \<open>\<open>json.loads\<close>\<close>
definition loads :: "string \<Rightarrow> ctl_exc + json" where
  "loads s = (case json_parse s of None \<Rightarrow> Inl (OtherExc ''JSONDecodeError'') | Some j \<Rightarrow> Inr j)"

text \<open>\<open>d.get(...)\<close> of a value that may be no dictionary.\<close>
definition as_dict :: "json \<Rightarrow> ctl_exc + dict" where
  "as_dict j = (case j of JObj d \<Rightarrow> Inr d | _ \<Rightarrow> Inl (OtherExc ''AttributeError''))"

text \<open>\<open>d[k]\<close>\<close>
definition dict_item :: "dict \<Rightarrow> string \<Rightarrow> ctl_exc + json" where
  "dict_item d k = (if has_key d k then Inr (dget d k) else Inl (OtherExc ''KeyError''))"

text \<open>
  \<open>==\<close> of two decoded values: dictionaries compare without their order, \<open>True\<close> equals 1 and a float
  with a zero fraction its integer.
\<close>
fun py_norm :: "json \<Rightarrow> json" where
  "py_norm (JBool b) = JInt (if b then 1 else 0)"
| "py_norm (JFloat s) =
     (if endswith s ''.0'' then (case p_number (take (length s - 2) s) of Some (j, []) \<Rightarrow> j | _ \<Rightarrow> JFloat s) else JFloat s)"
| "py_norm (JList xs) = JList (map py_norm xs)"
| "py_norm (JObj d) = JObj (sort_key fst (map (\<lambda>(k, v). (k, py_norm v)) d))"
| "py_norm j = j"

definition py_eq :: "json \<Rightarrow> json \<Rightarrow> bool" where
  "py_eq a b = (py_norm a = py_norm b)"

text \<open>\<open>v or {}\<close>\<close>
definition or_empty :: "json \<Rightarrow> json" where
  "or_empty v = (if truthy v then v else JObj [])"

section \<open>Times\<close>

definition pad :: "nat \<Rightarrow> int \<Rightarrow> string" where
  "pad n i = replicate (n - length (show_int i)) CHR ''0'' @ show_int i"

definition clock_text :: "utc_time \<Rightarrow> string" where
  "clock_text t = pad 2 (dt_month t) @ ''-'' @ pad 2 (dt_day t) @ ''T'' @ pad 2 (dt_hour t) @ '':''
     @ pad 2 (dt_minute t) @ '':'' @ pad 2 (dt_second t)"

text \<open>\<open>strftime("%Y-%m-%dT%H:%M:%S.%fZ")\<close>; \<open>%Y\<close> is not padded.\<close>
definition strftime_us :: "utc_time \<Rightarrow> string" where
  "strftime_us t = show_int (dt_year t) @ ''-'' @ clock_text t @ ''.'' @ pad 6 (dt_micro t) @ ''Z''"

definition isoformat :: "utc_time \<Rightarrow> string" where
  "isoformat t = pad 4 (dt_year t) @ ''-'' @ clock_text t
     @ (if dt_micro t = 0 then [] else ''.'' @ pad 6 (dt_micro t)) @ ''+00:00''"

text \<open>Microseconds since the start of year 1.\<close>
definition utc_instant :: "utc_time \<Rightarrow> int" where
  "utc_instant t = to_seconds (dt_year t) (dt_month t) (dt_day t) (dt_hour t) (dt_minute t) (dt_second t) * 1000000
     + dt_micro t"

section \<open>The run\<close>

definition STATE_ROOT_BASE :: string where "STATE_ROOT_BASE = ''/var/tmp/multinexus-p9-3c1''"

definition run_id_shape :: "string \<Rightarrow> bool" where
  "run_id_shape s =
     (length s = 37 \<and> take 12 s = ''p9-3c1-prod-'' \<and> list_all is_digit (take 8 (drop 12 s))
      \<and> take 1 (drop 20 s) = ''t'' \<and> list_all is_digit (take 6 (drop 21 s)) \<and> take 2 (drop 27 s) = ''z-''
      \<and> list_all is_lower_hex (drop 29 s))"

definition RUN_ID_MAX_BYTES :: nat where "RUN_ID_MAX_BYTES = 42"

definition validate_run_id :: "string \<Rightarrow> ctl_exc + string" where
  "validate_run_id run_id =
     (if \<not> re_dollar run_id_shape run_id
        then Inl (ControllerError (''invalid run-id format: '' @ repr_str run_id))
      else if RUN_ID_MAX_BYTES < length (utf8 run_id)
        then Inl (ControllerError (''run-id exceeds 42 bytes: '' @ repr_str run_id))
      else Inr run_id)"

definition path_join :: "string \<Rightarrow> string \<Rightarrow> string" where
  "path_join a b = (if startswith b ''/'' then b else a @ ''/'' @ b)"

definition state_root :: "string \<Rightarrow> string" where
  "state_root run_id = path_join STATE_ROOT_BASE run_id"
definition control_dir :: "string \<Rightarrow> string" where
  "control_dir run_id = path_join (state_root run_id) ''control''"
definition manifest_path :: "string \<Rightarrow> string" where
  "manifest_path run_id = path_join (control_dir run_id) ''manifest.json''"
definition manifest_sha_path :: "string \<Rightarrow> string" where
  "manifest_sha_path run_id = path_join (control_dir run_id) ''manifest.sha256''"
definition lock_token_path :: "string \<Rightarrow> string" where
  "lock_token_path run_id = path_join (control_dir run_id) ''production-lock.token''"
definition auth_path :: "string \<Rightarrow> string" where
  "auth_path run_id = path_join (control_dir run_id) ''live-authorization.json''"
definition backup_path :: "string \<Rightarrow> string" where
  "backup_path run_id = path_join (path_join (state_root run_id) ''backup'') ''coord.sqlite3''"

definition now :: "'w ctl_env \<Rightarrow> ('w, utc_time) ctl" where
  "now env = cworld (ce_now env)"

section \<open>The ledger\<close>

definition GENESIS :: string where "GENESIS = replicate 64 CHR ''0''"

text \<open>Text mode: a carriage return, alone or before a line feed, is read as a line feed.\<close>
fun universal_nl :: "string \<Rightarrow> string" where
  "universal_nl [] = []"
| "universal_nl [c] = [if c = CHR 0x0D then nl else c]"
| "universal_nl (c # d # s) =
     (if c = CHR 0x0D then (if d = nl then nl # universal_nl s else nl # universal_nl (d # s))
      else c # universal_nl (d # s))"

text \<open>\<open>fh.readlines()\<close> without the line feeds at the ends.\<close>
definition file_lines :: "string \<Rightarrow> string list" where
  "file_lines text =
     (let ls = split_on nl (universal_nl text) in if last ls = [] then butlast ls else ls)"

definition record_body :: "json \<Rightarrow> json \<Rightarrow> json \<Rightarrow> json \<Rightarrow> json \<Rightarrow> string \<Rightarrow> dict" where
  "record_body seq phase event prev_sha evidence timestamp =
     [(''seq'', seq), (''timestamp_utc'', JStr timestamp), (''phase'', phase), (''event'', event),
      (''prev_sha256'', prev_sha), (''evidence'', or_empty evidence)]"

definition compute_record_sha ::
    "(string \<Rightarrow> string) \<Rightarrow> json \<Rightarrow> json \<Rightarrow> json \<Rightarrow> json \<Rightarrow> json \<Rightarrow> json \<Rightarrow> ctl_exc + string" where
  "compute_record_sha sha seq phase event prev_sha evidence timestamp =
     (case timestamp of
        JStr ts \<Rightarrow>
          if ts = [] then Inl (ControllerError ''ledger timestamp authority is missing'')
          else Inr (sha (utf8 (canonical_json (JObj (record_body seq phase event prev_sha evidence ts)))))
      | _ \<Rightarrow> Inl (ControllerError ''ledger timestamp authority is missing''))"

text \<open>The digest of the last record and the next sequence number.\<close>
definition ledger_tail :: "string option \<Rightarrow> ctl_exc + json \<times> json" where
  "ledger_tail ledger =
     (case ledger of
        None \<Rightarrow> Inr (JStr GENESIS, JInt 1)
      | Some text \<Rightarrow>
          if file_lines text = [] then Inr (JStr GENESIS, JInt 1)
          else
            ebind (loads (last (file_lines text))) (\<lambda>j.
            ebind (as_dict j) (\<lambda>d.
            case as_int (if has_key d ''seq'' then dget d ''seq'' else JInt 0) of
              None \<Rightarrow> Inl (OtherExc ''TypeError'')
            | Some n \<Rightarrow>
                Inr (if has_key d ''record_sha256'' then dget d ''record_sha256'' else JStr GENESIS, JInt (n + 1)))))"

definition ledger_record :: "json \<Rightarrow> json \<Rightarrow> json \<Rightarrow> json \<Rightarrow> json \<Rightarrow> string \<Rightarrow> string \<Rightarrow> dict" where
  "ledger_record seq phase event prev_sha evidence timestamp record_sha =
     [(''seq'', seq), (''timestamp_utc'', JStr timestamp), (''phase'', phase), (''event'', event),
      (''prev_sha256'', prev_sha), (''record_sha256'', JStr record_sha), (''evidence'', or_empty evidence)]"

definition append_line :: "string \<Rightarrow> ctl_files \<Rightarrow> ctl_files" where
  "append_line line f = f\<lparr>cf_ledger := Some ((case cf_ledger f of None \<Rightarrow> [] | Some t \<Rightarrow> t) @ line)\<rparr>"

definition append_ledger :: "'w ctl_env \<Rightarrow> json \<Rightarrow> string \<Rightarrow> dict \<Rightarrow> ('w, string) ctl" where
  "append_ledger env phase event evidence =
     cseq (io_step env ''makedirs ledger'' id)
     (cbind (cread (\<lambda>s. ledger_tail (cf_ledger (cs_files s)))) (\<lambda>(prev_sha, seq).
      cbind (now env) (\<lambda>t.
      cbind (clift (compute_record_sha (ce_sha env) seq phase (JStr event) prev_sha (JObj evidence)
          (JStr (strftime_us t)))) (\<lambda>record_sha.
      cseq (io_step env ''append ledger''
        (append_line (canonical_json (JObj (ledger_record seq phase (JStr event) prev_sha (JObj evidence)
            (strftime_us t) record_sha)) @ [nl])))
      (creturn record_sha)))))"

definition read_ledger_text :: "string option \<Rightarrow> ctl_exc + json list" where
  "read_ledger_text ledger =
     (case ledger of
        None \<Rightarrow> Inr []
      | Some text \<Rightarrow> emapM loads (filter (\<lambda>l. l \<noteq> []) (file_lines text)))"

definition read_ledger :: "('w, json list) ctl" where
  "read_ledger = cread (\<lambda>s. read_ledger_text (cf_ledger (cs_files s)))"

text \<open>The check of the record with index i, and the digest it hands on.\<close>
definition check_record :: "(string \<Rightarrow> string) \<Rightarrow> nat \<Rightarrow> string \<Rightarrow> json \<Rightarrow> ctl_exc + string" where
  "check_record sha i prev j =
     ebind (as_dict j) (\<lambda>r.
     if \<not> py_eq (dget r ''seq'') (JInt (int i + 1))
       then Inl (ControllerError (''ledger sequence gap at record '' @ show_nat (i + 1) @ '', got seq=''
              @ py_str (dget r ''seq'')))
     else if dget r ''prev_sha256'' \<noteq> JStr prev
       then Inl (ControllerError (''ledger hash chain broken at record '' @ show_nat (i + 1) @ '': expected prev=''
              @ prev @ '', got prev='' @ py_str (dget r ''prev_sha256'')))
     else
       (case dget r ''timestamp_utc'' of
          JStr (c # cs) \<Rightarrow>
            ebind (dict_item r ''phase'') (\<lambda>phase.
            ebind (dict_item r ''event'') (\<lambda>event.
            ebind (compute_record_sha sha (dget r ''seq'') phase event (dget r ''prev_sha256'') (dget r ''evidence'')
                (JStr (c # cs))) (\<lambda>expected.
            if dget r ''record_sha256'' \<noteq> JStr expected
              then Inl (ControllerError (''ledger record SHA mismatch at record '' @ py_str (dget r ''seq'')))
            else Inr expected)))
        | _ \<Rightarrow> Inl (ControllerError (''ledger timestamp authority missing at record '' @ py_str (dget r ''seq''))))) "

fun check_chain :: "(string \<Rightarrow> string) \<Rightarrow> nat \<Rightarrow> string \<Rightarrow> json list \<Rightarrow> ctl_exc + string" where
  "check_chain sha i prev [] = Inr prev"
| "check_chain sha i prev (j # js) = ebind (check_record sha i prev j) (\<lambda>d. check_chain sha (Suc i) d js)"

definition validate_ledger_chain :: "'w ctl_env \<Rightarrow> ('w, unit) ctl" where
  "validate_ledger_chain env =
     cbind read_ledger (\<lambda>records. clift (map_sum id (\<lambda>_. ()) (check_chain (ce_sha env) 0 GENESIS records)))"

section \<open>The phase\<close>

definition PHASES :: "string list" where
  "PHASES =
     [''sealed'', ''preflight-ok'', ''lock-held'', ''baseline-captured'', ''workspace-ready'', ''agents-online'',
      ''executor-v1-disabled'', ''capacity-v1-active'', ''executor-v2-enabled'', ''matrix-running'',
      ''matrix-verified'', ''intake-frozen'', ''units-quiescent'', ''executor-v3-disabled'', ''capacity-v2-empty'',
      ''executor-v4-empty'', ''agents-offline'', ''canonical-compared'', ''done'']"

fun index_from :: "int \<Rightarrow> string list \<Rightarrow> string \<Rightarrow> int" where
  "index_from i [] p = -1"
| "index_from i (q # qs) p = (if q = p then i else index_from (i + 1) qs p)"

definition index_in :: "string list \<Rightarrow> string \<Rightarrow> int" where
  "index_in ps p = index_from 0 ps p"

text \<open>\<open>PHASE_INDEX.get(phase, -1)\<close>; lists and dictionaries cannot be hashed.\<close>
definition phase_index :: "json \<Rightarrow> ctl_exc + int" where
  "phase_index phase =
     (case phase of
        JStr p \<Rightarrow> Inr (index_in PHASES p)
      | JList _ \<Rightarrow> Inl (OtherExc ''TypeError'')
      | JObj _ \<Rightarrow> Inl (OtherExc ''TypeError'')
      | _ \<Rightarrow> Inr (-1))"

text \<open>\<open>JNull\<close> is both a missing file and a phase of null, as in the code.\<close>
definition phase_of_text :: "string option \<Rightarrow> ctl_exc + json" where
  "phase_of_text file =
     (case file of
        None \<Rightarrow> Inr JNull
      | Some text \<Rightarrow> ebind (loads text) (\<lambda>j. ebind (as_dict j) (\<lambda>d. Inr (dget d ''phase''))))"

definition current_phase :: "('w, json) ctl" where
  "current_phase = cread (\<lambda>s. phase_of_text (cf_phase (cs_files s)))"

definition phase_text :: "string \<Rightarrow> utc_time \<Rightarrow> string" where
  "phase_text phase t =
     canonical_json (JObj [(''phase'', JStr phase), (''timestamp_utc'', JStr (strftime_us t))]) @ [nl]"

definition write_phase :: "'w ctl_env \<Rightarrow> string \<Rightarrow> bool \<Rightarrow> ('w, unit) ctl" where
  "write_phase env phase force =
     cseq (io_step env ''makedirs control'' id)
     (cbind current_phase (\<lambda>current.
      cseq (if current \<noteq> JNull \<and> \<not> force
        then cbind (clift (phase_index current)) (\<lambda>expected_idx.
             crefuse (index_in PHASES phase \<le> expected_idx)
               (''phase regression: '' @ py_str current @ '' -> '' @ phase))
        else creturn ())
      (cbind (now env) (\<lambda>t.
       io_step env ''replace phase'' (\<lambda>f. f\<lparr>cf_phase := Some (phase_text phase t)\<rparr>)))))"

definition phase_tail_agree :: "('w, bool) ctl" where
  "phase_tail_agree =
     cbind current_phase (\<lambda>phase.
     cbind read_ledger (\<lambda>records.
     if records = [] then creturn (phase = JNull)
     else cbind (clift (as_dict (last records))) (\<lambda>d. creturn (py_eq (dget d ''phase'') phase))))"

definition transition_to :: "'w ctl_env \<Rightarrow> string \<Rightarrow> ('w, unit) ctl" where
  "transition_to env phase =
     cbind current_phase (\<lambda>current.
     cseq (crefuse (current = JNull) ''cannot transition without current phase'')
     (cbind (clift (phase_index current)) (\<lambda>current_idx.
      cseq (crefuse (current_idx < 0 \<or> index_in PHASES phase \<noteq> current_idx + 1)
        (''non-adjacent phase transition: '' @ py_str current @ '' -> '' @ phase))
      (cseq (append_ledger env (JStr phase) ''phase.transition'' [(''from'', current), (''to'', JStr phase)])
      (cseq (write_phase env phase False)
      (cbind phase_tail_agree (\<lambda>agree.
       crefuse (\<not> agree) ''ledger/phase tail mismatch after transition'')))))))"

end
