(* ===== verification/ControllerGates.thy ===== *)
theory ControllerGates
  imports ControllerBase
begin

text \<open>
  \<open>scripts/p9_3c1_controller.py\<close>, the gates: what the controller looks at and demands before it goes on.
  Files and their identities, subprocesses, the production lock, SQLite evidence, the sealed manifest,
  the installed configuration, the authorization, and the commands prepare, preflight and status.
\<close>

section \<open>Constants\<close>

definition PRODUCTION_DB :: string where "PRODUCTION_DB = ''/var/lib/coordinate/coord.sqlite3''"
definition PRODUCTION_CLI :: string where "PRODUCTION_CLI = ''/usr/local/bin/coord-local''"
definition PRODUCTION_LOCK_HELPER :: string where
  "PRODUCTION_LOCK_HELPER = ''/usr/local/sbin/coordinate-production-mutation-lock''"
definition INSTALLED_ROOT :: string where "INSTALLED_ROOT = ''/opt/multinexus''"
definition COORDINATE_ROOT :: string where "COORDINATE_ROOT = ''/opt/coordinate''"
definition CONFIG_DIR :: string where
  "CONFIG_DIR = path_join INSTALLED_ROOT ''multinexus/fixture/config/p9-3c1''"
definition HELPER_PATH :: string where
  "HELPER_PATH = path_join INSTALLED_ROOT ''multinexus/fixture/bin/p9-3c0-unit.sh''"
definition FIXTURE_BIN :: string where
  "FIXTURE_BIN = path_join INSTALLED_ROOT ''multinexus/fixture/bin/p9-3c0-fixture.py''"
definition PYTHON_PATH :: string where "PYTHON_PATH = ''/usr/bin/python3.12''"
definition EXPECTED_SCHEMA :: int where "EXPECTED_SCHEMA = 13"
definition LOCK_OWNER :: string where "LOCK_OWNER = ''p9-3c1-controller''"
definition LOCK_ACTION_PREFIX :: string where "LOCK_ACTION_PREFIX = ''p9-3c1-run:''"
definition AUTH_CONTRACT_VERSION :: int where "AUTH_CONTRACT_VERSION = 1"
definition AUTH_EXACT_KEYS :: "string list" where
  "AUTH_EXACT_KEYS =
     [''contract_version'', ''run_id'', ''manifest_sha256'', ''installed_revisions'', ''installed_hashes'',
      ''p3_bootstrap_sha256'', ''review_artifact_sha256'', ''reviewer_verdict'', ''budgets'', ''expiry_utc'', ''nonce'']"
definition AUTH_EXACT_BUDGETS :: dict where
  "AUTH_EXACT_BUDGETS =
     [(''total_requests'', JInt 5), (''max_active_units'', JInt 2), (''provider_network'', JInt 0),
      (''external_delivery'', JInt 0)]"
definition FIXTURE_AGENTS :: "string list" where
  "FIXTURE_AGENTS = [''p9-3c-fixture-e1'', ''p9-3c-fixture-e2'']"
definition ALLOWED_ENV_KEYS :: "string list" where
  "ALLOWED_ENV_KEYS = [''PATH'', ''HOME'', ''MAC_DB'', ''LANG'', ''LC_ALL'']"

section \<open>Small helpers\<close>

text \<open>\<open>v in {...}\<close> for a set of strings; lists and dictionaries cannot be hashed.\<close>
definition in_strings :: "json \<Rightarrow> string list \<Rightarrow> ctl_exc + bool" where
  "in_strings v ss =
     (case v of
        JStr s \<Rightarrow> Inr (s \<in> set ss)
      | JList _ \<Rightarrow> Inl (OtherExc ''TypeError'')
      | JObj _ \<Rightarrow> Inl (OtherExc ''TypeError'')
      | _ \<Rightarrow> Inr False)"

text \<open>\<open>d.get(k, {})\<close>, used as a dictionary.\<close>
definition get_dict :: "dict \<Rightarrow> string \<Rightarrow> ctl_exc + dict" where
  "get_dict d k = (if has_key d k then as_dict (dget d k) else Inr [])"

text \<open>\<open>bytes.decode("utf-8")\<close>; \<open>None\<close> where it raises, or for code points above 255.\<close>
fun utf8_decode :: "string \<Rightarrow> string option" where
  "utf8_decode [] = Some []"
| "utf8_decode (c # s) =
     (if ord c < 128 then map_option ((#) c) (utf8_decode s)
      else
        (case s of
           [] \<Rightarrow> None
         | d # s' \<Rightarrow>
             if (ord c = 194 \<or> ord c = 195) \<and> 128 \<le> ord d \<and> ord d < 192
               then map_option ((#) (char_of ((ord c - 192) * 64 + (ord d - 128)))) (utf8_decode s')
             else None))"

text \<open>\<open>re.findall\<close> for a matcher that gives the group and the text after the match.\<close>
function re_findall :: "(string \<Rightarrow> (string \<times> string) option) \<Rightarrow> string \<Rightarrow> string list" where
  "re_findall m s =
     (case s of
        [] \<Rightarrow> []
      | c # s' \<Rightarrow>
          (case m s of
             Some (g, r) \<Rightarrow> if length r < length s then g # re_findall m r else re_findall m s'
           | None \<Rightarrow> re_findall m s'))"
  by pat_completeness auto
termination
  by (relation "measure (\<lambda>(m, s). length s)") auto

declare re_findall.simps [simp del]

definition os_fault :: "string + 'a \<Rightarrow> ctl_exc + 'a" where
  "os_fault r = (case r of Inl e \<Rightarrow> Inl (OtherExc e) | Inr a \<Rightarrow> Inr a)"

section \<open>Files\<close>

definition quoted :: "string \<Rightarrow> string" where
  "quoted s = repr_str s"

text \<open>A path outside the run directory. The canonical path is the path itself.\<close>
definition validate_absolute_path :: "'w ctl_env \<Rightarrow> 'w \<Rightarrow> string \<Rightarrow> ctl_exc + string" where
  "validate_absolute_path env w path =
     (if \<not> startswith path ''/'' then Inl (ControllerError (''path must be absolute: '' @ quoted path))
      else if posix_normpath path \<noteq> path
        then Inl (ControllerError (''path must be normalized: '' @ quoted path))
      else
        (case ce_realpath env w path of
           Inl e \<Rightarrow> Inl (ControllerError (''cannot resolve path '' @ quoted path @ '': '' @ e))
         | Inr real \<Rightarrow>
             if \<not> ce_exists env w real then Inl (ControllerError (''path does not exist: '' @ quoted real))
             else if ce_exists env w path \<and> real \<noteq> path
               then Inl (ControllerError (''path traverses a symlink: '' @ quoted path @ '' -> '' @ quoted real))
             else Inr real))"

definition check_single_link :: "string \<Rightarrow> inode \<Rightarrow> ctl_exc + inode" where
  "check_single_link path i =
     (if in_kind i = SymLink then Inl (ControllerError (''path is a symlink: '' @ quoted path))
      else if in_kind i \<noteq> RegularFile then Inl (ControllerError (''path is not a regular file: '' @ quoted path))
      else if in_nlink i \<noteq> 1
        then Inl (ControllerError (''path has '' @ show_int (in_nlink i) @ '' links, expected 1: '' @ quoted path))
      else Inr i)"

text \<open>\<open>validate_single_link\<close>: the canonical path and the file.\<close>
definition validate_single_link :: "'w ctl_env \<Rightarrow> 'w \<Rightarrow> string \<Rightarrow> ctl_exc + string \<times> inode" where
  "validate_single_link env w path =
     ebind (validate_absolute_path env w path) (\<lambda>canonical.
     case ce_lstat env w canonical of
       None \<Rightarrow> Inl (OtherExc ''FileNotFoundError'')
     | Some i \<Rightarrow> ebind (check_single_link canonical i) (\<lambda>i. Inr (canonical, i)))"

text \<open>The same for a file of the run directory; the data of a link is where it leads.\<close>
definition own_single_link :: "'w ctl_env \<Rightarrow> 'w \<Rightarrow> string \<Rightarrow> inode option \<Rightarrow> ctl_exc + inode" where
  "own_single_link env w path file =
     (case file of
        None \<Rightarrow> Inl (ControllerError (''path does not exist: '' @ quoted path))
      | Some i \<Rightarrow>
          if in_kind i = SymLink \<and> \<not> ce_exists env w (in_data i)
            then Inl (ControllerError (''path does not exist: '' @ quoted (in_data i)))
          else if in_kind i = SymLink
            then Inl (ControllerError (''path traverses a symlink: '' @ quoted path @ '' -> '' @ quoted (in_data i)))
          else check_single_link path i)"

definition oct_digits :: "int \<Rightarrow> string" where
  "oct_digits m = map (\<lambda>k. char_of (48 + nat (m div 8 ^ k mod 8))) [3, 2, 1, 0]"

definition validate_owner_mode :: "string \<Rightarrow> inode \<Rightarrow> int \<Rightarrow> int \<Rightarrow> int \<Rightarrow> ctl_exc + unit" where
  "validate_owner_mode path i uid gid mode =
     (if in_uid i \<noteq> uid
        then Inl (ControllerError (quoted path @ '': expected uid='' @ show_int uid @ '', got uid='' @ show_int (in_uid i)))
      else if in_gid i \<noteq> gid
        then Inl (ControllerError (quoted path @ '': expected gid='' @ show_int gid @ '', got gid='' @ show_int (in_gid i)))
      else if in_mode i \<noteq> mode
        then Inl (ControllerError (quoted path @ '': expected mode '' @ oct_digits mode @ '', got '' @ oct_digits (in_mode i)))
      else Inr ())"

definition identity_of :: "'w ctl_env \<Rightarrow> 'w \<Rightarrow> string \<Rightarrow> inode \<Rightarrow> dict" where
  "identity_of env w path i =
     [(''path'', JStr path), (''dev'', JInt (fst (ce_dev_ino env w path))), (''inode'', JInt (snd (ce_dev_ino env w path))),
      (''nlink'', JInt (in_nlink i)), (''owner'', JInt (in_uid i)), (''group'', JInt (in_gid i)),
      (''mode'', JInt (in_mode i)), (''size'', JInt (int (length (in_data i)))), (''sha256'', JStr (ce_sha env (in_data i)))]"

definition file_identity :: "'w ctl_env \<Rightarrow> 'w \<Rightarrow> string \<Rightarrow> ctl_exc + dict" where
  "file_identity env w path =
     ebind (validate_single_link env w path) (\<lambda>(canonical, i). Inr (identity_of env w canonical i))"

text \<open>The identity of the backup, which lies in the run directory.\<close>
definition backup_identity :: "'w ctl_env \<Rightarrow> string \<Rightarrow> 'w ctl_state \<Rightarrow> ctl_exc + dict" where
  "backup_identity env run_id s =
     ebind (own_single_link env (cs_world s) (backup_path run_id) (cf_backup (cs_files s))) (\<lambda>i.
     Inr (identity_of env (cs_world s) (backup_path run_id) i))"

section \<open>Subprocesses\<close>

definition command_env :: "'w ctl_env \<Rightarrow> (string \<times> string) list \<Rightarrow> (string \<times> string) list" where
  "command_env env extra =
     alist_update (filter (\<lambda>(k, v). k \<in> set ALLOWED_ENV_KEYS) (ce_environ env))
       (filter (\<lambda>(k, v). k \<in> set ALLOWED_ENV_KEYS) extra)"

definition argv_repr :: "string list \<Rightarrow> string" where
  "argv_repr argv = py_repr (JList (map JStr (take 4 argv)))"

text \<open>The exit code, stdout and stderr. The time limit is in seconds.\<close>
definition run_command ::
    "'w ctl_env \<Rightarrow> string list \<Rightarrow> (string \<times> string) list \<Rightarrow> int \<Rightarrow> nat \<Rightarrow> ('w, int \<times> string \<times> string) ctl" where
  "run_command env argv extra timeout output_cap =
     cbind (cworld (ce_exec env argv (command_env env extra) timeout)) (\<lambda>answer.
     case answer of
       ExecTimeout \<Rightarrow> cerror (''command timed out after '' @ show_int timeout @ ''.0s: '' @ argv_repr argv)
     | ExecFault e \<Rightarrow> craise (OtherExc e)
     | Exited rc out err \<Rightarrow>
         if output_cap < length (utf8 out)
           then cerror (''command stdout exceeded '' @ show_nat output_cap @ '' bytes'')
         else if output_cap < length (utf8 err)
           then cerror (''command stderr exceeded '' @ show_nat output_cap @ '' bytes'')
         else creturn (rc, out, err))"

text \<open>An exit code of 0 and one JSON object on stdout, with the messages for the three failures.\<close>
definition json_answer ::
    "'w ctl_env \<Rightarrow> string \<Rightarrow> string \<Rightarrow> string \<Rightarrow> int \<times> string \<times> string \<Rightarrow> ctl_exc + dict" where
  "json_answer env failed non_json non_dict answer =
     (case answer of (rc, out, err) \<Rightarrow>
      if rc \<noteq> 0
        then Inl (ControllerError (failed @ '' (exit '' @ show_int rc @ ''): '' @ repr_str (take 500 err)))
      else
        (case json_parse out of
           None \<Rightarrow> Inl (ControllerError (non_json @ '': '' @ ce_json_error env out))
         | Some (JObj d) \<Rightarrow> Inr d
         | Some _ \<Rightarrow> Inl (ControllerError non_dict)))"

definition coord_cli :: "'w ctl_env \<Rightarrow> string list \<Rightarrow> ('w, dict) ctl" where
  "coord_cli env args =
     cbind (run_command env (PRODUCTION_CLI # args) [(''MAC_DB'', PRODUCTION_DB)] 30 1048576) (\<lambda>answer.
     clift (json_answer env ''Coordinate CLI failed'' ''Coordinate CLI returned non-JSON''
       ''Coordinate CLI returned non-dict JSON'' answer))"

definition run_coord :: "'w ctl_env \<Rightarrow> string list \<Rightarrow> ('w, dict) ctl" where
  "run_coord env args =
     cbind (coord_cli env args) (\<lambda>result.
     cseq (crefuse (truthy (dget result ''error'')) (''Coordinate command error: '' @ py_str (dget result ''error'')))
     (creturn result))"

definition require_object :: "json \<Rightarrow> string \<Rightarrow> ctl_exc + dict" where
  "require_object value label =
     (case value of JObj d \<Rightarrow> Inr d | _ \<Rightarrow> Inl (ControllerError (''Coordinate '' @ label @ '' is not an object'')))"

definition result_object :: "dict \<Rightarrow> string \<Rightarrow> ctl_exc + dict" where
  "result_object payload label = require_object (dget payload ''result'') label"

text \<open>\<open>_expect_coord_rejection\<close>: every \<open>ControllerError\<close> counts, whatever its cause.\<close>
definition expect_coord_rejection :: "'w ctl_env \<Rightarrow> string list \<Rightarrow> ('w, string) ctl" where
  "expect_coord_rejection env args s =
     (case coord_cli env args s of
        (Inl (Raised (ControllerError msg)), s') \<Rightarrow> (Inr (ce_sha env (utf8 (take 500 msg))), s')
      | (Inl e, s') \<Rightarrow> (Inl e, s')
      | (Inr _, s') \<Rightarrow>
          (Inl (Raised (ControllerError (''expected Coordinate rejection but command succeeded: '' @ argv_repr args))), s'))"

section \<open>The production lock\<close>

definition lock_status :: "'w ctl_env \<Rightarrow> string option \<Rightarrow> ('w, dict) ctl" where
  "lock_status env expect_token =
     cbind (run_command env ([PRODUCTION_LOCK_HELPER, ''status'']
         @ (case expect_token of None \<Rightarrow> [] | Some t \<Rightarrow> [''--expect-token'', t])) [] 15 16384) (\<lambda>answer.
     clift (json_answer env ''production lock status failed'' ''production lock status returned non-JSON''
       ''production lock status returned non-object'' answer))"

definition status_is_free :: "dict \<Rightarrow> ctl_exc + bool" where
  "status_is_free status =
     ebind (in_strings (dget status ''state'') [''free'', ''absent'']) (\<lambda>ok.
     Inr (ok \<and> dget status ''phase'' = JStr ''free''))"

definition require_free_lock :: "'w ctl_env \<Rightarrow> ('w, dict) ctl" where
  "require_free_lock env =
     cbind (lock_status env None) (\<lambda>status.
     cbind (clift (status_is_free status)) (\<lambda>free.
     cseq (crefuse (\<not> free) (''production mutation lock is not free: '' @ py_repr (JObj status)))
     (creturn status)))"

definition lock_action :: "string \<Rightarrow> string" where
  "lock_action run_id = LOCK_ACTION_PREFIX @ run_id"

definition strip_nl :: "string \<Rightarrow> string" where
  "strip_nl s = rev (dropWhile (\<lambda>c. c = nl) (rev (dropWhile (\<lambda>c. c = nl) s)))"

definition parse_lock_token :: "string \<Rightarrow> ctl_exc + string" where
  "parse_lock_token raw =
     (let token = strip_nl raw in
      if (raw \<noteq> token \<and> raw \<noteq> token @ [nl]) \<or> \<not> is_hex64 token
        then Inl (ControllerError ''production lock returned malformed token'')
      else Inr token)"

text \<open>\<open>read_text(encoding="ascii")\<close>\<close>
definition ascii_decode :: "string \<Rightarrow> ctl_exc + string" where
  "ascii_decode s = (if list_all (\<lambda>c. ord c < 128) s then Inr (universal_nl s) else Inl (OtherExc ''UnicodeDecodeError''))"

definition read_lock_token :: "'w ctl_env \<Rightarrow> string \<Rightarrow> ('w, string) ctl" where
  "read_lock_token env run_id =
     cread (\<lambda>s.
       ebind (own_single_link env (cs_world s) (lock_token_path run_id) (cf_token (cs_files s))) (\<lambda>i.
       ebind (validate_owner_mode (lock_token_path run_id) i 0 0 MODE_0600) (\<lambda>_.
       ebind (ascii_decode (in_data i)) parse_lock_token)))"

definition held_by :: "string \<Rightarrow> dict" where
  "held_by run_id =
     [(''state'', JStr ''held''), (''phase'', JStr ''held''), (''owner'', JStr LOCK_OWNER),
      (''action'', JStr (lock_action run_id)), (''token_matches'', JBool True)]"

definition check_ownership :: "string \<Rightarrow> dict \<Rightarrow> ctl_exc + unit" where
  "check_ownership run_id status =
     (case find (\<lambda>(k, v). \<not> py_eq (dget status k) v) (held_by run_id) of
        None \<Rightarrow> Inr ()
      | Some (k, _) \<Rightarrow>
          Inl (ControllerError (''production lock ownership mismatch for '' @ k @ '': '' @ py_repr (JObj status))))"

definition require_owned_lock :: "'w ctl_env \<Rightarrow> string \<Rightarrow> string option \<Rightarrow> ('w, dict) ctl" where
  "require_owned_lock env run_id token =
     cbind (case token of None \<Rightarrow> read_lock_token env run_id | Some t \<Rightarrow> clift (parse_lock_token t)) (\<lambda>t.
     cbind (lock_status env (Some t)) (\<lambda>status.
     cseq (clift (check_ownership run_id status))
     (creturn status)))"

text \<open>An answer that is no dictionary makes \<open>payload.get\<close> fail.\<close>
definition release_answer :: "int \<times> string \<times> string \<Rightarrow> ctl_exc + unit" where
  "release_answer answer =
     (case answer of (rc, out, err) \<Rightarrow>
      if rc \<noteq> 0
        then Inl (ControllerError (''production lock release failed (exit '' @ show_int rc @ ''): '' @ repr_str (take 500 err)))
      else
        (case json_parse out of
           None \<Rightarrow> Inl (ControllerError ''production lock release returned non-JSON'')
         | Some j \<Rightarrow>
             ebind (as_dict j) (\<lambda>payload.
             if dget payload ''state'' \<noteq> JStr ''released''
               then Inl (ControllerError (''production lock release result mismatch: '' @ py_repr (JObj payload)))
             else Inr ())))"

definition call_lock_release :: "'w ctl_env \<Rightarrow> string \<Rightarrow> ('w, unit) ctl" where
  "call_lock_release env token =
     cbind (run_command env [PRODUCTION_LOCK_HELPER, ''release'', ''--token'', token] [] 15 16384) (\<lambda>answer.
     clift (release_answer answer))"

definition release_lock :: "'w ctl_env \<Rightarrow> string \<Rightarrow> ('w, unit) ctl" where
  "release_lock env run_id =
     cbind (read_lock_token env run_id) (\<lambda>token.
     cseq (require_owned_lock env run_id (Some token))
     (cseq (call_lock_release env token)
     (cbind (lock_status env None) (\<lambda>free.
      cbind (clift (status_is_free free)) (\<lambda>ok.
      cseq (crefuse (\<not> ok) (''production lock did not become free: '' @ py_repr (JObj free)))
      (io_step env ''unlink token'' (\<lambda>f. f\<lparr>cf_token := None\<rparr>)))))))"

definition acquire_argv :: "'w ctl_env \<Rightarrow> string \<Rightarrow> string list" where
  "acquire_argv env run_id =
     [PRODUCTION_LOCK_HELPER, ''acquire'', ''--owner'', LOCK_OWNER, ''--action'', lock_action run_id,
      ''--owner-host'', ce_hostname env, ''--owner-pid'', show_int (ce_pid env)]"

definition acquire_lock :: "'w ctl_env \<Rightarrow> string \<Rightarrow> ('w, string) ctl" where
  "acquire_lock env run_id =
     cseq (clift (validate_run_id run_id))
     (cseq (cbind (cread (\<lambda>s. Inr (cf_token (cs_files s) \<noteq> None))) (\<lambda>present.
        crefuse present ''production lock token file already exists''))
     (cseq (require_free_lock env)
     (cbind (run_command env (acquire_argv env run_id) [] 15 16384) (\<lambda>(rc, out, err).
      cseq (crefuse (rc \<noteq> 0)
        (''production lock acquire failed (exit '' @ show_int rc @ ''): '' @ repr_str (take 500 err)))
      (cbind (clift (parse_lock_token out)) (\<lambda>token.
       cseq (io_step env ''makedirs control'' id)
       (cseq (io_step env ''replace token'' (\<lambda>f. f\<lparr>cf_token := Some (new_file (token @ [nl]))\<rparr>))
       (cseq (require_owned_lock env run_id (Some token))
       (creturn token)))))))))"

end
