(* ===== verification/ControllerSeal.thy ===== *)
theory ControllerSeal
  imports ControllerGates
begin

text \<open>
  \<open>scripts/p9_3c1_controller.py\<close>, what is sealed and compared: SQLite evidence, evidence files, the
  installed files and revisions, the configuration contract, the manifest, and the commands prepare,
  preflight and status.
\<close>

section \<open>SQLite evidence\<close>

text \<open>The authorizer: reads, \<open>count\<close> and three pragmas without an argument; 19 is \<open>SQLITE_PRAGMA\<close>, 31 \<open>SQLITE_FUNCTION\<close>.\<close>
definition db_authorizer :: "int \<Rightarrow> string option \<Rightarrow> string option \<Rightarrow> bool" where
  "db_authorizer action arg1 arg2 =
     (if action = 20 \<or> action = 21 then True
      else if action = 31 \<and> map_option (map py_lower) arg2 = Some ''count'' then True
      else action = 19 \<and> arg1 \<in> {Some ''integrity_check'', Some ''user_version'', Some ''foreign_key_check''} \<and> arg2 = None)"

definition evidence_query :: "'w ctl_env \<Rightarrow> string \<Rightarrow> json list \<Rightarrow> ('w, dict list) ctl" where
  "evidence_query env sql params = cread (\<lambda>s. os_fault (ce_query env (cs_world s) sql params))"

definition db_integrity_check :: "'w ctl_env \<Rightarrow> ('w, dict) ctl" where
  "db_integrity_check env =
     cbind (evidence_query env ''PRAGMA integrity_check'' []) (\<lambda>rows.
     let result = (case rows of [] \<Rightarrow> JStr []
                   | row # _ \<Rightarrow> if has_key row ''integrity_check'' then dget row ''integrity_check'' else JStr [])
     in creturn [(''integrity'', result), (''ok'', JBool (result = JStr ''ok''))])"

definition db_schema_version :: "'w ctl_env \<Rightarrow> ('w, json) ctl" where
  "db_schema_version env =
     cbind (evidence_query env ''PRAGMA user_version'' []) (\<lambda>rows.
     creturn (case rows of [] \<Rightarrow> JInt (-1)
              | row # _ \<Rightarrow> if has_key row ''user_version'' then dget row ''user_version'' else JInt (-1)))"

definition db_fk_check :: "'w ctl_env \<Rightarrow> ('w, int) ctl" where
  "db_fk_check env = cbind (evidence_query env ''PRAGMA foreign_key_check'' []) (\<lambda>rows. creturn (int (length rows)))"

definition db_due_active_leases :: "'w ctl_env \<Rightarrow> ('w, json) ctl" where
  "db_due_active_leases env =
     cbind (now env) (\<lambda>t.
     cbind (evidence_query env
       (''SELECT COUNT(*) AS cnt FROM execution_attempt_leases ''
        @ ''WHERE status = '' @ [squote] @ ''active'' @ [squote] @ '' AND expires_at <= ?'')
       [JStr (isoformat t)]) (\<lambda>rows.
     case rows of [] \<Rightarrow> creturn (JInt 0) | row # _ \<Rightarrow> clift (dict_item row ''cnt'')))"

definition projection_queries :: "(string \<times> string \<times> json list) list" where
  "projection_queries =
     [(''executor_sources'', ''SELECT source_id, source_version, catalog_hash, source_path ''
         @ ''FROM executor_catalog_sources WHERE source_id != ? ORDER BY source_id'', [JStr ''p9-3c1-fixture-executors'']),
      (''executor_definitions'', ''SELECT id, source_id, provider, adapter, capabilities_json, metadata_json ''
         @ ''FROM executor_definitions WHERE source_id != ? ORDER BY id'', [JStr ''p9-3c1-fixture-executors'']),
      (''executor_bindings'', ''SELECT agent_id, source_id, executor_definition_id, runner_profile_id, enabled ''
         @ ''FROM executor_instance_bindings WHERE source_id != ? ORDER BY agent_id'', [JStr ''p9-3c1-fixture-executors'']),
      (''capacity_sources'', ''SELECT source_id, source_version, catalog_hash, source_path ''
         @ ''FROM executor_capacity_sources WHERE source_id != ? ORDER BY source_id'', [JStr ''p9-3c1-fixture-capacity'']),
      (''capacity_policies'', ''SELECT agent_id, source_id, source_version, catalog_hash, ''
         @ ''capacity_policy_id, max_concurrent_jobs FROM executor_capacity_policies ''
         @ ''WHERE source_id != ? ORDER BY agent_id'', [JStr ''p9-3c1-fixture-capacity'']),
      (''roster_sources'', ''SELECT workspace_id, source_id, source_version, source_hash, source_path, synced_by ''
         @ ''FROM workspace_agent_registry_sources WHERE workspace_id = ? ORDER BY workspace_id'', [JStr ''discord-nexus'']),
      (''roster_entries'', ''SELECT workspace_id, agent_name, entry_kind, discord_user_id, display_name, ''
         @ ''agent_type, actor, reason, expires_at FROM workspace_agent_registry_entries ''
         @ ''WHERE workspace_id = ? ORDER BY agent_name, entry_kind'', [JStr ''discord-nexus'']),
      (''workspace'', ''SELECT id, name, path, harness_root, harnessctl_path, default_bus, ''
         @ ''default_destination, base_branch, branch_namespace, agent_registry_revision ''
         @ ''FROM workspaces WHERE id = ? ORDER BY id'', [JStr ''discord-nexus'']),
      (''host_profiles'', ''SELECT workspace_id, host_id, workspace_path, harness_root, harnessctl_path, ''
         @ ''coordinator_cli_path, coordinator_db_path, shell, metadata_json ''
         @ ''FROM workspace_host_profiles WHERE workspace_id = ? ORDER BY host_id'', [JStr ''discord-nexus''])]"

fun query_all :: "'w ctl_env \<Rightarrow> (string \<times> string \<times> json list) list \<Rightarrow> ('w, dict) ctl" where
  "query_all env [] = creturn []"
| "query_all env ((name, sql, params) # qs) =
     cbind (evidence_query env sql params) (\<lambda>rows.
     cbind (query_all env qs) (\<lambda>rest.
     creturn ((name, JList (map JObj rows)) # rest)))"

text \<open>The digest of the projection.\<close>
definition canonical_projection_snapshot :: "'w ctl_env \<Rightarrow> ('w, string) ctl" where
  "canonical_projection_snapshot env =
     cbind (query_all env projection_queries) (\<lambda>components.
     creturn (ce_sha env (utf8 (canonical_json (JObj components)))))"

section \<open>Evidence files\<close>

definition evidence_text :: "json \<Rightarrow> string" where
  "evidence_text data = canonical_json data @ [nl]"

definition write_evidence :: "'w ctl_env \<Rightarrow> string \<Rightarrow> json \<Rightarrow> ('w, unit) ctl" where
  "write_evidence env filename data =
     cseq (io_step env ''makedirs evidence'' id)
     (io_step env (''replace '' @ filename)
       (\<lambda>f. f\<lparr>cf_evidence := alist_set (cf_evidence f) filename (evidence_text data)\<rparr>))"

text \<open>A missing file reads as an empty dictionary.\<close>
definition read_evidence :: "string \<Rightarrow> ('w, json) ctl" where
  "read_evidence filename =
     cread (\<lambda>s. case map_of (cf_evidence (cs_files s)) filename of None \<Rightarrow> Inr (JObj []) | Some text \<Rightarrow> loads text)"

text \<open>\<open>O_EXCL\<close>: the marker must be new.\<close>
definition write_forensic_failure :: "'w ctl_env \<Rightarrow> string \<Rightarrow> ('w, unit) ctl" where
  "write_forensic_failure env marker =
     cbind (cread (\<lambda>s. Inr (marker \<in> set (cf_markers (cs_files s)) \<or> \<not> cf_root (cs_files s)))) (\<lambda>blocked.
     if blocked then craise (OtherExc ''OSError'')
     else io_step env ''write marker'' (\<lambda>f. f\<lparr>cf_markers := cf_markers f @ [marker]\<rparr>))"

section \<open>Installed files and revisions\<close>

text \<open>A dictionary whose values are computed one after the other.\<close>
definition efor_items :: "('a \<Rightarrow> 'e + 'b) \<Rightarrow> (string \<times> 'a) list \<Rightarrow> 'e + (string \<times> 'b) list" where
  "efor_items f items = emapM (\<lambda>(k, a). ebind (f a) (\<lambda>b. Inr (k, b))) items"

definition installed_paths :: "(string \<times> string) list" where
  "installed_paths =
     [(''controller'', path_join INSTALLED_ROOT ''scripts/p9_3c1_controller.py''),
      (''entrypoint'', path_join INSTALLED_ROOT ''scripts/p9-3c1-production-verify.sh''),
      (''helper'', HELPER_PATH), (''fixture_bin'', FIXTURE_BIN),
      (''agentd_main'', path_join INSTALLED_ROOT ''multinexus/agentd/__main__.py''),
      (''agentd_worker'', path_join INSTALLED_ROOT ''multinexus/agentd/worker.py''),
      (''agentd_coordinate_client'', path_join INSTALLED_ROOT ''multinexus/agentd/coordinate_client.py'')]"

definition collect_installed_hashes :: "'w ctl_env \<Rightarrow> ('w, dict) ctl" where
  "collect_installed_hashes env =
     cread (\<lambda>s. efor_items (\<lambda>path. ebind (validate_single_link env (cs_world s) path) (\<lambda>(_, i).
       Inr (JStr (ce_sha env (in_data i))))) installed_paths)"

definition launcher_paths :: "(string \<times> string) list" where
  "launcher_paths =
     [(''python'', PYTHON_PATH), (''helper'', HELPER_PATH), (''fixture_bin'', FIXTURE_BIN),
      (''mutation_lock_helper'', PRODUCTION_LOCK_HELPER),
      (''agent_template'', path_join CONFIG_DIR ''agents.production.toml'')]"

definition collect_launcher_files :: "'w ctl_env \<Rightarrow> ('w, dict) ctl" where
  "collect_launcher_files env =
     cread (\<lambda>s. efor_items (\<lambda>path. ebind (file_identity env (cs_world s) path) (\<lambda>d. Inr (JObj d))) launcher_paths)"

definition line_break :: "char \<Rightarrow> bool" where
  "line_break c = (c = nl \<or> ord c \<in> {11, 12, 28, 29, 30, 133})"

text \<open>\<open>str.splitlines\<close> on a text without carriage returns; the first argument is the current line, reversed.\<close>
fun split_lines :: "string \<Rightarrow> string \<Rightarrow> string list" where
  "split_lines acc [] = (if acc = [] then [] else [rev acc])"
| "split_lines acc (c # s) = (if line_break c then rev acc # split_lines [] s else split_lines (c # acc) s)"

definition version_line :: "string \<Rightarrow> (string \<times> string) list \<Rightarrow> string \<Rightarrow> ctl_exc + (string \<times> string) list" where
  "version_line path values line =
     (if CHR ''='' \<notin> set line then Inl (ControllerError (''invalid VERSION_DEPLOYED line: '' @ path))
      else
        let key = takeWhile (\<lambda>c. c \<noteq> CHR ''='') line; val = drop 1 (dropWhile (\<lambda>c. c \<noteq> CHR ''='') line) in
        if map_of values key \<noteq> None
          then Inl (ControllerError (''duplicate VERSION_DEPLOYED key '' @ key @ '': '' @ path))
        else Inr (values @ [(key, val)]))"

definition decode_text :: "string \<Rightarrow> ctl_exc + string" where
  "decode_text bytes =
     (case utf8_decode bytes of None \<Rightarrow> Inl (OtherExc ''UnicodeDecodeError'') | Some t \<Rightarrow> Inr (universal_nl t))"

definition read_version :: "'w ctl_env \<Rightarrow> 'w \<Rightarrow> string \<Rightarrow> string \<Rightarrow> ctl_exc + string" where
  "read_version env w path component =
     ebind (validate_single_link env w path) (\<lambda>(_, i).
     ebind (decode_text (in_data i)) (\<lambda>text.
     ebind (efoldM (version_line path) [] (split_lines [] text)) (\<lambda>values.
     case (map_of values ''component'', map_of values ''commit'') of
       (Some c, Some commit) \<Rightarrow>
         if c = component \<and> length commit = 40 \<and> list_all is_lower_hex commit then Inr commit
         else Inl (ControllerError (''invalid deployed revision authority: '' @ path))
     | _ \<Rightarrow> Inl (ControllerError (''invalid deployed revision authority: '' @ path)))))"

definition collect_revisions :: "'w ctl_env \<Rightarrow> ('w, dict) ctl" where
  "collect_revisions env =
     cread (\<lambda>s.
       ebind (read_version env (cs_world s) (path_join INSTALLED_ROOT ''VERSION_DEPLOYED'') ''multinexus'') (\<lambda>m.
       ebind (read_version env (cs_world s) (path_join COORDINATE_ROOT ''VERSION_DEPLOYED'') ''coordinate'') (\<lambda>c.
       Inr [(''multinexus_deployed'', JStr m), (''coordinate_deployed'', JStr c)])))"

section \<open>The configuration contract\<close>

text \<open>The bytes of a file that is opened without further checks, and a table read from it.\<close>
definition open_file :: "'w ctl_env \<Rightarrow> 'w \<Rightarrow> string \<Rightarrow> ctl_exc + string" where
  "open_file env w path =
     (case ce_lstat env w path of None \<Rightarrow> Inl (OtherExc ''FileNotFoundError'') | Some i \<Rightarrow> Inr (in_data i))"

definition load_toml :: "'w ctl_env \<Rightarrow> 'w \<Rightarrow> string \<Rightarrow> ctl_exc + string \<times> dict" where
  "load_toml env w path =
     ebind (open_file env w path) (\<lambda>raw.
     ebind (os_fault (ce_toml env raw)) (\<lambda>d. Inr (raw, d)))"

text \<open>\<open>[row.get("id") for row in rows]\<close> of a value that must be a list of tables.\<close>
definition rows_of :: "dict \<Rightarrow> string \<Rightarrow> ctl_exc + dict list" where
  "rows_of d k =
     (if \<not> has_key d k then Inr []
      else case dget d k of JList rows \<Rightarrow> emapM as_dict rows | _ \<Rightarrow> Inl (OtherExc ''TypeError''))"

definition both_agents :: "dict list \<Rightarrow> bool" where
  "both_agents rows =
     (length rows = 2 \<and> (\<forall>a \<in> set FIXTURE_AGENTS. JStr a \<in> set (map (\<lambda>r. dget r ''id'') rows)))"

definition registry_is :: "json \<Rightarrow> string \<Rightarrow> int \<Rightarrow> bool" where
  "registry_is j i v = py_eq j (JObj [(''id'', JStr i), (''version'', JInt v)])"

definition FIXTURE_DEFINITION :: json where
  "FIXTURE_DEFINITION =
     JObj [(''id'', JStr ''p9-3c1-local-fixture''), (''provider'', JStr ''local-fixture''), (''adapter'', JStr ''claude''),
           (''capabilities'', JList [JStr ''p9-3c1-fixture''])]"

definition executor_files :: "(string \<times> int \<times> bool option) list" where
  "executor_files =
     [(''executor.v1-disabled.toml'', 1, Some False), (''executor.v2-enabled.toml'', 2, Some True),
      (''executor.v3-disabled.toml'', 3, Some False), (''executor.v4-empty.toml'', 4, None)]"

text \<open>The checks of one agent of an executor file; \<open>isdigit\<close> also holds for superscripts.\<close>
definition is_digit_py :: "char \<Rightarrow> bool" where
  "is_digit_py c = (is_digit c \<or> ord c \<in> {178, 179, 185})"

definition executor_row :: "string \<Rightarrow> bool option \<Rightarrow> dict \<Rightarrow> ctl_exc + unit" where
  "executor_row filename enabled row =
     (if dget row ''executor_definition_id'' \<noteq> JStr ''p9-3c1-local-fixture''
        then Inl (ControllerError (''invalid executor binding: '' @ filename))
      else if dget row ''runner_profile_id'' \<noteq> dget row ''id''
        then Inl (ControllerError (''invalid runner binding: '' @ filename))
      else if dget row ''enabled'' \<noteq> (case enabled of None \<Rightarrow> JNull | Some b \<Rightarrow> JBool b)
        then Inl (ControllerError (''invalid enabled state: '' @ filename))
      else case dget row ''discord_user_id'' of
          JStr s \<Rightarrow> if s \<noteq> [] \<and> list_all is_digit_py s then Inr ()
            else Inl (ControllerError (''invalid inert Discord id: '' @ filename))
        | _ \<Rightarrow> Inl (ControllerError (''invalid inert Discord id: '' @ filename)))"

definition executor_file :: "'w ctl_env \<Rightarrow> 'w \<Rightarrow> string \<times> int \<times> bool option \<Rightarrow> ctl_exc + string \<times> json" where
  "executor_file env w item =
     (case item of (filename, version, enabled) \<Rightarrow>
      ebind (load_toml env w (path_join CONFIG_DIR filename)) (\<lambda>(raw, data).
      if \<not> registry_is (dget data ''registry'') ''p9-3c1-fixture-executors'' version
        then Inl (ControllerError (''invalid executor source/version: '' @ filename))
      else if version = 4 then
        (if truthy (dget data ''executor_definitions'') \<or> truthy (dget data ''agents'')
           then Inl (ControllerError ''executor v4 must be empty'')
         else Inr (filename, JStr (ce_sha env raw)))
      else if \<not> py_eq (dget data ''executor_definitions'') (JList [FIXTURE_DEFINITION])
        then Inl (ControllerError (''invalid executor definition: '' @ filename))
      else
        ebind (rows_of data ''agents'') (\<lambda>rows.
        if \<not> both_agents rows then Inl (ControllerError (''invalid executor agent set: '' @ filename))
        else ebind (emapM (executor_row filename enabled) rows) (\<lambda>_. Inr (filename, JStr (ce_sha env raw))))))"

definition capacity_files :: "(string \<times> int \<times> string list) list" where
  "capacity_files = [(''capacity.v1.toml'', 1, FIXTURE_AGENTS), (''capacity.v2-empty.toml'', 2, [])]"

text \<open>\<open>len(rows) == len(actual)\<close> and \<open>actual == expected\<close> for the dictionary of the rows.\<close>
definition capacity_set_ok :: "string list \<Rightarrow> dict list \<Rightarrow> bool" where
  "capacity_set_ok expected rows =
     (length rows = length expected
      \<and> (\<forall>a \<in> set expected. \<exists>r \<in> set rows. dget r ''agent_id'' = JStr a \<and> py_eq (dget r ''max_concurrent_jobs'') (JInt 1)))"

definition capacity_file :: "'w ctl_env \<Rightarrow> 'w \<Rightarrow> string \<times> int \<times> string list \<Rightarrow> ctl_exc + string \<times> json" where
  "capacity_file env w item =
     (case item of (filename, version, expected) \<Rightarrow>
      ebind (load_toml env w (path_join CONFIG_DIR filename)) (\<lambda>(raw, data).
      if \<not> registry_is (dget data ''capacity_registry'') ''p9-3c1-fixture-capacity'' version
        then Inl (ControllerError (''invalid capacity source/version: '' @ filename))
      else
        ebind (rows_of data ''executor_capacities'') (\<lambda>rows.
        if \<not> capacity_set_ok expected rows
          then Inl (ControllerError (''invalid capacity policy set: '' @ filename))
        else Inr (filename, JStr (ce_sha env raw)))))"

fun contains :: "string \<Rightarrow> string \<Rightarrow> bool" where
  "contains sub [] = (sub = [])"
| "contains sub (c # s) = (startswith (c # s) sub \<or> contains sub s)"

definition marker_char :: "char \<Rightarrow> bool" where
  "marker_char c = (between CHR ''A'' CHR ''Z'' c \<or> is_digit c \<or> c = CHR ''_'')"

text \<open>\<open>__P9C1_[A-Z0-9_]+__\<close>: the longest run of the class that ends in two underscores.\<close>
definition match_marker :: "string \<Rightarrow> (string \<times> string) option" where
  "match_marker s =
     (if \<not> startswith s ''__P9C1_'' then None
      else
        let run = takeWhile marker_char (drop 7 s) in
        case find (\<lambda>k. take 2 (drop (k - 2) run) = ''__'') (rev [3..<length run + 1]) of
          None \<Rightarrow> None
        | Some k \<Rightarrow> Some (take (7 + k) s, drop (7 + k) s))"

definition EXPECTED_MARKERS :: "string list" where
  "EXPECTED_MARKERS =
     [''__P9C1_E1_WORK_DIR__'', ''__P9C1_E2_WORK_DIR__'', ''__P9C1_E1_CONTEXT_DB__'', ''__P9C1_E2_CONTEXT_DB__'']"

definition FORBIDDEN_KEYS :: "string list" where
  "FORBIDDEN_KEYS =
     [''token'', ''token_env'', ''channels'', ''kook_poll_channel_ids'', ''model'', ''omp_model'', ''hermes_provider'',
      ''openclaw_agent_id'']"

definition same_set :: "string list \<Rightarrow> string list \<Rightarrow> bool" where
  "same_set xs ys = (list_all (\<lambda>x. x \<in> set ys) xs \<and> list_all (\<lambda>y. y \<in> set xs) ys)"

definition has_forbidden :: "dict \<Rightarrow> bool" where
  "has_forbidden d = list_ex (\<lambda>k. has_key d k) FORBIDDEN_KEYS"

definition agent_template :: "'w ctl_env \<Rightarrow> 'w \<Rightarrow> ctl_exc + json" where
  "agent_template env w =
     ebind (open_file env w (path_join CONFIG_DIR ''agents.production.toml'')) (\<lambda>bytes.
     ebind (decode_text bytes) (\<lambda>raw.
     ebind (os_fault (ce_toml env bytes)) (\<lambda>data.
     ebind (rows_of data ''agents'') (\<lambda>rows.
     if \<not> both_agents rows then Inl (ControllerError ''invalid agent template set'')
     else
       ebind (get_dict data ''defaults'') (\<lambda>defaults.
       let markers = re_findall match_marker raw in
       if dget defaults ''agentd_mode'' \<noteq> JBool True \<or> dget defaults ''adapter'' \<noteq> JStr ''claude''
         then Inl (ControllerError ''invalid agentd template mode'')
       else if dget defaults ''claude_bin'' \<noteq> JStr FIXTURE_BIN
         then Inl (ControllerError ''agent template fixture binary drift'')
       else if dget defaults ''coordinator_cli_path'' \<noteq> JStr PRODUCTION_CLI
         then Inl (ControllerError ''agent template Coordinate CLI drift'')
       else if dget defaults ''coordinator_db_path'' \<noteq> JStr PRODUCTION_DB
         then Inl (ControllerError ''agent template Coordinate DB drift'')
       else if contains ''__P9C0_'' raw then Inl (ControllerError ''P9-3C0 marker in P9-3C1 template'')
       else if \<not> same_set markers EXPECTED_MARKERS
         then Inl (ControllerError (''invalid P9-3C1 template markers: ''
                @ py_repr (JList (map JStr (sort (remdups markers))))))
       else if has_forbidden defaults \<or> list_ex has_forbidden rows
         then Inl (ControllerError ''agent template contains provider/bus/delivery authority'')
       else Inr (JStr (ce_sha env bytes)))))))"

text \<open>\<open>P9C0_AGENT_ALLOWLIST=\(([^)]*)\)\<close>\<close>
definition match_allowlist :: "string \<Rightarrow> (string \<times> string) option" where
  "match_allowlist s =
     (if \<not> startswith s ''P9C0_AGENT_ALLOWLIST=('' then None
      else
        let t = drop 21 s; r = dropWhile (\<lambda>c. c \<noteq> CHR '')'') t in
        if r = [] then None else Some (takeWhile (\<lambda>c. c \<noteq> CHR '')'') t, drop 1 r))"

definition allowlist_values :: "'w ctl_env \<Rightarrow> string \<Rightarrow> ctl_exc + unit" where
  "allowlist_values env declaration =
     ebind (os_fault (ce_shlex env declaration)) (\<lambda>values.
     if length values \<noteq> 2 \<or> \<not> same_set values FIXTURE_AGENTS
       then Inl (ControllerError ''helper agent allowlist mismatch'')
     else Inr ())"

definition helper_allowlist :: "'w ctl_env \<Rightarrow> 'w \<Rightarrow> ctl_exc + unit" where
  "helper_allowlist env w =
     ebind (open_file env w HELPER_PATH) (\<lambda>bytes.
     ebind (decode_text bytes) (\<lambda>raw.
     let declarations = re_findall match_allowlist raw in
     if declarations = [] then Inl (ControllerError ''helper agent allowlist declaration missing'')
     else ebind (emapM (allowlist_values env) declarations) (\<lambda>_. Inr ())))"

definition agent_ids :: json where
  "agent_ids = JList (map JStr FIXTURE_AGENTS)"

text \<open>The digests of the configuration files; the agents are \<open>agent_ids\<close>.\<close>
definition validate_config_contract :: "'w ctl_env \<Rightarrow> ('w, dict) ctl" where
  "validate_config_contract env =
     cread (\<lambda>s.
       ebind (emapM (executor_file env (cs_world s)) executor_files) (\<lambda>executors.
       ebind (emapM (capacity_file env (cs_world s)) capacity_files) (\<lambda>capacities.
       ebind (agent_template env (cs_world s)) (\<lambda>template.
       ebind (helper_allowlist env (cs_world s)) (\<lambda>_.
       Inr (executors @ capacities @ [(''agents.production.toml'', template)]))))))"

section \<open>The manifest\<close>

text \<open>The fields of a file identity under a prefix.\<close>
definition prefixed :: "string \<Rightarrow> dict \<Rightarrow> string list \<Rightarrow> dict" where
  "prefixed p d ks = map (\<lambda>k. (p @ k, dget d k)) ks"

text \<open>\<open>os.path.realpath\<close> of an installed path, which does not raise.\<close>
definition real_or_same :: "'w ctl_env \<Rightarrow> 'w \<Rightarrow> string \<Rightarrow> json" where
  "real_or_same env w path = JStr (case ce_realpath env w path of Inl _ \<Rightarrow> path | Inr r \<Rightarrow> r)"

definition launcher_identity :: "'w ctl_env \<Rightarrow> 'w \<Rightarrow> dict \<Rightarrow> dict \<Rightarrow> dict \<Rightarrow> dict" where
  "launcher_identity env w cli db files =
     (let file = (\<lambda>name. case dget files name of JObj d \<Rightarrow> d | _ \<Rightarrow> []) in
      prefixed ''cli_'' cli [''path'', ''dev'', ''inode'', ''owner'', ''group'', ''mode'']
      @ prefixed ''db_'' db [''path'', ''dev'', ''inode'', ''owner'', ''group'', ''mode'']
      @ prefixed ''python_'' (file ''python'') [''path'', ''sha256'', ''dev'', ''inode'', ''owner'', ''group'', ''mode'']
      @ prefixed ''helper_'' (file ''helper'') [''path'', ''sha256'']
      @ prefixed ''fixture_bin_'' (file ''fixture_bin'') [''path'', ''sha256'']
      @ prefixed ''agent_template_'' (file ''agent_template'') [''path'', ''sha256'']
      @ [(''config_dir'', real_or_same env w CONFIG_DIR), (''lock_helper_path'', real_or_same env w PRODUCTION_LOCK_HELPER),
         (''files'', JObj files), (''cli_file'', JObj cli), (''db_file'', JObj db)])"

text \<open>\<open>pwd.getpwnam\<close> and \<open>grp.getgrnam\<close>.\<close>
definition resolve :: "(string \<Rightarrow> int option) \<Rightarrow> string \<Rightarrow> ctl_exc + int" where
  "resolve f name = (case f name of None \<Rightarrow> Inl (OtherExc ''KeyError'') | Some i \<Rightarrow> Inr i)"

text \<open>\<open>replace("+00:00", "Z")\<close> of an ISO time in UTC\<close>
definition iso_z :: "utc_time \<Rightarrow> string" where
  "iso_z t = take (length (isoformat t) - 6) (isoformat t) @ ''Z''"

definition build_controller_manifest ::
    "'w ctl_env \<Rightarrow> string \<Rightarrow> dict \<Rightarrow> dict \<Rightarrow> dict \<Rightarrow> dict \<Rightarrow> dict \<Rightarrow> string \<Rightarrow> string \<Rightarrow> dict \<Rightarrow> dict \<Rightarrow> string \<Rightarrow> ('w, dict) ctl" where
  "build_controller_manifest env run_id hashes revisions cli db config unit_user unit_group launcher backup projection =
     cbind (clift (resolve (ce_user env) unit_user)) (\<lambda>uid.
     cbind (clift (resolve (ce_group env) unit_group)) (\<lambda>gid.
     cbind (cread (\<lambda>s. Inr (launcher_identity env (cs_world s) cli db launcher))) (\<lambda>identity.
     cbind (now env) (\<lambda>t.
     creturn
       [(''production_launcher_identity'', JObj identity), (''run_id'', JStr run_id),
        (''state_root'', JStr (state_root run_id)), (''unit_user'', JStr unit_user), (''unit_group'', JStr unit_group),
        (''unit_uid'', JInt uid), (''unit_gid'', JInt gid), (''installed_revisions'', JObj revisions),
        (''installed_hashes'', JObj hashes), (''config_hashes'', JObj config), (''helper_allowlist'', agent_ids),
        (''reap_policy'', JObj [(''mode'', JStr ''none''), (''reason'', JStr (''p9-3c1-'' @ run_id))]),
        (''budgets'', JObj AUTH_EXACT_BUDGETS), (''workspace_id'', JStr ''p9-3c1-production''),
        (''host_id'', JStr ''VM-0-15-ubuntu''), (''backup_identity'', JObj backup),
        (''canonical_projection_sha256'', JStr projection), (''prepared_at_utc'', JStr (iso_z t)),
        (''p3_authorization_digest'', JNull)]))))"

definition manifest_bytes :: "dict \<Rightarrow> string" where
  "manifest_bytes manifest = utf8 (canonical_json (JObj manifest) @ [nl])"

definition write_manifest :: "'w ctl_env \<Rightarrow> dict \<Rightarrow> ('w, string) ctl" where
  "write_manifest env manifest =
     (let content = manifest_bytes manifest; digest = ce_sha env content in
      cseq (io_step env ''makedirs control'' id)
      (cseq (io_step env ''replace manifest'' (\<lambda>f. f\<lparr>cf_manifest := Some (new_file content)\<rparr>))
      (cseq (io_step env ''replace manifest sha'' (\<lambda>f. f\<lparr>cf_manifest_sha := Some (new_file (utf8 (digest @ [nl])))\<rparr>))
      (creturn digest))))"

definition parse_object :: "'w ctl_env \<Rightarrow> string \<Rightarrow> string \<Rightarrow> string \<Rightarrow> ctl_exc + dict" where
  "parse_object env raw not_json not_object =
     (case utf8_decode raw of
        None \<Rightarrow> Inl (ControllerError (not_json @ ce_json_error env raw))
      | Some text \<Rightarrow>
          (case json_parse text of
             None \<Rightarrow> Inl (ControllerError (not_json @ ce_json_error env raw))
           | Some (JObj d) \<Rightarrow> Inr d
           | Some _ \<Rightarrow> Inl (ControllerError not_object)))"

text \<open>The manifest and its digest.\<close>
definition check_manifest :: "'w ctl_env \<Rightarrow> string \<Rightarrow> 'w ctl_state \<Rightarrow> ctl_exc + dict \<times> string" where
  "check_manifest env run_id s =
     ebind (own_single_link env (cs_world s) (manifest_path run_id) (cf_manifest (cs_files s))) (\<lambda>m.
     ebind (own_single_link env (cs_world s) (manifest_sha_path run_id) (cf_manifest_sha (cs_files s))) (\<lambda>ms.
     ebind (decode_text (in_data ms)) (\<lambda>sha_text.
     let expected = strip sha_text; actual = ce_sha env (in_data m) in
     if \<not> is_hex64 expected then Inl (ControllerError ''manifest SHA authority is malformed'')
     else if actual \<noteq> expected
       then Inl (ControllerError (''manifest SHA mismatch: '' @ actual @ '' != '' @ expected))
     else
       ebind (parse_object env (in_data m) ''manifest is not canonical JSON: '' ''manifest must be a JSON object'') (\<lambda>manifest.
       if in_data m \<noteq> manifest_bytes manifest
         then Inl (ControllerError ''manifest bytes are not canonical JSON'')
       else if dget manifest ''run_id'' \<noteq> JStr run_id \<or> dget manifest ''state_root'' \<noteq> JStr (state_root run_id)
         then Inl (ControllerError ''manifest run/state authority mismatch'')
       else Inr (manifest, actual)))))"

definition read_manifest :: "'w ctl_env \<Rightarrow> string \<Rightarrow> ('w, dict \<times> string) ctl" where
  "read_manifest env run_id = cread (check_manifest env run_id)"

end
