(* ===== verification/ControllerCommands.thy ===== *)
theory ControllerCommands
  imports ControllerSeal
begin

text \<open>
  \<open>scripts/p9_3c1_controller.py\<close>: the commands prepare, preflight and status, and the authorization that
  a live run needs.
\<close>

section \<open>Prepare\<close>

definition validate_prepare_args :: "string \<Rightarrow> string \<Rightarrow> string \<Rightarrow> ctl_exc + unit" where
  "validate_prepare_args run_id unit_user unit_group =
     ebind (validate_run_id run_id) (\<lambda>_.
     if strip unit_user = [] then Inl (ControllerError ''unit_user must be non-blank string'')
     else if strip unit_group = [] then Inl (ControllerError ''unit_group must be non-blank string'')
     else Inr ())"

definition RUN_DIRS :: "string list" where
  "RUN_DIRS =
     [''control'', ''ledger'', ''evidence'', ''backup'', ''runtime/work/e1'', ''runtime/work/e2'', ''runtime/context'',
      ''runtime/unit'']"

text \<open>The directories whose owner and mode are set: the root's own, the shared and the unit's.\<close>
definition OWNED_DIRS :: "string list" where
  "OWNED_DIRS =
     [[], ''control'', ''ledger'', ''evidence'', ''backup'', ''runtime/unit'', ''runtime'', ''runtime/work'',
      ''runtime/work/e1'', ''runtime/work/e2'', ''runtime/context'']"

definition create_run_dirs :: "'w ctl_env \<Rightarrow> string \<Rightarrow> string \<Rightarrow> ('w, unit) ctl" where
  "create_run_dirs env unit_user unit_group =
     cseq (cfor RUN_DIRS (\<lambda>d. io_step env (''makedirs '' @ d) (\<lambda>f. f\<lparr>cf_root := True\<rparr>)))
     (cseq (clift (resolve (ce_user env) unit_user))
     (cseq (clift (resolve (ce_group env) unit_group))
     (cfor OWNED_DIRS (\<lambda>d. cseq (io_step env (''chown '' @ d) id) (io_step env (''chmod '' @ d) id)))))"

text \<open>The integrity, the schema, the foreign-key violations and the due leases.\<close>
definition db_evidence :: "'w ctl_env \<Rightarrow> ('w, dict \<times> json \<times> int \<times> json) ctl" where
  "db_evidence env =
     cbind (db_integrity_check env) (\<lambda>integrity.
     cbind (db_schema_version env) (\<lambda>schema.
     cbind (db_fk_check env) (\<lambda>fk.
     cbind (db_due_active_leases env) (\<lambda>due.
     creturn (integrity, schema, fk, due)))))"

text \<open>The four demands on it, with the words of prepare and of preflight for the first three.\<close>
definition require_healthy ::
    "string \<Rightarrow> (json \<Rightarrow> string) \<Rightarrow> (int \<Rightarrow> string) \<Rightarrow> dict \<times> json \<times> int \<times> json \<Rightarrow> ctl_exc + unit" where
  "require_healthy integrity_msg schema_msg fk_msg evidence =
     (case evidence of (integrity, schema, fk, due) \<Rightarrow>
      if dget integrity ''ok'' \<noteq> JBool True
        then Inl (ControllerError (integrity_msg @ py_str (dget integrity ''integrity'')))
      else if \<not> py_eq schema (JInt EXPECTED_SCHEMA) then Inl (ControllerError (schema_msg schema))
      else if fk \<noteq> 0 then Inl (ControllerError (fk_msg fk))
      else if \<not> py_eq due (JInt 0)
        then Inl (ControllerError (''DB has '' @ py_str due @ '' due active lease(s)''))
      else Inr ())"

definition create_backup :: "'w ctl_env \<Rightarrow> ('w, unit) ctl" where
  "create_backup env =
     cseq (io_step env ''makedirs backup'' id)
     (cbind (cread (\<lambda>s. os_fault (ce_db_copy env (cs_world s)))) (\<lambda>data.
      cseq (io_step env ''write backup'' (\<lambda>f. f\<lparr>cf_backup := Some ((new_file data)\<lparr>in_mode := 420\<rparr>)\<rparr>))
      (io_step env ''chmod backup'' (\<lambda>f. f\<lparr>cf_backup := Some (new_file data)\<rparr>))))"

text \<open>The part of prepare inside the \<open>try\<close>.\<close>
definition prepare_body :: "'w ctl_env \<Rightarrow> string \<Rightarrow> string \<Rightarrow> string \<Rightarrow> dict \<Rightarrow> dict \<Rightarrow> dict \<Rightarrow> ('w, dict) ctl" where
  "prepare_body env run_id unit_user unit_group hashes revisions config =
     cseq (create_run_dirs env unit_user unit_group)
     (cbind (cread (\<lambda>s. file_identity env (cs_world s) PRODUCTION_CLI)) (\<lambda>cli.
      cbind (cread (\<lambda>s. file_identity env (cs_world s) PRODUCTION_DB)) (\<lambda>db.
      cbind (collect_launcher_files env) (\<lambda>launcher.
      cbind (db_evidence env) (\<lambda>evidence.
      cseq (clift (require_healthy ''DB integrity check failed: ''
          (\<lambda>v. ''DB schema '' @ py_str v @ '', expected 13'') (\<lambda>n. ''DB has '' @ show_int n @ '' FK violations'') evidence))
      (cbind (canonical_projection_snapshot env) (\<lambda>projection.
       cseq (create_backup env)
       (cbind (cread (backup_identity env run_id)) (\<lambda>backup.
        cseq (crefuse (dget backup ''mode'' \<noteq> JInt MODE_0600) ''backup mode is not 0600'')
        (cbind (build_controller_manifest env run_id hashes revisions cli db config unit_user unit_group launcher backup
            projection) (\<lambda>manifest.
         cseq (write_manifest env manifest)
         (cseq (case evidence of (integrity, schema, fk, due) \<Rightarrow>
            write_evidence env ''baseline.json'' (JObj
              [(''db_integrity'', JObj integrity), (''schema_version'', schema), (''fk_violations'', JInt fk),
               (''due_active_leases'', due), (''installed_hashes'', JObj hashes), (''revisions'', JObj revisions),
               (''canonical_projection_sha256'', JStr projection)]))
         (cseq (write_phase env ''sealed'' False)
         (cseq (cbind (cread (\<lambda>s. Inr (case cf_manifest (cs_files s) of None \<Rightarrow> [] | Some i \<Rightarrow> ce_sha env (in_data i))))
            (\<lambda>digest. append_ledger env (JStr ''sealed'') ''prepare.completed'' [(''manifest_sha'', JStr digest)]))
         (creturn [(''status'', JStr ''sealed''), (''run_id'', JStr run_id), (''state_root'', JStr (state_root run_id))])))))))))))))))"

definition cmd_prepare :: "'w ctl_env \<Rightarrow> string \<Rightarrow> string \<Rightarrow> string \<Rightarrow> ('w, dict) ctl" where
  "cmd_prepare env run_id unit_user unit_group =
     cseq (clift (validate_prepare_args run_id unit_user unit_group))
     (cbind (cread (\<lambda>s. Inr (cf_root (cs_files s)))) (\<lambda>present.
      cseq (crefuse present (''run root already exists: '' @ state_root run_id))
      (cbind (require_free_lock env) (\<lambda>lock_before.
       cbind (collect_installed_hashes env) (\<lambda>hashes.
       cbind (collect_revisions env) (\<lambda>revisions.
       cbind (validate_config_contract env) (\<lambda>config.
       cbind (collect_installed_hashes env) (\<lambda>hashes2.
       cbind (collect_revisions env) (\<lambda>revisions2.
       cbind (require_free_lock env) (\<lambda>lock_after.
       cseq (crefuse (\<not> py_eq (JObj hashes2) (JObj hashes)) ''installed source hashes changed during prepare gate'')
       (cseq (crefuse (\<not> py_eq (JObj revisions2) (JObj revisions)) ''deployed revisions changed during prepare gate'')
       (cseq (crefuse (\<not> py_eq (JObj lock_after) (JObj lock_before))
          ''production mutation lock changed during prepare gate'')
       (ccatch (prepare_body env run_id unit_user unit_group hashes revisions config)
         (\<lambda>e. cseq (ccatch (write_forensic_failure env ''prepare-failed'') (\<lambda>_. creturn ())) (craise e)))))))))))))))"

section \<open>Preflight\<close>

text \<open>Whether what is installed is what was sealed.\<close>
definition check_drift :: "'w ctl_env \<Rightarrow> dict \<Rightarrow> ('w, unit) ctl" where
  "check_drift env manifest =
     cbind (collect_installed_hashes env) (\<lambda>hashes.
     cseq (crefuse (\<not> py_eq (JObj hashes) (dget manifest ''installed_hashes'')) ''installed source hash drift'')
     (cbind (collect_revisions env) (\<lambda>revisions.
      cseq (crefuse (\<not> py_eq (JObj revisions) (dget manifest ''installed_revisions'')) ''deployed revision drift'')
      (cbind (collect_launcher_files env) (\<lambda>launcher.
       cbind (clift (get_dict manifest ''production_launcher_identity'')) (\<lambda>sealed.
       cseq (crefuse (\<not> py_eq (JObj launcher) (dget sealed ''files'')) ''production launcher file identity drift'')
       (cbind (cread (\<lambda>s. file_identity env (cs_world s) PRODUCTION_CLI)) (\<lambda>cli.
        cseq (crefuse (\<not> py_eq (JObj cli) (dget sealed ''cli_file'')) ''Coordinate CLI identity drift'')
        (cbind (cread (\<lambda>s. file_identity env (cs_world s) PRODUCTION_DB)) (\<lambda>db.
         cseq (crefuse (\<not> py_eq (JObj db) (dget sealed ''db_file'')) ''Coordinate DB identity drift'')
         (cbind (validate_config_contract env) (\<lambda>config.
          cseq (crefuse (\<not> py_eq (JObj config) (dget manifest ''config_hashes'')) ''sealed config hash drift'')
          (crefuse (\<not> py_eq agent_ids (dget manifest ''helper_allowlist'')) ''sealed helper allowlist drift'')))))))))))))"

definition check_backup :: "'w ctl_env \<Rightarrow> string \<Rightarrow> dict \<Rightarrow> ('w, string) ctl" where
  "check_backup env run_id manifest =
     cread (\<lambda>s.
       ebind (own_single_link env (cs_world s) (backup_path run_id) (cf_backup (cs_files s))) (\<lambda>i.
       ebind (validate_owner_mode (backup_path run_id) i 0 0 MODE_0600) (\<lambda>_.
       ebind (backup_identity env run_id s) (\<lambda>d.
       if \<not> py_eq (JObj d) (dget manifest ''backup_identity'')
         then Inl (ControllerError ''backup identity/hash drift'')
       else Inr (ce_sha env (in_data i))))))"

definition preflight :: "'w ctl_env \<Rightarrow> string \<Rightarrow> string option \<Rightarrow> ('w, dict) ctl" where
  "preflight env run_id owned_token =
     cseq (clift (validate_run_id run_id))
     (cbind current_phase (\<lambda>phase.
      cseq (crefuse (phase \<noteq> JStr ''sealed'') (''preflight requires phase=sealed, got '' @ py_str phase))
      (cseq (validate_ledger_chain env)
      (cbind phase_tail_agree (\<lambda>agree.
       cseq (crefuse (\<not> agree) ''ledger/phase tail mismatch'')
       (cbind (read_manifest env run_id) (\<lambda>(manifest, actual_sha).
        cseq (case owned_token of
            None \<Rightarrow> cseq (require_free_lock env) (creturn ())
          | Some t \<Rightarrow> cseq (require_owned_lock env run_id (Some t)) (creturn ()))
        (cseq (check_drift env manifest)
        (cbind (db_evidence env) (\<lambda>evidence.
         cseq (clift (require_healthy ''DB integrity lost: '' (\<lambda>v. ''DB schema changed: '' @ py_str v)
           (\<lambda>n. ''DB foreign-key violations changed: '' @ show_int n) evidence))
         (cbind (canonical_projection_snapshot env) (\<lambda>projection.
          cseq (crefuse (\<not> py_eq (JStr projection) (dget manifest ''canonical_projection_sha256'')) ''canonical projection drift'')
          (cbind (check_backup env run_id manifest) (\<lambda>backup_sha.
           case evidence of (integrity, schema, fk, due) \<Rightarrow>
           creturn
             [(''status'', JStr ''preflight_passed''), (''run_id'', JStr run_id), (''phase'', phase),
              (''manifest_sha'', JStr actual_sha), (''db_integrity'', JObj integrity), (''schema_version'', schema),
              (''fk_violations'', JInt fk), (''due_active_leases'', due),
              (''canonical_projection_sha256'', JStr projection), (''backup_sha'', JStr backup_sha),
              (''installed_hashes'', if has_key manifest ''installed_hashes'' then dget manifest ''installed_hashes'' else JObj []),
              (''installed_revisions'',
                 if has_key manifest ''installed_revisions'' then dget manifest ''installed_revisions'' else JObj []),
              (''lock_mode'', JStr (if owned_token = None then ''free'' else ''owned''))]))))))))))))))"

definition cmd_preflight :: "'w ctl_env \<Rightarrow> string \<Rightarrow> ('w, dict) ctl" where
  "cmd_preflight env run_id = preflight env run_id None"

section \<open>Status\<close>

definition cmd_status :: "'w ctl_env \<Rightarrow> string \<Rightarrow> ('w, dict) ctl" where
  "cmd_status env run_id =
     cseq (clift (validate_run_id run_id))
     (cbind current_phase (\<lambda>phase.
      cseq (crefuse (phase = JNull) (''run '' @ run_id @ '' not prepared (no phase file)''))
      (cseq (validate_ledger_chain env)
      (cbind read_ledger (\<lambda>records.
       cbind phase_tail_agree (\<lambda>agree.
       cseq (crefuse (\<not> agree) ''ledger/phase tail mismatch'')
       (cbind (lock_status env None) (\<lambda>lock.
        cbind (clift (if records = [] then Inr (JNull, JNull)
           else ebind (as_dict (last records)) (\<lambda>tail.
                ebind (dict_item tail ''event'') (\<lambda>event.
                ebind (dict_item tail ''record_sha256'') (\<lambda>sha. Inr (event, sha)))))) (\<lambda>(event, sha).
        cread (\<lambda>s. Inr
          [(''run_id'', JStr run_id), (''phase'', phase), (''ledger_records'', JInt (int (length records))),
           (''tail_event'', event), (''tail_sha'', sha), (''lock'', JObj lock),
           (''token_file_present'', JBool (cf_token (cs_files s) \<noteq> None))]))))))))))"

section \<open>The authorization\<close>

definition parse_authorization_expiry :: "'w ctl_env \<Rightarrow> json \<Rightarrow> ctl_exc + utc_time" where
  "parse_authorization_expiry env value =
     (case value of
        JStr s \<Rightarrow>
          if \<not> endswith s ''Z'' then Inl (ControllerError ''authorization expiry_utc must be canonical UTC Z'')
          else
            (case ce_fromiso env (butlast s @ ''+00:00'') of
               IsoInvalid \<Rightarrow> Inl (ControllerError ''authorization expiry_utc is invalid'')
             | IsoNaive _ \<Rightarrow> Inl (ControllerError ''authorization expiry_utc is not canonical'')
             | IsoAware t \<Rightarrow>
                 if iso_z t \<noteq> s then Inl (ControllerError ''authorization expiry_utc is not canonical'')
                 else Inr t)
      | _ \<Rightarrow> Inl (ControllerError ''authorization expiry_utc must be canonical UTC Z''))"

definition nonce_shape :: "string \<Rightarrow> bool" where
  "nonce_shape s =
     (16 \<le> length s \<and> length s \<le> 128 \<and> (is_ascii_letter (hd s) \<or> is_digit (hd s))
      \<and> list_all (\<lambda>c. is_ascii_letter c \<or> is_digit c \<or> c \<in> set ''._:-'') s)"

text \<open>The checks on the file alone.\<close>
definition check_authorization_file ::
    "'w ctl_env \<Rightarrow> string \<Rightarrow> string \<Rightarrow> string \<Rightarrow> 'w ctl_state \<Rightarrow> ctl_exc + dict" where
  "check_authorization_file env run_id file sha s =
     (if \<not> is_hex64 sha then Inl (ControllerError ''authorization SHA must be 64-char lowercase hex'')
      else
        ebind (validate_single_link env (cs_world s) file) (\<lambda>(canonical, i).
        if real_or_same env (cs_world s) canonical = real_or_same env (cs_world s) (auth_path run_id)
          then Inl (ControllerError ''authorization source cannot be live-authorization destination'')
        else
          ebind (validate_owner_mode canonical i 0 0 MODE_0600) (\<lambda>_.
          let raw = in_data i; actual = ce_sha env raw in
          if actual \<noteq> sha
            then Inl (ControllerError (''authorization SHA mismatch: '' @ actual @ '' != '' @ sha))
          else
            ebind (parse_object env raw ''authorization is not JSON: '' ''authorization keys mismatch'') (\<lambda>auth.
            if \<not> keys_are auth AUTH_EXACT_KEYS then Inl (ControllerError ''authorization keys mismatch'')
            else if raw \<noteq> manifest_bytes auth
              then Inl (ControllerError ''authorization bytes are not canonical JSON'')
            else if \<not> py_eq (dget auth ''contract_version'') (JInt AUTH_CONTRACT_VERSION)
              then Inl (ControllerError ''authorization contract_version mismatch'')
            else if dget auth ''run_id'' \<noteq> JStr run_id
              then Inl (ControllerError ''authorization run_id mismatch'')
            else Inr auth))))"

definition sha_field :: "dict \<Rightarrow> string \<Rightarrow> ctl_exc + unit" where
  "sha_field auth k =
     (case dget auth k of
        JStr s \<Rightarrow> if is_hex64 s then Inr () else Inl (ControllerError (''authorization '' @ k @ '' is malformed''))
      | _ \<Rightarrow> Inl (ControllerError (''authorization '' @ k @ '' is malformed'')))"

definition check_authorization_terms :: "dict \<Rightarrow> ctl_exc + unit" where
  "check_authorization_terms auth =
     ebind (sha_field auth ''p3_bootstrap_sha256'') (\<lambda>_.
     ebind (sha_field auth ''review_artifact_sha256'') (\<lambda>_.
     if dget auth ''reviewer_verdict'' \<noteq> JStr ''APPROVE''
       then Inl (ControllerError ''authorization reviewer verdict is not APPROVE'')
     else if \<not> py_eq (dget auth ''budgets'') (JObj AUTH_EXACT_BUDGETS)
       then Inl (ControllerError ''authorization budgets mismatch'')
     else
       (case dget auth ''nonce'' of
          JStr n \<Rightarrow> if nonce_shape n then Inr () else Inl (ControllerError ''authorization nonce is malformed'')
        | _ \<Rightarrow> Inl (ControllerError ''authorization nonce is malformed''))))"

definition validate_authorization :: "'w ctl_env \<Rightarrow> string \<Rightarrow> string \<Rightarrow> string \<Rightarrow> ('w, dict) ctl" where
  "validate_authorization env run_id file sha =
     cbind (cread (check_authorization_file env run_id file sha)) (\<lambda>auth.
     cbind (read_manifest env run_id) (\<lambda>(manifest, manifest_sha).
     cseq (crefuse (dget auth ''manifest_sha256'' \<noteq> JStr manifest_sha) ''authorization manifest SHA mismatch'')
     (cseq (crefuse (\<not> py_eq (dget auth ''installed_revisions'') (dget manifest ''installed_revisions''))
        ''authorization installed revisions mismatch'')
     (cseq (crefuse (\<not> py_eq (dget auth ''installed_hashes'') (dget manifest ''installed_hashes''))
        ''authorization installed hashes mismatch'')
     (cbind (collect_installed_hashes env) (\<lambda>hashes.
      cseq (crefuse (\<not> py_eq (dget auth ''installed_hashes'') (JObj hashes)) ''authorization live installed hashes mismatch'')
      (cbind (collect_revisions env) (\<lambda>revisions.
       cseq (crefuse (\<not> py_eq (dget auth ''installed_revisions'') (JObj revisions))
         ''authorization live installed revisions mismatch'')
       (cseq (clift (check_authorization_terms auth))
       (cbind (clift (parse_authorization_expiry env (dget auth ''expiry_utc''))) (\<lambda>expiry.
        cbind (now env) (\<lambda>t.
        cseq (crefuse (utc_instant expiry \<le> utc_instant t) ''authorization expired'')
        (creturn auth)))))))))))))"

text \<open>\<open>_require_live_authorization\<close>, before every phase.\<close>
definition require_live_authorization :: "'w ctl_env \<Rightarrow> string \<Rightarrow> dict \<Rightarrow> ('w, unit) ctl" where
  "require_live_authorization env run_id expected =
     cbind (cread (\<lambda>s.
       ebind (own_single_link env (cs_world s) (auth_path run_id) (cf_auth (cs_files s))) (\<lambda>i.
       ebind (validate_owner_mode (auth_path run_id) i 0 0 MODE_0600) (\<lambda>_.
       if in_data i \<noteq> manifest_bytes expected
         then Inl (ControllerError ''live authorization bytes changed during run'')
       else if dget expected ''run_id'' \<noteq> JStr run_id \<or> \<not> py_eq (dget expected ''budgets'') (JObj AUTH_EXACT_BUDGETS)
         then Inl (ControllerError ''live authorization authority mismatch during run'')
       else parse_authorization_expiry env (dget expected ''expiry_utc''))))) (\<lambda>expiry.
     cbind (now env) (\<lambda>t.
     crefuse (utc_instant expiry \<le> utc_instant t) ''live authorization expired during run''))"

end
