(* ===== verification/ControllerMatrix.thy ===== *)
theory ControllerMatrix
  imports ControllerCommands
begin

text \<open>
  \<open>scripts/p9_3c1_controller.py\<close>, the five-job matrix: snapshots of the exact jobs, the loops that wait
  for a state of them, the run of the matrix and its verification. Times of the monotonic clock are in
  microseconds.
\<close>

section \<open>Snapshots\<close>

record snapshot =
  sn_jobs :: "(string \<times> dict) list"
  sn_leases :: "(string \<times> dict list) list"
  sn_deliveries :: "(string \<times> dict list) list"

definition rows_for :: "(string \<times> dict list) list \<Rightarrow> string \<Rightarrow> dict list" where
  "rows_for table label = (case map_of table label of None \<Rightarrow> [] | Some rows \<Rightarrow> rows)"

definition job_of :: "snapshot \<Rightarrow> string \<Rightarrow> dict" where
  "job_of sn label = (case map_of (sn_jobs sn) label of None \<Rightarrow> [] | Some row \<Rightarrow> row)"

definition placeholders :: "'a list \<Rightarrow> string" where
  "placeholders xs = join_with '','' (map (\<lambda>_. ''?'') xs)"

definition jobs_sql :: "json list \<Rightarrow> string" where
  "jobs_sql ids = ''SELECT id, assigned_agent, status, attempt_count, recoverable, ''
     @ ''worktree_path, result_json FROM jobs WHERE id IN ('' @ placeholders ids @ '') ORDER BY id''"

definition leases_sql :: "json list \<Rightarrow> string" where
  "leases_sql ids = ''SELECT lease_id, job_id, attempt_token, agent_id, resource_key, normalized_path, ''
     @ ''status, acquired_at, renewed_at, expires_at, released_at, release_reason ''
     @ ''FROM execution_attempt_leases WHERE job_id IN ('' @ placeholders ids @ '') ''
     @ ''ORDER BY job_id, attempt_token''"

definition events_sql :: string where
  "events_sql = ''SELECT id, payload_json FROM events WHERE workspace_id = ? ORDER BY created_at, id''"

definition deliveries_sql :: "json list \<Rightarrow> string" where
  "deliveries_sql ids = ''SELECT id, event_id, platform, destination, message_key, status, ''
     @ ''platform_message_id, attempt_count FROM deliveries WHERE event_id IN ('' @ placeholders ids @ '') ORDER BY id''"

text \<open>The job of an event, if it is one of the matrix.\<close>
definition event_entry :: "json list \<Rightarrow> (json \<times> json) list \<Rightarrow> dict \<Rightarrow> ctl_exc + (json \<times> json) list" where
  "event_entry ids acc row =
     (case dget row ''payload_json'' of
        JStr text \<Rightarrow>
          (case json_parse text of
             None \<Rightarrow> Inl (ControllerError ''matrix event payload is invalid JSON'')
           | Some (JObj payload) \<Rightarrow>
               if has_key payload ''job_id'' \<and> list_ex (py_eq (dget payload ''job_id'')) ids
                 then ebind (dict_item row ''id'') (\<lambda>i. Inr (alist_set acc i (dget payload ''job_id'')))
               else Inr acc
           | Some _ \<Rightarrow> Inr acc)
      | _ \<Rightarrow> Inl (ControllerError ''matrix event payload is invalid JSON''))"

text \<open>\<open>labels_by_id[row[key]]\<close>\<close>
definition label_of :: "dict \<Rightarrow> json \<Rightarrow> ctl_exc + string" where
  "label_of job_ids i =
     (case find (\<lambda>(label, j). py_eq j i) (rev job_ids) of
        None \<Rightarrow> Inl (OtherExc ''KeyError'')
      | Some (label, _) \<Rightarrow> Inr label)"

definition job_entry :: "dict \<Rightarrow> (string \<times> dict) list \<Rightarrow> dict \<Rightarrow> ctl_exc + (string \<times> dict) list" where
  "job_entry job_ids acc row =
     ebind (dict_item row ''id'') (\<lambda>i. ebind (label_of job_ids i) (\<lambda>label. Inr (alist_set acc label row)))"

definition replace_z :: "string \<Rightarrow> string" where
  "replace_z s = concat (map (\<lambda>c. if c = CHR ''Z'' then ''+00:00'' else [c]) s)"

text \<open>Whether an active lease is due. A naive time cannot be compared with the clock.\<close>
definition lease_due :: "'w ctl_env \<Rightarrow> utc_time \<Rightarrow> dict \<Rightarrow> ctl_exc + bool" where
  "lease_due env t row =
     (case dget row ''expires_at'' of
        JStr s \<Rightarrow>
          (case ce_fromiso env (replace_z s) of
             IsoInvalid \<Rightarrow> Inl (ControllerError ''matrix lease expiry is invalid'')
           | IsoNaive _ \<Rightarrow> if dget row ''status'' = JStr ''active'' then Inl (OtherExc ''TypeError'') else Inr False
           | IsoAware e \<Rightarrow> Inr (dget row ''status'' = JStr ''active'' \<and> utc_instant e \<le> utc_instant t))
      | _ \<Rightarrow> Inl (ControllerError ''matrix lease expiry is invalid''))"

definition add_row :: "(string \<times> dict list) list \<Rightarrow> string \<Rightarrow> dict \<Rightarrow> (string \<times> dict list) list" where
  "add_row table label row = alist_set table label (rows_for table label @ [row])"

definition lease_entry ::
    "'w ctl_env \<Rightarrow> dict \<Rightarrow> utc_time \<Rightarrow> (string \<times> dict list) list \<Rightarrow> dict \<Rightarrow> ctl_exc + (string \<times> dict list) list" where
  "lease_entry env job_ids t acc row =
     ebind (lease_due env t row) (\<lambda>due.
     ebind (dict_item row ''job_id'') (\<lambda>i.
     ebind (label_of job_ids i) (\<lambda>label. Inr (add_row acc label (alist_set row ''due'' (JBool due))))))"

definition delivery_entry ::
    "dict \<Rightarrow> (json \<times> json) list \<Rightarrow> (string \<times> dict list) list \<Rightarrow> dict \<Rightarrow> ctl_exc + (string \<times> dict list) list" where
  "delivery_entry job_ids event_job acc row =
     ebind (dict_item row ''event_id'') (\<lambda>e.
     case map_of event_job e of
       None \<Rightarrow> Inl (OtherExc ''KeyError'')
     | Some i \<Rightarrow> ebind (label_of job_ids i) (\<lambda>label. Inr (add_row acc label row)))"

definition matrix_snapshot :: "'w ctl_env \<Rightarrow> dict \<Rightarrow> ('w, snapshot) ctl" where
  "matrix_snapshot env job_ids =
     (if job_ids = [] then creturn \<lparr>sn_jobs = [], sn_leases = [], sn_deliveries = []\<rparr>
      else
        let ids = map snd job_ids; empty = map (\<lambda>(label, _). (label, [])) job_ids in
        cbind (evidence_query env (jobs_sql ids) ids) (\<lambda>jobs.
        cbind (evidence_query env (leases_sql ids) ids) (\<lambda>leases.
        cbind (evidence_query env events_sql [JStr ''p9-3c1-production'']) (\<lambda>events.
        cbind (clift (efoldM (event_entry ids) [] events)) (\<lambda>event_job.
        cbind (if event_job = [] then creturn []
               else evidence_query env (deliveries_sql (map fst event_job)) (map fst event_job)) (\<lambda>deliveries.
        cbind (now env) (\<lambda>t.
        cbind (clift (efoldM (job_entry job_ids) [] jobs)) (\<lambda>by_label.
        cbind (clift (efoldM (lease_entry env job_ids t) empty leases)) (\<lambda>lease_table.
        cbind (clift (efoldM (delivery_entry job_ids event_job) empty deliveries)) (\<lambda>delivery_table.
        creturn \<lparr>sn_jobs = by_label, sn_leases = lease_table, sn_deliveries = delivery_table\<rparr>))))))))))"

section \<open>Waiting\<close>

definition MATRIX_WAIT :: int where "MATRIX_WAIT = 240000000"

text \<open>
  The loop of \<open>_wait_matrix\<close>. A predicate may keep something from one poll to the next; it gives its
  verdict and what it keeps, or raises. The number is the fuel.
\<close>
fun wait_polls ::
    "'w ctl_env \<Rightarrow> dict \<Rightarrow> string \<Rightarrow> ('p \<Rightarrow> snapshot \<Rightarrow> ctl_exc + bool \<times> 'p) \<Rightarrow> int \<Rightarrow> nat \<Rightarrow> 'p \<Rightarrow> ('w, snapshot \<times> 'p) ctl" where
  "wait_polls env job_ids description pred start 0 p = cdiverge"
| "wait_polls env job_ids description pred start (Suc n) p =
     cbind (matrix_snapshot env job_ids) (\<lambda>sn.
     cbind (clift (pred p sn)) (\<lambda>(ok, p').
     if ok then creturn (sn, p')
     else
       cbind (cworld (ce_monotonic env)) (\<lambda>t.
       cseq (crefuse (MATRIX_WAIT \<le> t - start) (''matrix wait timed out: '' @ description))
       (cseq (cworld (\<lambda>w. ((), ce_sleep env 500000 w)))
       (wait_polls env job_ids description pred start n p')))))"

definition wait_matrix ::
    "'w ctl_env \<Rightarrow> dict \<Rightarrow> string \<Rightarrow> ('p \<Rightarrow> snapshot \<Rightarrow> ctl_exc + bool \<times> 'p) \<Rightarrow> 'p \<Rightarrow> ('w, snapshot \<times> 'p) ctl" where
  "wait_matrix env job_ids description pred p =
     cbind (cworld (ce_monotonic env)) (\<lambda>start. wait_polls env job_ids description pred start (ce_polls env) p)"

text \<open>A predicate that keeps nothing.\<close>
definition plain_pred :: "(snapshot \<Rightarrow> ctl_exc + bool) \<Rightarrow> unit \<Rightarrow> snapshot \<Rightarrow> ctl_exc + bool \<times> unit" where
  "plain_pred pred p sn = ebind (pred sn) (\<lambda>ok. Inr (ok, ()))"

definition lease_for_attempt :: "snapshot \<Rightarrow> string \<Rightarrow> json \<Rightarrow> ctl_exc + dict option" where
  "lease_for_attempt sn label attempt =
     (case filter (\<lambda>row. py_eq (dget row ''attempt_token'') attempt) (rows_for (sn_leases sn) label) of
        [] \<Rightarrow> Inr None
      | [row] \<Rightarrow> Inr (Some row)
      | _ \<Rightarrow> Inl (ControllerError (''matrix '' @ label @ '' has duplicate lease authority for attempt '' @ py_str attempt)))"

text \<open>A new renewal time is kept, and must be later than the last one.\<close>
definition note_renewal :: "string \<Rightarrow> string list \<Rightarrow> json \<Rightarrow> ctl_exc + string list" where
  "note_renewal label renewed value =
     (case value of
        JStr v \<Rightarrow>
          if renewed = [] then Inr [v]
          else if v = last renewed then Inr renewed
          else if v \<le> last renewed
            then Inl (ControllerError (''matrix '' @ label @ '' renewal time is not monotonic''))
          else Inr (renewed @ [v])
      | _ \<Rightarrow> Inl (ControllerError (''matrix '' @ label @ '' renewal authority missing'')))"

definition agent_mismatch :: "string \<Rightarrow> ctl_exc + 'a" where
  "agent_mismatch label = Inl (ControllerError (''matrix '' @ label @ '' agent authority mismatch''))"

definition terminal_pred :: "string \<Rightarrow> string \<Rightarrow> string list \<Rightarrow> snapshot \<Rightarrow> ctl_exc + bool \<times> string list" where
  "terminal_pred label agent_id renewed sn =
     (case map_of (sn_jobs sn) label of
        None \<Rightarrow> Inr (False, renewed)
      | Some job \<Rightarrow>
          if dget job ''assigned_agent'' \<noteq> JStr agent_id then agent_mismatch label
          else case dget job ''attempt_count'' of
              JInt attempt \<Rightarrow>
                if attempt < 1 then Inr (False, renewed)
                else
                  ebind (lease_for_attempt sn label (JInt attempt)) (\<lambda>found.
                  case found of
                    None \<Rightarrow> Inr (False, renewed)
                  | Some lease \<Rightarrow>
                      ebind (note_renewal label renewed (dget lease ''renewed_at'')) (\<lambda>renewed'.
                      ebind (in_strings (dget job ''status'') [''failed'', ''timed_out'', ''cancelled'']) (\<lambda>dead.
                      if dead
                        then Inl (ControllerError (''matrix '' @ label @ '' terminated as '' @ py_str (dget job ''status'')))
                      else Inr (dget job ''status'' = JStr ''done'' \<and> dget lease ''status'' = JStr ''released''
                                \<and> 3 \<le> length renewed', renewed'))))
            | _ \<Rightarrow> Inr (False, renewed))"

definition wait_terminal_with_renewals ::
    "'w ctl_env \<Rightarrow> dict \<Rightarrow> string \<Rightarrow> string \<Rightarrow> ('w, snapshot \<times> string list) ctl" where
  "wait_terminal_with_renewals env job_ids label agent_id =
     wait_matrix env job_ids (label @ '' terminal with two renewals'') (terminal_pred label agent_id) []"

definition running_pred :: "string \<Rightarrow> string \<Rightarrow> string list \<Rightarrow> snapshot \<Rightarrow> ctl_exc + bool \<times> string list" where
  "running_pred label agent_id renewed sn =
     (let job = job_of sn label in
      if dget job ''status'' \<noteq> JStr ''running'' then Inr (False, renewed)
      else if dget job ''assigned_agent'' \<noteq> JStr agent_id then agent_mismatch label
      else
        ebind (lease_for_attempt sn label (dget job ''attempt_count'')) (\<lambda>found.
        case found of
          None \<Rightarrow> Inr (False, renewed)
        | Some lease \<Rightarrow>
            if dget lease ''status'' \<noteq> JStr ''active'' then Inr (False, renewed)
            else
              ebind (note_renewal label renewed (dget lease ''renewed_at'')) (\<lambda>renewed'.
              Inr (3 \<le> length renewed', renewed'))))"

text \<open>The assertion that the lease is there cannot fail.\<close>
definition wait_running_with_renewals ::
    "'w ctl_env \<Rightarrow> dict \<Rightarrow> string \<Rightarrow> string \<Rightarrow> ('w, dict \<times> string list) ctl" where
  "wait_running_with_renewals env job_ids label agent_id =
     cbind (wait_matrix env job_ids (label @ '' running with two renewals'') (running_pred label agent_id) []) (\<lambda>(sn, renewed).
     cbind (clift (ebind (dict_item (job_of sn label) ''attempt_count'') (lease_for_attempt sn label))) (\<lambda>found.
     case found of
       None \<Rightarrow> craise (OtherExc ''AssertionError'')
     | Some lease \<Rightarrow> creturn (lease, renewed)))"

text \<open>\<open>{key: row.get(key) for key in keys}\<close>\<close>
definition pick :: "string list \<Rightarrow> dict \<Rightarrow> json" where
  "pick ks d = JObj (map (\<lambda>k. (k, dget d k)) ks)"

definition stale_authority_fingerprint :: "snapshot \<Rightarrow> string \<Rightarrow> json" where
  "stale_authority_fingerprint sn label =
     JObj [(''job'', pick [''id'', ''status'', ''attempt_count'', ''recoverable'', ''result_json''] (job_of sn label)),
       (''leases'', JList (map (pick [''lease_id'', ''attempt_token'', ''agent_id'', ''resource_key'', ''status''])
          (rows_for (sn_leases sn) label))),
       (''deliveries'', JList (map (pick [''id'', ''platform'', ''destination'', ''status''])
          (rows_for (sn_deliveries sn) label)))]"

definition overlap_pred :: "json \<Rightarrow> snapshot \<Rightarrow> ctl_exc + bool" where
  "overlap_pred old_attempt sn =
     ebind (lease_for_attempt sn ''J3'' old_attempt) (\<lambda>l3.
     ebind (lease_for_attempt sn ''J4''
       (if has_key (job_of sn ''J4'') ''attempt_count'' then dget (job_of sn ''J4'') ''attempt_count'' else JInt (-1))) (\<lambda>l4.
     Inr (dget (job_of sn ''J3'') ''status'' = JStr ''running'' \<and> dget (job_of sn ''J4'') ''status'' = JStr ''running''
       \<and> (case (l3, l4) of
            (Some a, Some b) \<Rightarrow> dget a ''status'' = JStr ''active'' \<and> dget b ''status'' = JStr ''active''
              \<and> \<not> py_eq (dget a ''resource_key'') (dget b ''resource_key'')
          | _ \<Rightarrow> False))))"

definition old_due_pred :: "json \<Rightarrow> json \<Rightarrow> snapshot \<Rightarrow> ctl_exc + bool" where
  "old_due_pred old_attempt old_lease_id sn =
     ebind (lease_for_attempt sn ''J3'' old_attempt) (\<lambda>found.
     Inr (case found of
            None \<Rightarrow> False
          | Some lease \<Rightarrow> py_eq (dget lease ''lease_id'') old_lease_id \<and> dget lease ''due'' = JBool True))"

definition reaped_pred :: "json \<Rightarrow> snapshot \<Rightarrow> ctl_exc + bool" where
  "reaped_pred old_attempt sn =
     ebind (lease_for_attempt sn ''J3'' old_attempt) (\<lambda>found.
     let job = job_of sn ''J3'' in
     Inr (dget job ''status'' = JStr ''timed_out'' \<and> py_eq (dget job ''recoverable'') (JInt 1)
       \<and> py_eq (dget job ''attempt_count'') old_attempt
       \<and> (case found of None \<Rightarrow> False | Some lease \<Rightarrow> dget lease ''status'' = JStr ''expired'')))"

definition recovered_pred :: "json \<Rightarrow> int \<Rightarrow> json \<Rightarrow> json \<Rightarrow> snapshot \<Rightarrow> ctl_exc + bool" where
  "recovered_pred j3_id new_attempt old_lease_id old_key sn =
     ebind (lease_for_attempt sn ''J3'' (JInt new_attempt)) (\<lambda>found.
     let job = job_of sn ''J3'' in
     Inr (py_eq (dget job ''id'') j3_id \<and> dget job ''status'' = JStr ''running''
       \<and> py_eq (dget job ''attempt_count'') (JInt new_attempt)
       \<and> (case found of
            None \<Rightarrow> False
          | Some lease \<Rightarrow> dget lease ''status'' = JStr ''active'' \<and> \<not> py_eq (dget lease ''lease_id'') old_lease_id
              \<and> py_eq (dget lease ''resource_key'') old_key)))"

end
