(* ===== verification/ControllerMatrixRun.thy ===== *)
theory ControllerMatrixRun
  imports ControllerMatrix
begin

text \<open>
  \<open>scripts/p9_3c1_controller.py\<close>: \<open>_run_five_job_matrix\<close> with its local helpers, and \<open>_verify_job_matrix\<close>.
  The local variables of the run are a record that the helpers hand on.
\<close>

section \<open>The production helper\<close>

definition HELPER_COMMANDS :: "string list" where
  "HELPER_COMMANDS =
     [''production-render'', ''production-preflight'', ''production-start'', ''production-status'', ''production-stop'',
      ''production-cleanup'']"

definition helper_argv :: "string \<Rightarrow> string \<Rightarrow> string \<Rightarrow> string list \<Rightarrow> string list" where
  "helper_argv run_id command manifest_sha args =
     [HELPER_PATH, command, ''--state-root'', state_root run_id, ''--run-id'', run_id, ''--controller-manifest'',
      manifest_path run_id, ''--controller-manifest-sha256'', manifest_sha]
     @ (if command \<in> {''production-preflight'', ''production-status''} then []
        else [''--lock-token-file'', lock_token_path run_id])
     @ args"

definition helper_cli :: "'w ctl_env \<Rightarrow> string \<Rightarrow> string \<Rightarrow> string list \<Rightarrow> ('w, dict) ctl" where
  "helper_cli env run_id command args =
     cseq (crefuse (command \<notin> set HELPER_COMMANDS) (''unapproved production helper command: '' @ command))
     (cbind (read_manifest env run_id) (\<lambda>(manifest, manifest_sha).
      cbind (run_command env (helper_argv run_id command manifest_sha args) [] 45 1048576) (\<lambda>answer.
      cbind (clift (json_answer env (''production helper '' @ command @ '' failed'')
        (''production helper '' @ command @ '' returned non-JSON'') (''production helper '' @ command @ '' returned non-object'')
        answer)) (\<lambda>payload.
      cseq (crefuse (dget manifest ''run_id'' \<noteq> JStr run_id) ''controller manifest run authority changed during helper call'')
      (creturn payload)))))"

section \<open>The matrix in progress\<close>

record unit_generation =
  ug_agent :: string
  ug_mode :: string
  ug_state :: string

record matrix =
  mx_jobs :: dict
  mx_renewals :: "(string \<times> string list) list"
  mx_units :: "unit_generation list"

definition E1 :: string where "E1 = ''p9-3c-fixture-e1''"
definition E2 :: string where "E2 = ''p9-3c-fixture-e2''"
definition run_suffix :: "string \<Rightarrow> string" where "run_suffix run_id = drop (length run_id - 8) run_id"
definition work_dir :: "string \<Rightarrow> string \<Rightarrow> string" where
  "work_dir run_id name = path_join (state_root run_id) (''runtime/work/'' @ name)"

definition MATRIX_LABELS :: "string list" where "MATRIX_LABELS = [''J1'', ''J2'', ''J3'', ''J4'', ''J5'']"
definition ANSWERED :: "string list" where "ANSWERED = [''J1'', ''J2'', ''J4'', ''J5'']"

definition matrix_envelope :: "string \<Rightarrow> bool \<Rightarrow> string" where
  "matrix_envelope mode spawn =
     canonical_json (JObj [(''contract_version'', JInt 1), (''mode'', JStr mode), (''quiet_seconds'', JInt 75),
       (''spawn_descendant'', JBool spawn)])"

definition MATRIX_COMPLETE_ENVELOPE :: string where "MATRIX_COMPLETE_ENVELOPE = matrix_envelope ''complete'' False"
definition MATRIX_HOLD_ENVELOPE :: string where "MATRIX_HOLD_ENVELOPE = matrix_envelope ''hold'' True"
definition MATRIX_REPLY :: json where
  "MATRIX_REPLY = JObj [(''destination'', JStr ''local''), (''platform'', JStr ''stdout'')]"

definition active_agents :: "matrix \<Rightarrow> string list" where
  "active_agents mx = remdups (map ug_agent (filter (\<lambda>u. ug_state u = ''active'') (mx_units mx)))"

definition matrix_helper :: "'w ctl_env \<Rightarrow> string \<Rightarrow> string \<Rightarrow> string \<Rightarrow> string list \<Rightarrow> ('w, dict) ctl" where
  "matrix_helper env run_id command agent extra = helper_cli env run_id command ([''--agent-id'', agent] @ extra)"

definition matrix_start :: "'w ctl_env \<Rightarrow> string \<Rightarrow> string \<Rightarrow> string \<Rightarrow> string list \<Rightarrow> matrix \<Rightarrow> ('w, matrix) ctl" where
  "matrix_start env run_id agent mode extra mx =
     cseq (crefuse (agent \<notin> set (active_agents mx) \<and> 2 \<le> length (active_agents mx)) ''matrix active-unit budget exceeded'')
     (cbind (matrix_helper env run_id ''production-start'' agent ([''--mode'', mode] @ extra)) (\<lambda>result.
      cseq (crefuse (dget result ''status'' \<noteq> JStr ''started'' \<or> dget result ''agent_id'' \<noteq> JStr agent
          \<or> dget result ''mode'' \<noteq> JStr mode) ''production-start response mismatch'')
      (creturn (mx\<lparr>mx_units := mx_units mx @ [\<lparr>ug_agent = agent, ug_mode = mode, ug_state = ''active''\<rparr>]\<rparr>))))"

text \<open>The last active row of the agent is marked.\<close>
fun mark_stopped :: "string \<Rightarrow> unit_generation list \<Rightarrow> unit_generation list" where
  "mark_stopped agent [] = []"
| "mark_stopped agent (u # us) =
     (if ug_agent u = agent \<and> ug_state u = ''active'' then u\<lparr>ug_state := ''stopped''\<rparr> # us else u # mark_stopped agent us)"

definition matrix_stop :: "'w ctl_env \<Rightarrow> string \<Rightarrow> string \<Rightarrow> bool \<Rightarrow> matrix \<Rightarrow> ('w, matrix) ctl" where
  "matrix_stop env run_id agent crash mx =
     cbind (matrix_helper env run_id ''production-stop'' agent (if crash then [''--crash''] else [])) (\<lambda>result.
     cseq (crefuse (dget result ''status'' \<noteq> JStr ''stopped''
         \<or> dget result ''termination'' \<noteq> JStr (if crash then ''crash'' else ''graceful'')) ''production-stop response mismatch'')
     (creturn (mx\<lparr>mx_units := rev (mark_stopped agent (rev (mx_units mx)))\<rparr>)))"

definition to_lower :: "string \<Rightarrow> string" where
  "to_lower s = map py_lower s"

definition submit_argv :: "string \<Rightarrow> string \<Rightarrow> string \<Rightarrow> string \<Rightarrow> string \<Rightarrow> string list" where
  "submit_argv run_id label agent worktree envelope =
     [''runtime'', ''request'', ''submit'', ''p9-3c1-production'', ''--target-agent'', agent, ''--worktree-path'', worktree,
      ''--prompt'', envelope, ''--origin-json'',
      canonical_json (JObj [(''contract_version'', JInt 1), (''matrix_job'', JStr label), (''run_id'', JStr run_id)]),
      ''--reply-json'', canonical_json MATRIX_REPLY, ''--actor'', ''p9-3c1-controller'', ''--idempotency-key'',
      ''p9-3c1-'' @ run_suffix run_id @ ''-'' @ to_lower label]"

definition submitted_job :: "string \<Rightarrow> string \<Rightarrow> string \<Rightarrow> dict \<Rightarrow> ctl_exc + string" where
  "submitted_job label agent worktree payload =
     ebind (result_object payload ''request submit result'') (\<lambda>result.
     ebind (require_object (dget result ''job'') ''submitted job'') (\<lambda>job.
     case dget job ''id'' of
       JStr job_id \<Rightarrow>
         if dget result ''job_created'' \<noteq> JBool True \<or> dget result ''event_created'' \<noteq> JBool True
            \<or> dget job ''assigned_agent'' \<noteq> JStr agent \<or> dget job ''worktree_path'' \<noteq> JStr worktree
           then Inl (ControllerError (''matrix '' @ label @ '' submit readback mismatch''))
         else Inr job_id
     | _ \<Rightarrow> Inl (ControllerError (''matrix '' @ label @ '' submit readback mismatch''))))"

definition matrix_submit ::
    "'w ctl_env \<Rightarrow> string \<Rightarrow> string \<Rightarrow> string \<Rightarrow> string \<Rightarrow> string \<Rightarrow> matrix \<Rightarrow> ('w, matrix) ctl" where
  "matrix_submit env run_id label agent worktree envelope mx =
     cseq (crefuse (has_key (mx_jobs mx) label \<or> 5 \<le> length (mx_jobs mx)) ''matrix request budget exceeded or duplicate label'')
     (cbind (run_coord env (submit_argv run_id label agent worktree envelope)) (\<lambda>payload.
      cbind (clift (submitted_job label agent worktree payload)) (\<lambda>job_id.
      cseq (append_ledger env (JStr ''executor-v2-enabled'') (''matrix.'' @ to_lower label @ ''.submitted'')
        [(''job_id'', JStr job_id)])
      (creturn (mx\<lparr>mx_jobs := mx_jobs mx @ [(label, JStr job_id)]\<rparr>)))))"

definition note_renewals :: "string \<Rightarrow> string list \<Rightarrow> matrix \<Rightarrow> matrix" where
  "note_renewals label renewed mx = mx\<lparr>mx_renewals := alist_set (mx_renewals mx) label renewed\<rparr>"

definition matrix_terminal :: "'w ctl_env \<Rightarrow> string \<Rightarrow> string \<Rightarrow> matrix \<Rightarrow> ('w, matrix) ctl" where
  "matrix_terminal env label agent mx =
     cbind (wait_terminal_with_renewals env (mx_jobs mx) label agent) (\<lambda>(_, renewed).
     creturn (note_renewals label renewed mx))"

section \<open>The run\<close>

text \<open>Render, preflight both units, start E1, J1 and J2 to their end, J3 running; the lease of J3.\<close>
definition matrix_preflight :: "'w ctl_env \<Rightarrow> string \<Rightarrow> string \<Rightarrow> ('w, unit) ctl" where
  "matrix_preflight env run_id agent =
     cbind (matrix_helper env run_id ''production-preflight'' agent []) (\<lambda>p.
     crefuse (dget p ''status'' \<noteq> JStr ''preflight_ok'' \<or> dget p ''agent_id'' \<noteq> JStr agent)
       ''production-preflight response mismatch'')"

definition matrix_opening :: "'w ctl_env \<Rightarrow> string \<Rightarrow> ('w, dict \<times> matrix) ctl" where
  "matrix_opening env run_id =
     cbind (helper_cli env run_id ''production-render'' []) (\<lambda>rendered.
     cseq (crefuse (dget rendered ''status'' \<noteq> JStr ''rendered'' \<or> dget rendered ''run_id'' \<noteq> JStr run_id)
       ''production-render response mismatch'')
     (cseq (cfor [E1, E2] (matrix_preflight env run_id))
     (cbind (matrix_start env run_id E1 ''complete'' [] \<lparr>mx_jobs = [], mx_renewals = [], mx_units = []\<rparr>) (\<lambda>mx.
      cbind (matrix_submit env run_id ''J1'' E1 (work_dir run_id ''e1'') MATRIX_COMPLETE_ENVELOPE mx) (\<lambda>mx.
      cbind (matrix_terminal env ''J1'' E1 mx) (\<lambda>mx.
      cbind (matrix_submit env run_id ''J2'' E1 (work_dir run_id ''e1'') MATRIX_COMPLETE_ENVELOPE mx) (\<lambda>mx.
      cbind (matrix_terminal env ''J2'' E1 mx) (\<lambda>mx.
      cbind (matrix_submit env run_id ''J3'' E1 (work_dir run_id ''e1'') MATRIX_HOLD_ENVELOPE mx) (\<lambda>mx.
      cbind (wait_running_with_renewals env (mx_jobs mx) ''J3'' E1) (\<lambda>(lease, renewed).
      creturn (lease, note_renewals ''J3'' renewed mx)))))))))))"

definition blocker_argv :: "string \<Rightarrow> string list" where
  "blocker_argv run_id =
     [''runtime'', ''job'', ''claim'', ''--agent-id'', E2, ''--reap-mode'', ''none'', ''--reap-reason'',
      ''p9-3c1-resource-probe-'' @ run_suffix run_id]"

text \<open>J4 runs beside J3, J5 is blocked by the resource of J3. The result is the probe's answer.\<close>
definition matrix_contention ::
    "'w ctl_env \<Rightarrow> string \<Rightarrow> dict \<Rightarrow> json \<Rightarrow> matrix \<Rightarrow> ('w, snapshot \<times> dict \<times> matrix) ctl" where
  "matrix_contention env run_id old_lease old_attempt mx =
     cbind (matrix_submit env run_id ''J4'' E2 (work_dir run_id ''e2'') MATRIX_COMPLETE_ENVELOPE mx) (\<lambda>mx.
     cbind (matrix_submit env run_id ''J5'' E2 (work_dir run_id ''e1'') MATRIX_COMPLETE_ENVELOPE mx) (\<lambda>mx.
     cbind (matrix_start env run_id E2 ''complete'' [] mx) (\<lambda>mx.
     cbind (wait_matrix env (mx_jobs mx) ''J3/J4 active overlap'' (plain_pred (overlap_pred old_attempt)) ()) (\<lambda>(overlap, _).
     cbind (matrix_terminal env ''J4'' E2 mx) (\<lambda>mx.
     cbind (run_coord env (blocker_argv run_id)) (\<lambda>payload.
     cbind (clift (result_object payload ''J5 resource probe'')) (\<lambda>blocker.
     cseq (crefuse (dget blocker ''claimed'' \<noteq> JBool False \<or> dget blocker ''reason'' \<noteq> JStr ''resource_blocked''
         \<or> \<not> py_eq (dget blocker ''oldest_blocked_job_id'') (dget (mx_jobs mx) ''J5'')
         \<or> \<not> py_eq (dget blocker ''oldest_blocked_resource_key'') (dget old_lease ''resource_key''))
       ''J5 exact resource blocker was not proven'')
     (creturn (overlap, blocker, mx)))))))))"

text \<open>An element of an argument vector must be text.\<close>
definition need_str :: "json \<Rightarrow> ctl_exc + string" where
  "need_str v = (case v of JStr s \<Rightarrow> Inr s | _ \<Rightarrow> Inl (OtherExc ''TypeError''))"

text \<open>E1 is crashed, its lease expires and is reaped exactly.\<close>
definition matrix_reap :: "'w ctl_env \<Rightarrow> string \<Rightarrow> json \<Rightarrow> json \<Rightarrow> matrix \<Rightarrow> ('w, dict \<times> matrix) ctl" where
  "matrix_reap env run_id old_attempt old_lease_id mx =
     cbind (matrix_stop env run_id E1 True mx) (\<lambda>mx.
     cseq (wait_matrix env (mx_jobs mx) ''J3 old lease exact expiry'' (plain_pred (old_due_pred old_attempt old_lease_id)) ())
     (cbind (clift (need_str old_lease_id)) (\<lambda>lease_id.
      cbind (clift (need_str (dget (mx_jobs mx) ''J3''))) (\<lambda>j3.
      cbind (run_coord env [''runtime'', ''job'', ''lease'', ''reap'', ''--lease-id'', lease_id, ''--job-id'', j3,
        ''--actor'', ''p9-3c1-controller'']) (\<lambda>payload.
      cbind (clift (result_object payload ''exact reap result'')) (\<lambda>reap.
      cseq (crefuse (dget reap ''mode'' \<noteq> JStr ''exact'' \<or> \<not> py_eq (dget reap ''reaped_count'') (JInt 1)
          \<or> \<not> py_eq (dget reap ''lease_id'') old_lease_id \<or> \<not> py_eq (dget reap ''job_id'') (dget (mx_jobs mx) ''J3'')
          \<or> \<not> py_eq (dget reap ''attempt_token'') old_attempt) ''J3 exact reap response mismatch'')
      (cseq (wait_matrix env (mx_jobs mx) ''J3 exact reap readback'' (plain_pred (reaped_pred old_attempt)) ())
      (creturn (reap, mx)))))))))"

definition stale_specs :: "string \<Rightarrow> string \<Rightarrow> string \<Rightarrow> (string \<times> string list) list" where
  "stale_specs j3 old_attempt old_lease_id =
     (let tail = [''--attempt-token'', old_attempt, ''--lease-id'', old_lease_id, ''--actor'', ''p9-3c1-controller''] in
      [(''progress'', [''runtime'', ''job'', ''progress'', j3, ''--agent-id'', E1, ''--stage'', ''p9-3c1-stale-probe'',
          ''--summary'', ''stale-attempt-probe''] @ tail),
       (''report'', [''runtime'', ''job'', ''report'', j3, ''--agent-id'', E1, ''--status'', ''done'', ''--result-json'', ''{}''] @ tail),
       (''renew'', [''runtime'', ''job'', ''lease'', ''renew'', j3, ''--agent-id'', E1] @ tail)])"

text \<open>A call under the old attempt must be refused and must change nothing.\<close>
fun probe_stale :: "'w ctl_env \<Rightarrow> dict \<Rightarrow> (string \<times> string list) list \<Rightarrow> ('w, dict) ctl" where
  "probe_stale env job_ids [] = creturn []"
| "probe_stale env job_ids ((name, args) # specs) =
     cbind (matrix_snapshot env job_ids) (\<lambda>sn1.
     cbind (expect_coord_rejection env args) (\<lambda>digest.
     cbind (matrix_snapshot env job_ids) (\<lambda>sn2.
     cseq (crefuse (\<not> py_eq (stale_authority_fingerprint sn2 ''J3'') (stale_authority_fingerprint sn1 ''J3''))
       (''stale '' @ name @ '' mutated J3 authority''))
     (cbind (probe_stale env job_ids specs) (\<lambda>rest. creturn ((name, JStr digest) # rest))))))"

text \<open>E1 recovers J3 under the next attempt; the digests of the refusals and the new lease.\<close>
definition matrix_recover ::
    "'w ctl_env \<Rightarrow> string \<Rightarrow> dict \<Rightarrow> json \<Rightarrow> json \<Rightarrow> matrix \<Rightarrow> ('w, dict \<times> int \<times> json \<times> matrix) ctl" where
  "matrix_recover env run_id old_lease old_attempt old_lease_id mx =
     cbind (matrix_start env run_id E1 ''hold'' [''--recoverable'', ''--recovery-reason'',
       ''p9-3c1-j3-recovery-'' @ run_suffix run_id, ''--prior-process-stopped''] mx) (\<lambda>mx.
     cbind (clift (case as_int old_attempt of None \<Rightarrow> Inl (OtherExc ''TypeError'') | Some n \<Rightarrow> Inr (n + 1))) (\<lambda>new_attempt.
     cbind (wait_matrix env (mx_jobs mx) ''J3 N+1 recovery claim''
       (plain_pred (recovered_pred (dget (mx_jobs mx) ''J3'') new_attempt old_lease_id (dget old_lease ''resource_key''))) ()) (\<lambda>(sn, _).
     cbind (clift (lease_for_attempt sn ''J3'' (JInt new_attempt))) (\<lambda>found.
     cbind (clift (case found of None \<Rightarrow> Inl (OtherExc ''AssertionError'') | Some l \<Rightarrow> dict_item l ''lease_id'')) (\<lambda>new_lease_id.
     cbind (clift (need_str old_lease_id)) (\<lambda>old_lease_text.
     cbind (clift (need_str (dget (mx_jobs mx) ''J3''))) (\<lambda>j3.
     cbind (probe_stale env (mx_jobs mx) (stale_specs j3 (py_str old_attempt) old_lease_text)) (\<lambda>digests.
     cbind (clift (need_str new_lease_id)) (\<lambda>new_lease_text.
     cbind (run_coord env [''runtime'', ''job'', ''report'', j3, ''--agent-id'', E1, ''--status'', ''done'', ''--result-json'', ''{}'',
       ''--attempt-token'', show_int new_attempt, ''--lease-id'', new_lease_text, ''--actor'', ''p9-3c1-controller'']) (\<lambda>payload.
     cbind (clift (result_object payload ''J3 current report'')) (\<lambda>current.
     cbind (clift (require_object (dget current ''job'') ''J3 reported job'')) (\<lambda>job.
     cseq (crefuse (dget job ''status'' \<noteq> JStr ''done'' \<or> dget current ''delivery'' \<noteq> JNull
         \<or> dget current ''delivery_created'' \<noteq> JBool False) ''J3 N+1 empty terminal report mismatch'')
     (creturn (digests, new_attempt, new_lease_id, mx))))))))))))))"

text \<open>The one pending delivery of an answered job is sent.\<close>
definition send_delivery :: "'w ctl_env \<Rightarrow> snapshot \<Rightarrow> string \<Rightarrow> ('w, json) ctl" where
  "send_delivery env sn label =
     (case rows_for (sn_deliveries sn) label of
        [row] \<Rightarrow>
          cseq (crefuse (dget row ''platform'' \<noteq> JStr ''stdout'' \<or> dget row ''destination'' \<noteq> JStr ''local''
              \<or> dget row ''status'' \<noteq> JStr ''pending'') (''matrix '' @ label @ '' delivery authority mismatch''))
          (cbind (clift (ebind (dict_item row ''id'') need_str)) (\<lambda>delivery_id.
           cbind (run_coord env [''delivery'', ''send'', delivery_id]) (\<lambda>payload.
           cbind (clift (result_object payload (label @ '' delivery send''))) (\<lambda>sent.
           cbind (clift (require_object (dget sent ''delivery'') (label @ '' sent delivery''))) (\<lambda>sent_row.
           cseq (crefuse (dget sent ''sent'' \<noteq> JBool True \<or> dget sent_row ''status'' \<noteq> JStr ''sent''
               \<or> dget sent_row ''id'' \<noteq> JStr delivery_id) (''matrix '' @ label @ '' stdout delivery send failed''))
           (creturn (pick [''id'', ''platform'', ''destination'', ''status'', ''platform_message_id''] sent_row)))))))
      | _ \<Rightarrow> cerror (''matrix '' @ label @ '' must have exactly one response delivery''))"

fun send_deliveries :: "'w ctl_env \<Rightarrow> snapshot \<Rightarrow> string list \<Rightarrow> ('w, dict) ctl" where
  "send_deliveries env sn [] = creturn []"
| "send_deliveries env sn (label # labels) =
     cbind (send_delivery env sn label) (\<lambda>d. cbind (send_deliveries env sn labels) (\<lambda>rest. creturn ((label, d) # rest)))"

definition undone_label :: "snapshot \<Rightarrow> string option" where
  "undone_label sn = find (\<lambda>label. dget (job_of sn label) ''status'' \<noteq> JStr ''done'') MATRIX_LABELS"

text \<open>J5 to its end, the deliveries, and a last look at all five jobs.\<close>
definition matrix_closing :: "'w ctl_env \<Rightarrow> matrix \<Rightarrow> ('w, dict \<times> matrix) ctl" where
  "matrix_closing env mx =
     cbind (matrix_terminal env ''J5'' E2 mx) (\<lambda>mx.
     cbind (matrix_snapshot env (mx_jobs mx)) (\<lambda>sn.
     cseq (crefuse (rows_for (sn_deliveries sn) ''J3'' \<noteq> []) ''J3 empty recovery result created a delivery'')
     (cbind (send_deliveries env sn ANSWERED) (\<lambda>deliveries.
      cbind (matrix_snapshot env (mx_jobs mx)) (\<lambda>last_sn.
      cseq (case undone_label last_sn of None \<Rightarrow> creturn () | Some label \<Rightarrow> cerror (''matrix '' @ label @ '' is not terminal done''))
      (creturn (deliveries, mx)))))))"

definition unit_json :: "unit_generation \<Rightarrow> json" where
  "unit_json u = JObj [(''agent'', JStr (ug_agent u)), (''mode'', JStr (ug_mode u)), (''state'', JStr (ug_state u))]"

definition renewals_json :: "(string \<times> string list) list \<Rightarrow> json" where
  "renewals_json rs = JObj (map (\<lambda>(label, ts). (label, JList (map JStr ts))) rs)"

definition run_five_job_matrix :: "'w ctl_env \<Rightarrow> string \<Rightarrow> ('w, unit) ctl" where
  "run_five_job_matrix env run_id =
     cseq (append_ledger env (JStr ''executor-v2-enabled'') ''matrix.budget.sealed'' AUTH_EXACT_BUDGETS)
     (cbind (matrix_opening env run_id) (\<lambda>(old_lease, mx).
      cbind (clift (dict_item old_lease ''attempt_token'')) (\<lambda>old_attempt.
      cbind (clift (dict_item old_lease ''lease_id'')) (\<lambda>old_lease_id.
      cbind (matrix_contention env run_id old_lease old_attempt mx) (\<lambda>(overlap, blocker, mx).
      cbind (matrix_reap env run_id old_attempt old_lease_id mx) (\<lambda>(reap, mx).
      cbind (matrix_recover env run_id old_lease old_attempt old_lease_id mx) (\<lambda>(digests, new_attempt, new_lease_id, mx).
      cbind (matrix_closing env mx) (\<lambda>(deliveries, mx).
      let evidence = JObj
        [(''budget'', JObj AUTH_EXACT_BUDGETS), (''jobs'', JObj (mx_jobs mx)), (''renewals'', renewals_json (mx_renewals mx)),
         (''overlap'', JObj [(''j3_lease_id'', old_lease_id), (''j4_status'', dget (job_of overlap ''J4'') ''status'')]),
         (''blocker'', pick [''claimed'', ''reason'', ''oldest_blocked_job_id'', ''oldest_blocked_resource_key''] blocker),
         (''reap'', pick [''mode'', ''reaped_count'', ''lease_id'', ''job_id'', ''attempt_token''] reap),
         (''recovery'', JObj [(''old_attempt'', old_attempt), (''old_lease_id'', old_lease_id), (''new_attempt'', JInt new_attempt),
            (''new_lease_id'', new_lease_id), (''stale_rejection_digests'', JObj digests)]),
         (''unit_generations'', JList (map unit_json (mx_units mx))), (''deliveries'', JObj deliveries)]
      in cseq (write_evidence env ''matrix.json'' evidence)
         (cseq (append_ledger env (JStr ''executor-v2-enabled'') ''matrix.executed''
           [(''evidence_sha256'', JStr (ce_sha env (utf8 (canonical_json evidence))))])
         (creturn ()))))))))))"

section \<open>The verification\<close>

text \<open>\<open>set(v)\<close> of a decoded value, as the list of what it iterates over.\<close>
definition iterate :: "json \<Rightarrow> ctl_exc + json list" where
  "iterate v =
     (case v of
        JList xs \<Rightarrow> Inr xs
      | JStr s \<Rightarrow> Inr (map (\<lambda>c. JStr [c]) s)
      | JObj d \<Rightarrow> Inr (map JStr (keys d))
      | _ \<Rightarrow> Inl (OtherExc ''TypeError''))"

definition is_set_of :: "json list \<Rightarrow> string list \<Rightarrow> bool" where
  "is_set_of vs ss = (list_all (\<lambda>v. v \<in> set (map JStr ss)) vs \<and> list_all (\<lambda>s. JStr s \<in> set vs) ss)"

definition as_text :: "json \<Rightarrow> string option" where
  "as_text v = (case v of JStr s \<Rightarrow> Some s | _ \<Rightarrow> None)"

definition as_number :: "json \<Rightarrow> int option" where
  "as_number v = (case v of JInt i \<Rightarrow> Some i | _ \<Rightarrow> None)"

text \<open>\<open>values == sorted(set(values))\<close>, for strings and for integers; other values do not compare.\<close>
definition strictly_sorted :: "json list \<Rightarrow> ctl_exc + bool" where
  "strictly_sorted vs =
     (if list_all (\<lambda>v. as_text v \<noteq> None) vs then Inr (sorted_wrt (<) (map (\<lambda>v. the (as_text v)) vs))
      else if list_all (\<lambda>v. as_number v \<noteq> None) vs then Inr (sorted_wrt (<) (map (\<lambda>v. the (as_number v)) vs))
      else Inl (OtherExc ''TypeError''))"

definition check_renewals :: "string \<times> json \<Rightarrow> ctl_exc + unit" where
  "check_renewals item =
     (case item of (label, v) \<Rightarrow>
      let bad = Inl (ControllerError (''matrix '' @ label @ '' did not prove two monotonic renewals'')) in
      case v of
        JList vs \<Rightarrow> if length vs < 3 then bad else ebind (strictly_sorted vs) (\<lambda>ok. if ok then Inr () else bad)
      | _ \<Rightarrow> bad)"

text \<open>\<open>any(p(row) for row in rows)\<close> with \<open>row.get\<close>\<close>
fun any_row :: "(dict \<Rightarrow> bool) \<Rightarrow> json list \<Rightarrow> ctl_exc + bool" where
  "any_row p [] = Inr False"
| "any_row p (v # vs) = ebind (as_dict v) (\<lambda>d. if p d then Inr True else any_row p vs)"

definition unhashable :: "json \<Rightarrow> bool" where
  "unhashable v = (case v of JList _ \<Rightarrow> True | JObj _ \<Rightarrow> True | _ \<Rightarrow> False)"

text \<open>Five jobs under the labels in order, with five different ids.\<close>
definition check_jobs :: "dict \<Rightarrow> ctl_exc + dict" where
  "check_jobs evidence =
     (let bad = Inl (ControllerError ''matrix evidence does not contain five unique exact jobs'') in
      case dget evidence ''jobs'' of
        JObj jobs \<Rightarrow>
          if keys jobs \<noteq> MATRIX_LABELS then bad
          else if list_ex unhashable (map snd jobs) then Inl (OtherExc ''TypeError'')
          else if length (remdups (map (\<lambda>j. py_norm (snd j)) jobs)) \<noteq> 5 then bad
          else Inr jobs
      | _ \<Rightarrow> bad)"

definition check_recovery :: "dict \<Rightarrow> ctl_exc + unit" where
  "check_recovery evidence =
     (let bad = Inl (ControllerError ''matrix recovery/stale evidence mismatch'') in
      ebind (get_dict evidence ''recovery'') (\<lambda>r.
      case as_int (if has_key r ''old_attempt'' then dget r ''old_attempt'' else JInt 0) of
        None \<Rightarrow> Inl (OtherExc ''TypeError'')
      | Some n \<Rightarrow>
          if \<not> py_eq (dget r ''new_attempt'') (JInt (n + 1)) \<or> py_eq (dget r ''old_lease_id'') (dget r ''new_lease_id'') then bad
          else
            ebind (iterate (if has_key r ''stale_rejection_digests'' then dget r ''stale_rejection_digests'' else JObj [])) (\<lambda>ks.
            if is_set_of ks [''progress'', ''report'', ''renew''] then Inr () else bad)))"

definition expected_generations :: "(string \<times> string) list" where
  "expected_generations = [(E1, ''complete''), (E2, ''complete''), (E1, ''hold'')]"

definition check_generations :: "dict \<Rightarrow> ctl_exc + unit" where
  "check_generations evidence =
     (let bad = Inl (ControllerError ''matrix unit-generation evidence mismatch'') in
      case dget evidence ''unit_generations'' of
        JList rows \<Rightarrow>
          ebind (emapM as_dict rows) (\<lambda>ds.
          if map (\<lambda>d. (dget d ''agent'', dget d ''mode'')) ds \<noteq> map (\<lambda>(a, m). (JStr a, JStr m)) expected_generations
            then bad else Inr ())
      | _ \<Rightarrow> bad)"

definition not_sent :: "dict \<Rightarrow> bool" where
  "not_sent d = (dget d ''platform'' \<noteq> JStr ''stdout'' \<or> dget d ''destination'' \<noteq> JStr ''local'' \<or> dget d ''status'' \<noteq> JStr ''sent'')"

definition check_deliveries :: "dict \<Rightarrow> ctl_exc + unit" where
  "check_deliveries evidence =
     (case dget evidence ''deliveries'' of
        JObj d \<Rightarrow>
          if \<not> keys_are d ANSWERED then Inl (ControllerError ''matrix delivery evidence set mismatch'')
          else
            ebind (any_row not_sent (map snd d)) (\<lambda>bad.
            if bad then Inl (ControllerError ''matrix delivery evidence mismatch'') else Inr ())
      | _ \<Rightarrow> Inl (ControllerError ''matrix delivery evidence set mismatch''))"

text \<open>The checks on the evidence file; the jobs.\<close>
definition check_matrix_evidence :: "dict \<Rightarrow> ctl_exc + dict" where
  "check_matrix_evidence evidence =
     ebind (check_jobs evidence) (\<lambda>jobs.
     if \<not> py_eq (dget evidence ''budget'') (JObj AUTH_EXACT_BUDGETS)
       then Inl (ControllerError ''matrix evidence budget mismatch'')
     else
       (case dget evidence ''renewals'' of
          JObj renewals \<Rightarrow>
            if \<not> keys_are renewals MATRIX_LABELS then Inl (ControllerError ''matrix renewal evidence set mismatch'')
            else
              ebind (emapM check_renewals renewals) (\<lambda>_.
              ebind (get_dict evidence ''blocker'') (\<lambda>blocker.
              if dget blocker ''claimed'' \<noteq> JBool False \<or> dget blocker ''reason'' \<noteq> JStr ''resource_blocked''
                 \<or> \<not> py_eq (dget blocker ''oldest_blocked_job_id'') (dget jobs ''J5'')
                then Inl (ControllerError ''matrix blocker evidence mismatch'')
              else
                ebind (check_recovery evidence) (\<lambda>_.
                ebind (check_generations evidence) (\<lambda>_.
                ebind (check_deliveries evidence) (\<lambda>_. Inr jobs)))))
        | _ \<Rightarrow> Inl (ControllerError ''matrix renewal evidence set mismatch'')))"

text \<open>The checks on the live snapshot.\<close>
definition check_matrix_readback :: "snapshot \<Rightarrow> ctl_exc + unit" where
  "check_matrix_readback sn =
     (if undone_label sn \<noteq> None then Inl (ControllerError ''matrix final job readback mismatch'')
      else if rows_for (sn_deliveries sn) ''J3'' \<noteq> []
        then Inl (ControllerError ''matrix J3 has forbidden response delivery'')
      else
        (case find (\<lambda>label. \<not> (case rows_for (sn_deliveries sn) label of [row] \<Rightarrow> dget row ''status'' = JStr ''sent'' | _ \<Rightarrow> False))
            ANSWERED of
           None \<Rightarrow> Inr ()
         | Some label \<Rightarrow> Inl (ControllerError (''matrix '' @ label @ '' sent-delivery readback mismatch''))))"

definition verify_job_matrix :: "'w ctl_env \<Rightarrow> ('w, unit) ctl" where
  "verify_job_matrix env =
     cbind (read_evidence ''matrix.json'') (\<lambda>file.
     cbind (clift (as_dict file)) (\<lambda>evidence.
     cbind (clift (check_matrix_evidence evidence)) (\<lambda>jobs.
     cbind (matrix_snapshot env jobs) (\<lambda>sn.
     cseq (clift (check_matrix_readback sn))
     (cseq (append_ledger env (JStr ''matrix-running'') ''matrix.verified''
       [(''evidence_sha256'', JStr (ce_sha env (utf8 (canonical_json (JObj evidence)))))])
     (creturn ()))))))"

end
