(* ===== verification/ControllerMachine.thy ===== *)
theory ControllerMachine
  imports ControllerMatrixRun
begin

text \<open>
  \<open>scripts/p9_3c1_controller.py\<close>: the catalogs and the handler of each phase.
\<close>

section \<open>Catalogs\<close>

definition CONFIG_ASSETS :: "string list" where
  "CONFIG_ASSETS =
     [''executor.v1-disabled.toml'', ''executor.v2-enabled.toml'', ''executor.v3-disabled.toml'', ''executor.v4-empty.toml'',
      ''capacity.v1.toml'', ''capacity.v2-empty.toml'']"

definition config_asset :: "'w ctl_env \<Rightarrow> string \<Rightarrow> ('w, string) ctl" where
  "config_asset env filename =
     cseq (crefuse (filename \<notin> set CONFIG_ASSETS) (''unapproved config asset: '' @ filename))
     (cread (\<lambda>s. ebind (validate_single_link env (cs_world s) (path_join CONFIG_DIR filename)) (\<lambda>(path, _). Inr path)))"

text \<open>The rows of a source.\<close>
definition own_rows :: "string \<Rightarrow> json list \<Rightarrow> ctl_exc + dict list" where
  "own_rows source rows =
     ebind (emapM as_dict rows) (\<lambda>ds. Inr (filter (\<lambda>d. dget d ''source_id'' = JStr source) ds))"

definition executor_readback :: "dict \<Rightarrow> int \<Rightarrow> bool option \<Rightarrow> ctl_exc + unit" where
  "executor_readback readback version enabled =
     (case (dget readback ''sources'', dget readback ''definitions'', dget readback ''bindings'') of
        (JList sources, JList definitions, JList bindings) \<Rightarrow>
          ebind (own_rows ''p9-3c1-fixture-executors'' sources) (\<lambda>own_sources.
          ebind (own_rows ''p9-3c1-fixture-executors'' definitions) (\<lambda>own_defs.
          ebind (own_rows ''p9-3c1-fixture-executors'' bindings) (\<lambda>own_bindings.
          if length own_sources \<noteq> 1 \<or> \<not> py_eq (dget (hd own_sources) ''source_version'') (JInt version)
            then Inl (ControllerError ''executor source readback mismatch'')
          else if version = 4 then
            (if own_defs \<noteq> [] \<or> own_bindings \<noteq> [] then Inl (ControllerError ''executor terminal catalog is not empty'')
             else Inr ())
          else if length own_defs \<noteq> 1 \<or> dget (hd own_defs) ''id'' \<noteq> JStr ''p9-3c1-local-fixture''
            then Inl (ControllerError ''executor definition readback mismatch'')
          else if length own_bindings \<noteq> 2 \<or> \<not> is_set_of (map (\<lambda>d. dget d ''agent_id'') own_bindings) FIXTURE_AGENTS
            then Inl (ControllerError ''executor binding readback mismatch'')
          else if list_ex (\<lambda>d. Some (truthy (dget d ''enabled'')) \<noteq> enabled) own_bindings
            then Inl (ControllerError ''executor binding enabled readback mismatch'')
          else Inr ())))
      | _ \<Rightarrow> Inl (ControllerError ''executor readback envelope mismatch''))"

definition sync_executor :: "'w ctl_env \<Rightarrow> string \<Rightarrow> int \<Rightarrow> bool option \<Rightarrow> ('w, unit) ctl" where
  "sync_executor env filename version enabled =
     cbind (config_asset env filename) (\<lambda>path.
     cbind (run_coord env [''runtime'', ''executor'', ''sync'', ''--source'', path]) (\<lambda>result.
     cseq (crefuse (dget result ''source_id'' \<noteq> JStr ''p9-3c1-fixture-executors''
         \<or> \<not> py_eq (dget result ''source_version'') (JInt version)) ''executor sync response authority mismatch'')
     (cbind (run_coord env [''runtime'', ''executor'', ''list'']) (\<lambda>readback.
      clift (executor_readback readback version enabled)))))"

definition capacity_readback :: "dict \<Rightarrow> int \<Rightarrow> bool \<Rightarrow> ctl_exc + unit" where
  "capacity_readback readback version active =
     (case (dget readback ''sources'', dget readback ''policies'') of
        (JList sources, JList policies) \<Rightarrow>
          ebind (own_rows ''p9-3c1-fixture-capacity'' sources) (\<lambda>own_sources.
          ebind (own_rows ''p9-3c1-fixture-capacity'' policies) (\<lambda>own_policies.
          if length own_sources \<noteq> 1 \<or> \<not> py_eq (dget (hd own_sources) ''source_version'') (JInt version)
            then Inl (ControllerError ''capacity source readback mismatch'')
          else if active then
            (if length own_policies \<noteq> 2 \<or> list_ex (\<lambda>d. \<not> py_eq (dget d ''max_concurrent_jobs'') (JInt 1)) own_policies
               then Inl (ControllerError ''capacity active policy readback mismatch'')
             else Inr ())
          else if own_policies \<noteq> [] then Inl (ControllerError ''capacity terminal catalog is not empty'')
          else Inr ()))
      | _ \<Rightarrow> Inl (ControllerError ''capacity readback envelope mismatch''))"

definition sync_capacity :: "'w ctl_env \<Rightarrow> string \<Rightarrow> int \<Rightarrow> bool \<Rightarrow> ('w, unit) ctl" where
  "sync_capacity env filename version active =
     cbind (config_asset env filename) (\<lambda>path.
     cbind (run_coord env [''runtime'', ''capacity'', ''sync'', ''--source'', path]) (\<lambda>result.
     cseq (crefuse (dget result ''source_id'' \<noteq> JStr ''p9-3c1-fixture-capacity''
         \<or> \<not> py_eq (dget result ''source_version'') (JInt version)) ''capacity sync response authority mismatch'')
     (cbind (run_coord env [''runtime'', ''capacity'', ''list'']) (\<lambda>readback.
      clift (capacity_readback readback version active)))))"

section \<open>The handlers\<close>

definition HOST_ID :: string where "HOST_ID = ''VM-0-15-ubuntu''"
definition ACTOR :: "string list" where "ACTOR = [''--actor'', ''p9-3c1-controller'']"

definition phase_lock_held :: "'w ctl_env \<Rightarrow> string \<Rightarrow> ('w, unit) ctl" where
  "phase_lock_held env run_id = cseq (require_owned_lock env run_id None) (transition_to env ''lock-held'')"

definition phase_baseline_captured :: "'w ctl_env \<Rightarrow> ('w, unit) ctl" where
  "phase_baseline_captured env =
     cbind (db_integrity_check env) (\<lambda>integrity.
     cbind (db_due_active_leases env) (\<lambda>due.
     cseq (crefuse (dget integrity ''ok'' \<noteq> JBool True)
       (''DB integrity failed at baseline: '' @ py_str (dget integrity ''integrity'')))
     (cbind (now env) (\<lambda>t.
      cseq (write_evidence env ''baseline.json'' (JObj [(''integrity'', JObj integrity), (''due_active_leases'', due),
        (''captured_at'', JStr (isoformat t))]))
      (transition_to env ''baseline-captured'')))))"

definition phase_workspace_ready :: "'w ctl_env \<Rightarrow> string \<Rightarrow> ('w, unit) ctl" where
  "phase_workspace_ready env run_id =
     (let work = path_join (state_root run_id) ''runtime/work''; harness = path_join (state_root run_id) ''runtime'' in
      cbind (run_coord env [''workspace'', ''add'', ''p9-3c1-production'', ''--path'', work, ''--harness-root'', harness,
        ''--default-bus'', [], ''--default-destination'', []]) (\<lambda>created.
      cbind (clift (require_object (dget created ''workspace'') ''workspace add result'')) (\<lambda>workspace.
      cseq (crefuse (dget workspace ''id'' \<noteq> JStr ''p9-3c1-production'' \<or> dget workspace ''path'' \<noteq> JStr work)
        ''workspace add readback mismatch'')
      (cbind (run_coord env [''workspace'', ''host-profile'', ''set'', ''p9-3c1-production'', ''--host-id'', HOST_ID,
        ''--workspace-path'', work, ''--harness-root'', harness, ''--coordinator-cli-path'', PRODUCTION_CLI,
        ''--coordinator-db-path'', PRODUCTION_DB]) (\<lambda>profile_result.
       cbind (clift (require_object (dget profile_result ''result'') ''host profile result'')) (\<lambda>profile.
       cseq (crefuse (dget profile ''workspace_id'' \<noteq> JStr ''p9-3c1-production'' \<or> dget profile ''host_id'' \<noteq> JStr HOST_ID)
         ''host profile readback mismatch'')
       (transition_to env ''workspace-ready'')))))))"

definition agent_online :: "'w ctl_env \<Rightarrow> string \<Rightarrow> ('w, unit) ctl" where
  "agent_online env agent_id =
     cbind (run_coord env ([''runtime'', ''agent'', ''register'', ''--agent-id'', agent_id, ''--host-id'', HOST_ID,
       ''--client-type'', ''agentd'', ''--capabilities-json'', canonical_json (JObj [(''p9-3c1-fixture'', JBool True)])] @ ACTOR)) (\<lambda>registered.
     cbind (clift (ebind (require_object (dget registered ''result'') ''agent register result'') (\<lambda>r.
       require_object (dget r ''agent'') ''registered agent''))) (\<lambda>agent.
     cseq (crefuse (dget agent ''id'' \<noteq> JStr agent_id \<or> dget agent ''host_id'' \<noteq> JStr HOST_ID)
       ''registered agent readback mismatch'')
     (cbind (run_coord env ([''runtime'', ''agent'', ''heartbeat'', ''--agent-id'', agent_id, ''--host-id'', HOST_ID] @ ACTOR)) (\<lambda>heartbeat.
      cbind (clift (ebind (require_object (dget heartbeat ''result'') ''agent heartbeat result'') (\<lambda>r.
        require_object (dget r ''agent'') ''heartbeated agent''))) (\<lambda>beat.
      crefuse (dget beat ''id'' \<noteq> JStr agent_id \<or> dget beat ''online_state'' \<noteq> JStr ''online'')
        ''agent heartbeat readback mismatch'')))))"

definition phase_agents_online :: "'w ctl_env \<Rightarrow> ('w, unit) ctl" where
  "phase_agents_online env = cseq (cfor FIXTURE_AGENTS (agent_online env)) (transition_to env ''agents-online'')"

definition phase_executor_v1_disabled :: "'w ctl_env \<Rightarrow> ('w, unit) ctl" where
  "phase_executor_v1_disabled env =
     cseq (sync_executor env ''executor.v1-disabled.toml'' 1 (Some False)) (transition_to env ''executor-v1-disabled'')"

definition phase_capacity_v1_active :: "'w ctl_env \<Rightarrow> ('w, unit) ctl" where
  "phase_capacity_v1_active env =
     cseq (sync_capacity env ''capacity.v1.toml'' 1 True) (transition_to env ''capacity-v1-active'')"

definition phase_executor_v2_enabled :: "'w ctl_env \<Rightarrow> ('w, unit) ctl" where
  "phase_executor_v2_enabled env =
     cseq (sync_executor env ''executor.v2-enabled.toml'' 2 (Some True)) (transition_to env ''executor-v2-enabled'')"

definition phase_matrix_running :: "'w ctl_env \<Rightarrow> string \<Rightarrow> ('w, unit) ctl" where
  "phase_matrix_running env run_id = cseq (run_five_job_matrix env run_id) (transition_to env ''matrix-running'')"

definition phase_matrix_verified :: "'w ctl_env \<Rightarrow> ('w, unit) ctl" where
  "phase_matrix_verified env = cseq (verify_job_matrix env) (transition_to env ''matrix-verified'')"

definition phase_intake_frozen :: "'w ctl_env \<Rightarrow> ('w, unit) ctl" where
  "phase_intake_frozen env =
     cseq (append_ledger env (JStr ''matrix-verified'') ''intake.frozen'' []) (transition_to env ''intake-frozen'')"

text \<open>The stop of a unit and what its status then says.\<close>
definition unit_quiescent :: "'w ctl_env \<Rightarrow> string \<Rightarrow> string \<Rightarrow> ('w, string \<times> json) ctl" where
  "unit_quiescent env run_id agent =
     cbind (helper_cli env run_id ''production-stop'' [''--agent-id'', agent]) (\<lambda>stopped.
     cseq (crefuse (dget stopped ''status'' \<noteq> JStr ''stopped'' \<or> dget stopped ''termination'' \<noteq> JStr ''graceful'')
       (''unit stop response mismatch for '' @ agent))
     (cbind (helper_cli env run_id ''production-status'' [''--agent-id'', agent]) (\<lambda>status.
      cbind (clift (require_object (dget status ''properties'') ''production unit status properties'')) (\<lambda>p.
      cbind (clift (in_strings (dget p ''ActiveState'') [''inactive'', ''failed''])) (\<lambda>idle.
      cseq (crefuse (\<not> idle \<or> \<not> (dget p ''MainPID'' = JStr ''0'' \<or> py_eq (dget p ''MainPID'') (JInt 0)))
        (''unit did not become quiescent: '' @ agent))
      (creturn (agent, JObj [(''ActiveState'', JStr (py_str (dget p ''ActiveState''))),
         (''MainPID'', JStr (py_str (dget p ''MainPID'')))])))))))"

definition unit_cleanup :: "'w ctl_env \<Rightarrow> string \<Rightarrow> string \<Rightarrow> string \<Rightarrow> ('w, unit) ctl" where
  "unit_cleanup env run_id msg agent =
     cbind (helper_cli env run_id ''production-cleanup'' [''--agent-id'', agent]) (\<lambda>cleaned.
     crefuse (dget cleaned ''status'' \<noteq> JStr ''cleaned'' \<or> dget cleaned ''agent_id'' \<noteq> JStr agent) (msg @ agent))"

definition phase_units_quiescent :: "'w ctl_env \<Rightarrow> string \<Rightarrow> ('w, unit) ctl" where
  "phase_units_quiescent env run_id =
     cbind (unit_quiescent env run_id E1) (\<lambda>u1.
     cbind (unit_quiescent env run_id E2) (\<lambda>u2.
     cseq (cfor FIXTURE_AGENTS (unit_cleanup env run_id ''unit cleanup response mismatch for ''))
     (let payload = JObj [(''agents'', JObj [u1, u2])] in
      cseq (write_evidence env ''units-quiescent.json'' payload)
      (cseq (append_ledger env (JStr ''intake-frozen'') ''units.quiescent''
        [(''evidence_sha256'', JStr (ce_sha env (utf8 (canonical_json payload))))])
      (transition_to env ''units-quiescent'')))))"

definition phase_executor_v3_disabled :: "'w ctl_env \<Rightarrow> ('w, unit) ctl" where
  "phase_executor_v3_disabled env =
     cseq (sync_executor env ''executor.v3-disabled.toml'' 3 (Some False)) (transition_to env ''executor-v3-disabled'')"

definition phase_capacity_v2_empty :: "'w ctl_env \<Rightarrow> ('w, unit) ctl" where
  "phase_capacity_v2_empty env =
     cseq (sync_capacity env ''capacity.v2-empty.toml'' 2 False) (transition_to env ''capacity-v2-empty'')"

definition phase_executor_v4_empty :: "'w ctl_env \<Rightarrow> ('w, unit) ctl" where
  "phase_executor_v4_empty env =
     cseq (sync_executor env ''executor.v4-empty.toml'' 4 None) (transition_to env ''executor-v4-empty'')"

definition agent_offline :: "'w ctl_env \<Rightarrow> string \<Rightarrow> string \<Rightarrow> string \<Rightarrow> string \<Rightarrow> ('w, unit) ctl" where
  "agent_offline env reason label msg agent_id =
     cbind (run_coord env ([''runtime'', ''agent'', ''deactivate'', ''--agent-id'', agent_id, ''--host-id'', HOST_ID,
       ''--reason'', reason] @ ACTOR)) (\<lambda>result.
     cbind (clift (require_object (dget result ''result'') label)) (\<lambda>d.
     crefuse (dget d ''blocked'' \<noteq> JBool False \<or> dget d ''deactivated'' \<noteq> JBool True) msg))"

definition phase_agents_offline :: "'w ctl_env \<Rightarrow> ('w, unit) ctl" where
  "phase_agents_offline env =
     cseq (cfor FIXTURE_AGENTS (agent_offline env ''p9-3c1-run-complete'' ''agent deactivate result''
       ''agent deactivate readback mismatch''))
     (transition_to env ''agents-offline'')"

definition phase_canonical_compared :: "'w ctl_env \<Rightarrow> string \<Rightarrow> ('w, unit) ctl" where
  "phase_canonical_compared env run_id =
     cbind (canonical_projection_snapshot env) (\<lambda>projection.
     cbind (read_manifest env run_id) (\<lambda>(manifest, _).
     cseq (crefuse (dget manifest ''canonical_projection_sha256'' \<noteq> JStr projection)
       (''canonical projection drift: baseline='' @ py_str (dget manifest ''canonical_projection_sha256'')
        @ '', current='' @ projection))
     (cbind (now env) (\<lambda>t.
      cseq (write_evidence env ''canonical.json'' (JObj [(''projection_hash'', JStr projection),
        (''compared_at'', JStr (isoformat t))]))
      (cseq (append_ledger env (JStr ''agents-offline'') ''canonical.compared''
        [(''projection_hash'', JStr projection), (''drift'', JBool False)])
      (transition_to env ''canonical-compared''))))))"

section \<open>The end\<close>

definition agents_sql :: string where
  "agents_sql = ''SELECT id, online_state, current_load, host_id FROM agents '' @ ''WHERE id IN (?, ?) ORDER BY id''"

text \<open>What is left in the catalogs.\<close>
definition residue_queries :: "(string \<times> string \<times> json list) list" where
  "residue_queries =
     [(''agents'', agents_sql, [JStr E1, JStr E2]),
      (''executor_sources'', ''SELECT source_id, source_version FROM executor_catalog_sources ''
         @ ''WHERE source_id = ? ORDER BY source_id'', [JStr ''p9-3c1-fixture-executors'']),
      (''executor_definitions'', ''SELECT id, source_id FROM executor_definitions WHERE source_id = ? ORDER BY id'',
         [JStr ''p9-3c1-fixture-executors'']),
      (''executor_bindings'', ''SELECT agent_id, source_id FROM executor_instance_bindings ''
         @ ''WHERE source_id = ? ORDER BY agent_id'', [JStr ''p9-3c1-fixture-executors'']),
      (''capacity_sources'', ''SELECT source_id, source_version FROM executor_capacity_sources ''
         @ ''WHERE source_id = ? ORDER BY source_id'', [JStr ''p9-3c1-fixture-capacity'']),
      (''capacity_policies'', ''SELECT agent_id, source_id FROM executor_capacity_policies ''
         @ ''WHERE source_id = ? ORDER BY agent_id'', [JStr ''p9-3c1-fixture-capacity''])]"

definition job_item :: "snapshot \<Rightarrow> string \<Rightarrow> ctl_exc + json" where
  "job_item sn label = (case map_of (sn_jobs sn) label of None \<Rightarrow> Inl (OtherExc ''KeyError'') | Some row \<Rightarrow> Inr (JObj row))"

definition rows_of_all :: "(string \<times> dict list) list \<Rightarrow> json" where
  "rows_of_all table = JList (concat (map (\<lambda>label. map JObj (rows_for table label)) MATRIX_LABELS))"

definition final_runtime_snapshot :: "'w ctl_env \<Rightarrow> ('w, dict) ctl" where
  "final_runtime_snapshot env =
     cbind (read_evidence ''matrix.json'') (\<lambda>file.
     cbind (clift (as_dict file)) (\<lambda>evidence.
     cbind (clift (case dget evidence ''jobs'' of
          JObj d \<Rightarrow> if keys_are d MATRIX_LABELS then Inr d else Inl (ControllerError ''final exact matrix job authority missing'')
        | _ \<Rightarrow> Inl (ControllerError ''final exact matrix job authority missing''))) (\<lambda>matrix_jobs.
     cbind (matrix_snapshot env matrix_jobs) (\<lambda>sn.
     cbind (clift (emapM (job_item sn) MATRIX_LABELS)) (\<lambda>jobs.
     cbind (query_all env residue_queries) (\<lambda>residue.
     cbind (db_integrity_check env) (\<lambda>integrity.
     cbind (db_schema_version env) (\<lambda>schema.
     cbind (db_fk_check env) (\<lambda>fk.
     creturn ([(''jobs'', JList jobs), (''leases'', rows_of_all (sn_leases sn)), (''deliveries'', rows_of_all (sn_deliveries sn))]
       @ residue
       @ [(''db'', JObj [(''integrity'', dget integrity ''integrity''), (''schema'', schema), (''fk_violations'', JInt fk)])]))))))))))"

definition refuse_any :: "(dict \<Rightarrow> bool) \<Rightarrow> json list \<Rightarrow> string \<Rightarrow> ctl_exc + unit" where
  "refuse_any p rows msg = ebind (any_row p rows) (\<lambda>bad. if bad then Inl (ControllerError msg) else Inr ())"

text \<open>A source list with one entry, and the catalogs of the source empty.\<close>
definition only_source :: "dict \<Rightarrow> string \<Rightarrow> string \<Rightarrow> int \<Rightarrow> bool" where
  "only_source final k i v = py_eq (dget final k) (JList [JObj [(''source_id'', JStr i), (''source_version'', JInt v)]])"

text \<open>The checks on jobs, leases and deliveries.\<close>
definition check_final_rows :: "json list \<Rightarrow> json list \<Rightarrow> json list \<Rightarrow> ctl_exc + unit" where
  "check_final_rows jobs leases deliveries =
     ebind (if length jobs \<noteq> 5 then Inl (ControllerError ''final fixture jobs are not exactly five done rows'')
            else refuse_any (\<lambda>r. dget r ''status'' \<noteq> JStr ''done'') jobs ''final fixture jobs are not exactly five done rows'') (\<lambda>_.
     ebind (refuse_any (\<lambda>r. dget r ''status'' = JStr ''active'') leases ''final fixture lease residue is active'') (\<lambda>_.
     if length deliveries \<noteq> 4 then Inl (ControllerError ''final fixture delivery residue mismatch'')
     else refuse_any not_sent deliveries ''final fixture delivery residue mismatch''))"

definition check_final :: "dict \<Rightarrow> ctl_exc + unit" where
  "check_final final =
     (case (dget final ''jobs'', dget final ''leases'', dget final ''deliveries'', dget final ''agents'') of
        (JList jobs, JList leases, JList deliveries, JList agents) \<Rightarrow>
          ebind (check_final_rows jobs leases deliveries) (\<lambda>_.
          ebind (emapM as_dict agents) (\<lambda>ds.
          if \<not> is_set_of (map (\<lambda>d. dget d ''id'') ds) FIXTURE_AGENTS \<or> list_ex (\<lambda>d. dget d ''online_state'' \<noteq> JStr ''offline'') ds
            then Inl (ControllerError ''final fixture agents are not offline'')
          else if \<not> only_source final ''executor_sources'' ''p9-3c1-fixture-executors'' 4
             \<or> truthy (dget final ''executor_definitions'') \<or> truthy (dget final ''executor_bindings'')
            then Inl (ControllerError ''final executor catalog is not exact empty v4'')
          else if \<not> only_source final ''capacity_sources'' ''p9-3c1-fixture-capacity'' 2
             \<or> truthy (dget final ''capacity_policies'')
            then Inl (ControllerError ''final capacity catalog is not exact empty v2'')
          else if \<not> py_eq (dget final ''db'') (JObj [(''integrity'', JStr ''ok''), (''schema'', JInt EXPECTED_SCHEMA),
             (''fk_violations'', JInt 0)]) then Inl (ControllerError ''final DB health mismatch'')
          else Inr ()))
      | _ \<Rightarrow> Inl (ControllerError ''final runtime evidence envelope mismatch''))"

definition EXPECTED_UNITS :: json where
  "EXPECTED_UNITS =
     JObj [(E1, JObj [(''ActiveState'', JStr ''inactive''), (''MainPID'', JStr ''0'')]),
           (E2, JObj [(''ActiveState'', JStr ''inactive''), (''MainPID'', JStr ''0'')])]"

definition phase_done :: "'w ctl_env \<Rightarrow> string \<Rightarrow> ('w, unit) ctl" where
  "phase_done env run_id =
     cbind (final_runtime_snapshot env) (\<lambda>final.
     cseq (clift (check_final final))
     (cbind (read_evidence ''units-quiescent.json'') (\<lambda>file.
      cbind (clift (as_dict file)) (\<lambda>units.
      cseq (crefuse (\<not> py_eq (dget units ''agents'') EXPECTED_UNITS) ''final unit quiescence evidence mismatch'')
      (cbind (now env) (\<lambda>t.
       cseq (write_evidence env ''final.json'' (JObj (final @ [(''completed_at'', JStr (isoformat t)), (''status'', JStr ''done'')])))
       (cseq (transition_to env ''done'')
       (release_lock env run_id))))))))"

section \<open>The registry\<close>

text \<open>Under the phase that comes before: the phase that follows and its handler.\<close>
definition registry :: "'w ctl_env \<Rightarrow> string \<Rightarrow> (string \<times> string \<times> ('w, unit) ctl) list" where
  "registry env run_id =
     [(''preflight-ok'', ''lock-held'', phase_lock_held env run_id),
      (''lock-held'', ''baseline-captured'', phase_baseline_captured env),
      (''baseline-captured'', ''workspace-ready'', phase_workspace_ready env run_id),
      (''workspace-ready'', ''agents-online'', phase_agents_online env),
      (''agents-online'', ''executor-v1-disabled'', phase_executor_v1_disabled env),
      (''executor-v1-disabled'', ''capacity-v1-active'', phase_capacity_v1_active env),
      (''capacity-v1-active'', ''executor-v2-enabled'', phase_executor_v2_enabled env),
      (''executor-v2-enabled'', ''matrix-running'', phase_matrix_running env run_id),
      (''matrix-running'', ''matrix-verified'', phase_matrix_verified env),
      (''matrix-verified'', ''intake-frozen'', phase_intake_frozen env),
      (''intake-frozen'', ''units-quiescent'', phase_units_quiescent env run_id),
      (''units-quiescent'', ''executor-v3-disabled'', phase_executor_v3_disabled env),
      (''executor-v3-disabled'', ''capacity-v2-empty'', phase_capacity_v2_empty env),
      (''capacity-v2-empty'', ''executor-v4-empty'', phase_executor_v4_empty env),
      (''executor-v4-empty'', ''agents-offline'', phase_agents_offline env),
      (''agents-offline'', ''canonical-compared'', phase_canonical_compared env run_id),
      (''canonical-compared'', ''done'', phase_done env run_id)]"

text \<open>\<open>_CMD_REGISTRY.get(phase)\<close>; lists and dictionaries cannot be hashed.\<close>
definition handler_of :: "'w ctl_env \<Rightarrow> string \<Rightarrow> json \<Rightarrow> ctl_exc + string \<times> ('w, unit) ctl" where
  "handler_of env run_id phase =
     (case phase of
        JList _ \<Rightarrow> Inl (OtherExc ''TypeError'')
      | JObj _ \<Rightarrow> Inl (OtherExc ''TypeError'')
      | JStr p \<Rightarrow>
          (case map_of (registry env run_id) p of
             None \<Rightarrow> Inl (ControllerError (''unknown or terminal phase: '' @ p))
           | Some entry \<Rightarrow> Inr entry)
      | _ \<Rightarrow> Inl (ControllerError (''unknown or terminal phase: '' @ py_str phase)))"

end
