(* ===== verification/ControllerRun.thy ===== *)
theory ControllerRun
  imports ControllerMachine
begin

text \<open>
  \<open>scripts/p9_3c1_controller.py\<close>: the loop over the phases, the cleanup, the commands run and cleanup, and
  the program with its exit codes.
\<close>

section \<open>The cleanup\<close>

definition helper_ledger_path :: "string \<Rightarrow> string" where
  "helper_ledger_path run_id = path_join (state_root run_id) ''runtime/unit/helper-events.log''"

text \<open>The agents whose unit the helper has recorded. Its log is no file of the controller.\<close>
definition recorded_agents :: "'w ctl_env \<Rightarrow> string \<Rightarrow> 'w ctl_state \<Rightarrow> ctl_exc + string list" where
  "recorded_agents env run_id s =
     (if \<not> ce_exists env (cs_world s) (helper_ledger_path run_id) then Inr []
      else
        ebind (validate_single_link env (cs_world s) (helper_ledger_path run_id)) (\<lambda>(_, i).
        ebind (decode_text (in_data i)) (\<lambda>raw.
        Inr (filter (\<lambda>agent. list_ex (\<lambda>line. startswith line (''unit '' @ agent @ ''-'' @ run_id @ ''.service ''))
               (split_lines [] raw)) FIXTURE_AGENTS))))"

definition cleanup_stop :: "'w ctl_env \<Rightarrow> string \<Rightarrow> string \<Rightarrow> ('w, unit) ctl" where
  "cleanup_stop env run_id agent =
     cbind (helper_cli env run_id ''production-stop'' [''--agent-id'', agent]) (\<lambda>stopped.
     crefuse (dget stopped ''status'' \<noteq> JStr ''stopped'' \<or> dget stopped ''termination'' \<noteq> JStr ''graceful'')
       (''cleanup stop response mismatch for '' @ agent))"

text \<open>\<open>re.fullmatch(r"matrix\.j[1-5]\.submitted", event)\<close> and the label in it.\<close>
definition submitted_label :: "json \<Rightarrow> string option" where
  "submitted_label event =
     (case event of
        JStr e \<Rightarrow> map_option snd (find (\<lambda>(l, L). e = ''matrix.'' @ l @ ''.submitted'') (map (\<lambda>L. (to_lower L, L)) MATRIX_LABELS))
      | _ \<Rightarrow> None)"

definition submitted_entry :: "dict \<Rightarrow> json \<Rightarrow> ctl_exc + dict" where
  "submitted_entry acc record =
     ebind (as_dict record) (\<lambda>r.
     case submitted_label (dget r ''event'') of
       None \<Rightarrow> Inr acc
     | Some label \<Rightarrow>
         ebind (as_dict (or_empty (dget r ''evidence''))) (\<lambda>evidence.
         case dget evidence ''job_id'' of
           JStr job_id \<Rightarrow>
             if has_key acc label then Inl (ControllerError ''cleanup submitted-job ledger authority is invalid'')
             else Inr (acc @ [(label, JStr job_id)])
         | _ \<Rightarrow> Inl (ControllerError ''cleanup submitted-job ledger authority is invalid'')))"

text \<open>The status of each job that is neither done nor failed.\<close>
definition nonterminal_jobs :: "snapshot \<Rightarrow> string list \<Rightarrow> ctl_exc + dict" where
  "nonterminal_jobs sn labels =
     efoldM (\<lambda>acc label.
       ebind (in_strings (dget (job_of sn label) ''status'') [''done'', ''failed'']) (\<lambda>ended.
       Inr (if ended then acc else acc @ [(label, dget (job_of sn label) ''status'')]))) [] labels"

definition active_lease_ids :: "snapshot \<Rightarrow> string list \<Rightarrow> json list" where
  "active_lease_ids sn labels =
     concat (map (\<lambda>label. map (\<lambda>row. dget row ''lease_id'')
       (filter (\<lambda>row. dget row ''status'' = JStr ''active'') (rows_for (sn_leases sn) label))) labels)"

text \<open>The cleanup halts while a submitted job runs or holds a lease.\<close>
definition require_quiet_jobs :: "'w ctl_env \<Rightarrow> dict \<Rightarrow> ('w, unit) ctl" where
  "require_quiet_jobs env submitted =
     (if submitted = [] then creturn ()
      else
        cbind (matrix_snapshot env submitted) (\<lambda>sn.
        cbind (clift (nonterminal_jobs sn (keys submitted))) (\<lambda>nonterminal.
        let active = active_lease_ids sn (keys submitted) in
        if nonterminal \<noteq> [] \<or> active \<noteq> []
          then cseq (write_evidence env ''cleanup-blocked.json''
                 (JObj [(''nonterminal_jobs'', JObj nonterminal), (''active_lease_ids'', JList active)]))
               (cerror ''cleanup halted with exact nonterminal job or active lease authority'')
        else creturn ())))"

text \<open>The phase a cleanup may start from, and its index.\<close>
definition cleanup_index :: "json \<Rightarrow> ctl_exc + int" where
  "cleanup_index phase =
     (if phase = JNull then Inl (ControllerError ''no phase file for cleanup'')
      else if phase \<in> set (map JStr [''sealed'', ''preflight-ok'', ''lock-held''])
        then Inl (ControllerError (''cleanup not allowed from phase '' @ py_repr phase))
      else if phase = JStr ''done'' then Inl (ControllerError ''cleanup not allowed: run already done'')
      else
        ebind (phase_index phase) (\<lambda>idx.
        if idx < 0 then Inl (ControllerError (''unknown phase '' @ py_repr phase))
        else if idx < index_in PHASES ''baseline-captured''
          then Inl (ControllerError (''cleanup not allowed from phase '' @ py_repr phase))
        else Inr idx))"

text \<open>The catalogs and the agents, from one boundary before the committed phase.\<close>
definition cleanup_catalogs :: "'w ctl_env \<Rightarrow> int \<Rightarrow> ('w, unit) ctl" where
  "cleanup_catalogs env idx =
     cseq (if index_in PHASES ''agents-online'' \<le> idx
       then cseq (sync_executor env ''executor.v3-disabled.toml'' 3 (Some False))
            (cseq (sync_capacity env ''capacity.v2-empty.toml'' 2 False)
            (sync_executor env ''executor.v4-empty.toml'' 4 None))
       else creturn ())
     (if index_in PHASES ''workspace-ready'' \<le> idx
      then cfor FIXTURE_AGENTS (\<lambda>agent. agent_offline env ''p9-3c1-cleanup'' ''cleanup agent deactivate''
             (''cleanup agent deactivate blocked for '' @ agent) agent)
      else creturn ())"

text \<open>The last gates; the digest of the projection and the state of the database.\<close>
definition cleanup_gates :: "'w ctl_env \<Rightarrow> string \<Rightarrow> ('w, string \<times> json) ctl" where
  "cleanup_gates env run_id =
     cbind (canonical_projection_snapshot env) (\<lambda>projection.
     cbind (read_manifest env run_id) (\<lambda>(manifest, _).
     cseq (crefuse (dget manifest ''canonical_projection_sha256'' \<noteq> JStr projection) ''cleanup canonical projection drift'')
     (cbind (db_integrity_check env) (\<lambda>integrity.
      cbind (db_schema_version env) (\<lambda>schema.
      cbind (db_fk_check env) (\<lambda>fk.
      cseq (crefuse (dget integrity ''ok'' \<noteq> JBool True \<or> \<not> py_eq schema (JInt EXPECTED_SCHEMA) \<or> fk \<noteq> 0)
        ''cleanup DB health gate failed'')
      (creturn (projection, JObj [(''integrity'', dget integrity ''integrity''), (''schema'', schema),
        (''fk_violations'', JInt fk)]))))))))"

text \<open>The cleanup from a phase that admits it.\<close>
definition cleanup_from :: "'w ctl_env \<Rightarrow> string \<Rightarrow> json \<Rightarrow> int \<Rightarrow> ('w, dict) ctl" where
  "cleanup_from env run_id phase idx =
     cseq (require_owned_lock env run_id None)
     (cseq (append_ledger env phase ''cleanup.initiated'' [(''from_phase'', phase)])
     (cbind (cread (recorded_agents env run_id)) (\<lambda>agents.
      cseq (cfor agents (cleanup_stop env run_id))
      (cseq (cfor agents (unit_cleanup env run_id ''cleanup helper response mismatch for ''))
      (cbind read_ledger (\<lambda>records.
       cbind (clift (efoldM submitted_entry [] records)) (\<lambda>submitted.
       cseq (require_quiet_jobs env submitted)
       (cseq (cleanup_catalogs env idx)
       (cbind (cleanup_gates env run_id) (\<lambda>(projection, db).
        let final = JObj [(''from_phase'', phase), (''recorded_agents'', JList (map JStr agents)),
              (''canonical_projection_sha256'', JStr projection), (''db'', db)] in
        cseq (write_evidence env ''cleanup.json'' final)
        (cseq (append_ledger env (JStr ''done'') ''cleanup.completed''
          [(''evidence_sha256'', JStr (ce_sha env (utf8 (canonical_json final))))])
        (cseq (write_phase env ''done'' False)
        (cseq (release_lock env run_id)
        (creturn [(''status'', JStr ''cleanup_completed''), (''run_id'', JStr run_id), (''from_phase'', phase)]))))))))))))))"

definition execute_cleanup_suffix :: "'w ctl_env \<Rightarrow> string \<Rightarrow> ('w, dict) ctl" where
  "execute_cleanup_suffix env run_id =
     cbind current_phase (\<lambda>phase.
     cbind (clift (cleanup_index phase)) (\<lambda>idx.
     cleanup_from env run_id phase idx))"

section \<open>The loop\<close>

text \<open>One turn of the loop from the phase it believes in; the phase it reaches.\<close>
definition machine_turn :: "'w ctl_env \<Rightarrow> string \<Rightarrow> dict \<Rightarrow> json \<Rightarrow> ('w, json) ctl" where
  "machine_turn env run_id auth phase =
     cbind (clift (handler_of env run_id phase)) (\<lambda>(next_phase, handler).
     cbind current_phase (\<lambda>actual.
     cseq (crefuse (actual \<noteq> phase) (''phase mismatch: expected '' @ py_str phase @ '', got '' @ py_str actual))
     (cseq (validate_ledger_chain env)
     (cbind phase_tail_agree (\<lambda>agree.
      cseq (crefuse (\<not> agree) ''ledger/phase tail mismatch before phase mutation'')
      (cseq (require_owned_lock env run_id None)
      (cseq (require_live_authorization env run_id auth)
      (cseq handler
      (cbind current_phase (\<lambda>reached.
       cseq (crefuse (reached = JNull) ''phase disappeared mid-machine'')
       (cseq (crefuse (reached \<noteq> JStr next_phase)
         (''handler for '' @ py_str actual @ '' advanced to '' @ py_str reached @ '', expected '' @ next_phase))
       (creturn reached))))))))))))"

fun machine_loop :: "'w ctl_env \<Rightarrow> string \<Rightarrow> dict \<Rightarrow> nat \<Rightarrow> json \<Rightarrow> ('w, unit) ctl" where
  "machine_loop env run_id auth n phase =
     (if phase = JStr ''done'' then creturn ()
      else
        case n of
          0 \<Rightarrow> cdiverge
        | Suc k \<Rightarrow> cbind (machine_turn env run_id auth phase) (machine_loop env run_id auth k))"

declare machine_loop.simps [simp del]

text \<open>The handler of the loop's exceptions; the exception is raised again.\<close>
definition machine_failed :: "'w ctl_env \<Rightarrow> string \<Rightarrow> ctl_exc \<Rightarrow> ('w, 'a) ctl" where
  "machine_failed env run_id e =
     cbind current_phase (\<lambda>current.
     cseq (if current \<in> set (JNull # map JStr [''sealed'', ''preflight-ok'', ''lock-held'']) then creturn ()
       else
         cseq (append_ledger env (if truthy current then current else JStr ''unknown'') ''machine.failure'' [])
         (cbind (clift (phase_index (if truthy current then current else JStr []))) (\<lambda>idx.
          if index_in PHASES ''baseline-captured'' \<le> idx then cseq (execute_cleanup_suffix env run_id) (creturn ())
          else creturn ())))
     (craise e))"

text \<open>The loop ends within as many turns as there are phases.\<close>
definition execute_state_machine :: "'w ctl_env \<Rightarrow> string \<Rightarrow> dict \<Rightarrow> ('w, dict) ctl" where
  "execute_state_machine env run_id auth =
     cbind current_phase (\<lambda>phase.
     cseq (crefuse (phase = JNull) ''no phase file'')
     (cseq (ccatch (machine_loop env run_id auth (length PHASES) phase) (machine_failed env run_id))
     (creturn [(''status'', JStr ''done''), (''run_id'', JStr run_id)])))"

section \<open>The commands run and cleanup\<close>

text \<open>\<open>_atomic_copy\<close> of the authorization into the run directory.\<close>
definition atomic_copy :: "'w ctl_env \<Rightarrow> string \<Rightarrow> ('w, unit) ctl" where
  "atomic_copy env src =
     cseq (io_step env ''makedirs control'' id)
     (cbind (cread (\<lambda>s. open_file env (cs_world s) src)) (\<lambda>data.
      io_step env ''replace live authorization'' (\<lambda>f. f\<lparr>cf_auth := Some (new_file data)\<rparr>)))"

definition check_copy :: "'w ctl_env \<Rightarrow> string \<Rightarrow> string \<Rightarrow> 'w ctl_state \<Rightarrow> ctl_exc + unit" where
  "check_copy env run_id sha s =
     (case cf_auth (cs_files s) of
        None \<Rightarrow> Inl (OtherExc ''FileNotFoundError'')
      | Some i \<Rightarrow>
          ebind (validate_owner_mode (auth_path run_id) i 0 0 MODE_0600) (\<lambda>_.
          if ce_sha env (in_data i) \<noteq> sha then Inl (ControllerError ''live authorization copy digest mismatch'')
          else Inr ()))"

text \<open>The handler of run: before anything is changed in production, the lock is given back.\<close>
definition run_failed :: "'w ctl_env \<Rightarrow> string \<Rightarrow> ctl_exc \<Rightarrow> ('w, 'a) ctl" where
  "run_failed env run_id e =
     cbind current_phase (\<lambda>current.
     cbind (clift (in_strings current [''sealed'', ''preflight-ok'', ''lock-held''])) (\<lambda>early.
     cseq (if early
       then cseq (write_evidence env ''preactivation-failed.json''
              (JObj [(''phase'', current), (''production_mutation_started'', JBool False)]))
            (release_lock env run_id)
       else creturn ())
     (craise e)))"

definition cmd_run :: "'w ctl_env \<Rightarrow> string \<Rightarrow> string \<Rightarrow> string \<Rightarrow> ('w, dict) ctl" where
  "cmd_run env run_id file sha =
     cseq (clift (validate_run_id run_id))
     (cbind current_phase (\<lambda>phase.
      cseq (crefuse (phase \<noteq> JStr ''sealed'') ''run requires phase=sealed'')
      (cbind (cread (\<lambda>s. Inr (cf_auth (cs_files s) \<noteq> None))) (\<lambda>present.
       cseq (crefuse present ''live authorization already exists; nonce may have been used'')
       (cbind (validate_authorization env run_id file sha) (\<lambda>auth.
        cseq (atomic_copy env file)
        (cseq (cread (check_copy env run_id sha))
        (cbind (acquire_lock env run_id) (\<lambda>token.
         ccatch
           (cseq (preflight env run_id (Some token))
           (cseq (transition_to env ''preflight-ok'')
           (execute_state_machine env run_id auth)))
           (run_failed env run_id))))))))))"

definition check_cleanup_phase :: "string \<Rightarrow> json \<Rightarrow> ctl_exc + unit" where
  "check_cleanup_phase run_id phase =
     (if phase = JNull then Inl (ControllerError (''run '' @ run_id @ '' not prepared''))
      else if phase = JStr ''sealed'' then Inl (ControllerError ''cannot cleanup a sealed inert run'')
      else if phase = JStr ''done'' then Inl (ControllerError ''run already done; cannot cleanup'')
      else
        ebind (phase_index phase) (\<lambda>idx.
        if idx < index_in PHASES ''workspace-ready''
          then Inl (ControllerError (''cleanup requires at least workspace-ready, got '' @ py_str phase))
        else Inr ()))"

definition cmd_cleanup :: "'w ctl_env \<Rightarrow> string \<Rightarrow> ('w, dict) ctl" where
  "cmd_cleanup env run_id =
     cseq (clift (validate_run_id run_id))
     (cbind current_phase (\<lambda>phase.
      cseq (clift (check_cleanup_phase run_id phase))
      (cseq (acquire_lock env run_id)
      (execute_cleanup_suffix env run_id))))"

section \<open>The program\<close>

text \<open>The parsed command line.\<close>
datatype command =
    CtlPrepare (cm_run: string) string string
  | CtlPreflight (cm_run: string)
  | CtlStatus (cm_run: string)
  | CtlRun (cm_run: string) string string
  | CtlCleanup (cm_run: string)

definition run_command_line :: "'w ctl_env \<Rightarrow> command \<Rightarrow> ('w, dict) ctl" where
  "run_command_line env c =
     (case c of
        CtlPrepare run_id unit_user unit_group \<Rightarrow> cmd_prepare env run_id unit_user unit_group
      | CtlPreflight run_id \<Rightarrow> cmd_preflight env run_id
      | CtlStatus run_id \<Rightarrow> cmd_status env run_id
      | CtlRun run_id file sha \<Rightarrow> cmd_run env run_id file sha
      | CtlCleanup run_id \<Rightarrow> cmd_cleanup env run_id)"

text \<open>
  What the process ends with: its exit code, stdout and stderr; or an exception that \<open>main\<close> does not
  catch; or not within the polls of the model.
\<close>
datatype outcome = Exit int string string | Escaped string | Unfinished

definition main :: "'w ctl_env \<Rightarrow> int \<Rightarrow> command \<Rightarrow> 'w ctl_state \<Rightarrow> outcome \<times> 'w ctl_state" where
  "main env euid c s =
     (if euid \<noteq> 0 then (Exit 1 [] (''p9_3c1_controller: must run as root'' @ [nl]), s)
      else
        case run_command_line env c s of
          (Inr result, s') \<Rightarrow> (Exit 0 (canonical_json (JObj result) @ [nl]) [], s')
        | (Inl (Raised (ControllerError msg)), s') \<Rightarrow> (Exit 1 [] (''ERROR: '' @ msg @ [nl]), s')
        | (Inl (Raised (OtherExc e)), s') \<Rightarrow> (Escaped e, s')
        | (Inl Diverged, s') \<Rightarrow> (Unfinished, s'))"

end
