(* ===== verification/ControllerLedger.thy ===== *)
theory ControllerLedger
  imports ControllerBase
begin

text \<open>
  What the ledger of the controller means: the text that a list of entries leaves in the file, and that
  reading, checking and appending agree with it. An entry is what a caller of \<open>append_ledger\<close> decides
  and the clock adds; sequence numbers and digests follow from the position.
\<close>

section \<open>Entries and their text\<close>

record entry =
  en_phase :: string
  en_event :: string
  en_evidence :: dict
  en_time :: string

definition entry_digest :: "(string \<Rightarrow> string) \<Rightarrow> nat \<Rightarrow> string \<Rightarrow> entry \<Rightarrow> string" where
  "entry_digest sha i prev e =
     sha (utf8 (canonical_json (JObj (record_body (JInt (int i + 1)) (JStr (en_phase e)) (JStr (en_event e)) (JStr prev)
       (JObj (en_evidence e)) (en_time e)))))"

definition entry_record :: "(string \<Rightarrow> string) \<Rightarrow> nat \<Rightarrow> string \<Rightarrow> entry \<Rightarrow> dict" where
  "entry_record sha i prev e =
     ledger_record (JInt (int i + 1)) (JStr (en_phase e)) (JStr (en_event e)) (JStr prev) (JObj (en_evidence e))
       (en_time e) (entry_digest sha i prev e)"

fun entry_records :: "(string \<Rightarrow> string) \<Rightarrow> nat \<Rightarrow> string \<Rightarrow> entry list \<Rightarrow> dict list" where
  "entry_records sha i prev [] = []"
| "entry_records sha i prev (e # es) =
     entry_record sha i prev e # entry_records sha (Suc i) (entry_digest sha i prev e) es"

fun digest_after :: "(string \<Rightarrow> string) \<Rightarrow> nat \<Rightarrow> string \<Rightarrow> entry list \<Rightarrow> string" where
  "digest_after sha i prev [] = prev"
| "digest_after sha i prev (e # es) = digest_after sha (Suc i) (entry_digest sha i prev e) es"

definition record_text :: "dict \<Rightarrow> string" where
  "record_text r = canonical_json (JObj r) @ [nl]"

definition ledger_text :: "(string \<Rightarrow> string) \<Rightarrow> entry list \<Rightarrow> string" where
  "ledger_text sha es = concat (map record_text (entry_records sha 0 GENESIS es))"

text \<open>What can be written and read back.\<close>
definition evidence_ok :: "dict \<Rightarrow> bool" where
  "evidence_ok d = (float_free (JObj d) \<and> keys_distinct (JObj d))"

definition entry_ok :: "entry \<Rightarrow> bool" where
  "entry_ok e = (evidence_ok (en_evidence e) \<and> en_time e \<noteq> [])"

text \<open>The ledger file holds the entries.\<close>
definition holds :: "(string \<Rightarrow> string) \<Rightarrow> string option \<Rightarrow> entry list \<Rightarrow> bool" where
  "holds sha file es =
     (list_all entry_ok es \<and> (case file of None \<Rightarrow> es = [] | Some t \<Rightarrow> t = ledger_text sha es))"

section \<open>Lines\<close>

lemma hex_digit_printable: "n < 16 \<Longrightarrow> 32 \<le> ord (hex_digit n)"
  by (simp add: ord_hex_digit)

lemma esc_char_printable: "c \<in> set (esc_char d) \<Longrightarrow> 32 \<le> ord c"
proof -
  have "32 \<le> ord (hex_digit (ord d div 16))" "32 \<le> ord (hex_digit (ord d mod 16))" if "ord d < 32"
    using that by (simp_all add: hex_digit_printable)
  then show "c \<in> set (esc_char d) \<Longrightarrow> 32 \<le> ord c"
    by (auto simp: esc_char_def ord_def split: if_splits)
qed

lemma quote_printable: "c \<in> set (quote s) \<Longrightarrow> 32 \<le> ord c"
  by (auto simp: quote_def escape_def ord_def dest: esc_char_printable)

lemma show_int_printable: "c \<in> set (show_int i) \<Longrightarrow> 32 \<le> ord c"
  by (auto dest!: num_char_show_int simp: num_char_def is_digit_def between_def ord_def)

lemma compact_printable: "float_free j \<Longrightarrow> c \<in> set (compact j) \<Longrightarrow> 32 \<le> ord c"
proof (induction j)
  case (JList xs)
  then show ?case
    using set_join_with [of "'',''" "map compact xs"] by (fastforce simp: list_all_iff ord_def)
next
  case (JObj d)
  then have sub: "c \<in> set (join_with '','' (map (\<lambda>(k, v). quote k @ '':'' @ compact v) d)) \<or> c \<in> set ''{}''"
    by auto
  have "32 \<le> ord c" if "c \<in> set (join_with '','' (map (\<lambda>(k, v). quote k @ '':'' @ compact v) d))"
  proof -
    have "c \<in> (\<Union>(k, v)\<in>set d. set (quote k @ '':'' @ compact v)) \<union> set '',''"
      using set_join_with [of "'',''" "map (\<lambda>(k, v). quote k @ '':'' @ compact v) d"] that by (fastforce split: prod.splits)
    then consider k v where "(k, v) \<in> set d" "c \<in> set (compact v)" | k where "c \<in> set (quote k)" | "c \<in> set '':,''"
      by auto
    then show ?thesis
    proof cases
      case 1
      then show ?thesis
        using JObj by (fastforce simp: list_all_iff)
    next
      case 2
      then show ?thesis
        by (rule quote_printable)
    qed (auto simp: ord_def)
  qed
  then show ?case
    using sub by (auto simp: ord_def)
next
  case (JInt i)
  then show ?case
    by (simp add: show_int_printable)
next
  case (JStr s)
  then show ?case
    by (simp add: quote_printable)
qed (auto simp: ord_def split: if_splits)

lemma canonical_printable: "float_free j \<Longrightarrow> c \<in> set (canonical_json j) \<Longrightarrow> 32 \<le> ord c"
  unfolding canonical_json_def by (rule compact_printable [OF float_free_sort_keys])

lemma universal_nl_id: "CHR 0x0D \<notin> set s \<Longrightarrow> universal_nl s = s"
  by (induction s rule: universal_nl.induct) auto

lemma split_lines_text:
  "(\<And>w. w \<in> set ws \<Longrightarrow> nl \<notin> set w) \<Longrightarrow> split_on nl (concat (map (\<lambda>w. w @ [nl]) ws)) = ws @ [[]]"
  by (induction ws) (auto simp: split_on_append_sep)

lemma file_lines_text:
  assumes "\<And>w c. w \<in> set ws \<Longrightarrow> c \<in> set w \<Longrightarrow> 32 \<le> ord c"
  shows "file_lines (concat (map (\<lambda>w. w @ [nl]) ws)) = ws"
proof -
  have clean: "nl \<notin> set w" "CHR 0x0D \<notin> set w" if "w \<in> set ws" for w
    using assms [OF that, of nl] assms [OF that, of "CHR 0x0D"] by (auto simp: ord_def)
  then have "CHR 0x0D \<notin> set (concat (map (\<lambda>w. w @ [nl]) ws))"
    by auto
  then show ?thesis
    using clean(1) by (simp add: file_lines_def universal_nl_id split_lines_text)
qed

section \<open>Sorted dictionaries\<close>

lemma map_of_sort_key: "distinct (map fst d) \<Longrightarrow> map_of (sort_key fst d) = map_of d"
proof -
  assume d: "distinct (map fst d)"
  then have "distinct (map fst (sort_key fst d))"
    by (simp only: distinct_map set_sort distinct_sort)
  then show ?thesis
    using d by (simp add: map_of_inject_set)
qed

lemma map_of_map_snd: "map_of (map (\<lambda>(k, v). (k, f v)) d) k = map_option f (map_of d k)"
  by (induction d) auto

lemma map_fst_map_snd: "map fst (map (\<lambda>(k, v). (k, f v)) d) = map fst d"
  by (induction d) auto

lemma map_of_sort_keys:
  assumes "distinct (map fst d)"
  shows "map_of (sort_key fst (map (\<lambda>(k, v). (k, sort_keys v)) d)) k = map_option sort_keys (map_of d k)"
proof -
  have "map_of (sort_key fst (map (\<lambda>(k, v). (k, sort_keys v)) d)) = map_of (map (\<lambda>(k, v). (k, sort_keys v)) d)"
    using assms by (intro map_of_sort_key) (simp only: map_fst_map_snd)
  then show ?thesis
    by (simp add: map_of_map_snd)
qed

lemma sort_keys_idem [simp]: "sort_keys (sort_keys j) = sort_keys j"
proof (induction j)
  case (JObj d)
  let ?e = "sort_key fst (map (\<lambda>(k, v). (k, sort_keys v)) d)"
  have "map (\<lambda>(k, v). (k, sort_keys v)) ?e = ?e"
    using JObj by (intro map_idI) auto
  then show ?case
    by (simp add: sort_key_id_if_sorted)
qed auto

lemma dget_sort_keys:
  assumes "sort_keys (JObj d) = JObj e" "distinct (map fst d)"
  shows "dget e k = sort_keys (dget d k)" "has_key e k = has_key d k"
  using assms map_of_sort_keys [of d k] by (auto simp: dget_def has_key_def split: option.splits)

lemma sort_keys_truthy [simp]: "truthy (sort_keys j) = truthy j"
proof (cases j)
  case (JObj d)
  have "sort_key fst (map (\<lambda>(k, v). (k, sort_keys v)) d) = [] \<longleftrightarrow> d = []"
    by (metis length_0_conv length_map length_sort)
  then show ?thesis
    using JObj by simp
qed auto

lemma sort_keys_scalar [simp]:
  "sort_keys j = JStr s \<longleftrightarrow> j = JStr s"
  "sort_keys j = JInt i \<longleftrightarrow> j = JInt i"
  "sort_keys j = JNull \<longleftrightarrow> j = JNull"
  by (cases j; simp)+

lemma or_empty_sort_keys: "or_empty (sort_keys j) = sort_keys (or_empty j)"
  by (simp add: or_empty_def)

text \<open>The digest of a record does not depend on the order of the keys in its evidence.\<close>
lemma canonical_body_sorted:
  "canonical_json (JObj (record_body seq phase event prev (sort_keys evidence) ts))
   = canonical_json (JObj (record_body seq phase event prev evidence ts))"
  by (simp add: canonical_json_def record_body_def or_empty_sort_keys)


section \<open>Reading and checking\<close>

lemma strftime_us_not_empty [simp]: "strftime_us t \<noteq> []"
  by (simp add: strftime_us_def)

lemma record_keys_distinct: "distinct (map fst (ledger_record seq phase event prev evidence ts d))"
  by (simp add: ledger_record_def)

lemma entry_record_ok: "entry_ok e \<Longrightarrow> evidence_ok (entry_record sha i prev e)"
  by (simp add: evidence_ok_def entry_ok_def entry_record_def ledger_record_def or_empty_def)

lemma entry_records_ok: "list_all entry_ok es \<Longrightarrow> r \<in> set (entry_records sha i prev es) \<Longrightarrow> evidence_ok r"
  by (induction es arbitrary: i prev) (auto simp: entry_record_ok)

lemma loads_record: "evidence_ok r \<Longrightarrow> loads (canonical_json (JObj r)) = Inr (sort_keys (JObj r))"
  by (simp add: loads_def json_parse_canonical evidence_ok_def del: sort_keys.simps)

lemma file_lines_ledger:
  assumes "list_all entry_ok es"
  shows "file_lines (ledger_text sha es) = map (\<lambda>r. canonical_json (JObj r)) (entry_records sha 0 GENESIS es)"
proof -
  have "file_lines (concat (map (\<lambda>w. w @ [nl]) (map (\<lambda>r. canonical_json (JObj r)) (entry_records sha 0 GENESIS es))))
    = map (\<lambda>r. canonical_json (JObj r)) (entry_records sha 0 GENESIS es)"
  proof (rule file_lines_text)
    fix w c
    assume "w \<in> set (map (\<lambda>r. canonical_json (JObj r)) (entry_records sha 0 GENESIS es))" and c: "c \<in> set w"
    then obtain r where "r \<in> set (entry_records sha 0 GENESIS es)" "w = canonical_json (JObj r)"
      by auto
    then have "float_free (JObj r)" "c \<in> set (canonical_json (JObj r))"
      using c entry_records_ok [OF assms] by (simp_all only: evidence_ok_def)
    then show "32 \<le> ord c"
      by (rule canonical_printable)
  qed
  then show ?thesis
    by (simp add: ledger_text_def record_text_def [abs_def] comp_def)
qed

lemma canonical_not_empty [simp]: "canonical_json (JObj d) \<noteq> []"
  by (simp add: canonical_json_def)

lemma emapM_Inr: "(\<And>x. x \<in> set xs \<Longrightarrow> f x = Inr (g x)) \<Longrightarrow> emapM f xs = Inr (map g xs)"
  by (induction xs) auto

lemma emapM_map: "emapM f (map g xs) = emapM (f \<circ> g) xs"
  by (induction xs) simp_all

lemma read_ledger_text_holds:
  assumes "holds sha file es"
  shows "read_ledger_text file = Inr (map (\<lambda>r. sort_keys (JObj r)) (entry_records sha 0 GENESIS es))"
proof (cases "file")
  case (Some t)
  then have es: "list_all entry_ok es" and t: "t = ledger_text sha es"
    using assms by (simp_all add: holds_def)
  have "emapM loads (map (\<lambda>r. canonical_json (JObj r)) (entry_records sha 0 GENESIS es))
    = Inr (map (\<lambda>r. sort_keys (JObj r)) (entry_records sha 0 GENESIS es))"
    by (subst emapM_map) (rule emapM_Inr, simp only: comp_def loads_record [OF entry_records_ok [OF es]])
  then show ?thesis
    by (simp add: read_ledger_text_def Some t file_lines_ledger [OF es] filter_map comp_def)
qed (use assms in \<open>simp add: holds_def read_ledger_text_def\<close>)

lemma py_eq_refl [simp]: "py_eq j j"
  by (simp add: py_eq_def)

lemma check_record_entry:
  assumes "entry_ok e"
  shows "check_record sha i prev (sort_keys (JObj (entry_record sha i prev e))) = Inr (entry_digest sha i prev e)"
proof -
  let ?r = "entry_record sha i prev e"
  obtain d where d: "sort_keys (JObj ?r) = JObj d"
    by simp
  have get: "dget d k = sort_keys (dget ?r k)" "has_key d k = has_key ?r k" for k
    using dget_sort_keys [OF d] record_keys_distinct by (simp_all add: entry_record_def)
  have fields: "dget d ''seq'' = JInt (int i + 1)" "dget d ''prev_sha256'' = JStr prev" "dget d ''timestamp_utc'' = JStr (en_time e)"
    "dget d ''phase'' = JStr (en_phase e)" "dget d ''event'' = JStr (en_event e)"
    "dget d ''record_sha256'' = JStr (entry_digest sha i prev e)" "dget d ''evidence'' = sort_keys (or_empty (JObj (en_evidence e)))"
    "has_key d ''phase''" "has_key d ''event''"
    by (simp_all only: get) (simp_all add: entry_record_def ledger_record_def dget_def has_key_def)
  obtain c cs where ts: "en_time e = c # cs"
    using assms by (cases "en_time e") (auto simp: entry_ok_def)
  have "compute_record_sha sha (dget d ''seq'') (JStr (en_phase e)) (JStr (en_event e)) (dget d ''prev_sha256'') (dget d ''evidence'')
      (JStr (en_time e)) = Inr (entry_digest sha i prev e)"
    using ts by (simp add: compute_record_sha_def fields canonical_body_sorted entry_digest_def) (simp add: or_empty_def)
  then show ?thesis
    unfolding d check_record_def by (simp add: as_dict_def fields dict_item_def ts)
qed

lemma check_chain_entries:
  "list_all entry_ok es \<Longrightarrow>
   check_chain sha i prev (map (\<lambda>r. sort_keys (JObj r)) (entry_records sha i prev es)) = Inr (digest_after sha i prev es)"
  by (induction es arbitrary: i prev) (simp_all add: check_record_entry del: sort_keys.simps)

text \<open>A ledger that holds entries passes the check.\<close>
lemma validate_ledger_chain_holds:
  assumes "holds sha (cf_ledger (cs_files s)) es" "ce_sha env = sha"
  shows "validate_ledger_chain env s = (Inr (), s)"
  using assms check_chain_entries [of es sha 0 GENESIS]
  by (simp add: validate_ledger_chain_def cbind_def read_ledger_def cread_def clift_def read_ledger_text_holds)
     (simp add: holds_def)


section \<open>Appending\<close>

lemma entry_records_append:
  "entry_records sha i prev (es @ fs)
   = entry_records sha i prev es @ entry_records sha (i + length es) (digest_after sha i prev es) fs"
  by (induction es arbitrary: i prev) simp_all

lemma digest_after_append:
  "digest_after sha i prev (es @ fs) = digest_after sha (i + length es) (digest_after sha i prev es) fs"
  by (induction es arbitrary: i prev) simp_all

lemma ledger_text_snoc:
  "ledger_text sha (es @ [e])
   = ledger_text sha es @ record_text (entry_record sha (length es) (digest_after sha 0 GENESIS es) e)"
  by (simp add: ledger_text_def entry_records_append)

lemma loads_entry:
  assumes "entry_ok e"
  obtains d where "loads (canonical_json (JObj (entry_record sha i prev e))) = Inr (JObj d)"
    "has_key d ''seq''" "dget d ''seq'' = JInt (int i + 1)"
    "has_key d ''record_sha256''" "dget d ''record_sha256'' = JStr (entry_digest sha i prev e)"
    "dget d ''phase'' = JStr (en_phase e)"
proof -
  let ?r = "entry_record sha i prev e"
  obtain d where d: "sort_keys (JObj ?r) = JObj d"
    by simp
  have get: "dget d k = sort_keys (dget ?r k)" "has_key d k = has_key ?r k" for k
    using dget_sort_keys [OF d] record_keys_distinct by (simp_all add: entry_record_def)
  show ?thesis
    by (rule that [of d], simp only: loads_record [OF entry_record_ok [OF assms]] d, simp_all only: get)
       (simp_all add: entry_record_def ledger_record_def dget_def has_key_def)
qed

lemma last_entry_record:
  "es \<noteq> [] \<Longrightarrow> \<exists>i prev. last (entry_records sha k g es) = entry_record sha i prev (last es)
     \<and> digest_after sha k g es = entry_digest sha i prev (last es) \<and> k + length es = Suc i"
proof (induction es arbitrary: k g rule: rev_induct)
  case (snoc e es)
  then show ?case
    by (auto simp: entry_records_append digest_after_append)
qed simp

lemma ledger_tail_holds:
  assumes "holds sha file es"
  shows "ledger_tail file = Inr (JStr (digest_after sha 0 GENESIS es), JInt (int (length es) + 1))"
proof (cases "es = []")
  case True
  then show ?thesis
    using assms by (auto simp: holds_def ledger_tail_def ledger_text_def file_lines_def split: option.splits)
next
  case False
  then obtain t where t: "file = Some t" "t = ledger_text sha es" and es: "list_all entry_ok es"
    using assms by (auto simp: holds_def split: option.splits)
  obtain i prev where last: "last (entry_records sha 0 GENESIS es) = entry_record sha i prev (last es)"
    and digest: "digest_after sha 0 GENESIS es = entry_digest sha i prev (last es)" and i: "length es = Suc i"
    using last_entry_record [OF False, of sha 0 GENESIS] by auto
  have ne: "entry_records sha 0 GENESIS es \<noteq> []"
    using False by (cases es) simp_all
  have "entry_ok (last es)"
    using es False by (simp add: list_all_iff)
  then obtain d where d: "loads (canonical_json (JObj (entry_record sha i prev (last es)))) = Inr (JObj d)"
    "has_key d ''seq''" "dget d ''seq'' = JInt (int i + 1)"
    "has_key d ''record_sha256''" "dget d ''record_sha256'' = JStr (entry_digest sha i prev (last es))"
    by (rule loads_entry)
  have "last (file_lines t) = canonical_json (JObj (entry_record sha i prev (last es)))"
    using ne by (simp add: t file_lines_ledger [OF es] last_map last)
  then show ?thesis
    using ne d by (simp add: ledger_tail_def t(1) as_dict_def digest i) (simp add: t(2) file_lines_ledger [OF es])
qed

text \<open>An append, whatever the disk answers, leaves the ledger as it is or with the new entry.\<close>
definition new_entry :: "string \<Rightarrow> string \<Rightarrow> dict \<Rightarrow> utc_time \<Rightarrow> entry" where
  "new_entry phase event evidence t =
     \<lparr>en_phase = phase, en_event = event, en_evidence = evidence, en_time = strftime_us t\<rparr>"

lemma new_entry_ok: "evidence_ok evidence \<Longrightarrow> entry_ok (new_entry phase event evidence t)"
  by (simp add: entry_ok_def new_entry_def)

lemma holds_append_line:
  assumes "holds sha (cf_ledger f) es" "entry_ok e"
  shows "holds sha (cf_ledger (append_line (record_text (entry_record sha (length es) (digest_after sha 0 GENESIS es) e)) f)) (es @ [e])"
proof (cases "cf_ledger f")
  case None
  then show ?thesis
    using assms by (simp add: holds_def append_line_def ledger_text_def)
next
  case (Some t)
  then show ?thesis
    using assms by (simp add: holds_def append_line_def ledger_text_snoc)
qed

lemma append_ledger_cases:
  assumes "holds (ce_sha env) (cf_ledger (cs_files s)) es" "evidence_ok evidence"
  obtains (unchanged) e s' where "append_ledger env (JStr phase) event evidence s = (Inl (Raised (OtherExc e)), s')" "cs_files s' = cs_files s"
  | (appended) r t s' line where "append_ledger env (JStr phase) event evidence s = (r, s')"
    "cs_files s' = append_line line (cs_files s)" "r = Inr (entry_digest (ce_sha env) (length es) (digest_after (ce_sha env) 0 GENESIS es) (new_entry phase event evidence t)) \<or> (\<exists>e. r = Inl (Raised (OtherExc e)))"
    "line = record_text (entry_record (ce_sha env) (length es) (digest_after (ce_sha env) 0 GENESIS es) (new_entry phase event evidence t))"
proof -
  let ?prev = "digest_after (ce_sha env) 0 GENESIS es"
  obtain a1 w1 where io1: "ce_io env ''makedirs ledger'' (cs_world s) = (a1, w1)"
    by (cases "ce_io env ''makedirs ledger'' (cs_world s)")
  obtain t w2 where clock: "ce_now env w1 = (t, w2)"
    by (cases "ce_now env w1")
  obtain a2 w3 where io2: "ce_io env ''append ledger'' w2 = (a2, w3)"
    by (cases "ce_io env ''append ledger'' w2")
  let ?e = "new_entry phase event evidence t"
  let ?d = "entry_digest (ce_sha env) (length es) ?prev ?e"
  have sha: "compute_record_sha (ce_sha env) (JInt (int (length es) + 1)) (JStr phase) (JStr event) (JStr ?prev) (JObj evidence)
      (JStr (strftime_us t)) = Inr ?d"
    by (simp add: compute_record_sha_def entry_digest_def new_entry_def)
  have line: "canonical_json (JObj (ledger_record (JInt (int (length es) + 1)) (JStr phase) (JStr event) (JStr ?prev) (JObj evidence)
      (strftime_us t) ?d)) @ [nl] = record_text (entry_record (ce_sha env) (length es) ?prev ?e)"
    by (simp add: record_text_def entry_record_def new_entry_def)
  note run = append_ledger_def cseq_def cbind_def io_step_def cread_def clift_def cworld_def now_def creturn_def io1 clock io2
    ledger_tail_holds [OF assms(1)] sha line
  show ?thesis
  proof (cases a1)
    case IoDone
    show ?thesis
    proof (cases a2)
      case IoDone
      then show ?thesis
        by (intro appended [OF _ _ disjI1 refl], simp add: run \<open>a1 = IoDone\<close>) simp_all
    next
      case (IoBefore e)
      then show ?thesis
        by (intro unchanged, simp add: run \<open>a1 = IoDone\<close>) simp
    next
      case (IoAfter e)
      then show ?thesis
        by (intro appended [OF _ _ disjI2 refl], simp add: run \<open>a1 = IoDone\<close>) simp_all
    qed
  qed (intro unchanged, simp add: run, simp)+
qed


definition new_line :: "(string \<Rightarrow> string) \<Rightarrow> entry list \<Rightarrow> entry \<Rightarrow> string" where
  "new_line sha es e = record_text (entry_record sha (length es) (digest_after sha 0 GENESIS es) e)"

lemma holds_new_line:
  "holds sha (cf_ledger f) es \<Longrightarrow> entry_ok e \<Longrightarrow> holds sha (cf_ledger (append_line (new_line sha es e) f)) (es @ [e])"
  by (simp add: new_line_def holds_append_line)

section \<open>The phase file\<close>

text \<open>The file is missing, or holds one of the phases.\<close>
definition phase_known :: "ctl_files \<Rightarrow> string option \<Rightarrow> bool" where
  "phase_known f q =
     (case q of None \<Rightarrow> cf_phase f = None | Some p \<Rightarrow> p \<in> set PHASES \<and> (\<exists>t. cf_phase f = Some (phase_text p t)))"

definition phase_rank :: "string option \<Rightarrow> int" where
  "phase_rank q = (case q of None \<Rightarrow> -1 | Some p \<Rightarrow> index_in PHASES p)"

text \<open>Ledger and phase file are the controller's own.\<close>
definition well_formed :: "(string \<Rightarrow> string) \<Rightarrow> ctl_files \<Rightarrow> bool" where
  "well_formed sha f = (\<exists>es q. holds sha (cf_ledger f) es \<and> phase_known f q)"

lemma phase_of_text_known: "phase_known f q \<Longrightarrow> phase_of_text (cf_phase f) = Inr (opt_str q)"
  by (auto simp: phase_known_def phase_of_text_def phase_text_def loads_def json_parse_canonical_line as_dict_def dget_def opt_str_def
      split: option.splits)

lemma current_phase_known: "phase_known (cs_files s) q \<Longrightarrow> current_phase s = (Inr (opt_str q), s)"
  by (simp add: current_phase_def cread_def phase_of_text_known)

lemma phase_known_write: "p \<in> set PHASES \<Longrightarrow> phase_known (f\<lparr>cf_phase := Some (phase_text p t)\<rparr>) (Some p)"
  by (auto simp: phase_known_def)

lemma phase_known_append [simp]: "phase_known (append_line line f) q = phase_known f q"
  by (simp add: phase_known_def append_line_def split: option.split)

lemma phase_index_str [simp]: "phase_index (JStr p) = Inr (index_in PHASES p)"
  by (simp add: phase_index_def)

lemma index_from_iff: "0 \<le> i \<Longrightarrow> (index_from i ps p < 0) = (p \<notin> set ps)"
  by (induction ps arbitrary: i) auto

lemma index_in_iff: "(index_in ps p < 0) = (p \<notin> set ps)"
  by (simp add: index_in_def index_from_iff)

text \<open>The indices.\<close>
lemma index_PHASES [simp]:
  "index_in PHASES ''sealed'' = 0" "index_in PHASES ''preflight-ok'' = 1" "index_in PHASES ''lock-held'' = 2"
  "index_in PHASES ''baseline-captured'' = 3" "index_in PHASES ''workspace-ready'' = 4"
  "index_in PHASES ''agents-online'' = 5" "index_in PHASES ''executor-v1-disabled'' = 6"
  "index_in PHASES ''capacity-v1-active'' = 7" "index_in PHASES ''executor-v2-enabled'' = 8"
  "index_in PHASES ''matrix-running'' = 9" "index_in PHASES ''matrix-verified'' = 10"
  "index_in PHASES ''intake-frozen'' = 11" "index_in PHASES ''units-quiescent'' = 12"
  "index_in PHASES ''executor-v3-disabled'' = 13" "index_in PHASES ''capacity-v2-empty'' = 14"
  "index_in PHASES ''executor-v4-empty'' = 15" "index_in PHASES ''agents-offline'' = 16"
  "index_in PHASES ''canonical-compared'' = 17" "index_in PHASES ''done'' = 18"
  by (simp_all add: index_in_def PHASES_def)

lemma phase_rank_some: "phase_known f (Some q) \<Longrightarrow> 0 \<le> index_in PHASES q"
  using index_in_iff [of PHASES q] by (auto simp: phase_known_def)

text \<open>A write of the phase file goes forward, and is done, not done, or done with an error.\<close>
lemma write_phase_cases:
  assumes "phase_known (cs_files s) q"
  obtains (unchanged) e s' where "write_phase env p False s = (Inl e, s')" "cs_files s' = cs_files s" "e \<noteq> Diverged"
  | (written) r s' t where "write_phase env p False s = (r, s')"
    "cs_files s' = (cs_files s)\<lparr>cf_phase := Some (phase_text p t)\<rparr>" "r = Inr () \<or> (\<exists>e. r = Inl (Raised (OtherExc e)))"
    "phase_rank q < index_in PHASES p \<or> q = None"
proof -
  obtain a1 w1 where io1: "ce_io env ''makedirs control'' (cs_world s) = (a1, w1)"
    by (cases "ce_io env ''makedirs control'' (cs_world s)")
  obtain t w2 where clock: "ce_now env w1 = (t, w2)"
    by (cases "ce_now env w1")
  obtain a2 w3 where io2: "ce_io env ''replace phase'' w2 = (a2, w3)"
    by (cases "ce_io env ''replace phase'' w2")
  have phase: "phase_of_text (cf_phase (cs_files s)) = Inr (opt_str q)"
    by (rule phase_of_text_known [OF assms])
  note run = write_phase_def cseq_def cbind_def io_step_def current_phase_def cread_def clift_def cworld_def now_def creturn_def
    crefuse_def craise_def io1 clock io2 phase opt_str_def phase_rank_def
  show ?thesis
  proof (cases a1)
    case a1: IoDone
    show ?thesis
    proof (cases "q \<noteq> None \<and> index_in PHASES p \<le> phase_rank q")
      case True
      then obtain q0 where q: "q = Some q0" and "index_in PHASES p \<le> phase_rank q"
        by auto
      then show ?thesis
        by (intro unchanged, simp add: run a1 q) simp_all
    next
      case False
      then have go: "phase_rank q < index_in PHASES p \<or> q = None"
        by auto
      show ?thesis
      proof (cases a2)
        case IoDone
        then show ?thesis
          using go by (cases q) (intro written [OF _ _ disjI1 go], simp add: run a1, simp, simp)+
      next
        case (IoBefore e)
        then show ?thesis
          using go by (cases q) (intro unchanged, simp add: run a1, simp, simp)+
      next
        case (IoAfter e)
        then show ?thesis
          using go by (cases q) (intro written [OF _ _ disjI2 go], simp add: run a1, simp, simp)+
      qed
    qed
  qed (intro unchanged, simp add: run, simp, simp)+
qed

lemma phase_tail_agree_known:
  assumes held: "holds sha (cf_ledger (cs_files s)) es" and known: "phase_known (cs_files s) q"
  shows "phase_tail_agree s = (Inr ((if es = [] then None else Some (en_phase (last es))) = q), s)"
proof -
  let ?rs = "entry_records sha 0 GENESIS es"
  have ne: "?rs = [] \<longleftrightarrow> es = []"
    by (cases es) simp_all
  note run = phase_tail_agree_def cbind_def current_phase_known [OF known] read_ledger_def cread_def
    read_ledger_text_holds [OF held] creturn_def clift_def
  show ?thesis
  proof (cases "es = []")
    case True
    then show ?thesis
      by (cases q) (simp_all add: run opt_str_def)
  next
    case False
    obtain i prev where last: "last ?rs = entry_record sha i prev (last es)"
      using last_entry_record [OF False, of sha 0 GENESIS] by auto
    have "entry_ok (last es)"
      using held False by (simp add: holds_def list_all_iff)
    moreover from this obtain d where "loads (canonical_json (JObj (entry_record sha i prev (last es)))) = Inr (JObj d)"
      "dget d ''phase'' = JStr (en_phase (last es))"
      by (rule loads_entry)
    ultimately have d: "sort_keys (JObj (last ?rs)) = JObj d" "dget d ''phase'' = JStr (en_phase (last es))"
      by (simp_all add: last loads_record [OF entry_record_ok] del: sort_keys.simps)
    then show ?thesis
      using False ne by (cases q) (simp_all add: run last_map as_dict_def opt_str_def py_eq_def del: sort_keys.simps)
  qed
qed

text \<open>The entry of a transition.\<close>
definition transition_entry :: "string \<Rightarrow> string \<Rightarrow> utc_time \<Rightarrow> entry" where
  "transition_entry q p t = new_entry p ''phase.transition'' [(''from'', JStr q), (''to'', JStr p)] t"

lemma transition_entry_ok [simp]:
  "entry_ok (transition_entry q p t)" "en_event (transition_entry q p t) = ''phase.transition''"
  "en_phase (transition_entry q p t) = p"
  by (simp_all add: transition_entry_def entry_ok_def evidence_ok_def new_entry_def)

definition adjacent :: "string \<Rightarrow> string \<Rightarrow> bool" where
  "adjacent q p = (index_in PHASES p = index_in PHASES q + 1)"

text \<open>
  A transition goes to the next phase. It changes nothing, or appends its entry, or appends it and writes
  the phase; only the last can succeed.
\<close>
lemma transition_to_cases:
  assumes held: "holds (ce_sha env) (cf_ledger (cs_files s)) es" and known: "phase_known (cs_files s) q"
  obtains (unchanged) e s' where "transition_to env p s = (Inl e, s')" "cs_files s' = cs_files s" "e \<noteq> Diverged"
  | (recorded) q0 e s' t where "q = Some q0" "adjacent q0 p" "transition_to env p s = (Inl e, s')" "e \<noteq> Diverged"
    "cs_files s' = append_line (new_line (ce_sha env) es (transition_entry q0 p t)) (cs_files s)"
  | (moved) q0 r s' t t' where "q = Some q0" "adjacent q0 p" "transition_to env p s = (r, s')"
    "r = Inr () \<or> (\<exists>e. r = Inl e \<and> e \<noteq> Diverged)"
    "cs_files s' = (append_line (new_line (ce_sha env) es (transition_entry q0 p t)) (cs_files s))\<lparr>cf_phase := Some (phase_text p t')\<rparr>"
proof -
  note cur = current_phase_known [OF known]
  note run = transition_to_def cseq_def cbind_def cur clift_def creturn_def crefuse_def craise_def opt_str_def
  consider (none) "q = None" | (far) q0 where "q = Some q0" "\<not> adjacent q0 p" | (near) q0 where "q = Some q0" "adjacent q0 p"
    by (cases q) auto
  then show ?thesis
  proof cases
    case none
    then show ?thesis
      by (intro unchanged, simp add: run) simp_all
  next
    case far
    then show ?thesis
      by (intro unchanged, simp add: run adjacent_def) simp_all
  next
    case (near q0)
    have rank: "0 \<le> index_in PHASES q0" "index_in PHASES p = index_in PHASES q0 + 1"
      using phase_rank_some known near by (auto simp: adjacent_def)
    have p: "p \<in> set PHASES"
      using rank index_in_iff [of PHASES p] by auto
    let ?ev = "[(''from'', JStr q0), (''to'', JStr p)]"
    have ev: "evidence_ok ?ev"
      by (simp add: evidence_ok_def)
    from held ev show ?thesis
    proof (cases rule: append_ledger_cases [of env s es ?ev p "''phase.transition''"])
      case (unchanged e s')
      then show ?thesis
        using that(1) [of "Raised (OtherExc e)" s'] rank near(1) by (simp add: run)
    next
      case (appended r t s1 line)
      have line: "line = new_line (ce_sha env) es (transition_entry q0 p t)"
        using appended(4) by (simp add: new_line_def transition_entry_def)
      have known1: "phase_known (cs_files s1) (Some q0)"
        using known near(1) by (simp add: appended(2))
      show ?thesis
      proof (cases r)
        case (Inl e)
        then show ?thesis
          using that(2) [of q0 e s1 t] rank near appended line by (simp add: run) (metis ctl_stop.distinct(1) sum.distinct(1) sum.inject(1))
      next
        case (Inr d)
        from known1 show ?thesis
        proof (cases rule: write_phase_cases [of s1 "Some q0" env p])
          case (unchanged e s2)
          then show ?thesis
            using that(2) [of q0 e s2 t] rank near appended line Inr by (simp add: run)
        next
          case (written r2 s2 t')
          have known2: "phase_known (cs_files s2) (Some p)"
            using p by (simp add: written(2) phase_known_write)
          have held2: "holds (ce_sha env) (cf_ledger (cs_files s2)) (es @ [transition_entry q0 p t])"
            using held by (simp add: written(2) appended(2) line holds_new_line)
          have files: "cs_files s2 = (append_line (new_line (ce_sha env) es (transition_entry q0 p t)) (cs_files s))\<lparr>cf_phase := Some (phase_text p t')\<rparr>"
            by (simp add: written(2) appended(2) line)
          show ?thesis
          proof (cases r2)
            case (Inl e)
            then show ?thesis
              using that(3) [of q0 "Inl e" s2 t' t] rank near appended(1) \<open>r = Inr d\<close> written(1,3) files by (auto simp: run)
          next
            case r2: (Inr u)
            have agree: "phase_tail_agree s2 = (Inr True, s2)"
              using phase_tail_agree_known [OF held2 known2] by simp
            show ?thesis
              using that(3) [of q0 "Inr ()" s2 t' t] rank near appended(1) \<open>r = Inr d\<close> written(1) r2 files
              by (simp add: run agree)
          qed
        qed
      qed
    qed
  qed
qed

lemma all_PHASES:
  "(\<forall>p \<in> set PHASES. P p) \<longleftrightarrow>
   P ''sealed'' \<and> P ''preflight-ok'' \<and> P ''lock-held'' \<and> P ''baseline-captured'' \<and> P ''workspace-ready'' \<and> P ''agents-online''
   \<and> P ''executor-v1-disabled'' \<and> P ''capacity-v1-active'' \<and> P ''executor-v2-enabled'' \<and> P ''matrix-running''
   \<and> P ''matrix-verified'' \<and> P ''intake-frozen'' \<and> P ''units-quiescent'' \<and> P ''executor-v3-disabled''
   \<and> P ''capacity-v2-empty'' \<and> P ''executor-v4-empty'' \<and> P ''agents-offline'' \<and> P ''canonical-compared'' \<and> P ''done''"
  by (simp add: PHASES_def)

text \<open>Only the last phase has the last index.\<close>
lemma index_last: "p \<in> set PHASES \<Longrightarrow> index_in PHASES p < 18 \<or> p = ''done''"
proof -
  have "\<forall>p \<in> set PHASES. index_in PHASES p < 18 \<or> p = ''done''"
    by (simp add: all_PHASES)
  then show "p \<in> set PHASES \<Longrightarrow> index_in PHASES p < 18 \<or> p = ''done''"
    by blast
qed

lemma drop_index: "p \<in> set PHASES \<Longrightarrow> drop (nat (index_in PHASES p)) PHASES = p # drop (nat (index_in PHASES p + 1)) PHASES"
proof -
  have "\<forall>p \<in> set PHASES. drop (nat (index_in PHASES p)) PHASES = p # drop (nat (index_in PHASES p + 1)) PHASES"
    unfolding all_PHASES index_PHASES by (simp add: PHASES_def)
  then show "p \<in> set PHASES \<Longrightarrow> drop (nat (index_in PHASES p)) PHASES = p # drop (nat (index_in PHASES p + 1)) PHASES"
    by blast
qed

section \<open>What the files determine\<close>

lemma new_line_unique: "holds sha t es \<Longrightarrow> holds sha t fs \<Longrightarrow> new_line sha es e = new_line sha fs e"
  using ledger_tail_holds [of sha t es] ledger_tail_holds [of sha t fs] by (simp add: new_line_def)

lemma phase_known_unique: "phase_known f q \<Longrightarrow> phase_known f r \<Longrightarrow> q = r"
  using phase_of_text_known [of f q] phase_of_text_known [of f r] by simp

end
