(* ===== verification/ControllerContract.thy ===== *)
theory ControllerContract
  imports ControllerRun ControllerLedger
begin

text \<open>
  How the operations of the controller change the files of the run directory, whatever the disk, the
  commands and the clock answer. A preorder on the files is an interface (\<open>file_order\<close>): what only reads
  moves along every one. \<open>aside_order\<close> adds what leaves ledger, phase, token and authorization alone, and
  \<open>record_contract\<close> is a predicate on the files that survives this and the appending of entries that
  are no transitions. The bodies of the phases keep every such predicate.
\<close>

section \<open>Moving along an order\<close>

definition along :: "(ctl_files \<Rightarrow> ctl_files \<Rightarrow> bool) \<Rightarrow> ('w, 'a) ctl \<Rightarrow> bool" where
  "along R m = (\<forall>s. R (cs_files s) (cs_files (snd (m s))))"

lemma alongD: "along R m \<Longrightarrow> R (cs_files s) (cs_files (snd (m s)))"
  by (simp add: along_def)

named_theorems steps

lemma along_if [steps]: "(b \<Longrightarrow> along R m) \<Longrightarrow> (\<not> b \<Longrightarrow> along R n) \<Longrightarrow> along R (if b then m else n)"
  by simp

lemma along_prod [steps]: "(\<And>a b. along R (f a b)) \<Longrightarrow> along R (case p of (a, b) \<Rightarrow> f a b)"
  by (simp split: prod.split)

lemma along_option [steps]:
  "along R m \<Longrightarrow> (\<And>a. along R (f a)) \<Longrightarrow> along R (case x of None \<Rightarrow> m | Some a \<Rightarrow> f a)"
  by (simp split: option.split)

lemma along_list [steps]:
  "along R m \<Longrightarrow> (\<And>y ys. along R (f y ys)) \<Longrightarrow> along R (case xs of [] \<Rightarrow> m | y # ys \<Rightarrow> f y ys)"
  by (simp split: list.split)

lemma along_exec [steps]:
  "along R m \<Longrightarrow> (\<And>e. along R (f e)) \<Longrightarrow> (\<And>rc out err. along R (g rc out err))
   \<Longrightarrow> along R (case x of ExecTimeout \<Rightarrow> m | ExecFault e \<Rightarrow> f e | Exited rc out err \<Rightarrow> g rc out err)"
  by (simp split: exec_answer.split)

locale file_order =
  fixes R :: "ctl_files \<Rightarrow> ctl_files \<Rightarrow> bool"
  assumes refl: "R f f" and trans: "R f g \<Longrightarrow> R g h \<Longrightarrow> R f h"
begin

lemma same: "cs_files (snd (m s)) = cs_files s \<Longrightarrow> R (cs_files s) (cs_files (snd (m s)))"
  by (simp add: refl)

lemma return [steps]: "along R (creturn a)"
  by (simp add: along_def creturn_def refl)

lemma raise [steps]: "along R (craise e)"
  by (simp add: along_def craise_def refl)

lemma diverge [steps]: "along R cdiverge"
  by (simp add: along_def cdiverge_def refl)

lemma lift [steps]: "along R (clift r)"
  by (simp add: along_def clift_def refl)

lemma read [steps]: "along R (cread f)"
  by (simp add: along_def cread_def refl)

lemma world [steps]: "along R (cworld f)"
  by (simp add: along_def cworld_def refl split: prod.split)

lemma refuse [steps]: "along R (crefuse b msg)"
  by (simp add: crefuse_def return raise)

lemma bind [steps]:
  assumes "along R m" "\<And>a. along R (f a)"
  shows "along R (cbind m f)"
  unfolding along_def
proof
  fix s
  obtain r s' where m: "m s = (r, s')"
    by (cases "m s")
  then have 1: "R (cs_files s) (cs_files s')"
    using alongD [OF assms(1), of s] by simp
  show "R (cs_files s) (cs_files (snd (cbind m f s)))"
  proof (cases r)
    case (Inr a)
    then show ?thesis
      using m trans [OF 1 alongD [OF assms(2), of s' a]] by (simp add: cbind_def)
  qed (use m 1 in \<open>simp add: cbind_def\<close>)
qed

lemma seq [steps]: "along R m \<Longrightarrow> along R n \<Longrightarrow> along R (cseq m n)"
  by (simp add: cseq_def bind)

lemma catch [steps]:
  assumes "along R m" "\<And>e. along R (h e)"
  shows "along R (ccatch m h)"
  unfolding along_def
proof
  fix s
  obtain r s' where m: "m s = (r, s')"
    by (cases "m s")
  then have 1: "R (cs_files s) (cs_files s')"
    using alongD [OF assms(1), of s] by simp
  show "R (cs_files s) (cs_files (snd (ccatch m h s)))"
  proof (cases r)
    case (Inl stop)
    then show ?thesis
      using m 1 trans [OF 1 alongD [OF assms(2), of s']] by (cases stop) (simp_all add: ccatch_def)
  qed (use m 1 in \<open>simp add: ccatch_def\<close>)
qed

lemma loop [steps]: "(\<And>x. along R (f x)) \<Longrightarrow> along R (cfor xs f)"
  by (induction xs) (auto intro: return seq)

lemma io: "(\<And>f. R f (upd f)) \<Longrightarrow> along R (io_step env label upd)"
  by (auto simp: along_def io_step_def refl split: prod.split io_answer.split)

lemma io_id [steps]: "along R (io_step env label id)"
  by (rule io) (simp add: refl)

subsection \<open>What only reads\<close>

lemma now [steps]: "along R (now env)"
  unfolding now_def by (intro steps)

lemma read_ledger [steps]: "along R read_ledger"
  unfolding read_ledger_def by (intro steps)

lemma validate_ledger_chain [steps]: "along R (validate_ledger_chain env)"
  unfolding validate_ledger_chain_def by (intro steps)

lemma current_phase [steps]: "along R current_phase"
  unfolding current_phase_def by (intro steps)

lemma phase_tail_agree [steps]: "along R phase_tail_agree"
  unfolding phase_tail_agree_def by (intro steps)

lemma run_command [steps]: "along R (run_command env argv extra timeout cap)"
  unfolding run_command_def by (intro steps)

lemma coord_cli [steps]: "along R (coord_cli env args)"
  unfolding coord_cli_def by (intro steps)

lemma run_coord [steps]: "along R (run_coord env args)"
  unfolding run_coord_def by (intro steps)

lemma expect_coord_rejection [steps]: "along R (expect_coord_rejection env args)"
  using coord_cli [of env args]
  by (auto simp: along_def expect_coord_rejection_def split: prod.splits sum.splits ctl_stop.splits ctl_exc.splits) (metis snd_conv)+

lemma lock_status [steps]: "along R (lock_status env t)"
  unfolding lock_status_def by (intro steps)

lemma require_free_lock [steps]: "along R (require_free_lock env)"
  unfolding require_free_lock_def by (intro steps)

lemma read_lock_token [steps]: "along R (read_lock_token env run_id)"
  unfolding read_lock_token_def by (intro steps)

lemma require_owned_lock [steps]: "along R (require_owned_lock env run_id t)"
  unfolding require_owned_lock_def by (intro steps)

lemma call_lock_release [steps]: "along R (call_lock_release env t)"
  unfolding call_lock_release_def by (intro steps)

lemma evidence_query [steps]: "along R (evidence_query env sql params)"
  unfolding evidence_query_def by (intro steps)

lemma db_integrity_check [steps]: "along R (db_integrity_check env)"
  unfolding db_integrity_check_def Let_def by (intro steps)

lemma db_schema_version [steps]: "along R (db_schema_version env)"
  unfolding db_schema_version_def by (intro steps)

lemma db_fk_check [steps]: "along R (db_fk_check env)"
  unfolding db_fk_check_def by (intro steps)

lemma db_due_active_leases [steps]: "along R (db_due_active_leases env)"
  unfolding db_due_active_leases_def by (intro steps)

lemma db_evidence [steps]: "along R (db_evidence env)"
  unfolding db_evidence_def by (intro steps)

lemma query_all [steps]: "along R (query_all env qs)"
  by (induction env qs rule: query_all.induct) (simp_all add: steps)

lemma canonical_projection_snapshot [steps]: "along R (canonical_projection_snapshot env)"
  unfolding canonical_projection_snapshot_def by (intro steps)

lemma read_evidence [steps]: "along R (read_evidence filename)"
  unfolding read_evidence_def by (intro steps)

lemma collects [steps]:
  "along R (collect_installed_hashes env)" "along R (collect_launcher_files env)" "along R (collect_revisions env)"
  "along R (validate_config_contract env)" "along R (read_manifest env run_id)"
  unfolding collect_installed_hashes_def collect_launcher_files_def collect_revisions_def validate_config_contract_def
    read_manifest_def by (intro steps)+

lemma build_controller_manifest [steps]:
  "along R (build_controller_manifest env run_id hashes revisions cli db config user grp launcher backup projection)"
  unfolding build_controller_manifest_def by (intro steps)

lemma check_drift [steps]: "along R (check_drift env manifest)"
  unfolding check_drift_def by (intro steps)

lemma check_backup [steps]: "along R (check_backup env run_id manifest)"
  unfolding check_backup_def by (intro steps)

lemma preflight [steps]: "along R (preflight env run_id t)"
  unfolding preflight_def by (intro steps)

lemma cmd_preflight [steps]: "along R (cmd_preflight env run_id)"
  unfolding cmd_preflight_def by (intro steps)

lemma cmd_status [steps]: "along R (cmd_status env run_id)"
  unfolding cmd_status_def by (intro steps)

lemma validate_authorization [steps]: "along R (validate_authorization env run_id file sha)"
  unfolding validate_authorization_def by (intro steps)

lemma require_live_authorization [steps]: "along R (require_live_authorization env run_id expected)"
  unfolding require_live_authorization_def by (intro steps)

lemma matrix_snapshot [steps]: "along R (matrix_snapshot env job_ids)"
  unfolding matrix_snapshot_def Let_def by (intro steps)

lemma wait_polls [steps]: "along R (wait_polls env job_ids description pred start n p)"
  by (induction n arbitrary: p) (auto intro!: steps)

lemma wait_matrix [steps]: "along R (wait_matrix env job_ids description pred p)"
  unfolding wait_matrix_def by (intro steps)

lemma wait_terminal_with_renewals [steps]: "along R (wait_terminal_with_renewals env job_ids label agent)"
  unfolding wait_terminal_with_renewals_def by (intro steps)

lemma wait_running_with_renewals [steps]: "along R (wait_running_with_renewals env job_ids label agent)"
  unfolding wait_running_with_renewals_def by (intro steps)

lemma helper_cli [steps]: "along R (helper_cli env run_id command args)"
  unfolding helper_cli_def by (intro steps)

lemma matrix_helper [steps]: "along R (matrix_helper env run_id command agent extra)"
  unfolding matrix_helper_def by (intro steps)

lemma matrix_start [steps]: "along R (matrix_start env run_id agent mode extra mx)"
  unfolding matrix_start_def by (intro steps)

lemma matrix_stop [steps]: "along R (matrix_stop env run_id agent crash mx)"
  unfolding matrix_stop_def by (intro steps)

lemma matrix_terminal [steps]: "along R (matrix_terminal env label agent mx)"
  unfolding matrix_terminal_def by (intro steps)

lemma matrix_preflight [steps]: "along R (matrix_preflight env run_id agent)"
  unfolding matrix_preflight_def by (intro steps)

lemma matrix_reap [steps]: "along R (matrix_reap env run_id old_attempt old_lease_id mx)"
  unfolding matrix_reap_def by (intro steps)

lemma probe_stale [steps]: "along R (probe_stale env job_ids specs)"
  by (induction env job_ids specs rule: probe_stale.induct) (auto intro!: steps)

lemma matrix_recover [steps]: "along R (matrix_recover env run_id old_lease old_attempt old_lease_id mx)"
  unfolding matrix_recover_def by (intro steps)

lemma send_delivery [steps]: "along R (send_delivery env sn label)"
  unfolding send_delivery_def by (intro steps)

lemma send_deliveries [steps]: "along R (send_deliveries env sn labels)"
  by (induction env sn labels rule: send_deliveries.induct) (auto intro!: steps)

lemma matrix_closing [steps]: "along R (matrix_closing env mx)"
  unfolding matrix_closing_def by (intro steps)

lemma config_asset [steps]: "along R (config_asset env filename)"
  unfolding config_asset_def by (intro steps)

lemma sync_executor [steps]: "along R (sync_executor env filename version enabled)"
  unfolding sync_executor_def by (intro steps)

lemma sync_capacity [steps]: "along R (sync_capacity env filename version active)"
  unfolding sync_capacity_def by (intro steps)

lemma agent_online [steps]: "along R (agent_online env agent)"
  unfolding agent_online_def by (intro steps)

lemma agent_offline [steps]: "along R (agent_offline env reason label msg agent)"
  unfolding agent_offline_def by (intro steps)

lemma unit_quiescent [steps]: "along R (unit_quiescent env run_id agent)"
  unfolding unit_quiescent_def by (intro steps)

lemma unit_cleanup [steps]: "along R (unit_cleanup env run_id msg agent)"
  unfolding unit_cleanup_def by (intro steps)

lemma final_runtime_snapshot [steps]: "along R (final_runtime_snapshot env)"
  unfolding final_runtime_snapshot_def by (intro steps)

lemma cleanup_stop [steps]: "along R (cleanup_stop env run_id agent)"
  unfolding cleanup_stop_def by (intro steps)

lemma cleanup_catalogs [steps]: "along R (cleanup_catalogs env idx)"
  unfolding cleanup_catalogs_def by (intro steps)

lemma cleanup_gates [steps]: "along R (cleanup_gates env run_id)"
  unfolding cleanup_gates_def by (intro steps)

end

section \<open>What leaves ledger, phase, token and authorization alone\<close>

definition aside :: "ctl_files \<Rightarrow> ctl_files \<Rightarrow> bool" where
  "aside f g = (cf_phase g = cf_phase f \<and> cf_ledger g = cf_ledger f \<and> cf_token g = cf_token f \<and> cf_auth g = cf_auth f)"

locale aside_order = file_order +
  assumes beside: "aside f g \<Longrightarrow> R f g"
begin

lemma io_beside: "(\<And>f. aside f (upd f)) \<Longrightarrow> along R (io_step env label upd)"
  by (intro io beside)

lemma write_evidence [steps]: "along R (write_evidence env filename data)"
  unfolding write_evidence_def by (intro steps io_beside) (simp add: aside_def)

lemma write_forensic_failure [steps]: "along R (write_forensic_failure env marker)"
  unfolding write_forensic_failure_def by (intro steps io_beside) (simp add: aside_def)

lemma create_run_dirs [steps]: "along R (create_run_dirs env unit_user unit_group)"
  unfolding create_run_dirs_def by (intro steps io_beside) (simp add: aside_def)

lemma create_backup [steps]: "along R (create_backup env)"
  unfolding create_backup_def by (intro steps io_beside) (simp_all add: aside_def)

lemma write_manifest [steps]: "along R (write_manifest env manifest)"
  unfolding write_manifest_def Let_def by (intro steps io_beside) (simp_all add: aside_def)

lemma require_quiet_jobs [steps]: "along R (require_quiet_jobs env submitted)"
  unfolding require_quiet_jobs_def Let_def by (intro steps)

end

section \<open>Appending entries\<close>

text \<open>An order that holds of anything once ledger or phase file are not the controller's own.\<close>
locale record_order = aside_order +
  fixes sha :: "string \<Rightarrow> string"
  assumes broken: "\<not> well_formed sha f \<Longrightarrow> R f g"
    and append: "holds sha (cf_ledger f) es \<Longrightarrow> phase_known f q \<Longrightarrow> entry_ok e \<Longrightarrow> en_event e \<noteq> ''phase.transition''
      \<Longrightarrow> R f (append_line (new_line sha es e) f)"
begin

lemma append_ledger:
  assumes "ce_sha env = sha" "event \<noteq> ''phase.transition''" "evidence_ok evidence"
  shows "along R (append_ledger env (JStr phase) event evidence)"
  unfolding along_def
proof
  fix s
  show "R (cs_files s) (cs_files (snd (append_ledger env (JStr phase) event evidence s)))"
  proof (cases "well_formed sha (cs_files s)")
    case True
    then obtain es q where held: "holds (ce_sha env) (cf_ledger (cs_files s)) es" and q: "phase_known (cs_files s) q"
      using assms(1) by (auto simp: well_formed_def)
    from held assms(3) show ?thesis
    proof (cases rule: append_ledger_cases [of env s es evidence phase event])
      case (appended r t s' line)
      have "line = new_line sha es (new_entry phase event evidence t)"
        using appended(4) assms(1) by (simp add: new_line_def)
      moreover have "entry_ok (new_entry phase event evidence t)" "en_event (new_entry phase event evidence t) = event"
        using assms(3) by (simp_all add: new_entry_ok) (simp add: new_entry_def)
      ultimately show ?thesis
        using append [of "cs_files s" es q "new_entry phase event evidence t"] held q assms(1,2) appended(1,2) by simp
    qed (simp add: refl)
  qed (rule broken)
qed

text \<open>What depends on the phase that is read.\<close>
lemma at_phase:
  assumes "\<And>p. along R (m (JStr p))" "along R (m JNull)"
  shows "along R (cbind current_phase m)"
  unfolding along_def
proof
  fix s
  show "R (cs_files s) (cs_files (snd (cbind current_phase m s)))"
  proof (cases "well_formed sha (cs_files s)")
    case True
    then obtain q where "phase_known (cs_files s) q"
      by (auto simp: well_formed_def)
    then have "current_phase s = (Inr (opt_str q), s)"
      by (rule current_phase_known)
    then show ?thesis
      using alongD [OF assms(1), of s] alongD [OF assms(2), of s] by (cases q) (simp_all add: cbind_def opt_str_def)
  qed (rule broken)
qed

end

lemma evidence_ok_simps [simp]:
  "evidence_ok []" "evidence_ok AUTH_EXACT_BUDGETS" "evidence_ok [(k, JStr v)]"
  "k \<noteq> k' \<Longrightarrow> evidence_ok [(k, JStr v), (k', JBool b)]"
  by (simp_all add: evidence_ok_def AUTH_EXACT_BUDGETS_def)

context record_order
begin

lemma matrix_submit: "ce_sha env = sha \<Longrightarrow> along R (matrix_submit env run_id label agent worktree envelope mx)"
  unfolding matrix_submit_def by (intro steps append_ledger) simp_all

lemma matrix_opening: "ce_sha env = sha \<Longrightarrow> along R (matrix_opening env run_id)"
  unfolding matrix_opening_def by (intro steps matrix_submit)

lemma matrix_contention: "ce_sha env = sha \<Longrightarrow> along R (matrix_contention env run_id old_lease old_attempt mx)"
  unfolding matrix_contention_def by (intro steps matrix_submit)

lemma run_five_job_matrix: "ce_sha env = sha \<Longrightarrow> along R (run_five_job_matrix env run_id)"
  unfolding run_five_job_matrix_def Let_def
  by (intro steps append_ledger matrix_opening matrix_contention) simp_all

lemma verify_job_matrix: "ce_sha env = sha \<Longrightarrow> along R (verify_job_matrix env)"
  unfolding verify_job_matrix_def by (intro steps append_ledger) simp_all

end

section \<open>The handlers\<close>

text \<open>A run of m moves along the order and then fails, or goes on as t.\<close>
definition finishes :: "(ctl_files \<Rightarrow> ctl_files \<Rightarrow> bool) \<Rightarrow> ('w, 'a) ctl \<Rightarrow> ('w, 'a) ctl \<Rightarrow> bool" where
  "finishes R t m = (\<forall>s. \<exists>s1. R (cs_files s) (cs_files s1) \<and> (m s = t s1 \<or> (\<exists>e. m s = (Inl e, s1))))"

lemma finishesD:
  assumes "finishes R t m"
  obtains s1 where "R (cs_files s) (cs_files s1)" "m s = t s1 \<or> (\<exists>e. m s = (Inl e, s1))"
  using assms unfolding finishes_def by blast

context file_order
begin

lemma finishes_self: "finishes R t t"
  by (auto simp: finishes_def intro: refl)

lemma finishes_bind:
  assumes "along R m" "\<And>a. finishes R t (f a)"
  shows "finishes R t (cbind m f)"
  unfolding finishes_def
proof
  fix s
  obtain r s' where m: "m s = (r, s')"
    by (cases "m s")
  then have 1: "R (cs_files s) (cs_files s')"
    using alongD [OF assms(1), of s] by simp
  show "\<exists>s1. R (cs_files s) (cs_files s1) \<and> (cbind m f s = t s1 \<or> (\<exists>e. cbind m f s = (Inl e, s1)))"
  proof (cases r)
    case (Inr a)
    from finishesD [OF assms(2)] obtain s1 where "R (cs_files s') (cs_files s1)" "f a s' = t s1 \<or> (\<exists>e. f a s' = (Inl e, s1))" .
    with Inr show ?thesis
      using m trans [OF 1] by (auto simp: cbind_def)
  qed (use m 1 in \<open>auto simp: cbind_def\<close>)
qed

lemma finishes_seq: "along R m \<Longrightarrow> finishes R t n \<Longrightarrow> finishes R t (cseq m n)"
  by (simp add: cseq_def finishes_bind)

lemma finishes_prod: "(\<And>a b. finishes R t (f a b)) \<Longrightarrow> finishes R t (case p of (a, b) \<Rightarrow> f a b)"
  by (simp split: prod.split)

lemma finishes_along:
  assumes "finishes R t m" "along R t"
  shows "along R m"
  unfolding along_def
proof
  fix s
  from finishesD [OF assms(1)] obtain s1 where "R (cs_files s) (cs_files s1)" "m s = t s1 \<or> (\<exists>e. m s = (Inl e, s1))" .
  then show "R (cs_files s) (cs_files (snd (m s)))"
    using trans [OF _ alongD [OF assms(2), of s1]] by auto
qed

lemmas finishing = finishes_self finishes_bind finishes_seq finishes_prod

end

text \<open>How the handler of the phase ends.\<close>
definition last_step :: "'w ctl_env \<Rightarrow> string \<Rightarrow> string \<Rightarrow> ('w, unit) ctl" where
  "last_step env run_id p =
     (if p = ''done'' then cseq (transition_to env p) (release_lock env run_id) else transition_to env p)"

context record_order
begin

lemma finishes_last:
  "finishes R (last_step env run_id ''done'') (cseq (transition_to env ''done'') (release_lock env run_id))"
  "p \<noteq> ''done'' \<Longrightarrow> finishes R (last_step env run_id p) (transition_to env p)"
  by (simp_all add: last_step_def finishes_self)

lemma cleanup_finishes:
  "ce_sha env = sha \<Longrightarrow> finishes R (cseq (write_phase env ''done'' False) (cseq (release_lock env run_id)
     (creturn [(''status'', JStr ''cleanup_completed''), (''run_id'', JStr run_id), (''from_phase'', JStr p)])))
     (cleanup_from env run_id (JStr p) idx)"
  unfolding cleanup_from_def Let_def by (intro finishing steps append_ledger) simp_all

lemma handler_finishes:
  assumes sha: "ce_sha env = sha" and entry: "(q, p, h) \<in> set (registry env run_id)"
  shows "finishes R (last_step env run_id p) h"
proof -
  note defs = phase_lock_held_def phase_baseline_captured_def phase_workspace_ready_def phase_agents_online_def
    phase_executor_v1_disabled_def phase_capacity_v1_active_def phase_executor_v2_enabled_def phase_matrix_running_def
    phase_matrix_verified_def phase_intake_frozen_def phase_units_quiescent_def phase_executor_v3_disabled_def
    phase_capacity_v2_empty_def phase_executor_v4_empty_def phase_agents_offline_def phase_canonical_compared_def phase_done_def
  note bodies = run_five_job_matrix [OF sha] verify_job_matrix [OF sha]
  show ?thesis
    using entry unfolding registry_def
    by (simp only: list.set insert_iff empty_iff prod.inject, elim disjE conjE FalseE)
       (hypsubst, simp only: defs Let_def, intro finishes_last finishing steps bodies append_ledger sha, ((simp; fail)+)?)+
qed

end

section \<open>Transitions and commands\<close>

locale run_order = record_order +
  assumes advance: "holds sha (cf_ledger f) es \<Longrightarrow> phase_known f (Some q) \<Longrightarrow> adjacent q p
      \<Longrightarrow> R f (append_line (new_line sha es (transition_entry q p t)) f)"
    and arrive: "holds sha (cf_ledger f) es \<Longrightarrow> phase_known f (Some q) \<Longrightarrow> adjacent q p
      \<Longrightarrow> R f ((append_line (new_line sha es (transition_entry q p t)) f)\<lparr>cf_phase := Some (phase_text p t')\<rparr>)"
begin

lemma transition_to:
  assumes sha: "ce_sha env = sha"
  shows "along R (transition_to env p)"
  unfolding along_def
proof
  fix s
  show "R (cs_files s) (cs_files (snd (transition_to env p s)))"
  proof (cases "well_formed sha (cs_files s)")
    case True
    then obtain es q where state: "holds (ce_sha env) (cf_ledger (cs_files s)) es" "phase_known (cs_files s) q"
      using sha by (auto simp: well_formed_def)
    then show ?thesis
    proof (cases rule: transition_to_cases [of env s es q p])
      case (recorded q0 e s' t)
      then show ?thesis
        using state advance [of "cs_files s" es q0 p t] sha by simp
    next
      case (moved q0 r s' t t')
      then show ?thesis
        using state arrive [of "cs_files s" es q0 p t' t] arrive [of "cs_files s" es q0 p t t'] sha by simp
    qed (simp add: refl)
  qed (rule broken)
qed

lemma handler: "ce_sha env = sha \<Longrightarrow> (q, p, h) \<in> set (registry env run_id) \<Longrightarrow> p \<noteq> ''done'' \<Longrightarrow> along R h"
  by (rule finishes_along [OF handler_finishes]) (auto simp: last_step_def intro: transition_to)

end

lemma handler_of_registry:
  assumes "handler_of env run_id phase = Inr (p, h)"
  obtains q where "phase = JStr q" "(q, p, h) \<in> set (registry env run_id)"
  using assms by (auto simp: handler_of_def split: json.splits option.splits dest: map_of_SomeD)

lemma lift_Inl [simp]: "cbind (clift (Inl e)) f = craise e"
  by (simp add: cbind_def clift_def craise_def fun_eq_iff)

context file_order
begin

lemma lift_bind: "(\<And>a. r = Inr a \<Longrightarrow> along R (f a)) \<Longrightarrow> along R (cbind (clift r) f)"
proof (cases r)
  case (Inr a)
  moreover have "cbind (clift (Inr a)) f = f a"
    by (simp add: cbind_def clift_def fun_eq_iff)
  ultimately show "(\<And>a. r = Inr a \<Longrightarrow> along R (f a)) \<Longrightarrow> along R (cbind (clift r) f)"
    by simp
qed (simp add: raise)

end

locale phase_order = run_order +
  assumes forward: "phase_known f q \<Longrightarrow> p \<in> set PHASES \<Longrightarrow> phase_rank q < index_in PHASES p
      \<Longrightarrow> R f (f\<lparr>cf_phase := Some (phase_text p t)\<rparr>)"
begin

lemma write_phase:
  assumes p: "p \<in> set PHASES"
  shows "along R (write_phase env p False)"
  unfolding along_def
proof
  fix s
  show "R (cs_files s) (cs_files (snd (write_phase env p False s)))"
  proof (cases "well_formed sha (cs_files s)")
    case True
    then obtain q where q: "phase_known (cs_files s) q"
      by (auto simp: well_formed_def)
    then show ?thesis
    proof (cases rule: write_phase_cases [of s q env p])
      case (written r s' t)
      have "phase_rank q < index_in PHASES p"
        using written(4) index_in_iff [of PHASES p] p by (auto simp: phase_rank_def)
      then show ?thesis
        using written forward [OF q p] by simp
    qed (simp add: refl)
  qed (rule broken)
qed

lemma prepare_body:
  "ce_sha env = sha \<Longrightarrow> along R (prepare_body env run_id unit_user unit_group hashes revisions config)"
  unfolding prepare_body_def by (intro steps write_phase append_ledger) (simp_all add: PHASES_def)

lemma cmd_prepare: "ce_sha env = sha \<Longrightarrow> along R (cmd_prepare env run_id unit_user unit_group)"
  unfolding cmd_prepare_def by (intro steps prepare_body)

end

text \<open>With token and authorization, every command moves along the order.\<close>
locale free_order = phase_order +
  assumes token: "R f (f\<lparr>cf_token := t\<rparr>)"
    and auth: "R f (f\<lparr>cf_auth := Some a\<rparr>)"
begin

lemma release_lock [steps]: "along R (release_lock env run_id)"
  unfolding release_lock_def by (intro steps io token)

lemma acquire_lock [steps]: "along R (acquire_lock env run_id)"
  unfolding acquire_lock_def by (intro steps io token)

lemma any_handler: "ce_sha env = sha \<Longrightarrow> (q, p, h) \<in> set (registry env run_id) \<Longrightarrow> along R h"
  by (rule finishes_along [OF handler_finishes]) (auto simp: last_step_def intro: steps transition_to)

lemma machine_turn: "ce_sha env = sha \<Longrightarrow> along R (machine_turn env run_id auth phase)"
  unfolding machine_turn_def
proof (rule lift_bind)
  fix entry assume sha: "ce_sha env = sha" and entry: "handler_of env run_id phase = Inr entry"
  obtain p h where e: "entry = (p, h)"
    by (cases entry)
  then obtain q where "(q, p, h) \<in> set (registry env run_id)"
    using entry by (auto elim: handler_of_registry)
  then have h: "along R h"
    using sha by (intro any_handler)
  show "along R (case entry of (next_phase, handler) \<Rightarrow>
     cbind current_phase (\<lambda>actual.
     cseq (crefuse (actual \<noteq> phase) (''phase mismatch: expected '' @ py_str phase @ '', got '' @ py_str actual))
     (cseq (validate_ledger_chain env)
     (cbind phase_tail_agree (\<lambda>agree.
      cseq (crefuse (\<not> agree) ''ledger/phase tail mismatch before phase mutation'')
      (cseq (require_owned_lock env run_id None)
      (cseq (require_live_authorization env run_id auth)
      (cseq handler
      (cbind current_phase (\<lambda>reached.
       cseq (crefuse (reached = JNull) ''phase disappeared mid-machine'')
       (cseq (crefuse (reached \<noteq> JStr next_phase)
         (''handler for '' @ py_str actual @ '' advanced to '' @ py_str reached @ '', expected '' @ next_phase))
       (creturn reached))))))))))))"
    unfolding e prod.case by (intro steps h)
qed

lemma machine_loop: "ce_sha env = sha \<Longrightarrow> along R (machine_loop env run_id auth n phase)"
  by (induction n arbitrary: phase; subst machine_loop.simps) (auto intro!: steps machine_turn)

lemma cleanup_from: "ce_sha env = sha \<Longrightarrow> along R (cleanup_from env run_id (JStr p) idx)"
  unfolding cleanup_from_def Let_def by (intro steps append_ledger write_phase) (simp_all add: PHASES_def)

lemma execute_cleanup_suffix: "ce_sha env = sha \<Longrightarrow> along R (execute_cleanup_suffix env run_id)"
  unfolding execute_cleanup_suffix_def
  by (rule at_phase) (auto simp: cleanup_index_def intro: steps cleanup_from)

lemma machine_failed:
  assumes "ce_sha env = sha"
  shows "along R (machine_failed env run_id e)"
  unfolding machine_failed_def
proof (rule at_phase)
  fix p
  have "along R (append_ledger env (if truthy (JStr p) then JStr p else JStr ''unknown'') ''machine.failure'' [])"
    by (cases "p = []") (auto intro!: append_ledger simp: assms)
  then show "along R (cseq (if JStr p \<in> set (JNull # map JStr [''sealed'', ''preflight-ok'', ''lock-held'']) then creturn ()
       else
         cseq (append_ledger env (if truthy (JStr p) then JStr p else JStr ''unknown'') ''machine.failure'' [])
         (cbind (clift (phase_index (if truthy (JStr p) then JStr p else JStr []))) (\<lambda>idx.
          if index_in PHASES ''baseline-captured'' \<le> idx then cseq (execute_cleanup_suffix env run_id) (creturn ())
          else creturn ())))
     (craise e))"
    by (intro steps execute_cleanup_suffix assms)
qed (auto intro: steps)

lemma execute_state_machine: "ce_sha env = sha \<Longrightarrow> along R (execute_state_machine env run_id auth)"
  unfolding execute_state_machine_def by (intro steps machine_loop machine_failed)

lemma atomic_copy: "along R (atomic_copy env src)"
  unfolding atomic_copy_def by (intro steps io auth)

lemma run_failed: "along R (run_failed env run_id e)"
  unfolding run_failed_def by (intro steps)

lemma cmd_run: "ce_sha env = sha \<Longrightarrow> along R (cmd_run env run_id file sha256)"
  unfolding cmd_run_def by (intro steps atomic_copy transition_to execute_state_machine run_failed)

lemma cmd_cleanup: "ce_sha env = sha \<Longrightarrow> along R (cmd_cleanup env run_id)"
  unfolding cmd_cleanup_def by (intro steps execute_cleanup_suffix)

lemma run_command_line: "ce_sha env = sha \<Longrightarrow> along R (run_command_line env c)"
  by (cases c) (simp_all add: run_command_line_def cmd_prepare cmd_preflight cmd_status cmd_run cmd_cleanup)

lemma main: "ce_sha env = sha \<Longrightarrow> R (cs_files s) (cs_files (snd (main env euid c s)))"
  using alongD [OF run_command_line, of env s c] refl
  by (auto simp: main_def split: prod.split sum.split ctl_stop.split ctl_exc.split)

end

end
