(* ===== verification/ControllerSafety.thy ===== *)
theory ControllerSafety
  imports ControllerContract
begin

text \<open>
  What every history of controller commands guarantees, whatever the disk, the installed commands and the
  clock answer: the ledger only grows and stays valid, the phase never goes back, the token file stays
  while a run is in flight. From the last it follows that the command cleanup never does its work.
\<close>

section \<open>Histories\<close>

text \<open>
  Commands for one run directory, each with its machine, its effective user and the state of the world it
  starts in. The files are what the command before has left.
\<close>
type_synonym 'w request = "'w ctl_env \<times> int \<times> command \<times> 'w"

definition serve :: "'w request \<Rightarrow> 'w ctl_state \<Rightarrow> 'w ctl_state" where
  "serve req s = (case req of (env, euid, c, w) \<Rightarrow> snd (main env euid c (s\<lparr>cs_world := w\<rparr>)))"

definition history :: "'w request list \<Rightarrow> 'w ctl_state \<Rightarrow> 'w ctl_state" where
  "history reqs s = fold serve reqs s"

definition same_digest :: "(string \<Rightarrow> string) \<Rightarrow> 'w request list \<Rightarrow> bool" where
  "same_digest sha reqs = (\<forall>(env, euid, c, w) \<in> set reqs. ce_sha env = sha)"

definition fresh :: "ctl_files \<Rightarrow> bool" where
  "fresh f = (cf_phase f = None \<and> cf_ledger f = None \<and> cf_token f = None \<and> cf_auth f = None)"

lemma fresh_holds: "fresh f \<Longrightarrow> holds sha (cf_ledger f) [] \<and> phase_known f None"
  by (simp add: fresh_def holds_def phase_known_def)

lemma history_along:
  fixes s :: "'w ctl_state"
  assumes R: "\<And>f. R f f" "\<And>f g h. R f g \<Longrightarrow> R g h \<Longrightarrow> R f h"
    and main: "\<And>(env :: 'w ctl_env) euid c s. ce_sha env = sha \<Longrightarrow> R (cs_files s) (cs_files (snd (main env euid c s)))"
    and sha: "same_digest sha reqs"
  shows "R (cs_files s) (cs_files (history reqs s))"
  using sha
proof (induction reqs arbitrary: s)
  case (Cons req reqs)
  obtain env euid c w where req: "req = (env, euid, c, w)"
    by (cases req)
  have "R (cs_files s) (cs_files (serve req s))"
    using main [of env "s\<lparr>cs_world := w\<rparr>" euid c] Cons.prems by (simp add: serve_def req same_digest_def)
  moreover have "R (cs_files (serve req s)) (cs_files (history reqs (serve req s)))"
    using Cons by (simp add: same_digest_def)
  ultimately show ?case
    using R(2) by (simp add: history_def)
qed (simp add: history_def R(1))

section \<open>Growth\<close>

definition grows :: "(string \<Rightarrow> string) \<Rightarrow> ctl_files \<Rightarrow> ctl_files \<Rightarrow> bool" where
  "grows sha f g =
     (\<forall>es q. holds sha (cf_ledger f) es \<longrightarrow> phase_known f q \<longrightarrow>
        (\<exists>fs r. holds sha (cf_ledger g) (es @ fs) \<and> phase_known g r \<and> phase_rank q \<le> phase_rank r))"

lemma growsI:
  assumes "\<And>es q. holds sha (cf_ledger f) es \<Longrightarrow> phase_known f q \<Longrightarrow>
    \<exists>fs r. holds sha (cf_ledger g) (es @ fs) \<and> phase_known g r \<and> phase_rank q \<le> phase_rank r"
  shows "grows sha f g"
  using assms by (simp add: grows_def)

lemma growsD:
  assumes "grows sha f g" "holds sha (cf_ledger f) es" "phase_known f q"
  obtains fs r where "holds sha (cf_ledger g) (es @ fs)" "phase_known g r" "phase_rank q \<le> phase_rank r"
  using assms unfolding grows_def by blast

lemma phase_known_same: "cf_phase g = cf_phase f \<Longrightarrow> phase_known g q = phase_known f q"
  by (simp add: phase_known_def split: option.split)

lemma grows_same:
  assumes "cf_ledger g = cf_ledger f" "cf_phase g = cf_phase f"
  shows "grows sha f g"
proof (rule growsI)
  fix es q assume "holds sha (cf_ledger f) es" "phase_known f q"
  then have "holds sha (cf_ledger g) (es @ []) \<and> phase_known g q \<and> phase_rank q \<le> phase_rank q"
    using assms phase_known_same [of g f q] by simp
  then show "\<exists>fs r. holds sha (cf_ledger g) (es @ fs) \<and> phase_known g r \<and> phase_rank q \<le> phase_rank r"
    by blast
qed

lemma grows_append:
  assumes "holds sha (cf_ledger f) es" "entry_ok e"
  shows "grows sha f (append_line (new_line sha es e) f)"
proof (rule growsI)
  fix fs q assume fs: "holds sha (cf_ledger f) fs" and q: "phase_known f q"
  have "holds sha (cf_ledger (append_line (new_line sha es e) f)) (fs @ [e])"
    using holds_new_line [OF fs assms(2)] new_line_unique [OF fs assms(1)] by simp
  then show "\<exists>gs r. holds sha (cf_ledger (append_line (new_line sha es e) f)) (fs @ gs)
      \<and> phase_known (append_line (new_line sha es e) f) r \<and> phase_rank q \<le> phase_rank r"
    using q by fastforce
qed

lemma grows_phase:
  assumes "phase_known f q" "p \<in> set PHASES" "phase_rank q < index_in PHASES p"
  shows "grows sha f (f\<lparr>cf_phase := Some (phase_text p t)\<rparr>)"
proof (rule growsI)
  fix es r assume es: "holds sha (cf_ledger f) es" and r: "phase_known f r"
  have "phase_rank r \<le> phase_rank (Some p)"
    using assms phase_known_unique [OF r assms(1)] by (simp add: phase_rank_def)
  moreover have "holds sha (cf_ledger (f\<lparr>cf_phase := Some (phase_text p t)\<rparr>)) (es @ [])"
    using es by simp
  ultimately show "\<exists>fs r'. holds sha (cf_ledger (f\<lparr>cf_phase := Some (phase_text p t)\<rparr>)) (es @ fs)
      \<and> phase_known (f\<lparr>cf_phase := Some (phase_text p t)\<rparr>) r' \<and> phase_rank r \<le> phase_rank r'"
    using phase_known_write [OF assms(2)] by blast
qed

lemma grows_trans: "grows sha f g \<Longrightarrow> grows sha g h \<Longrightarrow> grows sha f h"
proof (rule growsI)
  fix es q assume fg: "grows sha f g" and gh: "grows sha g h" and es: "holds sha (cf_ledger f) es" and q: "phase_known f q"
  from growsD [OF fg es q] obtain fs r where 1: "holds sha (cf_ledger g) (es @ fs)" "phase_known g r" "phase_rank q \<le> phase_rank r" .
  from growsD [OF gh 1(1,2)] obtain gs u where "holds sha (cf_ledger h) ((es @ fs) @ gs)" "phase_known h u" "phase_rank r \<le> phase_rank u" .
  then have "holds sha (cf_ledger h) (es @ (fs @ gs)) \<and> phase_known h u \<and> phase_rank q \<le> phase_rank u"
    using 1(3) by simp
  then show "\<exists>fs r. holds sha (cf_ledger h) (es @ fs) \<and> phase_known h r \<and> phase_rank q \<le> phase_rank r"
    by blast
qed

lemma adjacent_rank: "phase_known f (Some q) \<Longrightarrow> adjacent q p \<Longrightarrow> p \<in> set PHASES \<and> phase_rank (Some q) < index_in PHASES p"
  using phase_rank_some [of f q] index_in_iff [of PHASES p] by (auto simp: adjacent_def phase_rank_def)

interpretation grows: free_order "grows sha" sha for sha
proof
  fix f g es q p t t' e
  show "grows sha f f"
    by (rule grows_same) simp_all
  show "grows sha f h" if "grows sha f g" "grows sha g h" for h
    using that by (rule grows_trans)
  show "grows sha f g" if "aside f g"
    using that by (intro grows_same) (simp_all add: aside_def)
  show "grows sha f g" if "\<not> well_formed sha f"
    using that by (auto simp: grows_def well_formed_def)
  show "grows sha f (append_line (new_line sha es e) f)" if "holds sha (cf_ledger f) es" "entry_ok e"
    using that by (rule grows_append)
  show "grows sha f (append_line (new_line sha es (transition_entry q p t)) f)" if "holds sha (cf_ledger f) es"
    using that by (rule grows_append) simp
  show "grows sha f ((append_line (new_line sha es (transition_entry q p t)) f)\<lparr>cf_phase := Some (phase_text p t')\<rparr>)"
    if "holds sha (cf_ledger f) es" "phase_known f (Some q)" "adjacent q p"
    using that adjacent_rank [of f q p]
    by (intro grows_trans [OF grows_append grows_phase [of _ "Some q"]]) (simp_all add: phase_rank_def)
  show "grows sha f (f\<lparr>cf_phase := Some (phase_text p t')\<rparr>)"
    if "phase_known f r" "p \<in> set PHASES" "phase_rank r < index_in PHASES p" for r
    using that by (intro grows_phase) simp_all
  show "grows sha f (f\<lparr>cf_token := i\<rparr>)" "grows sha f (f\<lparr>cf_auth := Some a\<rparr>)" for i a
    by (rule grows_same; simp)+
qed



section \<open>Token and authorization stay\<close>

text \<open>Everything but acquiring, releasing and copying the authorization.\<close>
definition keeps_token :: "(string \<Rightarrow> string) \<Rightarrow> ctl_files \<Rightarrow> ctl_files \<Rightarrow> bool" where
  "keeps_token sha f g =
     (well_formed sha f \<longrightarrow> well_formed sha g \<and> cf_token g = cf_token f \<and> cf_auth g = cf_auth f)"

lemma keeps_token_grows:
  assumes "grows sha f g" "cf_token g = cf_token f" "cf_auth g = cf_auth f"
  shows "keeps_token sha f g"
  using assms growsD [OF assms(1)] unfolding keeps_token_def well_formed_def by metis

lemma append_line_same [simp]:
  "cf_token (append_line line f) = cf_token f" "cf_auth (append_line line f) = cf_auth f"
  "cf_phase (append_line line f) = cf_phase f" "cf_root (append_line line f) = cf_root f"
  by (simp_all add: append_line_def)

interpretation kept: phase_order "keeps_token sha" sha for sha
proof
  fix f g es q p t t' e
  show "keeps_token sha f f"
    by (simp add: keeps_token_def)
  show "keeps_token sha f h" if "keeps_token sha f g" "keeps_token sha g h" for h
    using that by (simp add: keeps_token_def)
  show "keeps_token sha f g" if "aside f g"
    using that grows.beside by (intro keeps_token_grows) (simp_all add: aside_def)
  show "keeps_token sha f g" if "\<not> well_formed sha f"
    using that by (simp add: keeps_token_def)
  show "keeps_token sha f (append_line (new_line sha es e) f)" if "holds sha (cf_ledger f) es" "entry_ok e"
    using that by (intro keeps_token_grows grows_append) simp_all
  show "keeps_token sha f (append_line (new_line sha es (transition_entry q p t)) f)" if "holds sha (cf_ledger f) es"
    using that by (intro keeps_token_grows grows_append) simp_all
  show "keeps_token sha f ((append_line (new_line sha es (transition_entry q p t)) f)\<lparr>cf_phase := Some (phase_text p t')\<rparr>)"
    if "holds sha (cf_ledger f) es" "phase_known f (Some q)" "adjacent q p"
    using that by (intro keeps_token_grows grows.arrive) simp_all
  show "keeps_token sha f (f\<lparr>cf_phase := Some (phase_text p t')\<rparr>)"
    if "phase_known f r" "p \<in> set PHASES" "phase_rank r < index_in PHASES p" for r
    using that by (intro keeps_token_grows grows_phase [OF that]) simp_all
qed

text \<open>What leaves ledger and phase alone, as the lock operations do.\<close>
definition keeps_records :: "ctl_files \<Rightarrow> ctl_files \<Rightarrow> bool" where
  "keeps_records f g = (cf_ledger g = cf_ledger f \<and> cf_phase g = cf_phase f)"

interpretation records: aside_order keeps_records
  by unfold_locales (auto simp: keeps_records_def aside_def)

lemma release_keeps_records: "along keeps_records (release_lock env run_id)"
  unfolding release_lock_def by (intro steps records.io) (simp add: keeps_records_def)

interpretation quiet: file_order "(=)"
  by unfold_locales auto

section \<open>The token of a run in flight\<close>

text \<open>From the baseline on, and until it is done, a run has its token file.\<close>
definition in_flight :: "string option \<Rightarrow> bool" where
  "in_flight q = (index_in PHASES ''baseline-captured'' \<le> phase_rank q \<and> phase_rank q < index_in PHASES ''done'')"

definition guarded :: "ctl_files \<Rightarrow> bool" where
  "guarded f = (\<forall>q. phase_known f q \<longrightarrow> in_flight q \<longrightarrow> cf_token f \<noteq> None)"

definition guards :: "(string \<Rightarrow> string) \<Rightarrow> ctl_files \<Rightarrow> ctl_files \<Rightarrow> bool" where
  "guards sha f g = (well_formed sha f \<longrightarrow> guarded f \<longrightarrow> well_formed sha g \<and> guarded g)"

lemma guardsI: "(well_formed sha f \<Longrightarrow> guarded f \<Longrightarrow> well_formed sha g \<and> guarded g) \<Longrightarrow> guards sha f g"
  by (simp add: guards_def)

lemma guarded_same: "guarded f \<Longrightarrow> cf_phase g = cf_phase f \<Longrightarrow> cf_token g = cf_token f \<Longrightarrow> guarded g"
  by (simp add: guarded_def phase_known_same [of g f])

lemma grows_well_formed: "grows sha f g \<Longrightarrow> well_formed sha f \<Longrightarrow> well_formed sha g"
  using growsD unfolding well_formed_def by metis

lemma guards_grows: "grows sha f g \<Longrightarrow> (guarded f \<Longrightarrow> guarded g) \<Longrightarrow> guards sha f g"
  using grows_well_formed by (auto simp: guards_def)

interpretation guard: record_order "guards sha" sha for sha
proof
  fix f g es q e
  show "guards sha f f"
    by (simp add: guards_def)
  show "guards sha f h" if "guards sha f g" "guards sha g h" for h
    using that by (simp add: guards_def)
  show "guards sha f g" if "aside f g"
    using that grows.beside guarded_same [of f g] by (intro guards_grows) (simp_all add: aside_def)
  show "guards sha f g" if "\<not> well_formed sha f"
    using that by (simp add: guards_def)
  show "guards sha f (append_line (new_line sha es e) f)" if "holds sha (cf_ledger f) es" "entry_ok e"
    using that guarded_same [of f "append_line (new_line sha es e) f"] by (intro guards_grows grows_append) simp_all
qed

lemma guards_token: "guards sha f (f\<lparr>cf_token := Some i\<rparr>)"
  by (intro guards_grows grows.token) (simp add: guarded_def)

lemma guards_held: "keeps_token sha f g \<Longrightarrow> cf_token f \<noteq> None \<Longrightarrow> guards sha f g"
  by (simp add: keeps_token_def guards_def guarded_def)

lemma guards_phase:
  assumes "grows sha f g" "phase_known g q" "\<not> in_flight q"
  shows "guards sha f g"
proof (rule guards_grows [OF assms(1)])
  show "guarded g"
    unfolding guarded_def
  proof (intro allI impI)
    fix r assume "phase_known g r" "in_flight r"
    then have "in_flight q"
      using phase_known_unique [OF assms(2), of r] by simp
    then show "cf_token g \<noteq> None"
      using assms(3) by simp
  qed
qed

lemma in_flight_iff: "in_flight (Some p) \<longleftrightarrow> 3 \<le> index_in PHASES p \<and> index_in PHASES p < 18"
  by (simp add: in_flight_def phase_rank_def)

lemma guards_transition:
  assumes "ce_sha env = sha" "\<not> in_flight (Some p)"
  shows "along (guards sha) (transition_to env p)"
  unfolding along_def
proof
  fix s
  show "guards sha (cs_files s) (cs_files (snd (transition_to env p s)))"
  proof (cases "well_formed sha (cs_files s)")
    case True
    then obtain es q where state: "holds (ce_sha env) (cf_ledger (cs_files s)) es" "phase_known (cs_files s) q"
      using assms(1) by (auto simp: well_formed_def)
    then show ?thesis
    proof (cases rule: transition_to_cases [of env s es q p])
      case (unchanged e s')
      then show ?thesis
        by (simp add: guard.refl)
    next
      case (recorded q0 e s' t)
      then have "cf_phase (cs_files s') = cf_phase (cs_files s)" "cf_token (cs_files s') = cf_token (cs_files s)"
        by simp_all
      then show ?thesis
        using alongD [OF grows.transition_to [OF refl], of env s p] assms(1) guarded_same [of "cs_files s" "cs_files s'"]
        by (intro guards_grows) (simp_all add: recorded(3))
    next
      case (moved q0 r s' t t')
      have "p \<in> set PHASES"
        using adjacent_rank [of "cs_files s" q0 p] state(2) moved(1,2) by simp
      then have "phase_known (cs_files s') (Some p)"
        by (simp add: moved(5) phase_known_write)
      then show ?thesis
        using alongD [OF grows.transition_to [OF refl], of env s p] assms by (intro guards_phase) (simp_all add: moved(3))
    qed
  qed (rule guard.broken)
qed

text \<open>Once the transition to done has succeeded, the phase is done.\<close>
lemma transition_reaches:
  assumes "well_formed (ce_sha env) (cs_files s)" "transition_to env p s = (Inr u, s')"
  shows "phase_known (cs_files s') (Some p)"
proof -
  obtain es q where state: "holds (ce_sha env) (cf_ledger (cs_files s)) es" "phase_known (cs_files s) q"
    using assms(1) by (auto simp: well_formed_def)
  then show ?thesis
  proof (cases rule: transition_to_cases [of env s es q p])
    case (moved q0 r s1 t t')
    have "p \<in> set PHASES"
      using adjacent_rank [of "cs_files s" q0 p] state(2) moved(1,2) by simp
    then show ?thesis
      using moved(3,5) assms(2) by (simp add: phase_known_write)
  qed (use assms(2) in simp_all)
qed

lemma cseq_cases:
  obtains (fail) e s1 where "m s = (Inl e, s1)" "cseq m n s = (Inl e, s1)" | (go) a s1 where "m s = (Inr a, s1)" "cseq m n s = n s1"
proof (cases "m s")
  case (Pair r s1)
  then show ?thesis
    using that(1) [of _ s1] that(2) [of _ s1] by (cases r) (simp_all add: cseq_def cbind_def)
qed

lemma write_phase_reaches:
  assumes "well_formed sha (cs_files s)" "write_phase env p False s = (Inr u, s')" "p \<in> set PHASES"
  shows "phase_known (cs_files s') (Some p)"
proof -
  obtain q where "phase_known (cs_files s) q"
    using assms(1) by (auto simp: well_formed_def)
  then show ?thesis
    by (cases rule: write_phase_cases [of s q env p]) (use assms(2,3) in \<open>simp_all add: phase_known_write\<close>)
qed

text \<open>
  A part that is entered with the token, keeps it until the phase is done, and then leaves ledger and phase
  alone.
\<close>
lemma guards_closing:
  assumes fin: "finishes (keeps_token sha) (cseq w r) m" and w: "along (keeps_token sha) w" and r: "along keeps_records r"
    and reach: "\<And>s u s'. well_formed sha (cs_files s) \<Longrightarrow> w s = (Inr u, s') \<Longrightarrow> phase_known (cs_files s') (Some ''done'')"
    and grow: "along (grows sha) m" and token: "cf_token (cs_files s) \<noteq> None"
  shows "guards sha (cs_files s) (cs_files (snd (m s)))"
proof -
  from finishesD [OF fin, of s]
  obtain s1 where s1: "keeps_token sha (cs_files s) (cs_files s1)" and ending: "m s = cseq w r s1 \<or> (\<exists>e. m s = (Inl e, s1))" .
  consider (stopped) e where "m s = (Inl e, s1)" | (last) "m s = cseq w r s1"
    using ending by blast
  then show ?thesis
  proof cases
    case stopped
    then show ?thesis
      using s1 token by (intro guards_held) simp_all
  next
    case last
    show ?thesis
    proof (cases rule: cseq_cases [of w s1 r])
      case (fail e s2)
      then show ?thesis
        using kept.trans [OF s1 alongD [OF w, of s1]] last token by (intro guards_held) simp_all
    next
      case (go a s2)
      have "phase_known (cs_files (snd (m s))) (Some ''done'')" if "well_formed sha (cs_files s)"
      proof -
        have "phase_known (cs_files s2) (Some ''done'')"
          using s1 that by (intro reach [OF _ go(1)]) (simp add: keeps_token_def)
        moreover have "cf_phase (cs_files (snd (m s))) = cf_phase (cs_files s2)"
          using alongD [OF r, of s2] last go(2) by (simp add: keeps_records_def)
        ultimately show ?thesis
          using phase_known_same by blast
      qed
      then show ?thesis
        using guards_phase [OF alongD [OF grow], of s "Some ''done''"] guard.broken
        by (cases "well_formed sha (cs_files s)") (simp_all add: in_flight_iff)
    qed
  qed
qed

text \<open>A handler that is entered with the token.\<close>
lemma guards_handler:
  assumes sha: "ce_sha env = sha" and entry: "(q, p, h) \<in> set (registry env run_id)" and token: "cf_token (cs_files s) \<noteq> None"
  shows "guards sha (cs_files s) (cs_files (snd (h s)))"
proof (cases "p = ''done''")
  case False
  then show ?thesis
    using alongD [OF kept.handler [OF sha entry]] token by (intro guards_held)
next
  case True
  then have "finishes (keeps_token sha) (cseq (transition_to env ''done'') (release_lock env run_id)) h"
    using kept.handler_finishes [OF sha entry] by (simp add: last_step_def)
  then show ?thesis
    using kept.transition_to [OF sha] release_keeps_records transition_reaches [of env _ "''done''"] grows.any_handler [OF sha entry] token
    by (rule guards_closing) (simp_all add: sha)
qed

section \<open>From states with a property\<close>

definition along_from :: "(ctl_files \<Rightarrow> ctl_files \<Rightarrow> bool) \<Rightarrow> (ctl_files \<Rightarrow> bool) \<Rightarrow> ('w, 'a) ctl \<Rightarrow> bool" where
  "along_from R C m = (\<forall>s. C (cs_files s) \<longrightarrow> R (cs_files s) (cs_files (snd (m s))))"

lemma along_fromD: "along_from R C m \<Longrightarrow> C (cs_files s) \<Longrightarrow> R (cs_files s) (cs_files (snd (m s)))"
  by (simp add: along_from_def)

lemma along_from_start: "along_from R (\<lambda>_. True) m \<Longrightarrow> along R m"
  by (simp add: along_def along_from_def)

lemma along_from_all: "along R m \<Longrightarrow> along_from R C m"
  by (simp add: along_def along_from_def)

lemma along_from_if:
  "(b \<Longrightarrow> along_from R C m) \<Longrightarrow> (\<not> b \<Longrightarrow> along_from R C n) \<Longrightarrow> along_from R C (if b then m else n)"
  by simp

lemma along_from_prod: "(\<And>a b. along_from R C (f a b)) \<Longrightarrow> along_from R C (case p of (a, b) \<Rightarrow> f a b)"
  by (simp split: prod.split)

context file_order
begin

text \<open>A part that leaves the files alone and shows something about them.\<close>
lemma from_check:
  fixes m :: "('w, 'a) ctl"
  assumes "along (=) m" "\<And>s a s1. m s = (Inr a, s1) \<Longrightarrow> C (cs_files s) \<Longrightarrow> D a (cs_files s)"
    and "\<And>a. along_from R (D a) (f a)"
  shows "along_from R C (cbind m f)"
  unfolding along_from_def
proof (intro allI impI)
  fix s :: "'w ctl_state" assume C: "C (cs_files s)"
  obtain r s1 where m: "m s = (r, s1)"
    by (cases "m s")
  then have 1: "cs_files s1 = cs_files s"
    using alongD [OF assms(1), of s] by simp
  show "R (cs_files s) (cs_files (snd (cbind m f s)))"
  proof (cases r)
    case (Inr a)
    then have "D a (cs_files s1)"
      using assms(2) [of s a s1] m C 1 by simp
    then show ?thesis
      using along_fromD [OF assms(3), of a s1] m Inr 1 by (simp add: cbind_def)
  qed (use m 1 in \<open>simp add: cbind_def refl\<close>)
qed

lemma from_quiet: "along (=) m \<Longrightarrow> (\<And>a. along_from R C (f a)) \<Longrightarrow> along_from R C (cbind m f)"
  by (rule from_check [where D = "\<lambda>_. C"])

lemma from_quiet_seq: "along (=) m \<Longrightarrow> along_from R C n \<Longrightarrow> along_from R C (cseq m n)"
  by (simp add: cseq_def from_quiet)

lemma from_then:
  fixes m :: "('w, 'a) ctl"
  assumes "along_from R C m" "\<And>a. along R (f a)"
  shows "along_from R C (cbind m f)"
  unfolding along_from_def
proof (intro allI impI)
  fix s :: "'w ctl_state" assume C: "C (cs_files s)"
  obtain r s1 where m: "m s = (r, s1)"
    by (cases "m s")
  then have 1: "R (cs_files s) (cs_files s1)"
    using along_fromD [of R C m s] assms(1) C by simp
  show "R (cs_files s) (cs_files (snd (cbind m f s)))"
  proof (cases r)
    case (Inr a)
    then show ?thesis
      using trans [OF 1 alongD [OF assms(2), of s1 a]] m by (simp add: cbind_def)
  qed (use m 1 in \<open>simp add: cbind_def\<close>)
qed

lemma from_then_seq: "along_from R C m \<Longrightarrow> along R n \<Longrightarrow> along_from R C (cseq m n)"
  by (simp add: cseq_def from_then)

lemma from_lift: "(\<And>a. r = Inr a \<Longrightarrow> along_from R C (f a)) \<Longrightarrow> along_from R C (cbind (clift r) f)"
proof (cases r)
  case (Inr a)
  moreover have "cbind (clift (Inr a)) f = f a"
    by (simp add: cbind_def clift_def fun_eq_iff)
  ultimately show "(\<And>a. r = Inr a \<Longrightarrow> along_from R C (f a)) \<Longrightarrow> along_from R C (cbind (clift r) f)"
    by simp
qed (simp add: raise along_from_all)

end

section \<open>A run in flight keeps its token\<close>

lemma owned_token: "require_owned_lock env run_id None s = (Inr d, s1) \<Longrightarrow> cf_token (cs_files s) \<noteq> None"
  by (cases "cf_token (cs_files s)")
     (simp_all add: require_owned_lock_def read_lock_token_def cbind_def cread_def own_single_link_def)

lemma guards_entered:
  assumes "along_from (guards sha) (\<lambda>f. cf_token f \<noteq> None) h" "along (guards sha) t"
  shows "along_from (guards sha) C (cseq (require_owned_lock env run_id None)
      (cseq (require_live_authorization env run_id auth) (cseq h t)))"
  unfolding cseq_def [of "require_owned_lock env run_id None"]
  by (rule guard.from_check [OF quiet.require_owned_lock, where D = "\<lambda>_ f. cf_token f \<noteq> None"], erule owned_token)
     (intro guard.from_quiet_seq guard.from_then_seq assms quiet.require_live_authorization)

lemma guards_turn:
  assumes sha: "ce_sha env = sha"
  shows "along (guards sha) (machine_turn env run_id auth phase)"
  unfolding machine_turn_def
proof (rule along_from_start, rule guard.from_lift)
  fix entry assume entry: "handler_of env run_id phase = Inr entry"
  obtain p h where e: "entry = (p, h)"
    by (cases entry)
  then obtain q where "(q, p, h) \<in> set (registry env run_id)"
    using entry by (auto elim: handler_of_registry)
  then have h: "along_from (guards sha) (\<lambda>f. cf_token f \<noteq> None) h"
    using guards_handler [OF sha] by (simp add: along_from_def)
  show "along_from (guards sha) (\<lambda>_. True) (case entry of (next_phase, handler) \<Rightarrow>
     cbind current_phase (\<lambda>actual.
     cseq (crefuse (actual \<noteq> phase) (''phase mismatch: expected '' @ py_str phase @ '', got '' @ py_str actual))
     (cseq (validate_ledger_chain env)
     (cbind phase_tail_agree (\<lambda>agree.
      cseq (crefuse (\<not> agree) ''ledger/phase tail mismatch before phase mutation'')
      (cseq (require_owned_lock env run_id None)
      (cseq (require_live_authorization env run_id auth)
      (cseq handler
      (cbind current_phase (\<lambda>reached.
       cseq (crefuse (reached = JNull) ''phase disappeared mid-machine'')
       (cseq (crefuse (reached \<noteq> JStr next_phase)
         (''handler for '' @ py_str actual @ '' advanced to '' @ py_str reached @ '', expected '' @ next_phase))
       (creturn reached))))))))))))"
    unfolding e prod.case
    by (intro guards_entered guard.from_quiet guard.from_quiet_seq quiet.current_phase quiet.refuse quiet.validate_ledger_chain
        quiet.phase_tail_agree h guard.bind guard.seq guard.current_phase guard.refuse guard.return)
qed

lemma guards_loop: "ce_sha env = sha \<Longrightarrow> along (guards sha) (machine_loop env run_id auth n phase)"
  by (induction n arbitrary: phase; subst machine_loop.simps) (auto intro!: guard.return guard.diverge guard.bind guards_turn)

section \<open>The cleanup and the commands\<close>

lemma current_phase_reads: "current_phase s = (Inr phase, s1) \<Longrightarrow> phase_of_text (cf_phase (cs_files s)) = Inr phase"
  by (auto simp: current_phase_def cread_def)

text \<open>A run whose phase admits a cleanup is in flight.\<close>
lemma guarded_token:
  assumes "guarded f" "phase_known f q" "phase_of_text (cf_phase f) = Inr phase" "cleanup_index phase = Inr idx"
  shows "cf_token f \<noteq> None" "\<exists>p. phase = JStr p"
proof -
  have phase: "phase = opt_str q"
    using phase_of_text_known [OF assms(2)] assms(3) by simp
  then obtain p where q: "q = Some p"
    using assms(4) by (cases q) (simp_all add: opt_str_def cleanup_index_def)
  then have "3 \<le> index_in PHASES p" "p \<noteq> ''done''"
    using assms(4) phase by (auto simp: opt_str_def cleanup_index_def split: if_splits)
  moreover have "index_in PHASES p < 18"
    using assms(2) q \<open>p \<noteq> ''done''\<close> index_last [of p] by (simp add: phase_known_def)
  ultimately have "in_flight q"
    by (simp add: q in_flight_iff)
  then show "cf_token f \<noteq> None" "\<exists>p. phase = JStr p"
    using assms(1,2) phase q by (auto simp: guarded_def opt_str_def)
qed

lemma guards_cleanup_from:
  assumes sha: "ce_sha env = sha" and token: "cf_token (cs_files s) \<noteq> None"
  shows "guards sha (cs_files s) (cs_files (snd (cleanup_from env run_id (JStr p) idx s)))"
proof (rule guards_closing [OF kept.cleanup_finishes [OF sha] kept.write_phase _ _ grows.cleanup_from [OF sha] token])
  show "''done'' \<in> set PHASES"
    by (simp add: PHASES_def)
  then show "phase_known (cs_files s') (Some ''done'')"
    if "well_formed sha (cs_files s)" "write_phase env ''done'' False s = (Inr u, s')" for s s' u
    using that by (intro write_phase_reaches)
  show "along keeps_records (cseq (release_lock env run_id)
     (creturn [(''status'', JStr ''cleanup_completed''), (''run_id'', JStr run_id), (''from_phase'', JStr p)]))"
    by (intro records.seq release_keeps_records records.return)
qed

lemma guards_cleanup:
  assumes sha: "ce_sha env = sha"
  shows "along (guards sha) (execute_cleanup_suffix env run_id)"
  unfolding along_def
proof
  fix s
  show "guards sha (cs_files s) (cs_files (snd (execute_cleanup_suffix env run_id s)))"
  proof (cases "well_formed sha (cs_files s) \<and> guarded (cs_files s)")
    case True
    then obtain q where q: "phase_known (cs_files s) q"
      by (auto simp: well_formed_def)
    then have cur: "current_phase s = (Inr (opt_str q), s)"
      by (rule current_phase_known)
    show ?thesis
    proof (cases "cleanup_index (opt_str q)")
      case (Inl e)
      then show ?thesis
        by (simp add: execute_cleanup_suffix_def cbind_def [of current_phase] cur craise_def guard.refl)
    next
      case (Inr idx)
      have "cf_token (cs_files s) \<noteq> None" "\<exists>p. opt_str q = JStr p"
        using guarded_token [OF _ q phase_of_text_known [OF q] Inr] True by simp_all
      then obtain p where "cf_token (cs_files s) \<noteq> None" "opt_str q = JStr p"
        by blast
      moreover have "execute_cleanup_suffix env run_id s = cleanup_from env run_id (opt_str q) idx s"
        by (simp add: execute_cleanup_suffix_def cbind_def clift_def cur Inr)
      ultimately show ?thesis
        using guards_cleanup_from [OF sha] by simp
    qed
  qed (auto simp: guards_def)
qed

lemma guards_machine_failed:
  assumes sha: "ce_sha env = sha"
  shows "along (guards sha) (machine_failed env run_id e)"
  unfolding machine_failed_def
proof (rule guard.at_phase)
  fix p
  have "along (guards sha) (append_ledger env (if truthy (JStr p) then JStr p else JStr ''unknown'') ''machine.failure'' [])"
    by (cases "p = []") (auto intro!: guard.append_ledger simp: sha)
  then show "along (guards sha) (cseq (if JStr p \<in> set (JNull # map JStr [''sealed'', ''preflight-ok'', ''lock-held'']) then creturn ()
       else
         cseq (append_ledger env (if truthy (JStr p) then JStr p else JStr ''unknown'') ''machine.failure'' [])
         (cbind (clift (phase_index (if truthy (JStr p) then JStr p else JStr []))) (\<lambda>idx.
          if index_in PHASES ''baseline-captured'' \<le> idx then cseq (execute_cleanup_suffix env run_id) (creturn ())
          else creturn ())))
     (craise e))"
    by (intro steps guard.seq guard.bind guard.return guard.raise guard.lift guards_cleanup sha)
qed (auto intro: guard.seq guard.return guard.raise)

lemma guards_machine: "ce_sha env = sha \<Longrightarrow> along (guards sha) (execute_state_machine env run_id auth)"
  unfolding execute_state_machine_def
  by (intro guard.seq guard.bind guard.catch guard.refuse guard.return guard.current_phase guards_loop guards_machine_failed)

text \<open>The handler of run gives the lock back only before the baseline.\<close>
definition early_phase :: "ctl_files \<Rightarrow> bool" where
  "early_phase f = (\<exists>p \<in> {''sealed'', ''preflight-ok'', ''lock-held''}. phase_of_text (cf_phase f) = Inr (JStr p))"

lemma guards_release_early:
  assumes "early_phase (cs_files s)"
  shows "guards sha (cs_files s) (cs_files (snd (release_lock env run_id s)))"
proof (cases "well_formed sha (cs_files s)")
  case True
  then obtain q where q: "phase_known (cs_files s) q"
    by (auto simp: well_formed_def)
  obtain p where p: "p \<in> {''sealed'', ''preflight-ok'', ''lock-held''}" "phase_of_text (cf_phase (cs_files s)) = Inr (JStr p)"
    using assms by (auto simp: early_phase_def)
  have "q = Some p"
    using phase_of_text_known [OF q] p(2) by (cases q) (simp_all add: opt_str_def)
  then have "\<not> in_flight q"
    using p(1) by (auto simp: in_flight_iff)
  moreover have "phase_known (cs_files (snd (release_lock env run_id s))) q"
    using q alongD [OF release_keeps_records, of s env run_id]
      phase_known_same [of "cs_files (snd (release_lock env run_id s))" "cs_files s" q] by (simp add: keeps_records_def)
  ultimately show ?thesis
    using alongD [OF grows.release_lock] by (intro guards_phase)
qed (rule guard.broken)

lemma guards_write_early:
  "along_from (guards sha) early_phase (cseq (write_evidence env filename data) (release_lock env run_id))"
  unfolding along_from_def
proof (intro allI impI)
  fix s :: "'a ctl_state"
  assume early: "early_phase (cs_files s)"
  show "guards sha (cs_files s) (cs_files (snd (cseq (write_evidence env filename data) (release_lock env run_id) s)))"
  proof (cases rule: cseq_cases [of "write_evidence env filename data" s "release_lock env run_id"])
    case (fail e s1)
    then show ?thesis
      using alongD [OF guard.write_evidence [of sha env filename data], of s] by simp
  next
    case (go a s1)
    have "early_phase (cs_files s1)"
      using early alongD [OF records.write_evidence [of env filename data], of s] go(1) by (simp add: early_phase_def keeps_records_def)
    then show ?thesis
      using guard.trans [OF _ guards_release_early] alongD [OF guard.write_evidence [of sha env filename data], of s] go by simp
  qed
qed

lemma guards_run_failed: "along (guards sha) (run_failed env run_id e)"
  unfolding run_failed_def
proof (rule along_from_start, rule guard.from_check [OF quiet.current_phase, where D = "\<lambda>phase f. phase_of_text (cf_phase f) = Inr phase"])
  show "phase_of_text (cf_phase (cs_files s)) = Inr phase" if "current_phase s = (Inr phase, s1)" for s :: "'a ctl_state" and phase s1
    using that by (rule current_phase_reads)
  fix current
  show "along_from (guards sha) (\<lambda>f. phase_of_text (cf_phase f) = Inr current)
     (cbind (clift (in_strings current [''sealed'', ''preflight-ok'', ''lock-held''])) (\<lambda>early.
      cseq (if early
        then cseq (write_evidence env ''preactivation-failed.json''
               (JObj [(''phase'', current), (''production_mutation_started'', JBool False)]))
             (release_lock env run_id)
        else creturn ())
      (craise e)))"
  proof (rule guard.from_lift)
    fix early assume early: "in_strings current [''sealed'', ''preflight-ok'', ''lock-held''] = Inr early"
    have start: "early_phase f" if "early" "phase_of_text (cf_phase f) = Inr current" for f
      using that early by (cases current) (auto simp: in_strings_def early_phase_def)
    show "along_from (guards sha) (\<lambda>f. phase_of_text (cf_phase f) = Inr current)
      (cseq (if early
        then cseq (write_evidence env ''preactivation-failed.json''
               (JObj [(''phase'', current), (''production_mutation_started'', JBool False)]))
             (release_lock env run_id)
        else creturn ())
      (craise e))"
    proof (rule guard.from_then_seq [OF along_from_if guard.raise])
      show "along_from (guards sha) (\<lambda>f. phase_of_text (cf_phase f) = Inr current)
         (cseq (write_evidence env ''preactivation-failed.json''
            (JObj [(''phase'', current), (''production_mutation_started'', JBool False)])) (release_lock env run_id))" if "early"
        using guards_write_early start [OF that] unfolding along_from_def by blast
      show "along_from (guards sha) (\<lambda>f. phase_of_text (cf_phase f) = Inr current) (creturn ())"
        by (rule along_from_all [OF guard.return])
    qed
  qed
qed

lemma guards_acquire: "along (guards sha) (acquire_lock env run_id)"
  unfolding acquire_lock_def
  by (intro guard.seq guard.bind guard.lift guard.read guard.refuse guard.require_free_lock guard.run_command guard.io_id
      guard.io guards_token guard.require_owned_lock guard.return along_prod)

lemma guards_write_phase:
  assumes "\<not> in_flight (Some p)" "p \<in> set PHASES"
  shows "along (guards sha) (write_phase env p False)"
  unfolding along_def
proof
  fix s
  show "guards sha (cs_files s) (cs_files (snd (write_phase env p False s)))"
  proof (cases "well_formed sha (cs_files s)")
    case True
    then obtain q where q: "phase_known (cs_files s) q"
      by (auto simp: well_formed_def)
    then show ?thesis
    proof (cases rule: write_phase_cases [of s q env p])
      case (written r s' t)
      then have "phase_known (cs_files s') (Some p)"
        using assms(2) by (simp add: phase_known_write)
      then show ?thesis
        using guards_phase [OF alongD [OF grows.write_phase [OF assms(2), of sha env], of s]] assms(1) written(1) by simp
    qed (simp add: guard.refl)
  qed (rule guard.broken)
qed

lemma phases_known: "''sealed'' \<in> set PHASES" "''done'' \<in> set PHASES"
  by (simp_all add: PHASES_def)

lemma guards_prepare:
  "ce_sha env = sha \<Longrightarrow> along (guards sha) (prepare_body env run_id unit_user unit_group hashes revisions config)"
  unfolding prepare_body_def
  by (intro steps guard.seq guard.bind guard.read guard.lift guard.refuse guard.return guard.create_run_dirs
      guard.collects guard.db_evidence guard.canonical_projection_snapshot guard.create_backup guard.build_controller_manifest
      guard.write_manifest guard.write_evidence guards_write_phase guard.append_ledger)
     (simp_all add: in_flight_iff phases_known)

lemma guards_cmd_prepare: "ce_sha env = sha \<Longrightarrow> along (guards sha) (cmd_prepare env run_id unit_user unit_group)"
  unfolding cmd_prepare_def
  by (intro guard.seq guard.bind guard.lift guard.read guard.refuse guard.require_free_lock guard.collects guard.catch
      guards_prepare guard.write_forensic_failure guard.return guard.raise)

lemma phase_known_update [simp]:
  "phase_known (f\<lparr>cf_auth := a\<rparr>) q = phase_known f q" "phase_known (f\<lparr>cf_token := i\<rparr>) q = phase_known f q"
  by (rule phase_known_same; simp)+

lemma guards_copy: "along (guards sha) (atomic_copy env src)"
  unfolding atomic_copy_def
  by (intro guard.seq guard.bind guard.read guard.io_id guard.io guards_grows [OF grows.auth]) (simp add: guarded_def)

lemma guards_cmd_run: "ce_sha env = sha \<Longrightarrow> along (guards sha) (cmd_run env run_id file sha256)"
  unfolding cmd_run_def
  by (intro guard.seq guard.bind guard.lift guard.read guard.refuse guard.current_phase guard.validate_authorization guards_copy
      guards_acquire guard.catch guard.preflight guards_transition guards_machine guards_run_failed) (simp_all add: in_flight_iff)

lemma guards_cmd_cleanup: "ce_sha env = sha \<Longrightarrow> along (guards sha) (cmd_cleanup env run_id)"
  unfolding cmd_cleanup_def
  by (intro guard.seq guard.bind guard.lift guard.current_phase guards_acquire guards_cleanup)

lemma guards_main: "ce_sha env = sha \<Longrightarrow> guards sha (cs_files s) (cs_files (snd (main env euid c s)))"
proof -
  assume sha: "ce_sha env = sha"
  have "along (guards sha) (run_command_line env c)"
    using sha by (cases c) (simp_all add: run_command_line_def guards_cmd_prepare guard.cmd_preflight guard.cmd_status
      guards_cmd_run guards_cmd_cleanup)
  then show ?thesis
    using alongD [of "guards sha" "run_command_line env c" s]
    by (auto simp: main_def guard.refl split: prod.split sum.split ctl_stop.split ctl_exc.split)
qed

lemma fresh_guarded: "fresh f \<Longrightarrow> well_formed sha f \<and> guarded f"
proof -
  assume "fresh f"
  then have start: "holds sha (cf_ledger f) []" "phase_known f None"
    using fresh_holds by blast+
  have "cf_token f \<noteq> None" if "phase_known f q" "in_flight q" for q
    using that phase_known_unique [OF that(1) start(2)] by (simp add: in_flight_def phase_rank_def)
  then show "well_formed sha f \<and> guarded f"
    using start unfolding well_formed_def guarded_def by blast
qed

lemma history_guarded:
  assumes "well_formed sha (cs_files s)" "guarded (cs_files s)" "same_digest sha reqs"
  shows "well_formed sha (cs_files (history reqs s))" "guarded (cs_files (history reqs s))"
proof -
  have "guards sha (cs_files s) (cs_files (history reqs s))"
    using assms(3) by (intro history_along [OF guard.refl guard.trans guards_main])
  then show "well_formed sha (cs_files (history reqs s))" "guarded (cs_files (history reqs s))"
    using assms(1,2) by (simp_all add: guards_def)
qed

text \<open>
  no run in flight loses its lock token: that the token file is there from the baseline on and until
  the run is done is an invariant of every history of commands, however they fail.
\<close>
theorem history_keeps_token:
  assumes "well_formed sha (cs_files s)" "guarded (cs_files s)" "same_digest sha reqs"
    and "phase_known (cs_files (history reqs s)) q" "in_flight q"
  shows "cf_token (cs_files (history reqs s)) \<noteq> None"
  using history_guarded(2) [OF assms(1-3)] assms(4,5) by (simp add: guarded_def)

section \<open>The command cleanup\<close>

lemma acquire_refused:
  assumes "cf_token (cs_files s) \<noteq> None"
  shows "\<exists>msg. acquire_lock env run_id s = (Inl (Raised (ControllerError msg)), s)"
proof -
  have "validate_run_id run_id = Inr run_id \<or> (\<exists>msg. validate_run_id run_id = Inl (ControllerError msg))"
    by (simp add: validate_run_id_def)
  then show ?thesis
    using assms by (elim disjE exE)
      (simp_all add: acquire_lock_def cseq_def cbind_def clift_def cread_def crefuse_def craise_def)
qed

text \<open>With a phase that admits a cleanup, a run in flight has its token, and the lock cannot be acquired again.\<close>
lemma cleanup_refused:
  assumes "well_formed sha (cs_files s)" "guarded (cs_files s)"
  shows "\<exists>msg. cmd_cleanup env run_id s = (Inl (Raised (ControllerError msg)), s)"
proof -
  obtain q where q: "phase_known (cs_files s) q"
    using assms(1) by (auto simp: well_formed_def)
  note cur = current_phase_known [OF q]
  have run_id: "validate_run_id run_id = Inr run_id \<or> (\<exists>msg. validate_run_id run_id = Inl (ControllerError msg))"
    by (simp add: validate_run_id_def)
  show ?thesis
  proof (cases "check_cleanup_phase run_id (opt_str q)")
    case (Inl e)
    then obtain msg where "e = ControllerError msg"
      by (cases q) (auto simp: check_cleanup_phase_def opt_str_def split: if_splits)
    then show ?thesis
      using run_id Inl by (elim disjE exE) (simp_all add: cmd_cleanup_def cseq_def cbind_def clift_def craise_def cur)
  next
    case (Inr u)
    then obtain p where p: "q = Some p"
      by (cases q) (simp_all add: check_cleanup_phase_def opt_str_def)
    then have "p \<noteq> ''done''" "4 \<le> index_in PHASES p"
      using Inr by (auto simp: check_cleanup_phase_def opt_str_def split: if_splits)
    moreover have "index_in PHASES p < 18" if "p \<noteq> ''done''"
      using q p that index_last [of p] by (simp add: phase_known_def)
    ultimately have "cf_token (cs_files s) \<noteq> None"
      using assms(2) q p by (simp add: guarded_def in_flight_iff)
    then obtain msg where "acquire_lock env run_id s = (Inl (Raised (ControllerError msg)), s)"
      using acquire_refused by blast
    then show ?thesis
      using run_id Inr by (elim disjE exE) (simp_all add: cmd_cleanup_def cseq_def cbind_def clift_def craise_def cur)
  qed
qed

text \<open>
  C7: the command cleanup never cleans up. After every history of commands on a new run directory, with
  faults at any point, and in every state of the rest of the machine, it exits with status 1 and changes
  nothing at all: the phases that admit it are those of a run in flight, whose token file makes
  \<open>_acquire_lock\<close> refuse.
\<close>
theorem cleanup_never_runs:
  assumes "fresh (cs_files s)" "same_digest sha reqs"
  shows "\<exists>msg. main env euid (CtlCleanup run_id) ((history reqs s)\<lparr>cs_world := w\<rparr>)
     = (Exit 1 [] msg, (history reqs s)\<lparr>cs_world := w\<rparr>)"
proof (cases "euid = 0")
  case True
  have "well_formed sha (cs_files ((history reqs s)\<lparr>cs_world := w\<rparr>))" "guarded (cs_files ((history reqs s)\<lparr>cs_world := w\<rparr>))"
    using history_guarded [OF _ _ assms(2)] fresh_guarded [OF assms(1)] by simp_all
  then obtain msg where "cmd_cleanup env run_id ((history reqs s)\<lparr>cs_world := w\<rparr>)
    = (Inl (Raised (ControllerError msg)), (history reqs s)\<lparr>cs_world := w\<rparr>)"
    using cleanup_refused by blast
  then show ?thesis
    using True by (simp add: main_def run_command_line_def)
qed (simp add: main_def)

section \<open>One authorization, one end\<close>

definition keeps_auth :: "(string \<Rightarrow> string) \<Rightarrow> ctl_files \<Rightarrow> ctl_files \<Rightarrow> bool" where
  "keeps_auth sha f g = (well_formed sha f \<longrightarrow> well_formed sha g \<and> (cf_auth f \<noteq> None \<longrightarrow> cf_auth g \<noteq> None))"

lemma keeps_auth_grows:
  assumes "grows sha f g" "cf_auth f \<noteq> None \<Longrightarrow> cf_auth g \<noteq> None"
  shows "keeps_auth sha f g"
  using assms grows_well_formed unfolding keeps_auth_def by blast

interpretation auth: free_order "keeps_auth sha" sha for sha
proof
  fix f g es q p t t' e
  show "keeps_auth sha f f"
    by (simp add: keeps_auth_def)
  show "keeps_auth sha f h" if "keeps_auth sha f g" "keeps_auth sha g h" for h
    using that by (simp add: keeps_auth_def)
  show "keeps_auth sha f g" if "aside f g"
    using that by (intro keeps_auth_grows grows.beside) (simp_all add: aside_def)
  show "keeps_auth sha f g" if "\<not> well_formed sha f"
    using that by (simp add: keeps_auth_def)
  show "keeps_auth sha f (append_line (new_line sha es e) f)" if "holds sha (cf_ledger f) es" "entry_ok e"
    using that by (intro keeps_auth_grows grows_append) simp_all
  show "keeps_auth sha f (append_line (new_line sha es (transition_entry q p t)) f)" if "holds sha (cf_ledger f) es"
    using that by (intro keeps_auth_grows grows_append) simp_all
  show "keeps_auth sha f ((append_line (new_line sha es (transition_entry q p t)) f)\<lparr>cf_phase := Some (phase_text p t')\<rparr>)"
    if "holds sha (cf_ledger f) es" "phase_known f (Some q)" "adjacent q p"
    using that by (intro keeps_auth_grows grows.arrive) simp_all
  show "keeps_auth sha f (f\<lparr>cf_phase := Some (phase_text p t')\<rparr>)"
    if "phase_known f r" "p \<in> set PHASES" "phase_rank r < index_in PHASES p" for r
    using that by (intro keeps_auth_grows grows_phase [OF that]) simp_all
  show "keeps_auth sha f (f\<lparr>cf_token := i\<rparr>)" for i
    by (intro keeps_auth_grows grows.token) simp
  show "keeps_auth sha f (f\<lparr>cf_auth := Some i\<rparr>)" for i
    by (intro keeps_auth_grows grows.auth) simp
qed

lemma run_refused:
  assumes "well_formed sha (cs_files s)" "cf_auth (cs_files s) \<noteq> None"
  shows "\<exists>msg. cmd_run env run_id src digest s = (Inl (Raised (ControllerError msg)), s)"
proof -
  obtain q where "phase_known (cs_files s) q"
    using assms(1) by (auto simp: well_formed_def)
  note cur = current_phase_known [OF this]
  have run_id: "validate_run_id run_id = Inr run_id \<or> (\<exists>msg. validate_run_id run_id = Inl (ControllerError msg))"
    by (simp add: validate_run_id_def)
  show ?thesis
    using run_id assms(2)
    by (elim disjE exE)
       (simp_all add: cmd_run_def cseq_def cbind_def clift_def cread_def crefuse_def craise_def creturn_def cur)
qed

text \<open>
  C12: an authorization is used once. In a run directory with a live authorization, every later run is
  refused, after every history of commands and with nothing changed: a nonce cannot be replayed.
\<close>
theorem authorization_used_once:
  assumes "well_formed sha (cs_files s)" "cf_auth (cs_files s) \<noteq> None" "same_digest sha reqs"
  shows "\<exists>msg. main env euid (CtlRun run_id src digest) (history reqs s) = (Exit 1 [] msg, history reqs s)"
proof (cases "euid = 0")
  case True
  have "keeps_auth sha (cs_files s) (cs_files (history reqs s))"
    using assms(3) by (intro history_along [OF auth.refl auth.trans auth.main])
  then have "well_formed sha (cs_files (history reqs s))" "cf_auth (cs_files (history reqs s)) \<noteq> None"
    using assms(1,2) by (simp_all add: keeps_auth_def)
  from run_refused [OF this, of env run_id src digest] show ?thesis
    using True by (auto simp: main_def run_command_line_def)
qed (simp add: main_def)

text \<open>The end of a run is final, and so is a token that it leaves behind.\<close>
definition stays_done :: "(string \<Rightarrow> string) \<Rightarrow> ctl_files \<Rightarrow> ctl_files \<Rightarrow> bool" where
  "stays_done sha f g =
     (well_formed sha f \<longrightarrow> phase_known f (Some ''done'') \<longrightarrow>
        well_formed sha g \<and> phase_known g (Some ''done'') \<and> cf_token g = cf_token f)"

lemma rank_done:
  assumes "phase_known g r" "18 \<le> phase_rank r"
  shows "r = Some ''done''"
proof (cases r)
  case (Some p)
  then show ?thesis
    using assms index_last [of p] by (auto simp: phase_known_def phase_rank_def)
qed (use assms in \<open>simp add: phase_rank_def\<close>)

lemma done_refuses:
  assumes "phase_known (cs_files s) (Some ''done'')"
  shows "cs_files (snd (cmd_run env run_id src digest s)) = cs_files s"
    and "cs_files (snd (cmd_cleanup env run_id s)) = cs_files s"
proof -
  note cur = current_phase_known [OF assms]
  show "cs_files (snd (cmd_run env run_id src digest s)) = cs_files s"
    by (cases "validate_run_id run_id")
       (simp_all add: cmd_run_def cseq_def cbind_def clift_def crefuse_def craise_def cur opt_str_def)
  show "cs_files (snd (cmd_cleanup env run_id s)) = cs_files s"
    by (cases "validate_run_id run_id")
       (simp_all add: cmd_cleanup_def cseq_def cbind_def clift_def craise_def cur opt_str_def check_cleanup_phase_def)
qed

lemma stays_done_main:
  assumes sha: "ce_sha env = sha"
  shows "stays_done sha (cs_files s) (cs_files (snd (main env euid c s)))"
  unfolding stays_done_def
proof (intro impI)
  assume wf: "well_formed sha (cs_files s)" and ended: "phase_known (cs_files s) (Some ''done'')"
  let ?s = "snd (run_command_line env c s)"
  have "cf_token (cs_files ?s) = cf_token (cs_files s)"
  proof (cases c)
    case (CtlPrepare run_id u g)
    then show ?thesis
      using alongD [OF kept.cmd_prepare [OF sha], of s run_id u g] wf by (simp add: run_command_line_def keeps_token_def)
  next
    case (CtlPreflight run_id)
    then show ?thesis
      using alongD [OF quiet.cmd_preflight, of s env run_id] by (simp add: run_command_line_def)
  next
    case (CtlStatus run_id)
    then show ?thesis
      using alongD [OF quiet.cmd_status, of s env run_id] by (simp add: run_command_line_def)
  qed (simp_all add: run_command_line_def done_refuses [OF ended])
  moreover have main: "snd (main env euid c s) = (if euid \<noteq> 0 then s else ?s)"
    by (simp add: main_def split: prod.split sum.split ctl_stop.split ctl_exc.split)
  moreover have "well_formed sha (cs_files (snd (main env euid c s)))"
    using grows_well_formed [OF grows.main [OF sha] wf] .
  moreover obtain es where "holds sha (cf_ledger (cs_files s)) es"
    using wf by (auto simp: well_formed_def)
  from growsD [OF grows.main [OF sha, of s euid c] this ended]
  obtain r where "phase_known (cs_files (snd (main env euid c s))) r" "phase_rank (Some ''done'') \<le> phase_rank r" .
  then have "phase_known (cs_files (snd (main env euid c s))) (Some ''done'')"
    using rank_done [of "cs_files (snd (main env euid c s))" r] by (simp add: phase_rank_def)
  ultimately show "well_formed sha (cs_files (snd (main env euid c s))) \<and>
      phase_known (cs_files (snd (main env euid c s))) (Some ''done'') \<and>
      cf_token (cs_files (snd (main env euid c s))) = cf_token (cs_files s)"
    by simp
qed

text \<open>
  C17: when the release of the production lock fails at the end of a run, no later command of the controller
  releases it: from a phase of done, every history of commands leaves the phase and the token file as they
  are.
\<close>
theorem done_is_final:
  assumes "well_formed sha (cs_files s)" "phase_known (cs_files s) (Some ''done'')" "same_digest sha reqs"
  shows "phase_known (cs_files (history reqs s)) (Some ''done'') \<and> cf_token (cs_files (history reqs s)) = cf_token (cs_files s)"
proof -
  have "stays_done sha (cs_files s) (cs_files (history reqs s))"
    using assms(3) by (intro history_along [where R = "stays_done sha" and sha = sha] stays_done_main) (simp_all add: stays_done_def)
  then show ?thesis
    using assms(1,2) by (simp add: stays_done_def)
qed

section \<open>Examples\<close>

text \<open>A machine on which every write is done and every command fails.\<close>
definition idle_env :: "unit ctl_env" where
  "idle_env =
     \<lparr>ce_sha = (\<lambda>s. replicate 64 CHR ''0''),
      ce_now = (\<lambda>w. (\<lparr>dt_year = 2025, dt_month = 1, dt_day = 1, dt_hour = 0, dt_minute = 0, dt_second = 0, dt_micro = 0\<rparr>, w)),
      ce_monotonic = (\<lambda>w. (0, w)), ce_sleep = (\<lambda>d w. w), ce_io = (\<lambda>label w. (IoDone, w)),
      ce_exec = (\<lambda>argv env timeout w. (Exited 1 [] [], w)), ce_query = (\<lambda>w sql params. Inl ''OperationalError''),
      ce_lstat = (\<lambda>w path. None), ce_realpath = (\<lambda>w path. Inr path), ce_exists = (\<lambda>w path. False),
      ce_dev_ino = (\<lambda>w path. (0, 0)), ce_db_copy = (\<lambda>w. Inl ''OperationalError''), ce_shlex = (\<lambda>s. Inr []),
      ce_toml = (\<lambda>s. Inr []), ce_fromiso = (\<lambda>s. IsoInvalid), ce_json_error = (\<lambda>s. []), ce_environ = [],
      ce_hostname = ''host'', ce_pid = 1, ce_polls = 10, ce_user = (\<lambda>u. Some 1000), ce_group = (\<lambda>g. Some 1000)\<rparr>"

definition idle_time :: utc_time where
  "idle_time = \<lparr>dt_year = 2025, dt_month = 1, dt_day = 1, dt_hour = 0, dt_minute = 0, dt_second = 0, dt_micro = 0\<rparr>"

text \<open>A new run directory, and one with a run in flight.\<close>
definition empty_files :: ctl_files where
  "empty_files =
     \<lparr>cf_root = False, cf_phase = None, cf_ledger = None, cf_token = None, cf_auth = None, cf_manifest = None,
      cf_manifest_sha = None, cf_backup = None, cf_evidence = [], cf_markers = []\<rparr>"

definition flying_files :: ctl_files where
  "flying_files =
     empty_files\<lparr>cf_root := True, cf_phase := Some (phase_text ''agents-online'' idle_time),
       cf_token := Some (new_file (replicate 64 CHR ''0'' @ [nl]))\<rparr>"

definition RUN_ID :: string where "RUN_ID = ''p9-3c1-prod-20250101t000000z-01234567''"

lemma flying_state:
  "holds sha (cf_ledger flying_files) []" "phase_known flying_files (Some ''agents-online'')"
  by (auto simp: flying_files_def empty_files_def holds_def phase_known_def PHASES_def)

lemma flying_guarded: "well_formed sha flying_files" "guarded flying_files"
proof -
  show "well_formed sha flying_files"
    using flying_state unfolding well_formed_def by blast
  show "guarded flying_files"
    by (simp add: guarded_def flying_files_def)
qed



theorem history_keeps_token_witness:
  "cf_token (cs_files (history [] \<lparr>cs_files = flying_files, cs_world = ()\<rparr>)) \<noteq> None"
  using flying_guarded flying_state
  by (intro history_keeps_token [where sha = "ce_sha idle_env" and q = "Some ''agents-online''"])
     (simp_all add: same_digest_def history_def in_flight_iff)

theorem cleanup_never_runs_witness:
  "\<exists>msg. main idle_env 0 (CtlCleanup RUN_ID) ((history [(idle_env, 0, CtlPrepare RUN_ID ''user'' ''group'', ())]
     \<lparr>cs_files = empty_files, cs_world = ()\<rparr>)\<lparr>cs_world := ()\<rparr>)
   = (Exit 1 [] msg, (history [(idle_env, 0, CtlPrepare RUN_ID ''user'' ''group'', ())]
     \<lparr>cs_files = empty_files, cs_world = ()\<rparr>)\<lparr>cs_world := ()\<rparr>)"
  by (rule cleanup_never_runs [where sha = "ce_sha idle_env"]) (simp_all add: fresh_def empty_files_def same_digest_def)

theorem authorization_used_once_witness:
  "\<exists>msg. main idle_env 0 (CtlRun RUN_ID ''/root/auth.json'' (replicate 64 CHR ''0''))
       (history [(idle_env, 0, CtlStatus RUN_ID, ())] \<lparr>cs_files = flying_files\<lparr>cf_auth := Some (new_file [])\<rparr>, cs_world = ()\<rparr>)
     = (Exit 1 [] msg, history [(idle_env, 0, CtlStatus RUN_ID, ())]
         \<lparr>cs_files = flying_files\<lparr>cf_auth := Some (new_file [])\<rparr>, cs_world = ()\<rparr>)"
proof (rule authorization_used_once [where sha = "ce_sha idle_env"])
  show "well_formed (ce_sha idle_env) (cs_files \<lparr>cs_files = flying_files\<lparr>cf_auth := Some (new_file [])\<rparr>, cs_world = ()\<rparr>)"
    using flying_guarded(1) by (simp add: well_formed_def)
qed (simp_all add: same_digest_def)

definition finished_files :: ctl_files where
  "finished_files = flying_files\<lparr>cf_phase := Some (phase_text ''done'' idle_time)\<rparr>"

theorem done_is_final_witness:
  "phase_known (cs_files (history [(idle_env, 0, CtlCleanup RUN_ID, ())] \<lparr>cs_files = finished_files, cs_world = ()\<rparr>)) (Some ''done'')
   \<and> cf_token (cs_files (history [(idle_env, 0, CtlCleanup RUN_ID, ())] \<lparr>cs_files = finished_files, cs_world = ()\<rparr>))
     = Some (new_file (replicate 64 CHR ''0'' @ [nl]))"
proof -
  have known: "phase_known finished_files (Some ''done'')"
    by (auto simp: finished_files_def phase_known_def PHASES_def)
  moreover have "holds (ce_sha idle_env) (cf_ledger finished_files) []"
    using flying_state(1) by (simp add: finished_files_def)
  ultimately have "well_formed (ce_sha idle_env) finished_files"
    unfolding well_formed_def by blast
  then show ?thesis
    using done_is_final [of "ce_sha idle_env" "\<lparr>cs_files = finished_files, cs_world = ()\<rparr>" "[(idle_env, 0, CtlCleanup RUN_ID, ())]"] known
    by (simp add: same_digest_def) (simp add: finished_files_def flying_files_def)
qed

end
