(* ===== verification/ControllerProgress.thy ===== *)
theory ControllerProgress
  imports ControllerSafety
begin

text \<open>
  What a success of the controller says: a turn of the machine has recorded exactly one transition, to the
  next phase, and a machine that ends has passed every phase in order; and that the loops end.
\<close>

section \<open>Transitions in the ledger\<close>

definition moves :: "entry list \<Rightarrow> string list" where
  "moves es = map en_phase (filter (\<lambda>e. en_event e = ''phase.transition'') es)"

lemma moves_simps [simp]:
  "moves [] = []" "moves (es @ fs) = moves es @ moves fs" "moves [transition_entry q p t] = [p]"
  by (simp_all add: moves_def)

text \<open>The body of a handler records no transition and leaves the phase as it is.\<close>
definition bodily :: "(string \<Rightarrow> string) \<Rightarrow> ctl_files \<Rightarrow> ctl_files \<Rightarrow> bool" where
  "bodily sha f g =
     (\<forall>es q. holds sha (cf_ledger f) es \<longrightarrow> phase_known f q \<longrightarrow>
        (\<exists>fs. holds sha (cf_ledger g) (es @ fs) \<and> moves fs = [] \<and> phase_known g q))"

lemma bodilyI:
  assumes "\<And>es q. holds sha (cf_ledger f) es \<Longrightarrow> phase_known f q \<Longrightarrow>
    \<exists>fs. holds sha (cf_ledger g) (es @ fs) \<and> moves fs = [] \<and> phase_known g q"
  shows "bodily sha f g"
  using assms by (simp add: bodily_def)

lemma bodilyD:
  assumes "bodily sha f g" "holds sha (cf_ledger f) es" "phase_known f q"
  obtains fs where "holds sha (cf_ledger g) (es @ fs)" "moves fs = []" "phase_known g q"
  using assms unfolding bodily_def by blast

lemma bodily_same:
  assumes "cf_ledger g = cf_ledger f" "cf_phase g = cf_phase f"
  shows "bodily sha f g"
proof (rule bodilyI)
  fix es q assume "holds sha (cf_ledger f) es" "phase_known f q"
  then have "holds sha (cf_ledger g) (es @ []) \<and> moves [] = [] \<and> phase_known g q"
    using assms phase_known_same [of g f q] by simp
  then show "\<exists>fs. holds sha (cf_ledger g) (es @ fs) \<and> moves fs = [] \<and> phase_known g q"
    by blast
qed

interpretation body: record_order "bodily sha" sha for sha
proof
  fix f g es q e
  show "bodily sha f f"
    by (rule bodily_same) simp_all
  show "bodily sha f h" if fg: "bodily sha f g" and gh: "bodily sha g h" for h
  proof (rule bodilyI)
    fix es q assume start: "holds sha (cf_ledger f) es" "phase_known f q"
    from bodilyD [OF fg start] obtain fs where 1: "holds sha (cf_ledger g) (es @ fs)" "moves fs = []" "phase_known g q" .
    from bodilyD [OF gh 1(1,3)] obtain gs where "holds sha (cf_ledger h) ((es @ fs) @ gs)" "moves gs = []" "phase_known h q" .
    then have "holds sha (cf_ledger h) (es @ (fs @ gs)) \<and> moves (fs @ gs) = [] \<and> phase_known h q"
      using 1(2) by simp
    then show "\<exists>fs. holds sha (cf_ledger h) (es @ fs) \<and> moves fs = [] \<and> phase_known h q"
      by blast
  qed
  show "bodily sha f g" if "aside f g"
    using that by (intro bodily_same) (simp_all add: aside_def)
  show "bodily sha f g" if "\<not> well_formed sha f"
    using that by (auto simp: bodily_def well_formed_def)
  show "bodily sha f (append_line (new_line sha es e) f)"
    if es: "holds sha (cf_ledger f) es" and e: "entry_ok e" and event: "en_event e \<noteq> ''phase.transition''"
  proof (rule bodilyI)
    fix fs r assume fs: "holds sha (cf_ledger f) fs" and r: "phase_known f r"
    have "holds sha (cf_ledger (append_line (new_line sha es e) f)) (fs @ [e])"
      using holds_new_line [OF fs e] new_line_unique [OF fs es] by simp
    moreover have "moves [e] = []"
      using event by (simp add: moves_def)
    ultimately show "\<exists>gs. holds sha (cf_ledger (append_line (new_line sha es e) f)) (fs @ gs) \<and> moves gs = []
        \<and> phase_known (append_line (new_line sha es e) f) r"
      using r by auto
  qed
qed

lemma transition_success:
  assumes "holds (ce_sha env) (cf_ledger (cs_files s)) es" "phase_known (cs_files s) (Some q)"
    and "transition_to env p s = (Inr u, s')"
  obtains t where "adjacent q p" "holds (ce_sha env) (cf_ledger (cs_files s')) (es @ [transition_entry q p t])"
    "phase_known (cs_files s') (Some p)"
  using assms(1,2)
proof (cases rule: transition_to_cases [of env s es "Some q" p])
  case (moved q0 r s1 t' t)
  have "p \<in> set PHASES"
    using adjacent_rank [of "cs_files s" q0 p] assms(2) moved(1,2) by simp
  then have "phase_known (cs_files s') (Some p)"
    using moved assms(3) by (simp add: phase_known_write)
  moreover have "\<exists>t. holds (ce_sha env) (cf_ledger (cs_files s')) (es @ [transition_entry q p t])"
    using moved assms(1,3) holds_new_line [OF assms(1) transition_entry_ok(1)] by auto
  ultimately show ?thesis
    using that moved(1,2) by blast
qed (use assms(3) in simp_all)

section \<open>Success of a turn\<close>

lemma cbind_Inr: "cbind m f s = (Inr b, s') \<longleftrightarrow> (\<exists>a s1. m s = (Inr a, s1) \<and> f a s1 = (Inr b, s'))"
  by (auto simp: cbind_def split: prod.split sum.split)

lemma cseq_Inr: "cseq m n s = (Inr b, s') \<longleftrightarrow> (\<exists>a s1. m s = (Inr a, s1) \<and> n s1 = (Inr b, s'))"
  by (simp add: cseq_def cbind_Inr)

lemma quiet_files: "along (=) m \<Longrightarrow> m s = (r, s1) \<Longrightarrow> cs_files s1 = cs_files s"
  using alongD [of "(=)" m s] by simp

lemma refuse_Inr: "crefuse b msg s = (Inr u, s1) \<longleftrightarrow> \<not> b \<and> s1 = s"
  by (auto simp: crefuse_def craise_def creturn_def)

lemma turn_success:
  assumes "machine_turn env run_id auth phase s = (Inr j, s')"
  obtains q p h s1 s2 where "phase = JStr q" "(q, p, h) \<in> set (registry env run_id)" "cs_files s1 = cs_files s"
    "phase_of_text (cf_phase (cs_files s)) = Inr phase" "cf_token (cs_files s) \<noteq> None"
    "h s1 = (Inr (), s2)" "cs_files s' = cs_files s2" "j = JStr p"
proof -
  obtain p h where entry: "handler_of env run_id phase = Inr (p, h)"
    using assms by (cases "handler_of env run_id phase") (auto simp: machine_turn_def craise_def)
  from handler_of_registry [OF this] obtain q where q: "phase = JStr q" "(q, p, h) \<in> set (registry env run_id)" .
  have "(\<exists>actual s1. current_phase s = (Inr actual, s1) \<and> actual = phase \<and> (\<exists>a s2. validate_ledger_chain env s1 = (Inr a, s2)
    \<and> (\<exists>b s3. phase_tail_agree s2 = (Inr b, s3) \<and> (\<exists>c s4. require_owned_lock env run_id None s3 = (Inr c, s4)
    \<and> (\<exists>d s5. require_live_authorization env run_id auth s4 = (Inr d, s5) \<and> (\<exists>u s6. h s5 = (Inr u, s6)
    \<and> (\<exists>r s7. current_phase s6 = (Inr r, s7) \<and> r = JStr p \<and> j = r \<and> s' = s7)))))))"
    using assms unfolding machine_turn_def entry
    by (simp add: cbind_Inr cseq_Inr refuse_Inr clift_def creturn_def) blast
  then obtain actual s1 a s2 b s3 c s4 d s5 u s6 r s7 where
    run: "current_phase s = (Inr actual, s1)" "actual = phase" "validate_ledger_chain env s1 = (Inr a, s2)"
      "phase_tail_agree s2 = (Inr b, s3)" "require_owned_lock env run_id None s3 = (Inr c, s4)"
      "require_live_authorization env run_id auth s4 = (Inr d, s5)" "h s5 = (Inr u, s6)"
      "current_phase s6 = (Inr r, s7)" "r = JStr p" "j = r" "s' = s7"
    by blast
  have same: "cs_files s1 = cs_files s" "cs_files s2 = cs_files s" "cs_files s3 = cs_files s" "cs_files s4 = cs_files s"
    "cs_files s5 = cs_files s" "cs_files s7 = cs_files s6"
    using quiet_files [OF quiet.current_phase run(1)] quiet_files [OF quiet.validate_ledger_chain run(3)]
      quiet_files [OF quiet.phase_tail_agree run(4)] quiet_files [OF quiet.require_owned_lock run(5)]
      quiet_files [OF quiet.require_live_authorization run(6)] quiet_files [OF quiet.current_phase run(8)] by simp_all
  show ?thesis
    using that [OF q same(5), of s6] run same current_phase_reads [OF run(1)] owned_token [OF run(5)] by simp
qed

lemma turn_moves:
  assumes "holds (ce_sha env) (cf_ledger (cs_files s)) es" "phase_known (cs_files s) q"
    and "machine_turn env run_id auth phase s = (Inr j, s')"
  shows "\<exists>q0 p fs. q = Some q0 \<and> phase = JStr q0 \<and> adjacent q0 p \<and> j = JStr p \<and> cf_token (cs_files s) \<noteq> None
    \<and> holds (ce_sha env) (cf_ledger (cs_files s')) (es @ fs) \<and> moves fs = [p] \<and> phase_known (cs_files s') (Some p)"
proof -
  from turn_success [OF assms(3)] obtain q0 p h s1 s2 where
    turn: "phase = JStr q0" "(q0, p, h) \<in> set (registry env run_id)" "cs_files s1 = cs_files s"
      "phase_of_text (cf_phase (cs_files s)) = Inr phase" "cf_token (cs_files s) \<noteq> None"
      "h s1 = (Inr (), s2)" "cs_files s' = cs_files s2" "j = JStr p" .
  have q: "q = Some q0"
    using phase_of_text_known [OF assms(2)] turn(1,4) by (cases q) (simp_all add: opt_str_def)
  from finishesD [OF body.handler_finishes [OF refl turn(2)], of s1]
  obtain s3 where s3: "bodily (ce_sha env) (cs_files s1) (cs_files s3)"
    and ending: "h s1 = last_step env run_id p s3 \<or> (\<exists>e. h s1 = (Inl e, s3))" .
  then have last: "last_step env run_id p s3 = (Inr (), s2)"
    using turn(6) by auto
  from bodilyD [OF s3, of es q] obtain fs where fs: "holds (ce_sha env) (cf_ledger (cs_files s3)) (es @ fs)" "moves fs = []"
    "phase_known (cs_files s3) (Some q0)"
    using assms(1,2) turn(3) q by auto
  obtain u s4 where s4: "transition_to env p s3 = (Inr u, s4)" "keeps_records (cs_files s4) (cs_files s2)"
  proof (cases "p = ''done''")
    case True
    then obtain u s4 where "transition_to env p s3 = (Inr u, s4)" "release_lock env run_id s4 = (Inr (), s2)"
      using last by (auto simp: last_step_def cseq_Inr)
    then show ?thesis
      using that [of u s4] alongD [OF release_keeps_records, of s4 env run_id] by simp
  next
    case False
    then show ?thesis
      using that [of "()" s2] last by (simp add: last_step_def keeps_records_def)
  qed
  from transition_success [OF fs(1,3) s4(1)] obtain t where t: "adjacent q0 p"
    "holds (ce_sha env) (cf_ledger (cs_files s4)) ((es @ fs) @ [transition_entry q0 p t])" "phase_known (cs_files s4) (Some p)" .
  have "holds (ce_sha env) (cf_ledger (cs_files s')) (es @ (fs @ [transition_entry q0 p t]))"
    using t(2) s4(2) turn(7) by (simp add: keeps_records_def)
  moreover have "phase_known (cs_files s') (Some p)"
    using t(3) s4(2) turn(7) phase_known_same [of "cs_files s2" "cs_files s4" "Some p"] by (simp add: keeps_records_def)
  moreover have "moves (fs @ [transition_entry q0 p t]) = [p]"
    using fs(2) by simp
  ultimately show ?thesis
    using q turn(1,5,8) t(1) by blast
qed

text \<open>
  C13: a turn of the machine that succeeds was entered with the lock token and in the phase it believed in,
  moves to the next phase, and appends exactly one transition to the ledger, from the one to the other.
\<close>
theorem turn_advances:
  assumes "holds (ce_sha env) (cf_ledger (cs_files s)) es" "phase_known (cs_files s) q"
    and "machine_turn env run_id auth phase s = (Inr j, s')"
  shows "\<exists>q0 p fs. q = Some q0 \<and> phase = JStr q0 \<and> adjacent q0 p \<and> j = JStr p \<and> cf_token (cs_files s) \<noteq> None
    \<and> holds (ce_sha env) (cf_ledger (cs_files s')) (es @ fs) \<and> moves fs = [p] \<and> phase_known (cs_files s') (Some p)"
  using assms by (rule turn_moves)

section \<open>Success of the machine\<close>

lemma ended:
  assumes "holds sha file es"
  shows "\<exists>fs. holds sha file (es @ fs) \<and> moves fs = drop (nat (index_in PHASES ''done'' + 1)) PHASES"
proof -
  have "drop (nat (index_in PHASES ''done'' + 1)) PHASES = []"
    unfolding index_PHASES by (simp add: PHASES_def)
  then show ?thesis
    using assms by (intro exI [of _ "[]"]) simp
qed

lemma loop_passes:
  "holds (ce_sha env) (cf_ledger (cs_files s)) es \<Longrightarrow> phase_known (cs_files s) (Some q)
   \<Longrightarrow> machine_loop env run_id auth n (JStr q) s = (Inr u, s')
   \<Longrightarrow> \<exists>fs. holds (ce_sha env) (cf_ledger (cs_files s')) (es @ fs) \<and> phase_known (cs_files s') (Some ''done'')
     \<and> moves fs = drop (nat (index_in PHASES q + 1)) PHASES"
proof (induction n arbitrary: es q s)
  case 0
  then have "q = ''done''" "s' = s"
    by (auto simp: machine_loop.simps creturn_def cdiverge_def split: if_splits)
  then show ?case
    using "0.prems" ended by simp
next
  case (Suc n)
  show ?case
  proof (cases "q = ''done''")
    case True
    then have "s' = s"
      using Suc.prems(3) by (simp add: machine_loop.simps creturn_def)
    then show ?thesis
      using Suc.prems True ended by simp
  next
    case False
    then obtain j s1 where turn: "machine_turn env run_id auth (JStr q) s = (Inr j, s1)"
      and rest: "machine_loop env run_id auth n j s1 = (Inr u, s')"
      using Suc.prems(3) by (auto simp: machine_loop.simps [of _ _ _ "Suc n"] cbind_Inr)
    from turn_moves [OF Suc.prems(1,2) turn] obtain p fs where p: "adjacent q p" "j = JStr p"
      "holds (ce_sha env) (cf_ledger (cs_files s1)) (es @ fs)" "moves fs = [p]" "phase_known (cs_files s1) (Some p)"
      by blast
    from Suc.IH [OF p(3,5)] rest p(2) obtain gs where gs: "holds (ce_sha env) (cf_ledger (cs_files s')) ((es @ fs) @ gs)"
      "phase_known (cs_files s') (Some ''done'')" "moves gs = drop (nat (index_in PHASES p + 1)) PHASES"
      by auto
    have "moves (fs @ gs) = drop (nat (index_in PHASES q + 1)) PHASES"
      using p(1,4,5) gs(3) drop_index [of p] by (simp add: adjacent_def phase_known_def)
    then show ?thesis
      using gs(1,2) by (intro exI [of _ "fs @ gs"]) simp
  qed
qed


section \<open>A disk that works\<close>

lemma append_succeeds:
  assumes held: "holds (ce_sha env) (cf_ledger (cs_files s)) es" and io: "\<And>label w. ce_io env label w = (IoDone, w)"
    and clock: "\<And>w. ce_now env w = (t, w)"
  shows "append_ledger env (JStr p) event evidence s
     = (Inr (entry_digest (ce_sha env) (length es) (digest_after (ce_sha env) 0 GENESIS es) (new_entry p event evidence t)),
        s\<lparr>cs_files := append_line (new_line (ce_sha env) es (new_entry p event evidence t)) (cs_files s)\<rparr>)"
  by (simp add: append_ledger_def cseq_def cbind_def io_step_def cread_def clift_def cworld_def now_def creturn_def io clock
      ledger_tail_holds [OF held] compute_record_sha_def entry_digest_def new_line_def record_text_def entry_record_def
      new_entry_def)

lemma write_succeeds:
  assumes known: "phase_known (cs_files s) (Some q)" and go: "index_in PHASES q < index_in PHASES p"
    and io: "\<And>label w. ce_io env label w = (IoDone, w)" and clock: "\<And>w. ce_now env w = (t, w)"
  shows "write_phase env p False s = (Inr (), s\<lparr>cs_files := (cs_files s)\<lparr>cf_phase := Some (phase_text p t)\<rparr>\<rparr>)"
  using go by (simp add: write_phase_def cseq_def cbind_def io_step_def current_phase_def cread_def clift_def cworld_def now_def
      creturn_def crefuse_def io clock phase_of_text_known [OF known] opt_str_def)

lemma transition_done:
  assumes held: "holds (ce_sha env) (cf_ledger (cs_files s)) es" and known: "phase_known (cs_files s) (Some q)"
    and adj: "adjacent q p" and io: "\<And>label w. ce_io env label w = (IoDone, w)" and clock: "\<And>w. ce_now env w = (t, w)"
  shows "transition_to env p s = (Inr (),
    s\<lparr>cs_files := (append_line (new_line (ce_sha env) es (transition_entry q p t)) (cs_files s))\<lparr>cf_phase := Some (phase_text p t)\<rparr>\<rparr>)"
proof -
  let ?e = "transition_entry q p t"
  let ?s1 = "s\<lparr>cs_files := append_line (new_line (ce_sha env) es ?e) (cs_files s)\<rparr>"
  let ?s2 = "s\<lparr>cs_files := (append_line (new_line (ce_sha env) es ?e) (cs_files s))\<lparr>cf_phase := Some (phase_text p t)\<rparr>\<rparr>"
  have rank: "0 \<le> index_in PHASES q" "index_in PHASES p = index_in PHASES q + 1"
    using phase_rank_some [OF known] adj by (simp_all add: adjacent_def)
  have p: "p \<in> set PHASES"
    using adjacent_rank [OF known adj] by simp
  have appended: "\<exists>d. append_ledger env (JStr p) ''phase.transition'' [(''from'', JStr q), (''to'', JStr p)] s = (Inr d, ?s1)"
    using append_succeeds [OF held io clock] by (simp add: transition_entry_def)
  have written: "write_phase env p False ?s1 = (Inr (), ?s2)"
    using write_succeeds [of ?s1 q p env t, OF _ _ io clock] known rank by simp
  have "holds (ce_sha env) (cf_ledger (cs_files ?s2)) (es @ [?e])" "phase_known (cs_files ?s2) (Some p)"
    using holds_new_line [OF held transition_entry_ok(1)] p by (simp_all add: phase_known_write)
  from phase_tail_agree_known [OF this] have agree: "phase_tail_agree ?s2 = (Inr True, ?s2)"
    by simp
  show ?thesis
    using appended rank adj
    by (auto simp: transition_to_def cseq_def cbind_def current_phase_known [OF known] opt_str_def clift_def creturn_def
        crefuse_def written agree)
qed

section \<open>A turn\<close>

text \<open>A machine on which the lock is held by the run, and an authorization for it.\<close>
definition late_time :: utc_time where
  "late_time = \<lparr>dt_year = 2030, dt_month = 1, dt_day = 1, dt_hour = 0, dt_minute = 0, dt_second = 0, dt_micro = 0\<rparr>"

definition lock_env :: "unit ctl_env" where
  "lock_env = idle_env\<lparr>ce_exec := (\<lambda>argv env timeout w. (Exited 0 (canonical_json (JObj (held_by RUN_ID))) [], w)),
     ce_fromiso := (\<lambda>s. IsoAware late_time)\<rparr>"

definition live_auth :: dict where
  "live_auth = [(''run_id'', JStr RUN_ID), (''budgets'', JObj AUTH_EXACT_BUDGETS), (''expiry_utc'', JStr (iso_z late_time))]"

definition verified_entry :: entry where
  "verified_entry = transition_entry ''matrix-running'' ''matrix-verified'' idle_time"

definition verified_files :: ctl_files where
  "verified_files =
     flying_files\<lparr>cf_phase := Some (phase_text ''matrix-verified'' idle_time),
       cf_ledger := Some (ledger_text (ce_sha lock_env) [verified_entry]), cf_auth := Some (new_file (manifest_bytes live_auth))\<rparr>"

definition verified_state :: "unit ctl_state" where
  "verified_state = \<lparr>cs_files = verified_files, cs_world = ()\<rparr>"

lemma verified_holds:
  "holds (ce_sha lock_env) (cf_ledger (cs_files verified_state)) [verified_entry]"
  "phase_known (cs_files verified_state) (Some ''matrix-verified'')"
  by (auto simp: verified_state_def verified_files_def holds_def phase_known_def verified_entry_def PHASES_def)

definition held_sorted :: dict where
  "held_sorted =
     [(''action'', JStr (lock_action RUN_ID)), (''owner'', JStr LOCK_OWNER), (''phase'', JStr ''held''), (''state'', JStr ''held''),
      (''token_matches'', JBool True)]"

lemma held_sort: "sort_keys (JObj (held_by RUN_ID)) = JObj held_sorted"
  by (simp add: held_by_def held_sorted_def) 

lemma held_length: "length (utf8 (canonical_json (JObj (held_by RUN_ID)))) \<le> 16384"
  unfolding canonical_json_def held_sort held_sorted_def
  by (simp add: utf8_def utf8_char_def quote_def escape_def esc_char_def ord_def lock_action_def LOCK_ACTION_PREFIX_def LOCK_OWNER_def RUN_ID_def)

lemma held_answer: "json_answer env a b c (0, canonical_json (JObj (held_by RUN_ID)), err) = Inr held_sorted"
proof -
  have "json_parse (canonical_json (JObj (held_by RUN_ID))) = Some (JObj held_sorted)"
    unfolding held_sort [symmetric] by (rule json_parse_canonical) (simp_all add: held_by_def)
  then show ?thesis
    by (simp add: json_answer_def)
qed

lemma zeros_token: "own_single_link env w path (Some (new_file (replicate 64 CHR ''0'' @ [nl]))) = Inr (new_file (replicate 64 CHR ''0'' @ [nl]))"
  by (simp add: own_single_link_def check_single_link_def new_file_def)

lemma owned: "require_owned_lock lock_env RUN_ID None verified_state = (Inr held_sorted, verified_state)"
proof -
  have parsed: "ebind (ascii_decode (replicate 64 CHR ''0'' @ [nl])) parse_lock_token = Inr (replicate 64 CHR ''0'')"
    by code_simp
  have token: "read_lock_token lock_env RUN_ID verified_state = (Inr (replicate 64 CHR ''0''), verified_state)"
    using parsed
    by (simp add: read_lock_token_def cread_def verified_state_def verified_files_def flying_files_def zeros_token)
       (simp add: validate_owner_mode_def new_file_def)
  have ownership: "check_ownership RUN_ID held_sorted = Inr ()"
    by (simp add: check_ownership_def held_by_def held_sorted_def dget_def)
  have run: "run_command lock_env argv [] 15 16384 verified_state = (Inr (0, canonical_json (JObj (held_by RUN_ID)), []), verified_state)" for argv
    using held_length
    by (simp add: run_command_def cbind_def cworld_def lock_env_def creturn_def utf8_def [of "[]"] verified_state_def)
  show ?thesis
    by (simp add: require_owned_lock_def cbind_def cseq_def token lock_status_def run clift_def held_answer ownership creturn_def)
qed

lemma authorized: "require_live_authorization lock_env RUN_ID live_auth verified_state = (Inr (), verified_state)"
proof -
  have found: "own_single_link lock_env () path (Some (new_file data)) = Inr (new_file data)" for path data
    by (simp add: own_single_link_def check_single_link_def new_file_def)
  have expiry: "parse_authorization_expiry lock_env (JStr (iso_z late_time)) = Inr late_time"
    by (simp add: parse_authorization_expiry_def lock_env_def iso_z_def endswith_def)
  have auth: "cf_auth (cs_files verified_state) = Some (new_file (manifest_bytes live_auth))"
    by (simp add: verified_state_def verified_files_def)
  have fields: "dget live_auth ''run_id'' = JStr RUN_ID" "dget live_auth ''budgets'' = JObj AUTH_EXACT_BUDGETS"
    "dget live_auth ''expiry_utc'' = JStr (iso_z late_time)"
    by (simp_all add: live_auth_def dget_def)
  have "\<not> utc_instant late_time \<le> utc_instant idle_time"
    by code_simp
  moreover have "ce_now lock_env w = (idle_time, w)" for w
    by (simp add: lock_env_def idle_env_def idle_time_def)
  moreover have "validate_owner_mode path (new_file data) 0 0 MODE_0600 = Inr ()" "in_data (new_file data) = data" for path data
    by (simp_all add: validate_owner_mode_def new_file_def)
  ultimately show ?thesis
    by (simp add: require_live_authorization_def cbind_def cread_def auth found fields expiry now_def cworld_def crefuse_def
        creturn_def)
qed

lemma lock_disk: "ce_io lock_env label w = (IoDone, w)" "ce_now lock_env w = (idle_time, w)"
  by (simp_all add: lock_env_def idle_env_def idle_time_def)

lemma frozen:
  assumes held: "holds (ce_sha lock_env) (cf_ledger (cs_files s)) es" and known: "phase_known (cs_files s) (Some ''matrix-verified'')"
  shows "\<exists>s'. phase_intake_frozen lock_env s = (Inr (), s') \<and> phase_known (cs_files s') (Some ''intake-frozen'')"
proof -
  let ?e = "new_entry ''matrix-verified'' ''intake.frozen'' [] idle_time"
  let ?s1 = "s\<lparr>cs_files := append_line (new_line (ce_sha lock_env) es ?e) (cs_files s)\<rparr>"
  have "holds (ce_sha lock_env) (cf_ledger (cs_files ?s1)) (es @ [?e])" "phase_known (cs_files ?s1) (Some ''matrix-verified'')"
    using holds_new_line [OF held, of ?e] new_entry_ok known by simp_all
  from transition_done [OF this, of "''intake-frozen''", OF _ lock_disk]
  have "\<exists>s'. transition_to lock_env ''intake-frozen'' ?s1 = (Inr (), s') \<and> phase_known (cs_files s') (Some ''intake-frozen'')"
    by (simp add: adjacent_def phase_known_write PHASES_def [THEN arg_cong [where f = set]])
  then show ?thesis
    using append_succeeds [OF held lock_disk, of "''matrix-verified''" "''intake.frozen''" "[]"]
    by (auto simp: phase_intake_frozen_def cseq_def cbind_def)
qed

lemma turn_done:
  "\<exists>s'. machine_turn lock_env RUN_ID live_auth (JStr ''matrix-verified'') verified_state = (Inr (JStr ''intake-frozen''), s')"
proof -
  obtain s' where frozen: "phase_intake_frozen lock_env verified_state = (Inr (), s')" "phase_known (cs_files s') (Some ''intake-frozen'')"
    using frozen [OF verified_holds] by blast
  have handler: "handler_of lock_env RUN_ID (JStr ''matrix-verified'') = Inr (''intake-frozen'', phase_intake_frozen lock_env)"
    by (simp add: handler_of_def registry_def)
  have valid: "validate_ledger_chain lock_env verified_state = (Inr (), verified_state)"
    using verified_holds(1) by (intro validate_ledger_chain_holds) simp_all
  have agree: "phase_tail_agree verified_state = (Inr True, verified_state)"
    using phase_tail_agree_known [OF verified_holds] by (simp add: verified_entry_def)
  show ?thesis
    by (simp add: machine_turn_def handler cbind_def cseq_def clift_def current_phase_known [OF verified_holds(2)] opt_str_def
        crefuse_def creturn_def valid agree owned authorized frozen(1) current_phase_known [OF frozen(2)])
qed

theorem turn_advances_witness:
  "\<exists>s' p fs. machine_turn lock_env RUN_ID live_auth (JStr ''matrix-verified'') verified_state = (Inr (JStr p), s')
     \<and> adjacent ''matrix-verified'' p \<and> holds (ce_sha lock_env) (cf_ledger (cs_files s')) ([verified_entry] @ fs) \<and> moves fs = [p]
     \<and> phase_known (cs_files s') (Some p)"
proof -
  obtain s' where "machine_turn lock_env RUN_ID live_auth (JStr ''matrix-verified'') verified_state = (Inr (JStr ''intake-frozen''), s')"
    using turn_done by blast
  then show ?thesis
    using turn_advances [OF verified_holds] by blast
qed


text \<open>
  with a disk that works and a ledger in order, a transition to the next phase succeeds: it appends its
  entry, writes the phase, and finds ledger and phase in agreement.
\<close>
theorem transition_succeeds:
  assumes "holds (ce_sha env) (cf_ledger (cs_files s)) es" "phase_known (cs_files s) (Some q)" "adjacent q p"
    and "\<And>label w. ce_io env label w = (IoDone, w)" "\<And>w. ce_now env w = (t, w)"
  shows "transition_to env p s = (Inr (),
    s\<lparr>cs_files := (append_line (new_line (ce_sha env) es (transition_entry q p t)) (cs_files s))\<lparr>cf_phase := Some (phase_text p t)\<rparr>\<rparr>)"
  using assms by (rule transition_done)

theorem transition_succeeds_witness:
  "fst (transition_to lock_env ''intake-frozen'' verified_state) = Inr ()"
  by (subst transition_succeeds [OF verified_holds _ lock_disk]) (simp_all add: adjacent_def)

end
