(* ===== verification/ControllerEvidence.thy ===== *)
theory ControllerEvidence
  imports ControllerProgress
begin

text \<open>
  What the gates of the controller prove of the evidence they accept: that the last digest of a ledger binds
  its records, what an authorization says that is accepted, and what a verified matrix has shown.
\<close>

section \<open>The ledger is bound by its last digest\<close>

text \<open>The text a record is sealed with.\<close>
definition record_seal :: "json \<Rightarrow> string" where
  "record_seal j =
     (case j of
        JObj r \<Rightarrow>
          (case dget r ''timestamp_utc'' of
             JStr ts \<Rightarrow> canonical_json (JObj (record_body (dget r ''seq'') (dget r ''phase'') (dget r ''event'')
               (dget r ''prev_sha256'') (dget r ''evidence'') ts))
           | _ \<Rightarrow> [])
      | _ \<Rightarrow> [])"

lemma check_record_seal:
  assumes "check_record sha i prev j = Inr d"
  obtains r ts where "j = JObj r" "dget r ''timestamp_utc'' = JStr ts" "dget r ''prev_sha256'' = JStr prev"
    "d = sha (utf8 (record_seal j))"
  using assms
  by (auto simp: check_record_def as_dict_def record_seal_def dict_item_def compute_record_sha_def result_simps
      split: json.splits if_splits list.splits)

lemma check_chain_append:
  "check_chain sha i prev (js @ ks) = ebind (check_chain sha i prev js) (\<lambda>d. check_chain sha (i + length js) d ks)"
proof (induction js arbitrary: i prev)
  case (Cons j js)
  then show ?case
    by (cases "check_record sha i prev j") simp_all
qed simp

lemma float_free_dget: "float_free (JObj r) \<Longrightarrow> float_free (dget r k)"
  by (induction r) (auto simp: dget_def)

lemma float_free_or_empty: "float_free v \<Longrightarrow> float_free (or_empty v)"
  by (simp add: or_empty_def)

lemma seal_prev:
  assumes "float_free (JObj r)" "float_free (JObj r')" "dget r ''timestamp_utc'' = JStr ts" "dget r' ''timestamp_utc'' = JStr ts'"
    and "record_seal (JObj r) = record_seal (JObj r')"
  shows "sort_keys (dget r ''prev_sha256'') = sort_keys (dget r' ''prev_sha256'')"
proof -
  let ?b = "record_body (dget r ''seq'') (dget r ''phase'') (dget r ''event'') (dget r ''prev_sha256'') (dget r ''evidence'') ts"
  let ?b' = "record_body (dget r' ''seq'') (dget r' ''phase'') (dget r' ''event'') (dget r' ''prev_sha256'') (dget r' ''evidence'') ts'"
  have "float_free (JObj ?b)" "float_free (JObj ?b')"
    by (simp_all add: record_body_def float_free_dget [OF assms(1)] float_free_dget [OF assms(2)]
        float_free_or_empty [OF float_free_dget [OF assms(1)]] float_free_or_empty [OF float_free_dget [OF assms(2)]])
  then have same: "sort_keys (JObj ?b) = sort_keys (JObj ?b')"
    using assms(3-5) by (intro canonical_json_inj) (simp_all add: record_seal_def)
  obtain e where e: "sort_keys (JObj ?b) = JObj e"
    by simp
  have "dget e ''prev_sha256'' = sort_keys (dget ?b ''prev_sha256'')" "dget e ''prev_sha256'' = sort_keys (dget ?b' ''prev_sha256'')"
    using dget_sort_keys(1) [OF e] dget_sort_keys(1) [OF trans [OF same [symmetric] e]] by (simp_all add: record_body_def)
  then show ?thesis
    by (simp add: record_body_def dget_def)
qed

definition collision :: "(string \<Rightarrow> string) \<Rightarrow> bool" where
  "collision sha = (\<exists>x y. x \<noteq> y \<and> sha x = sha y)"

lemma chain_binds:
  "check_chain sha 0 GENESIS js = Inr d \<Longrightarrow> check_chain sha 0 GENESIS ks = Inr d \<Longrightarrow> length js = length ks
   \<Longrightarrow> list_all float_free js \<Longrightarrow> list_all float_free ks
   \<Longrightarrow> map record_seal js = map record_seal ks \<or> collision sha"
proof (induction js arbitrary: ks d rule: rev_induct)
  case (snoc j js)
  then obtain k ks' where ks: "ks = ks' @ [k]"
    by (cases ks rule: rev_cases) simp_all
  from snoc.prems(1) obtain d1 where d1: "check_chain sha 0 GENESIS js = Inr d1" "check_record sha (length js) d1 j = Inr d"
    by (auto simp: check_chain_append result_simps)
  from snoc.prems(2) obtain d2 where d2: "check_chain sha 0 GENESIS ks' = Inr d2" "check_record sha (length ks') d2 k = Inr d"
    by (auto simp: ks check_chain_append result_simps)
  from check_record_seal [OF d1(2)] obtain r ts where r: "j = JObj r" "dget r ''timestamp_utc'' = JStr ts"
    "dget r ''prev_sha256'' = JStr d1" "d = sha (utf8 (record_seal j))" .
  from check_record_seal [OF d2(2)] obtain r' ts' where r': "k = JObj r'" "dget r' ''timestamp_utc'' = JStr ts'"
    "dget r' ''prev_sha256'' = JStr d2" "d = sha (utf8 (record_seal k))" .
  show ?case
  proof (cases "record_seal j = record_seal k")
    case False
    then have "utf8 (record_seal j) \<noteq> utf8 (record_seal k)"
      using utf8_inj by blast
    then show ?thesis
      using r(4) r'(4) unfolding collision_def by metis
  next
    case True
    have "d1 = d2"
      using seal_prev [OF _ _ r(2) r'(2)] True r(1,3) r'(1,3) snoc.prems(4,5) ks by simp
    then have "map record_seal js = map record_seal ks' \<or> collision sha"
      using snoc.prems ks d1(1) d2(1) by (intro snoc.IH [of d1]) simp_all
    then show ?thesis
      using True ks by auto
  qed
qed simp

text \<open>
  the last digest binds the ledger. Two ledgers of the same length that pass the chain check and end in
  the same record digest have the same sealed texts in every record, or there is a collision of the digest.
\<close>
theorem ledger_bound_by_digest:
  assumes "check_chain sha 0 GENESIS js = Inr d" "check_chain sha 0 GENESIS ks = Inr d" "length js = length ks"
    and "list_all float_free js" "list_all float_free ks"
  shows "map record_seal js = map record_seal ks \<or> collision sha"
  using assms by (rule chain_binds)

text \<open>What is not sealed can differ: a further key passes the check.\<close>
definition sample_record :: dict where
  "sample_record = entry_record (\<lambda>s. replicate 64 CHR ''0'') 0 GENESIS (new_entry ''sealed'' ''prepare.completed'' [] idle_time)"

lemma sample_chain:
  "check_chain (\<lambda>s. replicate 64 CHR ''0'') 0 GENESIS [JObj sample_record] = Inr (replicate 64 CHR ''0'')"
  "check_chain (\<lambda>s. replicate 64 CHR ''0'') 0 GENESIS [JObj (sample_record @ [(''note'', JStr ''added'')])] = Inr (replicate 64 CHR ''0'')"
proof -
  obtain c cs where "strftime_us idle_time = c # cs"
    by (cases "strftime_us idle_time") simp_all
  then show
    "check_chain (\<lambda>s. replicate 64 CHR ''0'') 0 GENESIS [JObj sample_record] = Inr (replicate 64 CHR ''0'')"
    "check_chain (\<lambda>s. replicate 64 CHR ''0'') 0 GENESIS [JObj (sample_record @ [(''note'', JStr ''added'')])] = Inr (replicate 64 CHR ''0'')"
    by (simp_all add: sample_record_def entry_record_def new_entry_def ledger_record_def check_record_def as_dict_def dget_def
        dict_item_def has_key_def compute_record_sha_def entry_digest_def result_simps)
qed

theorem ledger_bound_by_digest_witness:
  "map record_seal [JObj sample_record] = map record_seal [JObj (sample_record @ [(''note'', JStr ''added'')])]
   \<or> collision (\<lambda>s. replicate 64 CHR ''0'')"
  by (rule ledger_bound_by_digest [OF sample_chain])
     (simp_all add: sample_record_def entry_record_def new_entry_def ledger_record_def or_empty_def)

end
