(* ===== verification/ControllerEnds.thy ===== *)
theory ControllerEnds
  imports ControllerProgress
begin

text \<open>
  The program ends: with a monotonic clock that advances while it sleeps, no wait polls more than 481
  times, and the machine makes no more turns than there are phases.
\<close>

section \<open>Operations that end\<close>

definition ends :: "('w, 'a) ctl \<Rightarrow> bool" where
  "ends m = (\<forall>s. fst (m s) \<noteq> Inl Diverged)"

named_theorems ending

lemma ends_basic [ending]:
  "ends (creturn a)" "ends (craise e)" "ends (clift r)" "ends (cread f)" "ends (cworld g)" "ends (crefuse b msg)"
  by (simp_all add: ends_def creturn_def craise_def clift_def cread_def cworld_def crefuse_def split: prod.split)

lemma ends_io [ending]: "ends (io_step env label upd)"
  by (simp add: ends_def io_step_def split: prod.split io_answer.split)

lemma ends_bind [ending]: "ends m \<Longrightarrow> (\<And>a. ends (f a)) \<Longrightarrow> ends (cbind m f)"
  by (auto simp: ends_def cbind_def split: prod.split sum.split) (metis fst_conv)

lemma ends_seq [ending]: "ends m \<Longrightarrow> ends n \<Longrightarrow> ends (cseq m n)"
  by (simp add: cseq_def ends_bind)

lemma ends_catch [ending]: "ends m \<Longrightarrow> (\<And>e. ends (h e)) \<Longrightarrow> ends (ccatch m h)"
  by (auto simp: ends_def ccatch_def split: prod.split sum.split ctl_stop.split) (metis fst_conv)

lemma ends_for [ending]: "(\<And>x. ends (f x)) \<Longrightarrow> ends (cfor xs f)"
  by (induction xs) (auto intro: ending)

lemma ends_if [ending]: "(b \<Longrightarrow> ends m) \<Longrightarrow> (\<not> b \<Longrightarrow> ends n) \<Longrightarrow> ends (if b then m else n)"
  by simp

lemma ends_prod [ending]: "(\<And>a b. ends (f a b)) \<Longrightarrow> ends (case p of (a, b) \<Rightarrow> f a b)"
  by (simp split: prod.split)

lemma ends_option [ending]: "ends m \<Longrightarrow> (\<And>a. ends (f a)) \<Longrightarrow> ends (case x of None \<Rightarrow> m | Some a \<Rightarrow> f a)"
  by (simp split: option.split)

lemma ends_list [ending]: "ends m \<Longrightarrow> (\<And>y ys. ends (f y ys)) \<Longrightarrow> ends (case xs of [] \<Rightarrow> m | y # ys \<Rightarrow> f y ys)"
  by (simp split: list.split)

lemma ends_exec [ending]:
  "ends m \<Longrightarrow> (\<And>e. ends (f e)) \<Longrightarrow> (\<And>rc out err. ends (g rc out err))
   \<Longrightarrow> ends (case x of ExecTimeout \<Rightarrow> m | ExecFault e \<Rightarrow> f e | Exited rc out err \<Rightarrow> g rc out err)"
  by (simp split: exec_answer.split)

lemma ends_rejection [ending]:
  assumes "ends (coord_cli env args)"
  shows "ends (expect_coord_rejection env args)"
  unfolding ends_def
proof
  fix s
  obtain r s1 where "coord_cli env args s = (r, s1)"
    by (cases "coord_cli env args s")
  then show "fst (expect_coord_rejection env args s) \<noteq> Inl Diverged"
    using assms [unfolded ends_def, rule_format, of s]
    by (simp add: expect_coord_rejection_def split: sum.split ctl_stop.split ctl_exc.split)
qed

lemmas ground_defs = now_def read_ledger_def validate_ledger_chain_def current_phase_def phase_tail_agree_def
  append_ledger_def write_phase_def transition_to_def run_command_def coord_cli_def run_coord_def

lemmas gate_defs = lock_status_def require_free_lock_def read_lock_token_def require_owned_lock_def call_lock_release_def
  release_lock_def acquire_lock_def evidence_query_def db_integrity_check_def db_schema_version_def db_fk_check_def
  db_due_active_leases_def db_evidence_def canonical_projection_snapshot_def write_evidence_def read_evidence_def
  write_forensic_failure_def collect_installed_hashes_def collect_launcher_files_def collect_revisions_def
  validate_config_contract_def build_controller_manifest_def write_manifest_def read_manifest_def

lemmas command_defs = create_run_dirs_def create_backup_def prepare_body_def cmd_prepare_def check_drift_def check_backup_def
  preflight_def cmd_preflight_def cmd_status_def validate_authorization_def require_live_authorization_def

lemma ends_queries [ending]: "ends (query_all env qs)"
  by (induction env qs rule: query_all.induct) (auto simp: evidence_query_def intro!: ending)

lemma ends_ground [ending]:
  "ends (now env)" "ends read_ledger" "ends (validate_ledger_chain env)" "ends current_phase" "ends phase_tail_agree"
  "ends (append_ledger env phase event evidence)" "ends (write_phase env p b)" "ends (transition_to env p)"
  "ends (run_command env argv extra timeout cap)" "ends (coord_cli env args)" "ends (run_coord env args)"
  unfolding ground_defs Let_def by (intro ending)+

lemma ends_gates [ending]:
  "ends (require_owned_lock env run_id t)" "ends (release_lock env run_id)" "ends (acquire_lock env run_id)"
  "ends (db_integrity_check env)" "ends (db_schema_version env)" "ends (db_fk_check env)" "ends (db_due_active_leases env)"
  "ends (canonical_projection_snapshot env)" "ends (write_evidence env filename data)" "ends (read_evidence filename)"
  "ends (read_manifest env run_id)" "ends (evidence_query env sql params)"
  unfolding gate_defs Let_def by (intro ending)+

lemma ends_commands [ending]:
  "ends (cmd_prepare env run_id unit_user unit_group)" "ends (preflight env run_id t)" "ends (cmd_preflight env run_id)"
  "ends (cmd_status env run_id)" "ends (validate_authorization env run_id src sha)"
  "ends (require_live_authorization env run_id auth)"
  unfolding command_defs gate_defs Let_def by (intro ending)+

section \<open>Waiting\<close>

text \<open>
  The clock does not go back, and a sleep takes the time it says. It can be read off the world.
\<close>
definition steady :: "'w ctl_env \<Rightarrow> ('w \<Rightarrow> int) \<Rightarrow> bool" where
  "steady env clock =
     ((\<forall>w. fst (ce_monotonic env w) = clock w \<and> clock w \<le> clock (snd (ce_monotonic env w)))
      \<and> (\<forall>w. clock w \<le> clock (snd (ce_now env w)))
      \<and> (\<forall>d w. clock w + d \<le> clock (ce_sleep env d w)))"

lemma ends_snapshot [ending]: "ends (matrix_snapshot env job_ids)"
  unfolding matrix_snapshot_def Let_def by (intro ending)

text \<open>A snapshot asks the clock and nothing else.\<close>
definition clocked :: "('w \<Rightarrow> int) \<Rightarrow> ('w, 'a) ctl \<Rightarrow> bool" where
  "clocked clock m = (\<forall>s. clock (cs_world s) \<le> clock (cs_world (snd (m s))))"

lemma clocked_basic:
  "clocked clock (creturn a)" "clocked clock (craise e)" "clocked clock (clift r)" "clocked clock (evidence_query env sql params)"
  by (simp_all add: clocked_def creturn_def craise_def clift_def evidence_query_def cread_def)

lemma clocked_now: "steady env clock \<Longrightarrow> clocked clock (now env)"
  by (simp add: clocked_def now_def cworld_def steady_def split: prod.split) (metis snd_conv)

lemma clocked_bind: "clocked clock m \<Longrightarrow> (\<And>a. clocked clock (f a)) \<Longrightarrow> clocked clock (cbind m f)"
  by (auto simp: clocked_def cbind_def split: prod.split sum.split) (metis order_trans snd_conv)+

lemma clocked_if: "(b \<Longrightarrow> clocked clock m) \<Longrightarrow> (\<not> b \<Longrightarrow> clocked clock n) \<Longrightarrow> clocked clock (if b then m else n)"
  by simp

lemma clocked_snapshot: "steady env clock \<Longrightarrow> clocked clock (matrix_snapshot env job_ids)"
  unfolding matrix_snapshot_def Let_def by (intro clocked_if clocked_bind clocked_basic clocked_now)

definition POLLS :: nat where "POLLS = 481"

lemma wait_polls_ends:
  assumes clock: "steady env clock"
  shows "start + MATRIX_WAIT - 500000 * (int n - 1) \<le> clock (cs_world s) \<Longrightarrow> n \<noteq> 0
    \<Longrightarrow> fst (wait_polls env job_ids description pred start n p s) \<noteq> Inl Diverged"
proof (induction n arbitrary: p s)
  case (Suc n)
  obtain r s1 where sn: "matrix_snapshot env job_ids s = (r, s1)"
    by (cases "matrix_snapshot env job_ids s")
  have "r \<noteq> Inl Diverged" "clock (cs_world s) \<le> clock (cs_world s1)"
    using ends_snapshot [of env job_ids, unfolded ends_def, rule_format, of s] sn
      clocked_snapshot [OF clock, of job_ids, unfolded clocked_def, rule_format, of s] by simp_all
  show ?case
  proof (cases r)
    case (Inl e)
    then show ?thesis
      using \<open>r \<noteq> Inl Diverged\<close> by (simp add: cbind_def sn)
  next
    case (Inr snapshot)
    show ?thesis
    proof (cases "pred p snapshot")
      case (Inl e)
      then show ?thesis
        by (simp add: cbind_def [of "matrix_snapshot _ _"] sn \<open>r = Inr snapshot\<close> craise_def)
    next
      case pred: (Inr v)
      obtain ok p' where v: "v = (ok, p')"
        by (cases v)
      let ?w = "cs_world s1"
      let ?s2 = "s1\<lparr>cs_world := snd (ce_monotonic env ?w)\<rparr>"
      have t: "fst (ce_monotonic env ?w) = clock ?w" "clock ?w \<le> clock (cs_world ?s2)"
        using clock by (simp_all add: steady_def)
      let ?s3 = "?s2\<lparr>cs_world := ce_sleep env 500000 (cs_world ?s2)\<rparr>"
      have s3: "clock (cs_world ?s2) + 500000 \<le> clock (cs_world ?s3)"
        using clock by (simp add: steady_def)
      have run: "wait_polls env job_ids description pred start (Suc n) p s
        = (if ok then (Inr (snapshot, p'), s1)
           else if MATRIX_WAIT \<le> clock ?w - start then (Inl (Raised (ControllerError (''matrix wait timed out: '' @ description))), ?s2)
           else wait_polls env job_ids description pred start n p' ?s3)"
        by (simp add: cbind_def cseq_def sn \<open>r = Inr snapshot\<close> clift_def pred v creturn_def cworld_def t(1) crefuse_def craise_def
            split: prod.split) (metis fst_conv t(1))
      show ?thesis
      proof (cases "ok \<or> MATRIX_WAIT \<le> clock ?w - start")
        case False
        then have "n \<noteq> 0"
          using Suc.prems(1) \<open>clock (cs_world s) \<le> clock ?w\<close> by (cases n) simp_all
        moreover have "start + MATRIX_WAIT - 500000 * (int n - 1) \<le> clock (cs_world ?s3)"
          using Suc.prems(1) \<open>clock (cs_world s) \<le> clock ?w\<close> t(2) s3 by (simp add: algebra_simps)
        ultimately have "fst (wait_polls env job_ids description pred start n p' ?s3) \<noteq> Inl Diverged"
          by (intro Suc.IH)
        then show ?thesis
          unfolding run using False by simp
      next
        case True
        then show ?thesis
          unfolding run by auto
      qed
    qed
  qed
qed simp

lemma wait_matrix_ends:
  assumes clock: "steady env clock" and polls: "POLLS \<le> ce_polls env"
  shows "ends (wait_matrix env job_ids description pred p)"
  unfolding ends_def
proof
  fix s :: "'a ctl_state"
  let ?t = "ce_monotonic env (cs_world s)"
  have t: "fst ?t = clock (cs_world s)" "clock (cs_world s) \<le> clock (snd ?t)"
    using clock by (simp_all add: steady_def)
  have "fst (wait_polls env job_ids description pred (fst ?t) (ce_polls env) p (s\<lparr>cs_world := snd ?t\<rparr>)) \<noteq> Inl Diverged"
    using t polls by (intro wait_polls_ends [OF clock]) (simp_all add: POLLS_def MATRIX_WAIT_def)
  then show "fst (wait_matrix env job_ids description pred p s) \<noteq> Inl Diverged"
    by (cases ?t) (simp add: wait_matrix_def cbind_def cworld_def)
qed

section \<open>The matrix and the handlers\<close>

lemma ends_helper [ending]: "ends (helper_cli env run_id command args)" "ends (matrix_helper env run_id command agent extra)"
  unfolding matrix_helper_def helper_cli_def by (intro ending)+

lemma ends_probes [ending]: "ends (probe_stale env job_ids specs)"
  by (induction env job_ids specs rule: probe_stale.induct) (auto intro!: ending)

lemma ends_deliveries [ending]: "ends (send_deliveries env sn labels)"
  by (induction env sn labels rule: send_deliveries.induct) (auto simp: send_delivery_def intro!: ending)

lemmas matrix_defs = matrix_start_def matrix_stop_def matrix_submit_def matrix_terminal_def matrix_preflight_def
  wait_terminal_with_renewals_def wait_running_with_renewals_def matrix_opening_def matrix_contention_def matrix_reap_def
  matrix_recover_def matrix_closing_def run_five_job_matrix_def

lemma ends_matrix:
  assumes "steady env clock" "POLLS \<le> ce_polls env"
  shows "ends (run_five_job_matrix env run_id)"
  unfolding matrix_defs Let_def by (intro ending wait_matrix_ends [OF assms])

lemma ends_syncs [ending]:
  "ends (sync_executor env filename version enabled)" "ends (sync_capacity env filename version active)"
  "ends (agent_online env agent)" "ends (agent_offline env reason label msg agent)" "ends (unit_quiescent env run_id agent)"
  "ends (unit_cleanup env run_id msg agent)" "ends (final_runtime_snapshot env)" "ends (verify_job_matrix env)"
  unfolding sync_executor_def sync_capacity_def config_asset_def agent_online_def agent_offline_def unit_quiescent_def
    unit_cleanup_def final_runtime_snapshot_def verify_job_matrix_def by (intro ending)+

lemmas handler_defs = phase_lock_held_def phase_baseline_captured_def phase_workspace_ready_def phase_agents_online_def
  phase_executor_v1_disabled_def phase_capacity_v1_active_def phase_executor_v2_enabled_def phase_matrix_running_def
  phase_matrix_verified_def phase_intake_frozen_def phase_units_quiescent_def phase_executor_v3_disabled_def
  phase_capacity_v2_empty_def phase_executor_v4_empty_def phase_agents_offline_def phase_canonical_compared_def phase_done_def

lemma ends_handler:
  assumes "steady env clock" "POLLS \<le> ce_polls env" "(q, p, h) \<in> set (registry env run_id)"
  shows "ends h"
proof -
  have "\<forall>(q, p, h) \<in> set (registry env run_id). ends h"
    unfolding registry_def handler_defs Let_def list.set ball_simps prod.case
    by (intro conjI ballI TrueI ending ends_matrix [OF assms(1,2)])
  then show ?thesis
    using assms(3) by auto
qed

lemma ends_turn:
  assumes "steady env clock" "POLLS \<le> ce_polls env"
  shows "ends (machine_turn env run_id auth phase)"
proof (cases "handler_of env run_id phase")
  case (Inl e)
  then show ?thesis
    by (simp add: machine_turn_def ending)
next
  case (Inr entry)
  obtain p h where e: "entry = (p, h)"
    by (cases entry)
  then obtain q where "(q, p, h) \<in> set (registry env run_id)"
    using Inr by (auto elim: handler_of_registry)
  then have "ends h"
    by (rule ends_handler [OF assms])
  moreover have "cbind (clift (Inr (p, h))) f = f (p, h)" for f :: "_ \<Rightarrow> ('a, json) ctl"
    by (simp add: cbind_def clift_def fun_eq_iff)
  ultimately show ?thesis
    unfolding machine_turn_def Inr e by (simp only: prod.case) (intro ending)
qed

section \<open>The loop\<close>

text \<open>Where the machine can be: a phase that is known and whose rank grows with every turn.\<close>
lemma loop_ends:
  assumes "steady env clock" "POLLS \<le> ce_polls env"
  shows "well_formed (ce_sha env) (cs_files s) \<Longrightarrow> phase_known (cs_files s) (Some q) \<Longrightarrow> 18 - index_in PHASES q \<le> int n
    \<Longrightarrow> fst (machine_loop env run_id auth n (JStr q) s) \<noteq> Inl Diverged"
proof (induction n arbitrary: q s)
  case 0
  then have "q = ''done''"
    using index_last [of q] by (auto simp: phase_known_def)
  then show ?case
    by (simp add: machine_loop.simps creturn_def)
next
  case (Suc n)
  show ?case
  proof (cases "q = ''done''")
    case True
    then show ?thesis
      by (simp add: machine_loop.simps creturn_def)
  next
    case False
    obtain r s1 where turn: "machine_turn env run_id auth (JStr q) s = (r, s1)"
      by (cases "machine_turn env run_id auth (JStr q) s")
    then have "r \<noteq> Inl Diverged"
      using ends_turn [OF assms, of run_id auth "JStr q", unfolded ends_def, rule_format, of s] by simp
    obtain es where es: "holds (ce_sha env) (cf_ledger (cs_files s)) es"
      using Suc.prems(1) by (auto simp: well_formed_def)
    show ?thesis
    proof (cases r)
      case (Inl e)
      then show ?thesis
        using \<open>r \<noteq> Inl Diverged\<close> False turn by (simp add: machine_loop.simps cbind_def)
    next
      case (Inr j)
      from turn_moves [OF es Suc.prems(2)] turn Inr
      obtain p fs where p: "adjacent q p" "j = JStr p" "holds (ce_sha env) (cf_ledger (cs_files s1)) (es @ fs)"
        "phase_known (cs_files s1) (Some p)"
        by blast
      have "fst (machine_loop env run_id auth n (JStr p) s1) \<noteq> Inl Diverged"
        using p Suc.prems(3) by (intro Suc.IH) (auto simp: well_formed_def adjacent_def)
      then show ?thesis
        using False turn Inr p(2) by (simp add: machine_loop.simps [of _ _ _ "Suc n"] cbind_def)
    qed
  qed
qed

section \<open>The commands\<close>

definition ends_from :: "(string \<Rightarrow> string) \<Rightarrow> ('w, 'a) ctl \<Rightarrow> bool" where
  "ends_from sha m = (\<forall>s. well_formed sha (cs_files s) \<longrightarrow> fst (m s) \<noteq> Inl Diverged)"

lemma ends_from_all: "ends m \<Longrightarrow> ends_from sha m"
  by (simp add: ends_def ends_from_def)

lemma ends_from_bind:
  fixes m :: "('w, 'a) ctl"
  assumes "ends m" "along (grows sha) m" "\<And>a. ends_from sha (f a)"
  shows "ends_from sha (cbind m f)"
  unfolding ends_from_def
proof (intro allI impI)
  fix s :: "'w ctl_state"
  assume wf: "well_formed sha (cs_files s)"
  obtain r s1 where m: "m s = (r, s1)"
    by (cases "m s")
  have "r \<noteq> Inl Diverged" "well_formed sha (cs_files s1)"
    using assms(1) [unfolded ends_def, rule_format, of s] m grows_well_formed [OF alongD [OF assms(2), of s] wf] by simp_all
  then show "fst (cbind m f s) \<noteq> Inl Diverged"
    using assms(3) m by (cases r) (simp_all add: cbind_def ends_from_def)
qed

lemma ends_from_seq: "ends m \<Longrightarrow> along (grows sha) m \<Longrightarrow> ends_from sha n \<Longrightarrow> ends_from sha (cseq m n)"
  by (simp add: cseq_def ends_from_bind)

lemma ends_from_catch: "ends_from sha m \<Longrightarrow> (\<And>e. ends (h e)) \<Longrightarrow> ends_from sha (ccatch m h)"
  by (auto simp: ends_from_def ends_def ccatch_def split: prod.split sum.split ctl_stop.split)

lemma ends_cleanup [ending]: "ends (execute_cleanup_suffix env run_id)"
  unfolding execute_cleanup_suffix_def cleanup_from_def cleanup_stop_def require_quiet_jobs_def cleanup_catalogs_def
    cleanup_gates_def Let_def by (intro ending)

lemma ends_failed [ending]: "ends (machine_failed env run_id e)" "ends (run_failed env run_id e)"
  unfolding machine_failed_def run_failed_def by (intro ending)+

lemma machine_ends:
  assumes "steady env clock" "POLLS \<le> ce_polls env"
  shows "ends_from (ce_sha env) (execute_state_machine env run_id auth)"
  unfolding ends_from_def
proof (intro allI impI)
  fix s :: "'a ctl_state"
  assume wf: "well_formed (ce_sha env) (cs_files s)"
  then obtain q where q: "phase_known (cs_files s) q"
    by (auto simp: well_formed_def)
  note cur = current_phase_known [OF q]
  show "fst (execute_state_machine env run_id auth s) \<noteq> Inl Diverged"
  proof (cases q)
    case None
    then show ?thesis
      by (simp add: execute_state_machine_def cseq_def cbind_def cur opt_str_def crefuse_def craise_def)
  next
    case (Some p)
    obtain r s1 where loop: "machine_loop env run_id auth (length PHASES) (JStr p) s = (r, s1)"
      by (cases "machine_loop env run_id auth (length PHASES) (JStr p) s")
    have "18 - index_in PHASES p \<le> int (length PHASES)"
      using phase_rank_some [of "cs_files s" p] q Some by (simp add: PHASES_def [THEN arg_cong [where f = length]])
    then have "r \<noteq> Inl Diverged"
      using loop_ends [OF assms wf, of p "length PHASES" run_id auth] q Some loop by simp
    moreover have "fst ((machine_failed env run_id e :: ('a, unit) ctl) s1) \<noteq> Inl Diverged" for e
      by (rule ends_failed(1) [unfolded ends_def, rule_format])
    ultimately have "fst (ccatch (machine_loop env run_id auth (length PHASES) (JStr p)) (machine_failed env run_id) s) \<noteq> Inl Diverged"
      using loop by (simp add: ccatch_def split: sum.split ctl_stop.split)
    then show ?thesis
      by (auto simp: execute_state_machine_def cseq_def cbind_def cur Some opt_str_def crefuse_def creturn_def
          split: prod.split sum.split)
  qed
qed

lemma ends_copy: "ends (atomic_copy env src)"
  unfolding atomic_copy_def by (intro ending)

lemma run_ends:
  assumes "steady env clock" "POLLS \<le> ce_polls env"
  shows "ends_from (ce_sha env) (cmd_run env run_id src digest)"
  unfolding cmd_run_def
  by (intro ends_from_bind ends_from_seq ends_from_catch machine_ends [OF assms] ending ends_copy grows.atomic_copy
      grows.transition_to grows.refuse grows.lift grows.read grows.current_phase grows.validate_authorization grows.acquire_lock
      grows.preflight refl)

lemma command_ends:
  assumes "steady env clock" "POLLS \<le> ce_polls env"
  shows "ends_from (ce_sha env) (run_command_line env c)"
proof (cases c)
  case (CtlRun run_id src digest)
  then show ?thesis
    by (simp add: run_command_line_def run_ends [OF assms])
next
  case (CtlCleanup run_id)
  then show ?thesis
    unfolding run_command_line_def cmd_cleanup_def by (auto intro!: ends_from_all ending)
qed (auto simp: run_command_line_def intro!: ends_from_all ending)

text \<open>
  C18: the controller ends. With a monotonic clock that does not go back and advances by the length of each
  sleep, 481 polls are enough for every wait of the matrix, and the machine makes at most one turn per
  phase: no command is unfinished, whatever the disk, the database and the installed commands answer.
\<close>
theorem controller_ends:
  assumes "steady env clock" "POLLS \<le> ce_polls env" "well_formed (ce_sha env) (cs_files s)"
  shows "fst (main env euid c s) \<noteq> Unfinished"
  using command_ends [OF assms(1,2), of c] assms(3)
  by (auto simp: main_def ends_from_def split: prod.split sum.split ctl_stop.split ctl_exc.split)

text \<open>A machine with a clock: its world is the time.\<close>
definition clock_env :: "int ctl_env" where
  "clock_env =
     \<lparr>ce_sha = (\<lambda>s. replicate 64 CHR ''0''), ce_now = (\<lambda>w. (idle_time, w)),
      ce_monotonic = (\<lambda>w. (w, w)), ce_sleep = (\<lambda>d w. w + d), ce_io = (\<lambda>label w. (IoDone, w)),
      ce_exec = (\<lambda>argv env timeout w. (ExecTimeout, w + timeout)), ce_query = (\<lambda>w sql params. Inl ''OperationalError''),
      ce_lstat = (\<lambda>w path. None), ce_realpath = (\<lambda>w path. Inr path), ce_exists = (\<lambda>w path. False),
      ce_dev_ino = (\<lambda>w path. (0, 0)), ce_db_copy = (\<lambda>w. Inl ''OperationalError''), ce_shlex = (\<lambda>s. Inr []),
      ce_toml = (\<lambda>s. Inr []), ce_fromiso = (\<lambda>s. IsoInvalid), ce_json_error = (\<lambda>s. []), ce_environ = [],
      ce_hostname = ''host'', ce_pid = 1, ce_polls = POLLS, ce_user = (\<lambda>u. Some 1000), ce_group = (\<lambda>g. Some 1000)\<rparr>"

theorem controller_ends_witness:
  "fst (main clock_env 0 (CtlRun RUN_ID ''/root/auth.json'' (replicate 64 CHR ''0'')) \<lparr>cs_files = flying_files, cs_world = 0\<rparr>)
   \<noteq> Unfinished"
  using flying_guarded(1) by (intro controller_ends [where clock = id]) (simp_all add: steady_def clock_env_def)

end
