(* ===== verification/Shlex.thy ===== *)
theory Shlex
  imports LockProbes
begin

text \<open>
  Python's \<open>shlex.split\<close> (POSIX rules, no comments) and \<open>shlex.quote\<close>, which the handoff protocol uses
  to read and to write its messages, and \<open>int\<close> of a text. \<open>run_quote\<close> is the fact that makes the two
  fit together: reading a quoted word adds exactly the word.
\<close>

section \<open>Reading\<close>

definition shlex_space :: "char \<Rightarrow> bool" where
  "shlex_space c = (c \<in> {CHR '' '', CHR 0x09, CHR 0x0D, nl})"

definition shlex_quote_char :: "char \<Rightarrow> bool" where
  "shlex_quote_char c = (c = squote \<or> c = dquote)"

text \<open>
  The states of the reader: between words, in a word, in quotes, and after a backslash in a word or in
  double quotes. A word that has been begun is given even when it is empty.
\<close>
datatype shlex_state = Gap | InWord | Quoted char | Escape "char option"

text \<open>\<open>None\<close> stands for the \<open>ValueError\<close> of a quotation or an escape that does not end.\<close>
fun shlex_run :: "shlex_state \<Rightarrow> string \<Rightarrow> string \<Rightarrow> string list option" where
  "shlex_run Gap w [] = Some []"
| "shlex_run InWord w [] = Some [w]"
| "shlex_run (Quoted q) w [] = None"
| "shlex_run (Escape b) w [] = None"
| "shlex_run Gap w (c # s) =
     (if shlex_space c then shlex_run Gap [] s
      else if c = bslash then shlex_run (Escape None) [] s
      else if shlex_quote_char c then shlex_run (Quoted c) [] s
      else shlex_run InWord [c] s)"
| "shlex_run InWord w (c # s) =
     (if shlex_space c then map_option ((#) w) (shlex_run Gap [] s)
      else if shlex_quote_char c then shlex_run (Quoted c) w s
      else if c = bslash then shlex_run (Escape None) w s
      else shlex_run InWord (w @ [c]) s)"
| "shlex_run (Quoted q) w (c # s) =
     (if c = q then shlex_run InWord w s
      else if c = bslash \<and> q = dquote then shlex_run (Escape (Some q)) w s
      else shlex_run (Quoted q) (w @ [c]) s)"
| "shlex_run (Escape None) w (c # s) = shlex_run InWord (w @ [c]) s"
| "shlex_run (Escape (Some q)) w (c # s) =
     shlex_run (Quoted q) (w @ (if c \<noteq> bslash \<and> c \<noteq> q then [bslash] else []) @ [c]) s"

definition shlex_split :: "string \<Rightarrow> string list option" where
  "shlex_split s = shlex_run Gap [] s"

section \<open>Writing\<close>

text \<open>\<open>[\w@%+=:,./-]\<close> in ASCII\<close>
definition shlex_safe :: "char \<Rightarrow> bool" where
  "shlex_safe c = (is_ascii_letter c \<or> is_digit c \<or> c \<in> set ''_@%+=:,./-'')"

definition single_quoted :: "char \<Rightarrow> string" where
  "single_quoted c = (if c = squote then [squote, dquote, squote, dquote, squote] else [c])"

definition shlex_quote :: "string \<Rightarrow> string" where
  "shlex_quote s =
     (if s = [] then [squote, squote]
      else if list_all shlex_safe s then s
      else squote # concat (map single_quoted s) @ [squote])"

section \<open>Reading what was written\<close>

text \<open>A character that stands for itself in a word.\<close>
definition shlex_plain :: "char \<Rightarrow> bool" where
  "shlex_plain c = (\<not> shlex_space c \<and> \<not> shlex_quote_char c \<and> c \<noteq> bslash)"

lemma safe_plain: "shlex_safe c \<Longrightarrow> shlex_plain c"
  by (auto simp: shlex_safe_def shlex_plain_def shlex_space_def shlex_quote_char_def is_ascii_letter_def is_digit_def
      between_def ord_def)

lemma run_plain: "list_all shlex_plain s \<Longrightarrow> shlex_run InWord w (s @ r) = shlex_run InWord (w @ s) r"
  by (induction s arbitrary: w) (simp_all add: shlex_plain_def)

lemma run_gap_plain: "s \<noteq> [] \<Longrightarrow> list_all shlex_plain s \<Longrightarrow> shlex_run Gap v (s @ r) = shlex_run InWord s r"
  using run_plain [of "tl s" "[hd s]" r] by (cases s) (simp_all add: shlex_plain_def)

lemma run_single_quoted:
  "shlex_run (Quoted squote) w (concat (map single_quoted s) @ squote # r) = shlex_run InWord (w @ s) r"
  by (induction s arbitrary: w) (auto simp: single_quoted_def shlex_space_def shlex_quote_char_def)

lemma run_quote: "shlex_run InWord w (shlex_quote s @ r) = shlex_run InWord (w @ s) r"
proof (cases "list_all shlex_safe s")
  case True
  then have "list_all shlex_plain s"
    using safe_plain by (auto simp: list_all_iff)
  then show ?thesis
    using True by (simp add: shlex_quote_def run_plain shlex_quote_char_def shlex_space_def)
next
  case False
  then show ?thesis
    by (auto simp: shlex_quote_def run_single_quoted shlex_quote_char_def shlex_space_def)
qed

lemma shlex_space_blank [simp]: "shlex_space CHR '' ''"
  by (simp add: shlex_space_def)

text \<open>The words \<open>k=v\<close> with quoted values are read back as they are.\<close>
definition assignment_word :: "string \<times> string \<Rightarrow> string" where
  "assignment_word kv = fst kv @ ''='' @ shlex_quote (snd kv)"

lemma run_gap_assignment:
  assumes "list_all shlex_plain (fst kv)"
  shows "shlex_run Gap v (assignment_word kv @ r) = shlex_run InWord (fst kv @ ''='' @ snd kv) r"
proof -
  have "list_all shlex_plain (fst kv @ ''='')"
    using assms by (simp add: shlex_plain_def shlex_space_def shlex_quote_char_def)
  then have "shlex_run Gap v ((fst kv @ ''='') @ shlex_quote (snd kv) @ r)
      = shlex_run InWord (fst kv @ ''='') (shlex_quote (snd kv) @ r)"
    by (intro run_gap_plain) simp_all
  then show ?thesis
    by (simp add: assignment_word_def run_quote)
qed

lemma split_assignments:
  assumes "list_all (\<lambda>kv. list_all shlex_plain (fst kv)) kvs"
  shows "shlex_run Gap v (join_with '' '' (map assignment_word kvs)) = Some (map (\<lambda>kv. fst kv @ ''='' @ snd kv) kvs)"
  using assms
proof (induction kvs arbitrary: v)
  case (Cons kv kvs)
  then show ?case
    using run_gap_assignment [of kv v "[]"] by (cases kvs) (simp_all add: run_gap_assignment)
qed simp

section \<open>\<open>int\<close> of a text\<close>

definition MAX_STR_DIGITS :: nat where "MAX_STR_DIGITS = 4300"

text \<open>Digits with single underscores between them.\<close>
fun int_digits :: "string \<Rightarrow> string option" where
  "int_digits [] = None"
| "int_digits [c] = (if is_digit c then Some [c] else None)"
| "int_digits (c # d # s) =
     (if \<not> is_digit c then None
      else if d = CHR ''_'' then map_option ((#) c) (int_digits s)
      else map_option ((#) c) (int_digits (d # s)))"

text \<open>\<open>None\<close> stands for the \<open>ValueError\<close>.\<close>
definition int_of_text :: "string \<Rightarrow> int option" where
  "int_of_text s =
     (let t = strip s; neg = startswith t ''-''; body = (if neg \<or> startswith t ''+'' then drop 1 t else t) in
      case int_digits body of
        None \<Rightarrow> None
      | Some ds \<Rightarrow>
          if MAX_STR_DIGITS < length ds then None
          else Some (if neg then - int (read_nat ds) else int (read_nat ds)))"

lemma int_of_text_examples:
  "int_of_text '' 1 '' = Some 1" "int_of_text ''+1_0'' = Some 10" "int_of_text ''-07'' = Some (- 7)"
  "int_of_text ''1__0'' = None" "int_of_text ''_1'' = None" "int_of_text ''1.0'' = None" "int_of_text [] = None"
  by code_simp+

lemma shlex_examples:
  "shlex_split ''a  b=c'' = Some [''a'', ''b=c'']"
  "shlex_split (''x'' @ [squote] @ ''a b'' @ [squote] @ ''y '' @ [dquote, dquote]) = Some [''xa by'', []]"
  "shlex_split ([dquote] @ ''a'' @ [bslash, dquote] @ ''b'' @ [bslash] @ ''n'' @ [dquote]) = Some [''a'' @ [dquote] @ ''b'' @ [bslash] @ ''n'']"
  "shlex_split [squote] = None" "shlex_split [bslash] = None"
  by code_simp+

end
