(* ===== verification/HandoffText.thy ===== *)
theory HandoffText
  imports Shlex JsonParse WorktreePath
begin

text \<open>
  \<open>multinexus/handoff_handler.py\<close> and \<open>multinexus/handoff.py\<close>: reading the messages of the coordinator,
  writing and finding agent reports, the start text of a task and the prompts. The emojis and the Chinese
  sentences of the prompts are outside the code points of the model, so they are a parameter
  (\<open>prompt_text\<close>). The file system and the coordinator command are parameters as well.
\<close>

section \<open>Fields\<close>

text \<open>The fields with one more word of a message, if it is an assignment with a name.\<close>
definition add_field :: "(string \<times> string) list \<Rightarrow> string \<Rightarrow> (string \<times> string) list" where
  "add_field kvs part =
     (if CHR ''='' \<notin> set part then kvs
      else
        let key = takeWhile (\<lambda>c. c \<noteq> CHR ''='') part; val = drop 1 (dropWhile (\<lambda>c. c \<noteq> CHR ''='') part);
            normalized = replace_char CHR ''-'' CHR ''_'' (map py_lower (strip key))
        in if normalized = [] then kvs else alist_set kvs normalized (strip val))"

definition parse_key_values :: "string \<Rightarrow> (string \<times> string) list" where
  "parse_key_values text =
     (case shlex_split text of None \<Rightarrow> [] | Some parts \<Rightarrow> foldl add_field [] parts)"

text \<open>\<open>fields.get(k) or ""\<close>\<close>
definition field :: "(string \<times> string) list \<Rightarrow> string \<Rightarrow> string" where
  "field kvs k = (case map_of kvs k of None \<Rightarrow> [] | Some v \<Rightarrow> v)"

section \<open>The messages of the coordinator\<close>

record coordinator_handoff =
  ch_workspace_id :: string
  ch_task_id :: string
  ch_bootstrap_path :: string
  ch_action :: string
  ch_context_version :: "int option"
  ch_workspace_path :: string
  ch_harness_root :: string
  ch_branch :: "string option"

record lifecycle_event =
  le_workspace_id :: string
  le_task_id :: string
  le_action :: string

text \<open>\<open><@!?(\d+)>\<close>: the digits and the text after it.\<close>
definition mention_at :: "string \<Rightarrow> (string \<times> string) option" where
  "mention_at s =
     (if \<not> startswith s ''<@'' then None
      else
        let t = drop 2 s; u = (if startswith t ''!'' then drop 1 t else t);
            ds = takeWhile is_digit u; r = dropWhile is_digit u
        in if ds \<noteq> [] \<and> startswith r ''>'' then Some (ds, drop 1 r) else None)"

text \<open>One of the labels, in any case, white space and a mention.\<close>
definition prefix_at :: "string list \<Rightarrow> string \<Rightarrow> (string \<times> string) option" where
  "prefix_at labels s =
     (case find (\<lambda>l. map py_lower (take (length l) s) = l) labels of
        None \<Rightarrow> None
      | Some l \<Rightarrow> mention_at (dropWhile py_space (drop (length l) s)))"

fun search_prefix :: "string list \<Rightarrow> string \<Rightarrow> (string \<times> string) option" where
  "search_prefix labels [] = None"
| "search_prefix labels (c # s) =
     (case prefix_at labels (c # s) of Some m \<Rightarrow> Some m | None \<Rightarrow> search_prefix labels s)"

definition HANDOFF_LABELS :: "string list" where "HANDOFF_LABELS = [''[handoff]'']"
definition LIFECYCLE_LABELS :: "string list" where "LIFECYCLE_LABELS = [''[lifecycle]'', ''[handoff]'']"
definition ALLOWED_ACTIONS :: "string list" where "ALLOWED_ACTIONS = [''assignment.accept'', ''review.begin'']"
definition LIFECYCLE_ACTIONS :: "string list" where
  "LIFECYCLE_ACTIONS = [''assignment.closeout'', ''assignment.mark-done'', ''task.done'']"
definition REPORT_ACTIONS :: "string list" where "REPORT_ACTIONS = [''accept'', ''blocker'', ''done'', ''progress'']"

definition safe_id_shape :: "string \<Rightarrow> bool" where
  "safe_id_shape s = (s \<noteq> [] \<and> list_all (\<lambda>c. is_ascii_letter c \<or> is_digit c \<or> c \<in> set ''_.:-'') s)"

definition safe_id :: "string \<Rightarrow> bool" where
  "safe_id s = re_dollar safe_id_shape s"

definition is_host_absolute_path :: "string \<Rightarrow> bool" where
  "is_host_absolute_path s =
     (startswith s ''/'' \<or> startswith s [bslash, bslash]
      \<or> (case s of a # b # c # _ \<Rightarrow> is_ascii_letter a \<and> b = CHR '':'' \<and> (c = bslash \<or> c = CHR ''/'') | _ \<Rightarrow> False))"

text \<open>
  What a message to this user says: \<open>Inr None\<close> when there is no prefix or another user is mentioned; a
  number of more than 4300 digits raises.
\<close>
definition addressed_fields :: "string list \<Rightarrow> int \<Rightarrow> string \<Rightarrow> string + (string \<times> string) list option" where
  "addressed_fields labels me content =
     (case search_prefix labels content of
        None \<Rightarrow> Inr None
      | Some (ds, rest) \<Rightarrow>
          if MAX_STR_DIGITS < length ds then Inl ''ValueError''
          else if int (read_nat ds) \<noteq> me then Inr None
          else Inr (Some (parse_key_values rest)))"

text \<open>The block of the execution context is of version 1 and complete.\<close>
definition context_block_ok :: "string \<Rightarrow> string \<Rightarrow> string \<Rightarrow> bool" where
  "context_block_ok raw workspace_path harness_root =
     (int_of_text raw = Some 1 \<and> workspace_path \<noteq> [] \<and> is_host_absolute_path workspace_path
      \<and> harness_root \<noteq> [] \<and> is_host_absolute_path harness_root)"

definition handoff_of_fields :: "bool \<Rightarrow> (string \<times> string) list \<Rightarrow> coordinator_handoff option" where
  "handoff_of_fields diagnostic kvs =
     (let w = field kvs ''workspace_id''; t = field kvs ''task_id'';
          action = map py_lower (field kvs ''action'');
          path = field kvs ''workspace_path''; root = field kvs ''harness_root'';
          branch = (if field kvs ''branch'' = [] then None else Some (field kvs ''branch''));
          make = (\<lambda>version path root branch. Some
            \<lparr>ch_workspace_id = w, ch_task_id = t, ch_bootstrap_path = field kvs ''bootstrap'', ch_action = action,
             ch_context_version = version, ch_workspace_path = path, ch_harness_root = root, ch_branch = branch\<rparr>)
      in
      if w = [] \<or> t = [] \<or> action = [] then None
      else if \<not> safe_id w \<or> \<not> safe_id t then None
      else if action \<notin> set ALLOWED_ACTIONS then None
      else
        (case map_of kvs ''context_version'' of
           None \<Rightarrow> make None path root branch
         | Some raw \<Rightarrow>
             if context_block_ok raw path root then make (Some 1) path root branch
             else if diagnostic then make None [] [] None
             else None))"

definition parse_coordinator_handoff :: "int \<Rightarrow> bool \<Rightarrow> string \<Rightarrow> string + coordinator_handoff option" where
  "parse_coordinator_handoff me diagnostic content =
     ebind (addressed_fields HANDOFF_LABELS me content) (\<lambda>found.
     Inr (case found of None \<Rightarrow> None | Some kvs \<Rightarrow> handoff_of_fields diagnostic kvs))"

definition event_of_fields :: "(string \<times> string) list \<Rightarrow> lifecycle_event option" where
  "event_of_fields kvs =
     (let w = field kvs ''workspace_id''; t = field kvs ''task_id'';
          action = map py_lower (field kvs ''action'') in
      if w = [] \<or> t = [] \<or> action = [] then None
      else if \<not> safe_id w \<or> \<not> safe_id t then None
      else if action \<notin> set LIFECYCLE_ACTIONS then None
      else Some \<lparr>le_workspace_id = w, le_task_id = t, le_action = action\<rparr>)"

definition parse_coordinator_lifecycle :: "int \<Rightarrow> string \<Rightarrow> string + lifecycle_event option" where
  "parse_coordinator_lifecycle me content =
     ebind (addressed_fields LIFECYCLE_LABELS me content) (\<lambda>found.
     Inr (case found of None \<Rightarrow> None | Some kvs \<Rightarrow> event_of_fields kvs))"

section \<open>Agent reports\<close>

definition report_field :: "string \<Rightarrow> string option \<Rightarrow> (string \<times> string) list" where
  "report_field k v = (case v of None \<Rightarrow> [] | Some s \<Rightarrow> if s = [] then [] else [(k, s)])"

definition build_agent_report ::
    "string \<Rightarrow> string \<Rightarrow> string \<Rightarrow> string option \<Rightarrow> string option \<Rightarrow> string + string" where
  "build_agent_report action workspace_id task_id summary reason =
     (let normalized = map py_lower action in
      if normalized \<notin> set REPORT_ACTIONS then Inl ''ValueError''
      else Inr (join_with '' '' ([''[agent-report]'', ''action='' @ normalized]
        @ map assignment_word ([(''workspace_id'', workspace_id), (''task_id'', task_id)]
            @ report_field ''summary'' summary @ report_field ''reason'' reason))))"

text \<open>\<open>^\s*\[label\](?=\s|$)\<close> in any case, at the start of the text.\<close>
definition label_line :: "string list \<Rightarrow> string \<Rightarrow> bool" where
  "label_line labels s =
     (let t = dropWhile py_space s in
      list_ex (\<lambda>l. map py_lower (take (length l) t) = l
        \<and> (case drop (length l) t of [] \<Rightarrow> True | c # _ \<Rightarrow> py_space c)) labels)"

definition AGENT_REPORT_LABELS :: "string list" where
  "AGENT_REPORT_LABELS =
     [''[agent-report]'', ''[accept]'', ''[accepted]'', ''[handoff-received]'', ''[done]'', ''[blocker]'', ''[progress]'']"

fun contains_label :: "bool \<Rightarrow> string \<Rightarrow> bool" where
  "contains_label start [] = False"
| "contains_label start (c # s) =
     (start \<and> label_line AGENT_REPORT_LABELS (c # s) \<or> contains_label (c = nl) s)"

definition contains_agent_report :: "string \<Rightarrow> bool" where
  "contains_agent_report text = contains_label True text"

definition strict_report_line :: "string \<Rightarrow> bool" where
  "strict_report_line line = label_line [''[agent-report]''] line"

definition field_char :: "char \<Rightarrow> bool" where
  "field_char c = (is_ascii_letter c \<or> is_digit c \<or> c = CHR ''_'' \<or> c = CHR ''-'')"

text \<open>\<open>^\s*[A-Za-z_][A-Za-z0-9_-]*=\<close>\<close>
definition report_field_line :: "string \<Rightarrow> bool" where
  "report_field_line line =
     (let t = dropWhile py_space line in
      t \<noteq> [] \<and> (is_ascii_letter (hd t) \<or> hd t = CHR ''_'') \<and> startswith (dropWhile field_char t) ''='')"

text \<open>The fields of a block make it a report.\<close>
definition is_report :: "string \<Rightarrow> bool" where
  "is_report candidate =
     (let kvs = parse_key_values candidate in
      map py_lower (field kvs ''action'') \<in> set REPORT_ACTIONS
      \<or> map py_lower (field kvs ''decision'') \<in> {''approve'', ''reject''})"

function split_reports :: "string list \<Rightarrow> string list \<times> string list" where
  "split_reports [] = ([], [])"
| "split_reports (line # rest) =
     (if \<not> strict_report_line line then (case split_reports rest of (reports, display) \<Rightarrow> (reports, line # display))
      else
        let kvs = takeWhile report_field_line rest; candidate = join_with [nl] (map strip (line # kvs)) in
        case split_reports (dropWhile report_field_line rest) of (reports, display) \<Rightarrow>
          if is_report candidate then (candidate # reports, display) else (reports, line # kvs @ display))"
  by pat_completeness auto
termination
  by (relation "measure length") (auto simp: le_imp_less_Suc length_dropWhile_le)

definition split_agent_report_lines :: "string \<Rightarrow> string list \<times> string" where
  "split_agent_report_lines text =
     (case split_reports (splitlines text) of (reports, display) \<Rightarrow> (reports, strip (join_with [nl] display)))"

definition is_execution_report :: "string \<Rightarrow> bool" where
  "is_execution_report report =
     (let kvs = parse_key_values report in
      map py_lower (field kvs ''action'') \<in> {''blocker'', ''done'', ''progress''}
      \<or> map py_lower (field kvs ''decision'') \<in> {''approve'', ''reject''})"

definition contains_execution_agent_report :: "string \<Rightarrow> bool" where
  "contains_execution_agent_report text = list_ex is_execution_report (fst (split_agent_report_lines text))"

section \<open>Handoff lines of a response\<close>

definition MAX_DISCORD_MSG_LEN :: nat where "MAX_DISCORD_MSG_LEN = 1900"

text \<open>\<open>^\[handoff\]\s+<@!?\d+>(?:\s+.*)?$\<close> on a line without line feeds at its end.\<close>
definition formal_handoff :: "string \<Rightarrow> bool" where
  "formal_handoff s =
     (startswith s ''[handoff]'' \<and>
      (case drop 9 s of
         [] \<Rightarrow> False
       | c # t \<Rightarrow> py_space c \<and>
           (case mention_at (dropWhile py_space t) of
              None \<Rightarrow> False
            | Some (_, r) \<Rightarrow> r = [] \<or> py_space (hd r))))"

text \<open>The first argument says whether a code fence is open.\<close>
fun split_handoffs :: "bool \<Rightarrow> string list \<Rightarrow> string list \<times> string list" where
  "split_handoffs fence [] = ([], [])"
| "split_handoffs fence (line # rest) =
     (let stripped = strip line in
      if startswith stripped ''```''
        then (case split_handoffs (\<not> fence) rest of (hs, clean) \<Rightarrow> (hs, line # clean))
      else if \<not> fence \<and> formal_handoff stripped
        then (case split_handoffs fence rest of (hs, clean) \<Rightarrow> (take MAX_DISCORD_MSG_LEN stripped # hs, clean))
      else (case split_handoffs fence rest of (hs, clean) \<Rightarrow> (hs, line # clean)))"

definition split_handoff_lines :: "string \<Rightarrow> string list \<times> string" where
  "split_handoff_lines text =
     (case split_handoffs False (split_on nl text) of (hs, clean) \<Rightarrow> (hs, strip (join_with [nl] clean)))"

section \<open>The assignment and its start text\<close>

text \<open>
  Paths are given by their parts below the root. \<open>Inl\<close> is an exception that the code does not catch,
  \<open>None\<close> one that it catches: \<open>OSError\<close> for the command, \<open>OSError\<close> and \<open>ValueError\<close> for the resolution,
  a missing or forbidden file for the reading.
\<close>
record handoff_fs =
  hf_cli :: "string \<Rightarrow> string + string list option"
  hf_is_file :: "string list \<Rightarrow> bool"
  hf_is_dir :: "string list \<Rightarrow> bool"
  hf_root :: "string \<Rightarrow> string + string list option"
  hf_resolve :: "string list \<Rightarrow> string \<Rightarrow> string + string list option"
  hf_open :: "string list \<Rightarrow> string + string option"

definition path_text :: "string list \<Rightarrow> string" where
  "path_text ps = CHR ''/'' # join_with ''/'' ps"

definition coordinator_repo_at :: "handoff_fs \<Rightarrow> string list \<Rightarrow> bool" where
  "coordinator_repo_at fs dir =
     (hf_is_file fs (dir @ [''pyproject.toml''])
      \<and> (hf_is_dir fs (dir @ [''src'', ''coordinate'']) \<or> hf_is_dir fs (dir @ [''src'', ''multi_agent_coordinator''])))"

text \<open>The directories above a path, the nearest first.\<close>
definition ancestors :: "string list \<Rightarrow> string list list" where
  "ancestors ps = map (\<lambda>k. take k ps) (rev [0..<length ps])"

definition infer_coordinator_repo :: "handoff_fs \<Rightarrow> string \<Rightarrow> string + string list option" where
  "infer_coordinator_repo fs cli_path =
     ebind (hf_cli fs cli_path) (\<lambda>found.
     Inr (case found of
            None \<Rightarrow> None
          | Some ps \<Rightarrow> find (coordinator_repo_at fs) (butlast ps # ancestors ps)))"

datatype accept_end = AcceptTimeout | AcceptRaised string | AcceptExited int string string

definition accept_argv :: "string \<Rightarrow> string \<Rightarrow> string \<Rightarrow> string \<Rightarrow> int \<Rightarrow> string list" where
  "accept_argv cli workspace_id task_id agent time =
     [cli, ''assignment'', ''accept'', workspace_id, ''--task-id'', task_id, ''--owner'', agent, ''--session'',
      ''auto-'' @ agent @ ''-'' @ show_int time]"

definition accept_environ ::
    "handoff_fs \<Rightarrow> string \<Rightarrow> string \<Rightarrow> (string \<times> string) list \<Rightarrow> string + (string \<times> string) list" where
  "accept_environ fs cli db environ =
     ebind (infer_coordinator_repo fs cli) (\<lambda>repo.
     let e = alist_set environ ''MAC_DB'' db in
     Inr (case repo of None \<Rightarrow> e | Some dir \<Rightarrow> alist_set e ''MAC_REPO'' (path_text dir)))"

definition accept_result :: "accept_end \<Rightarrow> bool \<times> string" where
  "accept_result answer =
     (case answer of
        AcceptTimeout \<Rightarrow> (False, ''assignment accept timed out (30s)'')
      | AcceptRaised e \<Rightarrow> (False, e)
      | AcceptExited rc out err \<Rightarrow> (rc = 0, if strip out \<noteq> [] then strip out else strip err))"

text \<open>What is to be done: give an answer without a call, or run a command in an environment.\<close>
datatype accept_plan = AcceptRefused string | AcceptRun "string list" "(string \<times> string) list"

definition plan_assignment_accept ::
    "handoff_fs \<Rightarrow> (string \<times> string) list \<Rightarrow> string \<Rightarrow> string \<Rightarrow> string \<Rightarrow> string \<Rightarrow> string \<Rightarrow> int
     \<Rightarrow> string + accept_plan" where
  "plan_assignment_accept fs environ cli db workspace_id task_id agent time =
     (if cli = [] then Inr (AcceptRefused ''coordinator_cli_path is not configured'')
      else if db = [] then Inr (AcceptRefused ''coordinator_db_path is not configured'')
      else
        ebind (accept_environ fs cli db environ) (\<lambda>e.
        Inr (AcceptRun (accept_argv cli workspace_id task_id agent time) e)))"

text \<open>A payload that is no object raises.\<close>
definition bootstrap_text_from_accept_output :: "string \<Rightarrow> string + string option" where
  "bootstrap_text_from_accept_output output =
     (if output = [] then Inr None
      else
        (case json_parse output of
           None \<Rightarrow> Inr None
         | Some (JObj payload) \<Rightarrow>
             Inr (case dget payload ''result'' of
                    JObj result \<Rightarrow>
                      (case dget result ''bootstrap_text'' of
                         JStr text \<Rightarrow> if strip text \<noteq> [] then Some text else None
                       | _ \<Rightarrow> None)
                  | _ \<Rightarrow> None)
         | Some _ \<Rightarrow> Inl ''AttributeError''))"

definition BOOTSTRAP_NAMES :: "string list" where
  "BOOTSTRAP_NAMES = [''worker-bootstrap.md'', ''reviewer-bootstrap.md'']"

definition is_allowed_bootstrap_path :: "string list \<Rightarrow> bool" where
  "is_allowed_bootstrap_path parts =
     (if 5 \<le> length parts \<and> take 3 parts = [''docs'', ''project-harness'', ''tasks'']
        then last parts \<in> set BOOTSTRAP_NAMES
      else if 4 \<le> length parts \<and> take 2 parts = [''docs'', ''tasks'']
        then last parts \<in> set BOOTSTRAP_NAMES
      else parts \<in> {[''docs'', ''project-harness'', ''current'', ''worker-bootstrap.md''],
                    [''docs'', ''project-harness'', ''current'', ''reviewer-bootstrap.md'']})"

text \<open>Resolution follows symbolic links.\<close>
definition read_bootstrap :: "handoff_fs \<Rightarrow> string \<Rightarrow> string \<Rightarrow> string + string option" where
  "read_bootstrap fs workspace_path rel =
     (if rel = [] \<or> startswith rel ''/'' then Inr None
      else
        ebind (hf_root fs workspace_path) (\<lambda>root_found.
        case root_found of
          None \<Rightarrow> Inr None
        | Some root \<Rightarrow>
            ebind (hf_resolve fs root rel) (\<lambda>full_found.
            case full_found of
              None \<Rightarrow> Inr None
            | Some full \<Rightarrow>
                if take (length root) full \<noteq> root then Inr None
                else if \<not> is_allowed_bootstrap_path (drop (length root) full) then Inr None
                else hf_open fs full)))"

text \<open>The answer of the query for the path of a workspace: an \<open>sqlite3.Error\<close>, no row, or the value.\<close>
datatype path_row = PathError | NoRow | PathRow "string option"

definition resolve_workspace_path :: "(string \<Rightarrow> bool) \<Rightarrow> (string \<Rightarrow> string \<Rightarrow> path_row) \<Rightarrow> string \<Rightarrow> string \<Rightarrow> string \<Rightarrow> string" where
  "resolve_workspace_path exists query db workspace_id fallback =
     (if db = [] \<or> workspace_id = [] then fallback
      else if \<not> exists db then fallback
      else
        (case query db workspace_id of
           PathRow (Some p) \<Rightarrow> if p \<noteq> [] then p else fallback
         | _ \<Rightarrow> fallback))"

section \<open>Prompts\<close>

text \<open>The sentences of the two prompts.\<close>
record prompt_text =
  pt_title :: string
  pt_task :: string
  pt_received :: string
  pt_before_agent :: string
  pt_after_agent :: string
  pt_received_rules :: "string list"
  pt_result :: string
  pt_rules :: "string list"
  pt_bootstrap :: string
  pt_missing :: string

text \<open>\<open>" ".join(s.split())\<close>\<close>
definition one_line :: "string \<Rightarrow> string" where
  "one_line s = join_with '' '' (split_ws s)"

definition prompt_tail :: "prompt_text \<Rightarrow> string option \<Rightarrow> string list" where
  "prompt_tail txt bootstrap =
     (case bootstrap of
        Some b \<Rightarrow> if b \<noteq> [] then [pt_bootstrap txt, b] else [pt_missing txt]
      | None \<Rightarrow> [pt_missing txt])"

definition build_handoff_prompt ::
    "prompt_text \<Rightarrow> coordinator_handoff \<Rightarrow> string option \<Rightarrow> string \<Rightarrow> string \<Rightarrow> string" where
  "build_handoff_prompt txt h bootstrap agent output =
     join_with [nl]
       ([pt_title txt, pt_task txt @ ch_task_id h, ''Workspace: '' @ ch_workspace_id h]
        @ (if agent = [] then []
           else [pt_received txt, pt_before_agent txt @ agent @ pt_after_agent txt] @ pt_received_rules txt
             @ (if output = [] then [] else [pt_result txt @ take 500 (one_line output)]))
        @ pt_rules txt @ prompt_tail txt bootstrap)"

definition build_review_handoff_prompt ::
    "prompt_text \<Rightarrow> coordinator_handoff \<Rightarrow> string option \<Rightarrow> string \<Rightarrow> string" where
  "build_review_handoff_prompt txt h bootstrap agent =
     join_with [nl]
       ([pt_title txt, pt_task txt @ ch_task_id h, ''Workspace: '' @ ch_workspace_id h]
        @ (if agent = [] then [] else pt_received txt # pt_received_rules txt)
        @ pt_rules txt @ prompt_tail txt bootstrap)"

end
