(* ===== verification/HandoffSafety.thy ===== *)
theory HandoffSafety
  imports HandoffText "HOL-Library.Multiset" "HOL-Library.Sublist"
begin

text \<open>
  Properties of the texts of the handoff protocol: reports are read as they were written, a handoff that
  is read is well-formed, splitting a response loses nothing, and only start texts below the workspace are
  opened.
\<close>

section \<open>Reports are read as they are written\<close>

lemma takeWhile_key: "CHR ''='' \<notin> set k \<Longrightarrow> takeWhile (\<lambda>c. c \<noteq> CHR ''='') (k @ CHR ''='' # v) = k"
  by (induction k) auto

lemma dropWhile_key: "CHR ''='' \<notin> set k \<Longrightarrow> dropWhile (\<lambda>c. c \<noteq> CHR ''='') (k @ CHR ''='' # v) = CHR ''='' # v"
  by (induction k) auto

text \<open>A key that reading leaves as it is.\<close>
definition clean_key :: "string \<Rightarrow> bool" where
  "clean_key k = (k \<noteq> [] \<and> CHR ''='' \<notin> set k \<and> replace_char CHR ''-'' CHR ''_'' (map py_lower (strip k)) = k
     \<and> list_all shlex_plain k)"

lemma add_field_clean: "clean_key k \<Longrightarrow> add_field d (k @ CHR ''='' # v) = alist_set d k (strip v)"
  by (simp add: add_field_def clean_key_def takeWhile_key dropWhile_key)

lemma alist_set_new: "k \<notin> fst ` set d \<Longrightarrow> alist_set d k v = d @ [(k, v)]"
  by (induction d k v rule: alist_set.induct) auto

lemma foldl_clean_fields:
  "list_all (\<lambda>kv. clean_key (fst kv)) kvs \<Longrightarrow> distinct (map fst (d @ kvs))
   \<Longrightarrow> foldl add_field d (map (\<lambda>kv. fst kv @ CHR ''='' # snd kv) kvs) = d @ map (\<lambda>(k, v). (k, strip v)) kvs"
proof (induction kvs arbitrary: d)
  case (Cons kv kvs)
  then have "fst kv \<notin> fst ` set d"
    by auto
  then show ?case
    using Cons.prems Cons.IH [of "d @ [(fst kv, strip (snd kv))]"]
    by (simp add: add_field_clean alist_set_new case_prod_beta)
qed simp

text \<open>What a report says under which keys.\<close>
definition report_content :: "string \<Rightarrow> string \<Rightarrow> string \<Rightarrow> string option \<Rightarrow> string option \<Rightarrow> (string \<times> string) list" where
  "report_content action workspace_id task_id summary reason =
     [(''action'', map py_lower action), (''workspace_id'', workspace_id), (''task_id'', task_id)]
     @ report_field ''summary'' summary @ report_field ''reason'' reason"

lemma report_field_cases:
  obtains "report_field k v = []" | x where "report_field k v = [(k, x)]"
proof (cases "v = None \<or> v = Some []")
  case False
  then obtain x where "v = Some x" "x \<noteq> []"
    by (cases v) auto
  then show thesis
    by (intro that(2)) (simp add: report_field_def)
qed (auto simp: report_field_def intro: that(1))

lemma report_content_clean:
  "list_all (\<lambda>kv. clean_key (fst kv)) (report_content a w t s r) \<and> distinct (map fst (report_content a w t s r))"
proof -
  have "clean_key ''action''" "clean_key ''workspace_id''" "clean_key ''task_id''" "clean_key ''summary''" "clean_key ''reason''"
    by code_simp+
  then show ?thesis
    by (cases rule: report_field_cases [of "''summary''" s]; cases rule: report_field_cases [of "''reason''" r])
       (simp_all add: report_content_def)
qed

lemma report_action_safe: "x \<in> set REPORT_ACTIONS \<Longrightarrow> shlex_quote x = x"
  unfolding REPORT_ACTIONS_def by (simp, elim disjE; hypsubst; code_simp)

lemma agent_report_text:
  assumes "map py_lower action \<in> set REPORT_ACTIONS"
  shows "build_agent_report action w t s r
     = Inr (''[agent-report] '' @ join_with '' '' (map assignment_word (report_content action w t s r)))"
  using assms report_action_safe [OF assms]
  by (simp add: build_agent_report_def report_content_def assignment_word_def)

lemma split_report_text:
  "shlex_split (''[agent-report] '' @ join_with '' '' (map assignment_word (report_content a w t s r)))
   = Some (''[agent-report]'' # map (\<lambda>kv. fst kv @ CHR ''='' # snd kv) (report_content a w t s r))"
proof -
  have "list_all shlex_plain ''[agent-report]''"
    by code_simp
  then have "shlex_run Gap [] (''[agent-report]'' @ CHR '' '' # x) = map_option ((#) ''[agent-report]'') (shlex_run Gap [] x)" for x
    by (subst run_gap_plain) simp_all
  moreover have "shlex_run Gap [] (join_with '' '' (map assignment_word (report_content a w t s r)))
      = Some (map (\<lambda>kv. fst kv @ ''='' @ snd kv) (report_content a w t s r))"
    using report_content_clean [of a w t s r]
    by (intro split_assignments) (auto simp: list_all_iff clean_key_def)
  ultimately show ?thesis
    by (simp add: shlex_split_def)
qed

lemma add_field_label [simp]: "add_field d ''[agent-report]'' = d"
  by (simp add: add_field_def)

text \<open>
  a report is read as it was written. Whatever the workspace, the task, the summary and the reason
  contain, quotes and assignments included, reading the words of a report gives exactly the fields it was
  made from, without the white space at their ends; an action that is none makes no report. So no text in
  a summary can add a field to a report or change one.
\<close>
theorem agent_report_roundtrip:
  "case build_agent_report action w t s r of
     Inl e \<Rightarrow> e = ''ValueError'' \<and> map py_lower action \<notin> set REPORT_ACTIONS
   | Inr text \<Rightarrow> parse_key_values text = map (\<lambda>(k, v). (k, strip v)) (report_content action w t s r)"
proof (cases "map py_lower action \<in> set REPORT_ACTIONS")
  case True
  have "foldl add_field [] (''[agent-report]'' # map (\<lambda>kv. fst kv @ CHR ''='' # snd kv) (report_content action w t s r))
      = map (\<lambda>(k, v). (k, strip v)) (report_content action w t s r)"
    using foldl_clean_fields [of "report_content action w t s r" "[]"] report_content_clean [of action w t s r] by simp
  then show ?thesis
    using split_report_text [of action w t s r] by (simp add: agent_report_text [OF True] parse_key_values_def)
qed (simp add: build_agent_report_def Let_def)

section \<open>A handoff that is read\<close>

lemma handoff_of_fields_sound:
  assumes "handoff_of_fields d kvs = Some h"
  shows "safe_id (ch_workspace_id h)" "safe_id (ch_task_id h)" "ch_action h \<in> set ALLOWED_ACTIONS"
    "ch_context_version h = None \<or> ch_context_version h = Some 1 \<and> is_host_absolute_path (ch_workspace_path h)
       \<and> is_host_absolute_path (ch_harness_root h)"
    "ch_context_version h \<noteq> None \<Longrightarrow> handoff_of_fields False kvs = Some h"
  using assms
  by (auto simp: handoff_of_fields_def Let_def context_block_ok_def split: if_splits option.splits)

lemma strict_handoff_is_diagnostic: "handoff_of_fields False kvs = Some h \<Longrightarrow> handoff_of_fields True kvs = Some h"
  by (auto simp: handoff_of_fields_def Let_def split: if_splits option.splits)

text \<open>
  what a parsed handoff guarantees. Workspace and task have the shape of safe ids, the action is one of
  the two that are allowed, and a context version means version 1 with two host-absolute paths. The
  diagnostic reading never makes authority: with a context version it gives what the strict reading gives,
  and everything that the strict reading accepts it accepts as it is.
\<close>
theorem handoff_parse_sound:
  assumes "parse_coordinator_handoff me d content = Inr (Some h)"
  shows "safe_id (ch_workspace_id h) \<and> safe_id (ch_task_id h) \<and> ch_action h \<in> set ALLOWED_ACTIONS
    \<and> (ch_context_version h = None
       \<or> ch_context_version h = Some 1 \<and> is_host_absolute_path (ch_workspace_path h) \<and> is_host_absolute_path (ch_harness_root h)
         \<and> parse_coordinator_handoff me False content = Inr (Some h))
    \<and> (\<not> d \<longrightarrow> parse_coordinator_handoff me True content = Inr (Some h))"
proof -
  from assms obtain kvs where kvs: "addressed_fields HANDOFF_LABELS me content = Inr (Some kvs)" "handoff_of_fields d kvs = Some h"
    by (auto simp: parse_coordinator_handoff_def result_simps split: option.splits)
  note sound = handoff_of_fields_sound [OF kvs(2)]
  have "parse_coordinator_handoff me d' content = Inr (handoff_of_fields d' kvs)" for d'
    by (simp add: parse_coordinator_handoff_def kvs(1))
  moreover have "\<not> d \<Longrightarrow> handoff_of_fields True kvs = Some h"
    using kvs(2) by (cases d) (simp_all add: strict_handoff_is_diagnostic)
  ultimately show ?thesis
    using sound by auto
qed

definition sample_handoff :: string where
  "sample_handoff = ''[handoff] <@7> workspace_id=w task_id=T-1 action=assignment.accept context_version=1 ''
     @ ''workspace_path=/srv/w harness_root=/srv/h''"

theorem handoff_parse_sound_witness:
  "parse_coordinator_handoff 7 True sample_handoff
     = Inr (Some \<lparr>ch_workspace_id = ''w'', ch_task_id = ''T-1'', ch_bootstrap_path = [], ch_action = ''assignment.accept'',
         ch_context_version = Some 1, ch_workspace_path = ''/srv/w'', ch_harness_root = ''/srv/h'', ch_branch = None\<rparr>)
   \<and> parse_coordinator_handoff 7 False sample_handoff = parse_coordinator_handoff 7 True sample_handoff"
proof -
  have "parse_coordinator_handoff 7 True sample_handoff
     = Inr (Some \<lparr>ch_workspace_id = ''w'', ch_task_id = ''T-1'', ch_bootstrap_path = [], ch_action = ''assignment.accept'',
         ch_context_version = Some 1, ch_workspace_path = ''/srv/w'', ch_harness_root = ''/srv/h'', ch_branch = None\<rparr>)"
    by code_simp
  then show ?thesis
    using handoff_parse_sound [of 7 True sample_handoff] by auto
qed

section \<open>Splitting loses nothing\<close>

lemma split_breaks_no_nl: "nl \<notin> set acc \<Longrightarrow> l \<in> set (split_breaks acc s) \<Longrightarrow> nl \<notin> set l"
proof (induction acc s rule: split_breaks.induct)
  case (2 acc c cs)
  have "is_line_break nl"
    by code_simp
  then show ?case
    using 2 by (auto split: if_splits)
qed (simp split: if_splits)

lemma splitlines_no_nl: "l \<in> set (splitlines s) \<Longrightarrow> nl \<notin> set l"
  unfolding splitlines_def by (rule split_breaks_no_nl [of "[]"]) simp_all

lemma set_lstrip: "set (lstrip s) \<subseteq> set s"
  unfolding lstrip_def by (auto dest: set_dropWhileD)

lemma set_strip: "set (strip s) \<subseteq> set s"
  using set_lstrip [of s] by (auto simp: strip_def rstrip_def dest!: set_dropWhileD)

lemma split_stripped_lines:
  "ls \<noteq> [] \<Longrightarrow> (\<And>l. l \<in> set ls \<Longrightarrow> nl \<notin> set l) \<Longrightarrow> split_on nl (join_with [nl] (map strip ls)) = map strip ls"
  using set_strip by (intro split_on_join) auto

lemma rstrip_append: "u \<noteq> [] \<Longrightarrow> \<not> py_space (last u) \<Longrightarrow> rstrip (u @ r) = u @ rstrip r"
proof (induction r rule: rev_induct)
  case Nil
  then show ?case
    by (simp add: rstrip_id)
next
  case (snoc c r)
  then show ?case
    by (cases "py_space c") (simp_all add: rstrip_snoc_space rstrip_id flip: append_assoc)
qed

text \<open>A label between brackets, taken off its line.\<close>
lemma label_lineE:
  assumes "label_line [l] line"
  obtains u r where "lstrip line = u @ r" "map py_lower u = l" "r = [] \<or> py_space (hd r)"
proof
  show "lstrip line = take (length l) (dropWhile py_space line) @ drop (length l) (dropWhile py_space line)"
    by (simp add: lstrip_def)
  show "map py_lower (take (length l) (dropWhile py_space line)) = l"
    "drop (length l) (dropWhile py_space line) = [] \<or> py_space (hd (drop (length l) (dropWhile py_space line)))"
    using assms by (auto simp: label_line_def Let_def split: list.splits)
qed

lemma ord_py_lower: "ord (py_lower c) = (if between CHR ''A'' CHR ''Z'' c \<or> (192 \<le> ord c \<and> ord c \<le> 222 \<and> ord c \<noteq> 215) then ord c + 32 else ord c)"
  by (auto simp: py_lower_def between_def ord_def)

lemma py_lower_bracket: "py_lower c \<in> {CHR ''['', CHR '']''} \<Longrightarrow> \<not> py_space c"
  using ord_py_lower [of c] by (auto simp: py_space_def Let_def ord_def between_def split: if_splits)

lemma label_line_strip:
  assumes "label_line [l] line" "l \<noteq> []" "hd l = CHR ''[''" "last l = CHR '']''" "x = [] \<or> py_space (hd x)"
  shows "label_line [l] (strip line @ x)"
proof -
  obtain u r where u: "lstrip line = u @ r" "map py_lower u = l" "r = [] \<or> py_space (hd r)"
    using label_lineE [OF assms(1)] .
  have "u \<noteq> []"
    using u(2) assms(2) by auto
  then have "py_lower (last u) = CHR '']''" "py_lower (hd u) = CHR ''[''"
    using assms(3,4) by (auto simp: last_map hd_map simp flip: u(2))
  then have ends: "\<not> py_space (last u)" "\<not> py_space (hd u)"
    using py_lower_bracket by auto
  have "strip line = u @ rstrip r"
    using u(1) ends(1) \<open>u \<noteq> []\<close> by (simp add: strip_def rstrip_append)
  moreover have "rstrip r = [] \<or> py_space (hd (rstrip r))"
    using u(3) hd_rstrip [of r] by (cases "rstrip r = []") (auto simp: rstrip_def)
  moreover have "dropWhile py_space (u @ v) = u @ v" for v
    using \<open>u \<noteq> []\<close> ends(2) by (cases u) simp_all
  moreover have "length u = length l"
    by (simp flip: u(2))
  ultimately show ?thesis
    using u(2) assms(5) by (cases "rstrip r") (auto simp: label_line_def split: list.split)
qed

lemma strict_report_line_strip:
  "strict_report_line line \<Longrightarrow> x = [] \<or> py_space (hd x) \<Longrightarrow> strict_report_line (strip line @ x)"
  unfolding strict_report_line_def by (rule label_line_strip) simp_all

lemma strict_report_line_start:
  assumes "x = [] \<or> py_space (hd x)"
  shows "strict_report_line (''[agent-report]'' @ x)"
proof -
  have "\<not> py_space CHR ''[''" "map py_lower ''[agent-report]'' = ''[agent-report]''"
    by code_simp+
  then show ?thesis
    using assms by (cases x) (simp_all add: strict_report_line_def label_line_def)
qed

lemma candidate_strict:
  "strict_report_line line \<Longrightarrow> strict_report_line (join_with [nl] (map strip (line # kvs)))"
proof -
  have "py_space nl"
    by code_simp
  then show "strict_report_line line \<Longrightarrow> ?thesis"
    using strict_report_line_strip [of line "[]"] strict_report_line_strip [of line "nl # x" for x] by (cases kvs) simp_all
qed

lemma split_reports_conserves:
  assumes "split_reports ls = (reports, shown)" "\<And>l. l \<in> set ls \<Longrightarrow> nl \<notin> set l"
  shows "list_all (\<lambda>r. strict_report_line r \<and> is_report r) reports
     \<and> mset (map strip ls) = mset (concat (map (split_on nl) reports)) + mset (map strip shown)"
  using assms
proof (induction ls arbitrary: reports shown rule: split_reports.induct)
  case (2 line rest)
  let ?f = "takeWhile report_field_line rest" and ?r = "dropWhile report_field_line rest"
  have no_nl: "\<And>l. l \<in> set ?r \<Longrightarrow> nl \<notin> set l" "\<And>l. l \<in> set (line # ?f) \<Longrightarrow> nl \<notin> set l"
    using 2(4) by (auto dest: set_dropWhileD set_takeWhileD)
  have rest: "mset (map strip rest) = mset (map strip ?f) + mset (map strip ?r)"
    by (metis map_append mset_append takeWhile_dropWhile_id)
  show ?case
  proof (cases "strict_report_line line")
    case False
    obtain rs sh where "split_reports rest = (rs, sh)"
      by fastforce
    then show ?thesis
      using 2(1) [OF False, of rs sh] 2(3,4) False by auto
  next
    case True
    obtain rs sh where tl: "split_reports ?r = (rs, sh)"
      by fastforce
    have IH: "list_all (\<lambda>r. strict_report_line r \<and> is_report r) rs
        \<and> mset (map strip ?r) = mset (concat (map (split_on nl) rs)) + mset (map strip sh)"
      using 2(2) [of ?f _ rs sh] True tl no_nl(1) by auto
    have lines: "split_on nl (join_with [nl] (map strip (line # ?f))) = map strip (line # ?f)"
      using no_nl(2) by (intro split_stripped_lines) auto
    show ?thesis
      using 2(3) True tl IH rest lines candidate_strict [OF True, of ?f]
      by (auto simp: Let_def simp del: join_with.simps split: if_splits)
  qed
qed simp

text \<open>
  splitting a response loses and doubles nothing. Every report that is taken out starts with the label
  and says an action or a decision, and the lines of the reports and of the text that is shown are, up to
  white space at their ends, the lines of the response.
\<close>
theorem split_reports_exact:
  "\<exists>shown. snd (split_agent_report_lines text) = strip (join_with [nl] shown)
     \<and> list_all (\<lambda>r. strict_report_line r \<and> is_report r) (fst (split_agent_report_lines text))
     \<and> mset (map strip (splitlines text))
         = mset (concat (map (split_on nl) (fst (split_agent_report_lines text)))) + mset (map strip shown)"
proof -
  obtain reports shown where "split_reports (splitlines text) = (reports, shown)"
    by fastforce
  then show ?thesis
    using split_reports_conserves [of "splitlines text" reports shown] splitlines_no_nl
    by (auto simp: split_agent_report_lines_def)
qed

section \<open>A report of one line is recognised\<close>

lemma single_line:
  assumes "\<not> list_ex is_line_break s" "s \<noteq> []"
  shows "splitlines s = [s]"
proof -
  have "join_crlf s = s"
    using assms(1)
  proof (induction s rule: join_crlf.induct)
    case (1 c d s)
    moreover have "is_line_break (CHR 0x0D)"
      by code_simp
    ultimately show ?case
      by auto
  qed auto
  moreover have "split_breaks acc s = [rev acc @ s]" if "acc \<noteq> [] \<or> s \<noteq> []" for acc
    using assms(1) that by (induction s arbitrary: acc) auto
  ultimately show ?thesis
    using assms(2) by (simp add: splitlines_def)
qed

text \<open>A report without a line break in any of its fields.\<close>
definition one_line_content :: "(string \<times> string) list \<Rightarrow> bool" where
  "one_line_content kvs = list_all (\<lambda>kv. \<not> list_ex is_line_break (snd kv)) kvs"

lemma quote_no_break: "\<not> list_ex is_line_break s \<Longrightarrow> \<not> list_ex is_line_break (shlex_quote s)"
proof -
  have "\<not> is_line_break squote" "\<not> is_line_break dquote"
    by code_simp+
  then show "\<not> list_ex is_line_break s \<Longrightarrow> ?thesis"
    by (auto simp: shlex_quote_def list_ex_iff single_quoted_def split: if_splits)
qed

lemma quote_ends: "shlex_quote s \<noteq> [] \<and> \<not> py_space (last (shlex_quote s))"
proof -
  have "\<not> py_space squote"
    by code_simp
  moreover have "shlex_safe c \<Longrightarrow> \<not> py_space c" for c
    by (auto simp: shlex_safe_def py_space_def Let_def is_ascii_letter_def is_digit_def between_def ord_def)
  ultimately show ?thesis
    by (auto simp: shlex_quote_def list_all_iff)
qed

lemma content_keys: "kv \<in> set (report_content a w t s r) \<Longrightarrow> \<not> list_ex is_line_break (fst kv)"
proof -
  have "list_all (\<lambda>k. \<not> list_ex is_line_break k) [''action'', ''workspace_id'', ''task_id'', ''summary'', ''reason'']"
    by code_simp
  then show "kv \<in> set (report_content a w t s r) \<Longrightarrow> ?thesis"
    by (auto simp: report_content_def report_field_def split: option.splits if_splits)
qed

lemma report_actions_lower: "x \<in> set REPORT_ACTIONS \<Longrightarrow> strip x = x \<and> map py_lower x = x"
  unfolding REPORT_ACTIONS_def by (simp, elim disjE; hypsubst; code_simp)

lemma report_text_no_break:
  assumes "one_line_content (report_content a w t s r)"
  shows "\<not> list_ex is_line_break (''[agent-report] '' @ join_with '' '' (map assignment_word (report_content a w t s r)))"
proof
  assume "list_ex is_line_break (''[agent-report] '' @ join_with '' '' (map assignment_word (report_content a w t s r)))"
  moreover have "\<not> list_ex is_line_break ''[agent-report] ''" "\<not> list_ex is_line_break '' ''" "\<not> is_line_break CHR ''=''"
    by code_simp+
  ultimately obtain c where "c \<in> set (join_with '' '' (map assignment_word (report_content a w t s r)))" "is_line_break c" "c \<noteq> CHR '' ''"
    by (auto simp: list_ex_iff)
  then obtain kv where kv: "kv \<in> set (report_content a w t s r)" "c \<in> set (assignment_word kv)"
    using set_join_with [of "'' ''" "map assignment_word (report_content a w t s r)"] by auto
  have "\<not> list_ex is_line_break (shlex_quote (snd kv))"
    using kv(1) assms by (intro quote_no_break) (auto simp: one_line_content_def list_all_iff)
  then show False
    using kv content_keys [OF kv(1)] \<open>is_line_break c\<close> \<open>\<not> is_line_break CHR ''=''\<close>
    by (auto simp: assignment_word_def list_ex_iff)
qed

lemma report_text_last: "ws \<noteq> [] \<Longrightarrow> join_with '' '' (map assignment_word ws) \<noteq> [] \<and> \<not> py_space (last (join_with '' '' (map assignment_word ws)))"
proof (induction ws)
  case (Cons kv ws)
  then show ?case
    using quote_ends [of "snd kv"] by (cases ws) (auto simp: assignment_word_def)
qed simp

lemma map_of_stripped: "map_of (map (\<lambda>(k, v). (k, strip v)) kvs) k = map_option strip (map_of kvs k)"
  by (induction kvs) auto

lemma content_decision: "map_of (report_content a w t s r) ''decision'' = None"
  by (cases rule: report_field_cases [of "''summary''" s]; cases rule: report_field_cases [of "''reason''" r])
     (simp_all add: report_content_def)

text \<open>
  a report of one line is recognised. When no field has a line break, splitting the text of a report
  gives that report and nothing to show, and it counts as an execution report unless it says \<open>accept\<close>.
\<close>
theorem one_line_report_recognised:
  assumes "build_agent_report action w t s r = Inr text" "one_line_content (report_content action w t s r)"
  shows "split_agent_report_lines text = ([text], [])
    \<and> (contains_execution_agent_report text \<longleftrightarrow> map py_lower action \<noteq> ''accept'')"
proof -
  let ?c = "report_content action w t s r"
  have action: "map py_lower action \<in> set REPORT_ACTIONS"
    using assms(1) by (auto simp: build_agent_report_def Let_def split: if_splits)
  then have written: "text = ''[agent-report] '' @ join_with '' '' (map assignment_word ?c)"
    using assms(1) by (simp add: agent_report_text)
  have "?c \<noteq> []"
    by (simp add: report_content_def)
  then have "strip text = text"
    using report_text_last [of ?c] by (intro strip_id) (auto simp: written py_space_def Let_def ord_def)
  moreover have "py_space CHR '' ''"
    by code_simp
  then have "strict_report_line (''[agent-report]'' @ CHR '' '' # x)" for x
    by (intro strict_report_line_start) simp
  then have "strict_report_line text"
    by (simp add: written)
  moreover have "splitlines text = [text]"
    using report_text_no_break [OF assms(2)] by (intro single_line) (simp_all add: written)
  moreover have kvs: "parse_key_values text = map (\<lambda>(k, v). (k, strip v)) ?c"
    using agent_report_roundtrip [of action w t s r] assms(1) by simp
  moreover have lower: "strip (map py_lower action) = map py_lower action" "map py_lower (map py_lower action) = map py_lower action"
    using report_actions_lower [OF action] by blast+
  then have "field (parse_key_values text) ''action'' = map py_lower action" "field (parse_key_values text) ''decision'' = []"
    unfolding kvs field_def map_of_stripped content_decision by (simp_all add: report_content_def)
  ultimately show ?thesis
    using action lower
    by (auto simp: split_agent_report_lines_def is_report_def Let_def contains_execution_agent_report_def
        is_execution_report_def REPORT_ACTIONS_def)
qed

theorem one_line_report_recognised_witness:
  "contains_execution_agent_report
     (''[agent-report] '' @ join_with '' '' (map assignment_word (report_content ''blocker'' ''w'' ''T-1'' None (Some ''it failed''))))"
proof -
  have "map py_lower ''blocker'' \<in> set REPORT_ACTIONS" "map py_lower ''blocker'' \<noteq> ''accept''"
    by code_simp+
  moreover have "one_line_content (report_content ''blocker'' ''w'' ''T-1'' None (Some ''it failed''))"
    by code_simp
  ultimately show ?thesis
    using one_line_report_recognised [of "''blocker''" "''w''" "''T-1''" None "Some ''it failed''"] by (simp add: agent_report_text)
qed

text \<open>A line break in the reason, as in the output of a failed command, and the report is not recognised.\<close>
lemma broken_reason_is_lost:
  "case build_agent_report ''blocker'' ''w'' ''T-1'' None (Some (''failed:'' @ [nl] @ ''no such task'')) of
     Inl _ \<Rightarrow> False
   | Inr text \<Rightarrow> \<not> contains_execution_agent_report text"
  by code_simp

section \<open>Only start texts below the workspace are opened\<close>

lemma allowed_below:
  assumes "is_allowed_bootstrap_path parts"
  shows "hd parts = ''docs'' \<and> 4 \<le> length parts \<and> last parts \<in> set BOOTSTRAP_NAMES"
proof -
  have "take n parts = ''docs'' # ds \<Longrightarrow> hd parts = ''docs''" for n ds
    by (cases parts; cases n) simp_all
  then show ?thesis
    using assms by (auto simp: is_allowed_bootstrap_path_def BOOTSTRAP_NAMES_def split: if_splits)
qed

text \<open>
  C38: reading a start text stays below the workspace. What is read is a file that the resolution of links
  puts below the resolved root, in its directory \<open>docs\<close>, under one of the two allowed names; a path that
  is absolute or leads elsewhere opens nothing, however the file system answers.
\<close>
theorem bootstrap_is_contained:
  assumes "read_bootstrap fs workspace_path rel = Inr (Some content)"
  shows "\<not> startswith rel ''/'' \<and> (\<exists>root below. hf_root fs workspace_path = Inr (Some root)
    \<and> hf_resolve fs root rel = Inr (Some (root @ below)) \<and> hf_open fs (root @ below) = Inr (Some content)
    \<and> hd below = ''docs'' \<and> 4 \<le> length below \<and> last below \<in> set BOOTSTRAP_NAMES)"
proof -
  from assms obtain root full where found: "\<not> startswith rel ''/''" "hf_root fs workspace_path = Inr (Some root)"
    "hf_resolve fs root rel = Inr (Some full)" "take (length root) full = root"
    "is_allowed_bootstrap_path (drop (length root) full)" "hf_open fs full = Inr (Some content)"
    by (auto simp: read_bootstrap_def result_simps split: if_splits option.splits)
  have "full = root @ drop (length root) full"
    using found(4) by (metis append_take_drop_id)
  then show ?thesis
    using found allowed_below [OF found(5)] by metis
qed

definition sample_fs :: handoff_fs where
  "sample_fs =
     \<lparr>hf_cli = (\<lambda>p. Inr None), hf_is_file = (\<lambda>p. False), hf_is_dir = (\<lambda>p. False), hf_root = (\<lambda>p. Inr (Some (drop 1 (split_on CHR ''/'' p)))),
      hf_resolve = (\<lambda>root rel. Inr (Some (root @ split_on CHR ''/'' rel))), hf_open = (\<lambda>p. Inr (Some ''start''))\<rparr>"

theorem bootstrap_is_contained_witness:
  "\<exists>root below. hf_root sample_fs ''/srv/w'' = Inr (Some root) \<and> hf_open sample_fs (root @ below) = Inr (Some ''start'')
     \<and> hd below = ''docs'' \<and> last below \<in> set BOOTSTRAP_NAMES"
proof -
  have "read_bootstrap sample_fs ''/srv/w'' ''docs/tasks/T-1/worker-bootstrap.md'' = Inr (Some ''start'')"
    by (simp add: sample_fs_def read_bootstrap_def is_allowed_bootstrap_path_def BOOTSTRAP_NAMES_def)
  from bootstrap_is_contained [OF this] show ?thesis
    by blast
qed

section \<open>Handoff lines of a response\<close>

lemma split_handoffs_lines:
  "h \<in> set (fst (split_handoffs fence ls))
   \<Longrightarrow> \<exists>l \<in> set ls. formal_handoff (strip l) \<and> h = take MAX_DISCORD_MSG_LEN (strip l)"
proof (induction fence ls rule: split_handoffs.induct)
  case (2 fence line rest)
  then show ?case
    by (simp add: Let_def split_beta split: if_splits) blast+
qed simp

text \<open>Every line is either given as a handoff or shown, in order.\<close>
lemma split_handoffs_conserves:
  "length (fst (split_handoffs fence ls)) + length (snd (split_handoffs fence ls)) = length ls
   \<and> subseq (snd (split_handoffs fence ls)) ls"
  by (induction fence ls rule: split_handoffs.induct) (auto simp: Let_def split_beta)

end
