(* ===== verification/BridgeConfig.thy ===== *)
theory BridgeConfig
  imports HandoffText "HOL-Library.Sublist"
begin

text \<open>
  What the Discord client uses of \<open>multinexus/models.py\<close>, and \<open>multinexus/message_chunks.py\<close>: texts are
  cut into messages of at most 1900 characters. A set of names is given as a list of its members.
\<close>

section \<open>Configuration\<close>

record known_agent =
  ka_id :: string
  ka_primary_name :: string
  ka_names :: "string list"
  ka_discord_user_id :: "int option"
  ka_kind :: string

record agent_config =
  cfg_id :: string
  cfg_adapter :: string
  cfg_display_name :: string
  cfg_aliases :: "string list"
  cfg_channels :: "int list"
  cfg_respond_to_bots :: bool
  cfg_context_recent_messages :: int
  cfg_context_budget_chars :: int
  cfg_context_max_message_chars :: int
  cfg_context_ttl_seconds :: int
  cfg_timeout :: int
  cfg_known_agents :: "known_agent list"
  cfg_work_dir :: "string option"
  cfg_model :: "string option"
  cfg_allowed_user_ids :: "int list"
  cfg_coordinator_bot_id :: "int option"
  cfg_coordinator_cli_path :: string
  cfg_coordinator_db_path :: string
  cfg_coordinator_workspace_path :: string
  cfg_agentd_mode :: bool

text \<open>\<open>config.display_name or config.id\<close>\<close>
definition shown_name :: "agent_config \<Rightarrow> string" where
  "shown_name cfg = (if cfg_display_name cfg = [] then cfg_id cfg else cfg_display_name cfg)"

text \<open>An agent of the examples, and the agents it knows.\<close>
definition sample_config :: agent_config where
  "sample_config =
     \<lparr>cfg_id = ''bob'', cfg_adapter = ''codex'', cfg_display_name = ''Bob'', cfg_aliases = [''b''], cfg_channels = [5],
      cfg_respond_to_bots = True, cfg_context_recent_messages = 2, cfg_context_budget_chars = 100,
      cfg_context_max_message_chars = 500, cfg_context_ttl_seconds = 60, cfg_timeout = 360,
      cfg_known_agents =
        [\<lparr>ka_id = ''bob'', ka_primary_name = ''Bob'', ka_names = [''Bob'', ''B''], ka_discord_user_id = Some 11, ka_kind = ''managed''\<rparr>,
         \<lparr>ka_id = ''eve'', ka_primary_name = ''Eve'', ka_names = [''Eve''], ka_discord_user_id = Some 12, ka_kind = ''managed''\<rparr>],
      cfg_work_dir = None, cfg_model = None, cfg_allowed_user_ids = [], cfg_coordinator_bot_id = Some 99,
      cfg_coordinator_cli_path = ''/opt/coord'', cfg_coordinator_db_path = ''/srv/db'',
      cfg_coordinator_workspace_path = ''/srv/w'', cfg_agentd_mode = False\<rparr>"

section \<open>Cutting a text into messages\<close>

definition MAX_CHUNK_LEN :: nat where "MAX_CHUNK_LEN = 1900"

text \<open>\<open>s.rfind(c, 0, n)\<close>\<close>
definition rfind_within :: "char \<Rightarrow> nat \<Rightarrow> string \<Rightarrow> int" where
  "rfind_within c n s = int (length (dropWhile (\<lambda>x. x \<noteq> c) (rev (take n s)))) - 1"

definition chunk_cut :: "string \<Rightarrow> int" where
  "chunk_cut s =
     (let line = rfind_within nl MAX_CHUNK_LEN s;
          word = (if line < int (MAX_CHUNK_LEN div 2) then rfind_within CHR '' '' MAX_CHUNK_LEN s else line)
      in if word < int (MAX_CHUNK_LEN div 2) then int MAX_CHUNK_LEN else word)"

definition chunk_gap :: "char \<Rightarrow> bool" where
  "chunk_gap c = (c = nl \<or> c = CHR '' '')"

lemma rfind_within_bounds: "- 1 \<le> rfind_within c n s \<and> rfind_within c n s < int n"
proof -
  have "length (dropWhile (\<lambda>x. x \<noteq> c) (rev (take n s))) \<le> n"
    using length_dropWhile_le [of "\<lambda>x. x \<noteq> c" "rev (take n s)"] by simp
  then show ?thesis
    by (simp add: rfind_within_def)
qed

lemma chunk_cut_bounds: "950 \<le> chunk_cut s \<and> chunk_cut s \<le> 1900"
  using rfind_within_bounds [of nl MAX_CHUNK_LEN s] rfind_within_bounds [of "CHR '' ''" MAX_CHUNK_LEN s]
  by (auto simp: chunk_cut_def Let_def MAX_CHUNK_LEN_def)

text \<open>The loop of \<open>chunk_message\<close>.\<close>
function chunk_loop :: "string \<Rightarrow> string list" where
  "chunk_loop s =
     (if s = [] then []
      else if length s \<le> MAX_CHUNK_LEN then [s]
      else take (nat (chunk_cut s)) s # chunk_loop (dropWhile chunk_gap (drop (nat (chunk_cut s)) s)))"
  by pat_completeness auto
termination
proof (relation "measure length", simp)
  fix s :: string
  assume "s \<noteq> []"
  have "length (dropWhile chunk_gap (drop (nat (chunk_cut s)) s)) \<le> length (drop (nat (chunk_cut s)) s)"
    by (rule length_dropWhile_le)
  also have "\<dots> < length s"
    using chunk_cut_bounds [of s] \<open>s \<noteq> []\<close> by simp
  finally show "(dropWhile chunk_gap (drop (nat (chunk_cut s)) s), s) \<in> measure length"
    by simp
qed

declare chunk_loop.simps [simp del]

definition chunk_message :: "string \<Rightarrow> string list" where
  "chunk_message s =
     (if length s \<le> MAX_CHUNK_LEN then (if strip s = [] then [] else [s]) else chunk_loop s)"

text \<open>The messages and what is left out after each of them.\<close>
fun weave :: "string list \<Rightarrow> string list \<Rightarrow> string" where
  "weave (c # cs) (g # gs) = c @ g @ weave cs gs"
| "weave cs gs = []"

lemma chunk_loop_exact:
  "list_all (\<lambda>c. c \<noteq> [] \<and> length c \<le> 1900) (chunk_loop s)
   \<and> (\<exists>gs. length gs = length (chunk_loop s) \<and> list_all (list_all chunk_gap) gs \<and> s = weave (chunk_loop s) gs)"
proof (induction s rule: chunk_loop.induct)
  case (1 s)
  define cut where "cut = nat (chunk_cut s)"
  define gap where "gap = takeWhile chunk_gap (drop cut s)"
  have cut: "950 \<le> cut" "cut \<le> 1900"
    using chunk_cut_bounds [of s] by (auto simp: cut_def)
  consider "s = []" | "s \<noteq> []" "length s \<le> MAX_CHUNK_LEN" | "\<not> length s \<le> MAX_CHUNK_LEN"
    by blast
  then show ?case
  proof cases
    case 2
    then have "chunk_loop s = [s]" "weave [s] [[]] = s"
      by (simp_all add: chunk_loop.simps [of s])
    then show ?thesis
      using 2 by (intro conjI exI [of _ "[[]]"]) (simp_all add: MAX_CHUNK_LEN_def)
  next
    case 3
    then have s: "s \<noteq> []"
      by auto
    let ?rest = "dropWhile chunk_gap (drop cut s)"
    have loop: "chunk_loop s = take cut s # chunk_loop ?rest"
      using 3 s by (simp add: chunk_loop.simps [of s] cut_def)
    obtain gs where gs: "length gs = length (chunk_loop ?rest)" "list_all (list_all chunk_gap) gs"
      "?rest = weave (chunk_loop ?rest) gs" and small: "list_all (\<lambda>c. c \<noteq> [] \<and> length c \<le> 1900) (chunk_loop ?rest)"
      using 1 s 3 unfolding cut_def by blast
    have "list_all chunk_gap gap"
      by (auto simp: gap_def list_all_iff dest: set_takeWhileD)
    moreover have "s = take cut s @ gap @ ?rest"
      by (simp add: gap_def)
    ultimately have "length (gap # gs) = length (chunk_loop s)" "list_all (list_all chunk_gap) (gap # gs)"
      "s = weave (chunk_loop s) (gap # gs)"
      using gs(1,2) by (simp_all only: loop weave.simps list.pred_inject length_Cons gs(3) [symmetric] simp_thms)
    moreover have "list_all (\<lambda>c. c \<noteq> [] \<and> length c \<le> 1900) (chunk_loop s)"
      using small cut s unfolding loop by simp
    ultimately show ?thesis
      by blast
  qed (simp add: chunk_loop.simps)
qed

text \<open>
  C37: cutting a text into messages loses nothing that can be seen. Every message has at least one and at
  most 1900 characters, the limit of the platform; put together in their order, with only spaces and line
  feeds between them, they are the text. Nothing is sent exactly for a short text without a visible
  character. The loop ends for every text, since each turn removes at least 950 characters.
\<close>
theorem chunk_message_exact:
  "list_all (\<lambda>c. c \<noteq> [] \<and> length c \<le> 1900) (chunk_message s)
   \<and> (if strip s = [] \<and> length s \<le> 1900 then chunk_message s = []
      else \<exists>gs. length gs = length (chunk_message s) \<and> list_all (list_all chunk_gap) gs
        \<and> s = weave (chunk_message s) gs)"
proof (cases "length s \<le> MAX_CHUNK_LEN")
  case True
  show ?thesis
  proof (cases "strip s = []")
    case blank: True
    then show ?thesis
      using True by (simp add: chunk_message_def MAX_CHUNK_LEN_def)
  next
    case visible: False
    have "length [[]] = length [s]" "list_all (list_all chunk_gap) [[]]" "s = weave [s] [[]]"
      by simp_all
    then have "\<exists>gs. length gs = length [s] \<and> list_all (list_all chunk_gap) gs \<and> s = weave [s] gs"
      by blast
    moreover have "s \<noteq> []"
      using visible by auto
    ultimately show ?thesis
      using visible True by (simp only: chunk_message_def MAX_CHUNK_LEN_def if_True if_False list_all_iff) (simp add: MAX_CHUNK_LEN_def)
  qed
next
  case False
  then show ?thesis
    using chunk_loop_exact [of s] by (simp add: chunk_message_def MAX_CHUNK_LEN_def)
qed

end
