(* ===== verification/MentionRouting.thy ===== *)
theory MentionRouting
  imports BridgeConfig
begin

text \<open>
  \<open>multinexus/routing/mentions.py\<close>: finding handoff lines, resolving names and ids to agents, rewriting
  names to mentions; and the mention map that \<open>DiscordBridge\<close> of \<open>multinexus/client.py\<close> builds as its
  clients come online. The maps of a router lead to positions in its list of agents, because an update of
  an id changes the agent that both maps share.
\<close>

section \<open>Handoff lines\<close>

text \<open>Groups 1 and 2 of the expression, or group 3.\<close>
datatype handoff_target = ById string string | ByName string

text \<open>A match of \<open>_HANDOFF_RE\<close> at the start of a line: its target and the text after it.\<close>
definition handoff_match_at :: "string \<Rightarrow> (handoff_target \<times> string) option" where
  "handoff_match_at s =
     (if \<not> startswith s ''[handoff]'' then None
      else
        let t = dropWhile py_space (drop 9 s) in
        (case mention_at t of
           Some (ds, r) \<Rightarrow>
             let u = dropWhile py_space r in
             Some (ById ds (takeWhile (\<lambda>c. c \<noteq> nl) u), dropWhile (\<lambda>c. c \<noteq> nl) u)
         | None \<Rightarrow>
             (case t of
                [] \<Rightarrow> None
              | c # n \<Rightarrow>
                  if c = CHR ''@'' \<and> n \<noteq> [] \<and> hd n \<noteq> nl
                    then Some (ByName (takeWhile (\<lambda>c. c \<noteq> nl) n), dropWhile (\<lambda>c. c \<noteq> nl) n)
                  else None)))"

text \<open>A text as characters outside of matches and matches with their text.\<close>
datatype segment = Plain char | Handoff handoff_target string

lemma mention_at_shorter: "mention_at s = Some (ds, r) \<Longrightarrow> length r < length s"
proof -
  assume "mention_at s = Some (ds, r)"
  then have "r = drop 1 (dropWhile is_digit (if startswith (drop 2 s) ''!'' then drop 1 (drop 2 s) else drop 2 s))" "s \<noteq> []"
    by (auto simp: mention_at_def Let_def split: if_splits)
  moreover have "length (dropWhile is_digit (drop k u)) - 1 \<le> length u" for k u
    using length_dropWhile_le [of is_digit "drop k u"] by simp
  ultimately show ?thesis
    by (cases s) (auto simp: less_Suc_eq_le)
qed

lemma handoff_match_shorter: "handoff_match_at s = Some (target, r) \<Longrightarrow> length r < length s"
proof -
  have tail: "length (dropWhile P u) \<le> length u" for P and u :: string
    by (rule length_dropWhile_le)
  assume match: "handoff_match_at s = Some (target, r)"
  let ?t = "dropWhile py_space (drop 9 s)"
  have "length r < length ?t \<or> length r \<le> length ?t \<and> s \<noteq> []"
  proof (cases "mention_at ?t")
    case None
    then obtain c n where t: "?t = c # n" "r = dropWhile (\<lambda>c. c \<noteq> nl) n"
      using match by (auto simp: handoff_match_at_def Let_def split: if_splits list.splits)
    then show ?thesis
      using tail [of "\<lambda>c. c \<noteq> nl" n] by (simp only: t length_Cons less_Suc_eq_le simp_thms)
  next
    case (Some m)
    obtain ds u where m: "m = (ds, u)"
      by (cases m)
    then have "r = dropWhile (\<lambda>c. c \<noteq> nl) (dropWhile py_space u)"
      using match Some by (auto simp: handoff_match_at_def Let_def split: if_splits)
    then have "length r \<le> length u"
      using tail le_trans by blast
    then show ?thesis
      using mention_at_shorter [of ?t ds u] Some m by simp
  qed
  moreover have "length ?t \<le> length s - 9" "startswith s ''[handoff]''"
    using tail [of py_space "drop 9 s"] match by (simp_all add: handoff_match_at_def split: if_splits)
  moreover from this(2) have "9 \<le> length s"
    by (auto simp: startswith_iff)
  ultimately show ?thesis
    by linarith
qed

function handoff_scan :: "bool \<Rightarrow> string \<Rightarrow> segment list" where
  "handoff_scan line_start [] = []"
| "handoff_scan line_start (c # s) =
     (case (if line_start then handoff_match_at (c # s) else None) of
        Some (target, r) \<Rightarrow> Handoff target (take (Suc (length s) - length r) (c # s)) # handoff_scan False r
      | None \<Rightarrow> Plain c # handoff_scan (c = nl) s)"
  by pat_completeness auto
termination
  by (relation "measure (length \<circ> snd)") (auto split: if_splits dest: handoff_match_shorter)

definition segments :: "string \<Rightarrow> segment list" where
  "segments s = handoff_scan True s"

text \<open>The targets of \<open>_HANDOFF_RE.finditer\<close>.\<close>
definition handoff_targets :: "string \<Rightarrow> handoff_target list" where
  "handoff_targets s = concat (map (\<lambda>g. case g of Plain c \<Rightarrow> [] | Handoff target t \<Rightarrow> [target]) (segments s))"

section \<open>The router\<close>

record router =
  rt_agents :: "known_agent list"
  rt_names :: "(string \<times> nat) list"
  rt_uids :: "(string \<times> nat) list"

definition add_names :: "(string \<times> nat) list \<Rightarrow> nat \<times> known_agent \<Rightarrow> (string \<times> nat) list" where
  "add_names m ia = (case ia of (i, a) \<Rightarrow> foldl (\<lambda>m n. alist_set m (map py_lower n) i) m (ka_id a # ka_names a))"

definition add_uid :: "(string \<times> nat) list \<Rightarrow> nat \<times> known_agent \<Rightarrow> (string \<times> nat) list" where
  "add_uid m ia = (case ia of (i, a) \<Rightarrow>
     (case ka_discord_user_id a of None \<Rightarrow> m | Some uid \<Rightarrow> alist_set m (show_int uid) i))"

definition numbered :: "'a list \<Rightarrow> (nat \<times> 'a) list" where
  "numbered xs = zip [0..<length xs] xs"

definition make_router :: "known_agent list \<Rightarrow> router" where
  "make_router agents =
     \<lparr>rt_agents = agents, rt_names = foldl add_names [] (numbered agents), rt_uids = foldl add_uid [] (numbered agents)\<rparr>"

text \<open>The agent whose name is the longest prefix, and what follows the name.\<close>
definition resolve_text_mention :: "router \<Rightarrow> string \<Rightarrow> known_agent option \<times> string" where
  "resolve_text_mention rt raw_text =
     (let candidates = sort_key (\<lambda>(n, _). - int (length n)) (rt_names rt); text_lower = map py_lower (strip raw_text) in
      case find (\<lambda>(n, _). startswith text_lower n) candidates of
        Some (n, i) \<Rightarrow> (Some (rt_agents rt ! i), strip (drop (length n) (strip raw_text)))
      | None \<Rightarrow> (None, raw_text))"

definition resolve_match :: "router \<Rightarrow> handoff_target \<Rightarrow> known_agent option \<times> string" where
  "resolve_match rt target =
     (case target of
        ById raw_id task \<Rightarrow>
          (case map_of (rt_uids rt) raw_id of
             Some i \<Rightarrow> (Some (rt_agents rt ! i), strip task)
           | None \<Rightarrow> (None, []))
      | ByName raw_name \<Rightarrow> resolve_text_mention rt raw_name)"

definition targets_agent :: "router \<Rightarrow> string \<Rightarrow> handoff_target \<Rightarrow> bool" where
  "targets_agent rt agent_id target =
     (case fst (resolve_match rt target) of Some a \<Rightarrow> ka_id a = agent_id | None \<Rightarrow> False)"

definition is_handoff_message :: "router \<Rightarrow> string \<Rightarrow> string \<Rightarrow> bool" where
  "is_handoff_message rt me content = list_ex (targets_agent rt me) (handoff_targets content)"

definition extract_handoff_target :: "router \<Rightarrow> string \<Rightarrow> string \<Rightarrow> (string \<times> string) option" where
  "extract_handoff_target rt me content =
     (case find (targets_agent rt me) (handoff_targets content) of
        None \<Rightarrow> None
      | Some target \<Rightarrow> Some (me, strip (snd (resolve_match rt target))))"

definition extract_handoffs_from_response :: "router \<Rightarrow> string \<Rightarrow> string \<Rightarrow> (string \<times> string) list" where
  "extract_handoffs_from_response rt text source_agent_id =
     concat (map (\<lambda>target.
        case resolve_match rt target of
          (Some a, task) \<Rightarrow> if ka_id a \<noteq> source_agent_id then [(ka_id a, strip task)] else []
        | (None, _) \<Rightarrow> []) (handoff_targets text))"

definition mention_text :: "known_agent option \<Rightarrow> string \<Rightarrow> string" where
  "mention_text agent raw_name =
     (case agent of
        None \<Rightarrow> ''@'' @ strip raw_name
      | Some a \<Rightarrow>
          (case ka_discord_user_id a of
             Some uid \<Rightarrow> if uid \<noteq> 0 then ''<@'' @ show_int uid @ ''>'' else ''@'' @ ka_primary_name a
           | None \<Rightarrow> ''@'' @ ka_primary_name a))"

definition replace_handoff_line :: "router \<Rightarrow> segment \<Rightarrow> string" where
  "replace_handoff_line rt g =
     (case g of
        Plain c \<Rightarrow> [c]
      | Handoff (ById raw_id task) whole \<Rightarrow> whole
      | Handoff (ByName raw_name) whole \<Rightarrow>
          (case resolve_text_mention rt raw_name of
             (agent, task) \<Rightarrow>
               ''[handoff] '' @ mention_text agent raw_name
               @ (if strip task = [] then [] else '' '' @ strip task)))"

definition resolve_handoff_mentions :: "router \<Rightarrow> string \<Rightarrow> string" where
  "resolve_handoff_mentions rt text = concat (map (replace_handoff_line rt) (segments text))"

definition update_agent :: "(string \<times> int) list \<Rightarrow> known_agent \<Rightarrow> known_agent" where
  "update_agent id_map a =
     (case map_of id_map (ka_id a) of None \<Rightarrow> a | Some uid \<Rightarrow> a\<lparr>ka_discord_user_id := Some uid\<rparr>)"

definition update_uid :: "(string \<times> int) list \<Rightarrow> (string \<times> nat) list \<Rightarrow> nat \<times> known_agent \<Rightarrow> (string \<times> nat) list" where
  "update_uid id_map m ia = (case ia of (i, a) \<Rightarrow>
     (case map_of id_map (ka_id a) of None \<Rightarrow> m | Some uid \<Rightarrow> alist_set m (show_int uid) i))"

definition update_discord_user_ids :: "(string \<times> int) list \<Rightarrow> router \<Rightarrow> router" where
  "update_discord_user_ids id_map rt =
     rt\<lparr>rt_agents := map (update_agent id_map) (rt_agents rt),
        rt_uids := foldl (update_uid id_map) (rt_uids rt) (numbered (rt_agents rt))\<rparr>"

section \<open>Bang commands\<close>

definition matches_bang_command :: "agent_config \<Rightarrow> string \<Rightarrow> bool" where
  "matches_bang_command cfg content =
     (let t = strip content in
      if \<not> startswith t ''!'' then False
      else
        (case split_ws (drop 1 t) of
           [] \<Rightarrow> False
         | w # _ \<Rightarrow> map py_lower w = map py_lower (cfg_id cfg) \<or> map py_lower w \<in> set (map (map py_lower) (cfg_aliases cfg))))"

definition strip_bang_prefix :: "string \<Rightarrow> string" where
  "strip_bang_prefix content = strip (dropWhile (\<lambda>c. \<not> py_space c) (strip content))"

section \<open>The mention map of the bridge\<close>

record bridge_client =
  bc_agent_id :: string
  bc_user_ids :: "(string \<times> int) list"
  bc_router :: router

definition register_peer_bot :: "string \<Rightarrow> int \<Rightarrow> bridge_client \<Rightarrow> bridge_client" where
  "register_peer_bot agent_id user_id c =
     (let ids = alist_set (bc_user_ids c) agent_id user_id in
      c\<lparr>bc_user_ids := ids, bc_router := update_discord_user_ids ids (bc_router c)\<rparr>)"

text \<open>\<open>on_ready\<close> of a client enters its own id, \<open>_on_client_ready\<close> the id of the client into its peers.\<close>
definition bridge_ready :: "bridge_client list \<Rightarrow> nat \<Rightarrow> int \<Rightarrow> bridge_client list" where
  "bridge_ready clients i user_id =
     (let agent_id = bc_agent_id (clients ! i);
          clients' = clients[i := register_peer_bot agent_id user_id (clients ! i)]
      in map (\<lambda>(k, c). if k = i then c else register_peer_bot agent_id user_id c) (numbered clients'))"

section \<open>Examples\<close>

definition sample_router :: router where
  "sample_router = make_router (cfg_known_agents sample_config)"

lemma routing_examples:
  "resolve_handoff_mentions sample_router ''[handoff] @Eve  look at this'' = ''[handoff] <@12> look at this''"
  "is_handoff_message sample_router ''bob'' (''hi'' @ [nl] @ ''[handoff] <@!11> do it'')"
  "\<not> is_handoff_message sample_router ''bob'' ''hi [handoff] <@11> do it''"
  "matches_bang_command sample_config ''!BOB do it''" "strip_bang_prefix ''!BOB do it'' = ''do it''"
  by code_simp+

text \<open>The line after a handoff without a task is taken for its task, even when it is a handoff itself.\<close>
lemma handoff_swallowed:
  "handoff_targets (''[handoff] <@11>'' @ [nl] @ ''[handoff] <@12> do it'') = [ById ''11'' ''[handoff] <@12> do it'']"
  by code_simp

text \<open>The text of a handoff to an unknown name is doubled.\<close>
lemma unknown_name_doubles:
  "resolve_handoff_mentions sample_router ''[handoff] @Zoe look'' = ''[handoff] @Zoe look Zoe look''"
  by code_simp

text \<open>A name that only begins with a known one is taken for it.\<close>
lemma name_without_end:
  "resolve_handoff_mentions sample_router ''[handoff] @bobcat look'' = ''[handoff] <@11> cat look''"
  by code_simp

end
