(* ===== verification/RoutingSafety.thy ===== *)
theory RoutingSafety
  imports MentionRouting
begin

text \<open>
  Properties of the mention routing: the scan of a text loses nothing, the longest known name is taken, a
  handoff that is written by name is sent and read as what it was, and the mention maps of the clients of
  one bridge agree once all of them are online.
\<close>

section \<open>Scanning\<close>

fun segment_text :: "segment \<Rightarrow> string" where
  "segment_text (Plain c) = [c]"
| "segment_text (Handoff target whole) = whole"

lemma mention_at_suffix: "mention_at s = Some (ds, r) \<Longrightarrow> suffix r s"
proof -
  assume "mention_at s = Some (ds, r)"
  then have "r = drop 1 (dropWhile is_digit (drop 2 s)) \<or> r = drop 1 (dropWhile is_digit (drop 3 s))"
    by (auto simp: mention_at_def Let_def eval_nat_numeral split: if_splits)
  moreover have "suffix (dropWhile is_digit u) u" for u
    by (rule suffix_dropWhile)
  ultimately show ?thesis
    by (metis suffix_drop suffix_order.trans)
qed

lemma handoff_match_suffix: "handoff_match_at s = Some (target, r) \<Longrightarrow> suffix r s"
proof -
  have tail: "suffix (dropWhile P u) u" for P and u :: string
    by (rule suffix_dropWhile)
  assume match: "handoff_match_at s = Some (target, r)"
  let ?t = "dropWhile py_space (drop 9 s)"
  have "suffix r ?t"
  proof (cases "mention_at ?t")
    case None
    then obtain c n where t: "?t = c # n" "r = dropWhile (\<lambda>c. c \<noteq> nl) n"
      using match by (auto simp: handoff_match_at_def Let_def split: if_splits list.splits)
    then show ?thesis
      using tail by (metis suffix_ConsI)
  next
    case (Some m)
    obtain ds u where m: "m = (ds, u)"
      by (cases m)
    then have "r = dropWhile (\<lambda>c. c \<noteq> nl) (dropWhile py_space u)"
      using match Some by (auto simp: handoff_match_at_def Let_def split: if_splits)
    then show ?thesis
      using mention_at_suffix [of ?t ds u] Some m tail by (metis suffix_order.trans)
  qed
  then show ?thesis
    by (metis tail suffix_drop suffix_order.trans)
qed

lemma scan_conserves: "concat (map segment_text (handoff_scan line_start s)) = s"
proof (induction line_start s rule: handoff_scan.induct)
  case (2 line_start c s)
  show ?case
  proof (cases "if line_start then handoff_match_at (c # s) else None")
    case None
    then show ?thesis
      using "2.IH"(1) [OF None] by (simp add: None)
  next
    case (Some m)
    obtain target r where m: "m = (target, r)"
      by (cases m)
    obtain u where "c # s = u @ r"
      using handoff_match_suffix Some m by (metis option.distinct(1) suffix_def)
    moreover from this have "take (Suc (length s) - length r) (c # s) = u"
      by (metis append_eq_conv_conj diff_add_inverse2 length_Cons length_append)
    moreover have "handoff_scan line_start (c # s) = Handoff target (take (Suc (length s) - length r) (c # s)) # handoff_scan False r"
      using Some m by simp
    ultimately show ?thesis
      using "2.IH"(2) [OF Some m [symmetric]] by (simp only: list.map segment_text.simps concat.simps)
  qed
qed simp

lemma segments_conserve: "concat (map segment_text (segments s)) = s"
  by (simp add: segments_def scan_conserves)

text \<open>A text without a handoff line is left as it is.\<close>
lemma unrouted_text_unchanged: "handoff_targets s = [] \<Longrightarrow> resolve_handoff_mentions rt s = s"
proof -
  assume none: "handoff_targets s = []"
  have "replace_handoff_line rt g = segment_text g" if "g \<in> set (segments s)" for g
    using none that by (cases g) (auto simp: handoff_targets_def replace_handoff_line_def)
  then have "map (replace_handoff_line rt) (segments s) = map segment_text (segments s)"
    by (intro map_cong) simp_all
  then show ?thesis
    unfolding resolve_handoff_mentions_def by (simp only: segments_conserve)
qed

section \<open>The longest name\<close>

lemma find_sorted:
  fixes f :: "'a \<Rightarrow> int"
  assumes "sorted (map f xs)" "find P xs = Some x"
  shows "x \<in> set xs \<and> P x \<and> (\<forall>y \<in> set xs. P y \<longrightarrow> f x \<le> f y)"
  using assms by (induction xs) (auto split: if_splits)

text \<open>
  resolving a name takes the longest known one. When an agent is found, one of its names is a prefix of
  the text in any case, no known name that is a prefix is longer, and the task is what follows that name;
  when none is found, no known name is a prefix.
\<close>
theorem longest_name_wins:
  "case resolve_text_mention rt raw of
     (Some a, task) \<Rightarrow> list_ex (\<lambda>(n, i). startswith (map py_lower (strip raw)) n \<and> a = rt_agents rt ! i
         \<and> task = strip (drop (length n) (strip raw))
         \<and> list_all (\<lambda>(m, j). startswith (map py_lower (strip raw)) m \<longrightarrow> length m \<le> length n) (rt_names rt)) (rt_names rt)
   | (None, task) \<Rightarrow> task = raw \<and> list_all (\<lambda>(n, i). \<not> startswith (map py_lower (strip raw)) n) (rt_names rt)"
proof -
  let ?P = "\<lambda>(n, i). startswith (map py_lower (strip raw)) n"
  let ?c = "sort_key (\<lambda>(n, _). - int (length n)) (rt_names rt)"
  show ?thesis
  proof (cases "find ?P ?c")
    case None
    then have "\<forall>x \<in> set (rt_names rt). \<not> ?P x"
      by (auto simp: find_None_iff)
    then show ?thesis
      using None by (auto simp: resolve_text_mention_def Let_def list_all_iff)
  next
    case (Some x)
    obtain n i where x: "x = (n, i)"
      by (cases x)
    have "(n, i) \<in> set (rt_names rt) \<and> ?P (n, i) \<and> (\<forall>(m, j) \<in> set (rt_names rt). ?P (m, j) \<longrightarrow> length m \<le> length n)"
      using find_sorted [OF sorted_sort_key, of ?P "\<lambda>(n, _). - int (length n)" "rt_names rt"] Some x by fastforce
    then show ?thesis
      using Some by (auto simp: resolve_text_mention_def Let_def x list_ex_iff list_all_iff intro!: bexI [of _ "(n, i)"])
  qed
qed

section \<open>A handoff by name arrives\<close>

lemma takeWhile_no_break: "nl \<notin> set s \<Longrightarrow> takeWhile (\<lambda>c. c \<noteq> nl) s = s \<and> dropWhile (\<lambda>c. c \<noteq> nl) s = []"
  by (induction s) auto

lemma scan_single:
  "s \<noteq> [] \<Longrightarrow> handoff_match_at s = Some (target, []) \<Longrightarrow> segments s = [Handoff target s]"
  by (cases s) (simp_all add: segments_def)

lemma named_line:
  assumes "nl \<notin> set raw" "raw \<noteq> []"
  shows "segments (''[handoff] @'' @ raw) = [Handoff (ByName raw) (''[handoff] @'' @ raw)]"
proof -
  have "\<not> py_space CHR ''@''" "py_space CHR '' ''"
    by code_simp+
  then have "handoff_match_at (''[handoff] @'' @ raw) = Some (ByName raw, [])"
    using assms takeWhile_no_break [OF assms(1)]
    by (cases raw) (auto simp: handoff_match_at_def startswith_def mention_at_def)
  then show ?thesis
    by (intro scan_single) simp_all
qed

lemma digits_of_uid: "0 \<le> uid \<Longrightarrow> show_int uid = show_nat (nat uid)"
  by (simp add: show_int_def)

lemma mention_at_uid:
  assumes "0 \<le> uid"
  shows "mention_at (''<@'' @ show_int uid @ ''>'' @ s) = Some (show_int uid, s)"
proof -
  have "\<not> is_digit CHR ''>''" "\<not> is_digit CHR ''!''"
    by code_simp+
  moreover have digits: "\<forall>c \<in> set (show_int uid). is_digit c" "show_int uid \<noteq> []"
    using show_nat_digits assms by (auto simp: digits_of_uid)
  moreover from calculation have "\<not> startswith (show_int uid @ ''>'' @ s) ''!''"
    by (cases "show_int uid") (auto simp: startswith_def)
  ultimately show ?thesis
    by (simp add: mention_at_def startswith_def takeWhile_append2 dropWhile_append2)
qed

definition handoff_line :: "int \<Rightarrow> string \<Rightarrow> string" where
  "handoff_line uid task = ''[handoff] <@'' @ show_int uid @ ''>'' @ (if task = [] then [] else '' '' @ task)"

lemma strip_start: "strip s = s \<Longrightarrow> dropWhile py_space s = s"
  by (metis dropWhile_eq_self_iff strip_eq_self_iff)

lemma handoff_line_facts:
  assumes "0 \<le> uid" "nl \<notin> set task" "strip task = task"
  shows "segments (handoff_line uid task) = [Handoff (ById (show_int uid) task) (handoff_line uid task)]"
    and "formal_handoff (handoff_line uid task)" "strip (handoff_line uid task) = handoff_line uid task"
    and "nl \<notin> set (handoff_line uid task)"
proof -
  have chars: "\<not> py_space CHR ''<''" "py_space CHR '' ''" "\<not> py_space CHR ''>''" "\<not> py_space CHR ''[''" "\<not> is_digit nl"
    by code_simp+
  let ?r = "if task = [] then [] else '' '' @ task"
  have line: "handoff_line uid task = ''[handoff] '' @ ''<@'' @ show_int uid @ ''>'' @ ?r"
    by (simp add: handoff_line_def)
  have skip: "dropWhile py_space ?r = task"
    using strip_start [OF assms(3)] chars by simp
  have "dropWhile py_space (drop 9 (handoff_line uid task)) = ''<@'' @ show_int uid @ ''>'' @ ?r"
    using chars by (simp add: line)
  then show "segments (handoff_line uid task) = [Handoff (ById (show_int uid) task) (handoff_line uid task)]"
    using mention_at_uid [OF assms(1), of ?r] skip takeWhile_no_break [OF assms(2)]
    by (intro scan_single) (simp_all add: handoff_match_at_def startswith_def line del: append.simps(2))
  show "formal_handoff (handoff_line uid task)"
    using mention_at_uid [OF assms(1), of ?r] chars by (simp add: formal_handoff_def line startswith_def)
  show "strip (handoff_line uid task) = handoff_line uid task"
    using assms(3) chars by (auto simp: strip_eq_self_iff line)
  show "nl \<notin> set (handoff_line uid task)"
    using assms(1,2) chars show_nat_digits by (auto simp: line digits_of_uid)
qed

lemma strip_no_break: "c \<notin> set s \<Longrightarrow> c \<notin> set (strip s)"
  by (auto simp: strip_def rstrip_def lstrip_def dest!: set_dropWhileD)



section \<open>The mention maps agree\<close>

lemma bridge_ready_all:
  assumes "i < length cs"
  shows "bridge_ready cs i uid = map (register_peer_bot (bc_agent_id (cs ! i)) uid) cs"
proof (rule nth_equalityI)
  fix k
  assume "k < length (bridge_ready cs i uid)"
  then have "k < length cs"
    by (simp add: bridge_ready_def Let_def numbered_def)
  then show "bridge_ready cs i uid ! k = map (register_peer_bot (bc_agent_id (cs ! i)) uid) cs ! k"
    using assms by (simp add: bridge_ready_def Let_def numbered_def)
qed (simp add: bridge_ready_def Let_def numbered_def)

lemma register_simps [simp]:
  "bc_agent_id (register_peer_bot j uid c) = bc_agent_id c"
  "map_of (bc_user_ids (register_peer_bot j uid c)) = (map_of (bc_user_ids c))(j \<mapsto> uid)"
  by (simp_all add: register_peer_bot_def Let_def)

lemma update_agent_id [simp]: "ka_id (update_agent m a) = ka_id a"
  by (simp add: update_agent_def split: option.split)

lemma update_uid_latest:
  assumes "\<exists>(i, a) \<in> set xs. map_option show_int (map_of m (ka_id a)) = Some u"
  shows "\<exists>(i, a) \<in> set xs. map_option show_int (map_of m (ka_id a)) = Some u \<and> map_of (foldl (update_uid m) t xs) u = Some i"
  using assms
proof (induction xs rule: rev_induct)
  case (snoc x xs)
  obtain i a where x: "x = (i, a)"
    by (cases x)
  show ?case
  proof (cases "map_option show_int (map_of m (ka_id a)) = Some u")
    case True
    then show ?thesis
      by (auto simp: x update_uid_def)
  next
    case False
    then have "map_of (foldl (update_uid m) t (xs @ [x])) u = map_of (foldl (update_uid m) t xs) u"
      by (auto simp: x update_uid_def split: option.split)
    moreover have "\<exists>(i, a) \<in> set xs. map_option show_int (map_of m (ka_id a)) = Some u"
      using snoc.prems False by (auto simp: x)
    ultimately show ?thesis
      using snoc.IH by (auto simp: x)
  qed
qed simp

text \<open>What a client knows of the clients whose positions are in \<open>d\<close>.\<close>
definition knows :: "string list \<Rightarrow> (nat \<Rightarrow> int) \<Rightarrow> nat set \<Rightarrow> bridge_client \<Rightarrow> bool" where
  "knows ids uid d c =
     ((\<forall>j \<in> d. map_of (bc_user_ids c) (ids ! j) = Some (uid j)
         \<and> (\<forall>a \<in> set (rt_agents (bc_router c)). ka_id a = ids ! j \<longrightarrow> ka_discord_user_id a = Some (uid j))
         \<and> (ids ! j \<in> ka_id ` set (rt_agents (bc_router c)) \<longrightarrow>
             (\<exists>i < length (rt_agents (bc_router c)). map_of (rt_uids (bc_router c)) (show_int (uid j)) = Some i
               \<and> ka_id (rt_agents (bc_router c) ! i) = ids ! j)))
      \<and> (\<forall>k v. map_of (bc_user_ids c) k = Some v \<longrightarrow> (\<exists>j \<in> d. k = ids ! j \<and> v = uid j)))"

lemma knows_register:
  assumes "knows ids uid d c" "distinct ids" "inj_on uid {..<length ids}" "insert i d \<subseteq> {..<length ids}"
  shows "knows ids uid (insert i d) (register_peer_bot (ids ! i) (uid i) c)"
proof -
  define m where "m = bc_user_ids (register_peer_bot (ids ! i) (uid i) c)"
  define agents where "agents = rt_agents (bc_router c)"
  have m: "map_of m = (map_of (bc_user_ids c))(ids ! i \<mapsto> uid i)"
    by (simp add: m_def)
  have rt: "bc_router (register_peer_bot (ids ! i) (uid i) c) = update_discord_user_ids m (bc_router c)"
    by (simp add: m_def register_peer_bot_def Let_def)
  have known: "map_of m (ids ! j) = Some (uid j)" if "j \<in> insert i d" for j
    using that assms by (auto simp: m knows_def nth_eq_iff_index_eq)
  have only: "\<exists>j \<in> insert i d. k = ids ! j \<and> v = uid j" if "map_of m k = Some v" for k v
    using that assms(1) by (auto simp: m knows_def split: if_splits)
  have found: "\<exists>k < length agents. map_of (foldl (update_uid m) (rt_uids (bc_router c)) (numbered agents)) (show_int (uid j)) = Some k
      \<and> ka_id (agents ! k) = ids ! j"
    if j: "j \<in> insert i d" and a: "a \<in> set agents" "ka_id a = ids ! j" for j a
  proof -
    obtain p where "p < length agents" "agents ! p = a"
      using a(1) by (metis in_set_conv_nth)
    then have "(p, a) \<in> set (numbered agents)"
      by (auto simp: numbered_def set_zip intro!: exI [of _ p])
    then obtain k b where kb: "(k, b) \<in> set (numbered agents)" "map_option show_int (map_of m (ka_id b)) = Some (show_int (uid j))"
      "map_of (foldl (update_uid m) (rt_uids (bc_router c)) (numbered agents)) (show_int (uid j)) = Some k"
      using update_uid_latest [of "numbered agents" m "show_int (uid j)" "rt_uids (bc_router c)"] known [OF j] a(2) by fastforce
    then have b: "k < length agents" "b = agents ! k" "map_of m (ka_id b) = Some (uid j)"
      by (auto simp: numbered_def set_zip dest: show_int_inj)
    then obtain l where "l \<in> insert i d" "ka_id b = ids ! l" "uid j = uid l"
      using only by blast
    then have "ka_id b = ids ! j"
      using assms(3,4) j by (metis inj_onD subsetD)
    then show ?thesis
      using kb(3) b by blast
  qed
  have after: "rt_agents (update_discord_user_ids m (bc_router c)) = map (update_agent m) agents"
    "rt_uids (update_discord_user_ids m (bc_router c)) = foldl (update_uid m) (rt_uids (bc_router c)) (numbered agents)"
    by (simp_all add: update_discord_user_ids_def agents_def)
  have id: "ka_discord_user_id a = Some (uid j)"
    if "j \<in> insert i d" "a \<in> set (map (update_agent m) agents)" "ka_id a = ids ! j" for j a
    using that(2,3) known [OF that(1)] by (auto simp: update_agent_def split: option.splits)
  have uid: "\<exists>k < length (map (update_agent m) agents).
      map_of (foldl (update_uid m) (rt_uids (bc_router c)) (numbered agents)) (show_int (uid j)) = Some k
      \<and> ka_id (map (update_agent m) agents ! k) = ids ! j"
    if j: "j \<in> insert i d" "ids ! j \<in> ka_id ` set (map (update_agent m) agents)" for j
  proof -
    obtain a where "a \<in> set agents" "ka_id a = ids ! j"
      using j(2) by auto
    from found [OF j(1) this] show ?thesis
      by auto
  qed
  show ?thesis
    unfolding knows_def rt m_def [symmetric] after using known only id uid by blast
qed

definition bridge_run :: "(nat \<Rightarrow> int) \<Rightarrow> bridge_client list \<Rightarrow> nat list \<Rightarrow> bridge_client list" where
  "bridge_run uid clients events = foldl (\<lambda>cs i. bridge_ready cs i (uid i)) clients events"

lemma bridge_run_knows:
  assumes "map bc_agent_id clients = ids" "list_all (\<lambda>c. bc_user_ids c = []) clients"
    "distinct ids" "inj_on uid {..<length ids}" "set events \<subseteq> {..<length ids}"
  shows "map bc_agent_id (bridge_run uid clients events) = ids
    \<and> list_all (knows ids uid (set events)) (bridge_run uid clients events)"
  using assms(5)
proof (induction events rule: rev_induct)
  case Nil
  show ?case
    using assms(1,2) by (auto simp: bridge_run_def knows_def list_all_iff)
next
  case (snoc i events)
  let ?cs = "bridge_run uid clients events"
  have IH: "map bc_agent_id ?cs = ids" "list_all (knows ids uid (set events)) ?cs"
    using snoc by simp_all
  then have i: "i < length ?cs" "bc_agent_id (?cs ! i) = ids ! i"
    using snoc.prems by auto
  have "bridge_run uid clients (events @ [i]) = map (register_peer_bot (ids ! i) (uid i)) ?cs"
    using bridge_ready_all [OF i(1)] i(2) by (simp add: bridge_run_def)
  moreover have "list_all (knows ids uid (insert i (set events))) (map (register_peer_bot (ids ! i) (uid i)) ?cs)"
    using IH(2) knows_register [OF _ assms(3,4)] snoc.prems by (auto simp: list_all_iff)
  ultimately show ?case
    using IH(1) by (simp add: comp_def)
qed

text \<open>
  C21: the clients of one bridge agree on who is who. Let the clients come online in any order, some of
  them several times, with different user ids. Once each has been online, every client takes a mention of
  any of these user ids for the agent that has it, if it knows an agent of that id, and an agent it knows
  has the user id of that client, so a name is rewritten to the right mention.
\<close>
theorem mention_maps_agree:
  assumes "map bc_agent_id clients = ids" "list_all (\<lambda>c. bc_user_ids c = []) clients" "distinct ids"
    and "inj_on uid {..<length ids}" "set events = {..<length ids}" "c \<in> set (bridge_run uid clients events)"
    and "j < length ids" "a \<in> set (rt_agents (bc_router c))" "ka_id a = ids ! j"
  shows "targets_agent (bc_router c) (ids ! j) (ById (show_int (uid j)) task)
    \<and> ka_discord_user_id a = Some (uid j)"
proof -
  have "knows ids uid {..<length ids} c"
    using bridge_run_knows [OF assms(1-4), of events] assms(5,6) by (simp add: list_all_iff)
  then show ?thesis
    using assms(7-9) by (force simp: knows_def targets_agent_def resolve_match_def)
qed

definition sample_clients :: "bridge_client list" where
  "sample_clients = map (\<lambda>i. \<lparr>bc_agent_id = i, bc_user_ids = [], bc_router = sample_router\<rparr>) [''bob'', ''eve'']"

theorem mention_maps_agree_witness:
  "targets_agent (bc_router (bridge_run (\<lambda>i. 100 + int i) sample_clients [1, 0, 1] ! 0)) ''eve'' (ById ''101'' ''look'')"
proof -
  let ?run = "bridge_run (\<lambda>i. 100 + int i) sample_clients [1, 0, 1]"
  have "length ?run = 2" "length (rt_agents (bc_router (?run ! 0))) = 2" "ka_id (rt_agents (bc_router (?run ! 0)) ! 1) = ''eve''"
    "show_int 101 = ''101''" "map bc_agent_id sample_clients = [''bob'', ''eve'']" "list_all (\<lambda>c. bc_user_ids c = []) sample_clients"
    by code_simp+
  moreover have "set [1, 0, 1::nat] = {..<length [''bob'', ''eve'']}" "inj_on (\<lambda>i. 100 + int i) {..<Suc (Suc 0)}"
    by (auto simp: inj_on_def)
  ultimately show ?thesis
    using mention_maps_agree [of sample_clients "[''bob'', ''eve'']" "\<lambda>i. 100 + int i" "[1, 0, 1]" "?run ! 0" 1
        "rt_agents (bc_router (?run ! 0)) ! 1" "''look''"] by simp
qed

end
