(* ===== verification/DiscordBridge.thy ===== *)
theory DiscordBridge
  imports ContextStore MentionRouting AgentdWorker
begin

text \<open>
  \<open>multinexus/client.py\<close>: a Discord client of one agent. A coroutine is a function on the state of the
  client, which is its table of messages, its table of sessions (none in agentd mode) and the trace of
  what it has done. The answers of Discord, of the coordinate command, of the adapter, of the disk and of
  the clock are functions of that trace, so they are arbitrary and may change from call to call. Emojis
  and Chinese sentences are parameters.
\<close>

section \<open>State, environment and effects\<close>

text \<open>\<open>discord.HTTPException\<close>, or another exception with its class and its text.\<close>
datatype bridge_exc = HttpException string | OtherException string string

datatype bridge_stop = BridgeRaised bridge_exc | BridgeHangs

datatype adapter_call = AdapterCall string "string option" | AdapterResume string string "string option"

text \<open>\<open>Send\<close> says whether mentions are suppressed; \<open>Tick\<close> is a reading of the clock.\<close>
datatype bridge_event =
    Send string bool
  | Edit string
  | RunAccept "string list"
  | ReadStart string string
  | ResolvePath string string
  | Adapter adapter_call
  | HealthCheck
  | Cli "string list"
  | Respond string
  | Slept
  | Tick

type_synonym bridge_trace = "bridge_event list"

record bridge_state =
  bs_context :: context_store
  bs_sessions :: "session_store option"
  bs_trace :: bridge_trace

record bridge_text =
  bt_cycle :: string
  bt_note :: string
  bt_check :: string
  bt_handoff :: prompt_text
  bt_review :: prompt_text
  bt_denied :: string
  bt_denied_explicit :: string
  bt_channel_denied :: string
  bt_status :: "agent_config \<Rightarrow> session_row option \<Rightarrow> scope_description \<Rightarrow> nat \<Rightarrow> string"
  bt_no_session :: "scope_description \<Rightarrow> string"
  bt_reset :: "string \<Rightarrow> scope_description \<Rightarrow> string"
  bt_agents :: "known_agent list \<Rightarrow> string"
  bt_health :: "agent_config \<Rightarrow> dict \<Rightarrow> string"

record bridge_env =
  be_text :: bridge_text
  be_now_ms :: "bridge_trace \<Rightarrow> int"
  be_send :: "bridge_trace \<Rightarrow> string \<Rightarrow> bridge_exc + unit"
  be_edit :: "bridge_trace \<Rightarrow> string \<Rightarrow> bridge_exc + unit"
  be_beats :: "bridge_trace \<Rightarrow> (nat \<times> string) list"
  be_accept :: "bridge_trace \<Rightarrow> string list \<Rightarrow> (string \<times> string) list \<Rightarrow> accept_end"
  be_fs :: "bridge_trace \<Rightarrow> handoff_fs"
  be_environ :: "(string \<times> string) list"
  be_exists :: "bridge_trace \<Rightarrow> string \<Rightarrow> bool"
  be_query :: "bridge_trace \<Rightarrow> string \<Rightarrow> string \<Rightarrow> path_row"
  be_adapter :: "bridge_trace \<Rightarrow> adapter_call \<Rightarrow> bridge_exc + adapter_result"
  be_health :: "bridge_trace \<Rightarrow> bridge_exc + dict"
  be_cli :: "bridge_trace \<Rightarrow> string list \<Rightarrow> cli_outcome"
  be_loads :: "string \<Rightarrow> string + json"
  be_fuel :: nat

text \<open>The client: its user, its configuration, its router and its coordinate client.\<close>
record bridge_self =
  me_user_id :: int
  me_config :: agent_config
  me_router :: router
  me_client :: coordinate_client

record discord_message =
  dm_id :: int
  dm_author_id :: int
  dm_author_name :: string
  dm_author_bot :: bool
  dm_content :: string
  dm_mentions :: "int list"
  dm_channel_id :: int
  dm_parent_id :: "int option"
  dm_created_at_ms :: int

type_synonym 'a bridge = "bridge_state \<Rightarrow> (bridge_stop + 'a) \<times> bridge_state"

definition bret :: "'a \<Rightarrow> 'a bridge" where "bret a = (\<lambda>s. (Inr a, s))"

definition braise :: "bridge_exc \<Rightarrow> 'a bridge" where "braise e = (\<lambda>s. (Inl (BridgeRaised e), s))"

definition bbind :: "'a bridge \<Rightarrow> ('a \<Rightarrow> 'b bridge) \<Rightarrow> 'b bridge" where
  "bbind m f = (\<lambda>s. case m s of (Inl e, s') \<Rightarrow> (Inl e, s') | (Inr a, s') \<Rightarrow> f a s')"

definition bseq :: "unit bridge \<Rightarrow> 'b bridge \<Rightarrow> 'b bridge" where "bseq m n = bbind m (\<lambda>_. n)"

definition bcatch :: "'a bridge \<Rightarrow> (bridge_exc \<Rightarrow> 'a bridge) \<Rightarrow> 'a bridge" where
  "bcatch m h = (\<lambda>s. case m s of (Inl (BridgeRaised e), s') \<Rightarrow> h e s' | r \<Rightarrow> r)"

text \<open>\<open>except discord.HTTPException\<close>\<close>
definition bcatch_http :: "'a bridge \<Rightarrow> 'a bridge \<Rightarrow> 'a bridge" where
  "bcatch_http m h = bcatch m (\<lambda>e. case e of HttpException t \<Rightarrow> h | OtherException c t \<Rightarrow> braise e)"

definition blift :: "string + 'a \<Rightarrow> 'a bridge" where
  "blift r = (case r of Inl c \<Rightarrow> braise (OtherException c []) | Inr a \<Rightarrow> bret a)"

definition bstep :: "bridge_event \<Rightarrow> (bridge_trace \<Rightarrow> bridge_exc + 'a) \<Rightarrow> 'a bridge" where
  "bstep event answer =
     (\<lambda>s. (case answer (bs_trace s) of Inl e \<Rightarrow> Inl (BridgeRaised e) | Inr a \<Rightarrow> Inr a,
           s\<lparr>bs_trace := bs_trace s @ [event]\<rparr>))"

definition bnow :: "bridge_env \<Rightarrow> int bridge" where
  "bnow env = bstep Tick (\<lambda>tr. Inr (be_now_ms env tr))"

text \<open>An operation on the table of sessions, which a client in agentd mode does not have.\<close>
definition bsessions :: "(session_store \<Rightarrow> session_exc + session_store \<times> 'a) \<Rightarrow> 'a bridge" where
  "bsessions f =
     (\<lambda>s. case bs_sessions s of
        None \<Rightarrow> braise (OtherException ''AttributeError'' []) s
      | Some t \<Rightarrow>
          (case f t of
             Inl (SessionValueError m) \<Rightarrow> braise (OtherException ''ValueError'' m) s
           | Inr (t', a) \<Rightarrow> (Inr a, s\<lparr>bs_sessions := Some t'\<rparr>)))"

definition exc_text :: "bridge_exc \<Rightarrow> string" where
  "exc_text e = (case e of HttpException t \<Rightarrow> t | OtherException c t \<Rightarrow> t)"

section \<open>Sending\<close>

definition bsend :: "bridge_env \<Rightarrow> string \<Rightarrow> bool \<Rightarrow> unit bridge" where
  "bsend env text quiet = bstep (Send text quiet) (\<lambda>tr. be_send env tr text)"

definition bedit :: "bridge_env \<Rightarrow> string \<Rightarrow> unit bridge" where
  "bedit env text = bstep (Edit text) (\<lambda>tr. be_edit env tr text)"

definition quietly :: "unit bridge \<Rightarrow> unit bridge" where
  "quietly m = bcatch_http m (bret ())"

definition sends_ok :: "unit bridge \<Rightarrow> bool bridge" where
  "sends_ok m = bcatch_http (bseq m (bret True)) (bret False)"

fun send_until_failure :: "bridge_env \<Rightarrow> bool \<Rightarrow> string list \<Rightarrow> unit bridge" where
  "send_until_failure env quiet [] = bret ()"
| "send_until_failure env quiet (c # cs) =
     bbind (sends_ok (bsend env c quiet)) (\<lambda>ok. if ok then send_until_failure env quiet cs else bret ())"

fun send_each :: "bridge_env \<Rightarrow> bool \<Rightarrow> string list \<Rightarrow> unit bridge" where
  "send_each env quiet [] = bret ()"
| "send_each env quiet (c # cs) = bseq (quietly (bsend env c quiet)) (send_each env quiet cs)"

definition chunks_of :: "string \<Rightarrow> string list" where
  "chunks_of text = (if text = [] then [] else chunk_message text)"

text \<open>The chunks of an answer, the first one in place of the placeholder.\<close>
definition show_chunks :: "bridge_env \<Rightarrow> bool \<Rightarrow> string \<Rightarrow> string list \<Rightarrow> unit bridge" where
  "show_chunks env placeholder finished pieces =
     (case pieces of
        [] \<Rightarrow> if placeholder then quietly (bedit env finished) else bret ()
      | c # cs \<Rightarrow>
          bseq (if placeholder then bcatch_http (bedit env c) (bsend env c False) else bsend env c False)
            (send_until_failure env False cs))"

definition send_text_chunks ::
    "bridge_env \<Rightarrow> bool \<Rightarrow> string \<Rightarrow> string list \<Rightarrow> string list \<Rightarrow> unit bridge" where
  "send_text_chunks env placeholder display_text handoff_lines report_lines =
     (let pieces = chunks_of display_text in
      if pieces = [] \<and> handoff_lines = [] \<and> report_lines = []
        then (if placeholder then quietly (bedit env ''(no response)'') else bret ())
      else
        bseq (show_chunks env placeholder (bt_check (be_text env) @ '' done'') pieces)
          (bseq (send_each env False handoff_lines) (send_each env True report_lines)))"

definition CLIENT_ERROR_PREFIXES :: "string list" where
  "CLIENT_ERROR_PREFIXES =
     [''Agent error:'', ''OpenCode CLI failed'', ''OpenCode timed out'', ''Codex CLI failed'', ''Codex timed out'',
      ''Codex stopped responding'', ''Codex resume failed'', ''Hermes CLI failed'', ''Hermes timed out'',
      ''Claude CLI failed'', ''Claude error:'', ''Claude timeout'']"

definition is_error_response :: "string \<Rightarrow> bool" where
  "is_error_response text = list_ex (startswith text) CLIENT_ERROR_PREFIXES"

section \<open>Messages and their texts\<close>

definition resolve_channel_id :: "discord_message \<Rightarrow> int" where
  "resolve_channel_id m = (case dm_parent_id m of Some p \<Rightarrow> p | None \<Rightarrow> dm_channel_id m)"

definition is_thread :: "discord_message \<Rightarrow> bool" where
  "is_thread m = (dm_parent_id m \<noteq> None)"

definition is_addressed_to_me :: "bridge_self \<Rightarrow> discord_message \<Rightarrow> bool" where
  "is_addressed_to_me cl m =
     (me_user_id cl \<in> set (dm_mentions m) \<or> matches_bang_command (me_config cl) (dm_content m))"

text \<open>\<open>s.replace(w, "")\<close> for a word that is not empty.\<close>
function remove_all :: "string \<Rightarrow> string \<Rightarrow> string" where
  "remove_all w [] = []"
| "remove_all w (c # s) =
     (if w \<noteq> [] \<and> startswith (c # s) w then remove_all w (drop (length w) (c # s)) else c # remove_all w s)"
  by pat_completeness auto
termination
proof (relation "measure (length \<circ> snd)")
  fix w s :: string and c
  assume "w \<noteq> [] \<and> startswith (c # s) w"
  then have "0 < length w"
    by simp
  then have "length (drop (length w) (c # s)) < length (c # s)"
    by simp
  then show "((w, drop (length w) (c # s)), (w, c # s)) \<in> measure (length \<circ> snd)"
    by simp
qed auto

definition get_prompt_text :: "bridge_self \<Rightarrow> discord_message \<Rightarrow> string" where
  "get_prompt_text cl m =
     (let me = show_int (me_user_id cl);
          c1 = strip (remove_all (''<@'' @ me @ ''>'') (dm_content m));
          c2 = strip (remove_all (''<@!'' @ me @ ''>'') c1)
      in strip (if matches_bang_command (me_config cl) c2 then strip_bang_prefix c2 else c2))"

definition bridge_record :: "bridge_env \<Rightarrow> bridge_self \<Rightarrow> chat_message \<Rightarrow> unit bridge" where
  "bridge_record env cl row =
     (\<lambda>s. (Inr (), s\<lparr>bs_context := record_message (bt_cycle (be_text env) @ '' thinking...'')
        (cfg_context_ttl_seconds (me_config cl)) row (bs_context s)\<rparr>))"

definition record_incoming :: "bridge_env \<Rightarrow> bridge_self \<Rightarrow> discord_message \<Rightarrow> unit bridge" where
  "record_incoming env cl m =
     bridge_record env cl
       \<lparr>cm_message_id = show_int (dm_id m), cm_channel_id = show_int (resolve_channel_id m),
        cm_author_id = show_int (dm_author_id m), cm_author_name = dm_author_name m,
        cm_author_is_bot = dm_author_bot m, cm_content = dm_content m,
        cm_created_at_ms = dm_created_at_ms m, cm_source = ''discord''\<rparr>"

text \<open>The record of an own answer; the clock is read for its id and for its time.\<close>
definition record_response :: "bridge_env \<Rightarrow> bridge_self \<Rightarrow> string \<Rightarrow> string \<Rightarrow> string \<Rightarrow> unit bridge" where
  "record_response env cl prefix_id channel text =
     bbind (bnow env) (\<lambda>t. bbind (bnow env) (\<lambda>created.
     bridge_record env cl
       \<lparr>cm_message_id = prefix_id @ '':'' @ show_int t @ '':'' @ cfg_id (me_config cl), cm_channel_id = channel,
        cm_author_id = show_int (me_user_id cl), cm_author_name = shown_name (me_config cl),
        cm_author_is_bot = True, cm_content = take 2000 text, cm_created_at_ms = created,
        cm_source = ''discord''\<rparr>))"

section \<open>Running an adapter\<close>

definition beat_label :: "nat \<Rightarrow> string" where
  "beat_label elapsed =
     (let m = elapsed div 60; s = elapsed mod 60 in
      if m \<noteq> 0 then show_nat m @ ''m'' @ (if s < 10 then ''0'' else []) @ show_nat s @ ''s''
      else show_nat s @ ''s'')"

definition beat_text :: "bridge_text \<Rightarrow> nat \<times> string \<Rightarrow> string" where
  "beat_text txt beat =
     (case beat of (elapsed, partial) \<Rightarrow>
        if partial = [] then bt_cycle txt @ '' thinking... ('' @ beat_label elapsed @ '')''
        else bt_note txt @ '' ('' @ beat_label elapsed @ '')'' @ [nl] @ take 1800 partial
          @ (if 1800 < length partial then nl # ''...'' else []))"

fun beats :: "bridge_env \<Rightarrow> string list \<Rightarrow> unit bridge" where
  "beats env [] = bret ()"
| "beats env (t # ts) = bseq (quietly (bedit env t)) (beats env ts)"

text \<open>
  The coroutine runs beside the edits of the placeholder; its own events come first in the trace. An
  exception of an edit other than \<open>HTTPException\<close> cancels it. Only a call of an adapter reports partial
  output.
\<close>
definition run_with_heartbeat :: "bridge_env \<Rightarrow> bool \<Rightarrow> bool \<Rightarrow> 'a bridge \<Rightarrow> 'a bridge" where
  "run_with_heartbeat env placeholder progress m =
     (if \<not> placeholder then m
      else (\<lambda>s. case m s of (r, s') \<Rightarrow>
        (case beats env (map (\<lambda>(n, partial). beat_text (be_text env) (n, if progress then partial else []))
            (be_beats env (bs_trace s))) s' of
           (Inl e, s'') \<Rightarrow> (Inl e, s'')
         | (Inr _, s'') \<Rightarrow> (r, s''))))"

definition adapter_step :: "bridge_env \<Rightarrow> bool \<Rightarrow> adapter_call \<Rightarrow> adapter_result bridge" where
  "adapter_step env placeholder call =
     run_with_heartbeat env placeholder True (bstep (Adapter call) (\<lambda>tr. be_adapter env tr call))"

definition error_result :: "bridge_exc \<Rightarrow> adapter_result" where
  "error_result e = \<lparr>ar_text = ''Agent error: '' @ exc_text e, ar_session_id = None, ar_resumed = False, ar_metadata = []\<rparr>"

definition fresh_call :: "bridge_env \<Rightarrow> bridge_self \<Rightarrow> bool \<Rightarrow> string \<Rightarrow> adapter_result bridge" where
  "fresh_call env cl placeholder prompt =
     bcatch (adapter_step env placeholder (AdapterCall prompt (cfg_work_dir (me_config cl))))
       (\<lambda>e. bret (error_result e))"

definition make_stale :: "bridge_env \<Rightarrow> bridge_self \<Rightarrow> string \<Rightarrow> unit bridge" where
  "make_stale env cl scope =
     bbind (bnow env) (\<lambda>t.
     bsessions (\<lambda>table. map_sum id (\<lambda>table'. (table', ())) (mark_stale t scope (cfg_id (me_config cl)) table)))"

text \<open>The session to resume; one for another working directory is retired.\<close>
definition existing_session :: "bridge_env \<Rightarrow> bridge_self \<Rightarrow> string list \<Rightarrow> session_row option bridge" where
  "existing_session env cl scopes =
     bbind (bsessions (\<lambda>table. Inr (table, get_first_active table scopes (cfg_id (me_config cl))))) (\<lambda>found.
     case found of
       None \<Rightarrow> bret None
     | Some r \<Rightarrow>
         (case (cfg_work_dir (me_config cl), sr_work_dir r) of
            (Some d, Some e) \<Rightarrow>
              if d \<noteq> [] \<and> e \<noteq> [] \<and> d \<noteq> e then bseq (make_stale env cl (sr_scope_id r)) (bret None)
              else bret (Some r)
          | _ \<Rightarrow> bret (Some r)))"

text \<open>The result with the session that was resumed, if it still counts.\<close>
definition resume_or_call ::
    "bridge_env \<Rightarrow> bridge_self \<Rightarrow> bool \<Rightarrow> string \<Rightarrow> session_row option
     \<Rightarrow> (session_row option \<times> adapter_result) bridge" where
  "resume_or_call env cl placeholder prompt existing =
     (case existing of
        None \<Rightarrow> bbind (fresh_call env cl placeholder prompt) (\<lambda>r. bret (None, r))
      | Some x \<Rightarrow>
          bbind (bcatch (bbind (adapter_step env placeholder
                     (AdapterResume (sr_session_id x) prompt (cfg_work_dir (me_config cl)))) (\<lambda>r. bret (Inr r)))
                   (\<lambda>e. bret (Inl e))) (\<lambda>resumed.
          case resumed of
            Inl e \<Rightarrow> bret (Some x, error_result e)
          | Inr r \<Rightarrow>
              if is_error_response (ar_text r) then
                bseq (make_stale env cl (sr_scope_id x))
                  (bbind (fresh_call env cl placeholder prompt) (\<lambda>r. bret (None, r)))
              else bret (Some x, r)))"

definition run_adapter_for_scope ::
    "bridge_env \<Rightarrow> bridge_self \<Rightarrow> string \<Rightarrow> string \<Rightarrow> string list \<Rightarrow> bool \<Rightarrow> adapter_result bridge" where
  "run_adapter_for_scope env cl prompt scope legacy_scopes placeholder =
     bbind (existing_session env cl (scope # legacy_scopes)) (\<lambda>existing.
     bbind (resume_or_call env cl placeholder prompt existing) (\<lambda>(existing, result).
     case ar_session_id result of
       None \<Rightarrow> bret result
     | Some session_id \<Rightarrow>
         if session_id = [] then bret result
         else
           bbind (bnow env) (\<lambda>t.
           bseq (bsessions (\<lambda>table. Inr (session_upsert t scope (cfg_id (me_config cl)) (cfg_adapter (me_config cl))
                     session_id (cfg_work_dir (me_config cl)) table, ())))
           (bseq (case existing of
                    Some x \<Rightarrow> if sr_scope_id x \<noteq> scope then make_stale env cl (sr_scope_id x) else bret ()
                  | None \<Rightarrow> bret ())
             (bret result)))))"

section \<open>Going through the coordinate runtime\<close>

definition cli_exec :: "bridge_env \<Rightarrow> string list \<Rightarrow> bridge_trace \<Rightarrow> cli_outcome \<times> bridge_trace" where
  "cli_exec env argv tr = (be_cli env tr argv, tr @ [Cli argv])"

definition coord_failure :: "coord_exc \<Rightarrow> bridge_stop" where
  "coord_failure e = BridgeRaised (case e of
     CoordinateRuntimeError m \<Rightarrow> OtherException ''CoordinateRuntimeError'' m
   | CoordAttributeError \<Rightarrow> OtherException ''AttributeError'' [])"

definition coord_submit :: "bridge_env \<Rightarrow> string list \<Rightarrow> dict bridge" where
  "coord_submit env argv =
     (\<lambda>s. case run_cli (cli_exec env) (be_loads env) argv (bs_trace s) of
        (r, tr) \<Rightarrow> (map_sum coord_failure id r, s\<lparr>bs_trace := tr\<rparr>))"

definition coord_wait :: "bridge_env \<Rightarrow> bridge_self \<Rightarrow> string \<Rightarrow> string \<Rightarrow> dict option bridge" where
  "coord_wait env cl job_id workspace_id =
     (\<lambda>s. case wait_for_job_result (be_fuel env) (\<lambda>tr. be_now_ms env tr div 1000) (\<lambda>tr. tr @ [Slept])
          (cli_exec env) (be_loads env) (me_client cl) job_id workspace_id (cfg_timeout (me_config cl)) (bs_trace s) of
        (r, tr) \<Rightarrow>
          (case r of None \<Rightarrow> Inl BridgeHangs | Some (Inl e) \<Rightarrow> Inl (coord_failure e) | Some (Inr j) \<Rightarrow> Inr j,
           s\<lparr>bs_trace := tr\<rparr>))"

definition attribute_error :: "'a bridge" where
  "attribute_error = braise (OtherException ''AttributeError'' [])"

text \<open>\<open>submit_result.get("result", {}).get("job")\<close> and its id. The ids of jobs are strings.\<close>
definition submitted_job_id :: "dict \<Rightarrow> string option bridge" where
  "submitted_job_id d =
     (case (if has_key d ''result'' then dget d ''result'' else JObj []) of
        JObj r \<Rightarrow>
          if \<not> truthy (dget r ''job'') then bret None
          else
            (case dget r ''job'' of
               JObj j \<Rightarrow> (case dget j ''id'' of JStr i \<Rightarrow> bret (if i = [] then None else Some i) | _ \<Rightarrow> bret None)
             | _ \<Rightarrow> attribute_error)
      | _ \<Rightarrow> attribute_error)"

text \<open>A text that is no string makes the next operation fail.\<close>
definition extract_completed_display_text :: "bridge_env \<Rightarrow> dict \<Rightarrow> string bridge" where
  "extract_completed_display_text env completed =
     (let raw = dget completed ''result_json'';
          result_data =
            (if dget completed ''result'' \<noteq> JNull then dget completed ''result''
             else (case raw of JStr t \<Rightarrow> if t = [] then JNull else (case be_loads env t of Inr v \<Rightarrow> v | Inl _ \<Rightarrow> JNull)
                   | _ \<Rightarrow> JNull))
      in case result_data of
           JObj r \<Rightarrow>
             (case (if truthy (dget r ''response_text'') then dget r ''response_text''
                    else if truthy (dget r ''text'') then dget r ''text'' else JStr ''(empty response)'') of
                JStr t \<Rightarrow> bret t
              | _ \<Rightarrow> braise (OtherException ''TypeError'' []))
         | _ \<Rightarrow> bret (''Job '' @ (if has_key completed ''status'' then
             (case dget completed ''status'' of JStr t \<Rightarrow> t | v \<Rightarrow> dumps v) else ''unknown'')))"

definition thread_id_of :: "discord_message \<Rightarrow> string option" where
  "thread_id_of m = (if is_thread m then Some (show_int (dm_channel_id m)) else None)"

definition destination_of :: "discord_message \<Rightarrow> string" where
  "destination_of m = show_int (if is_thread m then dm_channel_id m else resolve_channel_id m)"

definition origin_of :: "discord_message \<Rightarrow> string \<Rightarrow> string list \<Rightarrow> dict" where
  "origin_of m scope legacy_scopes =
     [(''platform'', JStr ''discord''), (''destination'', JStr (destination_of m)),
      (''message_id'', JStr (show_int (dm_id m))), (''thread_id'', opt_str (thread_id_of m)),
      (''session_scope_id'', JStr scope), (''legacy_scope_ids'', JList (map JStr legacy_scopes))]"

definition reply_of :: "discord_message \<Rightarrow> dict" where
  "reply_of m = [(''platform'', JStr ''none''), (''destination'', JStr (destination_of m))]"

text \<open>The text of an error that the coordinate command gives instead of raising.\<close>
definition submit_error_text :: "dict \<Rightarrow> string option" where
  "submit_error_text d =
     (if truthy (dget d ''error'') then
        Some (''Agent error: coordinate submit failed: ''
          @ (case dget d ''error'' of JStr t \<Rightarrow> t | v \<Rightarrow> dumps v))
      else None)"

definition TIMED_OUT :: string where "TIMED_OUT = ''Agent timed out (no response from agentd).''"

definition handle_via_agentd ::
    "bridge_env \<Rightarrow> bridge_self \<Rightarrow> string \<Rightarrow> discord_message \<Rightarrow> bool \<Rightarrow> string \<Rightarrow> string list \<Rightarrow> string \<Rightarrow> unit bridge" where
  "handle_via_agentd env cl prompt m placeholder scope legacy_scopes context_channel =
     bbind (coord_submit env (submit_argv (me_client cl) (cfg_id (me_config cl)) prompt (origin_of m scope legacy_scopes)
              (reply_of m) [] [] (''discord:'' @ show_int (dm_id m)) [])) (\<lambda>submitted.
     case submit_error_text submitted of
       Some text \<Rightarrow> if placeholder then bcatch_http (bedit env text) (bsend env text False) else bret ()
     | None \<Rightarrow>
     bbind (submitted_job_id submitted) (\<lambda>job.
     case job of
       None \<Rightarrow> if placeholder then quietly (bedit env ''(no job created)'') else bret ()
     | Some job_id \<Rightarrow>
         bbind (run_with_heartbeat env placeholder False (coord_wait env cl job_id [])) (\<lambda>completed.
         bbind (case completed of None \<Rightarrow> bret TIMED_OUT | Some c \<Rightarrow> extract_completed_display_text env c) (\<lambda>text.
         let display = resolve_handoff_mentions (me_router cl) text in
         bseq (send_text_chunks env placeholder display [] [])
           (case completed of
              Some c \<Rightarrow>
                if c \<noteq> [] \<and> dget c ''status'' = JStr ''done'' then record_response env cl ''response'' context_channel display
                else bret ()
            | None \<Rightarrow> bret ())))))"

section \<open>A request\<close>

definition send_adapter_response :: "bridge_env \<Rightarrow> bridge_self \<Rightarrow> string \<Rightarrow> bool \<Rightarrow> string \<Rightarrow> unit bridge" where
  "send_adapter_response env cl response_text placeholder context_channel =
     (let response = resolve_handoff_mentions (me_router cl) response_text in
      case split_handoff_lines response of
        (handoff_lines, display_text) \<Rightarrow>
          let pieces = chunks_of display_text in
          if pieces = [] \<and> handoff_lines = []
            then (if placeholder then quietly (bedit env ''(no response)'') else bret ())
          else
            bseq (show_chunks env placeholder (bt_check (be_text env) @ '' done'') pieces)
              (bseq (send_each env False handoff_lines)
                (if is_error_response response then bret ()
                 else record_response env cl ''response'' context_channel response)))"

definition handle_request :: "bridge_env \<Rightarrow> bridge_self \<Rightarrow> discord_message \<Rightarrow> unit bridge" where
  "handle_request env cl m =
     (let scope = scope_for_channel (is_thread m) (show_int (dm_channel_id m));
          legacy_scopes = [legacy_scope_for_channel_id (show_int (dm_channel_id m))];
          context_channel = show_int (resolve_channel_id m)
      in
      bbind (sends_ok (bsend env (bt_cycle (be_text env) @ '' thinking...'') False)) (\<lambda>placeholder.
      bbind (bnow env) (\<lambda>t.
      bbind (\<lambda>s. (Inr (build_agent_prompt t (me_config cl) (Some (me_user_id cl)) context_channel (show_int (dm_id m))
                (get_prompt_text cl m) (bs_context s)), s)) (\<lambda>prompt.
      if cfg_agentd_mode (me_config cl)
        then handle_via_agentd env cl prompt m placeholder scope legacy_scopes context_channel
      else
        bbind (run_adapter_for_scope env cl prompt scope legacy_scopes placeholder) (\<lambda>result.
        send_adapter_response env cl (ar_text result) placeholder context_channel)))))"

end
