(* ===== verification/CoordinatorBridge.thy ===== *)
theory CoordinatorBridge
  imports DiscordBridge
begin

text \<open>
  \<open>multinexus/coordinator_handoff.py\<close>: what a client does with a handoff or a lifecycle notice of the
  coordinator; \<open>multinexus/commands.py\<close>: the commands of an operator; and the event handlers of
  \<open>multinexus/client.py\<close>, which decide which message is answered.
\<close>

section \<open>Reports and authority\<close>

definition send_report ::
    "bridge_env \<Rightarrow> string \<Rightarrow> string \<Rightarrow> string \<Rightarrow> string option \<Rightarrow> string option \<Rightarrow> unit bridge" where
  "send_report env action workspace_id task_id summary reason =
     bbind (blift (build_agent_report action workspace_id task_id summary reason)) (\<lambda>text. bsend env text True)"

definition send_blocker :: "bridge_env \<Rightarrow> coordinator_handoff \<Rightarrow> string \<Rightarrow> unit bridge" where
  "send_blocker env h reason =
     send_report env ''blocker'' (ch_workspace_id h) (ch_task_id h) None (Some reason)"

definition has_v1_handoff_authority :: "coordinator_handoff \<Rightarrow> bool" where
  "has_v1_handoff_authority h =
     (ch_context_version h = Some 1 \<and> ch_workspace_path h \<noteq> [] \<and> ch_harness_root h \<noteq> [])"

definition resolve_bootstrap_workspace_path :: "bridge_env \<Rightarrow> bridge_self \<Rightarrow> coordinator_handoff \<Rightarrow> string bridge" where
  "resolve_bootstrap_workspace_path env cl h =
     (let cfg = me_config cl in
      if cfg_agentd_mode cfg then bret (ch_workspace_path h)
      else
        bstep (ResolvePath (cfg_coordinator_db_path cfg) (ch_workspace_id h))
          (\<lambda>tr. Inr (resolve_workspace_path (be_exists env tr) (be_query env tr) (cfg_coordinator_db_path cfg)
             (ch_workspace_id h) (cfg_coordinator_workspace_path cfg))))"

definition bridge_read_bootstrap :: "bridge_env \<Rightarrow> string \<Rightarrow> string \<Rightarrow> string option bridge" where
  "bridge_read_bootstrap env workspace_path rel =
     bstep (ReadStart workspace_path rel)
       (\<lambda>tr. map_sum (\<lambda>c. OtherException c []) id (read_bootstrap (be_fs env tr) workspace_path rel))"

definition bootstrap_from_file :: "bridge_env \<Rightarrow> bridge_self \<Rightarrow> coordinator_handoff \<Rightarrow> string option bridge" where
  "bootstrap_from_file env cl h =
     (if ch_bootstrap_path h = [] then bret None
      else
        bbind (resolve_bootstrap_workspace_path env cl h) (\<lambda>path.
        if path = [] then bret None else bridge_read_bootstrap env path (ch_bootstrap_path h)))"

text \<open>\<open>execute_assignment_accept\<close>\<close>
definition run_accept :: "bridge_env \<Rightarrow> bridge_self \<Rightarrow> coordinator_handoff \<Rightarrow> (bool \<times> string) bridge" where
  "run_accept env cl h =
     bbind (bnow env) (\<lambda>t.
     bbind (\<lambda>s. (Inr (be_fs env (bs_trace s)), s)) (\<lambda>fs.
     bbind (blift (plan_assignment_accept fs (be_environ env) (cfg_coordinator_cli_path (me_config cl))
              (cfg_coordinator_db_path (me_config cl)) (ch_workspace_id h) (ch_task_id h) (cfg_id (me_config cl))
              (t div 1000))) (\<lambda>plan.
     case plan of
       AcceptRefused text \<Rightarrow> bret (False, text)
     | AcceptRun argv environ \<Rightarrow>
         bstep (RunAccept argv) (\<lambda>tr. Inr (accept_result (be_accept env tr argv environ))))))"

section \<open>Running a handoff\<close>

definition run_handoff_via_agentd ::
    "bridge_env \<Rightarrow> bridge_self \<Rightarrow> coordinator_handoff \<Rightarrow> string \<Rightarrow> discord_message \<Rightarrow> bool \<Rightarrow> string \<Rightarrow> (string \<times> bool) bridge" where
  "run_handoff_via_agentd env cl h prompt m placeholder scope =
     (let origin = origin_of m scope [] @ [(''handoff'', JObj [(''workspace_id'', JStr (ch_workspace_id h)),
                     (''task_id'', JStr (ch_task_id h))])]
      in
      bbind (coord_submit env (submit_argv (me_client cl) (cfg_id (me_config cl)) prompt origin (reply_of m)
               (ch_workspace_id h) (ch_task_id h) (''discord-handoff:'' @ show_int (dm_id m)) [])) (\<lambda>submitted.
      case submit_error_text submitted of
        Some text \<Rightarrow> bret (text, True)
      | None \<Rightarrow>
      bbind (submitted_job_id submitted) (\<lambda>job.
      case job of
        None \<Rightarrow> bret (''Agent error: coordinate submit did not create a job'', True)
      | Some job_id \<Rightarrow>
          bbind (run_with_heartbeat env placeholder False (coord_wait env cl job_id (ch_workspace_id h))) (\<lambda>completed.
          case completed of
            None \<Rightarrow> bret (TIMED_OUT, True)
          | Some c \<Rightarrow>
              bbind (extract_completed_display_text env c) (\<lambda>text.
              bret (text, dget c ''status'' \<noteq> JStr ''done'' \<or> is_error_response text))))))"

definition MISSING_REPORT :: string where
  "MISSING_REPORT = ''adapter completed without a structured agent-report; operator should inspect the visible response''"

definition send_missing_report_fallback ::
    "bridge_env \<Rightarrow> bridge_self \<Rightarrow> coordinator_handoff \<Rightarrow> string \<Rightarrow> bool \<Rightarrow> unit bridge" where
  "send_missing_report_fallback env cl h response_text failed =
     (if cfg_agentd_mode (me_config cl) then bret ()
      else if contains_execution_agent_report response_text then bret ()
      else
        quietly (if failed then send_blocker env h ''adapter returned an error without a structured agent report''
          else send_report env ''progress'' (ch_workspace_id h) (ch_task_id h) (Some MISSING_REPORT) None))"

text \<open>The answer of the agent is shown, its handoffs and reports are sent on, and it is recorded.\<close>
definition publish_response ::
    "bridge_env \<Rightarrow> bridge_self \<Rightarrow> coordinator_handoff \<Rightarrow> discord_message \<Rightarrow> bool \<Rightarrow> string \<Rightarrow> string \<Rightarrow> string \<times> bool \<Rightarrow> unit bridge" where
  "publish_response env cl h m placeholder finished prefix_id answer =
     (case answer of (text, failed) \<Rightarrow>
      let response = resolve_handoff_mentions (me_router cl) text in
      case split_agent_report_lines response of (report_lines, without_reports) \<Rightarrow>
      case split_handoff_lines without_reports of (handoff_lines, display_text) \<Rightarrow>
      bseq (show_chunks env placeholder finished (chunks_of display_text))
     (bseq (send_each env False handoff_lines)
     (bseq (if cfg_agentd_mode (me_config cl) then bret () else send_each env True report_lines)
     (bseq (if failed then bret () else record_response env cl prefix_id (show_int (resolve_channel_id m)) response)
       (send_missing_report_fallback env cl h response failed)))))"

text \<open>From the confirmation on, an assignment and a review differ only in their texts.\<close>
definition work_on_handoff ::
    "bridge_env \<Rightarrow> bridge_self \<Rightarrow> coordinator_handoff \<Rightarrow> discord_message \<Rightarrow> string \<Rightarrow> string \<Rightarrow> string \<Rightarrow> string \<Rightarrow> string \<Rightarrow> unit bridge" where
  "work_on_handoff env cl h m prompt summary working finished prefix_id =
     (let scope = task_scope (ch_workspace_id h) (ch_task_id h) in
      bseq (send_report env ''accept'' (ch_workspace_id h) (ch_task_id h) (Some summary) None)
      (bbind (sends_ok (bsend env working False)) (\<lambda>placeholder.
       bbind (if cfg_agentd_mode (me_config cl) then run_handoff_via_agentd env cl h prompt m placeholder scope
              else bbind (run_adapter_for_scope env cl prompt scope [] placeholder)
                     (\<lambda>r. bret (ar_text r, is_error_response (ar_text r)))) (\<lambda>answer.
       publish_response env cl h m placeholder finished prefix_id answer))))"

definition handle_review_handoff ::
    "bridge_env \<Rightarrow> bridge_self \<Rightarrow> discord_message \<Rightarrow> coordinator_handoff \<Rightarrow> bool bridge" where
  "handle_review_handoff env cl m h =
     (let cfg = me_config cl; txt = be_text env in
      if cfg_agentd_mode cfg \<and> \<not> has_v1_handoff_authority h
        then bseq (send_blocker env h ''managed mode requires a complete v1 handoff authority'') (bret True)
      else
        bbind (resolve_bootstrap_workspace_path env cl h) (\<lambda>path.
        bbind (if ch_bootstrap_path h \<noteq> [] \<and> path \<noteq> [] then bridge_read_bootstrap env path (ch_bootstrap_path h)
               else bret None) (\<lambda>bootstrap.
        if cfg_agentd_mode cfg \<and> bootstrap = None
          then bseq (send_blocker env h ''managed review handoff requires bootstrap content'') (bret True)
        else
          bseq (work_on_handoff env cl h m (build_review_handoff_prompt (bt_review txt) h bootstrap (cfg_id cfg))
                 (''review begun by '' @ cfg_id cfg) (bt_cycle txt @ '' reviewing...'')
                 (bt_check txt @ '' review complete'') ''review'')
            (bret True))))"

text \<open>An accepted assignment: the start text of the answer or of the file, and the work.\<close>
definition continue_assignment ::
    "bridge_env \<Rightarrow> bridge_self \<Rightarrow> discord_message \<Rightarrow> coordinator_handoff \<Rightarrow> string \<Rightarrow> bool bridge" where
  "continue_assignment env cl m h output =
     (let cfg = me_config cl; txt = be_text env in
      bbind (blift (bootstrap_text_from_accept_output output)) (\<lambda>given.
      bbind (case given of Some t \<Rightarrow> bret (Some t) | None \<Rightarrow> bootstrap_from_file env cl h) (\<lambda>bootstrap.
      if cfg_agentd_mode cfg \<and> bootstrap = None
        then bseq (send_blocker env h ''managed mode requires bootstrap content'') (bret True)
      else
        bseq (work_on_handoff env cl h m (build_handoff_prompt (bt_handoff txt) h bootstrap (cfg_id cfg) output)
               (''auto accepted by '' @ cfg_id cfg) (bt_cycle txt @ '' working on task...'')
               (bt_check txt @ '' done'') ''response'')
          (bret True))))"

definition handle_assignment ::
    "bridge_env \<Rightarrow> bridge_self \<Rightarrow> discord_message \<Rightarrow> coordinator_handoff \<Rightarrow> bool bridge" where
  "handle_assignment env cl m h =
     bbind (run_accept env cl h) (\<lambda>(success, output).
     if \<not> success
       then bseq (send_blocker env h (''assignment accept failed: '' @ take 500 output)) (bret True)
     else continue_assignment env cl m h output)"

text \<open>The handoff as it is read, in agentd mode a second time for the diagnosis.\<close>
definition read_handoff :: "bridge_self \<Rightarrow> discord_message \<Rightarrow> string + coordinator_handoff option" where
  "read_handoff cl m =
     ebind (parse_coordinator_handoff (me_user_id cl) False (dm_content m)) (\<lambda>found.
     if found = None \<and> cfg_agentd_mode (me_config cl)
       then parse_coordinator_handoff (me_user_id cl) True (dm_content m)
     else Inr found)"

definition try_coordinator_handoff :: "bridge_env \<Rightarrow> bridge_self \<Rightarrow> discord_message \<Rightarrow> bool bridge" where
  "try_coordinator_handoff env cl m =
     bbind (blift (read_handoff cl m)) (\<lambda>found.
     case found of
       None \<Rightarrow> bret False
     | Some h \<Rightarrow>
         if cfg_agentd_mode (me_config cl) \<and> \<not> has_v1_handoff_authority h
           then bseq (send_blocker env h ''managed mode requires a complete v1 handoff authority'') (bret True)
         else if ch_action h = ''review.begin'' then handle_review_handoff env cl m h
         else handle_assignment env cl m h)"

definition try_coordinator_lifecycle :: "bridge_env \<Rightarrow> bridge_self \<Rightarrow> discord_message \<Rightarrow> bool bridge" where
  "try_coordinator_lifecycle env cl m =
     bbind (blift (parse_coordinator_lifecycle (me_user_id cl) (dm_content m))) (\<lambda>found.
     case found of
       None \<Rightarrow> bret False
     | Some event \<Rightarrow>
         (\<lambda>s.
          if bs_sessions s = None then (Inr True, s)
          else
            bbind (bnow env) (\<lambda>t.
            bbind (bsessions (\<lambda>table. mark_task_archived t (le_workspace_id event) (le_task_id event)
                     (Some (cfg_id (me_config cl))) table)) (\<lambda>archived.
            bseq (send_report env ''progress'' (le_workspace_id event) (le_task_id event)
                   (Some (''archived '' @ show_nat archived @ '' task session(s) for '' @ cfg_id (me_config cl)
                     @ '' after '' @ le_action event)) None)
              (bret True))) s))"

section \<open>Commands of an operator\<close>

definition OPERATOR_COMMANDS :: "string list" where
  "OPERATOR_COMMANDS = [''session status'', ''session reset'', ''agents'', ''health'']"

definition parse_operator_command :: "string \<Rightarrow> string option" where
  "parse_operator_command text = find (\<lambda>cmd. map py_lower (strip text) = cmd) OPERATOR_COMMANDS"

definition is_dangerous_command :: "string \<Rightarrow> bool" where
  "is_dangerous_command cmd = (cmd = ''session reset'')"

text \<open>The reason of a denial.\<close>
definition can_run_operator_command :: "bridge_text \<Rightarrow> agent_config \<Rightarrow> int \<Rightarrow> string \<Rightarrow> string option" where
  "can_run_operator_command txt cfg user_id cmd =
     (if cfg_allowed_user_ids cfg \<noteq> [] \<and> user_id \<notin> set (cfg_allowed_user_ids cfg) then Some (bt_denied txt)
      else if is_dangerous_command cmd \<and> (cfg_allowed_user_ids cfg = [] \<or> user_id \<notin> set (cfg_allowed_user_ids cfg))
        then Some (bt_denied_explicit txt)
      else None)"

definition command_scopes :: "string \<Rightarrow> bool \<Rightarrow> string list" where
  "command_scopes channel_id thread = [scope_for_channel_id channel_id thread, legacy_scope_for_channel_id channel_id]"

definition described_scope :: "string \<Rightarrow> bool \<Rightarrow> session_row option \<Rightarrow> scope_description" where
  "described_scope channel_id thread current =
     describe_scope (case current of Some r \<Rightarrow> sr_scope_id r | None \<Rightarrow> scope_for_channel_id channel_id thread)"

definition cmd_session_status :: "bridge_env \<Rightarrow> bridge_self \<Rightarrow> string \<Rightarrow> bool \<Rightarrow> string bridge" where
  "cmd_session_status env cl channel_id thread =
     bsessions (\<lambda>table.
       let agent = cfg_id (me_config cl); current = get_first_active table (command_scopes channel_id thread) agent in
       Inr (table, bt_status (be_text env) (me_config cl) current (described_scope channel_id thread current)
              (length (list_by_agent table agent False))))"

definition cmd_session_reset :: "bridge_env \<Rightarrow> bridge_self \<Rightarrow> string \<Rightarrow> bool \<Rightarrow> string bridge" where
  "cmd_session_reset env cl channel_id thread =
     (let agent = cfg_id (me_config cl) in
      bbind (bsessions (\<lambda>table. Inr (table, get_first_active table (command_scopes channel_id thread) agent))) (\<lambda>current.
      case current of
        None \<Rightarrow> bret (bt_no_session (be_text env) (described_scope channel_id thread None))
      | Some r \<Rightarrow>
          bseq (make_stale env cl (sr_scope_id r))
            (bret (bt_reset (be_text env) agent (described_scope channel_id thread (Some r))))))"

definition cmd_health :: "bridge_env \<Rightarrow> bridge_self \<Rightarrow> string bridge" where
  "cmd_health env cl =
     (if cfg_agentd_mode (me_config cl) then attribute_error
      else bbind (bstep HealthCheck (be_health env)) (\<lambda>health. bret (bt_health (be_text env) (me_config cl) health)))"

definition handle_operator_command :: "bridge_env \<Rightarrow> bridge_self \<Rightarrow> string \<Rightarrow> string \<Rightarrow> bool \<Rightarrow> string bridge" where
  "handle_operator_command env cl cmd channel_id thread =
     (if cmd = ''session status'' then cmd_session_status env cl channel_id thread
      else if cmd = ''session reset'' then cmd_session_reset env cl channel_id thread
      else if cmd = ''agents'' then bret (bt_agents (be_text env) (rt_agents (me_router cl)))
      else cmd_health env cl)"

text \<open>
  A slash command answers its user only. The embeds are built without an effect, but for the health check,
  whose failure is shown.
\<close>
definition slash_command :: "bridge_env \<Rightarrow> bridge_self \<Rightarrow> discord_message \<Rightarrow> string \<Rightarrow> unit bridge" where
  "slash_command env cl m cmd =
     (let cfg = me_config cl; txt = be_text env; answer = (\<lambda>t. bstep (Respond t) (\<lambda>tr. Inr ())) in
      if cfg_channels cfg \<noteq> [] \<and> resolve_channel_id m \<notin> set (cfg_channels cfg) then answer (bt_channel_denied txt)
      else
        (case can_run_operator_command txt cfg (dm_author_id m) cmd of
           Some deny \<Rightarrow> answer deny
         | None \<Rightarrow>
             if cmd = ''session reset'' then
               bbind (handle_operator_command env cl cmd (show_int (dm_channel_id m)) (is_thread m)) answer
             else if cmd = ''health'' \<and> \<not> cfg_agentd_mode cfg then
               bcatch (bbind (bstep HealthCheck (be_health env)) (\<lambda>health. answer (bt_health txt cfg health)))
                 (\<lambda>e. answer (exc_text e))
             else answer cmd))"

section \<open>Event handlers\<close>

definition from_coordinator :: "bridge_self \<Rightarrow> discord_message \<Rightarrow> bool" where
  "from_coordinator cl m =
     (case cfg_coordinator_bot_id (me_config cl) of
        Some b \<Rightarrow> b \<noteq> 0 \<and> dm_author_id m = b
      | None \<Rightarrow> False)"

definition channel_allowed :: "bridge_self \<Rightarrow> discord_message \<Rightarrow> bool" where
  "channel_allowed cl m =
     (cfg_channels (me_config cl) = [] \<or> resolve_channel_id m \<in> set (cfg_channels (me_config cl)))"

definition handles_handoff :: "bridge_self \<Rightarrow> discord_message \<Rightarrow> bool" where
  "handles_handoff cl m = is_handoff_message (me_router cl) (cfg_id (me_config cl)) (dm_content m)"

definition on_bot_message :: "bridge_env \<Rightarrow> bridge_self \<Rightarrow> discord_message \<Rightarrow> unit bridge" where
  "on_bot_message env cl m =
     (if \<not> cfg_respond_to_bots (me_config cl) then bret ()
      else
        bbind (if from_coordinator cl m then blift (parse_coordinator_lifecycle (me_user_id cl) (dm_content m))
               else bret None) (\<lambda>lifecycle.
        if \<not> is_addressed_to_me cl m then bret ()
        else if \<not> handles_handoff cl m \<and> lifecycle = None then bret ()
        else
          bseq (record_incoming env cl m)
            (if from_coordinator cl m then
               bbind (try_coordinator_lifecycle env cl m) (\<lambda>handled.
               if handled then bret ()
               else
                 bbind (try_coordinator_handoff env cl m) (\<lambda>handled.
                 if handled then bret () else handle_request env cl m))
             else handle_request env cl m)))"

definition on_human_message :: "bridge_env \<Rightarrow> bridge_self \<Rightarrow> discord_message \<Rightarrow> unit bridge" where
  "on_human_message env cl m =
     (let cfg = me_config cl in
      if cfg_allowed_user_ids cfg \<noteq> [] \<and> dm_author_id m \<notin> set (cfg_allowed_user_ids cfg) then bret ()
      else if \<not> is_addressed_to_me cl m then record_incoming env cl m
      else
        (case parse_operator_command (get_prompt_text cl m) of
           Some cmd \<Rightarrow>
             (case can_run_operator_command (be_text env) cfg (dm_author_id m) cmd of
                Some deny \<Rightarrow> bsend env deny True
              | None \<Rightarrow>
                  bseq (record_incoming env cl m)
                    (bbind (handle_operator_command env cl cmd (show_int (dm_channel_id m)) (is_thread m)) (\<lambda>response.
                     send_until_failure env True (chunk_message response))))
         | None \<Rightarrow> bseq (record_incoming env cl m) (handle_request env cl m)))"

definition on_message :: "bridge_env \<Rightarrow> bridge_self \<Rightarrow> discord_message \<Rightarrow> unit bridge" where
  "on_message env cl m =
     (if dm_author_id m = me_user_id cl then bret ()
      else if \<not> channel_allowed cl m then bret ()
      else if dm_author_bot m then on_bot_message env cl m
      else on_human_message env cl m)"

text \<open>The message after an edit.\<close>
definition on_message_edit :: "bridge_env \<Rightarrow> bridge_self \<Rightarrow> discord_message \<Rightarrow> unit bridge" where
  "on_message_edit env cl m =
     (if \<not> dm_author_bot m then bret ()
      else if dm_author_id m = me_user_id cl then bret ()
      else if \<not> channel_allowed cl m then bret ()
      else if \<not> cfg_respond_to_bots (me_config cl) then bret ()
      else if \<not> is_addressed_to_me cl m \<or> \<not> handles_handoff cl m then bret ()
      else bseq (record_incoming env cl m) (handle_request env cl m))"

end
