(* ===== verification/BridgeContract.thy ===== *)
theory BridgeContract
  imports CoordinatorBridge HandoffSafety
begin

text \<open>
  What every coroutine of the client keeps. A relation between the states before and after that is
  reflexive and transitive, and that holds for the single effects, holds for every handler. The locales
  name the effects that are needed: \<open>bridge_run\<close> the composition, \<open>bridge_talk\<close> messages, \<open>bridge_agentd\<close>
  the coordinate runtime, \<open>bridge_full\<close> adapters, files and slash commands as well.
\<close>

named_theorems bridge_rules

definition runs :: "(bridge_state \<Rightarrow> bridge_state \<Rightarrow> bool) \<Rightarrow> 'a bridge \<Rightarrow> bool" where
  "runs R m = (\<forall>s. R s (snd (m s)))"

lemma runsD: "runs R m \<Longrightarrow> m s = (r, s') \<Longrightarrow> R s s'"
  unfolding runs_def by (metis snd_conv)

lemma runs_if [bridge_rules]: "(b \<Longrightarrow> runs R m) \<Longrightarrow> (\<not> b \<Longrightarrow> runs R n) \<Longrightarrow> runs R (if b then m else n)"
  by simp

lemma runs_prod [bridge_rules]: "(\<And>a b. x = (a, b) \<Longrightarrow> runs R (f a b)) \<Longrightarrow> runs R (case x of (a, b) \<Rightarrow> f a b)"
  by (cases x) simp

lemma runs_option [bridge_rules]:
  "(x = None \<Longrightarrow> runs R m) \<Longrightarrow> (\<And>a. x = Some a \<Longrightarrow> runs R (f a)) \<Longrightarrow> runs R (case x of None \<Rightarrow> m | Some a \<Rightarrow> f a)"
  by (cases x) simp_all

lemma runs_list [bridge_rules]:
  "(x = [] \<Longrightarrow> runs R m) \<Longrightarrow> (\<And>a b. x = a # b \<Longrightarrow> runs R (f a b)) \<Longrightarrow> runs R (case x of [] \<Rightarrow> m | a # b \<Rightarrow> f a b)"
  by (cases x) simp_all

lemma runs_sum [bridge_rules]:
  "(\<And>a. x = Inl a \<Longrightarrow> runs R (f a)) \<Longrightarrow> (\<And>a. x = Inr a \<Longrightarrow> runs R (g a)) \<Longrightarrow> runs R (case x of Inl a \<Rightarrow> f a | Inr a \<Rightarrow> g a)"
  by (cases x) simp_all

lemma runs_exc [bridge_rules]:
  "(\<And>t. runs R (f t)) \<Longrightarrow> (\<And>c t. runs R (g c t)) \<Longrightarrow> runs R (case e of HttpException t \<Rightarrow> f t | OtherException c t \<Rightarrow> g c t)"
  by (cases e) simp_all

lemma runs_json [bridge_rules]:
  "runs R a \<Longrightarrow> (\<And>x. runs R (b x)) \<Longrightarrow> (\<And>x. runs R (c x)) \<Longrightarrow> (\<And>x. runs R (d x)) \<Longrightarrow> (\<And>x. runs R (e x))
   \<Longrightarrow> (\<And>x. runs R (f x)) \<Longrightarrow> (\<And>x. runs R (g x))
   \<Longrightarrow> runs R (case j of JNull \<Rightarrow> a | JBool x \<Rightarrow> b x | JInt x \<Rightarrow> c x | JFloat x \<Rightarrow> d x | JStr x \<Rightarrow> e x | JList x \<Rightarrow> f x | JObj x \<Rightarrow> g x)"
  by (cases j) simp_all

lemma runs_plan [bridge_rules]:
  "(\<And>t. x = AcceptRefused t \<Longrightarrow> runs R (f t)) \<Longrightarrow> (\<And>a e. x = AcceptRun a e \<Longrightarrow> runs R (g a e))
   \<Longrightarrow> runs R (case x of AcceptRefused t \<Rightarrow> f t | AcceptRun a e \<Rightarrow> g a e)"
  by (cases x) simp_all

lemma runs_Let [bridge_rules]: "(\<And>a. a = x \<Longrightarrow> runs R (f a)) \<Longrightarrow> runs R (let a = x in f a)"
  by simp

section \<open>Composition\<close>

locale bridge_run =
  fixes R :: "bridge_state \<Rightarrow> bridge_state \<Rightarrow> bool" and E :: "bridge_event \<Rightarrow> bool" and env :: bridge_env
  assumes refl: "R s s"
    and trans: "R s u \<Longrightarrow> R u v \<Longrightarrow> R s v"
    and event: "E e \<Longrightarrow> R s (s\<lparr>bs_trace := bs_trace s @ [e]\<rparr>)"
    and recorded: "R s (s\<lparr>bs_context := record_message (bt_cycle (be_text env) @ '' thinking...'') ttl row (bs_context s)\<rparr>)"
    and upserted: "bs_sessions s = Some table \<Longrightarrow> R s (s\<lparr>bs_sessions := Some (session_upsert now scope agent ad sid wd table)\<rparr>)"
    and marked: "bs_sessions s = Some table \<Longrightarrow> mark_scope_status now scope status agent' table = Inr (table', n)
      \<Longrightarrow> R s (s\<lparr>bs_sessions := Some table'\<rparr>)"
begin

lemma ret [bridge_rules]: "runs R (bret a)"
  by (simp add: runs_def bret_def refl)

lemma raise [bridge_rules]: "runs R (braise e)"
  by (simp add: runs_def braise_def refl)

lemma pure [bridge_rules]: "runs R (\<lambda>s. (f s, s))"
  by (simp add: runs_def refl)

lemma bind [bridge_rules]: "runs R m \<Longrightarrow> (\<And>a. runs R (f a)) \<Longrightarrow> runs R (bbind m f)"
  unfolding runs_def bbind_def by (auto split: prod.splits sum.splits) (metis snd_conv trans)+

lemma seq [bridge_rules]: "runs R m \<Longrightarrow> runs R n \<Longrightarrow> runs R (bseq m n)"
  by (simp add: bseq_def bind)

lemma handled [bridge_rules]: "runs R m \<Longrightarrow> (\<And>e. runs R (h e)) \<Longrightarrow> runs R (bcatch m h)"
  unfolding runs_def bcatch_def
  by (auto split: prod.splits sum.splits bridge_stop.splits) (metis snd_conv trans)+

lemma http [bridge_rules]: "runs R m \<Longrightarrow> runs R h \<Longrightarrow> runs R (bcatch_http m h)"
  by (auto simp: bcatch_http_def intro!: bridge_rules)

lemma lifted [bridge_rules]: "runs R (blift r)"
  by (cases r) (simp_all add: blift_def ret raise)

lemma lift_bind: "(\<And>a. r = Inr a \<Longrightarrow> runs R (f a)) \<Longrightarrow> runs R (bbind (blift r) f)"
  by (cases r) (simp_all add: runs_def blift_def bbind_def braise_def bret_def refl)

lemma step [bridge_rules]: "E e \<Longrightarrow> runs R (bstep e answer)"
  by (simp add: runs_def bstep_def event)

lemma failure [bridge_rules]: "runs R attribute_error"
  by (simp add: attribute_error_def raise)

lemma read_sessions [bridge_rules]: "runs R (bsessions (\<lambda>t. Inr (t, f t)))"
proof -
  have "s\<lparr>bs_sessions := Some t\<rparr> = s" if "bs_sessions s = Some t" for s :: bridge_state and t
    using that by simp
  then have "R s (s\<lparr>bs_sessions := Some t\<rparr>)" if "bs_sessions s = Some t" for s t
    using that refl [of s] by metis
  then show ?thesis
    by (auto simp: runs_def bsessions_def braise_def refl split: option.split)
qed

lemma upsert [bridge_rules]: "runs R (bsessions (\<lambda>t. Inr (session_upsert now scope agent ad sid wd t, ())))"
  by (auto simp: runs_def bsessions_def braise_def refl upserted split: option.split)

lemma archive [bridge_rules]: "runs R (bsessions (\<lambda>t. mark_task_archived now w k agent t))"
  by (auto simp: runs_def bsessions_def braise_def refl mark_task_archived_def
      split: option.split sum.split session_exc.split intro: marked)

lemma stale: "runs R (bsessions (\<lambda>t. map_sum id (\<lambda>t'. (t', ())) (mark_stale now scope agent t)))"
  by (auto simp: runs_def bsessions_def braise_def refl mark_stale_def mark_status_scope
      split: option.split sum.splits session_exc.split intro: marked)

lemma stored [bridge_rules]: "runs R (bridge_record env cl row)"
  by (simp add: runs_def bridge_record_def recorded)

lemma incoming [bridge_rules]: "runs R (record_incoming env cl m)"
  by (simp add: record_incoming_def stored)

lemma submitted [bridge_rules]: "runs R (submitted_job_id d)"
  unfolding submitted_job_id_def by (intro bridge_rules)

lemma display [bridge_rules]: "runs R (extract_completed_display_text env c)"
  unfolding extract_completed_display_text_def by (intro bridge_rules)

end

section \<open>Messages\<close>

locale bridge_talk = bridge_run +
  assumes talk: "E (Send text quiet)" "E (Edit text)" "E Tick"
begin

lemma clock [bridge_rules]: "runs R (bnow env)"
  by (simp add: bnow_def step talk)

lemma send [bridge_rules]: "runs R (bsend env t q)"
  by (simp add: bsend_def step talk)

lemma edit [bridge_rules]: "runs R (bedit env t)"
  by (simp add: bedit_def step talk)

lemma quiet [bridge_rules]: "runs R m \<Longrightarrow> runs R (quietly m)"
  unfolding quietly_def by (intro bridge_rules)

lemma sends [bridge_rules]: "runs R m \<Longrightarrow> runs R (sends_ok m)"
  unfolding sends_ok_def by (intro bridge_rules)

lemma until_failure [bridge_rules]: "runs R (send_until_failure env q cs)"
  by (induction cs) (auto intro!: bridge_rules)

lemma each [bridge_rules]: "runs R (send_each env q cs)"
  by (induction cs) (auto intro!: bridge_rules)

lemma pieces [bridge_rules]: "runs R (show_chunks env p f cs)"
  unfolding show_chunks_def by (intro bridge_rules)

lemma text_chunks [bridge_rules]: "runs R (send_text_chunks env p d hs rs)"
  unfolding send_text_chunks_def by (intro bridge_rules)

lemma response [bridge_rules]: "runs R (record_response env cl k c t)"
  unfolding record_response_def by (intro bridge_rules)

lemma heartbeat [bridge_rules]:
  assumes "runs R m"
  shows "runs R (run_with_heartbeat env p progress m)"
proof -
  have edits: "runs R (beats env ts)" for ts
    by (induction ts) (auto intro!: bridge_rules)
  have "R s (snd (run_with_heartbeat env p progress m s))" for s
  proof -
    obtain r s' where m: "m s = (r, s')"
      by (cases "m s")
    define ts where "ts = map (\<lambda>(n, partial). beat_text (be_text env) (n, if progress then partial else [])) (be_beats env (bs_trace s))"
    obtain q u where q: "beats env ts s' = (q, u)"
      by (cases "beats env ts s'")
    have "R s s'" "R s' u"
      using runsD [OF assms m] runsD [OF edits q] by simp_all
    then show ?thesis
      using m q trans by (cases q) (auto simp: run_with_heartbeat_def simp flip: ts_def)
  qed
  then show ?thesis
    by (simp add: runs_def)
qed

lemma make_stale [bridge_rules]: "runs R (make_stale env cl scope)"
  unfolding make_stale_def by (intro bridge_rules stale)

lemma report [bridge_rules]: "runs R (send_report env a w t s r)"
  unfolding send_report_def by (intro bridge_rules)

lemma blocker [bridge_rules]: "runs R (send_blocker env h r)"
  unfolding send_blocker_def by (intro bridge_rules)

lemma fallback [bridge_rules]: "runs R (send_missing_report_fallback env cl h t f)"
  unfolding send_missing_report_fallback_def by (intro bridge_rules)

lemma publish [bridge_rules]: "runs R (publish_response env cl h m p f i a)"
  unfolding publish_response_def by (intro bridge_rules)

lemma lifecycle [bridge_rules]: "runs R (try_coordinator_lifecycle env cl m)"
proof -
  have guarded: "runs R n \<Longrightarrow> runs R (\<lambda>s. if b s then (a, s) else n s)" for b a and n :: "'c bridge"
    by (simp add: runs_def refl)
  show ?thesis
    unfolding try_coordinator_lifecycle_def by (intro bridge_rules guarded)
qed

lemma accept_command [bridge_rules]:
  assumes "\<And>t. E (RunAccept (accept_argv (cfg_coordinator_cli_path (me_config cl)) (ch_workspace_id h) (ch_task_id h)
      (cfg_id (me_config cl)) t))"
  shows "runs R (run_accept env cl h)"
proof -
  have plan: "plan_assignment_accept fs environ cli db w k agent t = Inr (AcceptRun argv e) \<Longrightarrow> argv = accept_argv cli w k agent t"
    for fs environ cli db w k agent t argv e
    by (auto simp: plan_assignment_accept_def result_simps split: if_splits)
  show ?thesis
    unfolding run_accept_def
    by (intro bind clock pure lift_bind runs_plan ret step) (use assms plan in blast)
qed

text \<open>A client in agentd mode reads start texts without the database.\<close>
lemma start_texts:
  assumes "\<And>p r. E (ReadStart p r)" "cfg_agentd_mode (me_config cl) \<or> (\<forall>d w. E (ResolvePath d w))"
  shows "runs R (bootstrap_from_file env cl h)" "runs R (resolve_bootstrap_workspace_path env cl h)"
    "runs R (bridge_read_bootstrap env p r)"
  using assms
  by (auto simp: bootstrap_from_file_def resolve_bootstrap_workspace_path_def bridge_read_bootstrap_def Let_def intro!: bridge_rules)

lemma session_commands [bridge_rules]:
  "runs R (cmd_session_status env cl c t)" "runs R (cmd_session_reset env cl c t)"
  unfolding cmd_session_status_def cmd_session_reset_def Let_def by (intro bridge_rules)+

end

section \<open>The coordinate runtime\<close>

lemma wait_loop_invariant:
  assumes "\<And>w. Q w (snd (poll w))" "\<And>w. Q w (sleep w)" "\<And>w. Q w w" "\<And>u v w. Q u v \<Longrightarrow> Q v w \<Longrightarrow> Q u w"
  shows "Q w (snd (wait_loop fuel clock sleep poll start timeout w))"
proof (induction fuel arbitrary: w)
  case (Suc fuel)
  obtain r w' where poll: "poll w = (r, w')"
    by (cases "poll w")
  have later: "Q w (snd (wait_loop fuel clock sleep poll start timeout (sleep w')))"
    using assms(1) [of w] assms(2) [of w'] assms(4) Suc poll by (metis snd_conv)
  then show ?case
    using assms(1) [of w] assms(3) poll by (auto split: sum.split option.split)
qed (simp add: assms(3))

locale bridge_agentd = bridge_talk +
  assumes runtime: "E (Cli argv)" "E Slept"
begin

lemma traced: "R s (s\<lparr>bs_trace := bs_trace s @ es\<rparr>)" if "list_all E es"
  using that
proof (induction es rule: rev_induct)
  case (snoc e es)
  then have "R s (s\<lparr>bs_trace := bs_trace s @ es\<rparr>)" "E e"
    by simp_all
  then show ?case
    using trans event [of e "s\<lparr>bs_trace := bs_trace s @ es\<rparr>"] by fastforce
qed (simp add: refl)

lemma submit [bridge_rules]: "runs R (coord_submit env argv)"
  using event [OF runtime(1)] by (simp add: runs_def coord_submit_def run_cli_def cli_exec_def)

lemma wait [bridge_rules]: "runs R (coord_wait env cl job w)"
proof -
  let ?Q = "\<lambda>u v. \<exists>es. v = u @ es \<and> list_all E es"
  have get: "?Q u (snd (get_job (cli_exec env) loads c job w u))" for u loads c job w
    using runtime by (simp add: get_job_def run_cli_def cli_exec_def)
  have "?Q u (snd (wait_for_job_result fuel clock (\<lambda>tr. tr @ [Slept]) (cli_exec env) loads c job w timeout u))"
    for fuel clock loads c job w timeout and u :: bridge_trace
    unfolding wait_for_job_result_def
    by (rule wait_loop_invariant [where Q = ?Q]) (use get runtime in \<open>auto simp: list_all_append\<close>)
  then have "\<exists>es. snd (wait_for_job_result fuel clock (\<lambda>tr. tr @ [Slept]) (cli_exec env) loads c job w timeout u) = u @ es
      \<and> list_all E es" for fuel clock loads c job w timeout u
    by blast
  then show ?thesis
    unfolding runs_def coord_wait_def
    by (auto split: prod.split) (metis snd_conv traced)
qed

lemma via_agentd [bridge_rules]: "runs R (handle_via_agentd env cl prompt m p scope legacy c)"
  unfolding handle_via_agentd_def by (intro bridge_rules)

lemma handoff_via_agentd [bridge_rules]: "runs R (run_handoff_via_agentd env cl h prompt m p scope)"
  unfolding run_handoff_via_agentd_def by (intro bridge_rules)

lemma agentd_request: "cfg_agentd_mode (me_config cl) \<Longrightarrow> runs R (handle_request env cl m)"
  unfolding handle_request_def by (auto intro!: bridge_rules)

lemma agentd_work:
  "cfg_agentd_mode (me_config cl) \<Longrightarrow> runs R (work_on_handoff env cl h m prompt summary w f i)"
  unfolding work_on_handoff_def by (auto intro!: bridge_rules)

lemma agentd_review:
  assumes "cfg_agentd_mode (me_config cl)" "\<And>p r. E (ReadStart p r)"
  shows "runs R (handle_review_handoff env cl m h)"
  unfolding handle_review_handoff_def Let_def
  by (intro bridge_rules start_texts [OF assms(2) disjI1 [OF assms(1)]] agentd_work [OF assms(1)])

lemma agentd_assignment:
  assumes "cfg_agentd_mode (me_config cl)" "\<And>p r. E (ReadStart p r)"
    and "\<And>t. E (RunAccept (accept_argv (cfg_coordinator_cli_path (me_config cl)) (ch_workspace_id h) (ch_task_id h)
      (cfg_id (me_config cl)) t))"
  shows "runs R (handle_assignment env cl m h)"
  unfolding handle_assignment_def continue_assignment_def Let_def
  by (intro bridge_rules start_texts [OF assms(2) disjI1 [OF assms(1)]] agentd_work [OF assms(1)] assms(3))

end

context bridge_agentd
begin

lemma agentd_command: "cfg_agentd_mode (me_config cl) \<Longrightarrow> runs R (handle_operator_command env cl cmd c t)"
  unfolding handle_operator_command_def cmd_health_def by (simp, intro conjI impI bridge_rules)

lemma agentd_human: "cfg_agentd_mode (me_config cl) \<Longrightarrow> runs R (on_human_message env cl m)"
  unfolding on_human_message_def Let_def by (intro bridge_rules agentd_command agentd_request) simp_all

lemma agentd_edit: "cfg_agentd_mode (me_config cl) \<Longrightarrow> runs R (on_message_edit env cl m)"
  unfolding on_message_edit_def by (intro bridge_rules agentd_request) simp_all

end

section \<open>All effects\<close>

locale bridge_full = bridge_agentd +
  assumes local: "E (Adapter c)" "E HealthCheck" "E (ReadStart path rel)" "E (ResolvePath db workspace)" "E (Respond text)"
begin

lemma adapter [bridge_rules]: "runs R (adapter_step env p c)"
  unfolding adapter_step_def by (intro bridge_rules local)

lemma fresh [bridge_rules]: "runs R (fresh_call env cl p prompt)"
  unfolding fresh_call_def by (intro bridge_rules)

lemma existing [bridge_rules]: "runs R (existing_session env cl scopes)"
  unfolding existing_session_def by (intro bridge_rules)

lemma resume [bridge_rules]: "runs R (resume_or_call env cl p prompt x)"
  unfolding resume_or_call_def by (intro bridge_rules)

lemma run_adapter [bridge_rules]: "runs R (run_adapter_for_scope env cl prompt scope legacy p)"
  unfolding run_adapter_for_scope_def by (intro bridge_rules)

lemma adapter_response [bridge_rules]: "runs R (send_adapter_response env cl t p c)"
  unfolding send_adapter_response_def by (intro bridge_rules)

lemma request [bridge_rules]: "runs R (handle_request env cl m)"
  unfolding handle_request_def by (intro bridge_rules)

lemma work [bridge_rules]: "runs R (work_on_handoff env cl h m prompt summary w f i)"
  unfolding work_on_handoff_def by (intro bridge_rules)

lemma start_text [bridge_rules]:
  "runs R (resolve_bootstrap_workspace_path env cl h)" "runs R (bridge_read_bootstrap env p r)"
  "runs R (bootstrap_from_file env cl h)"
  using local by (blast intro: start_texts)+

lemma review [bridge_rules]: "runs R (handle_review_handoff env cl m h)"
  unfolding handle_review_handoff_def Let_def by (intro bridge_rules)

lemma continue [bridge_rules]: "runs R (continue_assignment env cl m h output)"
  unfolding continue_assignment_def Let_def by (intro bridge_rules)

lemma assignment:
  assumes "\<And>t. E (RunAccept (accept_argv (cfg_coordinator_cli_path (me_config cl)) (ch_workspace_id h) (ch_task_id h)
      (cfg_id (me_config cl)) t))"
  shows "runs R (handle_assignment env cl m h)"
  unfolding handle_assignment_def by (intro bridge_rules assms)

lemma operator_command [bridge_rules]: "runs R (handle_operator_command env cl cmd c t)"
  unfolding handle_operator_command_def cmd_health_def by (intro bridge_rules local)

lemma slash [bridge_rules]: "runs R (slash_command env cl m cmd)"
  unfolding slash_command_def Let_def by (intro bridge_rules local)

lemma human [bridge_rules]: "runs R (on_human_message env cl m)"
  unfolding on_human_message_def Let_def by (intro bridge_rules)

lemma edited [bridge_rules]: "runs R (on_message_edit env cl m)"
  unfolding on_message_edit_def by (intro bridge_rules)

end

section \<open>Handlers\<close>

lemma handled_handoff:
  assumes "bridge_run R E env"
    and "\<And>h. read_handoff cl m = Inr (Some h) \<Longrightarrow> cfg_agentd_mode (me_config cl) \<longrightarrow> has_v1_handoff_authority h \<Longrightarrow> ch_action h \<noteq> ''review.begin''
      \<Longrightarrow> runs R (handle_assignment env cl m h)"
    and "\<And>h. runs R (handle_review_handoff env cl m h)" "\<And>h r. runs R (send_blocker env h r)"
  shows "runs R (try_coordinator_handoff env cl m)"
proof -
  note rules = bridge_run.ret [OF assms(1)] bridge_run.seq [OF assms(1)]
  show ?thesis
  proof (cases "read_handoff cl m")
    case (Inl c)
    then show ?thesis
      using bridge_run.raise [OF assms(1)] by (simp add: try_coordinator_handoff_def blift_def bbind_def braise_def runs_def)
  next
    case (Inr found)
    then have "try_coordinator_handoff env cl m =
      (case found of
         None \<Rightarrow> bret False
       | Some h \<Rightarrow>
           if cfg_agentd_mode (me_config cl) \<and> \<not> has_v1_handoff_authority h
             then bseq (send_blocker env h ''managed mode requires a complete v1 handoff authority'') (bret True)
           else if ch_action h = ''review.begin'' then handle_review_handoff env cl m h
           else handle_assignment env cl m h)"
      by (simp add: try_coordinator_handoff_def blift_def bbind_def bret_def)
    then show ?thesis
      using Inr assms(2-4) by (auto split: option.split intro: rules)
  qed
qed

text \<open>When the accept command may be run for a handoff \<open>h\<close> in a message \<open>m\<close>.\<close>
definition may_accept :: "bridge_self \<Rightarrow> discord_message \<Rightarrow> coordinator_handoff \<Rightarrow> bool" where
  "may_accept cl m h =
     (dm_author_bot m \<and> from_coordinator cl m \<and> dm_author_id m \<noteq> me_user_id cl \<and> channel_allowed cl m
      \<and> cfg_respond_to_bots (me_config cl) \<and> is_addressed_to_me cl m
      \<and> read_handoff cl m = Inr (Some h) \<and> ch_action h = ''assignment.accept''
      \<and> (cfg_agentd_mode (me_config cl) \<longrightarrow> has_v1_handoff_authority h))"

definition accept_of :: "bridge_self \<Rightarrow> coordinator_handoff \<Rightarrow> int \<Rightarrow> bridge_event" where
  "accept_of cl h t =
     RunAccept (accept_argv (cfg_coordinator_cli_path (me_config cl)) (ch_workspace_id h) (ch_task_id h) (cfg_id (me_config cl)) t)"

lemma read_handoff_sound:
  assumes "read_handoff cl m = Inr (Some h)"
  shows "safe_id (ch_workspace_id h)" "safe_id (ch_task_id h)" "ch_action h \<in> set ALLOWED_ACTIONS"
proof -
  obtain d where "parse_coordinator_handoff (me_user_id cl) d (dm_content m) = Inr (Some h)"
    using assms by (auto simp: read_handoff_def result_simps split: if_splits)
  then obtain kvs where "handoff_of_fields d kvs = Some h"
    by (auto simp: parse_coordinator_handoff_def result_simps split: option.splits)
  then show "safe_id (ch_workspace_id h)" "safe_id (ch_task_id h)" "ch_action h \<in> set ALLOWED_ACTIONS"
    using handoff_of_fields_sound(1-3) by blast+
qed

lemma read_assignment:
  "read_handoff cl m = Inr (Some h) \<Longrightarrow> ch_action h \<noteq> ''review.begin'' \<Longrightarrow> ch_action h = ''assignment.accept''"
  using read_handoff_sound(3) by (fastforce simp: ALLOWED_ACTIONS_def)

lemma message_route:
  assumes run: "bridge_run R E env"
    and "\<And>h. may_accept cl m h \<Longrightarrow> runs R (handle_assignment env cl m h)"
    and "\<And>h. runs R (handle_review_handoff env cl m h)" "\<And>h r. runs R (send_blocker env h r)"
    and "runs R (try_coordinator_lifecycle env cl m)" "runs R (handle_request env cl m)" "runs R (on_human_message env cl m)"
  shows "runs R (on_message env cl m)"
proof -
  have handoff: "runs R (try_coordinator_handoff env cl m)"
    if "dm_author_bot m" "from_coordinator cl m" "dm_author_id m \<noteq> me_user_id cl" "channel_allowed cl m"
      "cfg_respond_to_bots (me_config cl)" "is_addressed_to_me cl m"
    using handled_handoff [OF run] assms(2-4) that read_assignment unfolding may_accept_def by blast
  have "runs R (on_bot_message env cl m)"
    if "dm_author_bot m" "dm_author_id m \<noteq> me_user_id cl" "channel_allowed cl m"
    unfolding on_bot_message_def
    by (intro bridge_rules bridge_run.ret [OF run] bridge_run.bind [OF run] bridge_run.seq [OF run] bridge_run.lifted [OF run]
        bridge_run.incoming [OF run] handoff assms that) simp_all
  then show ?thesis
    using assms(7) bridge_run.ret [OF run] by (auto simp: on_message_def)
qed

end
