(* ===== verification/BridgeSafety.thy ===== *)
theory BridgeSafety
  imports BridgeContract
begin

text \<open>
  Properties of the Discord client: who can make it run the accept command, what it does without
  authority, what an agentd client never touches, that work follows acceptance, and that its tables keep
  their invariants. Each is an interpretation of the locales of \<open>BridgeContract\<close>.
\<close>

section \<open>What the trace grows by\<close>

definition grows :: "(bridge_event \<Rightarrow> bool) \<Rightarrow> bridge_state \<Rightarrow> bridge_state \<Rightarrow> bool" where
  "grows P s s' = (\<exists>es. bs_trace s' = bs_trace s @ es \<and> list_all P es)"

lemma trace_same: "bs_trace s' = bs_trace s \<Longrightarrow> grows P s s'"
  by (simp add: grows_def)

lemma trace_step: "P e \<Longrightarrow> grows P s (s\<lparr>bs_trace := bs_trace s @ [e]\<rparr>)"
  by (simp add: grows_def)

lemma trace_trans: "grows P s u \<Longrightarrow> grows P u v \<Longrightarrow> grows P s v"
  unfolding grows_def by fastforce

interpretation growth: bridge_run "grows P" P env for P env
  by unfold_locales (auto intro: trace_same trace_step trace_trans)

text \<open>Every event but the accept command, which has to satisfy a condition.\<close>
fun accepts_only :: "(string list \<Rightarrow> bool) \<Rightarrow> bridge_event \<Rightarrow> bool" where
  "accepts_only c (RunAccept argv) = c argv"
| "accepts_only c e = True"

interpretation accepting: bridge_full "grows (accepts_only c)" "accepts_only c" env for c env
  by unfold_locales simp_all

text \<open>What a client in agentd mode may do.\<close>
fun remote :: "bridge_event \<Rightarrow> bool" where
  "remote (Adapter c) = False"
| "remote (ResolvePath db w) = False"
| "remote HealthCheck = False"
| "remote e = True"

definition stays_remote :: "bridge_state \<Rightarrow> bridge_state \<Rightarrow> bool" where
  "stays_remote s s' = (grows remote s s' \<and> (bs_sessions s = None \<longrightarrow> bs_sessions s' = None))"

interpretation agentd: bridge_agentd stays_remote remote env for env
  by unfold_locales (auto simp: stays_remote_def intro: trace_same trace_step trace_trans)

text \<open>Work is given to an adapter or to the runtime.\<close>
fun idle :: "bridge_event \<Rightarrow> bool" where
  "idle (Adapter c) = False"
| "idle (Cli argv) = False"
| "idle e = True"

interpretation idling: bridge_talk "grows idle" idle env for env
  by unfold_locales simp_all

section \<open>The accept command\<close>

definition is_accept :: "bridge_event \<Rightarrow> bool" where
  "is_accept e = (case e of RunAccept argv \<Rightarrow> True | _ \<Rightarrow> False)"

definition accepting_at_most :: "nat \<Rightarrow> 'a bridge \<Rightarrow> bool" where
  "accepting_at_most n m =
     (\<forall>s. \<exists>es. bs_trace (snd (m s)) = bs_trace s @ es \<and> length (filter is_accept es) \<le> n)"

lemma accepting_none: "runs (grows (accepts_only (\<lambda>argv. False))) m \<Longrightarrow> accepting_at_most n m"
proof -
  have "accepts_only (\<lambda>argv. False) e \<Longrightarrow> \<not> is_accept e" for e
    by (cases e) (simp_all add: is_accept_def)
  then show "runs (grows (accepts_only (\<lambda>argv. False))) m \<Longrightarrow> accepting_at_most n m"
    unfolding runs_def grows_def accepting_at_most_def
    by (metis (no_types, lifting) filter_False le0 list.size(3) list_all_iff)
qed

lemma accepting_bind:
  assumes "accepting_at_most a m" "\<And>x. accepting_at_most b (f x)"
  shows "accepting_at_most (a + b) (bbind m f)"
  unfolding accepting_at_most_def
proof
  fix s
  obtain r u where m: "m s = (r, u)"
    by (cases "m s")
  obtain es where es: "bs_trace u = bs_trace s @ es" "length (filter is_accept es) \<le> a"
    using assms(1) m unfolding accepting_at_most_def by (metis snd_conv)
  show "\<exists>es. bs_trace (snd (bbind m f s)) = bs_trace s @ es \<and> length (filter is_accept es) \<le> a + b"
  proof (cases r)
    case (Inl e)
    then show ?thesis
      using es m by (auto simp: bbind_def)
  next
    case (Inr x)
    obtain fs where "bs_trace (snd (f x u)) = bs_trace u @ fs" "length (filter is_accept fs) \<le> b"
      using assms(2) [of x] unfolding accepting_at_most_def by blast
    then show ?thesis
      using es m Inr by (auto simp: bbind_def intro!: exI [of _ "es @ fs"])
  qed
qed

lemma accepting_seq: "accepting_at_most 0 m \<Longrightarrow> accepting_at_most n k \<Longrightarrow> accepting_at_most n (bseq m k)"
  using accepting_bind [of 0 m n "\<lambda>_. k"] by (simp add: bseq_def)

lemma accepting_bind_none: "accepting_at_most 0 m \<Longrightarrow> (\<And>x. accepting_at_most n (f x)) \<Longrightarrow> accepting_at_most n (bbind m f)"
  using accepting_bind [of 0 m n f] by simp

lemma accepting_step: "accepting_at_most 1 (bstep e answer)"
  by (simp add: accepting_at_most_def bstep_def)

lemma accepting_bind_pair:
  "accepting_at_most n m \<Longrightarrow> (\<And>x y. accepting_at_most 0 (f x y)) \<Longrightarrow> accepting_at_most n (bbind m (\<lambda>(x, y). f x y))"
  using accepting_bind [of n m 0 "\<lambda>(x, y). f x y"] by (simp add: split_beta)

lemma accepting_assignment: "accepting_at_most 1 (handle_assignment env cl m h)"
proof -
  have "accepting_at_most 1 (run_accept env cl h)"
    unfolding run_accept_def
    by (intro accepting_bind_none accepting_none [OF accepting.clock] accepting_none [OF growth.pure] accepting_none [OF growth.lifted])
      (auto split: accept_plan.split intro: accepting_none [OF growth.ret] accepting_step simp del: One_nat_def)
  moreover have "accepting_at_most 0 (if \<not> success
      then bseq (send_blocker env h (''assignment accept failed: '' @ take 500 result)) (bret True)
      else continue_assignment env cl m h result)" for success result
    by (rule accepting_none, intro bridge_rules)
  ultimately show ?thesis
    unfolding handle_assignment_def by (rule accepting_bind_pair)
qed

lemma accepting_handoff: "accepting_at_most 1 (try_coordinator_handoff env cl m)"
proof -
  have "accepting_at_most 1 (bret False)" "accepting_at_most 1 (bseq (send_blocker env h r) (bret True))"
    "accepting_at_most 1 (handle_review_handoff env cl m h)" for h r
    by (rule accepting_none; intro bridge_rules)+
  then show ?thesis
    unfolding try_coordinator_handoff_def
    by (intro accepting_bind_none accepting_none [OF growth.lifted])
      (auto split: option.split intro: accepting_assignment simp del: One_nat_def)
qed

lemma accepting_message: "accepting_at_most 1 (on_message env cl m)"
proof -
  have quiet: "accepting_at_most 1 (handle_request env cl m)" "accepting_at_most 1 (on_human_message env cl m)"
    "accepting_at_most 1 (bret ())" "accepting_at_most 0 (record_incoming env cl m)"
    "accepting_at_most 0 (try_coordinator_lifecycle env cl m)" "accepting_at_most 0 (blift x)" "accepting_at_most 0 (bret a)"
    for x :: "string + lifecycle_event option" and a :: "lifecycle_event option"
    by (rule accepting_none; intro bridge_rules)+
  have "accepting_at_most 1 (bbind (try_coordinator_handoff env cl m) (\<lambda>handled. if handled then bret () else handle_request env cl m))"
    using accepting_bind [OF accepting_handoff, of 0 "\<lambda>handled. if handled then bret () else handle_request env cl m"]
    by (simp add: accepting_none growth.ret accepting.request del: One_nat_def)
  then have "accepting_at_most 1 (on_bot_message env cl m)"
    unfolding on_bot_message_def using quiet by (auto intro!: accepting_bind_none accepting_seq simp del: One_nat_def)
  then show ?thesis
    using quiet by (simp add: on_message_def del: One_nat_def)
qed

text \<open>
  C4: only the coordinator makes a client accept an assignment, and only for itself. Whatever message
  arrives and whatever the environment answers, the accept command is run at most once, and when it is
  run, the message was written by the configured coordinator bot, not by the client itself, in an allowed
  channel, to a client that answers bots and is addressed; it is a handoff with the action
  \<open>assignment.accept\<close>, in agentd mode with complete authority; and the command line is the fixed one, with
  this agent as the owner and the two ids of the handoff, which are safe.
\<close>
theorem accept_only_for_coordinator:
  assumes "on_message env cl m s = (r, s')"
  shows "\<exists>es. bs_trace s' = bs_trace s @ es \<and> length (filter is_accept es) \<le> 1
    \<and> (\<forall>argv. RunAccept argv \<in> set es \<longrightarrow> (\<exists>h t. may_accept cl m h \<and> safe_id (ch_workspace_id h) \<and> safe_id (ch_task_id h)
         \<and> argv = accept_argv (cfg_coordinator_cli_path (me_config cl)) (ch_workspace_id h) (ch_task_id h) (cfg_id (me_config cl)) t))"
proof -
  let ?c = "\<lambda>argv. \<exists>h t. may_accept cl m h \<and> RunAccept argv = accept_of cl h t"
  have "runs (grows (accepts_only ?c)) (on_message env cl m)"
  proof (rule message_route [OF growth.bridge_run_axioms])
    fix h
    assume "may_accept cl m h"
    then have "accepts_only ?c (accept_of cl h t)" for t
      by (auto simp: accept_of_def)
    then show "runs (grows (accepts_only ?c)) (handle_assignment env cl m h)"
      unfolding accept_of_def by (rule accepting.assignment)
  qed (rule accepting.review accepting.blocker accepting.lifecycle accepting.request accepting.human)+
  then have "grows (accepts_only ?c) s (snd (on_message env cl m s))"
    unfolding runs_def by blast
  then obtain es where es: "bs_trace s' = bs_trace s @ es" "list_all (accepts_only ?c) es"
    by (auto simp: grows_def assms)
  have "length (filter is_accept es) \<le> 1"
  proof -
    obtain fs where "bs_trace (snd (on_message env cl m s)) = bs_trace s @ fs" "length (filter is_accept fs) \<le> 1"
      using accepting_message [of env cl m] unfolding accepting_at_most_def by blast
    then show ?thesis
      using es(1) assms by simp
  qed
  moreover have "\<exists>h t. may_accept cl m h \<and> safe_id (ch_workspace_id h) \<and> safe_id (ch_task_id h)
         \<and> argv = accept_argv (cfg_coordinator_cli_path (me_config cl)) (ch_workspace_id h) (ch_task_id h) (cfg_id (me_config cl)) t"
    if "RunAccept argv \<in> set es" for argv
    using es(2) that read_handoff_sound unfolding may_accept_def accept_of_def by (fastforce simp: list_all_iff)
  ultimately show ?thesis
    using es(1) by blast
qed

section \<open>A client in agentd mode\<close>

text \<open>
  C26: a client in agentd mode leaves all work to the runtime. Whatever message arrives or is edited, and
  whatever the environment answers, it never calls an adapter and never looks up a workspace in the
  database of the coordinator, and it never gets a table of sessions.
\<close>
theorem agentd_client_stays_remote:
  assumes "cfg_agentd_mode (me_config cl)" "bs_sessions s = None"
    and "on_message env cl m s = (r, s') \<or> on_message_edit env cl m s = (r, s')"
  shows "bs_sessions s' = None \<and> (\<exists>es. bs_trace s' = bs_trace s @ es
    \<and> (\<forall>e \<in> set es. \<forall>c db w. e \<noteq> Adapter c \<and> e \<noteq> ResolvePath db w \<and> e \<noteq> HealthCheck))"
proof -
  have "runs stays_remote (on_message env cl m)"
    by (rule message_route [OF agentd.bridge_run_axioms])
      (simp_all add: agentd.agentd_assignment agentd.agentd_review agentd.blocker agentd.lifecycle agentd.agentd_request
        agentd.agentd_human assms(1))
  moreover have "runs stays_remote (on_message_edit env cl m)"
    using agentd.agentd_edit [OF assms(1)] .
  ultimately have "stays_remote s s'"
    using assms(3) unfolding runs_def by (metis snd_conv)
  moreover have "remote e \<Longrightarrow> e \<noteq> Adapter c \<and> e \<noteq> ResolvePath db w \<and> e \<noteq> HealthCheck" for e c db w
    by (cases e) simp_all
  ultimately show ?thesis
    using assms(2) by (auto simp: stays_remote_def grows_def list_all_iff)
qed

section \<open>Work follows acceptance\<close>

definition accept_report :: "coordinator_handoff \<Rightarrow> string \<Rightarrow> bool" where
  "accept_report h text =
     (\<exists>summary. build_agent_report ''accept'' (ch_workspace_id h) (ch_task_id h) (Some summary) None = Inr text)"

text \<open>The events hold no work, or the work comes after an accept report for \<open>h\<close>.\<close>
definition accepted_first :: "coordinator_handoff \<Rightarrow> bridge_trace \<Rightarrow> bool" where
  "accepted_first h es =
     (list_all idle es \<or> (\<exists>pre text post. es = pre @ Send text True # post \<and> list_all idle pre \<and> accept_report h text))"

definition accepts_before :: "coordinator_handoff \<Rightarrow> 'a bridge \<Rightarrow> bool" where
  "accepts_before h m = (\<forall>s. \<exists>es. bs_trace (snd (m s)) = bs_trace s @ es \<and> accepted_first h es)"

lemma accepts_before_idle: "runs (grows idle) m \<Longrightarrow> accepts_before h m"
  unfolding runs_def grows_def accepts_before_def accepted_first_def by blast

lemma accepted_first_append: "list_all idle es \<Longrightarrow> accepted_first h fs \<Longrightarrow> accepted_first h (es @ fs)"
  unfolding accepted_first_def
proof (elim disjE exE conjE)
  fix pre msg post
  assume "list_all idle es" "fs = pre @ Send msg True # post" "list_all idle pre" "accept_report h msg"
  then have "es @ fs = (es @ pre) @ Send msg True # post" "list_all idle (es @ pre)"
    by simp_all
  then show "list_all idle (es @ fs) \<or> (\<exists>pre text post. es @ fs = pre @ Send text True # post \<and> list_all idle pre \<and> accept_report h text)"
    using \<open>accept_report h msg\<close> by blast
qed simp

lemma accepts_before_bind:
  assumes "runs (grows idle) m" "\<And>a. accepts_before h (f a)"
  shows "accepts_before h (bbind m f)"
  unfolding accepts_before_def
proof
  fix s
  obtain r u where m: "m s = (r, u)"
    by (cases "m s")
  have "grows idle s u"
    using assms(1) m unfolding runs_def by (metis snd_conv)
  then obtain es where es: "bs_trace u = bs_trace s @ es" "list_all idle es"
    by (auto simp: grows_def)
  show "\<exists>es. bs_trace (snd (bbind m f s)) = bs_trace s @ es \<and> accepted_first h es"
  proof (cases r)
    case (Inl e)
    then show ?thesis
      using es m by (auto simp: bbind_def accepted_first_def)
  next
    case (Inr x)
    obtain fs where "bs_trace (snd (f x u)) = bs_trace u @ fs" "accepted_first h fs"
      using assms(2) [of x] unfolding accepts_before_def by blast
    then show ?thesis
      using es m Inr accepted_first_append by (auto simp: bbind_def intro!: exI [of _ "es @ fs"])
  qed
qed

lemma accept_report_text:
  "\<exists>msg. build_agent_report ''accept'' w k (Some summary) None = Inr msg"
proof -
  have "map py_lower ''accept'' = ''accept''" "''accept'' \<in> set REPORT_ACTIONS"
    by code_simp+
  then show ?thesis
    by (simp add: build_agent_report_def Let_def)
qed

lemma accepts_before_work:
  "accepts_before h (bseq (work_on_handoff env cl h m prompt summary w f i) (bret True))"
  unfolding accepts_before_def
proof
  fix s
  obtain msg where msg: "build_agent_report ''accept'' (ch_workspace_id h) (ch_task_id h) (Some summary) None = Inr msg"
    using accept_report_text by blast
  have report: "send_report env ''accept'' (ch_workspace_id h) (ch_task_id h) (Some summary) None = bsend env msg True"
    by (simp add: send_report_def msg blift_def bbind_def bret_def)
  let ?rest = "bbind (sends_ok (bsend env w False)) (\<lambda>placeholder.
       bbind (if cfg_agentd_mode (me_config cl)
              then run_handoff_via_agentd env cl h prompt m placeholder (task_scope (ch_workspace_id h) (ch_task_id h))
              else bbind (run_adapter_for_scope env cl prompt (task_scope (ch_workspace_id h) (ch_task_id h)) [] placeholder)
                     (\<lambda>r. bret (ar_text r, is_error_response (ar_text r)))) (\<lambda>answer.
       publish_response env cl h m placeholder f i answer))"
  have any: "runs (grows (accepts_only (\<lambda>_. True))) (bseq ?rest (bret True))"
    by (intro bridge_rules)
  have work: "bseq (work_on_handoff env cl h m prompt summary w f i) (bret True) = bseq (bsend env msg True) (bseq ?rest (bret True))"
    by (auto simp: work_on_handoff_def Let_def report bseq_def bbind_def fun_eq_iff split: prod.splits sum.splits)
  obtain r u where send: "bsend env msg True s = (r, u)" "bs_trace u = bs_trace s @ [Send msg True]"
    by (auto simp: bsend_def bstep_def)
  have "\<exists>post. bs_trace (snd (bseq (bsend env msg True) (bseq ?rest (bret True)) s)) = bs_trace u @ post"
  proof (cases r)
    case (Inl e)
    then show ?thesis
      by (simp add: bseq_def bbind_def send(1))
  next
    case (Inr x)
    then have "snd (bseq (bsend env msg True) (bseq ?rest (bret True)) s) = snd (bseq ?rest (bret True) u)"
      by (simp add: bseq_def bbind_def send(1))
    then show ?thesis
      using any unfolding runs_def grows_def by metis
  qed
  then obtain post where post: "bs_trace (snd (bseq (bsend env msg True) (bseq ?rest (bret True)) s)) = bs_trace s @ Send msg True # post"
    using send(2) by auto
  have "accept_report h msg"
    using msg by (auto simp: accept_report_def)
  then have "accepted_first h (Send msg True # post)"
    unfolding accepted_first_def by (intro disjI2 exI [of _ "[]"] exI [of _ msg] exI [of _ post]) simp
  then show "\<exists>es. bs_trace (snd (bseq (work_on_handoff env cl h m prompt summary w f i) (bret True) s)) = bs_trace s @ es \<and> accepted_first h es"
    unfolding work using post by blast
qed

lemma accepts_before_review: "accepts_before h (handle_review_handoff env cl m h)"
proof -
  have "accepts_before h (bseq (send_blocker env h r) (bret True))" for r
    by (rule accepts_before_idle, intro bridge_rules)
  moreover have "runs (grows idle) (resolve_bootstrap_workspace_path env cl h)" "runs (grows idle) (bridge_read_bootstrap env p r)" for p r
    by (rule idling.start_texts; simp)+
  ultimately show ?thesis
    unfolding handle_review_handoff_def Let_def
    by (auto intro!: accepts_before_bind accepts_before_work growth.ret intro: accepts_before_idle)
qed

lemma accepts_before_continue: "accepts_before h (continue_assignment env cl m h result)"
proof -
  have "accepts_before h (bseq (send_blocker env h r) (bret True))" for r
    by (rule accepts_before_idle, intro bridge_rules)
  moreover have "runs (grows idle) (bootstrap_from_file env cl h)"
    by (rule idling.start_texts) simp_all
  ultimately show ?thesis
    unfolding continue_assignment_def Let_def
    by (auto intro!: accepts_before_bind accepts_before_work growth.ret growth.lifted split: option.split intro: accepts_before_idle)
qed

text \<open>A run of the accept command that succeeds leaves its event, and its command has ended with 0.\<close>
lemma run_accept_success:
  assumes "run_accept env cl h s = (Inr (True, result), u)"
  shows "\<exists>es tr argv environ out err. bs_trace u = bs_trace s @ es \<and> RunAccept argv \<in> set es
    \<and> be_accept env tr argv environ = AcceptExited 0 out err"
proof -
  have answer: "accept_result a = (True, result) \<Longrightarrow> \<exists>out err. a = AcceptExited 0 out err" for a
    by (cases a) (auto simp: accept_result_def)
  show ?thesis
    using assms
    by (fastforce simp: run_accept_def bnow_def bstep_def bbind_def blift_def bret_def braise_def split: sum.splits accept_plan.splits dest: answer)
qed

lemma assignment_accepted:
  "\<exists>es. bs_trace (snd (handle_assignment env cl m h s)) = bs_trace s @ es
    \<and> (list_all idle es
       \<or> (\<exists>pre report post tr argv environ out err. es = pre @ Send report True # post \<and> list_all idle pre
            \<and> accept_report h report \<and> RunAccept argv \<in> set pre \<and> be_accept env tr argv environ = AcceptExited 0 out err))"
proof -
  obtain r u where accept: "run_accept env cl h s = (r, u)"
    by (cases "run_accept env cl h s")
  have "runs (grows idle) (run_accept env cl h)"
    by (rule idling.accept_command) simp
  then obtain es where es: "bs_trace u = bs_trace s @ es" "list_all idle es"
    using accept unfolding runs_def grows_def by (metis snd_conv)
  show ?thesis
  proof (cases "\<exists>result. r = Inr (True, result)")
    case True
    then obtain result where r: "r = Inr (True, result)"
      by blast
    then have last: "snd (handle_assignment env cl m h s) = snd (continue_assignment env cl m h result u)"
      using accept by (simp add: handle_assignment_def bbind_def)
    then obtain fs where fs: "bs_trace (snd (handle_assignment env cl m h s)) = bs_trace u @ fs" "accepted_first h fs"
      using accepts_before_continue [of h env cl m result] unfolding accepts_before_def by metis
    obtain tr argv environ out err where ok: "RunAccept argv \<in> set es" "be_accept env tr argv environ = AcceptExited 0 out err"
      using run_accept_success [of env cl h s result u] accept r es(1) by auto
    consider "list_all idle fs"
      | pre report post where "fs = pre @ Send report True # post" "list_all idle pre" "accept_report h report"
      using fs(2) unfolding accepted_first_def by blast
    then show ?thesis
    proof cases
      case 1
      then show ?thesis
        using es fs(1) by (intro exI [of _ "es @ fs"]) simp
    next
      case 2
      then have "es @ fs = (es @ pre) @ Send report True # post" "list_all idle (es @ pre)" "RunAccept argv \<in> set (es @ pre)"
        using es(2) ok(1) by simp_all
      moreover have "bs_trace (snd (handle_assignment env cl m h s)) = bs_trace s @ es @ fs"
        using es(1) fs(1) by simp
      ultimately show ?thesis
        using 2(3) ok(2) by blast
    qed
  next
    case False
    then consider "snd (handle_assignment env cl m h s) = u"
      | reason where "snd (handle_assignment env cl m h s) = snd (bseq (send_blocker env h reason) (bret True) u)"
      using accept by (cases r) (auto simp: handle_assignment_def bbind_def)
    then have "grows idle u (snd (handle_assignment env cl m h s))"
    proof cases
      case 2
      have "runs (grows idle) (bseq (send_blocker env h reason) (bret True))"
        by (intro bridge_rules)
      then show ?thesis
        using 2 unfolding runs_def by simp
    qed (simp add: trace_same)
    then obtain fs where "bs_trace (snd (handle_assignment env cl m h s)) = bs_trace u @ fs" "list_all idle fs"
      by (auto simp: grows_def)
    then show ?thesis
      using es by (intro exI [of _ "es @ fs"]) simp
  qed
qed


section \<open>The tables keep their invariants\<close>

definition bridge_wf :: "bridge_env \<Rightarrow> bridge_state \<Rightarrow> bool" where
  "bridge_wf env s =
     (messages_wf (bt_cycle (be_text env) @ '' thinking...'') (bs_context s)
      \<and> (case bs_sessions s of None \<Rightarrow> True | Some t \<Rightarrow> store_wf t))"

definition keeps :: "bridge_env \<Rightarrow> bridge_state \<Rightarrow> bridge_state \<Rightarrow> bool" where
  "keeps env s s' = (bridge_wf env s \<longrightarrow> bridge_wf env s')"

interpretation keeping: bridge_full "keeps env" "\<lambda>_. True" env for env
  by unfold_locales
    (auto simp: keeps_def bridge_wf_def record_message_wf upsert_wf split: option.splits dest: mark_scope_status_wf)

datatype bridge_input = Incoming discord_message | Edited discord_message | SlashCommand discord_message string

definition handle_input :: "bridge_env \<Rightarrow> bridge_self \<Rightarrow> bridge_input \<Rightarrow> unit bridge" where
  "handle_input env cl i =
     (case i of
        Incoming m \<Rightarrow> on_message env cl m
      | Edited m \<Rightarrow> on_message_edit env cl m
      | SlashCommand m cmd \<Rightarrow> slash_command env cl m cmd)"

text \<open>A handler may end in an exception; the next event finds the state it left.\<close>
definition bridge_events :: "bridge_env \<Rightarrow> bridge_self \<Rightarrow> bridge_input list \<Rightarrow> bridge_state" where
  "bridge_events env cl inputs =
     foldl (\<lambda>s i. snd (handle_input env cl i s))
       \<lparr>bs_context = [], bs_sessions = (if cfg_agentd_mode (me_config cl) then None else Some []), bs_trace = []\<rparr> inputs"

text \<open>
  C20: the tables of a client are well-formed after any sequence of events. Messages, edits and slash
  commands may come in any order, and every answer of the environment may fail: the table of messages has
  distinct ids and visible contents, and the table of sessions has distinct keys and valid rows.
\<close>
theorem bridge_tables_invariant: "bridge_wf env (bridge_events env cl inputs)"
proof (induction inputs rule: rev_induct)
  case Nil
  show ?case
    by (simp add: bridge_events_def bridge_wf_def messages_wf_def store_wf_def)
next
  case (snoc i inputs)
  have "runs (keeps env) (on_message env cl m)" for m
    by (rule message_route [OF keeping.bridge_run_axioms])
      (simp_all add: keeping.assignment keeping.review keeping.blocker keeping.lifecycle keeping.request keeping.human)
  then have "runs (keeps env) (handle_input env cl i)"
    by (simp add: handle_input_def keeping.edited keeping.slash split: bridge_input.split)
  then show ?case
    using snoc unfolding runs_def keeps_def by (simp add: bridge_events_def)
qed

section \<open>Silence and refusal\<close>

text \<open>The messages that a client answers.\<close>
definition answered :: "bridge_self \<Rightarrow> discord_message \<Rightarrow> bool" where
  "answered cl m =
     (dm_author_id m \<noteq> me_user_id cl \<and> channel_allowed cl m \<and> is_addressed_to_me cl m
      \<and> (if dm_author_bot m
         then cfg_respond_to_bots (me_config cl)
           \<and> (handles_handoff cl m
              \<or> from_coordinator cl m \<and> parse_coordinator_lifecycle (me_user_id cl) (dm_content m) \<noteq> Inr None)
         else cfg_allowed_user_ids (me_config cl) = [] \<or> dm_author_id m \<in> set (cfg_allowed_user_ids (me_config cl))))"

text \<open>
  C40: a client keeps silent unless it is asked. For any message that is its own, in another channel, not
  addressed to it, of a bot without a handoff to this agent or a notice of the coordinator, or of a user who
  is not allowed, it sends nothing, runs nothing and leaves its sessions alone. The most it does is to keep
  the message of an allowed user as context.
\<close>
theorem silent_unless_asked:
  assumes "\<not> answered cl m" "on_message env cl m s = (r, s')"
  shows "bs_trace s' = bs_trace s \<and> bs_sessions s' = bs_sessions s
    \<and> (bs_context s' \<noteq> bs_context s \<longrightarrow> \<not> dm_author_bot m \<and> s' = snd (record_incoming env cl m s))"
proof (cases "dm_author_bot m")
  case True
  then have "s' = s"
    using assms
    by (auto simp: answered_def on_message_def on_bot_message_def bret_def bbind_def blift_def braise_def
        split: if_splits sum.splits)
  then show ?thesis
    by simp
next
  case False
  then have "s' = s \<or> s' = snd (record_incoming env cl m s)"
    using assms by (auto simp: answered_def on_message_def on_human_message_def Let_def bret_def split: if_splits)
  then show ?thesis
    using False by (auto simp: record_incoming_def bridge_record_def)
qed

text \<open>
  C15: a handoff whose context block is malformed has exactly one effect in agentd mode. When the strict
  reading refuses the handoff of the coordinator and the diagnostic reading finds one, the message is
  recorded, one blocker report is sent with mentions suppressed, and nothing else happens: no accept
  command, no file, no session, no job.
\<close>
theorem malformed_handoff_one_blocker:
  assumes "cfg_agentd_mode (me_config cl)" "answered cl m" "dm_author_bot m" "from_coordinator cl m"
    and "parse_coordinator_lifecycle (me_user_id cl) (dm_content m) = Inr None"
    and "parse_coordinator_handoff (me_user_id cl) False (dm_content m) = Inr None"
    and "parse_coordinator_handoff (me_user_id cl) True (dm_content m) = Inr (Some h)"
    and "on_message env cl m s = (r, s')"
  shows "\<exists>report. build_agent_report ''blocker'' (ch_workspace_id h) (ch_task_id h) None
      (Some ''managed mode requires a complete v1 handoff authority'') = Inr report
    \<and> s' = (snd (record_incoming env cl m s))\<lparr>bs_trace := bs_trace s @ [Send report True]\<rparr>"
proof -
  have "map py_lower ''blocker'' = ''blocker''" "''blocker'' \<in> set REPORT_ACTIONS"
    by code_simp+
  then obtain report where report: "build_agent_report ''blocker'' (ch_workspace_id h) (ch_task_id h) None
      (Some ''managed mode requires a complete v1 handoff authority'') = Inr report"
    by (simp add: build_agent_report_def Let_def)
  have read: "read_handoff cl m = Inr (Some h)"
    using assms(1,6,7) by (simp add: read_handoff_def)
  have "ch_context_version h = None"
    using handoff_of_fields_sound(5) assms(6,7)
    by (fastforce simp: parse_coordinator_handoff_def result_simps split: option.splits)
  then have gate: "try_coordinator_handoff env cl m = bseq (bsend env report True) (bret True)"
    using assms(1) read
    by (simp add: try_coordinator_handoff_def blift_def bbind_def bret_def has_v1_handoff_authority_def send_blocker_def
        send_report_def report)
  have lifecycle: "try_coordinator_lifecycle env cl m = bret False"
    using assms(5) by (simp add: try_coordinator_lifecycle_def blift_def bbind_def bret_def)
  have "on_message env cl m =
    bseq (record_incoming env cl m)
      (bbind (bseq (bsend env report True) (bret True)) (\<lambda>handled. if handled then bret () else handle_request env cl m))"
    using assms(2-5) gate lifecycle
    by (simp add: answered_def on_message_def on_bot_message_def blift_def) (simp add: bbind_def bret_def)
  then have "s' = snd (bseq (bsend env report True) (bret True) (snd (record_incoming env cl m s)))"
    using assms(8)
    by (auto simp: record_incoming_def bridge_record_def bseq_def bbind_def bret_def split: prod.splits sum.splits)
  then have "s' = (snd (record_incoming env cl m s))\<lparr>bs_trace := bs_trace s @ [Send report True]\<rparr>"
    by (simp add: bseq_def bbind_def bret_def bsend_def bstep_def record_incoming_def bridge_record_def split: sum.split)
  then show ?thesis
    using report by blast
qed

section \<open>Where the client goes wrong\<close>

text \<open>A failure of the coordinate command is raised, so an accepted handoff ends without an answer.\<close>
lemma submit_failure_escapes:
  assumes "\<And>tr argv. be_cli env tr argv = CliTimeout"
  shows "fst (run_handoff_via_agentd env cl h prompt m placeholder scope s)
    = Inl (BridgeRaised (OtherException ''CoordinateRuntimeError'' ''coordinate CLI timed out''))"
  by (simp add: run_handoff_via_agentd_def coord_submit_def run_cli_def cli_exec_def assms decode_cli_def bbind_def
      coord_failure_def Let_def)

text \<open>Three kinds of failure that the worker knows are answers to the client.\<close>
lemma client_misses_errors:
  "\<forall>t \<in> {''OpenCode returned no text'', ''omp CLI failed'', ''omp timed out''}. is_error t \<and> \<not> is_error_response t"
  by code_simp

text \<open>Asked for the status of its session, a client in agentd mode fails: it has no table of sessions.\<close>
lemma status_fails_in_agentd:
  assumes "bs_sessions s = None"
  shows "handle_operator_command env cl ''session status'' c t s = (Inl (BridgeRaised (OtherException ''AttributeError'' [])), s)"
  using assms by (simp add: handle_operator_command_def cmd_session_status_def bsessions_def braise_def)

text \<open>The scopes of two tasks with safe ids may be the same, so closing one archives the other.\<close>
lemma task_scopes_collide:
  "task_scope ''a:b'' ''c'' = task_scope ''a'' ''b:c'' \<and> safe_id ''a:b'' \<and> safe_id ''c'' \<and> safe_id ''a'' \<and> safe_id ''b:c''"
  by code_simp

text \<open>
  An edited handoff of the coordinator goes to the runtime as a plain request: without the gate for the
  authority, the accept command or a report.
\<close>
lemma edited_handoff_bypasses_gate:
  assumes "cfg_agentd_mode (me_config cl)" "dm_author_bot m" "dm_author_id m \<noteq> me_user_id cl" "channel_allowed cl m"
    "cfg_respond_to_bots (me_config cl)" "is_addressed_to_me cl m" "handles_handoff cl m"
    and "\<And>tr text. be_send env tr text = Inr ()" "\<And>tr argv. be_cli env tr argv = CliTimeout"
  shows "\<exists>argv. bs_trace (snd (on_message_edit env cl m s))
    = bs_trace s @ [Send (bt_cycle (be_text env) @ '' thinking...'') False, Tick, Cli argv]"
  using assms
  by (simp add: on_message_edit_def bseq_def bbind_def record_incoming_def bridge_record_def handle_request_def Let_def
      sends_ok_def bcatch_http_def bcatch_def bsend_def bstep_def bret_def bnow_def handle_via_agentd_def coord_submit_def
      run_cli_def cli_exec_def decode_cli_def coord_failure_def)

section \<open>Examples\<close>

definition sample_text :: bridge_text where
  "sample_text =
     (let prompt = \<lparr>pt_title = ''t'', pt_task = ''k'', pt_received = ''r'', pt_before_agent = ''b'', pt_after_agent = ''a'',
        pt_received_rules = [], pt_result = ''o'', pt_rules = [], pt_bootstrap = ''s'', pt_missing = ''m''\<rparr>
      in \<lparr>bt_cycle = ''~'', bt_note = ''#'', bt_check = ''+'', bt_handoff = prompt, bt_review = prompt, bt_denied = ''no'',
        bt_denied_explicit = ''no'', bt_channel_denied = ''no'', bt_status = (\<lambda>cfg r d n. ''status''),
        bt_no_session = (\<lambda>d. ''none''), bt_reset = (\<lambda>a d. ''reset''), bt_agents = (\<lambda>ks. ''agents''), bt_health = (\<lambda>cfg d. ''ok'')\<rparr>)"

definition sample_env :: bridge_env where
  "sample_env =
     \<lparr>be_text = sample_text, be_now_ms = (\<lambda>tr. 5000), be_send = (\<lambda>tr t. Inr ()), be_edit = (\<lambda>tr t. Inr ()), be_beats = (\<lambda>tr. []),
      be_accept = (\<lambda>tr argv e. AcceptExited 0 [] []), be_fs = (\<lambda>tr. sample_fs), be_environ = [], be_exists = (\<lambda>tr p. False),
      be_query = (\<lambda>tr d w. NoRow),
      be_adapter = (\<lambda>tr c. Inr \<lparr>ar_text = ''fine'', ar_session_id = Some ''S'', ar_resumed = False, ar_metadata = []\<rparr>),
      be_health = (\<lambda>tr. Inr []), be_cli = (\<lambda>tr argv. CliTimeout), be_loads = (\<lambda>t. Inl ''bad''), be_fuel = 1\<rparr>"

definition sample_self :: "bool \<Rightarrow> bridge_self" where
  "sample_self agentd =
     \<lparr>me_user_id = 11, me_config = sample_config\<lparr>cfg_agentd_mode := agentd\<rparr>, me_router = sample_router, me_client = example_client\<rparr>"

definition sample_message :: "int \<Rightarrow> string \<Rightarrow> discord_message" where
  "sample_message author content =
     \<lparr>dm_id = 1, dm_author_id = author, dm_author_name = ''C'', dm_author_bot = True, dm_content = content, dm_mentions = [11],
      dm_channel_id = 5, dm_parent_id = None, dm_created_at_ms = 4000\<rparr>"

definition sample_start :: "bool \<Rightarrow> bridge_state" where
  "sample_start agentd = \<lparr>bs_context = [], bs_sessions = (if agentd then None else Some []), bs_trace = []\<rparr>"

definition assignment_text :: string where
  "assignment_text = ''[handoff] <@11> workspace_id=w task_id=T action=assignment.accept context_version=1 ''
     @ ''workspace_path=/w harness_root=/h''"

definition broken_block_text :: string where
  "broken_block_text = ''[handoff] <@11> workspace_id=w task_id=T action=assignment.accept context_version=2''"

lemma sample_accepts:
  "list_ex is_accept (bs_trace (snd (on_message sample_env (sample_self True) (sample_message 99 assignment_text) (sample_start True))))"
  by code_simp

theorem accept_only_for_coordinator_witness:
  "length (filter is_accept (bs_trace (snd
     (on_message sample_env (sample_self True) (sample_message 99 assignment_text) (sample_start True))))) = 1"
proof -
  let ?run = "on_message sample_env (sample_self True) (sample_message 99 assignment_text) (sample_start True)"
  obtain es where es: "bs_trace (snd ?run) = bs_trace (sample_start True) @ es" "length (filter is_accept es) \<le> 1"
    using accept_only_for_coordinator [of sample_env "sample_self True" _ _ "fst ?run" "snd ?run"] by (metis prod.collapse)
  have "bs_trace (snd ?run) = es"
    using es(1) by (simp add: sample_start_def)
  then have "filter is_accept es \<noteq> []"
    using sample_accepts by (auto simp: filter_empty_conv list_ex_iff)
  then show ?thesis
    using es(2) \<open>bs_trace (snd ?run) = es\<close> by (cases "filter is_accept es") simp_all
qed

theorem agentd_client_stays_remote_witness:
  "bs_sessions (snd (on_message sample_env (sample_self True) (sample_message 99 assignment_text) (sample_start True))) = None
   \<and> HealthCheck \<notin> set (bs_trace (snd (on_message sample_env (sample_self True) (sample_message 99 assignment_text) (sample_start True))))"
proof -
  let ?run = "on_message sample_env (sample_self True) (sample_message 99 assignment_text) (sample_start True)"
  have "cfg_agentd_mode (me_config (sample_self True))" "bs_sessions (sample_start True) = None" "bs_trace (sample_start True) = []"
    by (simp_all add: sample_self_def sample_start_def)
  then show ?thesis
    using agentd_client_stays_remote [of "sample_self True" "sample_start True" sample_env _ "fst ?run" "snd ?run"]
    by (metis append_Nil prod.collapse)
qed


theorem silent_unless_asked_witness:
  "bs_trace (snd (on_message sample_env (sample_self True) (sample_message 11 assignment_text) (sample_start True))) = []"
proof -
  let ?run = "on_message sample_env (sample_self True) (sample_message 11 assignment_text) (sample_start True)"
  have "\<not> answered (sample_self True) (sample_message 11 assignment_text)" "bs_trace (sample_start True) = []"
    by (simp_all add: answered_def sample_self_def sample_message_def sample_start_def)
  then show ?thesis
    using silent_unless_asked [of "sample_self True" _ sample_env "sample_start True" "fst ?run" "snd ?run"]
    by (metis prod.collapse)
qed

theorem malformed_handoff_one_blocker_witness:
  "\<exists>report. bs_trace (snd (on_message sample_env (sample_self True) (sample_message 99 broken_block_text) (sample_start True)))
    = [Send report True]"
proof -
  let ?m = "sample_message 99 broken_block_text" and ?cl = "sample_self True"
  let ?run = "on_message sample_env ?cl ?m (sample_start True)"
  obtain h where "parse_coordinator_handoff (me_user_id ?cl) True (dm_content ?m) = Inr (Some h)"
    "parse_coordinator_handoff (me_user_id ?cl) False (dm_content ?m) = Inr None"
    "parse_coordinator_lifecycle (me_user_id ?cl) (dm_content ?m) = Inr None"
  proof
    show "parse_coordinator_handoff (me_user_id ?cl) True (dm_content ?m) = Inr (Some
      \<lparr>ch_workspace_id = ''w'', ch_task_id = ''T'', ch_bootstrap_path = [], ch_action = ''assignment.accept'',
       ch_context_version = None, ch_workspace_path = [], ch_harness_root = [], ch_branch = None\<rparr>)"
      "parse_coordinator_handoff (me_user_id ?cl) False (dm_content ?m) = Inr None"
      "parse_coordinator_lifecycle (me_user_id ?cl) (dm_content ?m) = Inr None"
      by code_simp+
  qed
  moreover have "cfg_agentd_mode (me_config ?cl)" "answered ?cl ?m" "dm_author_bot ?m" "from_coordinator ?cl ?m"
    by code_simp+
  moreover have "on_message sample_env ?cl ?m (sample_start True) = (fst ?run, snd ?run)"
    by simp
  ultimately obtain report where "snd ?run = (snd (record_incoming sample_env ?cl ?m (sample_start True)))\<lparr>bs_trace := bs_trace (sample_start True) @ [Send report True]\<rparr>"
    using malformed_handoff_one_blocker by metis
  then have "bs_trace (snd ?run) = [Send report True]"
    by (simp add: sample_start_def)
  then show ?thesis
    by blast
qed

end
