(* ===== verification/ProcessControl.thy ===== *)
theory ProcessControl
  imports RegistryAuthority JsonParse AgentdWorker
begin

text \<open>
  \<open>multinexus/adapters/utils.py\<close> and \<open>base.py\<close>: the effects of an adapter on its child process, the
  environment of a child and the termination of its process group. A coroutine is a function on the trace
  of the effects so far; what the system answers is a function of that trace (\<open>proc_env\<close>). Times are
  nanoseconds, timeouts seconds. The texts of Python's own exceptions are those of Python 3.11.

  A process that was started has an id, so the test of \<open>proc.pid is None\<close> has no counterpart. A second
  cancellation while the group is being terminated is not modelled.
\<close>

named_theorems proc_simps "running a coroutine of an adapter"

section \<open>Effects\<close>

text \<open>\<open>FileNotFoundError\<close>, \<open>asyncio.CancelledError\<close> and any other exception, with its text.\<close>
datatype proc_exc = NotFoundError string | CancelledError | Failure string

text \<open>How a coroutine stops: with an exception, or not at all when a loop has used up \<open>pe_fuel\<close>.\<close>
datatype proc_stop = ProcRaised proc_exc | ProcDiverged

datatype group_signal = GroupProbe | GroupTerm | GroupKill

datatype proc_event =
    ReadClock
  | SpawnChild "string list" "string option" "(string \<times> string) list"
  | WriteInput string
  | ReadLine int
  | AwaitExit
  | ReadErrors
  | Communicate "string option" int
  | SignalGroup group_signal
  | ShortSleep
  | ReapLeader int
  | RunTaskkill int
  | ReportProgress json

type_synonym proc_trace = "proc_event list"

datatype signal_end = SignalSent | NoSuchGroup | SignalDenied string

datatype taskkill_end = TaskkillMissing | TaskkillLate | TaskkillExit int

text \<open>
  What the system answers. A line is \<open>None\<close> when the read timed out and empty at the end of the output;
  \<open>pe_interrupted\<close> is a cancellation while the group is being terminated.
\<close>
record proc_env =
  pe_windows :: bool
  pe_environ :: "(string \<times> string) list"
  pe_time :: "proc_trace \<Rightarrow> int"
  pe_spawn :: "proc_trace \<Rightarrow> proc_exc + int"
  pe_write :: "proc_trace \<Rightarrow> proc_exc + unit"
  pe_line :: "proc_trace \<Rightarrow> int \<Rightarrow> proc_exc + string option"
  pe_exit :: "proc_trace \<Rightarrow> proc_exc + int"
  pe_stderr :: "proc_trace \<Rightarrow> proc_exc + string"
  pe_communicate :: "proc_trace \<Rightarrow> proc_exc + (int \<times> string \<times> string) option"
  pe_signal :: "proc_trace \<Rightarrow> group_signal \<Rightarrow> signal_end"
  pe_reap :: "proc_trace \<Rightarrow> int option"
  pe_taskkill :: "proc_trace \<Rightarrow> taskkill_end"
  pe_interrupted :: "proc_trace \<Rightarrow> bool"
  pe_progress :: "proc_trace \<Rightarrow> json \<Rightarrow> string option"
  pe_which :: "string \<Rightarrow> string option"
  pe_fuel :: nat

text \<open>
  The trace, the id of the last child, and two variables of the running call that an exception handler
  reads: \<open>cleanup_attempted\<close> and, in the Claude adapter, \<open>session_id\<close>.
\<close>
record proc_state =
  px_trace :: proc_trace
  px_pid :: int
  px_cleaned :: bool
  px_session :: json

type_synonym 'a proc = "proc_state \<Rightarrow> (proc_stop + 'a) \<times> proc_state"

definition pret :: "'a \<Rightarrow> 'a proc" where "pret a = (\<lambda>s. (Inr a, s))"

definition praise :: "proc_exc \<Rightarrow> 'a proc" where "praise e = (\<lambda>s. (Inl (ProcRaised e), s))"

definition pdiverge :: "'a proc" where "pdiverge = (\<lambda>s. (Inl ProcDiverged, s))"

definition pbind :: "'a proc \<Rightarrow> ('a \<Rightarrow> 'b proc) \<Rightarrow> 'b proc" where
  "pbind m f = (\<lambda>s. case m s of (Inl e, s') \<Rightarrow> (Inl e, s') | (Inr a, s') \<Rightarrow> f a s')"

definition pseq :: "unit proc \<Rightarrow> 'b proc \<Rightarrow> 'b proc" where "pseq m n = pbind m (\<lambda>_. n)"

text \<open>\<open>try: m except BaseException as e: h e\<close>\<close>
definition pcatch :: "'a proc \<Rightarrow> (proc_exc \<Rightarrow> 'a proc) \<Rightarrow> 'a proc" where
  "pcatch m h = (\<lambda>s. case m s of (Inl (ProcRaised e), s') \<Rightarrow> h e s' | r \<Rightarrow> r)"

text \<open>A computation without effects; its exception carries the text.\<close>
definition plift :: "string + 'a \<Rightarrow> 'a proc" where
  "plift r = (case r of Inl t \<Rightarrow> praise (Failure t) | Inr a \<Rightarrow> pret a)"

definition pstep :: "proc_event \<Rightarrow> (proc_trace \<Rightarrow> proc_exc + 'a) \<Rightarrow> 'a proc" where
  "pstep event answer =
     (\<lambda>s. (case answer (px_trace s) of Inl e \<Rightarrow> Inl (ProcRaised e) | Inr a \<Rightarrow> Inr a,
           s\<lparr>px_trace := px_trace s @ [event]\<rparr>))"

definition pclock :: "proc_env \<Rightarrow> int proc" where
  "pclock env = pstep ReadClock (\<lambda>tr. Inr (pe_time env tr))"

definition get_session :: "json proc" where "get_session = (\<lambda>s. (Inr (px_session s), s))"

definition set_session :: "json \<Rightarrow> unit proc" where "set_session v = (\<lambda>s. (Inr (), s\<lparr>px_session := v\<rparr>))"

definition SECOND :: int where "SECOND = 1000000000"

section \<open>The environment of a child\<close>

definition SECRET_PREFIXES :: "string list" where "SECRET_PREFIXES = [''KOOK_'', ''DISCORD_'']"

definition filtered_env :: "proc_env \<Rightarrow> string option \<Rightarrow> (string \<times> string) list" where
  "filtered_env env cwd =
     (let kept = filter (\<lambda>(k, v). \<not> list_ex (startswith k) SECRET_PREFIXES) (pe_environ env) in
      case cwd of
        None \<Rightarrow> kept
      | Some d \<Rightarrow> if d \<noteq> [] \<and> \<not> pe_windows env then alist_set kept ''PWD'' d else kept)"

section \<open>Terminating the process group\<close>

definition psignal :: "proc_env \<Rightarrow> group_signal \<Rightarrow> signal_end proc" where
  "psignal env g = pstep (SignalGroup g) (\<lambda>tr. Inr (pe_signal env tr g))"

text \<open>A refusal is no proof that the group is gone.\<close>
definition group_alive :: "proc_env \<Rightarrow> bool proc" where
  "group_alive env = pbind (psignal env GroupProbe) (\<lambda>r. pret (r \<noteq> NoSuchGroup))"

text \<open>\<open>os.killpg\<close> with \<open>ProcessLookupError\<close> passed over.\<close>
definition kill_group :: "proc_env \<Rightarrow> group_signal \<Rightarrow> unit proc" where
  "kill_group env g =
     pbind (psignal env g) (\<lambda>r. case r of SignalDenied t \<Rightarrow> praise (Failure t) | _ \<Rightarrow> pret ())"

fun wait_until_gone :: "proc_env \<Rightarrow> nat \<Rightarrow> int \<Rightarrow> bool proc" where
  "wait_until_gone env 0 deadline = pdiverge"
| "wait_until_gone env (Suc n) deadline =
     pbind (group_alive env) (\<lambda>alive.
       if \<not> alive then pret True
       else pbind (pclock env) (\<lambda>now.
         if deadline \<le> now then pret False
         else pseq (pstep ShortSleep (\<lambda>tr. Inr ())) (wait_until_gone env n deadline)))"

definition wait_group_gone :: "proc_env \<Rightarrow> int \<Rightarrow> bool proc" where
  "wait_group_gone env timeout =
     pbind (pclock env) (\<lambda>now. wait_until_gone env (pe_fuel env) (now + timeout * SECOND))"

text \<open>\<open>asyncio.wait_for(proc.wait(), timeout)\<close>; the text of \<open>TimeoutError()\<close> is empty.\<close>
definition reap_leader :: "proc_env \<Rightarrow> int \<Rightarrow> unit proc" where
  "reap_leader env timeout =
     pstep (ReapLeader timeout) (\<lambda>tr. case pe_reap env tr of None \<Rightarrow> Inl (Failure []) | Some rc \<Rightarrow> Inr ())"

definition cleanup_windows :: "proc_env \<Rightarrow> int \<Rightarrow> int \<Rightarrow> unit proc" where
  "cleanup_windows env pid kill_timeout =
     pbind (pstep (RunTaskkill kill_timeout) (\<lambda>tr. Inr (pe_taskkill env tr))) (\<lambda>r.
     case r of
       TaskkillMissing \<Rightarrow> praise (Failure (''taskkill not found while terminating pid '' @ show_int pid))
     | TaskkillLate \<Rightarrow> praise (Failure (''taskkill timed out while terminating pid '' @ show_int pid))
     | TaskkillExit rc \<Rightarrow>
         if rc \<noteq> 0
         then praise (Failure (''taskkill failed for pid '' @ show_int pid @ '' with returncode '' @ show_int rc))
         else reap_leader env kill_timeout)"

definition cleanup_posix :: "proc_env \<Rightarrow> int \<Rightarrow> int \<Rightarrow> int \<Rightarrow> unit proc" where
  "cleanup_posix env pid terminate_timeout kill_timeout =
     pseq (kill_group env GroupTerm)
       (pbind (wait_group_gone env terminate_timeout) (\<lambda>gone.
          pseq (if gone then pret ()
                else pseq (kill_group env GroupKill)
                       (pbind (wait_group_gone env kill_timeout) (\<lambda>gone.
                          if gone then pret ()
                          else praise (Failure (''process group '' @ show_int pid @ '' survived SIGKILL'')))))
            (reap_leader env kill_timeout)))"

text \<open>The cleanup runs to its end under \<open>asyncio.shield\<close>; only then is a cancellation delivered.\<close>
definition terminate_owned_process_group :: "proc_env \<Rightarrow> unit proc" where
  "terminate_owned_process_group env =
     pseq (\<lambda>s. (if pe_windows env then cleanup_windows env (px_pid s) 2 else cleanup_posix env (px_pid s) 2 2) s)
       (\<lambda>s. (if pe_interrupted env (px_trace s) then praise CancelledError else pret ()) s)"

text \<open>The local function \<open>cleanup\<close> that every adapter has.\<close>
definition cleanup :: "proc_env \<Rightarrow> unit proc" where
  "cleanup env =
     (\<lambda>s. if px_cleaned s then pret () s else terminate_owned_process_group env (s\<lparr>px_cleaned := True\<rparr>))"

section \<open>Starting a child\<close>

definition pspawn :: "proc_env \<Rightarrow> string list \<Rightarrow> string option \<Rightarrow> (string \<times> string) list \<Rightarrow> unit proc" where
  "pspawn env argv cwd environ =
     pbind (pstep (SpawnChild argv cwd environ) (pe_spawn env))
       (\<lambda>pid s. pret () (s\<lparr>px_pid := pid, px_cleaned := False\<rparr>))"

text \<open>
  \<open>try: proc = await create_subprocess_exec(...) except FileNotFoundError as e: return f e\<close>, and the
  rest of the call otherwise.
\<close>
definition with_child ::
    "proc_env \<Rightarrow> string list \<Rightarrow> string option \<Rightarrow> (string \<times> string) list \<Rightarrow> (string \<Rightarrow> 'a) \<Rightarrow> 'a proc \<Rightarrow> 'a proc" where
  "with_child env argv cwd environ missing rest =
     pbind (pcatch (pseq (pspawn env argv cwd environ) (pret None))
        (\<lambda>e. case e of NotFoundError t \<Rightarrow> pret (Some t) | _ \<Rightarrow> praise e)) (\<lambda>absent.
     case absent of Some t \<Rightarrow> pret (missing t) | None \<Rightarrow> rest)"

text \<open>\<open>except CancelledError: await cleanup(); raise\<close> and the same for \<open>Exception\<close>.\<close>
definition cleanup_on_error :: "proc_env \<Rightarrow> 'a proc \<Rightarrow> 'a proc" where
  "cleanup_on_error env m = pcatch m (\<lambda>e. pseq (cleanup env) (praise e))"

definition write_input :: "proc_env \<Rightarrow> string \<Rightarrow> unit proc" where
  "write_input env text = pstep (WriteInput text) (pe_write env)"

definition await_exit :: "proc_env \<Rightarrow> int proc" where
  "await_exit env = pstep AwaitExit (pe_exit env)"

definition read_errors :: "proc_env \<Rightarrow> string proc" where
  "read_errors env = pstep ReadErrors (pe_stderr env)"

definition communicate :: "proc_env \<Rightarrow> string option \<Rightarrow> int \<Rightarrow> (int \<times> string \<times> string) option proc" where
  "communicate env input timeout = pstep (Communicate input timeout) (pe_communicate env)"

text \<open>The callback of the caller, which may raise.\<close>
definition report_progress :: "proc_env \<Rightarrow> bool \<Rightarrow> json \<Rightarrow> unit proc" where
  "report_progress env on_progress update =
     (if on_progress
      then pstep (ReportProgress update)
             (\<lambda>tr. case pe_progress env tr update of Some t \<Rightarrow> Inl (Failure t) | None \<Rightarrow> Inr ())
      else pret ())"

section \<open>Results\<close>

text \<open>A session id is whatever the stream of the provider gave.\<close>
record provider_answer =
  pa_text :: string
  pa_session :: json
  pa_resumed :: bool
  pa_metadata :: dict

definition plain_answer :: "string \<Rightarrow> json \<Rightarrow> provider_answer" where
  "plain_answer text session = \<lparr>pa_text = text, pa_session = session, pa_resumed = False, pa_metadata = []\<rparr>"

text \<open>The result as the worker and the client take it, whose session ids are texts.\<close>
definition as_adapter_result :: "provider_answer \<Rightarrow> adapter_result option" where
  "as_adapter_result a =
     (case pa_session a of
        JNull \<Rightarrow> Some \<lparr>ar_text = pa_text a, ar_session_id = None, ar_resumed = pa_resumed a, ar_metadata = pa_metadata a\<rparr>
      | JStr t \<Rightarrow> Some \<lparr>ar_text = pa_text a, ar_session_id = Some t, ar_resumed = pa_resumed a, ar_metadata = pa_metadata a\<rparr>
      | _ \<Rightarrow> None)"

section \<open>Python values\<close>

fun py_type :: "json \<Rightarrow> string" where
  "py_type JNull = ''NoneType''"
| "py_type (JBool b) = ''bool''"
| "py_type (JInt i) = ''int''"
| "py_type (JFloat s) = ''float''"
| "py_type (JStr s) = ''str''"
| "py_type (JList xs) = ''list''"
| "py_type (JObj d) = ''dict''"

definition no_attribute :: "json \<Rightarrow> string \<Rightarrow> string" where
  "no_attribute v name = in_quotes (py_type v) @ '' object has no attribute '' @ in_quotes name"

text \<open>The dictionary whose \<open>get\<close> is called, and \<open>d.get(k, default)\<close>.\<close>
definition as_dict :: "json \<Rightarrow> string + dict" where
  "as_dict v = (case v of JObj d \<Rightarrow> Inr d | _ \<Rightarrow> Inl (no_attribute v ''get''))"

definition dget_or :: "dict \<Rightarrow> string \<Rightarrow> json \<Rightarrow> json" where
  "dget_or d k v = (case map_of d k of None \<Rightarrow> v | Some w \<Rightarrow> w)"

text \<open>The elements of \<open>for x in v\<close>.\<close>
definition py_iter :: "json \<Rightarrow> string + json list" where
  "py_iter v =
     (case v of
        JList xs \<Rightarrow> Inr xs
      | JStr s \<Rightarrow> Inr (map (\<lambda>c. JStr [c]) s)
      | JObj d \<Rightarrow> Inr (map (JStr \<circ> fst) d)
      | _ \<Rightarrow> Inl (in_quotes (py_type v) @ '' object is not iterable''))"

text \<open>\<open>a or b\<close>\<close>
definition py_or :: "json \<Rightarrow> json \<Rightarrow> json" where
  "py_or a b = (if truthy a then a else b)"

definition py_strip :: "json \<Rightarrow> string + string" where
  "py_strip v = (case v of JStr s \<Rightarrow> Inr (strip s) | _ \<Rightarrow> Inl (no_attribute v ''strip''))"

definition py_hash :: "json \<Rightarrow> string + unit" where
  "py_hash v =
     (case v of JList xs \<Rightarrow> Inl (''unhashable type: '' @ in_quotes ''list'')
      | JObj d \<Rightarrow> Inl (''unhashable type: '' @ in_quotes ''dict'') | _ \<Rightarrow> Inr ())"

definition text_of :: "json \<Rightarrow> string" where
  "text_of v = (case v of JStr s \<Rightarrow> s | _ \<Rightarrow> [])"

definition is_str :: "json \<Rightarrow> bool" where
  "is_str v = (case v of JStr s \<Rightarrow> True | _ \<Rightarrow> False)"

text \<open>\<open>sep.join(vs)\<close>\<close>
definition py_join :: "string \<Rightarrow> json list \<Rightarrow> string + string" where
  "py_join sep vs =
     (case dropWhile (\<lambda>(i, v). is_str v) (enumerate 0 vs) of
        [] \<Rightarrow> Inr (join_with sep (map text_of vs))
      | (i, v) # _ \<Rightarrow> Inl (''sequence item '' @ show_nat i @ '': expected str instance, '' @ py_type v @ '' found''))"

text \<open>\<open>s or "(no response)"\<close>\<close>
definition or_no_response :: "string \<Rightarrow> string" where
  "or_no_response s = (if s = [] then ''(no response)'' else s)"

end
