(* ===== verification/ProviderAdapters.thy ===== *)
theory ProviderAdapters
  imports ProcessControl BridgeConfig
begin

text \<open>
  \<open>multinexus/adapters\<close>: the adapters of the provider CLIs. \<open>stream_loop\<close> is the loop that the three
  streaming adapters share (each has its own copy); what they do with a line is their \<open>step\<close>. The Chinese
  texts of the Jarvis adapters are parameters.
\<close>

section \<open>Configuration\<close>

text \<open>The further fields of \<open>AgentConfig\<close> that the adapters read.\<close>
record provider_config = agent_config +
  vc_first_byte_timeout :: int
  vc_activity_timeout :: int
  vc_system_prompt :: string
  vc_hermes_bin :: string
  vc_hermes_provider :: "string option"
  vc_hermes_toolsets :: "string option"
  vc_hermes_accept_hooks :: bool
  vc_claude_bin :: string
  vc_claude_skip_permissions :: bool
  vc_codex_bin :: string
  vc_codex_sandbox :: string
  vc_codex_bypass :: bool
  vc_codex_fallback_model :: "string option"
  vc_opencode_bin :: string
  vc_opencode_skip_permissions :: bool
  vc_omp_bin :: string
  vc_omp_model :: "string option"
  vc_omp_thinking :: "string option"
  vc_omp_auto_approve :: bool
  vc_jarvis_ssh_host :: string

text \<open>\<open>a or b\<close> for texts and numbers that may be absent.\<close>
definition or_opt :: "string option \<Rightarrow> string option \<Rightarrow> string option" where
  "or_opt a b = (case a of Some s \<Rightarrow> if s \<noteq> [] then a else b | None \<Rightarrow> b)"

definition or_timeout :: "int option \<Rightarrow> int \<Rightarrow> int" where
  "or_timeout a b = (case a of Some n \<Rightarrow> if n \<noteq> 0 then n else b | None \<Rightarrow> b)"

text \<open>\<open>if v: cmd += [flag, v]\<close>\<close>
definition option_flag :: "string \<Rightarrow> string option \<Rightarrow> string list" where
  "option_flag flag v = (case v of Some s \<Rightarrow> if s \<noteq> [] then [flag, s] else [] | None \<Rightarrow> [])"

definition with_system_prompt :: "provider_config \<Rightarrow> string \<Rightarrow> string" where
  "with_system_prompt cfg prompt =
     (if strip (vc_system_prompt cfg) = [] then prompt
      else strip (vc_system_prompt cfg) @ [nl, nl] @ ''USER: '' @ prompt)"

section \<open>The loop over the output\<close>

text \<open>
  How the loop ends: the deadline has passed, nothing came for too long (the flag says whether there had been
  output), the output ended, or the adapter returned from within the loop.
\<close>
datatype ('st, 'r) stream_end = PastDeadline 'st | Stalled bool 'st | StreamClosed 'st | ReturnedEarly 'r

text \<open>
  \<open>idle\<close> gives the seconds of silence allowed, \<open>step\<close> what is done with a stripped line that is not empty.
\<close>
fun stream_loop ::
    "proc_env \<Rightarrow> (bool \<Rightarrow> int) \<Rightarrow> ('st \<Rightarrow> string \<Rightarrow> ('r + 'st) proc) \<Rightarrow> int \<Rightarrow> nat \<Rightarrow> int \<Rightarrow> bool \<Rightarrow> 'st
     \<Rightarrow> ('st, 'r) stream_end proc" where
  "stream_loop env idle step deadline 0 last_activity saw st = pdiverge"
| "stream_loop env idle step deadline (Suc n) last_activity saw st =
     pbind (pclock env) (\<lambda>now.
     if deadline \<le> now then pret (PastDeadline st)
     else
       let read_timeout = min (idle saw * SECOND) (deadline - now) in
       pbind (pstep (ReadLine read_timeout) (\<lambda>tr. pe_line env tr read_timeout)) (\<lambda>raw.
       case raw of
         None \<Rightarrow>
           pbind (pclock env) (\<lambda>t.
           if idle saw * SECOND \<le> t - last_activity then pret (Stalled saw st)
           else stream_loop env idle step deadline n last_activity saw st)
       | Some line \<Rightarrow>
           if line = [] then pret (StreamClosed st)
           else
             pbind (pclock env) (\<lambda>t.
             if strip line = [] then stream_loop env idle step deadline n t True st
             else
               pbind (step st (strip line)) (\<lambda>r.
               case r of
                 Inl a \<Rightarrow> pret (ReturnedEarly a)
               | Inr st' \<Rightarrow> stream_loop env idle step deadline n t True st'))))"

section \<open>Codex\<close>

definition CODEX_CAPACITY_ERROR :: string where "CODEX_CAPACITY_ERROR = ''selected model is at capacity''"

record codex_stream =
  cx_text :: json
  cx_session :: json
  cx_error :: string
  cx_tail :: "string list"

text \<open>\<open>CodexRunResult\<close>\<close>
record codex_run =
  cr_text :: string
  cr_session :: json
  cr_capacity :: bool

text \<open>The first text among blocks that are dictionaries and fulfil \<open>p\<close>.\<close>
fun first_block_text :: "(dict \<Rightarrow> bool) \<Rightarrow> json list \<Rightarrow> json" where
  "first_block_text p [] = JStr []"
| "first_block_text p (v # vs) =
     (case v of
        JObj d \<Rightarrow> if p d \<and> truthy (dget_or d ''text'' (JStr [])) then dget_or d ''text'' (JStr []) else first_block_text p vs
      | _ \<Rightarrow> first_block_text p vs)"

text \<open>The loop over \<open>response.output\<close>.\<close>
fun first_output_text :: "json list \<Rightarrow> string + json" where
  "first_output_text [] = Inr (JStr [])"
| "first_output_text (v # vs) =
     ebind (as_dict v) (\<lambda>d.
     ebind (py_iter (dget_or d ''content'' (JList []))) (\<lambda>blocks.
     let t = first_block_text (\<lambda>_. True) blocks in
     if truthy t then Inr t else first_output_text vs))"

definition extract_codex_text :: "dict \<Rightarrow> string + json" where
  "extract_codex_text event =
     (let item = dget_or event ''item'' (JObj []);
          message_text = (case item of
            JObj d \<Rightarrow> if dget d ''type'' = JStr ''agent_message'' then dget_or d ''text'' (JStr []) else JStr []
          | _ \<Rightarrow> JStr []) in
      if truthy message_text then Inr message_text
      else
        let msg = py_or (dget event ''message'') item;
            content = (case msg of JObj d \<Rightarrow> dget_or d ''content'' (JList []) | _ \<Rightarrow> JList []);
            block_text = (case content of
              JList blocks \<Rightarrow> first_block_text (\<lambda>d. dget d ''type'' \<in> {JStr ''text'', JStr ''output_text''}) blocks
            | _ \<Rightarrow> JStr []) in
        if truthy block_text then Inr block_text
        else if is_str (dget event ''content'') \<and> truthy (dget event ''content'') then Inr (dget event ''content'')
        else
          ebind (as_dict (dget_or event ''response'' (JObj []))) (\<lambda>d.
          ebind (py_iter (dget_or d ''output'' (JList []))) first_output_text))"

definition extract_codex_error :: "dict \<Rightarrow> string" where
  "extract_codex_error event =
     (if dget event ''type'' = JStr ''error''
      then take 1000 (py_str (py_or (py_or (dget event ''message'') (dget event ''error'')) (JObj event)))
      else
        (case dget event ''error'' of
           JObj d \<Rightarrow> take 1000 (py_str (py_or (dget d ''message'') (JObj d)))
         | JStr t \<Rightarrow> take 1000 t
         | _ \<Rightarrow> []))"

definition is_capacity_error :: "string \<Rightarrow> bool" where
  "is_capacity_error text = sublist CODEX_CAPACITY_ERROR (map py_lower text)"

text \<open>What both loops of \<open>codex.py\<close> do with a line; only the first keeps the last twenty.\<close>
definition codex_step :: "codex_stream \<Rightarrow> string \<Rightarrow> string + codex_stream" where
  "codex_step st line =
     (let tail = cx_tail st @ [line];
          st = st\<lparr>cx_tail := drop (length tail - 20) tail\<rparr> in
      case json_parse line of
        None \<Rightarrow> Inr st
      | Some v \<Rightarrow>
          ebind (as_dict v) (\<lambda>event.
          let started = dget event ''type'' = JStr ''thread.started'' \<and> truthy (dget event ''thread_id'');
              error_text = extract_codex_error event in
          ebind (extract_codex_text event) (\<lambda>partial.
          Inr (st\<lparr>cx_session := if started then dget event ''thread_id'' else cx_session st,
                  cx_error := if error_text \<noteq> [] then error_text else cx_error st,
                  cx_text := if truthy partial then partial else cx_text st\<rparr>))))"

definition codex_start :: codex_stream where
  "codex_start = \<lparr>cx_text = JStr [], cx_session = JNull, cx_error = [], cx_tail = []\<rparr>"

definition codex_lines ::
    "proc_env \<Rightarrow> int \<Rightarrow> int \<Rightarrow> int \<Rightarrow> (codex_stream, codex_run) stream_end proc" where
  "codex_lines env activity_timeout deadline last_activity =
     stream_loop env (\<lambda>_. activity_timeout)
       (\<lambda>st line. plift (map_sum id Inr (codex_step st line)))
       deadline (pe_fuel env) last_activity False codex_start"

text \<open>The last thousand characters of the last lines.\<close>
definition tail_text :: "string list \<Rightarrow> string" where
  "tail_text ls = (let t = join_with [nl] ls in drop (length t - 1000) t)"

definition codex_finished :: "proc_env \<Rightarrow> codex_stream \<Rightarrow> codex_run proc" where
  "codex_finished env st =
     pbind (await_exit env) (\<lambda>rc.
     if \<not> truthy (cx_text st) \<and> rc \<noteq> 0 then
       pbind (read_errors env) (\<lambda>stderr.
       let detail = (if strip stderr \<noteq> [] then strip stderr
                     else if strip (cx_error st) \<noteq> [] then strip (cx_error st) else tail_text (cx_tail st)) in
       pret \<lparr>cr_text = ''Codex CLI failed ('' @ show_int rc @ ''): '' @ take 500 detail,
             cr_session = cx_session st, cr_capacity = is_capacity_error detail\<rparr>)
     else
       pbind (plift (py_strip (cx_text st))) (\<lambda>text.
       pret \<lparr>cr_text = or_no_response text, cr_session = cx_session st, cr_capacity = False\<rparr>))"

definition codex_stopped :: "proc_env \<Rightarrow> string \<Rightarrow> int \<Rightarrow> json \<Rightarrow> codex_run proc" where
  "codex_stopped env what seconds session =
     pseq (cleanup env) (pret \<lparr>cr_text = ''Codex '' @ what @ show_int seconds @ ''s'', cr_session = session, cr_capacity = False\<rparr>)"

definition run_codex_process :: "proc_env \<Rightarrow> string \<Rightarrow> int \<Rightarrow> int \<Rightarrow> codex_run proc" where
  "run_codex_process env full_prompt timeout activity_timeout =
     pbind (pclock env) (\<lambda>start.
     pbind (pclock env) (\<lambda>last_activity.
     cleanup_on_error env
       (pseq (write_input env full_prompt)
         (pbind (codex_lines env activity_timeout (start + timeout * SECOND) last_activity) (\<lambda>e.
          case e of
            PastDeadline st \<Rightarrow> codex_stopped env ''timed out after '' timeout (cx_session st)
          | Stalled saw st \<Rightarrow> codex_stopped env ''stopped responding for '' activity_timeout (cx_session st)
          | StreamClosed st \<Rightarrow> codex_finished env st
          | ReturnedEarly r \<Rightarrow> pret r)))))"

definition codex_permission_flags :: "provider_config \<Rightarrow> bool \<Rightarrow> string list" where
  "codex_permission_flags cfg for_resume =
     (if vc_codex_bypass cfg then [''--dangerously-bypass-approvals-and-sandbox'']
      else if vc_codex_sandbox cfg = [] then []
      else if for_resume
      then [''-c'', ''sandbox_permissions=['' @ [dquote] @ vc_codex_sandbox cfg @ [dquote] @ '']'']
      else [''--sandbox'', vc_codex_sandbox cfg])"

definition codex_build_cmd :: "provider_config \<Rightarrow> string option \<Rightarrow> string list" where
  "codex_build_cmd cfg model =
     [vc_codex_bin cfg, ''exec''] @ option_flag ''-C'' (cfg_work_dir cfg) @ [''--skip-git-repo-check'']
       @ codex_permission_flags cfg False @ [''--json''] @ option_flag ''--model'' model @ [''-'']"

definition codex_not_found :: "provider_config \<Rightarrow> string" where
  "codex_not_found cfg = ''Codex CLI not found: '' @ vc_codex_bin cfg"

definition codex_run_once :: "proc_env \<Rightarrow> provider_config \<Rightarrow> string \<Rightarrow> string option \<Rightarrow> string option \<Rightarrow> codex_run proc" where
  "codex_run_once env cfg full_prompt model work_dir =
     (let cwd = or_opt work_dir (cfg_work_dir cfg) in
      with_child env (codex_build_cmd cfg model) cwd (filtered_env env cwd)
        (\<lambda>_. \<lparr>cr_text = codex_not_found cfg, cr_session = JNull, cr_capacity = False\<rparr>)
        (run_codex_process env full_prompt (cfg_timeout cfg) (vc_activity_timeout cfg)))"

definition capacity_failure_message :: "string option \<Rightarrow> string option \<Rightarrow> string" where
  "capacity_failure_message primary_model fallback_model =
     (let primary_label = (case or_opt primary_model None of Some m \<Rightarrow> m | None \<Rightarrow> ''default model'') in
      case or_opt fallback_model None of
        Some f \<Rightarrow> ''Codex model capacity: '' @ primary_label @ '' and fallback '' @ f
          @ '' are both at capacity. Aborted, no handoff.''
      | None \<Rightarrow> ''Codex model capacity: '' @ primary_label
          @ '' is at capacity. Configure codex_fallback_model to auto-retry.'')"

text \<open>The argument \<open>timeout\<close> of \<open>call\<close> is not used.\<close>
definition codex_call ::
    "proc_env \<Rightarrow> provider_config \<Rightarrow> string \<Rightarrow> int option \<Rightarrow> string option \<Rightarrow> provider_answer proc" where
  "codex_call env cfg prompt timeout work_dir =
     (let full_prompt = with_system_prompt cfg prompt;
          cwd = or_opt work_dir (cfg_work_dir cfg) in
      pbind (codex_run_once env cfg full_prompt (cfg_model cfg) cwd) (\<lambda>primary.
      if \<not> cr_capacity primary then pret (plain_answer (cr_text primary) (cr_session primary))
      else
        (case or_opt (vc_codex_fallback_model cfg) None of
           Some fallback_model \<Rightarrow>
             if cfg_model cfg \<noteq> Some fallback_model then
               pbind (codex_run_once env cfg full_prompt (Some fallback_model) cwd) (\<lambda>fallback.
               if \<not> cr_capacity fallback then pret (plain_answer (cr_text fallback) (cr_session fallback))
               else pret (plain_answer (capacity_failure_message (cfg_model cfg) (Some fallback_model)) JNull))
             else pret (plain_answer (capacity_failure_message (cfg_model cfg) None) JNull)
         | None \<Rightarrow> pret (plain_answer (capacity_failure_message (cfg_model cfg) None) JNull))))"

definition codex_resume_cmd :: "provider_config \<Rightarrow> string \<Rightarrow> string list" where
  "codex_resume_cmd cfg session_id =
     [vc_codex_bin cfg, ''exec'', ''resume'', session_id, ''--json'', ''--skip-git-repo-check'']
       @ codex_permission_flags cfg True @ option_flag ''--model'' (cfg_model cfg) @ [''-'']"

definition codex_resume_finished :: "proc_env \<Rightarrow> codex_stream \<Rightarrow> provider_answer proc" where
  "codex_resume_finished env st =
     pbind (await_exit env) (\<lambda>rc.
     if rc \<noteq> 0 then
       pbind (read_errors env) (\<lambda>stderr.
       let detail = (if strip stderr \<noteq> [] then strip stderr
                     else if cx_error st \<noteq> [] then cx_error st else ''exit code '' @ show_int rc) in
       pret (plain_answer (''Codex resume failed ('' @ show_int rc @ ''): '' @ take 500 detail) (cx_session st)
         \<lparr>pa_resumed := True\<rparr>))
     else
       pbind (plift (py_strip (cx_text st))) (\<lambda>text.
       pret (plain_answer (or_no_response text) (cx_session st)\<lparr>pa_resumed := True\<rparr>)))"

text \<open>\<open>_exec_cmd\<close> after the start of the child.\<close>
definition codex_exec_process :: "proc_env \<Rightarrow> provider_config \<Rightarrow> string \<Rightarrow> int \<Rightarrow> provider_answer proc" where
  "codex_exec_process env cfg full_prompt timeout =
     cleanup_on_error env
       (pseq (write_input env full_prompt)
         (pbind (pclock env) (\<lambda>start.
          pbind (pclock env) (\<lambda>last_activity.
          pbind (codex_lines env (vc_activity_timeout cfg) (start + timeout * SECOND) last_activity) (\<lambda>e.
          case e of
            PastDeadline st \<Rightarrow>
              pseq (cleanup env) (pret (plain_answer (''Codex timed out after '' @ show_int timeout @ ''s'') JNull))
          | Stalled saw st \<Rightarrow>
              pseq (cleanup env)
                (pret (plain_answer (''Codex stopped responding for '' @ show_int (vc_activity_timeout cfg) @ ''s'') JNull))
          | StreamClosed st \<Rightarrow> codex_resume_finished env st
          | ReturnedEarly r \<Rightarrow> pret (plain_answer (cr_text r) (cr_session r)))))))"

definition codex_resume ::
    "proc_env \<Rightarrow> provider_config \<Rightarrow> string \<Rightarrow> string \<Rightarrow> int option \<Rightarrow> string option \<Rightarrow> provider_answer proc" where
  "codex_resume env cfg session_id prompt timeout work_dir =
     (let cwd = or_opt work_dir (cfg_work_dir cfg) in
      pbind (with_child env (codex_resume_cmd cfg session_id) cwd (filtered_env env cwd)
               (\<lambda>_. plain_answer (codex_not_found cfg) JNull)
               (codex_exec_process env cfg (with_system_prompt cfg prompt) (or_timeout timeout (cfg_timeout cfg))))
        (\<lambda>result. pret (result\<lparr>pa_resumed := True\<rparr>)))"


section \<open>Claude\<close>

definition claude_timeout_message :: "string \<Rightarrow> int \<Rightarrow> int \<Rightarrow> string" where
  "claude_timeout_message limit elapsed_seconds total_seconds =
     ''Claude timeout:'' @ limit @ '' after '' @ show_int elapsed_seconds @ ''s (total budget '' @ show_int total_seconds
       @ ''s). Aborted, no handoff.''"

text \<open>The texts of the parts of a content list.\<close>
fun progress_parts :: "json list \<Rightarrow> string + string list" where
  "progress_parts [] = Inr []"
| "progress_parts (v # vs) =
     (case v of
        JObj d \<Rightarrow>
          ebind (py_hash (dget d ''type'')) (\<lambda>_.
          let text = py_or (dget d ''text'') (dget d ''delta'') in
          ebind (progress_parts vs) (\<lambda>parts.
          Inr (if dget d ''type'' \<in> {JStr ''text'', JStr ''text_delta''} \<and> is_str text \<and> strip (text_of text) \<noteq> []
               then strip (text_of text) # parts else parts)))
      | _ \<Rightarrow> progress_parts vs)"

definition progress_summary_from_event :: "dict \<Rightarrow> string + string" where
  "progress_summary_from_event event =
     (let content = (case dget event ''content'' of
            JNull \<Rightarrow> (case dget event ''message'' of JObj m \<Rightarrow> dget m ''content'' | _ \<Rightarrow> JNull)
          | v \<Rightarrow> v) in
      case content of
        JStr t \<Rightarrow> Inr (take 1000 (strip t))
      | JList vs \<Rightarrow> map_sum id (\<lambda>parts. take 1000 (strip (join_with [nl] parts))) (progress_parts vs)
      | _ \<Rightarrow> Inr [])"

definition claude_build_cmd :: "provider_config \<Rightarrow> string option \<Rightarrow> string list" where
  "claude_build_cmd cfg resume_session_id =
     [vc_claude_bin cfg, ''-p'', ''--verbose'', ''--output-format'', ''stream-json'', ''--include-partial-messages'']
       @ (if vc_claude_skip_permissions cfg then [''--dangerously-skip-permissions''] else [])
       @ option_flag ''--model'' (cfg_model cfg) @ option_flag ''--resume'' resume_session_id"

text \<open>\<open>f"{v[:500]}"\<close>\<close>
definition first_500 :: "json \<Rightarrow> string + string" where
  "first_500 v =
     (case v of
        JStr t \<Rightarrow> Inr (take 500 t)
      | JList vs \<Rightarrow> Inr (py_repr (JList (take 500 vs)))
      | JObj d \<Rightarrow> Inl (''unhashable type: '' @ in_quotes ''slice'')
      | _ \<Rightarrow> Inl (in_quotes (py_type v) @ '' object is not subscriptable''))"

definition claude_init_update :: "json \<Rightarrow> json" where
  "claude_init_update session =
     JObj [(''stage'', JStr ''session''), (''summary'', JStr ''Claude session initialized''), (''session_id'', session)]"

definition claude_stream_update :: "string \<Rightarrow> json \<Rightarrow> json" where
  "claude_stream_update summary session =
     JObj [(''stage'', JStr ''stream''), (''summary'', JStr summary), (''session_id'', py_or session (JStr []))]"

text \<open>A \<open>result\<close> event ends the loop when it is an error; otherwise it gives the answer so far.\<close>
definition claude_result_event :: "json \<Rightarrow> json \<Rightarrow> dict \<Rightarrow> string + (provider_answer + json)" where
  "claude_result_event session response_text event =
     (if dget event ''type'' \<noteq> JStr ''result'' then Inr (Inr response_text)
      else if dget event ''subtype'' = JStr ''error'' \<or> truthy (dget event ''is_error'')
      then ebind (first_500 (dget_or event ''result'' (JStr []))) (\<lambda>t.
           Inr (Inl (plain_answer (''Claude error: '' @ t) session)))
      else Inr (Inr (py_or (dget_or event ''result'' (JStr [])) response_text)))"

definition claude_step :: "proc_env \<Rightarrow> bool \<Rightarrow> json \<Rightarrow> string \<Rightarrow> (provider_answer + json) proc" where
  "claude_step env on_progress response_text line =
     (case json_parse line of
        None \<Rightarrow> pret (Inr response_text)
      | Some v \<Rightarrow>
          pbind (plift (as_dict v)) (\<lambda>event.
          pseq
            (if dget event ''type'' = JStr ''system'' \<and> dget event ''subtype'' = JStr ''init''
                \<and> truthy (dget event ''session_id'')
             then pseq (set_session (dget event ''session_id''))
                    (report_progress env on_progress (claude_init_update (dget event ''session_id'')))
             else pret ())
            (pbind (plift (progress_summary_from_event event)) (\<lambda>summary.
             pbind get_session (\<lambda>session.
             pseq (if summary \<noteq> [] then report_progress env on_progress (claude_stream_update summary session)
                   else pret ())
               (plift (claude_result_event session response_text event)))))))"

definition claude_timed_out :: "proc_env \<Rightarrow> string \<Rightarrow> int \<Rightarrow> int \<Rightarrow> provider_answer proc" where
  "claude_timed_out env limit seconds timeout =
     pseq (cleanup env)
       (pbind get_session (\<lambda>session.
        pret (plain_answer (claude_timeout_message limit seconds timeout) session
         \<lparr>pa_metadata := [(''timeout'', JObj [(''kind'', JStr limit), (''configured_budget_seconds'', JInt timeout),
            (''session_id'', py_or session (JStr [])), (''resume_allowed'', JBool (truthy session))])]\<rparr>)))"

definition claude_finished :: "proc_env \<Rightarrow> json \<Rightarrow> provider_answer proc" where
  "claude_finished env response_text =
     pbind (await_exit env) (\<lambda>rc.
     if \<not> truthy response_text \<and> rc \<noteq> 0 then
       pbind (read_errors env) (\<lambda>stderr.
       pbind get_session (\<lambda>session.
       pret (plain_answer (''Claude CLI failed ('' @ show_int rc @ ''): '' @ take 500 stderr) session)))
     else
       pbind (plift (py_strip response_text)) (\<lambda>text.
       pbind get_session (\<lambda>session. pret (plain_answer (or_no_response text) session))))"

text \<open>\<open>except Exception as exc\<close>: an answer, unless the cleanup raises.\<close>
definition claude_on_error :: "proc_env \<Rightarrow> provider_answer proc \<Rightarrow> provider_answer proc" where
  "claude_on_error env m =
     pcatch m (\<lambda>e. pseq (cleanup env)
       (case e of
          CancelledError \<Rightarrow> praise CancelledError
        | NotFoundError t \<Rightarrow> pbind get_session (\<lambda>session. pret (plain_answer (''Claude error: '' @ t) session))
        | Failure t \<Rightarrow> pbind get_session (\<lambda>session. pret (plain_answer (''Claude error: '' @ t) session))))"

definition claude_process :: "proc_env \<Rightarrow> provider_config \<Rightarrow> string \<Rightarrow> int \<Rightarrow> bool \<Rightarrow> provider_answer proc" where
  "claude_process env cfg prompt timeout on_progress =
     pbind (pclock env) (\<lambda>start.
     claude_on_error env
       (pbind (pclock env) (\<lambda>last_activity.
        pseq (write_input env (with_system_prompt cfg prompt))
          (pbind (stream_loop env (\<lambda>saw. if saw then vc_activity_timeout cfg else vc_first_byte_timeout cfg)
                    (claude_step env on_progress) (start + timeout * SECOND) (pe_fuel env) last_activity False (JStr []))
             (\<lambda>e. case e of
                PastDeadline _ \<Rightarrow> claude_timed_out env ''total'' timeout timeout
              | Stalled saw _ \<Rightarrow>
                  if saw then claude_timed_out env ''activity'' (vc_activity_timeout cfg) timeout
                  else claude_timed_out env ''first_byte'' (vc_first_byte_timeout cfg) timeout
              | StreamClosed response_text \<Rightarrow> claude_finished env response_text
              | ReturnedEarly r \<Rightarrow> pret r)))))"

definition claude_run ::
    "proc_env \<Rightarrow> provider_config \<Rightarrow> string option \<Rightarrow> string \<Rightarrow> int option \<Rightarrow> string option \<Rightarrow> bool \<Rightarrow> provider_answer proc" where
  "claude_run env cfg resume_session_id prompt timeout work_dir on_progress =
     (let cwd = or_opt work_dir (cfg_work_dir cfg) in
      with_child env (claude_build_cmd cfg resume_session_id) cwd (filtered_env env cwd)
        (\<lambda>_. plain_answer (''Claude CLI not found: '' @ vc_claude_bin cfg) JNull)
        (pseq (set_session (opt_str resume_session_id))
          (claude_process env cfg prompt (or_timeout timeout (cfg_timeout cfg)) on_progress)))"

text \<open>\<open>result.resumed = True\<close>\<close>
definition as_resumed :: "provider_answer proc \<Rightarrow> provider_answer proc" where
  "as_resumed m = pbind m (\<lambda>result. pret (result\<lparr>pa_resumed := True\<rparr>))"

section \<open>OpenCode\<close>

definition EMPTY_TEXT_RETRIES :: nat where "EMPTY_TEXT_RETRIES = 4"

definition opencode_build_cmd :: "provider_config \<Rightarrow> string option \<Rightarrow> string list" where
  "opencode_build_cmd cfg resume_session_id =
     [vc_opencode_bin cfg, ''run'', ''--format'', ''json''] @ option_flag ''--session'' resume_session_id
       @ (if vc_opencode_skip_permissions cfg then [''--dangerously-skip-permissions''] else [])
       @ option_flag ''--model'' (cfg_model cfg)"

record opencode_stream =
  oc_parts :: "json list"
  oc_session :: json
  oc_types :: "json list"

text \<open>\<open>event_types_seen.add(t)\<close>; the order of the set is that of the first occurrences.\<close>
definition add_event_type :: "json \<Rightarrow> json list \<Rightarrow> string + json list" where
  "add_event_type t ts =
     (if \<not> truthy t then Inr ts
      else ebind (py_hash t) (\<lambda>_. Inr (if t \<in> set ts then ts else ts @ [t])))"

text \<open>\<open>event.get("part", {}).get(k, "")\<close>\<close>
definition part_field :: "dict \<Rightarrow> string \<Rightarrow> string + json" where
  "part_field event k = ebind (as_dict (dget_or event ''part'' (JObj []))) (\<lambda>d. Inr (dget_or d k (JStr [])))"

text \<open>Progress with a text; whatever the callback or the join raise is passed over.\<close>
definition opencode_show_text :: "proc_env \<Rightarrow> bool \<Rightarrow> json list \<Rightarrow> unit proc" where
  "opencode_show_text env on_progress parts =
     (if on_progress
      then pcatch (pbind (plift (py_join [nl] parts)) (\<lambda>t. report_progress env True (JStr t)))
             (\<lambda>e. case e of CancelledError \<Rightarrow> praise CancelledError | _ \<Rightarrow> pret ())
      else pret ())"

definition opencode_show_tool :: "proc_env \<Rightarrow> json list \<Rightarrow> json \<Rightarrow> unit proc" where
  "opencode_show_tool env parts tool =
     (if \<not> truthy tool then pret ()
      else if parts = [] then report_progress env True (JStr (''[using tool: '' @ py_str tool @ '']''))
      else pbind (plift (py_join [nl] parts)) (\<lambda>t. report_progress env True (JStr t)))"

definition opencode_step ::
    "proc_env \<Rightarrow> bool \<Rightarrow> opencode_stream \<Rightarrow> string \<Rightarrow> (provider_answer + opencode_stream) proc" where
  "opencode_step env on_progress st line =
     (case json_parse line of
        None \<Rightarrow> pret (Inr st)
      | Some v \<Rightarrow>
          pbind (plift (as_dict v)) (\<lambda>event.
          let st = (if \<not> truthy (oc_session st) \<and> truthy (dget event ''sessionID'')
                    then st\<lparr>oc_session := dget event ''sessionID''\<rparr> else st);
              event_type = dget_or event ''type'' (JStr []) in
          pbind (plift (add_event_type event_type (oc_types st))) (\<lambda>types.
          let st = st\<lparr>oc_types := types\<rparr> in
          if event_type = JStr ''text'' then
            pbind (plift (part_field event ''text'')) (\<lambda>text.
            if truthy text then
              pseq (opencode_show_text env on_progress (oc_parts st @ [text])) (pret (Inr (st\<lparr>oc_parts := oc_parts st @ [text]\<rparr>)))
            else pret (Inr st))
          else if on_progress \<and> event_type = JStr ''tool_use'' then
            pbind (plift (part_field event ''tool'')) (\<lambda>tool.
            pseq (opencode_show_tool env (oc_parts st) tool) (pret (Inr st)))
          else pret (Inr st))))"

text \<open>\<open>sorted\<close> of the types, whose error names two of them.\<close>
definition sorted_types :: "json list \<Rightarrow> string + json list" where
  "sorted_types ts =
     (if list_all is_str ts then Inr (map JStr (sort (map text_of ts)))
      else if length ts \<le> 1 \<or> list_all (\<lambda>t. \<not> is_str t) ts then Inr ts
      else Inl (in_quotes ''<'' @ '' not supported''))"

definition opencode_no_text :: "json list \<Rightarrow> string + string" where
  "opencode_no_text types =
     ebind (sorted_types types) (\<lambda>ts.
     ebind (py_join '','' ts) (\<lambda>t.
     Inr (''OpenCode returned no text (events='' @ (if t = [] then ''none'' else t) @ '')'')))"

text \<open>The streaming part: the answer when the child had to be stopped, or what was read and the exit code.\<close>
definition opencode_process ::
    "proc_env \<Rightarrow> provider_config \<Rightarrow> json \<Rightarrow> string \<Rightarrow> int \<Rightarrow> bool \<Rightarrow> (provider_answer + opencode_stream \<times> int) proc" where
  "opencode_process env cfg session full_prompt timeout on_progress =
     cleanup_on_error env
       (pseq (write_input env full_prompt)
         (pbind (pclock env) (\<lambda>start.
          pbind (pclock env) (\<lambda>last_activity.
          pbind (stream_loop env (\<lambda>saw. if saw then vc_activity_timeout cfg else vc_first_byte_timeout cfg)
                   (opencode_step env on_progress) (start + timeout * SECOND) (pe_fuel env) last_activity False
                   \<lparr>oc_parts = [], oc_session = session, oc_types = []\<rparr>) (\<lambda>e.
          case e of
            PastDeadline _ \<Rightarrow>
              pseq (cleanup env) (pret (Inl (plain_answer (''OpenCode timed out after '' @ show_int timeout @ ''s'') JNull)))
          | Stalled saw _ \<Rightarrow>
              pseq (cleanup env) (pret (Inl (plain_answer
                (if saw then ''OpenCode timed out: no activity for '' @ show_int (vc_activity_timeout cfg) @ ''s''
                 else ''OpenCode timed out: no output after '' @ show_int (vc_first_byte_timeout cfg) @ ''s'') JNull)))
          | StreamClosed st \<Rightarrow> pbind (await_exit env) (\<lambda>rc. pret (Inr (st, rc)))
          | ReturnedEarly r \<Rightarrow> pret (Inl r))))))"

text \<open>What follows the stream; \<open>None\<close> asks for another attempt.\<close>
definition opencode_finished ::
    "proc_env \<Rightarrow> nat \<Rightarrow> opencode_stream \<Rightarrow> int \<Rightarrow> provider_answer option proc" where
  "opencode_finished env empty_text_retries st rc =
     pbind (if rc \<noteq> 0 then read_errors env else pret []) (\<lambda>stderr.
     if oc_parts st = [] \<and> rc \<noteq> 0 then
       let detail = (if strip stderr \<noteq> [] then strip stderr else ''exit code '' @ show_int rc) in
       pret (Some (plain_answer (''OpenCode CLI failed ('' @ show_int rc @ ''): '' @ take 500 detail) JNull))
     else if oc_parts st = [] \<and> rc = 0 \<and> 0 < empty_text_retries \<and> JStr ''tool_use'' \<notin> set (oc_types st) then
       pbind (plift (sorted_types (oc_types st))) (\<lambda>_. pret None)
     else if oc_parts st = [] then
       pbind (plift (opencode_no_text (oc_types st))) (\<lambda>t. pret (Some (plain_answer t (oc_session st))))
     else
       pbind (plift (py_join [nl] (oc_parts st))) (\<lambda>t.
       pret (Some (plain_answer (or_no_response (strip t)) (oc_session st)))))"

fun opencode_run ::
    "proc_env \<Rightarrow> provider_config \<Rightarrow> string option \<Rightarrow> string \<Rightarrow> int \<Rightarrow> string option \<Rightarrow> bool \<Rightarrow> nat \<Rightarrow> provider_answer proc" where
  "opencode_run env cfg resume_session_id prompt timeout work_dir on_progress retries =
     (let cwd = or_opt work_dir (cfg_work_dir cfg) in
      with_child env (opencode_build_cmd cfg resume_session_id) cwd (filtered_env env cwd)
        (\<lambda>_. plain_answer (''OpenCode CLI not found: '' @ vc_opencode_bin cfg) JNull)
        (pbind (opencode_process env cfg (opt_str resume_session_id) (with_system_prompt cfg prompt) timeout on_progress) (\<lambda>e.
         case e of
           Inl a \<Rightarrow> pret a
         | Inr (st, rc) \<Rightarrow>
             pbind (opencode_finished env retries st rc) (\<lambda>r.
             case r of
               Some a \<Rightarrow> pret a
             | None \<Rightarrow>
                 (case retries of
                    0 \<Rightarrow> pdiverge
                  | Suc n \<Rightarrow> opencode_run env cfg resume_session_id prompt timeout work_dir on_progress n)))))"


declare opencode_run.simps [simp del]

section \<open>omp and Hermes\<close>

text \<open>
  \<open>wait_for(proc.communicate(input), timeout)\<close> with the handlers that the four adapters without a stream
  share; \<open>None\<close> when the time was up and the child was terminated.
\<close>
definition communicate_or_stop :: "proc_env \<Rightarrow> string option \<Rightarrow> int \<Rightarrow> (int \<times> string \<times> string) option proc" where
  "communicate_or_stop env input timeout =
     pbind (cleanup_on_error env (communicate env input timeout)) (\<lambda>r.
     case r of None \<Rightarrow> pseq (cleanup env) (pret None) | Some out \<Rightarrow> pret (Some out))"

definition omp_build_cmd :: "provider_config \<Rightarrow> string option \<Rightarrow> bool \<Rightarrow> string list" where
  "omp_build_cmd cfg resume_session_id no_session =
     [vc_omp_bin cfg, ''-p''] @ (if no_session then [''--no-session''] else [])
       @ option_flag ''--resume'' resume_session_id
       @ (if vc_omp_auto_approve cfg then [''--auto-approve''] else [])
       @ option_flag ''--model'' (vc_omp_model cfg) @ option_flag ''--thinking'' (vc_omp_thinking cfg)"

definition omp_run ::
    "proc_env \<Rightarrow> provider_config \<Rightarrow> string option \<Rightarrow> bool \<Rightarrow> string \<Rightarrow> int option \<Rightarrow> string option \<Rightarrow> provider_answer proc" where
  "omp_run env cfg resume_session_id no_session prompt given_timeout work_dir =
     (let timeout = or_timeout given_timeout (cfg_timeout cfg);
          cwd = or_opt work_dir (cfg_work_dir cfg);
          cmd = omp_build_cmd cfg resume_session_id no_session @ [with_system_prompt cfg prompt] in
      with_child env cmd cwd (filtered_env env cwd)
        (\<lambda>_. plain_answer (''omp CLI not found: '' @ vc_omp_bin cfg) JNull)
        (pbind (communicate_or_stop env None timeout) (\<lambda>out.
         case out of
           None \<Rightarrow> pret (plain_answer (''omp timed out after '' @ show_int timeout @ ''s'') JNull)
         | Some (rc, stdout, stderr) \<Rightarrow>
             if rc \<noteq> 0 then
               let detail = (if strip stderr \<noteq> [] then strip stderr else ''exit code '' @ show_int rc) in
               pret (plain_answer (''omp CLI failed ('' @ show_int rc @ ''): '' @ take 500 detail) JNull)
             else pret (plain_answer (or_no_response (strip stdout)) (opt_str resume_session_id)))))"

definition omp_call ::
    "proc_env \<Rightarrow> provider_config \<Rightarrow> string \<Rightarrow> int option \<Rightarrow> string option \<Rightarrow> provider_answer proc" where
  "omp_call env cfg prompt timeout work_dir =
     pbind (omp_run env cfg None True prompt timeout work_dir) (\<lambda>result. pret (result\<lparr>pa_session := JNull\<rparr>))"

definition hermes_build_cmd :: "provider_config \<Rightarrow> string \<Rightarrow> string list" where
  "hermes_build_cmd cfg prompt =
     [vc_hermes_bin cfg] @ option_flag ''--model'' (cfg_model cfg) @ option_flag ''--provider'' (vc_hermes_provider cfg)
       @ option_flag ''--toolsets'' (vc_hermes_toolsets cfg)
       @ (if vc_hermes_accept_hooks cfg then [''--accept-hooks''] else []) @ [''-z'', with_system_prompt cfg prompt]"

definition hermes_call ::
    "proc_env \<Rightarrow> provider_config \<Rightarrow> string \<Rightarrow> int option \<Rightarrow> string option \<Rightarrow> provider_answer proc" where
  "hermes_call env cfg prompt given_timeout work_dir =
     (let timeout = or_timeout given_timeout (cfg_timeout cfg);
          cwd = or_opt work_dir (cfg_work_dir cfg) in
      with_child env (hermes_build_cmd cfg prompt) cwd (filtered_env env cwd)
        (\<lambda>_. plain_answer (''Hermes CLI not found: '' @ vc_hermes_bin cfg) JNull)
        (pbind (communicate_or_stop env None timeout) (\<lambda>out.
         case out of
           None \<Rightarrow> pret (plain_answer (''Hermes timed out after '' @ show_int timeout @ ''s'') JNull)
         | Some (rc, stdout, stderr) \<Rightarrow>
             if rc \<noteq> 0 then
               let detail = (if strip stderr \<noteq> [] then strip stderr else strip stdout) in
               pret (plain_answer (''Hermes CLI failed ('' @ show_int rc @ ''): '' @ take 500 detail) JNull)
             else pret (plain_answer (or_no_response (strip stdout)) JNull))))"

section \<open>Jarvis\<close>

text \<open>The beginnings of the Chinese texts.\<close>
record jarvis_text =
  jt_no_ssh :: string
  jt_late :: string
  jt_failed :: string
  jt_no_brain :: string
  jt_brain_late :: string
  jt_brain_failed :: string

definition BRAIN_CMD :: string where
  "BRAIN_CMD = ''python3 -c '' @ [dquote, nl] @ ''import sys; sys.path.insert(0, '' @ in_quotes ''/root'' @ '')'' @ [nl]
     @ ''from jarvis_pkg.brain import brain'' @ [nl] @ ''prompt = sys.stdin.read()'' @ [nl]
     @ ''print(brain(prompt), end='' @ in_quotes [] @ '')'' @ [nl, dquote]"

definition HEALTH_CMD :: string where
  "HEALTH_CMD = ''ps aux | grep '' @ in_quotes ''jarvis_pkg.main'' @ '' | grep -v grep | wc -l''"

definition ssh_cmd :: "provider_config \<Rightarrow> string \<Rightarrow> string list" where
  "ssh_cmd cfg remote_cmd =
     [''ssh'', ''-o'', ''ConnectTimeout=10'', ''-o'', ''StrictHostKeyChecking=no'', vc_jarvis_ssh_host cfg, remote_cmd]"

definition tagged :: "string \<Rightarrow> dict \<Rightarrow> provider_answer" where
  "tagged text metadata = plain_answer text JNull\<lparr>pa_metadata := metadata\<rparr>"

definition jarvis_call ::
    "proc_env \<Rightarrow> jarvis_text \<Rightarrow> provider_config \<Rightarrow> string \<Rightarrow> int option \<Rightarrow> bool \<Rightarrow> provider_answer proc" where
  "jarvis_call env txt cfg prompt timeout on_progress =
     pseq (report_progress env on_progress
             (JObj [(''status'', JStr ''ssh_to_pad''), (''host'', JStr (vc_jarvis_ssh_host cfg))]))
       (with_child env (ssh_cmd cfg BRAIN_CMD) None (filtered_env env None)
          (\<lambda>e. tagged (jt_no_ssh txt @ e) [(''error'', JStr ''no_ssh'')])
          (pbind (communicate_or_stop env (Some prompt) (or_timeout timeout (cfg_timeout cfg))) (\<lambda>out.
           case out of
             None \<Rightarrow> pret (tagged (jt_late txt) [(''error'', JStr ''timeout'')])
           | Some (rc, stdout, stderr) \<Rightarrow>
               if rc \<noteq> 0 then
                 pret (tagged (jt_failed txt @ take 500 (strip stderr)) [(''error'', JStr ''ssh_fail''), (''rc'', JInt rc)])
               else pret (tagged (strip stdout) [(''engine'', JStr ''jarvis'')]))))"

text \<open>The interpreter and the source that it runs; \<open>sys.executable\<close> is an argument.\<close>
definition local_brain_cmd :: "string \<Rightarrow> string list" where
  "local_brain_cmd executable =
     [executable, ''-c'',
      ''import os, sys'' @ [nl] @ ''for d in ('' @ in_quotes ''/root'' @ '', os.path.expanduser('' @ in_quotes ''~'' @ '')):'' @ [nl]
        @ ''    if d not in sys.path:'' @ [nl] @ ''        sys.path.insert(0, d)'' @ [nl]
        @ ''from jarvis_pkg.brain import brain'' @ [nl] @ ''prompt = sys.stdin.read()'' @ [nl]
        @ ''print(brain(prompt), end='' @ in_quotes [] @ '')'' @ [nl]]"

text \<open>Here an exception of the exchange other than a cancellation becomes an answer.\<close>
definition local_brain_call ::
    "proc_env \<Rightarrow> jarvis_text \<Rightarrow> string \<Rightarrow> provider_config \<Rightarrow> string \<Rightarrow> int option \<Rightarrow> string option \<Rightarrow> bool \<Rightarrow> provider_answer proc" where
  "local_brain_call env txt executable cfg prompt timeout work_dir on_progress =
     pseq (report_progress env on_progress (JObj [(''status'', JStr ''calling_brain'')]))
       (let cwd = or_opt work_dir (cfg_work_dir cfg);
            failed = (\<lambda>t. tagged (jt_brain_failed txt @ t) [(''error'', JStr ''brain_fail'')]) in
        with_child env (local_brain_cmd executable) cwd (filtered_env env cwd)
          (\<lambda>e. tagged (jt_no_brain txt @ e) [(''error'', JStr ''no_python'')])
          (pbind (pcatch (pbind (communicate env (Some prompt) (or_timeout timeout (cfg_timeout cfg))) (\<lambda>r. pret (Inr r)))
                    (\<lambda>e. pseq (cleanup env)
                       (case e of
                          CancelledError \<Rightarrow> praise CancelledError
                        | NotFoundError t \<Rightarrow> pret (Inl (failed t))
                        | Failure t \<Rightarrow> pret (Inl (failed t))))) (\<lambda>out.
           case out of
             Inl a \<Rightarrow> pret a
           | Inr None \<Rightarrow> pseq (cleanup env) (pret (tagged (jt_brain_late txt) [(''error'', JStr ''timeout'')]))
           | Inr (Some (rc, stdout, stderr)) \<Rightarrow>
               if rc \<noteq> 0 then
                 pret (tagged (jt_brain_failed txt @ take 500 (strip stderr)) [(''error'', JStr ''brain_fail''), (''rc'', JInt rc)])
               else pret (tagged (strip stdout) [(''engine'', JStr ''jarvis-local'')]))))"

section \<open>All adapters\<close>

datatype adapter_kind = Claude | Codex | Hermes | Jarvis | JarvisLocal | Omp | OpenCode

text \<open>\<open>make_adapter\<close>; the left side is the text of \<open>SystemExit\<close>.\<close>
definition make_adapter :: "provider_config \<Rightarrow> string + adapter_kind" where
  "make_adapter cfg =
     (let adapter = map py_lower (cfg_adapter cfg) in
      if adapter = ''claude'' then Inr Claude
      else if adapter = ''codex'' then Inr Codex
      else if adapter = ''hermes'' then Inr Hermes
      else if adapter = ''jarvis'' then Inr Jarvis
      else if adapter = ''jarvis-local'' then Inr JarvisLocal
      else if adapter = ''omp'' then Inr Omp
      else if adapter = ''opencode'' then Inr OpenCode
      else Inl (''Unsupported adapter: '' @ cfg_adapter cfg
        @ ''. Available: claude, codex, hermes, jarvis, jarvis-local, omp, opencode.''))"

text \<open>What is passed to \<open>call\<close> and \<open>resume\<close>, and what belongs to the installation.\<close>
record adapter_request =
  aq_prompt :: string
  aq_timeout :: "int option"
  aq_work_dir :: "string option"
  aq_on_progress :: bool
  aq_texts :: jarvis_text
  aq_executable :: string

definition adapter_call :: "proc_env \<Rightarrow> provider_config \<Rightarrow> adapter_kind \<Rightarrow> adapter_request \<Rightarrow> provider_answer proc" where
  "adapter_call env cfg ak q =
     (case ak of
        Claude \<Rightarrow> claude_run env cfg None (aq_prompt q) (aq_timeout q) (aq_work_dir q) (aq_on_progress q)
      | Codex \<Rightarrow> codex_call env cfg (aq_prompt q) (aq_timeout q) (aq_work_dir q)
      | Hermes \<Rightarrow> hermes_call env cfg (aq_prompt q) (aq_timeout q) (aq_work_dir q)
      | Jarvis \<Rightarrow> jarvis_call env (aq_texts q) cfg (aq_prompt q) (aq_timeout q) (aq_on_progress q)
      | JarvisLocal \<Rightarrow>
          local_brain_call env (aq_texts q) (aq_executable q) cfg (aq_prompt q) (aq_timeout q) (aq_work_dir q) (aq_on_progress q)
      | Omp \<Rightarrow> omp_call env cfg (aq_prompt q) (aq_timeout q) (aq_work_dir q)
      | OpenCode \<Rightarrow>
          opencode_run env cfg None (aq_prompt q) (or_timeout (aq_timeout q) (cfg_timeout cfg)) (aq_work_dir q)
            (aq_on_progress q) EMPTY_TEXT_RETRIES)"

text \<open>An adapter without \<open>resume\<close> of its own starts afresh.\<close>
definition adapter_resume ::
    "proc_env \<Rightarrow> provider_config \<Rightarrow> adapter_kind \<Rightarrow> string \<Rightarrow> adapter_request \<Rightarrow> provider_answer proc" where
  "adapter_resume env cfg ak session_id q =
     (case ak of
        Claude \<Rightarrow>
          as_resumed (claude_run env cfg (Some session_id) (aq_prompt q) (aq_timeout q) (aq_work_dir q) (aq_on_progress q))
      | Codex \<Rightarrow> codex_resume env cfg session_id (aq_prompt q) (aq_timeout q) (aq_work_dir q)
      | Omp \<Rightarrow> as_resumed (omp_run env cfg (Some session_id) False (aq_prompt q) (aq_timeout q) (aq_work_dir q))
      | OpenCode \<Rightarrow>
          as_resumed (opencode_run env cfg (Some session_id) (aq_prompt q) (or_timeout (aq_timeout q) (cfg_timeout cfg))
            (aq_work_dir q) (aq_on_progress q) EMPTY_TEXT_RETRIES)
      | _ \<Rightarrow> adapter_call env cfg ak q)"

section \<open>Health checks\<close>

definition health_dict :: "string \<Rightarrow> string \<Rightarrow> bool \<Rightarrow> json \<Rightarrow> dict" where
  "health_dict adapter bin available path =
     [(''adapter'', JStr adapter), (''bin'', JStr bin), (''available'', JBool available), (''path'', path)]"

text \<open>The check that only looks for the program.\<close>
definition which_health :: "proc_env \<Rightarrow> string \<Rightarrow> string \<Rightarrow> dict" where
  "which_health env adapter bin = health_dict adapter bin (pe_which env bin \<noteq> None) (opt_str (pe_which env bin))"

text \<open>A child of a health check: its output, or why there is none; it is not terminated when it is late.\<close>
definition probe_child :: "proc_env \<Rightarrow> string list \<Rightarrow> (string \<times> string) list \<Rightarrow> int \<Rightarrow> (string + int \<times> string) proc" where
  "probe_child env argv environ timeout =
     pcatch
       (pseq (pspawn env argv None environ)
         (pbind (communicate env None timeout) (\<lambda>out.
          case out of None \<Rightarrow> praise (Failure []) | Some (rc, stdout, stderr) \<Rightarrow> pret (Inr (rc, stdout)))))
       (\<lambda>e. case e of CancelledError \<Rightarrow> praise CancelledError | NotFoundError t \<Rightarrow> pret (Inl t) | Failure t \<Rightarrow> pret (Inl t))"

definition omp_health :: "proc_env \<Rightarrow> provider_config \<Rightarrow> dict proc" where
  "omp_health env cfg =
     pbind (probe_child env [vc_omp_bin cfg, ''--version''] (filtered_env env None) 10) (\<lambda>r.
     pret (health_dict ''omp'' (vc_omp_bin cfg) (case r of Inr (rc, _) \<Rightarrow> rc = 0 | Inl _ \<Rightarrow> False)
       (opt_str (pe_which env (vc_omp_bin cfg)))))"

text \<open>
  The child of the Jarvis check inherits the whole environment. \<open>int\<close> of the output, or the text of its
  \<open>ValueError\<close>, is given by \<open>read_count\<close>.
\<close>
definition jarvis_health :: "proc_env \<Rightarrow> (string \<Rightarrow> string + int) \<Rightarrow> provider_config \<Rightarrow> dict proc" where
  "jarvis_health env read_count cfg =
     pbind (probe_child env (ssh_cmd cfg HEALTH_CMD) (pe_environ env) 15) (\<lambda>r.
     let host = JStr (vc_jarvis_ssh_host cfg) in
     case ebind r (\<lambda>(rc, stdout). read_count (strip stdout)) of
       Inl t \<Rightarrow> pret (health_dict ''jarvis'' ''ssh'' False host @ [(''error'', JStr t)])
     | Inr n \<Rightarrow> pret (health_dict ''jarvis'' ''ssh'' (0 < n) host @ [(''wake_processes'', JInt n)]))"

text \<open>\<open>jarvis-local\<close>, where the import of the brain has gone well or raised.\<close>
definition local_brain_health :: "proc_env \<Rightarrow> (string \<Rightarrow> string + int) \<Rightarrow> string option \<Rightarrow> dict proc" where
  "local_brain_health env read_count import_error =
     (let health = (\<lambda>available. health_dict ''jarvis-local'' ''brain()'' available (JStr ''jarvis_pkg.brain'')) in
      case import_error of
        Some t \<Rightarrow> pret (health False @ [(''error'', JStr (''import failed: '' @ t))])
      | None \<Rightarrow>
          pbind (probe_child env [''sh'', ''-c'', HEALTH_CMD] (pe_environ env) 10) (\<lambda>r.
          let n = (case ebind r (\<lambda>(rc, stdout). read_count (strip stdout)) of Inr k \<Rightarrow> k | Inl _ \<Rightarrow> 0) in
          pret (health True @ [(''wake_processes'', JInt n)])))"

end
