(* ===== verification/ProviderContract.thy ===== *)
theory ProviderContract
  imports ProviderAdapters
begin

text \<open>
  Reasoning about the adapters: the weakest precondition \<open>wp\<close> of a coroutine, the fate of the child that the
  trace tells (\<open>child_of\<close>), and what the termination of the group and the loop over the output do to it.
\<close>

section \<open>Weakest preconditions\<close>

definition wp :: "'a proc \<Rightarrow> ('a \<Rightarrow> proc_state \<Rightarrow> bool) \<Rightarrow> (proc_stop \<Rightarrow> proc_state \<Rightarrow> bool) \<Rightarrow> proc_state \<Rightarrow> bool" where
  "wp m Q X s = (case m s of (Inl e, s') \<Rightarrow> X e s' | (Inr a, s') \<Rightarrow> Q a s')"

lemma wp_mono:
  assumes "wp m Q X s" "\<And>a s'. Q a s' \<Longrightarrow> Q' a s'" "\<And>e s'. X e s' \<Longrightarrow> X' e s'"
  shows "wp m Q' X' s"
  using assms by (auto simp: wp_def split: prod.splits sum.splits)

lemma wp_conj: "wp m Q X s \<Longrightarrow> wp m Q' X' s \<Longrightarrow> wp m (\<lambda>a s. Q a s \<and> Q' a s) (\<lambda>e s. X e s \<and> X' e s) s"
  by (auto simp: wp_def split: prod.splits sum.splits)

lemma wpD: "wp m Q X s \<Longrightarrow> m s = (Inr a, s') \<Longrightarrow> Q a s'" "wp m Q X s \<Longrightarrow> m s = (Inl e, s') \<Longrightarrow> X e s'"
  by (simp_all add: wp_def)

lemma wp_ret [proc_simps]: "wp (pret a) Q X s = Q a s"
  by (simp add: wp_def pret_def)

lemma wp_raise [proc_simps]: "wp (praise e) Q X s = X (ProcRaised e) s"
  by (simp add: wp_def praise_def)

lemma wp_diverge [proc_simps]: "wp pdiverge Q X s = X ProcDiverged s"
  by (simp add: wp_def pdiverge_def)

lemma wp_bind [proc_simps]: "wp (pbind m f) Q X s = wp m (\<lambda>a. wp (f a) Q X) X s"
  by (auto simp: wp_def pbind_def split: prod.splits sum.splits)

lemma wp_seq [proc_simps]: "wp (pseq m n) Q X s = wp m (\<lambda>_. wp n Q X) X s"
  by (simp add: pseq_def wp_bind)

lemma wp_catch [proc_simps]:
  "wp (pcatch m h) Q X s
   = wp m Q (\<lambda>e s'. case e of ProcRaised e \<Rightarrow> wp (h e) Q X s' | ProcDiverged \<Rightarrow> X ProcDiverged s') s"
  by (auto simp: wp_def pcatch_def split: prod.splits sum.splits proc_stop.splits)

lemma wp_step [proc_simps]:
  "wp (pstep event answer) Q X s
   = (case answer (px_trace s) of
        Inl e \<Rightarrow> X (ProcRaised e) (s\<lparr>px_trace := px_trace s @ [event]\<rparr>)
      | Inr a \<Rightarrow> Q a (s\<lparr>px_trace := px_trace s @ [event]\<rparr>))"
  by (auto simp: wp_def pstep_def split: sum.splits)

lemma wp_lift [proc_simps]:
  "wp (plift r) Q X s = (case r of Inl t \<Rightarrow> X (ProcRaised (Failure t)) s | Inr a \<Rightarrow> Q a s)"
  by (auto simp: plift_def proc_simps split: sum.splits)

lemma wp_clock [proc_simps]:
  "wp (pclock env) Q X s = Q (pe_time env (px_trace s)) (s\<lparr>px_trace := px_trace s @ [ReadClock]\<rparr>)"
  by (simp add: pclock_def proc_simps)

lemma wp_get [proc_simps]: "wp get_session Q X s = Q (px_session s) s"
  by (simp add: get_session_def wp_def)

lemma wp_set [proc_simps]: "wp (set_session v) Q X s = Q () (s\<lparr>px_session := v\<rparr>)"
  by (simp add: set_session_def wp_def)

lemma wp_state [proc_simps]: "wp (\<lambda>t. f t t) Q X s = wp (f s) Q X s"
  by (simp add: wp_def)

lemma wp_bindI:
  assumes "wp m P X s" "\<And>a t. P a t \<Longrightarrow> wp (f a) Q X t"
  shows "wp (pbind m f) Q X s"
  unfolding wp_bind using assms by (auto intro: wp_mono)

lemma wp_seqI:
  assumes "wp m P X s" "\<And>a t. P a t \<Longrightarrow> wp n Q X t"
  shows "wp (pseq m n) Q X s"
  unfolding wp_seq using assms by (auto intro: wp_mono)

lemma wp_if: "wp (if b then m else n) Q X s = (if b then wp m Q X s else wp n Q X s)"
  by simp

section \<open>The fate of the child\<close>

text \<open>
  A child that was signalled and then reaped was stopped; one whose exit was seen without that has exited.
  A child that was left alive when another was started is lost.
\<close>
datatype child = NoChild | ChildRunning | ChildSignalled | ChildStopped | ChildExited | ChildLost

definition settled :: "child \<Rightarrow> child" where
  "settled c = (case c of ChildRunning \<Rightarrow> ChildStopped | ChildSignalled \<Rightarrow> ChildStopped | _ \<Rightarrow> c)"

definition signalled :: "child \<Rightarrow> child" where
  "signalled c = (if c = ChildRunning then ChildSignalled else c)"

definition exited :: "child \<Rightarrow> child" where
  "exited c = (case c of ChildRunning \<Rightarrow> ChildExited | ChildSignalled \<Rightarrow> ChildStopped | _ \<Rightarrow> c)"

definition child_after :: "proc_env \<Rightarrow> proc_trace \<Rightarrow> proc_event \<Rightarrow> child \<Rightarrow> child" where
  "child_after env tr event c =
     (case event of
        SpawnChild argv cwd environ \<Rightarrow>
          if is_ok (pe_spawn env tr)
          then (if c \<in> {NoChild, ChildStopped, ChildExited} then ChildRunning else ChildLost)
          else c
      | AwaitExit \<Rightarrow> if is_ok (pe_exit env tr) then exited c else c
      | Communicate input t \<Rightarrow> (case pe_communicate env tr of Inr (Some _) \<Rightarrow> exited c | _ \<Rightarrow> c)
      | SignalGroup g \<Rightarrow> if g = GroupProbe then c else signalled c
      | RunTaskkill t \<Rightarrow> signalled c
      | ReapLeader t \<Rightarrow> if pe_reap env tr = None then c else exited c
      | _ \<Rightarrow> c)"

definition child_of :: "proc_env \<Rightarrow> proc_trace \<Rightarrow> child" where
  "child_of env tr = fst (foldl (\<lambda>(c, pre) e. (child_after env pre e c, pre @ [e])) (NoChild, []) tr)"

lemma child_of_Nil [simp]: "child_of env [] = NoChild"
  by (simp add: child_of_def)

lemma child_of_snoc [simp]: "child_of env (tr @ [e]) = child_after env tr e (child_of env tr)"
proof -
  have "snd (foldl (\<lambda>(c, pre) e. (child_after env pre e c, pre @ [e])) (NoChild, []) tr) = tr"
    by (induction tr rule: rev_induct) (auto split: prod.splits)
  then show ?thesis
    by (auto simp: child_of_def split: prod.splits)
qed

text \<open>Events that say nothing about the child.\<close>
definition calm :: "proc_event \<Rightarrow> bool" where
  "calm e = (case e of ReadClock \<Rightarrow> True | WriteInput t \<Rightarrow> True | ReadLine t \<Rightarrow> True | ReadErrors \<Rightarrow> True
     | SignalGroup g \<Rightarrow> g = GroupProbe | ShortSleep \<Rightarrow> True | ReportProgress j \<Rightarrow> True | _ \<Rightarrow> False)"

lemma calm_simps [simp]:
  "calm ReadClock" "calm (WriteInput t)" "calm (ReadLine n)" "calm ReadErrors" "calm ShortSleep"
  "calm (ReportProgress j)" "calm (SignalGroup GroupProbe)"
  by (simp_all add: calm_def)

lemma calm_after: "calm e \<Longrightarrow> child_after env tr e c = c"
  by (auto simp: calm_def child_after_def split: proc_event.splits)

text \<open>The second state follows from the first by calm events; the session may change.\<close>
definition calmly :: "proc_state \<Rightarrow> proc_state \<Rightarrow> bool" where
  "calmly s s' = (px_cleaned s' = px_cleaned s \<and> px_pid s' = px_pid s
     \<and> (\<exists>es. px_trace s' = px_trace s @ es \<and> list_all calm es))"

lemma calmly_refl [simp]: "calmly s s"
  by (simp add: calmly_def)

lemma calmly_trans: "calmly s t \<Longrightarrow> calmly t u \<Longrightarrow> calmly s u"
  by (auto simp: calmly_def)

lemma calmly_step [simp]: "calm e \<Longrightarrow> calmly s (s\<lparr>px_trace := px_trace s @ [e]\<rparr>)"
  by (simp add: calmly_def)

lemma calmly_append: "calmly s t \<Longrightarrow> list_all calm es \<Longrightarrow> calmly s (t\<lparr>px_trace := px_trace t @ es\<rparr>)"
  by (auto simp: calmly_def)

lemma calmly_from: "calmly (s\<lparr>px_trace := px_trace s @ es\<rparr>) t \<Longrightarrow> list_all calm es \<Longrightarrow> calmly s t"
  by (auto simp: calmly_def)

lemma calmly_session [simp]: "calmly s (t\<lparr>px_session := v\<rparr>) = calmly s t"
  by (simp add: calmly_def)

lemma calmly_child: "calmly s t \<Longrightarrow> child_of env (px_trace t) = child_of env (px_trace s)"
proof -
  have "child_of env (tr @ es) = child_of env tr" if "list_all calm es" for tr es
    using that by (induction es rule: rev_induct) (auto simp: calm_after simp flip: append_assoc)
  then show "calmly s t \<Longrightarrow> ?thesis"
    by (auto simp: calmly_def)
qed

section \<open>Terminating the group\<close>

lemma group_alive_wp:
  "wp (group_alive env) Q X s
   = Q (pe_signal env (px_trace s) GroupProbe \<noteq> NoSuchGroup) (s\<lparr>px_trace := px_trace s @ [SignalGroup GroupProbe]\<rparr>)"
  by (simp add: group_alive_def psignal_def proc_simps)

lemma wait_until_gone_calm:
  "wp (wait_until_gone env n deadline) (\<lambda>gone. calmly s) (\<lambda>e s'. e = ProcDiverged \<and> calmly s s') s"
proof -
  have "calmly s t \<Longrightarrow> wp (wait_until_gone env n deadline) (\<lambda>gone. calmly s) (\<lambda>e s'. e = ProcDiverged \<and> calmly s s') t" for t
    by (induction n arbitrary: t) (simp_all add: proc_simps group_alive_wp calmly_append)
  then show ?thesis
    by simp
qed

lemma wait_group_gone_calm:
  "wp (wait_group_gone env timeout) (\<lambda>gone. calmly s) (\<lambda>e s'. e = ProcDiverged \<and> calmly s s') s"
  unfolding wait_group_gone_def proc_simps
  by (rule wp_mono [OF wait_until_gone_calm]) (auto dest: calmly_from)

text \<open>
  What the cleanup does to the child: it settles it, unless it fails, and then the child has been signalled.
\<close>
definition cleaned_up :: "proc_env \<Rightarrow> child \<Rightarrow> proc_state \<Rightarrow> bool" where
  "cleaned_up env c s = (px_cleaned s \<and> child_of env (px_trace s) = settled c)"

definition half_cleaned :: "proc_env \<Rightarrow> child \<Rightarrow> proc_state \<Rightarrow> bool" where
  "half_cleaned env c s = (px_cleaned s \<and> child_of env (px_trace s) \<in> {settled c, signalled c})"

text \<open>How the cleanup may stop: a cancellation is only delivered after it.\<close>
definition cleanup_stops :: "proc_env \<Rightarrow> child \<Rightarrow> proc_stop \<Rightarrow> proc_state \<Rightarrow> bool" where
  "cleanup_stops env c e s =
     (case e of
        ProcRaised CancelledError \<Rightarrow> cleaned_up env c s
      | ProcRaised (NotFoundError t) \<Rightarrow> False
      | _ \<Rightarrow> half_cleaned env c s)"

lemma exited_signalled [simp]: "exited (signalled c) = settled c"
  by (cases c) (simp_all add: exited_def signalled_def settled_def)

lemma settled_signalled [simp]: "settled (signalled c) = settled c" "signalled (signalled c) = signalled c"
  by (cases c; simp add: signalled_def settled_def)+

abbreviation fails :: "(proc_state \<Rightarrow> bool) \<Rightarrow> proc_stop \<Rightarrow> proc_state \<Rightarrow> bool" where
  "fails I e s \<equiv> (e = ProcDiverged \<or> (\<exists>t. e = ProcRaised (Failure t))) \<and> I s"

text \<open>The cleanup is under way, and the child has been signalled.\<close>
definition hit :: "proc_env \<Rightarrow> child \<Rightarrow> proc_state \<Rightarrow> bool" where
  "hit env c s = (px_cleaned s \<and> child_of env (px_trace s) = signalled c)"

lemma hit_calmly: "hit env c s \<Longrightarrow> calmly s t \<Longrightarrow> hit env c t"
  by (auto simp: hit_def calmly_child) (auto simp: calmly_def)

lemma kill_group_wp:
  assumes "px_cleaned s" "child_of env (px_trace s) = c \<or> hit env c s" "g \<noteq> GroupProbe"
  shows "wp (kill_group env g) (\<lambda>_. hit env c) (fails (hit env c)) s"
  using assms
  by (auto simp: kill_group_def psignal_def proc_simps hit_def child_after_def split: signal_end.split)

lemma wait_group_gone_wp: "hit env c s \<Longrightarrow> wp (wait_group_gone env timeout) (\<lambda>_. hit env c) (fails (hit env c)) s"
  by (rule wp_mono [OF wait_group_gone_calm]) (auto intro: hit_calmly)

lemma reap_leader_wp: "hit env c s \<Longrightarrow> wp (reap_leader env timeout) (\<lambda>_. cleaned_up env c) (fails (hit env c)) s"
  by (auto simp: reap_leader_def proc_simps hit_def cleaned_up_def child_after_def split: option.split)

lemma kill_stubborn_wp:
  "hit env c s \<Longrightarrow>
   wp (pseq (kill_group env GroupKill) (pbind (wait_group_gone env t) (\<lambda>gone. if gone then pret () else praise (Failure m))))
     (\<lambda>_. hit env c) (fails (hit env c)) s"
  by (intro wp_seqI [OF kill_group_wp] wp_bindI [OF wait_group_gone_wp]) (auto simp: proc_simps, simp add: hit_def)

lemma cleanup_posix_wp:
  assumes "px_cleaned s" "child_of env (px_trace s) = c"
  shows "wp (cleanup_posix env pid a b) (\<lambda>_. cleaned_up env c) (fails (hit env c)) s"
proof -
  have "wp (if gone then pret () else pseq (kill_group env GroupKill) (pbind (wait_group_gone env b)
      (\<lambda>gone. if gone then pret () else praise (Failure m)))) (\<lambda>_. hit env c) (fails (hit env c)) t"
    if "hit env c t" for gone m t
    using that kill_stubborn_wp by (cases gone) (simp_all add: wp_ret)
  then show ?thesis
    unfolding cleanup_posix_def
    by (intro wp_seqI [OF kill_group_wp] wp_bindI [OF wait_group_gone_wp] wp_seqI [where P = "\<lambda>_. hit env c"] reap_leader_wp)
      (use assms in auto)
qed

lemma cleanup_windows_wp:
  assumes "px_cleaned s" "child_of env (px_trace s) = c"
  shows "wp (cleanup_windows env pid b) (\<lambda>_. cleaned_up env c) (fails (hit env c)) s"
proof -
  have "hit env c (s\<lparr>px_trace := px_trace s @ [RunTaskkill b]\<rparr>)"
    using assms by (simp add: hit_def child_after_def)
  then show ?thesis
    unfolding cleanup_windows_def
    by (auto simp: proc_simps reap_leader_wp split: taskkill_end.split)
qed

lemma cleanup_wp:
  assumes "c = child_of env (px_trace s)" "px_cleaned s \<Longrightarrow> c = settled c"
  shows "wp (cleanup env) (\<lambda>_. cleaned_up env c) (cleanup_stops env c) s"
proof -
  let ?run = "\<lambda>pid. if pe_windows env then cleanup_windows env pid 2 else cleanup_posix env pid 2 2"
  have "wp (?run pid) (\<lambda>_. cleaned_up env c) (fails (hit env c)) (s\<lparr>px_cleaned := True\<rparr>)" for pid
    using assms(1) cleanup_posix_wp cleanup_windows_wp by (simp add: wp_if)
  then have "wp (?run pid) (\<lambda>_. cleaned_up env c) (cleanup_stops env c) (s\<lparr>px_cleaned := True\<rparr>)" for pid
    by (rule wp_mono) (auto simp: cleanup_stops_def hit_def half_cleaned_def)
  moreover have "wp (\<lambda>s. (if pe_interrupted env (px_trace s) then praise CancelledError else pret ()) s)
      (\<lambda>_. cleaned_up env c) (cleanup_stops env c) t" if "cleaned_up env c t" for t
    using that by (simp add: wp_def praise_def pret_def cleanup_stops_def)
  ultimately have "wp (terminate_owned_process_group env) (\<lambda>_. cleaned_up env c) (cleanup_stops env c) (s\<lparr>px_cleaned := True\<rparr>)"
    unfolding terminate_owned_process_group_def
    by (intro wp_seqI [where P = "\<lambda>_. cleaned_up env c"]) (simp_all add: wp_def)
  then show ?thesis
    using assms by (auto simp: cleanup_def wp_def cleaned_up_def pret_def)
qed


lemma cleanup_noop: "px_cleaned s \<Longrightarrow> wp (cleanup env) Q X s = Q () s"
  by (simp add: cleanup_def wp_def pret_def)

section \<open>What a call leaves behind\<close>

definition no_child :: "proc_env \<Rightarrow> proc_state \<Rightarrow> bool" where
  "no_child env s = (child_of env (px_trace s) \<in> {NoChild, ChildExited})"

definition fresh_child :: "proc_env \<Rightarrow> proc_state \<Rightarrow> bool" where
  "fresh_child env s = (child_of env (px_trace s) = ChildRunning \<and> \<not> px_cleaned s)"

definition gone_child :: "proc_env \<Rightarrow> proc_state \<Rightarrow> bool" where
  "gone_child env s = (child_of env (px_trace s) = ChildExited \<and> \<not> px_cleaned s)"

definition stopped_child :: "proc_env \<Rightarrow> proc_state \<Rightarrow> bool" where
  "stopped_child env s = (child_of env (px_trace s) = ChildStopped \<and> px_cleaned s)"

text \<open>How the body of a call may stop, before its exception handlers.\<close>
definition body_stops :: "proc_env \<Rightarrow> proc_stop \<Rightarrow> proc_state \<Rightarrow> bool" where
  "body_stops env e s =
     (case e of
        ProcDiverged \<Rightarrow> True
      | ProcRaised e \<Rightarrow> fresh_child env s \<or> gone_child env s
          \<or> px_cleaned s \<and> child_of env (px_trace s) \<in> {ChildStopped, ChildExited}
          \<or> px_cleaned s \<and> e \<noteq> CancelledError \<and> child_of env (px_trace s) = ChildSignalled)"

text \<open>
  How a call may stop: after a cancellation no child is left, after another exception no child is left that
  has not at least been signalled.
\<close>
definition left_behind :: "proc_env \<Rightarrow> proc_stop \<Rightarrow> proc_state \<Rightarrow> bool" where
  "left_behind env e s =
     (case e of
        ProcDiverged \<Rightarrow> True
      | ProcRaised e \<Rightarrow> child_of env (px_trace s) \<in> {NoChild, ChildExited, ChildStopped}
          \<or> e \<noteq> CancelledError \<and> child_of env (px_trace s) = ChildSignalled)"

lemmas fate_defs = no_child_def fresh_child_def gone_child_def stopped_child_def body_stops_def left_behind_def

lemma calm_fate [simp]:
  assumes "list_all calm es"
  shows "no_child env (s\<lparr>px_trace := px_trace s @ es\<rparr>) = no_child env s"
    and "fresh_child env (s\<lparr>px_trace := px_trace s @ es\<rparr>) = fresh_child env s"
    and "gone_child env (s\<lparr>px_trace := px_trace s @ es\<rparr>) = gone_child env s"
  using calmly_child [of s "s\<lparr>px_trace := px_trace s @ es\<rparr>" env] assms by (simp_all add: fate_defs calmly_def)

lemma session_fate [simp]:
  "no_child env (s\<lparr>px_session := v\<rparr>) = no_child env s"
  "fresh_child env (s\<lparr>px_session := v\<rparr>) = fresh_child env s"
  by (simp_all add: fate_defs)

lemma fresh_stops [simp]: "fresh_child env s \<Longrightarrow> body_stops env e s"
  by (simp add: body_stops_def split: proc_stop.split)

lemma gone_stops [simp]: "gone_child env s \<Longrightarrow> body_stops env e s" "gone_child env s \<Longrightarrow> no_child env s"
  by (simp_all add: fate_defs split: proc_stop.split)

lemma no_child_stops [simp]: "no_child env s \<Longrightarrow> left_behind env e s"
  by (auto simp: fate_defs split: proc_stop.split)

lemma await_exit_wp:
  assumes "fresh_child env s"
  shows "wp (await_exit env) (\<lambda>_. gone_child env) (body_stops env) s"
  using assms by (auto simp: await_exit_def proc_simps fate_defs child_after_def exited_def is_ok_def split: sum.split)

lemma calm_step_wp: "calm e \<Longrightarrow> I s \<Longrightarrow> (\<And>t. I t \<Longrightarrow> I (t\<lparr>px_trace := px_trace t @ [e]\<rparr>)) \<Longrightarrow> (\<And>e t. I t \<Longrightarrow> X e t)
  \<Longrightarrow> wp (pstep e answer) (\<lambda>_. I) X s"
  by (simp add: proc_simps split: sum.split)

lemma cleanup_fresh:
  "fresh_child env s \<Longrightarrow> wp (cleanup env) (\<lambda>_. stopped_child env) (body_stops env) s"
  by (rule wp_mono [OF cleanup_wp [OF refl]])
    (auto simp: fate_defs cleaned_up_def cleanup_stops_def half_cleaned_def settled_def signalled_def
      split: proc_stop.split proc_stop.split_asm proc_exc.split_asm)

lemma cleanup_after_error:
  assumes "body_stops env (ProcRaised e) s"
  shows "wp (cleanup env) (\<lambda>_. left_behind env (ProcRaised e)) (left_behind env) s"
proof (cases "px_cleaned s")
  case True
  then show ?thesis
    using assms by (auto simp: cleanup_noop fate_defs)
next
  case False
  show ?thesis
    by (rule wp_mono [OF cleanup_wp [OF refl]])
      (use assms False in \<open>auto simp: fate_defs cleaned_up_def cleanup_stops_def half_cleaned_def settled_def signalled_def
        split: proc_stop.split proc_stop.split_asm proc_exc.split_asm\<close>)
qed

lemma cleanup_on_error_wp:
  assumes "wp m Q (body_stops env) s"
  shows "wp (cleanup_on_error env m) Q (left_behind env) s"
  unfolding cleanup_on_error_def wp_catch
  by (rule wp_mono [OF assms])
    (auto simp: proc_simps left_behind_def [of _ ProcDiverged] elim: wp_mono [OF cleanup_after_error] split: proc_stop.split)

lemma wp_spawn [proc_simps]:
  "wp (pspawn env argv cwd environ) Q X s
   = (let t = s\<lparr>px_trace := px_trace s @ [SpawnChild argv cwd environ]\<rparr> in
      case pe_spawn env (px_trace s) of
        Inl e \<Rightarrow> X (ProcRaised e) t
      | Inr pid \<Rightarrow> Q () (t\<lparr>px_pid := pid, px_cleaned := False\<rparr>))"
  by (auto simp: pspawn_def wp_def pbind_def pstep_def pret_def Let_def split: sum.split)

lemma with_child_wp:
  assumes "no_child env s"
    and "\<And>t. fresh_child env t \<Longrightarrow> wp rest Q X t"
    and "\<And>m t. no_child env t \<Longrightarrow> Q (missing m) t"
    and "\<And>e t. no_child env t \<Longrightarrow> X (ProcRaised e) t"
  shows "wp (with_child env argv cwd environ missing rest) Q X s"
  using assms
  by (auto simp: with_child_def proc_simps Let_def child_after_def is_ok_def fate_defs split: sum.split proc_exc.split)

section \<open>The loop over the output\<close>

lemma stream_loop_wp:
  assumes "I s"
    and clock: "\<And>t. I t \<Longrightarrow> I (t\<lparr>px_trace := px_trace t @ [ReadClock]\<rparr>)"
    and read: "\<And>t n. I t \<Longrightarrow> I (t\<lparr>px_trace := px_trace t @ [ReadLine n]\<rparr>)"
    and failed: "\<And>t e. I t \<Longrightarrow> X e t"
    and step: "\<And>st l t. I t \<Longrightarrow> wp (step st l) (\<lambda>r t. I t \<and> (\<forall>a. r = Inl a \<longrightarrow> J a)) X t"
  shows "wp (stream_loop env idle step deadline n la saw st) (\<lambda>e t. I t \<and> (\<forall>a. e = ReturnedEarly a \<longrightarrow> J a)) X s"
  using assms(1)
proof (induction n arbitrary: la saw st s)
  case (Suc n)
  let ?Q = "\<lambda>e t. I t \<and> (\<forall>a. e = ReturnedEarly a \<longrightarrow> J a)"
  have handled: "wp (pbind (step st l) (\<lambda>r. case r of Inl a \<Rightarrow> pret (ReturnedEarly a)
      | Inr st' \<Rightarrow> stream_loop env idle step deadline n t' True st')) ?Q X t" if "I t" for st l t t'
    by (rule wp_bindI [OF step [OF that]]) (auto simp: proc_simps Suc.IH split: sum.split)
  have r: "I (s\<lparr>px_trace := px_trace s @ [ReadClock, ReadLine k]\<rparr>)" "I (s\<lparr>px_trace := px_trace s @ [ReadClock, ReadLine k, ReadClock]\<rparr>)" for k
    using read [OF clock [OF Suc.prems], of k] clock [OF read [OF clock [OF Suc.prems], of k]] by simp_all
  show ?case
    using Suc.prems r by (auto simp: proc_simps Let_def clock failed Suc.IH handled [unfolded wp_bind] split: sum.split option.split)
qed (simp add: failed proc_simps)


section \<open>An environment that plays a script\<close>

definition sample_provider :: provider_config where
  "sample_provider = agent_config.extend sample_config
     (provider_config.fields 120 120 [] ''hermes'' None None False ''claude'' False ''codex'' ''danger-full-access'' False
        (Some ''small'') ''opencode'' False ''omp'' None None True ''pad'')"

definition sample_request :: adapter_request where
  "sample_request = \<lparr>aq_prompt = ''hi'', aq_timeout = None, aq_work_dir = None, aq_on_progress = False,
     aq_texts = \<lparr>jt_no_ssh = ''a'', jt_late = ''b'', jt_failed = ''c'', jt_no_brain = ''d'', jt_brain_late = ''e'', jt_brain_failed = ''f''\<rparr>,
     aq_executable = ''python3''\<rparr>"

definition is_read :: "proc_event \<Rightarrow> bool" where
  "is_read e = (case e of ReadLine t \<Rightarrow> True | _ \<Rightarrow> False)"

text \<open>
  The output is \<open>ls\<close> (\<open>None\<close> for a read that times out), the child exits with \<open>rc\<close> and dies of \<open>SIGTERM\<close>; every
  effect takes a nanosecond, and a read that times out a thousand seconds.
\<close>
definition scripted_env :: "string option list \<Rightarrow> int \<Rightarrow> proc_env" where
  "scripted_env ls rc =
     \<lparr>pe_windows = False, pe_environ = [(''HOME'', ''/root''), (''DISCORD_TOKEN'', ''t'')],
      pe_time = (\<lambda>tr. int (length tr)
        + 1000 * SECOND * int (length (filter (\<lambda>l. l = None) (take (length (filter is_read tr)) ls)))),
      pe_spawn = (\<lambda>tr. Inr 7), pe_write = (\<lambda>tr. Inr ()),
      pe_line = (\<lambda>tr n. Inr (let k = length (filter is_read tr) in if k < length ls then ls ! k else Some [])),
      pe_exit = (\<lambda>tr. Inr rc), pe_stderr = (\<lambda>tr. Inr []), pe_communicate = (\<lambda>tr. Inr (Some (rc, [], []))),
      pe_signal = (\<lambda>tr g. if SignalGroup GroupTerm \<in> set tr then NoSuchGroup else SignalSent),
      pe_reap = (\<lambda>tr. Some 0), pe_taskkill = (\<lambda>tr. TaskkillExit 0), pe_interrupted = (\<lambda>tr. False),
      pe_progress = (\<lambda>tr j. None), pe_which = (\<lambda>b. None), pe_fuel = 9\<rparr>"

definition start_state :: proc_state where
  "start_state = \<lparr>px_trace = [], px_pid = 0, px_cleaned = False, px_session = JNull\<rparr>"

definition thread_line :: string where
  "thread_line = canonical_json (JObj [(''type'', JStr ''thread.started''), (''thread_id'', JStr ''t1'')])"

definition message_line :: string where
  "message_line = canonical_json (JObj [(''item'', JObj [(''type'', JStr ''agent_message''), (''text'', JStr ''done'')])])"

definition claude_error_line :: string where
  "claude_error_line = canonical_json (JObj [(''type'', JStr ''result''), (''is_error'', JBool True), (''result'', JStr ''x'')])"

lemma no_child_start [simp]: "no_child env start_state"
  by (simp add: no_child_def start_state_def)

definition good_env :: proc_env where "good_env = scripted_env [Some thread_line, Some message_line] 0"

text \<open>A read that times out after a thousand seconds: the group is terminated.\<close>
definition silent_env :: proc_env where "silent_env = scripted_env [None] 0"

end
