(* ===== verification/ProviderSafety.thy ===== *)
theory ProviderSafety
  imports ProviderContract
begin

text \<open>
  Properties of the adapters: what becomes of the child, which answers count as errors, what the child sees
  of the environment, how often a provider is started, and that a call ends.
\<close>

section \<open>The fate of the child\<close>

text \<open>A child that had to be stopped is an error to the worker.\<close>
definition told :: "proc_env \<Rightarrow> string \<Rightarrow> proc_state \<Rightarrow> bool" where
  "told env text s = (no_child env s \<or> child_of env (px_trace s) = ChildStopped \<and> is_error text)"

lemma told_simps [simp]:
  "no_child env s \<Longrightarrow> told env text s" "stopped_child env s \<Longrightarrow> is_error text \<Longrightarrow> told env text s"
  by (simp_all add: told_def stopped_child_def)

lemma error_texts:
  "is_error (''Codex timed out after '' @ t)" "is_error (''Codex stopped responding for '' @ t)"
  "is_error (''OpenCode timed out after '' @ t)" "is_error (''OpenCode timed out: no output after '' @ t)"
  "is_error (''OpenCode timed out: no activity for '' @ t)" "is_error (''omp timed out after '' @ t)"
  "is_error (''Hermes timed out after '' @ t)" "is_error (''Claude error: '' @ t)"
  "is_error (claude_timeout_message k m n)"
  by (simp_all add: is_error_def ERROR_PREFIXES_def claude_timeout_message_def)

lemmas error_texts_simps [simp] = error_texts [simplified]

lemma error_answers [simp]: "pa_text (plain_answer t v) = t"
  by (simp add: plain_answer_def)

lemma write_input_wp: "fresh_child env s \<Longrightarrow> wp (write_input env t) (\<lambda>_. fresh_child env) (body_stops env) s"
  unfolding write_input_def by (rule calm_step_wp) simp_all

lemma read_errors_wp:
  "gone_child env s \<Longrightarrow> wp (read_errors env) (\<lambda>_. gone_child env) (body_stops env) s"
  "no_child env s \<Longrightarrow> wp (read_errors env) (\<lambda>_. no_child env) (left_behind env) s"
  unfolding read_errors_def by (rule calm_step_wp; simp)+

lemma report_progress_wp: "fresh_child env s \<Longrightarrow> wp (report_progress env b j) (\<lambda>_. fresh_child env) (body_stops env) s"
  unfolding report_progress_def by (auto simp: wp_ret intro!: calm_step_wp)

subsection \<open>Codex\<close>

definition codex_told :: "proc_env \<Rightarrow> codex_run \<Rightarrow> proc_state \<Rightarrow> bool" where
  "codex_told env r s = (no_child env s \<or> stopped_child env s \<and> is_error (cr_text r) \<and> \<not> cr_capacity r)"

lemma codex_lines_wp:
  "fresh_child env s \<Longrightarrow>
   wp (codex_lines env a d la) (\<lambda>e t. fresh_child env t \<and> (\<forall>r. e \<noteq> ReturnedEarly r)) (body_stops env) s"
  unfolding codex_lines_def
  by (rule wp_mono [OF stream_loop_wp [where I = "fresh_child env" and J = "\<lambda>_. False"]])
    (auto simp: proc_simps split: sum.split, auto simp: map_sum_def split: sum.splits)

lemma codex_finished_wp: "fresh_child env s \<Longrightarrow> wp (codex_finished env st) (\<lambda>_. no_child env) (body_stops env) s"
  unfolding codex_finished_def
  by (rule wp_bindI [OF await_exit_wp])
    (auto simp: wp_if proc_simps Let_def split: sum.split intro: wp_mono [OF read_errors_wp(1)])

lemma codex_stopped_wp:
  assumes "fresh_child env s" "\<And>t. is_error (''Codex '' @ what @ t)"
  shows "wp (codex_stopped env what n v) (codex_told env) (body_stops env) s"
  unfolding codex_stopped_def
  by (rule wp_seqI [OF cleanup_fresh [OF assms(1)]]) (simp add: wp_ret codex_told_def assms(2) [simplified])

lemma run_codex_process_wp:
  "fresh_child env s \<Longrightarrow> wp (run_codex_process env p timeout a) (codex_told env) (left_behind env) s"
  unfolding run_codex_process_def wp_bind wp_clock
  by (rule cleanup_on_error_wp, rule wp_seqI [OF write_input_wp], simp, rule wp_bindI [OF codex_lines_wp], simp)
    (auto split: stream_end.split simp: codex_told_def intro!: codex_stopped_wp intro: wp_mono [OF codex_finished_wp])


lemma codex_run_once_wp: "no_child env s \<Longrightarrow> wp (codex_run_once env cfg p m w) (codex_told env) (left_behind env) s"
  unfolding codex_run_once_def Let_def
  by (rule with_child_wp) (auto simp: codex_told_def intro: run_codex_process_wp)

lemma codex_call_wp: "no_child env s \<Longrightarrow> wp (codex_call env cfg p t w) (\<lambda>a. told env (pa_text a)) (left_behind env) s"
  unfolding codex_call_def Let_def
  by (rule wp_bindI [OF codex_run_once_wp])
    (auto simp: wp_ret wp_bind codex_told_def split: option.split intro!: wp_mono [OF codex_run_once_wp])

lemma codex_resume_finished_wp:
  "fresh_child env s \<Longrightarrow> wp (codex_resume_finished env st) (\<lambda>_. no_child env) (body_stops env) s"
  unfolding codex_resume_finished_def
  by (rule wp_bindI [OF await_exit_wp])
    (auto simp: wp_if proc_simps Let_def split: sum.split intro: wp_mono [OF read_errors_wp(1)])

lemma codex_exec_process_wp:
  "fresh_child env s \<Longrightarrow> wp (codex_exec_process env cfg p n) (\<lambda>a. told env (pa_text a)) (left_behind env) s"
  unfolding codex_exec_process_def
  by (rule cleanup_on_error_wp, rule wp_seqI [OF write_input_wp], simp, unfold wp_bind [of "pclock env"] wp_clock,
      rule wp_bindI [OF codex_lines_wp], simp)
    (auto split: stream_end.split simp: wp_seq wp_ret intro: wp_mono [OF codex_resume_finished_wp] wp_mono [OF cleanup_fresh])

lemma codex_resume_wp:
  "no_child env s \<Longrightarrow> wp (codex_resume env cfg sid p t w) (\<lambda>a. told env (pa_text a)) (left_behind env) s"
  unfolding codex_resume_def Let_def
  by (rule wp_bindI [OF with_child_wp]) (auto simp: wp_ret intro: codex_exec_process_wp)

subsection \<open>OpenCode\<close>

lemma lift_wp: "I s \<Longrightarrow> X (ProcRaised (Failure (case r of Inl t \<Rightarrow> t | Inr _ \<Rightarrow> []))) s \<Longrightarrow> wp (plift r) (\<lambda>a t. r = Inr a \<and> t = s) X s"
  by (auto simp: wp_lift split: sum.split)

lemma opencode_show_wp:
  assumes "fresh_child env s"
  shows "wp (opencode_show_text env b parts) (\<lambda>_. fresh_child env) (body_stops env) s"
    and "wp (opencode_show_tool env parts tool) (\<lambda>_. fresh_child env) (body_stops env) s"
  using assms
  by (auto simp: opencode_show_text_def opencode_show_tool_def report_progress_def proc_simps
      split: sum.split option.split proc_stop.split proc_exc.split)

lemma opencode_step_wp:
  assumes "fresh_child env s"
  shows "wp (opencode_step env b st l) (\<lambda>r t. fresh_child env t \<and> (\<forall>a. r \<noteq> Inl a)) (body_stops env) s"
  using assms
  by (auto simp: opencode_step_def proc_simps Let_def
      split: option.split sum.split intro!: opencode_show_wp [THEN wp_mono])

lemma opencode_process_wp:
  assumes "fresh_child env s"
  shows "wp (opencode_process env cfg v p n b)
    (\<lambda>e t. case e of Inl a \<Rightarrow> told env (pa_text a) t | Inr _ \<Rightarrow> no_child env t) (left_behind env) s"
  unfolding opencode_process_def
  by (rule cleanup_on_error_wp, rule wp_seqI [OF write_input_wp [OF assms]], unfold wp_bind [of "pclock env"] wp_clock,
      rule wp_bindI [OF stream_loop_wp [where I = "fresh_child env" and J = "\<lambda>_. False"]], simp_all add: opencode_step_wp)
    (auto split: stream_end.split simp: wp_seq wp_bind wp_ret intro: wp_mono [OF await_exit_wp] wp_mono [OF cleanup_fresh])

lemma opencode_finished_wp:
  assumes "no_child env s"
  shows "wp (opencode_finished env n st rc) (\<lambda>r t. no_child env t \<and> (r = None \<longrightarrow> 0 < n)) (left_behind env) s"
proof -
  have "wp (if rc \<noteq> 0 then read_errors env else pret []) (\<lambda>_. no_child env) (left_behind env) s"
    using assms by (simp add: wp_ret read_errors_wp)
  then show ?thesis
    unfolding opencode_finished_def
    by (rule wp_bindI) (auto simp: wp_if proc_simps Let_def split: sum.split)
qed

lemma opencode_run_wp:
  "no_child env s \<Longrightarrow> wp (opencode_run env cfg r p t w b n) (\<lambda>a. told env (pa_text a)) (left_behind env) s"
proof (induction n arbitrary: s)
  case 0
  show ?case
    unfolding opencode_run.simps [of _ _ _ _ _ _ _ 0] Let_def
    by (rule with_child_wp [OF 0], rule wp_bindI [OF opencode_process_wp])
      (auto simp: wp_ret wp_bind split: sum.split option.split elim!: wp_mono [OF opencode_finished_wp])
next
  case (Suc n)
  show ?case
    unfolding opencode_run.simps [of _ _ _ _ _ _ _ "Suc n"] Let_def
    by (rule with_child_wp [OF Suc.prems], rule wp_bindI [OF opencode_process_wp])
      (auto simp: wp_ret wp_bind Suc.IH split: sum.split option.split elim!: wp_mono [OF opencode_finished_wp])
qed


subsection \<open>Claude\<close>

text \<open>An answer from within the loop leaves the child as it is.\<close>
definition claude_told :: "proc_env \<Rightarrow> provider_answer \<Rightarrow> proc_state \<Rightarrow> bool" where
  "claude_told env a s = (no_child env s \<or> is_error (pa_text a))"

lemma claude_told_error [simp]: "is_error (pa_text a) \<Longrightarrow> claude_told env a s" "no_child env s \<Longrightarrow> claude_told env a s"
  by (simp_all add: claude_told_def)

lemma claude_result_event_error: "claude_result_event v t event = Inr (Inl a) \<Longrightarrow> is_error (pa_text a)"
  by (auto simp: claude_result_event_def result_simps split: if_splits)

lemma claude_step_wp:
  assumes "fresh_child env s"
  shows "wp (claude_step env b st l) (\<lambda>r t. fresh_child env t \<and> (\<forall>a. r = Inl a \<longrightarrow> is_error (pa_text a))) (body_stops env) s"
proof -
  have last: "wp (plift (claude_result_event v st event)) (\<lambda>r t. fresh_child env t \<and> (\<forall>a. r = Inl a \<longrightarrow> is_error (pa_text a)))
      (body_stops env) t" if "fresh_child env t" for v event t
    using that by (auto simp: wp_lift dest: claude_result_event_error split: sum.split)
  have init: "wp (if c then pseq (set_session v) (report_progress env b j) else pret ()) (\<lambda>_. fresh_child env) (body_stops env) t"
    if "fresh_child env t" for c v j t
    using that by (simp add: wp_ret wp_seq wp_set report_progress_wp)
  have rest: "wp (pbind (plift (progress_summary_from_event event)) (\<lambda>summary. pbind get_session (\<lambda>session.
      pseq (if summary \<noteq> [] then report_progress env b (claude_stream_update summary session) else pret ())
        (plift (claude_result_event session st event)))))
      (\<lambda>r t. fresh_child env t \<and> (\<forall>a. r = Inl a \<longrightarrow> is_error (pa_text a))) (body_stops env) t"
    if "fresh_child env t" for event t
    using that by (auto simp: wp_bind [of "plift q" for q] wp_bind [of get_session] wp_lift [of "progress_summary_from_event event"]
        wp_get wp_seq [of "pret ()"] wp_ret split: sum.split intro!: wp_seqI [OF report_progress_wp] last)
  show ?thesis
  proof (cases "json_parse l")
    case (Some v)
    show ?thesis
    proof (cases "as_dict v")
      case (Inr event)
      show ?thesis
        unfolding claude_step_def Some option.case Inr wp_bind [of "plift q" for q] wp_lift [of "Inr event"] sum.case
        by (rule wp_seqI [OF init [OF assms] rest])
    qed (use assms Some in \<open>simp add: claude_step_def wp_bind wp_lift\<close>)
  qed (use assms in \<open>simp add: claude_step_def wp_ret\<close>)
qed

lemma claude_timed_out_wp:
  "fresh_child env s \<Longrightarrow> wp (claude_timed_out env l m n) (claude_told env) (body_stops env) s"
  unfolding claude_timed_out_def
  by (rule wp_seqI [OF cleanup_fresh]) (auto simp: proc_simps)

lemma claude_finished_wp: "fresh_child env s \<Longrightarrow> wp (claude_finished env t) (\<lambda>_. no_child env) (body_stops env) s"
  unfolding claude_finished_def
  by (rule wp_bindI [OF await_exit_wp])
    (auto simp: wp_if proc_simps split: sum.split intro: wp_mono [OF read_errors_wp(1)])

lemma claude_on_error_wp:
  assumes "wp m (claude_told env) (body_stops env) s"
  shows "wp (claude_on_error env m) (claude_told env) (left_behind env) s"
proof -
  have "wp (pseq (cleanup env) (case e of CancelledError \<Rightarrow> praise CancelledError
      | NotFoundError t \<Rightarrow> pbind get_session (\<lambda>session. pret (plain_answer (''Claude error: '' @ t) session))
      | Failure t \<Rightarrow> pbind get_session (\<lambda>session. pret (plain_answer (''Claude error: '' @ t) session))))
      (claude_told env) (left_behind env) t" if "body_stops env (ProcRaised e) t" for e t
    by (rule wp_seqI [OF cleanup_after_error [OF that]]) (auto simp: proc_simps split: proc_exc.split)
  then show ?thesis
    unfolding claude_on_error_def wp_catch
    by (intro wp_mono [OF assms]) (auto simp: left_behind_def [of _ ProcDiverged] split: proc_stop.split)
qed

lemma claude_run_wp:
  assumes "no_child env s"
  shows "wp (claude_run env cfg r p t w b) (claude_told env) (left_behind env) s"
proof -
  have "wp (claude_process env cfg p n b) (claude_told env) (left_behind env) t" if "fresh_child env t" for n t
    unfolding claude_process_def wp_bind [of "pclock env"] wp_clock
    by (rule claude_on_error_wp, unfold wp_bind [of "pclock env"] wp_clock, rule wp_seqI [OF write_input_wp],
        simp add: that, rule wp_bindI [OF stream_loop_wp [where I = "fresh_child env" and J = "\<lambda>a. is_error (pa_text a)"]])
      (auto simp: wp_ret claude_step_wp split: stream_end.split intro!: claude_timed_out_wp intro: wp_mono [OF claude_finished_wp])
  then show ?thesis
    unfolding claude_run_def Let_def
    by (intro with_child_wp [OF assms]) (auto simp: proc_simps)
qed

subsection \<open>The other adapters\<close>

lemma communicate_wp:
  assumes "fresh_child env s"
  shows "wp (communicate env i n) (\<lambda>r t. if r = None then fresh_child env t else no_child env t) (\<lambda>e. fresh_child env) s"
  using assms by (auto simp: communicate_def proc_simps fate_defs child_after_def exited_def split: sum.split)

lemma cleanup_fresh_left: "fresh_child env s \<Longrightarrow> wp (cleanup env) (\<lambda>_. stopped_child env) (left_behind env) s"
  by (rule wp_mono [OF cleanup_wp [OF refl]])
    (auto simp: fate_defs cleaned_up_def cleanup_stops_def half_cleaned_def settled_def signalled_def
      split: proc_stop.split proc_stop.split_asm proc_exc.split_asm)

lemma communicate_or_stop_wp:
  assumes "fresh_child env s"
  shows "wp (communicate_or_stop env i n)
    (\<lambda>r t. if r = None then stopped_child env t else no_child env t) (left_behind env) s"
proof -
  have "wp (communicate env i n) (\<lambda>r t. if r = None then fresh_child env t else no_child env t) (body_stops env) s"
    by (rule wp_mono [OF communicate_wp [OF assms]]) auto
  then show ?thesis
    unfolding communicate_or_stop_def
    by (rule wp_bindI [OF cleanup_on_error_wp])
      (auto simp: wp_ret wp_seq split: option.split intro!: wp_mono [OF cleanup_fresh_left])
qed

lemma omp_run_wp:
  "no_child env s \<Longrightarrow> wp (omp_run env cfg r ns p t w) (\<lambda>a. told env (pa_text a)) (left_behind env) s"
  unfolding omp_run_def Let_def
  by (rule with_child_wp, assumption, rule wp_bindI [OF communicate_or_stop_wp])
    (auto simp: wp_ret split: option.split)

lemma hermes_call_wp: "no_child env s \<Longrightarrow> wp (hermes_call env cfg p t w) (\<lambda>a. told env (pa_text a)) (left_behind env) s"
  unfolding hermes_call_def Let_def
  by (rule with_child_wp, assumption, rule wp_bindI [OF communicate_or_stop_wp])
    (auto simp: wp_ret split: option.split)

text \<open>The texts of the Jarvis adapters are not among the prefixes of errors.\<close>
definition ended :: "proc_env \<Rightarrow> proc_state \<Rightarrow> bool" where
  "ended env s = (child_of env (px_trace s) \<in> {NoChild, ChildExited, ChildStopped})"

lemma told_ended: "told env t s \<Longrightarrow> ended env s"
  by (auto simp: told_def fate_defs ended_def)

lemma ended_simps [simp]: "no_child env s \<Longrightarrow> ended env s" "stopped_child env s \<Longrightarrow> ended env s"
  by (auto simp: fate_defs ended_def)

lemma progress_first_wp:
  assumes "no_child env s" "\<And>t. no_child env t \<Longrightarrow> wp m Q (left_behind env) t"
  shows "wp (pseq (report_progress env b j) m) Q (left_behind env) s"
  using assms by (auto simp: report_progress_def proc_simps split: sum.split)

lemma jarvis_call_wp: "no_child env s \<Longrightarrow> wp (jarvis_call env x cfg p t b) (\<lambda>_. ended env) (left_behind env) s"
  unfolding jarvis_call_def
  by (rule progress_first_wp, assumption, rule with_child_wp, assumption, rule wp_bindI [OF communicate_or_stop_wp])
    (auto simp: wp_ret split: option.split)

lemma local_brain_call_wp:
  assumes "no_child env s"
  shows "wp (local_brain_call env x ex cfg p t w b) (\<lambda>_. ended env) (left_behind env) s"
proof -
  have "wp (pcatch (pbind (communicate env i n) (\<lambda>r. pret (Inr r)))
      (\<lambda>e. pseq (cleanup env) (case e of CancelledError \<Rightarrow> praise CancelledError
         | NotFoundError t \<Rightarrow> pret (Inl (failed t)) | Failure t \<Rightarrow> pret (Inl (failed t)))))
      (\<lambda>r t. case r of Inl _ \<Rightarrow> ended env t | Inr None \<Rightarrow> fresh_child env t | Inr (Some _) \<Rightarrow> no_child env t)
      (left_behind env) t" if "fresh_child env t" for i n t and failed :: "string \<Rightarrow> provider_answer"
    unfolding wp_catch wp_bind
    by (rule wp_mono [OF communicate_wp [OF that]])
      (auto simp: wp_seq wp_ret split: option.split proc_stop.split
        intro!: wp_mono [OF cleanup_fresh_left] simp: proc_simps left_behind_def stopped_child_def split: proc_exc.split)
  note body = this
  show ?thesis
    unfolding local_brain_call_def Let_def
    by (rule progress_first_wp [OF assms], erule with_child_wp, rule wp_bindI [OF body])
      (auto simp: wp_ret wp_seq split: sum.splits option.splits intro!: wp_mono [OF cleanup_fresh_left])
qed


subsection \<open>All adapters\<close>

lemma adapter_call_wp:
  assumes "no_child env s"
  shows "wp (adapter_call env cfg ak q)
    (\<lambda>a t. (ak \<notin> {Jarvis, JarvisLocal} \<and> \<not> is_error (pa_text a) \<longrightarrow> no_child env t) \<and> (ak \<noteq> Claude \<longrightarrow> ended env t))
    (left_behind env) s"
proof -
  note calls = codex_call_wp [OF assms] opencode_run_wp [OF assms] hermes_call_wp [OF assms] omp_run_wp [OF assms]
    claude_run_wp [OF assms] jarvis_call_wp [OF assms] local_brain_call_wp [OF assms]
  have omp: "wp (omp_call env cfg p t w) (\<lambda>a. told env (pa_text a)) (left_behind env) s" for p t w
    unfolding omp_call_def by (rule wp_bindI [OF calls(4)]) (simp add: wp_ret)
  show ?thesis
    by (cases ak; simp add: adapter_call_def)
      (rule wp_mono [OF calls(5)] wp_mono [OF calls(1)] wp_mono [OF calls(3)] wp_mono [OF calls(6)] wp_mono [OF calls(7)]
        wp_mono [OF omp] wp_mono [OF calls(2)]; auto simp: claude_told_def told_ended told_def)+
qed

lemma as_resumed_wp: "wp m (\<lambda>a. Q (pa_text a)) X s \<Longrightarrow> wp (as_resumed m) (\<lambda>a. Q (pa_text a)) X s"
  unfolding as_resumed_def by (erule wp_bindI) (simp add: wp_ret)

lemma adapter_resume_wp:
  assumes "no_child env s"
  shows "wp (adapter_resume env cfg ak sid q)
    (\<lambda>a t. (ak \<notin> {Jarvis, JarvisLocal} \<and> \<not> is_error (pa_text a) \<longrightarrow> no_child env t) \<and> (ak \<noteq> Claude \<longrightarrow> ended env t))
    (left_behind env) s"
proof -
  note calls = as_resumed_wp [OF opencode_run_wp [OF assms]] as_resumed_wp [OF omp_run_wp [OF assms]]
    codex_resume_wp [OF assms] as_resumed_wp [OF claude_run_wp [OF assms, unfolded claude_told_def]]
  show ?thesis
    by (cases ak; simp add: adapter_resume_def)
      ((rule wp_mono [OF calls(1)] wp_mono [OF calls(2)] wp_mono [OF calls(3)] wp_mono [OF calls(4)]
        wp_mono [OF adapter_call_wp [OF assms]]); auto simp: told_ended told_def)+
qed

text \<open>
  C30: The answer of a Claude, Codex, OpenCode, omp or Hermes adapter that the worker does not take for an error
  comes from children that have all exited by themselves; one that was stopped for its silence, at the
  deadline or by a failure is reported as an error.
\<close>
theorem good_answer_means_exit:
  assumes "no_child env s" "ak \<notin> {Jarvis, JarvisLocal}"
    and "m \<in> {adapter_call env cfg ak q, adapter_resume env cfg ak sid q}"
    and "m s = (Inr a, s')" "\<not> is_error (pa_text a)"
  shows "no_child env s'"
  using wpD(1) [OF adapter_call_wp [OF assms(1)]] wpD(1) [OF adapter_resume_wp [OF assms(1)]] assms(2-5) by fastforce

text \<open>
  C29: No adapter leaves a child behind: when a call returns, or is cancelled, its child has exited or was
  terminated and reaped; when it raises another exception the child has at least been signalled. Only the
  Claude adapter may return with a live child (\<open>claude_error_leaves_child\<close>).
\<close>
theorem no_child_is_left:
  assumes "no_child env s"
    and "m \<in> {adapter_call env cfg ak q, adapter_resume env cfg ak sid q}" "m s = (r, s')"
  shows "case r of
      Inr a \<Rightarrow> ak \<noteq> Claude \<longrightarrow> child_of env (px_trace s') \<in> {NoChild, ChildExited, ChildStopped}
    | Inl (ProcRaised CancelledError) \<Rightarrow> child_of env (px_trace s') \<in> {NoChild, ChildExited, ChildStopped}
    | Inl (ProcRaised e) \<Rightarrow> child_of env (px_trace s') \<in> {NoChild, ChildExited, ChildStopped, ChildSignalled}
    | Inl ProcDiverged \<Rightarrow> True"
  using adapter_call_wp [OF assms(1), of cfg ak q] adapter_resume_wp [OF assms(1), of cfg ak sid q] assms(2,3)
  by (auto simp: wp_def ended_def left_behind_def split: sum.split proc_stop.split proc_exc.split)

section \<open>Answers that the worker misreads\<close>

definition status_of :: "provider_answer \<Rightarrow> string option" where
  "status_of a = map_option status_for_result (as_adapter_result a)"

lemma status_done:
  assumes "\<not> is_error (pa_text a)" "pa_session a = JNull" "\<not> truthy (dget (pa_metadata a) ''timeout'')"
  shows "status_of a = Some ''done''"
  using assms
  by (auto simp: status_of_def as_adapter_result_def status_for_result_def is_error_def ERROR_PREFIXES_def startswith_iff)

definition not_found_text :: "provider_config \<Rightarrow> adapter_kind \<Rightarrow> string" where
  "not_found_text cfg ak =
     (case ak of Claude \<Rightarrow> ''Claude CLI not found: '' @ vc_claude_bin cfg | Codex \<Rightarrow> codex_not_found cfg
      | Hermes \<Rightarrow> ''Hermes CLI not found: '' @ vc_hermes_bin cfg | Omp \<Rightarrow> ''omp CLI not found: '' @ vc_omp_bin cfg
      | OpenCode \<Rightarrow> ''OpenCode CLI not found: '' @ vc_opencode_bin cfg | _ \<Rightarrow> [])"

lemma not_found_no_error: "\<not> is_error (not_found_text cfg ak)"
  by (simp add: not_found_text_def codex_not_found_def is_error_def ERROR_PREFIXES_def split: adapter_kind.split)

text \<open>A provider that is not installed is reported as done.\<close>
lemma missing_cli_is_done:
  assumes "pe_spawn env (px_trace s) = Inl (NotFoundError t)" "ak \<in> {Claude, Codex, Hermes, Omp, OpenCode}"
  shows "\<exists>s'. adapter_call env cfg ak q s = (Inr (plain_answer (not_found_text cfg ak) JNull), s')
    \<and> status_of (plain_answer (not_found_text cfg ak) JNull) = Some ''done''"
proof -
  have "wp (adapter_call env cfg ak q) (\<lambda>a s'. a = plain_answer (not_found_text cfg ak) JNull) (\<lambda>e s'. False) s"
    using assms
    by (auto simp: adapter_call_def claude_run_def codex_call_def codex_run_once_def hermes_call_def omp_call_def omp_run_def
        opencode_run.simps with_child_def proc_simps Let_def plain_answer_def not_found_text_def)
  moreover have "status_of (plain_answer (not_found_text cfg ak) JNull) = Some ''done''"
    by (rule status_done) (simp_all add: not_found_no_error, simp_all add: plain_answer_def)
  ultimately show ?thesis
    by (auto simp: wp_def split: prod.splits sum.splits)
qed

text \<open>So is a Codex call whose models are at capacity.\<close>
lemma capacity_failure_is_done: "status_of (plain_answer (capacity_failure_message m f) JNull) = Some ''done''"
proof -
  have "\<not> is_error (capacity_failure_message m f)"
    by (simp add: capacity_failure_message_def is_error_def ERROR_PREFIXES_def Let_def split: option.split)
  then show ?thesis
    by (intro status_done) (simp_all, simp_all add: plain_answer_def)
qed

text \<open>And a Jarvis call that was stopped at its timeout.\<close>
lemma jarvis_timeout_is_done:
  "\<not> is_error (jt_late txt) \<Longrightarrow> status_of (tagged (jt_late txt) [(''error'', JStr ''timeout'')]) = Some ''done''"
  by (rule status_done) (simp_all add: tagged_def plain_answer_def dget_def)


section \<open>Examples\<close>

lemma codex_sample:
  "adapter_call good_env sample_provider Codex sample_request start_state
   = (Inr (plain_answer ''done'' (JStr ''t1'')), snd (adapter_call good_env sample_provider Codex sample_request start_state))"
  by code_simp

lemma good_answer_means_exit_witness:
  "no_child good_env (snd (adapter_call good_env sample_provider Codex sample_request start_state))"
proof -
  have "\<not> is_error (pa_text (plain_answer ''done'' (JStr ''t1'')))"
    by (simp add: is_error_def ERROR_PREFIXES_def)
  then show ?thesis
    using good_answer_means_exit [of good_env start_state Codex "adapter_call good_env sample_provider Codex sample_request"
        sample_provider sample_request "[]", OF no_child_start _ _ codex_sample] by blast
qed

lemma codex_silent:
  "adapter_call silent_env sample_provider Codex sample_request start_state
   = (Inr (plain_answer ''Codex stopped responding for 120s'' JNull),
      snd (adapter_call silent_env sample_provider Codex sample_request start_state))"
  by code_simp

lemma no_child_is_left_witness:
  "child_of silent_env (px_trace (snd (adapter_call silent_env sample_provider Codex sample_request start_state)))
     \<in> {NoChild, ChildExited, ChildStopped}"
  using no_child_is_left [of silent_env start_state "adapter_call silent_env sample_provider Codex sample_request"
      sample_provider Codex sample_request "[]", OF no_child_start _ codex_silent] by simp

text \<open>An error event makes the Claude adapter return with its child running and unattended.\<close>
lemma claude_error_leaves_child:
  "case adapter_call (scripted_env [Some claude_error_line] 0) sample_provider Claude sample_request start_state of
     (Inr a, s') \<Rightarrow> pa_text a = ''Claude error: x''
       \<and> child_of (scripted_env [Some claude_error_line] 0) (px_trace s') = ChildRunning
   | _ \<Rightarrow> False"
  by code_simp

end
