(* ===== verification/ProviderEvents.thy ===== *)
theory ProviderEvents
  imports ProviderContract
begin

text \<open>
  What the adapters do to the world: a coroutine only adds events to the trace. The locale \<open>child_work\<close> names
  the events of the work with a started child besides reading lines, \<open>child_run\<close> adds those, \<open>child_spawn\<close>
  the start of a child; every coroutine adds only such events. The interpretations give what a child sees of the environment, how many
  children are started, and that the trace grows.
\<close>

named_theorems child_rules "coroutines that add only events of a class"

definition adds :: "(proc_event \<Rightarrow> bool) \<Rightarrow> proc_state \<Rightarrow> proc_state \<Rightarrow> bool" where
  "adds E s t = (\<exists>es. px_trace t = px_trace s @ es \<and> list_all E es)"

definition emits :: "(proc_event \<Rightarrow> bool) \<Rightarrow> 'a proc \<Rightarrow> bool" where
  "emits E m = (\<forall>s. adds E s (snd (m s)))"

lemma adds_refl [simp]: "adds E s s"
  by (simp add: adds_def)

lemma adds_trans: "adds E s t \<Longrightarrow> adds E t u \<Longrightarrow> adds E s u"
  by (auto simp: adds_def)

lemma emitsD: "emits E m \<Longrightarrow> m s = (r, t) \<Longrightarrow> adds E s t"
  by (metis emits_def snd_conv)

lemma emits_ret [child_rules]: "emits E (pret a)"
  by (simp add: emits_def pret_def)

lemma emits_raise [child_rules]: "emits E (praise e)"
  by (simp add: emits_def praise_def)

lemma emits_diverge [child_rules]: "emits E pdiverge"
  by (simp add: emits_def pdiverge_def)

lemma emits_bind [child_rules]: "emits E m \<Longrightarrow> (\<And>a. emits E (f a)) \<Longrightarrow> emits E (pbind m f)"
  unfolding emits_def pbind_def by (auto split: prod.splits sum.splits) (metis snd_conv adds_trans)+

lemma emits_seq [child_rules]: "emits E m \<Longrightarrow> emits E n \<Longrightarrow> emits E (pseq m n)"
  by (simp add: pseq_def emits_bind)

lemma emits_catch [child_rules]: "emits E m \<Longrightarrow> (\<And>e. emits E (h e)) \<Longrightarrow> emits E (pcatch m h)"
  unfolding emits_def pcatch_def
  by (auto split: prod.splits sum.splits proc_stop.splits) (metis snd_conv adds_trans)+

lemma emits_step: "E e \<Longrightarrow> emits E (pstep e f)"
  by (simp add: emits_def pstep_def adds_def)

lemma emits_lift [child_rules]: "emits E (plift r)"
  by (cases r) (simp_all add: plift_def child_rules)

lemma emits_session [child_rules]: "emits E get_session" "emits E (set_session v)"
  by (simp_all add: emits_def get_session_def set_session_def adds_def)

lemma emits_state: "(\<And>t. emits E (f t)) \<Longrightarrow> emits E (\<lambda>s. f s s)"
  by (simp add: emits_def)

lemma emits_if [child_rules]: "(b \<Longrightarrow> emits E m) \<Longrightarrow> (\<not> b \<Longrightarrow> emits E n) \<Longrightarrow> emits E (if b then m else n)"
  by simp

lemma emits_option [child_rules]:
  "emits E m \<Longrightarrow> (\<And>a. emits E (f a)) \<Longrightarrow> emits E (case x of None \<Rightarrow> m | Some a \<Rightarrow> f a)"
  by (cases x) simp_all

lemma emits_sum [child_rules]:
  "(\<And>a. emits E (f a)) \<Longrightarrow> (\<And>a. emits E (g a)) \<Longrightarrow> emits E (case x of Inl a \<Rightarrow> f a | Inr a \<Rightarrow> g a)"
  by (cases x) simp_all

lemma emits_prod [child_rules]: "(\<And>a b. emits E (f a b)) \<Longrightarrow> emits E (case x of (a, b) \<Rightarrow> f a b)"
  by (cases x) simp_all

lemma emits_nat [child_rules]: "emits E m \<Longrightarrow> (\<And>k. emits E (f k)) \<Longrightarrow> emits E (case n of 0 \<Rightarrow> m | Suc k \<Rightarrow> f k)"
  by (cases n) simp_all

lemma emits_exc [child_rules]:
  "(\<And>t. emits E (f t)) \<Longrightarrow> emits E m \<Longrightarrow> (\<And>t. emits E (g t))
   \<Longrightarrow> emits E (case e of NotFoundError t \<Rightarrow> f t | CancelledError \<Rightarrow> m | Failure t \<Rightarrow> g t)"
  by (cases e) simp_all

lemma emits_end [child_rules]:
  "(\<And>x. emits E (a x)) \<Longrightarrow> (\<And>b x. emits E (f b x)) \<Longrightarrow> (\<And>x. emits E (c x)) \<Longrightarrow> (\<And>x. emits E (d x))
   \<Longrightarrow> emits E (case e of PastDeadline x \<Rightarrow> a x | Stalled b x \<Rightarrow> f b x | StreamClosed x \<Rightarrow> c x | ReturnedEarly x \<Rightarrow> d x)"
  by (cases e) simp_all

lemma emits_signal [child_rules]:
  "emits E a \<Longrightarrow> emits E b \<Longrightarrow> (\<And>t. emits E (c t))
   \<Longrightarrow> emits E (case r of SignalSent \<Rightarrow> a | NoSuchGroup \<Rightarrow> b | SignalDenied t \<Rightarrow> c t)"
  by (cases r) simp_all

lemma emits_taskkill [child_rules]:
  "emits E a \<Longrightarrow> emits E b \<Longrightarrow> (\<And>n. emits E (c n))
   \<Longrightarrow> emits E (case r of TaskkillMissing \<Rightarrow> a | TaskkillLate \<Rightarrow> b | TaskkillExit n \<Rightarrow> c n)"
  by (cases r) simp_all

section \<open>Working with a child\<close>

locale child_work =
  fixes E :: "proc_event \<Rightarrow> bool" and env :: proc_env
  assumes inner: "E ReadClock" "E (WriteInput t)" "E AwaitExit" "E ReadErrors" "E (Communicate i n)"
    "E (SignalGroup g)" "E ShortSleep" "E (ReapLeader n)" "E (RunTaskkill n)" "E (ReportProgress j)"
begin

lemma effects [child_rules]:
  "emits E (pclock env)" "emits E (psignal env g)" "emits E (reap_leader env n)" "emits E (write_input env t)"
  "emits E (await_exit env)" "emits E (read_errors env)" "emits E (communicate env i n)" "emits E (report_progress env b j)"
  by (simp_all add: pclock_def psignal_def reap_leader_def write_input_def await_exit_def read_errors_def communicate_def
      report_progress_def emits_step inner child_rules)

lemma waiting [child_rules]: "emits E (wait_group_gone env n)"
proof -
  have "emits E (wait_until_gone env k d)" for k d
    by (induction k) (auto simp: group_alive_def inner intro!: child_rules emits_step)
  then show ?thesis
    by (simp add: wait_group_gone_def child_rules)
qed

lemma cleaning [child_rules]: "emits E (cleanup env)"
proof -
  have "emits E (if pe_windows env then cleanup_windows env pid 2 else cleanup_posix env pid 2 2)" for pid
    unfolding cleanup_windows_def cleanup_posix_def kill_group_def
    by (intro child_rules emits_step inner)
  then have "emits E (terminate_owned_process_group env)"
    unfolding terminate_owned_process_group_def
    by (rule emits_seq [OF emits_state emits_state]) (simp_all add: child_rules)
  then have "adds E (s\<lparr>px_cleaned := True\<rparr>) (snd (terminate_owned_process_group env (s\<lparr>px_cleaned := True\<rparr>)))" for s
    by (simp add: emits_def)
  then show ?thesis
    by (simp add: cleanup_def emits_def pret_def adds_def)
qed

lemma handler [child_rules]: "emits E m \<Longrightarrow> emits E (cleanup_on_error env m)"
  unfolding cleanup_on_error_def by (intro child_rules)

lemma exchange [child_rules]: "emits E (communicate_or_stop env i n)"
  unfolding communicate_or_stop_def by (intro child_rules)

lemma tails [child_rules]:
  "emits E (codex_finished env st)" "emits E (codex_stopped env what n v)" "emits E (opencode_finished env k st' rc)"
  unfolding codex_finished_def codex_stopped_def opencode_finished_def Let_def
  by (intro child_rules)+

lemma steps [child_rules]: "emits E (claude_step env b v l)" "emits E (opencode_step env b st l)"
  unfolding claude_step_def opencode_step_def opencode_show_text_def opencode_show_tool_def Let_def
  by (intro child_rules)+

end

section \<open>Reading the output\<close>

locale child_run = child_work +
  assumes reading: "E (ReadLine n)"
begin

lemma loop [child_rules]:
  assumes "\<And>st l. emits E (step st l)"
  shows "emits E (stream_loop env idle step deadline n la saw st)"
  by (induction n arbitrary: la saw st) (auto simp: Let_def inner reading intro!: child_rules emits_step assms)

lemma codex [child_rules]: "emits E (run_codex_process env p t a)" "emits E (codex_exec_process env cfg p n)"
  unfolding run_codex_process_def codex_exec_process_def codex_lines_def codex_resume_finished_def Let_def
  by (intro child_rules)+

lemma claude [child_rules]: "emits E (claude_process env cfg p n b)"
  unfolding claude_process_def claude_on_error_def claude_timed_out_def claude_finished_def Let_def
  by (intro child_rules)

lemma opencode [child_rules]: "emits E (opencode_process env cfg v p n b)"
  unfolding opencode_process_def by (intro child_rules)

end

section \<open>Starting children\<close>

locale child_spawn = child_run +
  assumes spawn: "E (SpawnChild argv cwd (filtered_env env d))"
begin

lemma child [child_rules]: "emits E m \<Longrightarrow> emits E (with_child env argv cwd (filtered_env env d) missing m)"
proof -
  have "emits E (pspawn env argv cwd (filtered_env env d))"
    unfolding pspawn_def
    by (rule emits_bind, rule emits_step, rule spawn) (simp add: emits_def pret_def adds_def)
  then show "emits E m \<Longrightarrow> ?thesis"
    unfolding with_child_def by (intro child_rules)
qed

lemma runs [child_rules]:
  "emits E (codex_call env cfg p t w)" "emits E (codex_resume env cfg sid p t w)" "emits E (claude_run env cfg r p t w b)"
  "emits E (omp_run env cfg r ns p t w)" "emits E (hermes_call env cfg p t w)" "emits E (jarvis_call env x cfg p t b)"
  "emits E (local_brain_call env x ex cfg p t w b)"
  unfolding codex_call_def codex_run_once_def codex_resume_def claude_run_def omp_run_def hermes_call_def jarvis_call_def
    local_brain_call_def Let_def
  by (intro child_rules)+

lemma retries [child_rules]: "emits E (opencode_run env cfg r p n w b k)"
proof (induction k)
  case (Suc k)
  then show ?case
    by (subst opencode_run.simps) (auto simp: Let_def intro!: child_rules)
qed (subst opencode_run.simps, auto simp: Let_def intro!: child_rules)

lemma adapters:
  "emits E (adapter_call env cfg ak q)" "emits E (adapter_resume env cfg ak sid q)"
proof -
  show call: "emits E (adapter_call env cfg ak q)" for ak
    by (cases ak) (auto simp: adapter_call_def omp_call_def intro!: child_rules)
  show "emits E (adapter_resume env cfg ak sid q)"
    by (cases ak) (auto simp: adapter_resume_def as_resumed_def call intro!: child_rules)
qed

end


section \<open>What a child sees\<close>

definition clean_start :: "proc_event \<Rightarrow> bool" where
  "clean_start e = (case e of SpawnChild argv cwd environ \<Rightarrow>
     list_all (\<lambda>(k, v). \<not> startswith k ''KOOK_'' \<and> \<not> startswith k ''DISCORD_'') environ | _ \<Rightarrow> True)"

lemma filtered_env_clean: "clean_start (SpawnChild argv cwd (filtered_env env d))"
proof -
  have "list_all (\<lambda>(k, v). \<not> startswith k ''KOOK_'' \<and> \<not> startswith k ''DISCORD_'') (alist_set xs ''PWD'' v)"
    if "list_all (\<lambda>(k, v). \<not> startswith k ''KOOK_'' \<and> \<not> startswith k ''DISCORD_'') xs" for v :: string and xs
    using that by (induction xs "''PWD''" v rule: alist_set.induct) auto
  moreover have "list_all (\<lambda>(k, v). \<not> startswith k ''KOOK_'' \<and> \<not> startswith k ''DISCORD_'')
      (filter (\<lambda>(k, v). \<not> list_ex (startswith k) SECRET_PREFIXES) xs)" for xs :: "(string \<times> string) list"
    by (auto simp: list_all_iff SECRET_PREFIXES_def)
  ultimately show ?thesis
    by (simp add: clean_start_def filtered_env_def Let_def split: option.split)
qed

interpretation secrets: child_spawn clean_start env for env
  by unfold_locales (simp_all add: filtered_env_clean, simp_all add: clean_start_def)

text \<open>
  C32: No call or resume of any adapter hands a variable whose name begins with \<open>KOOK_\<close> or \<open>DISCORD_\<close>, where
  the bot tokens are, to the child that it starts.
\<close>
theorem secrets_stay_home:
  assumes "m \<in> {adapter_call env cfg ak q, adapter_resume env cfg ak sid q}"
    and "px_trace (snd (m s)) = px_trace s @ es" "SpawnChild argv cwd environ \<in> set es" "(k, v) \<in> set environ"
  shows "\<not> startswith k ''KOOK_'' \<and> \<not> startswith k ''DISCORD_''"
proof -
  have "emits clean_start m"
    using assms(1) secrets.adapters by blast
  then have "list_all clean_start es"
    using assms(2) unfolding emits_def adds_def by (metis same_append_eq)
  then show ?thesis
    using assms(3,4) by (fastforce simp: list_all_iff clean_start_def)
qed

definition good_start :: proc_event where
  "good_start = SpawnChild (codex_build_cmd sample_provider None) None (filtered_env good_env None)"

lemma secrets_stay_home_witness:
  "good_start \<in> set (px_trace (snd (adapter_call good_env sample_provider Codex sample_request start_state)))
   \<and> (''HOME'', ''/root'') \<in> set (filtered_env good_env None)
   \<and> \<not> startswith ''HOME'' ''KOOK_'' \<and> \<not> startswith ''HOME'' ''DISCORD_''"
proof -
  let ?m = "adapter_call good_env sample_provider Codex sample_request"
  have start: "good_start \<in> set (px_trace (snd (?m start_state)))" and home: "(''HOME'', ''/root'') \<in> set (filtered_env good_env None)"
    by code_simp+
  have "px_trace (snd (?m start_state)) = px_trace start_state @ px_trace (snd (?m start_state))"
    by (simp add: start_state_def)
  then show ?thesis
    using secrets_stay_home [of ?m good_env sample_provider Codex sample_request "[]" start_state, OF _ _ start [unfolded good_start_def] home]
      start home by blast
qed

text \<open>The check of the health of a Jarvis adapter passes everything on.\<close>
lemma jarvis_health_hands_on_secrets:
  "\<exists>es. px_trace (snd (jarvis_health env f cfg s)) = px_trace s @ SpawnChild (ssh_cmd cfg HEALTH_CMD) None (pe_environ env) # es"
proof -
  let ?t = "s\<lparr>px_trace := px_trace s @ [SpawnChild (ssh_cmd cfg HEALTH_CMD) None (pe_environ env)]\<rparr>"
  have "wp (jarvis_health env f cfg) (\<lambda>_. adds (\<lambda>_. True) ?t) (\<lambda>_. adds (\<lambda>_. True) ?t) s"
    by (auto simp: jarvis_health_def probe_child_def communicate_def proc_simps Let_def adds_def
        split: sum.split option.split proc_exc.split)
  then show ?thesis
    by (auto simp: wp_def adds_def split: prod.splits sum.splits)
qed

section \<open>How many children\<close>

definition is_start :: "proc_event \<Rightarrow> bool" where
  "is_start e = (case e of SpawnChild argv cwd environ \<Rightarrow> True | _ \<Rightarrow> False)"

definition starts :: "proc_state \<Rightarrow> nat" where
  "starts s = length (filter is_start (px_trace s))"

definition at_most :: "nat \<Rightarrow> 'a proc \<Rightarrow> bool" where
  "at_most n m = (\<forall>s. starts (snd (m s)) \<le> starts s + n)"

lemma at_most_ret: "at_most 0 (pret a)"
  by (simp add: at_most_def pret_def)

lemma at_most_weaken: "at_most a m \<Longrightarrow> a \<le> b \<Longrightarrow> at_most b m"
  unfolding at_most_def by (meson add_left_mono le_trans)

lemma at_most_bind:
  assumes "at_most a m" "\<And>x. at_most b (f x)"
  shows "at_most (a + b) (pbind m f)"
proof -
  have "starts (snd (pbind m f s)) \<le> starts s + (a + b)" for s
  proof (cases "m s")
    case (Pair r t)
    then have "starts t \<le> starts s + a" "starts (snd (f x t)) \<le> starts t + b" for x
      using assms by (auto simp: at_most_def split: prod.splits) (metis snd_conv)
    note steps = this
    have "starts t \<le> starts s + (a + b)" "starts (snd (f x t)) \<le> starts s + (a + b)" for x
      using steps(1) steps(2) [of x] by linarith+
    then show ?thesis
      using Pair by (cases r) (simp_all add: pbind_def)
  qed
  then show ?thesis
    by (simp add: at_most_def)
qed

lemma at_most_emits: "emits (\<lambda>e. \<not> is_start e) m \<Longrightarrow> at_most 0 m"
proof -
  have "starts t = starts s" if "adds (\<lambda>e. \<not> is_start e) s t" for s t
    using that by (auto simp: adds_def starts_def list_all_iff filter_empty_conv)
  then show "emits (\<lambda>e. \<not> is_start e) m \<Longrightarrow> ?thesis"
    unfolding emits_def at_most_def by (metis add_0_right order_refl)
qed

interpretation working: child_run "\<lambda>e. \<not> is_start e" env for env
  by unfold_locales (simp_all add: is_start_def)

lemma at_most_child:
  assumes "at_most n m"
  shows "at_most (Suc n) (with_child env argv cwd environ missing m)"
proof -
  have "at_most 1 (pcatch (pseq (pspawn env argv cwd environ) (pret None))
      (\<lambda>e. case e of NotFoundError t \<Rightarrow> pret (Some t) | _ \<Rightarrow> praise e))"
    by (auto simp: at_most_def starts_def pcatch_def pseq_def pspawn_def pbind_def pstep_def pret_def praise_def is_start_def
        split: sum.split proc_exc.split)
  then have "at_most (1 + n) (with_child env argv cwd environ missing m)"
    unfolding with_child_def using assms
    by (intro at_most_bind) (auto split: option.split intro: at_most_weaken [OF at_most_ret])
  then show ?thesis
    by simp
qed


lemma at_most_calls:
  "at_most 2 (codex_call env cfg p t w)" "at_most 1 (codex_resume env cfg sid p t w)" "at_most 1 (claude_run env cfg r p t w b)"
  "at_most 1 (omp_run env cfg r ns p t w)" "at_most 1 (hermes_call env cfg p t w)" "at_most 1 (jarvis_call env x cfg p t b)"
  "at_most 1 (local_brain_call env x ex cfg p t w b)"
proof -
  have once: "emits (\<lambda>e. \<not> is_start e) m \<Longrightarrow> at_most 1 (with_child env argv cwd environ missing m)" for m :: "'z proc" and argv cwd environ missing
    using at_most_child [OF at_most_emits] by simp
  have after: "at_most 1 m \<Longrightarrow> (\<And>a. at_most 0 (f a)) \<Longrightarrow> at_most 1 (pbind m f)" for m :: "'z proc" and f :: "'z \<Rightarrow> 'y proc"
    using at_most_bind [of 1 m 0 f] by simp
  have before: "at_most 0 m \<Longrightarrow> at_most 1 n \<Longrightarrow> at_most 1 (pseq m n)" for m and n :: "'z proc"
    using at_most_bind [of 0 m 1 "\<lambda>_. n"] by (simp add: pseq_def)
  have run: "at_most 1 (codex_run_once env cfg p m w)" for p m w
    unfolding codex_run_once_def Let_def by (intro once working.codex)
  have "at_most (1 + 1) (codex_call env cfg p t w)"
    unfolding codex_call_def Let_def
    by (intro at_most_bind run)
      (auto simp del: One_nat_def split: option.split intro: at_most_weaken [OF at_most_ret] intro!: after [OF run] at_most_ret)
  then show "at_most 2 (codex_call env cfg p t w)"
    by (simp add: numeral_2_eq_2)
  show "at_most 1 (codex_resume env cfg sid p t w)" "at_most 1 (claude_run env cfg r p t w b)"
    "at_most 1 (omp_run env cfg r ns p t w)" "at_most 1 (hermes_call env cfg p t w)" "at_most 1 (jarvis_call env x cfg p t b)"
    "at_most 1 (local_brain_call env x ex cfg p t w b)"
    unfolding codex_resume_def claude_run_def omp_run_def hermes_call_def jarvis_call_def local_brain_call_def Let_def
    by (intro after before once at_most_ret at_most_emits child_rules)+
qed

lemma at_most_retries: "at_most (Suc k) (opencode_run env cfg r p n w b k)"
proof (induction k)
  case 0
  show ?case
    unfolding opencode_run.simps [of _ _ _ _ _ _ _ 0] Let_def nat.case
    by (rule at_most_child [OF at_most_emits]) (intro child_rules)
next
  case (Suc k)
  have none: "at_most 0 (opencode_process env cfg v p n b)" "at_most 0 (opencode_finished env j st rc)" for v p j st rc
    by (intro at_most_emits child_rules)+
  have "at_most (0 + Suc k) (pbind (opencode_process env cfg v p' n b) (\<lambda>e. case e of Inl a \<Rightarrow> pret a
      | Inr (st, rc) \<Rightarrow> pbind (opencode_finished env (Suc k) st rc) (\<lambda>x. case x of Some a \<Rightarrow> pret a
          | None \<Rightarrow> opencode_run env cfg r p n w b k)))" for v p'
  proof (rule at_most_bind [OF none(1)])
    fix e :: "provider_answer + opencode_stream \<times> int"
    have "at_most (0 + Suc k) (pbind (opencode_finished env (Suc k) st rc) (\<lambda>x. case x of Some a \<Rightarrow> pret a
        | None \<Rightarrow> opencode_run env cfg r p n w b k))" for st rc
      using Suc.IH by (intro at_most_bind none) (auto split: option.split intro: at_most_weaken [OF at_most_ret])
    then show "at_most (Suc k) (case e of Inl a \<Rightarrow> pret a
      | Inr (st, rc) \<Rightarrow> pbind (opencode_finished env (Suc k) st rc) (\<lambda>x. case x of Some a \<Rightarrow> pret a
          | None \<Rightarrow> opencode_run env cfg r p n w b k))"
      by (auto split: sum.split intro: at_most_weaken [OF at_most_ret])
  qed
  then show ?case
    unfolding opencode_run.simps [of _ _ _ _ _ _ _ "Suc k"] Let_def nat.case
    by (intro at_most_child) simp
qed

definition max_starts :: "adapter_kind \<Rightarrow> nat" where
  "max_starts ak = (case ak of Codex \<Rightarrow> 2 | OpenCode \<Rightarrow> Suc EMPTY_TEXT_RETRIES | _ \<Rightarrow> 1)"

text \<open>
  C36: A request starts a bounded number of children, whatever they print: a call of the Codex adapter at most
  two, a call or resume of the OpenCode adapter at most five, every other one.
\<close>
theorem starts_bounded:
  "starts (snd (adapter_call env cfg ak q s)) \<le> starts s + max_starts ak
   \<and> starts (snd (adapter_resume env cfg ak sid q s)) \<le> starts s + max_starts ak"
proof -
  have then_ret: "at_most a m \<Longrightarrow> at_most a (pbind m (\<lambda>x. pret (f x)))" for a and m :: "provider_answer proc" and f :: "provider_answer \<Rightarrow> provider_answer"
    using at_most_bind [OF _ at_most_ret] by fastforce
  have call: "at_most (max_starts ak) (adapter_call env cfg ak q)" for ak
    using at_most_calls at_most_retries [of EMPTY_TEXT_RETRIES]
    by (cases ak) (simp_all add: adapter_call_def max_starts_def omp_call_def then_ret del: One_nat_def)
  have "at_most (max_starts ak) (adapter_resume env cfg ak sid q)"
    using at_most_calls at_most_retries [of EMPTY_TEXT_RETRIES] call [of Hermes] call [of Jarvis] call [of JarvisLocal]
      at_most_weaken [OF at_most_calls(2), of 2]
    by (cases ak) (simp_all add: adapter_resume_def max_starts_def as_resumed_def then_ret del: One_nat_def)
  with call show ?thesis
    by (simp add: at_most_def)
qed


text \<open>The trace only grows.\<close>
interpretation growing: child_spawn "\<lambda>_. True" env for env
  by unfold_locales simp_all

end
