(* ===== verification/ProviderEnds.thy ===== *)
theory ProviderEnds
  imports ProviderEvents
begin

text \<open>
  A call of an adapter ends: when every effect takes a tick of the clock, the loop over the output and the
  waits for the group need no more rounds than their timeouts have nanoseconds. What is not bounded is the
  wait for the exit of a child that has closed its output.
\<close>

named_theorems halts_rules "coroutines that never use up the fuel"

definition advancing :: "proc_env \<Rightarrow> bool" where
  "advancing env \<longleftrightarrow> (\<forall>tr e. pe_time env tr < pe_time env (tr @ [e]))"

text \<open>The fuel is enough for a loop with this timeout in seconds.\<close>
definition enough_fuel :: "proc_env \<Rightarrow> int \<Rightarrow> bool" where
  "enough_fuel env timeout = (timeout * SECOND \<le> int (pe_fuel env) \<and> 2 * SECOND \<le> int (pe_fuel env))"

abbreviation no_div :: "proc_stop \<Rightarrow> proc_state \<Rightarrow> bool" where
  "no_div e s \<equiv> e \<noteq> ProcDiverged"

abbreviation wpt :: "'a proc \<Rightarrow> proc_state \<Rightarrow> bool" where
  "wpt m s \<equiv> wp m (\<lambda>_ _. True) no_div s"

definition halts :: "'a proc \<Rightarrow> bool" where
  "halts m = (\<forall>s. wpt m s)"

lemma haltsD: "halts m \<Longrightarrow> wpt m s"
  by (simp add: halts_def)

lemma total_bindI: "wpt m s \<Longrightarrow> (\<And>a. halts (f a)) \<Longrightarrow> wpt (pbind m f) s"
  unfolding halts_def by (erule wp_bindI) simp

lemma total_basics [halts_rules]:
  "halts (pret a)" "halts (praise x)" "halts get_session" "halts (set_session v)" "halts (plift r)" "halts (pstep e f)" "halts (pclock env)"
  by (auto simp: halts_def proc_simps split: sum.split)

lemma total_bind [halts_rules]: "halts m \<Longrightarrow> (\<And>a. halts (f a)) \<Longrightarrow> halts (pbind m f)"
  by (simp add: halts_def total_bindI)

lemma total_seq [halts_rules]: "halts m \<Longrightarrow> halts n \<Longrightarrow> halts (pseq m n)"
  by (simp add: pseq_def total_bind)

lemma wpt_catch: "wpt m s \<Longrightarrow> (\<And>e. halts (h e)) \<Longrightarrow> wpt (pcatch m h) s"
  unfolding wp_catch by (erule wp_mono) (auto simp: halts_def split: proc_stop.split)

lemma total_catch [halts_rules]: "halts m \<Longrightarrow> (\<And>e. halts (h e)) \<Longrightarrow> halts (pcatch m h)"
  by (simp add: halts_def wpt_catch)

lemma total_if [halts_rules]: "(b \<Longrightarrow> halts m) \<Longrightarrow> (\<not> b \<Longrightarrow> halts n) \<Longrightarrow> halts (if b then m else n)"
  by simp

lemma total_option [halts_rules]: "(x = None \<Longrightarrow> halts m) \<Longrightarrow> (\<And>a. halts (f a)) \<Longrightarrow> halts (case x of None \<Rightarrow> m | Some a \<Rightarrow> f a)"
  by (cases x) simp_all

lemma total_sum [halts_rules]:
  "(\<And>a. halts (f a)) \<Longrightarrow> (\<And>a. halts (g a)) \<Longrightarrow> halts (case x of Inl a \<Rightarrow> f a | Inr a \<Rightarrow> g a)"
  by (cases x) simp_all

lemma total_prod [halts_rules]: "(\<And>a b. halts (f a b)) \<Longrightarrow> halts (case x of (a, b) \<Rightarrow> f a b)"
  by (cases x) simp_all

lemma total_exc [halts_rules]:
  "(\<And>t. halts (f t)) \<Longrightarrow> halts m \<Longrightarrow> (\<And>t. halts (g t))
   \<Longrightarrow> halts (case e of NotFoundError t \<Rightarrow> f t | CancelledError \<Rightarrow> m | Failure t \<Rightarrow> g t)"
  by (cases e) simp_all

lemma total_end [halts_rules]:
  "(\<And>x. halts (a x)) \<Longrightarrow> (\<And>b x. halts (f b x)) \<Longrightarrow> (\<And>x. halts (c x)) \<Longrightarrow> (\<And>x. halts (d x))
   \<Longrightarrow> halts (case e of PastDeadline x \<Rightarrow> a x | Stalled b x \<Rightarrow> f b x | StreamClosed x \<Rightarrow> c x | ReturnedEarly x \<Rightarrow> d x)"
  by (cases e) simp_all

lemma total_signal [halts_rules]:
  "halts a \<Longrightarrow> halts b \<Longrightarrow> (\<And>t. halts (c t)) \<Longrightarrow> halts (case r of SignalSent \<Rightarrow> a | NoSuchGroup \<Rightarrow> b | SignalDenied t \<Rightarrow> c t)"
  by (cases r) simp_all

lemma total_taskkill [halts_rules]:
  "halts a \<Longrightarrow> halts b \<Longrightarrow> (\<And>n. halts (c n))
   \<Longrightarrow> halts (case r of TaskkillMissing \<Rightarrow> a | TaskkillLate \<Rightarrow> b | TaskkillExit n \<Rightarrow> c n)"
  by (cases r) simp_all

lemma total_effects [halts_rules]:
  "halts (write_input env t)" "halts (await_exit env)" "halts (read_errors env)" "halts (communicate env i n)"
  "halts (report_progress env b j)" "halts (psignal env g)" "halts (kill_group env g)" "halts (reap_leader env n)"
  unfolding write_input_def await_exit_def read_errors_def communicate_def report_progress_def psignal_def kill_group_def
    reap_leader_def
  by (intro halts_rules)+

section \<open>The clock\<close>

lemma time_grows: "advancing env \<Longrightarrow> pe_time env tr + int (length es) \<le> pe_time env (tr @ es)"
proof (induction es rule: rev_induct)
  case (snoc e es)
  then have "pe_time env (tr @ es) < pe_time env ((tr @ es) @ [e])"
    unfolding advancing_def by blast
  then show ?case
    using snoc by simp
qed simp

lemma time_adds: "advancing env \<Longrightarrow> adds E s t \<Longrightarrow> pe_time env (px_trace s) \<le> pe_time env (px_trace t)"
  unfolding adds_def using time_grows [of env "px_trace s"] by (metis le_add_same_cancel1 of_nat_0_le_iff order_trans)

lemma wpt_later:
  assumes "wpt m s" "emits (\<lambda>_. True) m"
  shows "wp m (\<lambda>_ t. adds (\<lambda>_. True) s t) no_div s"
  using assms by (auto simp: wp_def emits_def split: prod.splits sum.splits) (metis snd_conv)

section \<open>The loops\<close>

lemma wait_until_gone_ends:
  assumes clock: "advancing env" and "deadline - pe_time env (px_trace s) < int n" "0 < n"
  shows "wpt (wait_until_gone env n deadline) s"
  using assms(2,3)
proof (induction n arbitrary: s)
  case (Suc n)
  let ?t = "px_trace s @ [SignalGroup GroupProbe, ReadClock, ShortSleep]"
  have "pe_time env (px_trace s) < pe_time env (px_trace s @ [SignalGroup GroupProbe])"
    using clock by (simp add: advancing_def)
  moreover have "pe_time env (px_trace s) + 3 \<le> pe_time env ?t"
    using time_grows [OF clock, of "px_trace s" "[SignalGroup GroupProbe, ReadClock, ShortSleep]"] by simp
  ultimately have "0 < n \<and> deadline - pe_time env ?t < int n" if "\<not> deadline \<le> pe_time env (px_trace s @ [SignalGroup GroupProbe])"
    using Suc.prems that by linarith
  then show ?case
    using Suc.IH by (auto simp: proc_simps group_alive_wp)
qed simp

lemma stream_loop_ends:
  assumes clock: "advancing env" and step: "\<And>st l. halts (step st l)" "\<And>st l. emits (\<lambda>_. True) (step st l)"
    and "deadline - pe_time env (px_trace s) < int n" "0 < n"
  shows "wpt (stream_loop env idle step deadline n la saw st) s"
  using assms(4,5)
proof (induction n arbitrary: la saw st s)
  case (Suc n)
  show ?case
  proof (cases "deadline \<le> pe_time env (px_trace s)")
    case False
    have later: "0 < n \<and> deadline - pe_time env (px_trace t) < int n" if "pe_time env (px_trace s) + 2 \<le> pe_time env (px_trace t)" for t
      using Suc.prems False that by linarith
    have two: "pe_time env (px_trace s) + 2 \<le> pe_time env (px_trace s @ [ReadClock, ReadLine k] @ es)" for k es
      using time_grows [OF clock, of "px_trace s" "[ReadClock, ReadLine k] @ es"] by simp
    have again: "wpt (stream_loop env idle step deadline n la' saw' st') (s\<lparr>px_trace := px_trace s @ [ReadClock, ReadLine k, ReadClock]\<rparr>)"
      for la' saw' st' k
      using later [of "s\<lparr>px_trace := px_trace s @ [ReadClock, ReadLine k, ReadClock]\<rparr>"] two [of k "[ReadClock]"]
      by (intro Suc.IH) simp_all
    have handled: "wpt (pbind (step st l) (\<lambda>r. case r of Inl a \<Rightarrow> pret (ReturnedEarly a)
        | Inr st' \<Rightarrow> stream_loop env idle step deadline n la' True st')) (s\<lparr>px_trace := px_trace s @ [ReadClock, ReadLine k, ReadClock]\<rparr>)"
      (is "wpt _ ?t") for l k la'
    proof (rule wp_bindI [OF wpt_later [OF haltsD [OF step(1)] step(2)]])
      fix r u assume "adds (\<lambda>_. True) ?t u"
      then have "pe_time env (px_trace s) + 2 \<le> pe_time env (px_trace u)"
        using time_adds [OF clock, of _ ?t u] two [of k "[ReadClock]"] by fastforce
      then show "wpt (case r of Inl a \<Rightarrow> pret (ReturnedEarly a) | Inr st' \<Rightarrow> stream_loop env idle step deadline n la' True st') u"
        using later by (auto simp: proc_simps split: sum.split intro!: Suc.IH)
    qed
    show ?thesis
      using False again handled [unfolded wp_bind]
      by (auto simp: proc_simps Let_def split: sum.split option.split)
  qed (simp add: proc_simps)
qed simp


section \<open>The parts of a call\<close>

lemma cleanup_total:
  assumes "advancing env" "enough_fuel env n"
  shows "halts (cleanup env)"
proof -
  have "wpt (wait_group_gone env 2) s" for s
    using assms time_grows [OF assms(1), of "px_trace s" "[ReadClock]"]
    by (auto simp: wait_group_gone_def proc_simps enough_fuel_def SECOND_def intro!: wait_until_gone_ends)
  then have wait: "halts (wait_group_gone env 2)"
    by (simp add: halts_def)
  have "halts (if pe_windows env then cleanup_windows env pid 2 else cleanup_posix env pid 2 2)" for pid
    unfolding cleanup_windows_def cleanup_posix_def by (intro halts_rules wait)
  moreover have "halts (if b then praise CancelledError else pret ())" for b
    by (intro halts_rules)
  ultimately have "halts (terminate_owned_process_group env)"
    unfolding terminate_owned_process_group_def by (intro total_seq) (simp_all add: halts_def wp_def)
  then show ?thesis
    by (simp add: halts_def cleanup_def wp_def pret_def)
qed

text \<open>A clock was read at \<open>start\<close>, before now.\<close>
definition past :: "proc_env \<Rightarrow> int \<Rightarrow> proc_state \<Rightarrow> bool" where
  "past env start s = (start < pe_time env (px_trace s))"

lemma wpt_clock:
  assumes "advancing env" "\<And>t. past env (pe_time env (px_trace s)) t \<Longrightarrow> (\<And>u. past env u s \<Longrightarrow> past env u t) \<Longrightarrow> wpt (f (pe_time env (px_trace s))) t"
  shows "wpt (pbind (pclock env) f) s"
proof -
  have "pe_time env (px_trace s) < pe_time env (px_trace s @ [ReadClock])"
    using assms(1) by (simp add: advancing_def)
  then show ?thesis
    unfolding wp_bind wp_clock by (intro assms(2)) (simp_all add: past_def)
qed

lemma wpt_write:
  assumes "advancing env" "\<And>t. (\<And>u. past env u s \<Longrightarrow> past env u t) \<Longrightarrow> wpt m t"
  shows "wpt (pseq (write_input env p) m) s"
proof -
  have "pe_time env (px_trace s) < pe_time env (px_trace s @ [WriteInput p])"
    using assms(1) by (simp add: advancing_def)
  then have "past env u (s\<lparr>px_trace := px_trace s @ [WriteInput p]\<rparr>)" if "past env u s" for u
    using that by (simp add: past_def)
  then show ?thesis
    using assms(2) by (auto simp: write_input_def proc_simps split: sum.split)
qed

lemma wpt_loop:
  assumes "advancing env" "enough_fuel env n" "past env start s"
    and "\<And>st l. halts (step st l)" "\<And>st l. emits (\<lambda>_. True) (step st l)" "\<And>e. halts (f e)"
  shows "wpt (pbind (stream_loop env idle step (start + n * SECOND) (pe_fuel env) la saw st) f) s"
  using assms
  by (intro total_bindI stream_loop_ends) (auto simp: enough_fuel_def past_def SECOND_def)

lemma wpt_on_error: "wpt m s \<Longrightarrow> halts (cleanup env) \<Longrightarrow> wpt (cleanup_on_error env m) s"
  unfolding cleanup_on_error_def by (erule wpt_catch) (intro halts_rules)

lemma total_wpt: "(\<And>s. wpt m s) \<Longrightarrow> halts m"
  by (simp add: halts_def)

lemma codex_step_total: "halts (plift (map_sum id Inr (codex_step st l)) :: (codex_run + codex_stream) proc)"
  "emits (\<lambda>_. True) (plift (map_sum id Inr (codex_step st l)) :: (codex_run + codex_stream) proc)"
  by (intro halts_rules child_rules)+

lemma codex_total:
  assumes "advancing env" "enough_fuel env n"
  shows "halts (run_codex_process env p n a)" "halts (codex_exec_process env cfg p n)"
proof -
  note clean = cleanup_total [OF assms]
  note rules = wpt_on_error wpt_write wpt_clock wpt_loop assms clean codex_step_total
  show "halts (run_codex_process env p n a)"
    unfolding run_codex_process_def codex_lines_def codex_stopped_def codex_finished_def Let_def
    by (rule total_wpt, intro rules halts_rules) blast
  show "halts (codex_exec_process env cfg p n)"
    unfolding codex_exec_process_def codex_lines_def codex_resume_finished_def Let_def
    by (rule total_wpt, intro rules halts_rules) blast
qed

lemma claude_total:
  assumes "advancing env" "enough_fuel env n"
  shows "halts (claude_process env cfg p n b)"
proof -
  note clean = cleanup_total [OF assms]
  have step: "halts (claude_step env b st l)" "emits (\<lambda>_. True) (claude_step env b st l)" for st l
    unfolding claude_step_def by (intro halts_rules child_rules)+
  have handler: "wpt (claude_on_error env m) s" if "wpt m s" for m s
    unfolding claude_on_error_def by (rule wpt_catch [OF that]) (intro halts_rules clean)
  show ?thesis
    unfolding claude_process_def claude_timed_out_def claude_finished_def
    by (rule total_wpt, intro wpt_clock handler wpt_write wpt_loop assms step clean halts_rules) blast
qed

lemma opencode_total:
  assumes "advancing env" "enough_fuel env n"
  shows "halts (opencode_process env cfg v p n b)"
proof -
  note clean = cleanup_total [OF assms]
  have step: "halts (opencode_step env b st l)" "emits (\<lambda>_. True) (opencode_step env b st l)" for st l
    unfolding opencode_step_def opencode_show_text_def opencode_show_tool_def Let_def by (intro halts_rules child_rules)+
  show ?thesis
    unfolding opencode_process_def
    by (rule total_wpt, intro wpt_on_error wpt_clock wpt_write wpt_loop assms step clean halts_rules) blast
qed

lemma total_child [halts_rules]: "halts m \<Longrightarrow> halts (with_child env argv cwd environ missing m)"
proof -
  have "halts (pspawn env argv cwd environ)"
    by (auto simp: halts_def proc_simps Let_def split: sum.split)
  then show "halts m \<Longrightarrow> ?thesis"
    unfolding with_child_def by (intro halts_rules)
qed

text \<open>Another attempt is only asked for when one is left.\<close>
lemma opencode_finished_total: "wp (opencode_finished env k st rc) (\<lambda>r t. r = None \<longrightarrow> 0 < k) no_div s"
  by (auto simp: opencode_finished_def read_errors_def proc_simps Let_def split: sum.split)

lemma opencode_run_total:
  assumes "advancing env" "enough_fuel env n"
  shows "halts (opencode_run env cfg r p n w b k)"
proof (induction k)
  case 0
  have "halts (pbind (opencode_finished env 0 st rc) (\<lambda>x. case x of Some a \<Rightarrow> pret a | None \<Rightarrow> pdiverge))" for st rc
    by (rule total_wpt, rule wp_bindI [OF opencode_finished_total]) (auto simp: proc_simps split: option.split)
  note finish = this
  show ?case
    unfolding opencode_run.simps [of _ _ _ _ _ _ _ 0] Let_def nat.case
    by (intro total_child total_bind [OF opencode_total [OF assms]] total_sum total_prod finish total_basics)
next
  case (Suc k)
  have "halts (pbind (opencode_finished env (Suc k) st rc)
      (\<lambda>x. case x of Some a \<Rightarrow> pret a | None \<Rightarrow> opencode_run env cfg r p n w b k))" for st rc
    by (rule total_wpt, rule wp_bindI [OF opencode_finished_total]) (auto simp: wp_ret haltsD [OF Suc.IH] split: option.split)
  note finish = this
  show ?case
    unfolding opencode_run.simps [of _ _ _ _ _ _ _ "Suc k"] Let_def nat.case
    by (intro total_child total_bind [OF opencode_total [OF assms]] total_sum total_prod finish total_basics)
qed



definition patient_env :: proc_env where
  "patient_env = good_env\<lparr>pe_fuel := 360000000000\<rparr>"

lemma patient_time: "pe_time patient_env tr = int (length tr)"
proof -
  have "filter (\<lambda>l. l = None) (take n [Some thread_line, Some message_line]) = []" for n
    by (cases n; cases "n - 1") simp_all
  then show ?thesis
    by (simp add: patient_env_def good_env_def scripted_env_def)
qed


section \<open>How long the output is read\<close>

text \<open>
  An effect of the loop takes at most \<open>slack\<close>, a read besides the time that it may wait.
\<close>
definition punctual :: "proc_env \<Rightarrow> int \<Rightarrow> bool" where
  "punctual env slack \<longleftrightarrow> 0 \<le> slack \<and> (\<forall>tr. pe_time env (tr @ [ReadClock]) \<le> pe_time env tr + slack)
     \<and> (\<forall>tr j. pe_time env (tr @ [ReportProgress j]) \<le> pe_time env tr + slack)
     \<and> (\<forall>tr n. pe_time env (tr @ [ReadLine n]) \<le> pe_time env tr + max 0 n + slack)"

lemma stream_loop_in_time:
  assumes env: "punctual env slack" and j: "0 \<le> j"
    and step: "\<And>st l t. wp (step st l) (\<lambda>_ u. pe_time env (px_trace u) \<le> pe_time env (px_trace t) + j * slack)
      (\<lambda>_ u. pe_time env (px_trace u) \<le> pe_time env (px_trace t) + j * slack) t"
    and "pe_time env (px_trace s) \<le> deadline + (3 + j) * slack"
  shows "wp (stream_loop env idle step deadline n la saw st) (\<lambda>_ t. pe_time env (px_trace t) \<le> deadline + (4 + j) * slack)
    (\<lambda>_ t. pe_time env (px_trace t) \<le> deadline + (4 + j) * slack) s"
  using assms(4)
proof (induction n arbitrary: la saw st s)
  case 0
  then show ?case
    using env by (simp add: proc_simps punctual_def algebra_simps)
next
  case (Suc n)
  let ?ok = "\<lambda>_ t. pe_time env (px_trace t) \<le> deadline + (4 + j) * slack"
  let ?T = "pe_time env (px_trace s)"
  have one: "pe_time env (px_trace s @ [ReadClock]) \<le> ?T + slack"
    using env by (simp add: punctual_def)
  show ?case
  proof (cases "deadline \<le> ?T")
    case True
    then show ?thesis
      using one Suc.prems by (simp add: proc_simps algebra_simps)
  next
    case False
    define k where "k = min (idle saw * SECOND) (deadline - ?T)"
    have "pe_time env ((px_trace s @ [ReadClock]) @ [ReadLine k]) \<le> pe_time env (px_trace s @ [ReadClock]) + max 0 k + slack"
      using env unfolding punctual_def by blast
    then have two: "pe_time env (px_trace s @ [ReadClock, ReadLine k]) \<le> deadline + 2 * slack"
      using one False by (simp add: k_def)
    have "pe_time env ((px_trace s @ [ReadClock, ReadLine k]) @ [ReadClock]) \<le> pe_time env (px_trace s @ [ReadClock, ReadLine k]) + slack"
      using env unfolding punctual_def by blast
    then have three: "pe_time env (px_trace s @ [ReadClock, ReadLine k, ReadClock]) \<le> deadline + 3 * slack"
      using two by simp
    have pos: "0 \<le> j * slack" "0 \<le> slack"
      using env j by (simp_all add: punctual_def)
    let ?t = "s\<lparr>px_trace := px_trace s @ [ReadClock, ReadLine k, ReadClock]\<rparr>"
    have again: "wp (stream_loop env idle step deadline n la' saw' st') ?ok ?ok ?t" for la' saw' st'
      using three pos by (intro Suc.IH) (simp add: algebra_simps)
    have handled: "wp (pbind (step st l) (\<lambda>r. case r of Inl a \<Rightarrow> pret (ReturnedEarly a)
        | Inr st' \<Rightarrow> stream_loop env idle step deadline n la' True st')) ?ok ?ok ?t" for l la'
    proof (rule wp_bindI)
      show "wp (step st l) (\<lambda>_ u. pe_time env (px_trace u) \<le> deadline + (3 + j) * slack) ?ok ?t"
        by (rule wp_mono [OF step]) (use three pos in \<open>simp_all add: algebra_simps\<close>)
      fix r and u :: proc_state
      assume "pe_time env (px_trace u) \<le> deadline + (3 + j) * slack"
      then show "wp (case r of Inl a \<Rightarrow> pret (ReturnedEarly a) | Inr st' \<Rightarrow> stream_loop env idle step deadline n la' True st') ?ok ?ok u"
        using pos by (auto simp: wp_ret algebra_simps split: sum.split intro!: Suc.IH [simplified algebra_simps])
    qed
    have "pe_time env (px_trace s @ [ReadClock, ReadLine k]) \<le> deadline + (4 + j) * slack"
      "pe_time env (px_trace s @ [ReadClock, ReadLine k, ReadClock]) \<le> deadline + (4 + j) * slack"
      using two three pos by (simp_all add: algebra_simps)
    then show ?thesis
      using False again handled [unfolded wp_bind]
      by (auto simp: proc_simps Let_def simp flip: k_def split: sum.split option.split)
  qed
qed


text \<open>The coroutine takes at most \<open>k\<close> times \<open>slack\<close>.\<close>
definition costs :: "proc_env \<Rightarrow> int \<Rightarrow> nat \<Rightarrow> 'a proc \<Rightarrow> bool" where
  "costs env slack k m = (\<forall>s. pe_time env (px_trace (snd (m s))) \<le> pe_time env (px_trace s) + int k * slack)"

lemma costs_wp:
  assumes "costs env slack k m"
  shows "wp m (\<lambda>_ t. pe_time env (px_trace t) \<le> pe_time env (px_trace s) + int k * slack)
    (\<lambda>_ t. pe_time env (px_trace t) \<le> pe_time env (px_trace s) + int k * slack) s"
  using assms by (auto simp: costs_def wp_def split: prod.split sum.split) (metis snd_conv)+

lemma costs_free:
  "punctual env slack \<Longrightarrow> costs env slack k (pret a)"
  "punctual env slack \<Longrightarrow> costs env slack k (praise e)"
  "punctual env slack \<Longrightarrow> costs env slack k (plift r)"
  by (auto simp: costs_def pret_def praise_def plift_def punctual_def split: sum.split)

lemma costs_lift: "punctual env slack \<Longrightarrow> (\<And>a. costs env slack k (f a)) \<Longrightarrow> costs env slack k (pbind (plift r) f)"
  using costs_free(2) by (cases r) (simp_all add: plift_def pbind_def pret_def praise_def costs_def punctual_def)

lemma costs_get: "(\<And>a. costs env slack k (f a)) \<Longrightarrow> costs env slack k (pbind get_session f)"
  by (simp add: pbind_def get_session_def costs_def)

lemma costs_seq:
  assumes "costs env slack a m" "costs env slack b n" "punctual env slack"
  shows "costs env slack (a + b) (pseq m n)"
proof -
  have "pe_time env (px_trace (snd (pseq m n s))) \<le> pe_time env (px_trace s) + int (a + b) * slack" for s
  proof (cases "m s")
    case (Pair r t)
    have "pe_time env (px_trace t) \<le> pe_time env (px_trace s) + int a * slack"
      "pe_time env (px_trace (snd (n t))) \<le> pe_time env (px_trace t) + int b * slack"
      using assms(1,2) Pair unfolding costs_def by (metis snd_conv)+
    moreover have "0 \<le> int b * slack"
      using assms(3) by (simp add: punctual_def)
    ultimately show ?thesis
      using Pair by (cases r) (simp_all add: pseq_def pbind_def algebra_simps)
  qed
  then show ?thesis
    by (simp add: costs_def)
qed

lemma costs_report: "punctual env slack \<Longrightarrow> costs env slack 1 (report_progress env b u)"
  by (auto simp: report_progress_def costs_def pstep_def pret_def punctual_def)

lemma costs_set:
  assumes "costs env slack k m"
  shows "costs env slack k (pseq (set_session v) m)"
proof -
  have "pe_time env (px_trace (snd (m (s\<lparr>px_session := v\<rparr>)))) \<le> pe_time env (px_trace s) + int k * slack" for s
    using spec [OF assms [unfolded costs_def], of "s\<lparr>px_session := v\<rparr>"] by simp
  then show ?thesis
    by (simp add: costs_def pseq_def pbind_def set_session_def)
qed

lemma claude_step_costs:
  assumes "punctual env slack"
  shows "costs env slack 2 (claude_step env b st l)"
proof -
  have last: "costs env slack 1 (pseq (if c then report_progress env b u else pret ()) (plift q))" for c u and q :: "string + 'z"
    using costs_seq [of env slack 1 "if c then report_progress env b u else pret ()" 0 "plift q"] assms
    by (simp add: costs_report costs_free del: One_nat_def)
  have init: "costs env slack 1 (if c then pseq (set_session v) (report_progress env b u) else pret ())" for c v u
    using assms by (simp add: costs_set costs_report costs_free del: One_nat_def)
  have "costs env slack (1 + 1) (pseq (if c then pseq (set_session v) (report_progress env b u) else pret ())
      (pbind (plift r) (\<lambda>summary. pbind get_session (\<lambda>session. pseq (if d summary then report_progress env b (w summary session) else pret ())
        (plift (f session))))))" for c d v u w and r :: "string + string" and f :: "json \<Rightarrow> string + (provider_answer + json)"
    by (intro costs_seq costs_lift costs_get last init assms)
  then show ?thesis
    using assms unfolding claude_step_def
    by (auto simp: costs_free numeral_2_eq_2 split: option.split intro!: costs_lift)
qed

lemma opencode_step_costs:
  assumes "punctual env slack"
  shows "costs env slack 1 (opencode_step env b st l)"
proof -
  have catch: "costs env slack 1 (pcatch (pbind (plift r) (\<lambda>t. report_progress env True (w t)))
      (\<lambda>e. case e of CancelledError \<Rightarrow> praise CancelledError | _ \<Rightarrow> pret ()))" for w and r :: "string + string"
    using assms
    by (auto simp: costs_def pcatch_def pbind_def plift_def report_progress_def pstep_def pret_def praise_def punctual_def
        split: sum.split option.split prod.split proc_stop.split proc_exc.split)
  have shown: "costs env slack 1 (opencode_show_text env b parts)" for parts
    using assms by (simp add: opencode_show_text_def catch costs_free del: One_nat_def)
  have tool: "costs env slack 1 (opencode_show_tool env parts t)" for parts t
    using assms by (auto simp: opencode_show_tool_def costs_report costs_free simp del: One_nat_def intro!: costs_lift)
  have "costs env slack (1 + 0) (pseq (opencode_show_text env b parts) (pret a))" "costs env slack (1 + 0) (pseq (opencode_show_tool env parts t) (pret a))"
    for parts t and a :: "provider_answer + opencode_stream"
    using assms by (intro costs_seq shown tool costs_free; assumption)+
  then show ?thesis
    using assms unfolding opencode_step_def Let_def
    by (auto simp: costs_free simp del: One_nat_def split: option.split intro!: costs_lift)
qed

text \<open>
  C35: The output of a child is read until the deadline and hardly longer: when the loop of the Codex, the
  OpenCode or the Claude adapter ends, the deadline has passed by no more than what its last few effects take
  (\<open>slack\<close> each).
\<close>
theorem output_read_in_time:
  assumes "punctual env slack" "pe_time env (px_trace s) \<le> deadline"
  shows "pe_time env (px_trace (snd (codex_lines env activity deadline la s))) \<le> deadline + 4 * slack
    \<and> pe_time env (px_trace (snd (stream_loop env idle (opencode_step env b) deadline n la saw st s))) \<le> deadline + 5 * slack
    \<and> pe_time env (px_trace (snd (stream_loop env idle (claude_step env b) deadline n la saw st' s))) \<le> deadline + 6 * slack"
proof -
  have in_time: "pe_time env (px_trace (snd (stream_loop env idle step deadline n la saw st s))) \<le> deadline + (4 + int k) * slack"
    if "\<And>st l. costs env slack k (step st l)" for k idle n la saw st and step :: "'x \<Rightarrow> string \<Rightarrow> ('y + 'x) proc"
  proof -
    have "0 \<le> (3 + int k) * slack"
      using assms(1) by (simp add: punctual_def)
    then have "pe_time env (px_trace s) \<le> deadline + (3 + int k) * slack"
      using assms(2) by linarith
    then have "wp (stream_loop env idle step deadline n la saw st) (\<lambda>_ t. pe_time env (px_trace t) \<le> deadline + (4 + int k) * slack)
        (\<lambda>_ t. pe_time env (px_trace t) \<le> deadline + (4 + int k) * slack) s"
      by (intro stream_loop_in_time [OF assms(1)] costs_wp that) simp
    then show ?thesis
      by (auto simp: wp_def split: prod.splits sum.splits)
  qed
  have "pe_time env (px_trace (snd (codex_lines env activity deadline la s))) \<le> deadline + (4 + int 0) * slack"
    unfolding codex_lines_def by (rule in_time) (simp add: costs_free assms(1))
  moreover have "pe_time env (px_trace (snd (stream_loop env idle (opencode_step env b) deadline n la saw st s))) \<le> deadline + (4 + int 1) * slack"
    by (rule in_time) (rule opencode_step_costs [OF assms(1)])
  moreover have "pe_time env (px_trace (snd (stream_loop env idle (claude_step env b) deadline n la saw st' s))) \<le> deadline + (4 + int 2) * slack"
    by (rule in_time) (rule claude_step_costs [OF assms(1)])
  ultimately show ?thesis
    by simp
qed

lemma output_read_in_time_witness:
  "punctual good_env 1 \<and> pe_time good_env (px_trace (snd (codex_lines good_env 120 100 0 start_state))) \<le> 100 + 4 * 1"
proof -
  have "pe_time good_env tr = int (length tr)" for tr
    using patient_time by (simp add: patient_env_def)
  then have "punctual good_env 1" "pe_time good_env (px_trace start_state) \<le> 100"
    by (simp_all add: punctual_def start_state_def)
  then show ?thesis
    using output_read_in_time [of good_env 1 start_state 100] by blast
qed

text \<open>
  After the end of the output the exit of the child is awaited without a limit: here the child closes its
  output at once and exits a year later, and the call, whose timeout is six minutes, takes as long.
\<close>
definition year :: int where "year = 31536000 * SECOND"

definition late_env :: proc_env where
  "late_env = good_env\<lparr>pe_time := (\<lambda>tr. int (length tr) + (if AwaitExit \<in> set tr then year else 0))\<rparr>"

lemma late_exit_is_awaited:
  "punctual late_env 1"
  "case adapter_call late_env sample_provider Codex sample_request start_state of
     (Inr a, s') \<Rightarrow> pa_text a = ''done'' \<and> year < pe_time late_env (px_trace s')
   | _ \<Rightarrow> False"
  by (simp add: punctual_def late_env_def) code_simp

end
