(* ===== verification/ProviderStream.thy ===== *)
theory ProviderStream
  imports ProviderEvents
begin

text \<open>
  The streaming adapters against what their child printed: whatever the timing, the blank lines and the
  callbacks, the result is the fold of a pure function over the lines (\<open>lines_read\<close>).
\<close>

section \<open>The lines that were read\<close>

text \<open>The stripped lines, without the empty ones, that the reads among \<open>es\<close> gave after the trace \<open>tr\<close>.\<close>
fun lines_read :: "proc_env \<Rightarrow> proc_trace \<Rightarrow> proc_trace \<Rightarrow> string list" where
  "lines_read env tr [] = []"
| "lines_read env tr (e # es) =
     (case e of
        ReadLine n \<Rightarrow>
          (case pe_line env tr n of Inr (Some l) \<Rightarrow> if strip l = [] then [] else [strip l] | _ \<Rightarrow> [])
      | _ \<Rightarrow> []) @ lines_read env (tr @ [e]) es"

lemma lines_read_append: "lines_read env tr (es @ fs) = lines_read env tr es @ lines_read env (tr @ es) fs"
  by (induction es arbitrary: tr) simp_all

lemma lines_read_none: "list_all (\<lambda>e. \<not> is_read e) es \<Longrightarrow> lines_read env tr es = []"
  by (induction es arbitrary: tr) (auto simp: is_read_def split: proc_event.split)

definition end_state :: "('st, 'r) stream_end \<Rightarrow> 'st option" where
  "end_state e = (case e of PastDeadline st \<Rightarrow> Some st | Stalled b st \<Rightarrow> Some st | StreamClosed st \<Rightarrow> Some st
     | ReturnedEarly r \<Rightarrow> None)"

lemma end_state_simps [simp]:
  "end_state (PastDeadline st) = Some st" "end_state (Stalled b st) = Some st" "end_state (StreamClosed st) = Some st"
  "end_state (ReturnedEarly r) = None"
  by (simp_all add: end_state_def)

text \<open>The state \<open>t\<close> was reached from \<open>s\<close>, and \<open>f\<close> takes \<open>st\<close> to \<open>st'\<close> over the lines read on the way.\<close>
definition folds :: "proc_env \<Rightarrow> ('st \<Rightarrow> string \<Rightarrow> string + 'st) \<Rightarrow> 'st \<Rightarrow> 'st option \<Rightarrow> proc_state \<Rightarrow> proc_state \<Rightarrow> bool" where
  "folds env f st q s t = (\<exists>es. px_trace t = px_trace s @ es \<and> list_all (\<lambda>e. \<not> is_start e) es
     \<and> (\<forall>st'. q = Some st' \<longrightarrow> efoldM f st (lines_read env (px_trace s) es) = Inr st'))"

lemma folds_quiet:
  assumes "adds (\<lambda>e. \<not> is_start e \<and> \<not> is_read e) s t"
  shows "folds env f st (Some st) s t"
proof -
  obtain es where es: "px_trace t = px_trace s @ es" "list_all (\<lambda>e. \<not> is_start e) es" "list_all (\<lambda>e. \<not> is_read e) es"
    using assms by (auto simp: adds_def list_all_iff)
  then show ?thesis
    unfolding folds_def by (intro exI [of _ es]) (simp add: lines_read_none)
qed

lemma folds_trans:
  assumes "folds env f st (Some st') s t" "folds env f st' q t u"
  shows "folds env f st q s u"
proof -
  obtain es fs where "px_trace t = px_trace s @ es" "list_all (\<lambda>e. \<not> is_start e) es"
    "efoldM f st (lines_read env (px_trace s) es) = Inr st'"
    "px_trace u = px_trace t @ fs" "list_all (\<lambda>e. \<not> is_start e) fs"
    "\<forall>st''. q = Some st'' \<longrightarrow> efoldM f st' (lines_read env (px_trace t) fs) = Inr st''"
    using assms unfolding folds_def by blast
  then show ?thesis
    unfolding folds_def by (intro exI [of _ "es @ fs"]) (simp add: lines_read_append efoldM_append)
qed

lemma folds_none: "folds env f st q s t \<Longrightarrow> folds env f st None s t"
  by (auto simp: folds_def)

text \<open>One read.\<close>
lemma folds_line:
  assumes "pe_line env (px_trace s @ [ReadClock]) n = Inr (Some l)"
  shows "strip l = [] \<Longrightarrow> folds env f st (Some st) s (s\<lparr>px_trace := px_trace s @ [ReadClock, ReadLine n, ReadClock]\<rparr>)"
    and "strip l \<noteq> [] \<Longrightarrow> f st (strip l) = Inr st'
      \<Longrightarrow> folds env f st (Some st') s (s\<lparr>px_trace := px_trace s @ [ReadClock, ReadLine n, ReadClock]\<rparr>)"
    and "folds env f st None s (s\<lparr>px_trace := px_trace s @ [ReadClock, ReadLine n, ReadClock]\<rparr>)"
  unfolding folds_def
  by (intro exI [of _ "[ReadClock, ReadLine n, ReadClock]"]; simp add: is_start_def assms)+

lemma folds_no_line:
  assumes "\<And>l. pe_line env (px_trace s @ [ReadClock]) n \<noteq> Inr (Some l) \<or> strip l = []"
  shows "folds env f st (Some st) s (s\<lparr>px_trace := px_trace s @ [ReadClock, ReadLine n]\<rparr>)"
    and "folds env f st (Some st) s (s\<lparr>px_trace := px_trace s @ [ReadClock, ReadLine n, ReadClock]\<rparr>)"
proof -
  have none: "(case pe_line env (px_trace s @ [ReadClock]) n of Inr (Some l) \<Rightarrow> if strip l = [] then [] else [strip l] | _ \<Rightarrow> []) = []"
    using assms by (auto split: sum.split option.split)
  show "folds env f st (Some st) s (s\<lparr>px_trace := px_trace s @ [ReadClock, ReadLine n]\<rparr>)"
    unfolding folds_def by (intro exI [of _ "[ReadClock, ReadLine n]"]) (simp add: is_start_def none)
  show "folds env f st (Some st) s (s\<lparr>px_trace := px_trace s @ [ReadClock, ReadLine n, ReadClock]\<rparr>)"
    unfolding folds_def by (intro exI [of _ "[ReadClock, ReadLine n, ReadClock]"]) (simp add: is_start_def none)
qed

lemma folds_clock: "folds env f st (Some st) s (s\<lparr>px_trace := px_trace s @ [ReadClock]\<rparr>)"
  by (rule folds_quiet) (simp add: adds_def is_start_def is_read_def)

lemma folds_more: "folds env f st None s t \<Longrightarrow> adds (\<lambda>e. \<not> is_start e \<and> \<not> is_read e) t u \<Longrightarrow> folds env f st None s u"
  unfolding folds_def adds_def by (elim exE conjE, rule_tac x = "es @ esa" in exI) (auto simp: list_all_iff)

text \<open>
  The loop folds \<open>f\<close>, if a step that goes on has the effect of \<open>f\<close> on the state and reads nothing itself.
\<close>
lemma stream_loop_folds:
  assumes step: "\<And>st l t. wp (step st l) (\<lambda>r u. adds (\<lambda>e. \<not> is_start e \<and> \<not> is_read e) t u \<and> (\<forall>st'. r = Inr st' \<longrightarrow> f st l = Inr st'))
      (\<lambda>_. adds (\<lambda>e. \<not> is_start e \<and> \<not> is_read e) t) t"
  shows "wp (stream_loop env idle step deadline n la saw st) (\<lambda>e. folds env f st (end_state e) s) (\<lambda>_. folds env f st None s) s"
proof (induction n arbitrary: la saw st s)
  case 0
  show ?case
    by (simp add: proc_simps folds_def)
next
  case (Suc n)
  let ?Q = "\<lambda>e. folds env f st (end_state e) s" and ?X = "\<lambda>_. folds env f st None s"
  have later: "wp (stream_loop env idle step deadline n la' saw' st') ?Q ?X t" if "folds env f st (Some st') s t" for la' saw' st' t
    by (rule wp_mono [OF Suc.IH]) (use folds_trans [OF that] in blast)+
  define k where "k = min (idle saw * SECOND) (deadline - pe_time env (px_trace s))"
  let ?t = "s\<lparr>px_trace := px_trace s @ [ReadClock, ReadLine k, ReadClock]\<rparr>"
  have handled: "wp (pbind (step st (strip l)) (\<lambda>r. case r of Inl a \<Rightarrow> pret (ReturnedEarly a)
      | Inr st' \<Rightarrow> stream_loop env idle step deadline n la' True st')) ?Q ?X ?t"
    if line: "pe_line env (px_trace s @ [ReadClock]) k = Inr (Some l)" "strip l \<noteq> []" for l la'
  proof (rule wp_bindI)
    show "wp (step st (strip l)) (\<lambda>r u. case r of Inl a \<Rightarrow> folds env f st None s u | Inr st' \<Rightarrow> folds env f st (Some st') s u) ?X ?t"
    proof (rule wp_mono [OF step])
      fix r u
      assume r: "adds (\<lambda>e. \<not> is_start e \<and> \<not> is_read e) ?t u \<and> (\<forall>st'. r = Inr st' \<longrightarrow> f st (strip l) = Inr st')"
      have "folds env f st (Some st') s u" if "r = Inr st'" for st'
      proof (rule folds_trans)
        show "folds env f st (Some st') s ?t"
          using r that by (intro folds_line(2) [OF line]) blast
        show "folds env f st' (Some st') ?t u"
          using r by (intro folds_quiet) simp
      qed
      then show "case r of Inl a \<Rightarrow> folds env f st None s u | Inr st' \<Rightarrow> folds env f st (Some st') s u"
        using r by (auto split: sum.split intro: folds_more [OF folds_line(3) [OF line(1)]])
    next
      fix e u
      assume "adds (\<lambda>e. \<not> is_start e \<and> \<not> is_read e) ?t u"
      then show "folds env f st None s u"
        by (rule folds_more [OF folds_line(3) [OF line(1)]])
    qed
    show "wp (case r of Inl a \<Rightarrow> pret (ReturnedEarly a) | Inr st' \<Rightarrow> stream_loop env idle step deadline n la' True st') ?Q ?X u"
      if "case r of Inl a \<Rightarrow> folds env f st None s u | Inr st' \<Rightarrow> folds env f st (Some st') s u" for r u
      using that later by (auto simp: wp_ret split: sum.splits)
  qed
  show ?case
  proof (cases "deadline \<le> pe_time env (px_trace s)")
    case True
    then show ?thesis
      by (simp add: proc_simps folds_clock)
  next
    case False
    show ?thesis
    proof (cases "\<exists>l. pe_line env (px_trace s @ [ReadClock]) k = Inr (Some l) \<and> strip l \<noteq> []")
      case True
      then obtain l where l: "pe_line env (px_trace s @ [ReadClock]) k = Inr (Some l)" "strip l \<noteq> []"
        by blast
      then have "l \<noteq> []"
        by auto
      then show ?thesis
        using False l handled [OF l, unfolded wp_bind] by (simp add: proc_simps Let_def flip: k_def)
    next
      case no: False
      have one: "folds env f st (Some st) s (s\<lparr>px_trace := px_trace s @ [ReadClock, ReadLine k]\<rparr>)" and two: "folds env f st (Some st) s ?t"
        using no by (intro folds_no_line; blast)+
      then show ?thesis
        using False no folds_none [OF one] later [OF two]
        by (auto simp: proc_simps Let_def simp flip: k_def split: sum.split option.split)
    qed
  qed
qed


interpretation silent: child_work "\<lambda>e. \<not> is_start e \<and> \<not> is_read e" env for env
  by unfold_locales (simp_all add: is_start_def is_read_def)

lemma emits_wp:
  assumes "emits E m"
  shows "wp m (\<lambda>_. adds E s) (\<lambda>_. adds E s) s"
  using assms by (auto simp: emits_def wp_def split: prod.splits sum.splits) (metis snd_conv)+

section \<open>Codex\<close>

text \<open>The thread that a line starts.\<close>
definition thread_of :: "string \<Rightarrow> json option" where
  "thread_of line =
     (case json_parse line of
        Some (JObj d) \<Rightarrow>
          if dget d ''type'' = JStr ''thread.started'' \<and> truthy (dget d ''thread_id'') then Some (dget d ''thread_id'') else None
      | _ \<Rightarrow> None)"

lemma codex_step_session:
  assumes "codex_step st l = Inr st'"
  shows "cx_session st' = (case thread_of l of Some v \<Rightarrow> v | None \<Rightarrow> cx_session st)"
  using assms
  by (auto simp: codex_step_def thread_of_def as_dict_def result_simps Let_def split: option.splits json.splits)

lemma codex_fold_session:
  "efoldM codex_step st ls = Inr st' \<Longrightarrow> cx_session st' = last (cx_session st # List.map_filter thread_of ls)"
proof (induction ls arbitrary: st)
  case (Cons l ls)
  then obtain t where t: "codex_step st l = Inr t" "efoldM codex_step t ls = Inr st'"
    by (auto simp: ebind_eq_Inr)
  then show ?case
    using Cons.IH [OF t(2)] codex_step_session [OF t(1)]
    by (auto simp: map_filter_simps split: option.split)
qed (simp add: map_filter_simps)

text \<open>What is said of a run, given the state that its lines lead to.\<close>
definition codex_outcome :: "int \<Rightarrow> int \<Rightarrow> codex_stream \<Rightarrow> codex_run \<Rightarrow> bool" where
  "codex_outcome timeout activity_timeout st r \<longleftrightarrow>
     cr_session r = cx_session st
     \<and> (cr_text r = ''Codex timed out after '' @ show_int timeout @ ''s''
        \<or> cr_text r = ''Codex stopped responding for '' @ show_int activity_timeout @ ''s''
        \<or> (\<exists>t. py_strip (cx_text st) = Inr t \<and> cr_text r = or_no_response t)
        \<or> \<not> truthy (cx_text st) \<and> (\<exists>rc detail. rc \<noteq> 0 \<and> cr_text r = ''Codex CLI failed ('' @ show_int rc @ ''): '' @ take 500 detail))"

lemma codex_finished_outcome: "wp (codex_finished env st) (\<lambda>r _. codex_outcome n a st r) (\<lambda>_ _. True) s"
  by (auto simp: codex_finished_def await_exit_def read_errors_def proc_simps codex_outcome_def Let_def split: sum.split)

lemma codex_stopped_outcome:
  "wp (codex_stopped env ''timed out after '' n (cx_session st)) (\<lambda>r _. codex_outcome n a st r) (\<lambda>_ _. True) s"
  "wp (codex_stopped env ''stopped responding for '' a (cx_session st)) (\<lambda>r _. codex_outcome n a st r) (\<lambda>_ _. True) s"
  unfolding codex_stopped_def
  by (rule wp_seqI [where P = "\<lambda>_ _. True"], simp add: wp_def split: prod.split sum.split, simp add: wp_ret codex_outcome_def)+

lemma codex_after_stream:
  fixes e :: "(codex_stream, codex_run) stream_end"
  assumes "end_state e = Some st"
  shows "wp (case e of PastDeadline st \<Rightarrow> codex_stopped env ''timed out after '' n (cx_session st)
        | Stalled saw st \<Rightarrow> codex_stopped env ''stopped responding for '' a (cx_session st)
        | StreamClosed st \<Rightarrow> codex_finished env st
        | ReturnedEarly r \<Rightarrow> pret r)
      (\<lambda>r t. adds (\<lambda>e. \<not> is_start e \<and> \<not> is_read e) s t \<and> codex_outcome n a st r) (\<lambda>_ _. True) s"
proof -
  have quiet: "wp m (\<lambda>r t. adds (\<lambda>e. \<not> is_start e \<and> \<not> is_read e) s t \<and> codex_outcome n a st r) (\<lambda>_ _. True) s"
    if "emits (\<lambda>e. \<not> is_start e \<and> \<not> is_read e) m" "wp m (\<lambda>r _. codex_outcome n a st r) (\<lambda>_ _. True) s" for m
    by (rule wp_mono [OF wp_conj [OF emits_wp [OF that(1)] that(2)]]) simp_all
  show ?thesis
    using assms by (cases e) (auto intro!: quiet codex_stopped_outcome codex_finished_outcome child_rules)
qed

lemma on_error_answer: "wp m Q (\<lambda>_ _. True) s \<Longrightarrow> wp (cleanup_on_error env m) Q (\<lambda>_ _. True) s"
  unfolding cleanup_on_error_def wp_catch
  by (erule wp_mono) (auto simp: wp_seq split: proc_stop.split, simp add: wp_def praise_def split: prod.split sum.split)

lemma codex_lines_folds:
  "wp (codex_lines env a d la) (\<lambda>e t. \<exists>st. end_state e = Some st \<and> folds env codex_step codex_start (Some st) s t) (\<lambda>_ _. True) s"
proof -
  have "wp (plift (map_sum id Inr (codex_step st l))) (\<lambda>r u. adds E t u \<and> (\<forall>st'. r = Inr st' \<longrightarrow> codex_step st l = Inr st'))
      (\<lambda>_. adds E t) t" for st l t and E :: "proc_event \<Rightarrow> bool"
    by (cases "codex_step st l") (simp_all add: wp_lift)
  then have "wp (codex_lines env a d la) (\<lambda>e. folds env codex_step codex_start (end_state e) s) (\<lambda>_. folds env codex_step codex_start None s) s"
    unfolding codex_lines_def by (intro stream_loop_folds)
  moreover have "wp (codex_lines env a d la) (\<lambda>e _. \<forall>r. e \<noteq> ReturnedEarly r) (\<lambda>_ _. True) s"
    unfolding codex_lines_def
    by (rule wp_mono [OF stream_loop_wp [where I = "\<lambda>_. True" and J = "\<lambda>_. False"]])
      (auto simp: wp_lift split: sum.split, auto simp: map_sum_def split: sum.splits)
  ultimately show ?thesis
    by (rule wp_mono [OF wp_conj]) (auto simp: end_state_def split: stream_end.splits)
qed

text \<open>
  C33: What a Codex run that returns tells is a function of the lines that its child printed: the session is the
  last thread they start, if any; the text is the last text found in them, or the message that the run timed
  out, stopped responding or failed without a text. Blank lines, the timing of the reads and lines that are
  not JSON change nothing.
\<close>
theorem codex_reads_every_line:
  assumes "run_codex_process env p n a s = (Inr r, s')"
  shows "\<exists>es st. px_trace s' = px_trace s @ es
    \<and> efoldM codex_step codex_start (lines_read env (px_trace s) es) = Inr st
    \<and> codex_outcome n a st r
    \<and> cr_session r = last (JNull # List.map_filter thread_of (lines_read env (px_trace s) es))"
proof -
  let ?Q = "\<lambda>r t. \<exists>st. folds env codex_step codex_start (Some st) s t \<and> codex_outcome n a st r"
  let ?s = "s\<lparr>px_trace := px_trace s @ [ReadClock, ReadClock]\<rparr>"
  have start: "folds env codex_step codex_start (Some codex_start) s t" if "adds (\<lambda>e. \<not> is_start e \<and> \<not> is_read e) ?s t" for t
    using that by (intro folds_quiet) (auto simp: adds_def is_start_def is_read_def)
  have "wp (pseq (write_input env p) (pbind (codex_lines env a (pe_time env (px_trace s) + n * SECOND) la) (\<lambda>e.
      case e of PastDeadline st \<Rightarrow> codex_stopped env ''timed out after '' n (cx_session st)
      | Stalled saw st \<Rightarrow> codex_stopped env ''stopped responding for '' a (cx_session st)
      | StreamClosed st \<Rightarrow> codex_finished env st | ReturnedEarly r \<Rightarrow> pret r))) ?Q (\<lambda>_ _. True) ?s" for la
  proof (rule wp_seqI)
    show "wp (write_input env p) (\<lambda>_. adds (\<lambda>e. \<not> is_start e \<and> \<not> is_read e) ?s) (\<lambda>_ _. True) ?s"
      by (rule wp_mono [OF emits_wp]) (auto intro: child_rules)
    fix t assume "adds (\<lambda>e. \<not> is_start e \<and> \<not> is_read e) ?s t"
    note first = start [OF this]
    show "wp (pbind (codex_lines env a (pe_time env (px_trace s) + n * SECOND) la) (\<lambda>e.
      case e of PastDeadline st \<Rightarrow> codex_stopped env ''timed out after '' n (cx_session st)
      | Stalled saw st \<Rightarrow> codex_stopped env ''stopped responding for '' a (cx_session st)
      | StreamClosed st \<Rightarrow> codex_finished env st | ReturnedEarly r \<Rightarrow> pret r)) ?Q (\<lambda>_ _. True) t"
    proof (rule wp_bindI [OF codex_lines_folds], elim exE conjE)
      fix e :: "(codex_stream, codex_run) stream_end" and u st
      assume st: "end_state e = Some st" "folds env codex_step codex_start (Some st) t u"
      show "wp (case e of PastDeadline st \<Rightarrow> codex_stopped env ''timed out after '' n (cx_session st)
        | Stalled saw st \<Rightarrow> codex_stopped env ''stopped responding for '' a (cx_session st)
        | StreamClosed st \<Rightarrow> codex_finished env st | ReturnedEarly r \<Rightarrow> pret r) ?Q (\<lambda>_ _. True) u"
        by (rule wp_mono [OF codex_after_stream [OF st(1)]])
          (use folds_trans [OF folds_trans [OF first st(2)] folds_quiet] in blast)+
    qed
  qed
  then have "wp (run_codex_process env p n a) ?Q (\<lambda>_ _. True) s"
    unfolding run_codex_process_def by (simp add: wp_bind wp_clock on_error_answer)
  from wpD(1) [OF this assms] obtain es st where "px_trace s' = px_trace s @ es" "codex_outcome n a st r"
    "efoldM codex_step codex_start (lines_read env (px_trace s) es) = Inr st"
    unfolding folds_def by blast
  then show ?thesis
    using codex_fold_session [of codex_start _ st] by (auto simp: codex_outcome_def codex_start_def)
qed


lemma codex_run_sample:
  "run_codex_process good_env ''hi'' 360 120 start_state
   = (Inr \<lparr>cr_text = ''done'', cr_session = JStr ''t1'', cr_capacity = False\<rparr>,
      snd (run_codex_process good_env ''hi'' 360 120 start_state))"
  by code_simp

lemma codex_reads_every_line_witness:
  "\<exists>es st. px_trace (snd (run_codex_process good_env ''hi'' 360 120 start_state)) = px_trace start_state @ es
    \<and> efoldM codex_step codex_start (lines_read good_env (px_trace start_state) es) = Inr st
    \<and> codex_outcome 360 120 st \<lparr>cr_text = ''done'', cr_session = JStr ''t1'', cr_capacity = False\<rparr>"
  using codex_reads_every_line [OF codex_run_sample] by blast

section \<open>OpenCode\<close>

text \<open>What the step does to the state when it goes on.\<close>
definition opencode_reads :: "opencode_stream \<Rightarrow> string \<Rightarrow> string + opencode_stream" where
  "opencode_reads st line =
     (case json_parse line of
        None \<Rightarrow> Inr st
      | Some v \<Rightarrow>
          ebind (as_dict v) (\<lambda>event.
          let st = (if \<not> truthy (oc_session st) \<and> truthy (dget event ''sessionID'')
                    then st\<lparr>oc_session := dget event ''sessionID''\<rparr> else st);
              event_type = dget_or event ''type'' (JStr []) in
          ebind (add_event_type event_type (oc_types st)) (\<lambda>types.
          let st = st\<lparr>oc_types := types\<rparr> in
          if event_type = JStr ''text'' then
            ebind (part_field event ''text'') (\<lambda>text.
            Inr (if truthy text then st\<lparr>oc_parts := oc_parts st @ [text]\<rparr> else st))
          else Inr st)))"

text \<open>The type and the text of an event line.\<close>
definition line_type :: "string \<Rightarrow> json" where
  "line_type line = (case json_parse line of Some (JObj d) \<Rightarrow> dget_or d ''type'' (JStr []) | _ \<Rightarrow> JStr [])"

lemma opencode_step_reads:
  "wp (opencode_step env b st l) (\<lambda>r t. \<forall>st'. r = Inr st' \<longrightarrow> opencode_reads st l = Inr st') (\<lambda>_ _. True) s"
proof -
  have skip: "wp m Q (\<lambda>_ _. True) u" if "\<And>a t. Q a t" for m :: "unit proc" and Q u
    using that by (simp add: wp_def split: prod.split sum.split)
  show ?thesis
    by (auto simp: opencode_step_def opencode_reads_def proc_simps Let_def ebind_def
        split: option.split sum.split intro!: skip)
qed

lemma add_event_type_iff: "add_event_type t ts = Inr us \<Longrightarrow> set us = set ts \<union> (if truthy t then {t} else {})"
  by (auto simp: add_event_type_def result_simps split: if_splits)

lemma opencode_reads_types:
  assumes "opencode_reads st l = Inr st'"
  shows "set (oc_types st') = set (oc_types st) \<union> (if truthy (line_type l) then {line_type l} else {})"
proof (cases "json_parse l")
  case (Some v)
  then show ?thesis
    using assms
    by (cases v) (auto simp: opencode_reads_def line_type_def as_dict_def result_simps Let_def dest!: add_event_type_iff split: if_splits)
qed (use assms in \<open>simp add: opencode_reads_def line_type_def\<close>)

lemma opencode_fold_types:
  "efoldM opencode_reads st ls = Inr st' \<Longrightarrow> l \<in> set ls \<Longrightarrow> truthy (line_type l) \<Longrightarrow> line_type l \<in> set (oc_types st')"
proof (induction ls arbitrary: st)
  case (Cons k ls)
  then obtain t where t: "opencode_reads st k = Inr t" "efoldM opencode_reads t ls = Inr st'"
    by (auto simp: ebind_eq_Inr)
  have keep: "v \<in> set (oc_types t) \<Longrightarrow> v \<in> set (oc_types st')" for v
    using t(2)
  proof (induction ls arbitrary: t)
    case (Cons m ls)
    then show ?case
      by (auto simp: ebind_eq_Inr dest: opencode_reads_types)
  qed simp
  then show ?case
    using Cons.IH [OF t(2)] Cons.prems(2,3) opencode_reads_types [OF t(1)] by auto
qed simp

lemma opencode_stream_folds:
  "wp (stream_loop env idle (opencode_step env b) d k la saw st)
     (\<lambda>e. folds env opencode_reads st (end_state e) s) (\<lambda>_. folds env opencode_reads st None s) s"
proof (rule stream_loop_folds)
  show "wp (opencode_step env b st l) (\<lambda>r u. adds (\<lambda>e. \<not> is_start e \<and> \<not> is_read e) t u
      \<and> (\<forall>st'. r = Inr st' \<longrightarrow> opencode_reads st l = Inr st')) (\<lambda>_. adds (\<lambda>e. \<not> is_start e \<and> \<not> is_read e) t) t" for st l t
    by (rule wp_mono [OF wp_conj [OF emits_wp opencode_step_reads]]) (auto intro: child_rules)
qed

text \<open>The stream of an attempt that is not stopped.\<close>
lemma opencode_process_folds:
  "wp (opencode_process env cfg v p n b)
     (\<lambda>e t. \<forall>st. (\<exists>rc. e = Inr (st, rc)) \<longrightarrow> folds env opencode_reads \<lparr>oc_parts = [], oc_session = v, oc_types = []\<rparr> (Some st) s t)
     (\<lambda>_ _. True) s"
proof -
  let ?st = "\<lparr>oc_parts = [], oc_session = v, oc_types = []\<rparr>"
  have first: "folds env opencode_reads ?st (Some ?st) s (t\<lparr>px_trace := px_trace t @ [ReadClock, ReadClock]\<rparr>)"
    if "adds (\<lambda>e. \<not> is_start e \<and> \<not> is_read e) s t" for t
    using that by (intro folds_quiet) (auto simp: adds_def is_start_def is_read_def)
  have last: "wp (pbind (await_exit env) (\<lambda>rc. pret (Inr (st, rc) :: provider_answer + opencode_stream \<times> int)))
      (\<lambda>e t. \<forall>st'. (\<exists>rc. e = Inr (st', rc)) \<longrightarrow> folds env opencode_reads ?st (Some st') s t) (\<lambda>_ _. True) u"
    if "folds env opencode_reads ?st (Some st) s u" for st u
    using folds_trans [OF that folds_quiet [of u "u\<lparr>px_trace := px_trace u @ [AwaitExit]\<rparr>"]]
    by (auto simp: await_exit_def proc_simps adds_def is_start_def is_read_def split: sum.split)
  have stop: "wp (pseq (cleanup env) (pret (Inl a :: provider_answer + opencode_stream \<times> int)))
      (\<lambda>e t. \<forall>st'. (\<exists>rc. e = Inr (st', rc)) \<longrightarrow> P st' t) (\<lambda>_ _. True) u" for a P u
    by (rule wp_seqI [where P = "\<lambda>_ _. True"]) (simp add: wp_def split: prod.split sum.split, simp add: wp_ret)
  show ?thesis
    unfolding opencode_process_def
  proof (rule on_error_answer, rule wp_seqI)
    show "wp (write_input env p) (\<lambda>_. adds (\<lambda>e. \<not> is_start e \<and> \<not> is_read e) s) (\<lambda>_ _. True) s"
      by (rule wp_mono [OF emits_wp]) (auto intro: child_rules)
  qed (unfold wp_bind [of "pclock env"] wp_clock, rule wp_bindI [OF wp_mono [OF opencode_stream_folds]],
      auto split: stream_end.split simp: wp_ret intro!: stop last folds_trans [OF first])
qed


lemma opencode_finished_asks:
  "wp (opencode_finished env k st rc)
     (\<lambda>r v. adds (\<lambda>e. \<not> is_start e \<and> \<not> is_read e) t v \<and> (r = None \<longrightarrow> oc_parts st = [] \<and> JStr ''tool_use'' \<notin> set (oc_types st)))
     (\<lambda>_. adds (\<lambda>e. \<not> is_start e \<and> \<not> is_read e) t) t"
proof -
  have "wp (opencode_finished env k st rc) (\<lambda>r _. r = None \<longrightarrow> oc_parts st = [] \<and> JStr ''tool_use'' \<notin> set (oc_types st)) (\<lambda>_ _. True) t"
    by (auto simp: opencode_finished_def read_errors_def proc_simps Let_def split: sum.split)
  note asks = this
  show ?thesis
    by (rule wp_mono [OF wp_conj [OF emits_wp asks]]) (auto intro: child_rules)
qed

lemma starts_adds:
  "adds (\<lambda>e. \<not> is_start e) s t \<Longrightarrow> starts t = starts s"
  "adds (\<lambda>e. \<not> is_start e \<and> \<not> is_read e) s t \<Longrightarrow> starts t = starts s"
  by (auto simp: adds_def starts_def list_all_iff filter_empty_conv)

text \<open>A first attempt that ends in \<open>v\<close> without a tool event, after which anything may follow.\<close>
definition tool_free_start :: "proc_env \<Rightarrow> proc_state \<Rightarrow> proc_state \<Rightarrow> bool" where
  "tool_free_start env s t = (\<exists>es fs. px_trace t = px_trace s @ es @ fs \<and> length (filter is_start es) = 1
     \<and> (\<forall>l \<in> set (lines_read env (px_trace s) es). line_type l \<noteq> JStr ''tool_use''))"

lemma tool_free_startI:
  assumes start: "is_start e" "px_trace u = px_trace s @ [e]"
    and stream: "folds env opencode_reads st0 (Some st) u t" "JStr ''tool_use'' \<notin> set (oc_types st)"
    and quiet: "adds (\<lambda>e. \<not> is_start e \<and> \<not> is_read e) t v" and rest: "adds (\<lambda>_. True) v x"
  shows "tool_free_start env s x"
proof -
  obtain es where es: "px_trace t = px_trace u @ es" "list_all (\<lambda>e. \<not> is_start e) es"
    "efoldM opencode_reads st0 (lines_read env (px_trace u) es) = Inr st"
    using stream(1) unfolding folds_def by blast
  obtain fs gs where fs: "px_trace v = px_trace t @ fs" "list_all (\<lambda>e. \<not> is_start e) fs" "list_all (\<lambda>e. \<not> is_read e) fs"
    "px_trace x = px_trace v @ gs"
    using quiet rest by (auto simp: adds_def list_all_iff)
  have none: "lines_read env (px_trace s) [e] = []"
    using start(1) by (intro lines_read_none) (auto simp: is_start_def is_read_def split: proc_event.splits)
  then have "lines_read env (px_trace s) (e # es @ fs) = lines_read env (px_trace u) es"
    using start(2) fs(3) lines_read_append [of env "px_trace s" "[e]" "es @ fs"] by (simp add: lines_read_append lines_read_none)
  moreover have "line_type l \<noteq> JStr ''tool_use''" if "l \<in> set (lines_read env (px_trace u) es)" for l
    using opencode_fold_types [OF es(3) that] stream(2) by auto
  moreover have "length (filter is_start (e # es @ fs)) = 1"
    using start(1) es(2) fs(2) by (auto simp: list_all_iff filter_empty_conv)
  ultimately show ?thesis
    unfolding tool_free_start_def
    by (intro exI [of _ "e # es @ fs"] exI [of _ gs]) (simp add: start(2) es(1) fs(1,4) del: One_nat_def lines_read.simps)
qed

text \<open>
  C34: The OpenCode adapter repeats a request only when the attempt before did nothing that can be seen: if a
  call or resume starts a second child, no line that the first one printed is a tool event.
\<close>
theorem repeated_only_without_tools:
  assumes "opencode_run env cfg r p n w b k s = (res, s')" "starts s + 2 \<le> starts s'"
  shows "tool_free_start env s s'"
proof -
  let ?cwd = "or_opt w (cfg_work_dir cfg)" and ?st0 = "\<lparr>oc_parts = [], oc_session = opt_str r, oc_types = []\<rparr>"
  let ?sp = "SpawnChild (opencode_build_cmd cfg r) ?cwd (filtered_env env ?cwd)"
  let ?good = "\<lambda>_ t. starts t \<le> starts s + 1 \<or> tool_free_start env s t"
  have sp: "is_start ?sp"
    by (simp add: is_start_def)
  have rest: "wp (pbind (opencode_finished env k st rc) (\<lambda>x. case x of Some a \<Rightarrow> pret a
      | None \<Rightarrow> (case k of 0 \<Rightarrow> pdiverge | Suc n' \<Rightarrow> opencode_run env cfg r p n w b n'))) ?good ?good t"
    if u: "px_trace u = px_trace s @ [?sp]" "starts t = starts s + 1" "folds env opencode_reads ?st0 (Some st) u t" for st rc t u
  proof (rule wp_bindI [OF wp_mono [OF opencode_finished_asks]])
    fix x :: "provider_answer option" and v
    assume v: "adds (\<lambda>e. \<not> is_start e \<and> \<not> is_read e) t v \<and> (x = None \<longrightarrow> oc_parts st = [] \<and> JStr ''tool_use'' \<notin> set (oc_types st))"
    then have "tool_free_start env s y" if "x = None" "adds (\<lambda>_. True) v y" for y
      using that u by (intro tool_free_startI [OF sp u(1) u(3)]) blast+
    then have "wp (opencode_run env cfg r p n w b n') ?good ?good v" if "x = None" for n'
      using that by (intro wp_mono [OF emits_wp [OF growing.retries]]) blast+
    then show "wp (case x of Some a \<Rightarrow> pret a
      | None \<Rightarrow> (case k of 0 \<Rightarrow> pdiverge | Suc n' \<Rightarrow> opencode_run env cfg r p n w b n')) ?good ?good v"
      using v u(2) by (auto simp: proc_simps starts_adds split: option.split nat.split)
  qed (use u(2) in \<open>auto simp: starts_adds\<close>)
  have "wp (pbind (opencode_process env cfg (opt_str r) (with_system_prompt cfg p) n b) (\<lambda>e. case e of Inl a \<Rightarrow> pret a
      | Inr (st, rc) \<Rightarrow> pbind (opencode_finished env k st rc) (\<lambda>x. case x of Some a \<Rightarrow> pret a
      | None \<Rightarrow> (case k of 0 \<Rightarrow> pdiverge | Suc n' \<Rightarrow> opencode_run env cfg r p n w b n')))) ?good ?good u"
    if u: "px_trace u = px_trace s @ [?sp]" for u
  proof (rule wp_bindI [OF wp_mono [OF wp_conj [OF emits_wp [OF working.opencode] opencode_process_folds]]])
    have one: "starts t = starts s + 1" if "adds (\<lambda>e. \<not> is_start e) u t" for t
      using starts_adds(1) [OF that] u sp by (simp add: starts_def)
    fix e :: "provider_answer + opencode_stream \<times> int" and t
    assume e: "adds (\<lambda>e. \<not> is_start e) u t \<and> (\<forall>st. (\<exists>rc. e = Inr (st, rc)) \<longrightarrow> folds env opencode_reads ?st0 (Some st) u t)"
    then show "wp (case e of Inl a \<Rightarrow> pret a | Inr (st, rc) \<Rightarrow> pbind (opencode_finished env k st rc) (\<lambda>x. case x of Some a \<Rightarrow> pret a
      | None \<Rightarrow> (case k of 0 \<Rightarrow> pdiverge | Suc n' \<Rightarrow> opencode_run env cfg r p n w b n'))) ?good ?good t"
      using one rest [OF u] by (auto simp: wp_ret split: sum.split)
  next
    show "?good e t" if "adds (\<lambda>e. \<not> is_start e) u t \<and> True" for e :: proc_stop and t
      using starts_adds(1) [of u t] that u sp by (simp add: starts_def)
  qed
  then have "wp (opencode_run env cfg r p n w b k) ?good ?good s"
    unfolding opencode_run.simps [of _ _ _ _ _ _ _ k] Let_def
    by (auto simp: with_child_def proc_simps Let_def starts_def sp simp del: One_nat_def split: sum.split proc_exc.split)
  then show ?thesis
    using assms by (auto simp: wp_def split: sum.splits)
qed


definition mute_env :: proc_env where "mute_env = scripted_env [] 0"

lemma repeated_only_without_tools_witness:
  "starts start_state + 2 \<le> starts (snd (opencode_run mute_env sample_provider None ''hi'' 360 None False 1 start_state))
   \<and> tool_free_start mute_env start_state (snd (opencode_run mute_env sample_provider None ''hi'' 360 None False 1 start_state))"
proof -
  let ?run = "opencode_run mute_env sample_provider None ''hi'' 360 None False 1 start_state"
  have "starts start_state + 2 \<le> starts (snd ?run)"
    by code_simp
  then show ?thesis
    using repeated_only_without_tools [of mute_env sample_provider None "''hi''" 360 None False 1 start_state "fst ?run" "snd ?run"]
    by simp
qed

end
